(* ===== verification/Galoy_Prelude.thy ===== *)
theory Galoy_Prelude
  imports Complex_Main
begin

text \<open>
  Shared vocabulary of the development: results (the source returns either a value or an
  error object and tests it with \<open>instanceof Error\<close>), truthiness of optional values, the
  integer division of \<open>bigint\<close>, and the collections of rewrite rules the component theories
  extend.
\<close>

named_theorems entry_simps \<open>unfolding rules of the stages of the ledger entry builder\<close>
named_theorems keeps_intros \<open>ledger operations that leave the journals alone or balanced\<close>

subsection \<open>Results\<close>

text \<open>
  The pattern \<open>const x = f(); if (x instanceof Error) return x; ...\<close> is sequencing in the
  error monad: \<open>Inl\<close> is the error object, \<open>Inr\<close> the value.
\<close>

definition rbind :: "'e + 'a \<Rightarrow> ('a \<Rightarrow> 'e + 'b) \<Rightarrow> 'e + 'b" where
  "rbind x f = (case x of Inl e \<Rightarrow> Inl e | Inr a \<Rightarrow> f a)"

lemma rbind_Inl [simp]: "rbind (Inl e) f = Inl e"
  by (simp add: rbind_def)

lemma rbind_Inr [simp]: "rbind (Inr a) f = f a"
  by (simp add: rbind_def)

lemma rbind_eq_Inr_iff: "rbind x f = Inr b \<longleftrightarrow> (\<exists>a. x = Inr a \<and> f a = Inr b)"
  by (cases x) simp_all

lemma rbind_eq_Inl_iff: "rbind x f = Inl e \<longleftrightarrow> x = Inl e \<or> (\<exists>a. x = Inr a \<and> f a = Inl e)"
  by (cases x) simp_all

lemma rbind_cong [fundef_cong]:
  "x = y \<Longrightarrow> (\<And>a. y = Inr a \<Longrightarrow> f a = g a) \<Longrightarrow> rbind x f = rbind y g"
  by (cases y) simp_all

fun isError :: "'e + 'a \<Rightarrow> bool" where
  "isError (Inl _) = True"
| "isError (Inr _) = False"

lemma isError_iff: "isError x \<longleftrightarrow> (\<exists>e. x = Inl e)"
  by (cases x) auto

subsection \<open>Truthiness of optional strings\<close>

text \<open>An optional string is falsy when it is undefined and when it is empty.\<close>

definition str_truthy :: "string option \<Rightarrow> bool" where
  "str_truthy s = (case s of None \<Rightarrow> False | Some t \<Rightarrow> t \<noteq> [])"

lemma str_truthy_None [simp]: "\<not> str_truthy None"
  by (simp add: str_truthy_def)

lemma str_truthy_Some [simp]: "str_truthy (Some s) \<longleftrightarrow> s \<noteq> []"
  by (simp add: str_truthy_def)

text \<open>\<open>s || t\<close> on optional strings.\<close>

definition str_or :: "string option \<Rightarrow> string option \<Rightarrow> string option" where
  "str_or s t = (if str_truthy s then s else t)"

definition str_default :: "string option \<Rightarrow> string \<Rightarrow> string" where
  "str_default s t = (case s of None \<Rightarrow> t | Some u \<Rightarrow> if u = [] then t else u)"

text \<open>\<open>x || y\<close> on optional objects: an object is always truthy.\<close>

definition obj_or :: "'a option \<Rightarrow> 'a \<Rightarrow> 'a" where
  "obj_or x y = (case x of None \<Rightarrow> y | Some v \<Rightarrow> v)"

lemma obj_or_None [simp]: "obj_or None y = y"
  by (simp add: obj_or_def)

lemma obj_or_Some [simp]: "obj_or (Some x) y = x"
  by (simp add: obj_or_def)

subsection \<open>Integer division of bigint\<close>

text \<open>
  \<open>a / b\<close> on \<open>bigint\<close> truncates towards zero and \<open>a % b\<close> has the sign of the dividend.
  Both raise a \<open>RangeError\<close> on a zero divisor; the callers divide by literals and by the two
  sides of a price ratio, which are checked to be non-zero when the ratio is built.
\<close>

definition big_div :: "int \<Rightarrow> int \<Rightarrow> int" where
  "big_div a b = sgn a * sgn b * (\<bar>a\<bar> div \<bar>b\<bar>)"

definition big_rem :: "int \<Rightarrow> int \<Rightarrow> int" where
  "big_rem a b = sgn a * (\<bar>a\<bar> mod \<bar>b\<bar>)"

lemma big_div_nonneg [simp]: "0 \<le> a \<Longrightarrow> 0 < b \<Longrightarrow> big_div a b = a div b"
  by (cases "a = 0") (simp_all add: big_div_def)

lemma big_rem_nonneg [simp]: "0 \<le> a \<Longrightarrow> 0 < b \<Longrightarrow> big_rem a b = a mod b"
  by (cases "a = 0") (simp_all add: big_rem_def)

lemma big_div_neg: "a < 0 \<Longrightarrow> 0 < b \<Longrightarrow> big_div a b = - (- a div b)"
  by (simp add: big_div_def)

lemma big_rem_neg: "a < 0 \<Longrightarrow> 0 < b \<Longrightarrow> big_rem a b = - (- a mod b)"
  by (simp add: big_rem_def)

lemma big_div_rem: "b \<noteq> 0 \<Longrightarrow> big_div a b * b + big_rem a b = a"
proof -
  have "sgn a * sgn b * (\<bar>a\<bar> div \<bar>b\<bar>) * b = sgn a * (\<bar>a\<bar> div \<bar>b\<bar> * (sgn b * b))"
    by (simp add: mult_ac)
  also have "sgn b * b = \<bar>b\<bar>"
    by (simp add: abs_sgn mult.commute)
  finally have "big_div a b * b + big_rem a b = sgn a * (\<bar>a\<bar> div \<bar>b\<bar> * \<bar>b\<bar> + \<bar>a\<bar> mod \<bar>b\<bar>)"
    unfolding big_div_def big_rem_def by (simp only: distrib_left)
  also have "\<dots> = a"
    by (simp only: div_mult_mod_eq sgn_mult_abs)
  finally show ?thesis .
qed

lemma div_mul_bounds:
  fixes a b :: int
  assumes "0 < b"
  shows "a div b * b \<le> a" and "a < a div b * b + b"
  using assms pos_mod_bound [of b a] pos_mod_sign [of b a] div_mult_mod_eq [of a b]
  by linarith+

subsection \<open>Builders as state machines\<close>

text \<open>
  The payment flow builders are chains of objects whose methods return the next object. A
  builder is a step relation on its stages; the environment it runs in (configuration and
  price functions) is a parameter \<open>p\<close> with a validity condition. An invariant of every step
  holds of everything the builder can reach.
\<close>

locale builder_machine =
  fixes valid :: "'p \<Rightarrow> bool"
    and start :: "'p \<Rightarrow> 's"
    and step :: "'p \<Rightarrow> 's \<Rightarrow> 's \<Rightarrow> bool"
    and ok :: "'p \<Rightarrow> 's \<Rightarrow> bool"
  assumes start_ok: "valid p \<Longrightarrow> ok p (start p)"
    and step_ok: "valid p \<Longrightarrow> ok p s \<Longrightarrow> step p s s' \<Longrightarrow> ok p s'"
begin

lemma reachable_ok: "(step p)\<^sup>*\<^sup>* (start p) s \<Longrightarrow> valid p \<Longrightarrow> ok p s"
  by (induction rule: rtranclp_induct) (auto intro: start_ok step_ok)

end

subsection \<open>Splitting and joining strings\<close>

text \<open>\<open>split\<close> on a one-character separator and \<open>join\<close>, of both languages.\<close>

fun str_split :: "char \<Rightarrow> string \<Rightarrow> string list" where
  "str_split c [] = [[]]"
| "str_split c (x # xs) =
     (if x = c then [] # str_split c xs
      else case str_split c xs of [] \<Rightarrow> [[x]] | p # ps \<Rightarrow> (x # p) # ps)"

fun str_join :: "string \<Rightarrow> string list \<Rightarrow> string" where
  "str_join sep [] = []"
| "str_join sep [s] = s"
| "str_join sep (s # t # ss) = s @ sep @ str_join sep (t # ss)"

lemma str_split_nonempty [simp]: "str_split c s \<noteq> []"
  by (induction s) (auto split: list.splits)

lemma str_split_no_sep: "c \<notin> set s \<Longrightarrow> str_split c s = [s]"
  by (induction s) auto

lemma str_split_sep: "c \<notin> set a \<Longrightarrow> str_split c (a @ c # b) = a # str_split c b"
  by (induction a) auto

lemma str_split_join:
  "ss \<noteq> [] \<Longrightarrow> (\<forall>s \<in> set ss. c \<notin> set s) \<Longrightarrow> str_split c (str_join [c] ss) = ss"
proof (induction "[c]" ss rule: str_join.induct)
  case (3 s t ss)
  then show ?case
    using str_split_sep [of c s "str_join [c] (t # ss)"] by simp
qed (simp_all add: str_split_no_sep)

end
