(* ===== verification/Js_Number.thy ===== *)
theory Js_Number
  imports Galoy_Prelude "HOL-Library.Log_Nat"
begin

text \<open>
  The \<open>number\<close> type of the language: IEEE 754 double precision. A finite value is kept as the
  exact rational it denotes; every arithmetic operation computes the exact result and rounds
  it once, to nearest with ties to even (\<open>round_double\<close>), with subnormals and overflow to
  infinity. The two zeros are not distinguished: no modelled operation separates them.
  The second half holds the parts of the standard library the source calls: \<open>BigInt\<close>,
  \<open>Number\<close>, \<open>Math.floor\<close>, \<open>Math.ceil\<close>, \<open>Math.round\<close>, \<open>Math.abs\<close>, \<open>parseInt\<close> and \<open>toFixed\<close>.
\<close>

datatype jsnum = NaN | PosInf | NegInf | Fin rat

subsection \<open>Rounding to double precision\<close>

definition round_half_even :: "rat \<Rightarrow> int" where
  "round_half_even x =
     (let f = \<lfloor>x\<rfloor>; d = x - of_int f in
      if d < 1 / 2 then f else if 1 / 2 < d then f + 1 else if even f then f else f + 1)"

definition rat_log2 :: "rat \<Rightarrow> int" where
  "rat_log2 r =
     (let k = bitlen (fst (quotient_of r)) - bitlen (snd (quotient_of r)) in
      if 2 powi k \<le> r then k else k - 1)"

definition ulp_exp :: "rat \<Rightarrow> int" where
  "ulp_exp r = max (rat_log2 r - 52) (- 1074)"

definition round_double :: "rat \<Rightarrow> jsnum" where
  "round_double r =
     (if r = 0 then Fin 0
      else let e = ulp_exp \<bar>r\<bar>;
               v = of_int (round_half_even (\<bar>r\<bar> / 2 powi e)) * 2 powi e
           in if 2 ^ 1024 \<le> v then (if r < 0 then NegInf else PosInf) else Fin (sgn r * v))"

subsection \<open>Arithmetic and comparison\<close>

definition js_neg :: "jsnum \<Rightarrow> jsnum" where
  "js_neg x = (case x of NaN \<Rightarrow> NaN | PosInf \<Rightarrow> NegInf | NegInf \<Rightarrow> PosInf | Fin a \<Rightarrow> Fin (- a))"

definition js_add :: "jsnum \<Rightarrow> jsnum \<Rightarrow> jsnum" where
  "js_add x y =
     (case x of
        NaN \<Rightarrow> NaN
      | PosInf \<Rightarrow> (case y of NaN \<Rightarrow> NaN | NegInf \<Rightarrow> NaN | _ \<Rightarrow> PosInf)
      | NegInf \<Rightarrow> (case y of NaN \<Rightarrow> NaN | PosInf \<Rightarrow> NaN | _ \<Rightarrow> NegInf)
      | Fin a \<Rightarrow> (case y of Fin b \<Rightarrow> round_double (a + b) | _ \<Rightarrow> y))"

definition js_sub :: "jsnum \<Rightarrow> jsnum \<Rightarrow> jsnum" where
  "js_sub x y = js_add x (js_neg y)"

definition js_mul :: "jsnum \<Rightarrow> jsnum \<Rightarrow> jsnum" where
  "js_mul x y =
     (case (x, y) of
        (Fin a, Fin b) \<Rightarrow> round_double (a * b)
      | (Fin a, PosInf) \<Rightarrow> (if a = 0 then NaN else if 0 < a then PosInf else NegInf)
      | (Fin a, NegInf) \<Rightarrow> (if a = 0 then NaN else if 0 < a then NegInf else PosInf)
      | (PosInf, Fin b) \<Rightarrow> (if b = 0 then NaN else if 0 < b then PosInf else NegInf)
      | (NegInf, Fin b) \<Rightarrow> (if b = 0 then NaN else if 0 < b then NegInf else PosInf)
      | (PosInf, PosInf) \<Rightarrow> PosInf
      | (NegInf, NegInf) \<Rightarrow> PosInf
      | (PosInf, NegInf) \<Rightarrow> NegInf
      | (NegInf, PosInf) \<Rightarrow> NegInf
      | _ \<Rightarrow> NaN)"

text \<open>Division; a zero divisor is taken as positive zero.\<close>

definition js_div :: "jsnum \<Rightarrow> jsnum \<Rightarrow> jsnum" where
  "js_div x y =
     (case (x, y) of
        (Fin a, Fin b) \<Rightarrow>
          (if b \<noteq> 0 then round_double (a / b)
           else if a = 0 then NaN else if 0 < a then PosInf else NegInf)
      | (PosInf, Fin b) \<Rightarrow> (if b < 0 then NegInf else PosInf)
      | (NegInf, Fin b) \<Rightarrow> (if b < 0 then PosInf else NegInf)
      | (Fin a, PosInf) \<Rightarrow> Fin 0
      | (Fin a, NegInf) \<Rightarrow> Fin 0
      | _ \<Rightarrow> NaN)"

text \<open>The order relations are false when an operand is \<open>NaN\<close>.\<close>

definition js_lt :: "jsnum \<Rightarrow> jsnum \<Rightarrow> bool" where
  "js_lt x y =
     (case x of
        NaN \<Rightarrow> False
      | PosInf \<Rightarrow> False
      | NegInf \<Rightarrow> (case y of PosInf \<Rightarrow> True | Fin _ \<Rightarrow> True | _ \<Rightarrow> False)
      | Fin a \<Rightarrow> (case y of PosInf \<Rightarrow> True | Fin b \<Rightarrow> a < b | _ \<Rightarrow> False))"

definition js_eq :: "jsnum \<Rightarrow> jsnum \<Rightarrow> bool" where
  "js_eq x y \<longleftrightarrow> x = y \<and> x \<noteq> NaN"

definition js_le :: "jsnum \<Rightarrow> jsnum \<Rightarrow> bool" where
  "js_le x y \<longleftrightarrow> js_lt x y \<or> js_eq x y"

definition js_truthy :: "jsnum \<Rightarrow> bool" where
  "js_truthy x = (case x of NaN \<Rightarrow> False | Fin a \<Rightarrow> a \<noteq> 0 | _ \<Rightarrow> True)"

text \<open>\<open>x || y\<close> on an optional number.\<close>

definition num_or :: "jsnum option \<Rightarrow> jsnum \<Rightarrow> jsnum" where
  "num_or x y = (case x of None \<Rightarrow> y | Some n \<Rightarrow> if js_truthy n then n else y)"

subsection \<open>Standard library\<close>

definition js_floor :: "jsnum \<Rightarrow> jsnum" where
  "js_floor x = (case x of Fin a \<Rightarrow> Fin (of_int \<lfloor>a\<rfloor>) | _ \<Rightarrow> x)"

definition js_ceil :: "jsnum \<Rightarrow> jsnum" where
  "js_ceil x = (case x of Fin a \<Rightarrow> Fin (of_int \<lceil>a\<rceil>) | _ \<Rightarrow> x)"

definition js_round :: "jsnum \<Rightarrow> jsnum" where
  "js_round x = (case x of Fin a \<Rightarrow> Fin (of_int \<lfloor>a + 1 / 2\<rfloor>) | _ \<Rightarrow> x)"

definition js_abs :: "jsnum \<Rightarrow> jsnum" where
  "js_abs x = (case x of Fin a \<Rightarrow> Fin \<bar>a\<bar> | NegInf \<Rightarrow> PosInf | _ \<Rightarrow> x)"

text \<open>\<open>Number(n)\<close> on a \<open>bigint\<close>.\<close>

definition Number_big :: "int \<Rightarrow> jsnum" where
  "Number_big n = round_double (of_int n)"

text \<open>
  \<open>BigInt(x)\<close> on a \<open>number\<close>: \<open>None\<close> is the \<open>RangeError\<close> thrown when \<open>x\<close> is not an integer.
\<close>

definition BigInt_num :: "jsnum \<Rightarrow> int option" where
  "BigInt_num x = (case x of Fin a \<Rightarrow> if of_int \<lfloor>a\<rfloor> = a then Some \<lfloor>a\<rfloor> else None | _ \<Rightarrow> None)"

fun digits_val :: "nat \<Rightarrow> string \<Rightarrow> nat" where
  "digits_val acc [] = acc"
| "digits_val acc (c # cs) = digits_val (10 * acc + (of_char c - 48)) cs"

definition is_digit :: "char \<Rightarrow> bool" where
  "is_digit c \<longleftrightarrow> 48 \<le> (of_char c :: nat) \<and> (of_char c :: nat) \<le> 57"

definition is_white :: "char \<Rightarrow> bool" where
  "is_white c \<longleftrightarrow> (of_char c :: nat) \<in> {9, 10, 11, 12, 13, 32}"

definition parse_digits :: "string \<Rightarrow> jsnum" where
  "parse_digits s =
     (let ds = takeWhile is_digit s in
      if ds = [] then NaN else round_double (of_nat (digits_val 0 ds)))"

text \<open>\<open>parseInt(s, 10)\<close>: leading white space, a sign, then the longest prefix of digits.\<close>

definition parseInt10 :: "string \<Rightarrow> jsnum" where
  "parseInt10 s =
     (case dropWhile is_white s of
        [] \<Rightarrow> NaN
      | c # cs \<Rightarrow>
          (if c = CHR ''-'' then js_neg (parse_digits cs)
           else if c = CHR ''+'' then parse_digits cs
           else parse_digits (c # cs)))"

fun nat_to_string :: "nat \<Rightarrow> string" where
  "nat_to_string n =
     (if n < 10 then [char_of (48 + n)] else nat_to_string (n div 10) @ [char_of (48 + n mod 10)])"

declare nat_to_string.simps [simp del]

text \<open>
  \<open>x.toFixed(f)\<close>. At \<open>10 ^ 21\<close> and above, and on infinities and \<open>NaN\<close>, the method is
  \<open>Number::toString\<close>, whose shortest-digits printing is an argument.
\<close>

definition fixed_digits :: "nat \<Rightarrow> nat \<Rightarrow> string" where
  "fixed_digits f n =
     (let m = nat_to_string n;
          z = replicate (f + 1 - length m) (CHR ''0'') @ m
      in if f = 0 then m
         else take (length z - f) z @ ''.'' @ drop (length z - f) z)"

definition toFixed :: "(jsnum \<Rightarrow> string) \<Rightarrow> nat \<Rightarrow> jsnum \<Rightarrow> string" where
  "toFixed toStr f x =
     (case x of
        Fin a \<Rightarrow>
          (if 10 ^ 21 \<le> \<bar>a\<bar> then toStr x
           else (if a < 0 then ''-'' else []) @ fixed_digits f (nat \<lfloor>\<bar>a\<bar> * 10 ^ f + 1 / 2\<rfloor>))
      | _ \<Rightarrow> toStr x)"

subsection \<open>Rounding is exact on safe integers\<close>

lemma round_half_even_of_int [simp]: "round_half_even (of_int n) = n"
  by (simp add: round_half_even_def)

lemma round_half_even_error: "\<bar>of_int (round_half_even x) - x\<bar> \<le> 1 / 2"
proof -
  define f where "f = \<lfloor>x\<rfloor>"
  have "of_int f \<le> x" and "x < of_int f + 1"
    unfolding f_def by linarith+
  then show ?thesis
    unfolding round_half_even_def Let_def f_def [symmetric] by auto
qed

lemma powi2_pos [simp]: "0 < (2 :: rat) powi k"
  by (simp add: zero_less_power_int)

lemma powi2_nat: "0 \<le> k \<Longrightarrow> (2 :: rat) powi k = 2 ^ nat k"
  by (simp add: power_int_def)

lemma powi2_mono: "a \<le> b \<Longrightarrow> (2 :: rat) powi a \<le> 2 powi b"
  by (rule power_int_increasing) simp_all

lemma powi2_less_iff: "(2 :: rat) powi a < 2 powi b \<longleftrightarrow> a < b"
  using powi2_mono [of b a] power_int_strict_increasing [of a b "2 :: rat"] by fastforce

lemma bitlen_powi:
  assumes "0 < n"
  shows "2 powi (bitlen n - 1) \<le> (of_int n :: rat)" and "(of_int n :: rat) < 2 powi bitlen n"
proof -
  have pos: "1 \<le> bitlen n"
    using assms by (simp add: bitlen_alt_def)
  have b: "2 ^ nat (bitlen n - 1) \<le> n" "n < 2 ^ nat (bitlen n)"
    using bitlen_bounds [OF assms] by auto
  have "(of_int (2 ^ nat (bitlen n - 1)) :: rat) \<le> of_int n"
    using b(1) by (rule of_int_le_iff [THEN iffD2])
  then show "2 powi (bitlen n - 1) \<le> (of_int n :: rat)"
    using pos by (simp add: powi2_nat)
  have "(of_int n :: rat) < of_int (2 ^ nat (bitlen n))"
    using b(2) by (rule of_int_less_iff [THEN iffD2])
  then show "(of_int n :: rat) < 2 powi bitlen n"
    using pos by (simp add: powi2_nat)
qed

lemma rat_log2_bounds:
  assumes "0 < r"
  shows "2 powi rat_log2 r \<le> r" and "r < 2 powi (rat_log2 r + 1)"
proof -
  obtain p q where pq: "quotient_of r = (p, q)"
    by (cases "quotient_of r")
  have q: "0 < q"
    using quotient_of_denom_pos [OF pq] .
  have r: "r = of_int p / of_int q"
    using quotient_of_div [OF pq] .
  have p: "0 < p"
    using assms q r by (simp add: zero_less_divide_iff)
  define k where "k = bitlen p - bitlen q"
  have upper: "r < 2 powi (k + 1)"
  proof -
    have "of_int p < (2 :: rat) powi bitlen p"
      using bitlen_powi(2) [OF p] .
    also have "\<dots> = 2 powi (k + 1) * 2 powi (bitlen q - 1)"
      by (simp add: k_def flip: power_int_add)
    also have "\<dots> \<le> 2 powi (k + 1) * of_int q"
      using bitlen_powi(1) [OF q] by simp
    finally show ?thesis
      using q by (simp add: r divide_less_eq)
  qed
  have lower: "2 powi (k - 1) \<le> r"
  proof -
    have "2 powi (k - 1) * of_int q \<le> (2 :: rat) powi (k - 1) * 2 powi bitlen q"
      using bitlen_powi(2) [OF q] by simp
    also have "\<dots> = 2 powi (bitlen p - 1)"
      by (simp add: k_def flip: power_int_add)
    also have "\<dots> \<le> of_int p"
      using bitlen_powi(1) [OF p] .
    finally show ?thesis
      using q by (simp add: r le_divide_eq)
  qed
  have def_eq: "rat_log2 r = (if 2 powi k \<le> r then k else k - 1)"
    by (simp add: rat_log2_def pq k_def)
  show "2 powi rat_log2 r \<le> r" and "r < 2 powi (rat_log2 r + 1)"
    using lower upper by (auto simp: def_eq not_le)
qed

lemma round_double_exact:
  assumes int: "\<bar>r\<bar> / 2 powi ulp_exp \<bar>r\<bar> = of_int m" and small: "\<bar>r\<bar> < 2 ^ 1024"
  shows "round_double r = Fin r"
proof (cases "r = 0")
  case False
  have "of_int m * 2 powi ulp_exp \<bar>r\<bar> = \<bar>r\<bar>"
    using int by (metis less_irrefl nonzero_mult_div_cancel_right powi2_pos times_divide_eq_left)
  then show ?thesis
    using False small int by (simp add: round_double_def Let_def sgn_mult_abs not_le)
qed (simp add: round_double_def)

definition safe_int :: "int \<Rightarrow> bool" where
  "safe_int n \<longleftrightarrow> \<bar>n\<bar> < 2 ^ 53"

lemma ulp_exp_int_le:
  assumes "n \<noteq> 0" and "safe_int n"
  shows "ulp_exp \<bar>of_int n\<bar> \<le> 0"
proof -
  have pos: "0 < \<bar>of_int n :: rat\<bar>"
    using assms(1) by simp
  have "\<bar>n\<bar> < 2 ^ 53"
    using assms(2) by (simp add: safe_int_def)
  then have "(of_int \<bar>n\<bar> :: rat) < of_int (2 ^ 53)"
    by (rule of_int_less_iff [THEN iffD2])
  then have "\<bar>of_int n :: rat\<bar> < 2 powi 53"
    by simp
  with rat_log2_bounds(1) [OF pos] have "(2 :: rat) powi rat_log2 \<bar>of_int n\<bar> < 2 powi 53"
    by (rule le_less_trans)
  then have "rat_log2 \<bar>of_int n\<bar> < 53"
    by (simp only: powi2_less_iff)
  then show ?thesis
    by (simp add: ulp_exp_def)
qed

lemma safe_int_lt_double_max: "safe_int n \<Longrightarrow> \<bar>of_int n :: rat\<bar> < 2 ^ 1024"
proof -
  assume "safe_int n"
  then have "\<bar>n\<bar> < 2 ^ 1024"
    by (simp add: safe_int_def)
  then have "(of_int \<bar>n\<bar> :: rat) < of_int (2 ^ 1024)"
    by (rule of_int_less_iff [THEN iffD2])
  then show ?thesis
    by simp
qed

theorem round_double_int: "safe_int n \<Longrightarrow> round_double (of_int n) = Fin (of_int n)"
proof (cases "n = 0")
  case False
  assume safe: "safe_int n"
  define e where "e = ulp_exp \<bar>of_int n\<bar>"
  have "e \<le> 0"
    unfolding e_def using False safe by (rule ulp_exp_int_le)
  then have "(2 :: rat) powi e = 1 / 2 ^ nat (- e)"
    by (cases "e = 0") (simp_all add: power_int_def power_one_over inverse_eq_divide)
  then have "\<bar>of_int n :: rat\<bar> / 2 powi e = of_int (\<bar>n\<bar> * 2 ^ nat (- e))"
    by simp
  then show ?thesis
    using safe_int_lt_double_max [OF safe] unfolding e_def by (rule round_double_exact)
qed (simp add: round_double_def)

corollary Number_big_safe: "safe_int n \<Longrightarrow> Number_big n = Fin (of_int n)"
  by (simp add: Number_big_def round_double_int)

end
