(* ===== verification/Domain_Errors.thy ===== *)
theory Domain_Errors
  imports Galoy_Prelude
begin

text \<open>
  The error classes the modelled code returns or throws, one constructor per class
  (\<open>src/core/api/src/domain/errors.ts\<close> and the \<open>errors.ts\<close> of the domain modules). A
  constructor with a string carries the literal message the source passes; messages that are
  formatted from run-time values for logging are not kept. \<open>ThrownError\<close> is a JavaScript
  exception that the function does not catch, \<open>ServiceError\<close> stands for any error value
  handed back by an external service (dealer price, lnd, mongo).
\<close>

datatype (plugins only: code) error =
    BigIntFloatConversionError
  | InvalidBtcPaymentAmountError
  | InvalidUsdPaymentAmountError
  | BtcAmountTooLargeError
  | UsdAmountTooLargeError
  | InvalidZeroAmountPriceRatioInputError
  | SubOneCentSatAmountForUsdSelfSendError
  | LnPaymentRequestNonZeroAmountRequiredError
  | LnPaymentRequestZeroAmountRequiredError
  | LnPaymentRequestInTransitError
  | LnHashPresentInIntraLedgerFlowError
  | IntraLedgerHashPresentInLnFlowError
  | NonLnPaymentTransactionForPaymentFlowError
  | MissingPropsInTransactionForPaymentFlowError
  | InvalidLightningPaymentFlowBuilderStateError string
  | InvalidLightningPaymentFlowStateError
  | InvalidOnChainPaymentFlowBuilderStateError string
  | SelfPaymentError
  | LessThanDustThresholdError
  | AmountLessThanFeeError
  | InsufficientBalanceError
  | InvalidCurrencyForWalletError
  | InactiveAccountError
  | InvalidWalletId
  | InvalidLedgerExternalId
  | InvalidLedgerTransactionStateError
  | BadAmountForRouteError
  | WithdrawalLimitsExceededError
  | IntraledgerLimitsExceededError
  | TradeIntraAccountLimitsExceededError
  | SubOneCentSatAmountForUsdReceiveError
  | InvalidWalletInvoiceBuilderStateError
  | MaxFeeTooLargeForRoutelessPaymentError
  | LnPaymentPendingError
  | LnAlreadyPaidError
  | FeeDifferenceError
  | NoTransactionToSettleError
  | NoTransactionToUpdateError
  | NoTransactionToUpdateStateError
  | InvalidLnPaymentTxnsBundleError string
  | InvalidTxMetadataFetchedError
  | CouldNotFindTransactionError
  | MultiplePendingPaymentsForHashError
  | MissingExpectedDisplayAmountsForTransactionError
  | CouldNotFindBtcWalletForAccountError
  | CouldNotFindWalletInvoiceError
  | UnknownLedgerError
  | ResourceExpiredLockServiceError
  | InvalidWithdrawFeeError
  | InvalidSatoshiAmountError
  | InvalidCurrencyBaseAmountError
  | InvalidUsdCents
  | NonIntegerError
  | InvalidNegativeAmountError
  | InvalidDisplayCurrencyError
  | InvalidAccountLimitTypeError
  | InconsistentDataError
  | PriceNotAvailableError
  | NoConnectionToPriceServiceError
  | UnknownPriceServiceError
  | InvalidPriceCurrencyError
  | AlreadyPaidError
  | InvoiceNotFoundError
  | InvoiceNotPaidError
  | CouldNotFindWalletFromOnChainAddressError
  | MismatchedCurrencyForWalletError
  | InvalidOnChainAddress
  | InvalidWalletForAccountError
  | InvoiceAlreadyProcessedError
  | InvalidNonHodlInvoiceError
  | CouldNotFindTransactionMetadataError
  | CouldNotFindWalletOnChainPendingReceiveError
  | InvalidPaginatedQueryArgsError
  | InvalidLedgerTransactionId
  | ServiceError string
  | ThrownError string

text \<open>The classes that extend \<open>ValidationError\<close>, as \<open>instanceof ValidationError\<close> tests it.\<close>

definition isValidationError :: "error \<Rightarrow> bool" where
  "isValidationError e =
     (case e of
        BigIntFloatConversionError \<Rightarrow> False
      | MaxFeeTooLargeForRoutelessPaymentError \<Rightarrow> False
      | LnPaymentPendingError \<Rightarrow> False
      | LnAlreadyPaidError \<Rightarrow> False
      | FeeDifferenceError \<Rightarrow> False
      | NoTransactionToSettleError \<Rightarrow> False
      | NoTransactionToUpdateError \<Rightarrow> False
      | NoTransactionToUpdateStateError \<Rightarrow> False
      | InvalidLnPaymentTxnsBundleError _ \<Rightarrow> False
      | InvalidTxMetadataFetchedError \<Rightarrow> False
      | CouldNotFindTransactionError \<Rightarrow> False
      | MultiplePendingPaymentsForHashError \<Rightarrow> False
      | MissingExpectedDisplayAmountsForTransactionError \<Rightarrow> False
      | CouldNotFindBtcWalletForAccountError \<Rightarrow> False
      | CouldNotFindWalletInvoiceError \<Rightarrow> False
      | UnknownLedgerError \<Rightarrow> False
      | ResourceExpiredLockServiceError \<Rightarrow> False
      | InconsistentDataError \<Rightarrow> False
      | PriceNotAvailableError \<Rightarrow> False
      | NoConnectionToPriceServiceError \<Rightarrow> False
      | UnknownPriceServiceError \<Rightarrow> False
      | InvoiceNotFoundError \<Rightarrow> False
      | CouldNotFindWalletFromOnChainAddressError \<Rightarrow> False
      | InvalidWalletForAccountError \<Rightarrow> False
      | CouldNotFindTransactionMetadataError \<Rightarrow> False
      | CouldNotFindWalletOnChainPendingReceiveError \<Rightarrow> False
      | ServiceError _ \<Rightarrow> False
      | ThrownError _ \<Rightarrow> False
      | _ \<Rightarrow> True)"

end
