(* ===== verification/Amounts.thy ===== *)
theory Amounts
  imports Js_Number Domain_Errors
begin

text \<open>
  Money: \<open>src/core/api/src/domain/shared\<close>. Amounts are \<open>bigint\<close> in minor units (satoshi and
  cent) tagged with the wallet currency; \<open>calculator.ts\<close> is their arithmetic, \<open>amount.ts\<close>
  and \<open>safe.ts\<close> the checked conversions from \<open>number\<close>.
\<close>

datatype wallet_currency = Usd | Btc

record payment_amount =
  currency :: wallet_currency
  amount :: int

record wallet_descriptor =
  wallet_id :: string
  wallet_currency :: wallet_currency
  wallet_accountId :: string

definition ZERO_SATS :: payment_amount where
  "ZERO_SATS = \<lparr>currency = Btc, amount = 0\<rparr>"

definition ZERO_CENTS :: payment_amount where
  "ZERO_CENTS = \<lparr>currency = Usd, amount = 0\<rparr>"

definition ONE_SAT :: payment_amount where
  "ONE_SAT = \<lparr>currency = Btc, amount = 1\<rparr>"

definition ONE_CENT :: payment_amount where
  "ONE_CENT = \<lparr>currency = Usd, amount = 1\<rparr>"

definition MAX_SATS :: payment_amount where
  "MAX_SATS = \<lparr>currency = Btc, amount = 10000000000000\<rparr>"

definition MAX_CENTS :: payment_amount where
  "MAX_CENTS = \<lparr>currency = Usd, amount = 10000000000000\<rparr>"

definition BtcPaymentAmount :: "int \<Rightarrow> payment_amount" where
  "BtcPaymentAmount sats = \<lparr>currency = Btc, amount = sats\<rparr>"

definition UsdPaymentAmount :: "int \<Rightarrow> payment_amount" where
  "UsdPaymentAmount cents = \<lparr>currency = Usd, amount = cents\<rparr>"

subsection \<open>calculator.ts\<close>

definition calc_add :: "payment_amount \<Rightarrow> payment_amount \<Rightarrow> payment_amount" where
  "calc_add a b = \<lparr>currency = currency a, amount = amount a + amount b\<rparr>"

definition calc_sub :: "payment_amount \<Rightarrow> payment_amount \<Rightarrow> payment_amount" where
  "calc_sub a b = \<lparr>currency = currency a, amount = amount a - amount b\<rparr>"

definition divRound :: "payment_amount \<Rightarrow> int \<Rightarrow> payment_amount" where
  "divRound a b =
     (let quotient = big_div (amount a) b;
          roundDownBound = big_div b 2;
          md = big_rem (amount a) b
      in if md > roundDownBound
         then \<lparr>currency = currency a, amount = quotient + 1\<rparr>
         else \<lparr>currency = currency a, amount = quotient\<rparr>)"

definition divFloor :: "payment_amount \<Rightarrow> int \<Rightarrow> payment_amount" where
  "divFloor a b = \<lparr>currency = currency a, amount = big_div (amount a) b\<rparr>"

definition divCeil :: "payment_amount \<Rightarrow> int \<Rightarrow> payment_amount" where
  "divCeil a b =
     (let quotient = big_div (amount a) b; md = big_rem (amount a) b
      in if md > 0
         then \<lparr>currency = currency a, amount = quotient + 1\<rparr>
         else \<lparr>currency = currency a, amount = quotient\<rparr>)"

definition calc_mul :: "payment_amount \<Rightarrow> int \<Rightarrow> payment_amount" where
  "calc_mul a multiplier = a\<lparr>amount := amount a * multiplier\<rparr>"

definition mulBasisPoints :: "payment_amount \<Rightarrow> int \<Rightarrow> payment_amount" where
  "mulBasisPoints a basisPoints =
     divRound \<lparr>currency = currency a, amount = amount a * basisPoints\<rparr> 10000"

text \<open>\<open>min\<close> and \<open>max\<close> take at least one argument: \<open>reduce\<close> starts from the first.\<close>

definition calc_min :: "payment_amount \<Rightarrow> payment_amount list \<Rightarrow> payment_amount" where
  "calc_min a args = foldl (\<lambda>mn val. if amount val < amount mn then val else mn) a args"

definition calc_max :: "payment_amount \<Rightarrow> payment_amount list \<Rightarrow> payment_amount" where
  "calc_max a args = foldl (\<lambda>mx val. if amount val > amount mx then val else mx) a args"

subsection \<open>safe.ts and amount.ts\<close>

definition safeBigInt :: "jsnum \<Rightarrow> error + int" where
  "safeBigInt num =
     (case BigInt_num num of Some n \<Rightarrow> Inr n | None \<Rightarrow> Inl BigIntFloatConversionError)"

definition paymentAmountFromNumber :: "jsnum \<Rightarrow> wallet_currency \<Rightarrow> error + payment_amount" where
  "paymentAmountFromNumber num cur =
     rbind (safeBigInt num) (\<lambda>safeAmount. Inr \<lparr>currency = cur, amount = safeAmount\<rparr>)"

definition balanceAmountFromNumber :: "jsnum \<Rightarrow> wallet_currency \<Rightarrow> error + payment_amount" where
  "balanceAmountFromNumber num cur =
     rbind (safeBigInt num) (\<lambda>safeAmount. Inr \<lparr>currency = cur, amount = safeAmount\<rparr>)"

text \<open>\<open>x > n\<close> between a \<open>number\<close> and a \<open>bigint\<close> compares the mathematical values.\<close>

definition gt_big :: "jsnum \<Rightarrow> int \<Rightarrow> bool" where
  "gt_big x n = (case x of NaN \<Rightarrow> False | PosInf \<Rightarrow> True | NegInf \<Rightarrow> False | Fin r \<Rightarrow> of_int n < r)"

definition checkedToBtcPaymentAmount :: "jsnum option \<Rightarrow> error + payment_amount" where
  "checkedToBtcPaymentAmount num =
     (case num of
        None \<Rightarrow> Inl InvalidBtcPaymentAmountError
      | Some n \<Rightarrow>
          if gt_big n (amount MAX_SATS) then Inl BtcAmountTooLargeError
          else if \<not> js_eq (js_floor n) n then Inl InvalidBtcPaymentAmountError
          else if \<not> (js_truthy n \<and> js_lt (Fin 0) n) then Inl InvalidBtcPaymentAmountError
          else paymentAmountFromNumber n Btc)"

definition checkedToUsdPaymentAmount :: "jsnum option \<Rightarrow> error + payment_amount" where
  "checkedToUsdPaymentAmount num =
     (case num of
        None \<Rightarrow> Inl InvalidUsdPaymentAmountError
      | Some n \<Rightarrow>
          if gt_big n (amount MAX_CENTS) then Inl UsdAmountTooLargeError
          else if \<not> js_eq (js_floor n) n then Inl InvalidUsdPaymentAmountError
          else if \<not> (js_truthy n \<and> js_lt (Fin 0) n) then Inl InvalidUsdPaymentAmountError
          else paymentAmountFromNumber n Usd)"

subsection \<open>Laws of the calculator\<close>

lemma calc_currency [simp]:
  "currency (calc_add a b) = currency a" "currency (calc_sub a b) = currency a"
  "currency (divRound a n) = currency a" "currency (divFloor a n) = currency a"
  "currency (divCeil a n) = currency a" "currency (mulBasisPoints a n) = currency a"
  by (simp_all add: calc_add_def calc_sub_def divRound_def divFloor_def divCeil_def
      mulBasisPoints_def Let_def)

lemma calc_amount [simp]:
  "amount (calc_add a b) = amount a + amount b" "amount (calc_sub a b) = amount a - amount b"
  by (simp_all add: calc_add_def calc_sub_def)

lemma amount_consts [simp]:
  "amount ZERO_SATS = 0" "amount ZERO_CENTS = 0" "amount ONE_SAT = 1" "amount ONE_CENT = 1"
  "currency ZERO_SATS = Btc" "currency ZERO_CENTS = Usd" "currency ONE_SAT = Btc"
  "currency ONE_CENT = Usd"
  by (simp_all add: ZERO_SATS_def ZERO_CENTS_def ONE_SAT_def ONE_CENT_def)

text \<open>\<open>divRound\<close> on non-negative dividends: nearest, ties downwards.\<close>

lemma divRound_amount:
  assumes "0 \<le> amount a" and "0 < b"
  shows "amount (divRound a b) =
    (if 2 * (amount a mod b) > b then amount a div b + 1 else amount a div b)"
proof -
  have "b div 2 < r \<longleftrightarrow> b < 2 * r" for r :: int
    by linarith
  then show ?thesis
    using assms by (simp add: divRound_def Let_def)
qed

lemma divFloor_amount: "0 \<le> amount a \<Longrightarrow> 0 < b \<Longrightarrow> amount (divFloor a b) = amount a div b"
  by (simp add: divFloor_def)

lemma divCeil_amount:
  "0 \<le> amount a \<Longrightarrow> 0 < b \<Longrightarrow>
   amount (divCeil a b) = (if amount a mod b > 0 then amount a div b + 1 else amount a div b)"
  by (simp add: divCeil_def Let_def)

lemma divRound_nearest:
  assumes "0 \<le> amount a" and "0 < b"
  shows "2 * \<bar>amount (divRound a b) * b - amount a\<bar> \<le> b"
proof -
  define q r where "q = amount a div b" and "r = amount a mod b"
  have a: "amount a = q * b + r" and r: "0 \<le> r" "r < b"
    using assms(2) by (simp_all add: q_def r_def)
  show ?thesis
    using r unfolding divRound_amount [OF assms] q_def [symmetric] r_def [symmetric]
    by (simp add: a algebra_simps)
qed

lemma divCeil_least:
  assumes "0 \<le> amount a" and "0 < b"
  shows "amount a \<le> amount (divCeil a b) * b" and "amount (divCeil a b) * b < amount a + b"
proof -
  define q r where "q = amount a div b" and "r = amount a mod b"
  have a: "amount a = q * b + r" and r: "0 \<le> r" "r < b"
    using assms(2) by (simp_all add: q_def r_def)
  show "amount a \<le> amount (divCeil a b) * b" and "amount (divCeil a b) * b < amount a + b"
    using r unfolding divCeil_amount [OF assms] q_def [symmetric] r_def [symmetric]
    by (simp_all add: a algebra_simps)
qed

lemma div_round_chain:
  assumes "0 \<le> amount a" and "0 < b"
  shows "amount (divFloor a b) \<le> amount (divRound a b)"
    and "amount (divRound a b) \<le> amount (divCeil a b)"
    and "amount (divCeil a b) \<le> amount (divFloor a b) + 1"
  using assms by (simp_all add: divRound_amount divFloor_amount divCeil_amount)

lemma divRound_nonneg: "0 \<le> amount a \<Longrightarrow> 0 < b \<Longrightarrow> 0 \<le> amount (divRound a b)"
  by (simp add: divRound_amount pos_imp_zdiv_nonneg_iff add_nonneg_nonneg)

lemma calc_min2 [simp]:
  "amount (calc_min a [b]) = min (amount a) (amount b)"
  by (simp add: calc_min_def)

lemma calc_max2 [simp]:
  "amount (calc_max a [b]) = max (amount a) (amount b)"
  by (simp add: calc_max_def)

lemma calc_minmax_currency:
  assumes "currency a = c" and "currency b = c"
  shows "currency (calc_min a [b]) = c" and "currency (calc_max a [b]) = c"
  using assms by (simp_all add: calc_min_def calc_max_def)

subsection \<open>The contract of a checked amount\<close>

text \<open>
  What the payment code relies on when it turns a client-supplied \<open>number\<close> into an amount:
  exactly the positive integers up to the maximum are accepted, unchanged, and each kind of
  bad input has its error. Both currencies meet it.
\<close>

lemma amount_input_cases:
  fixes r :: rat and mx :: int
  obtains (large) "of_int mx < r" | (fraction) "r \<le> of_int mx" "r \<notin> \<int>"
    | (nonpos) n where "r = of_int n" "n \<le> mx" "n \<le> 0"
    | (pos) n where "r = of_int n" "n \<le> mx" "0 < n"
proof (cases "r \<in> \<int>")
  case True
  then obtain n where "r = of_int n"
    by (rule Ints_cases)
  then show ?thesis
    using that by (cases "n \<le> mx"; cases "n \<le> 0") auto
next
  case False
  then show ?thesis
    using that by (cases "r \<le> of_int mx") auto
qed

locale checked_amount =
  fixes check :: "jsnum option \<Rightarrow> error + payment_amount"
    and mx :: int
    and cur :: wallet_currency
    and too_large invalid :: error
  assumes check_null: "check None = Inl invalid"
    and check_accept: "0 < n \<Longrightarrow> n \<le> mx \<Longrightarrow>
      check (Some (Fin (of_int n))) = Inr \<lparr>currency = cur, amount = n\<rparr>"
    and check_large: "of_int mx < r \<Longrightarrow> check (Some (Fin r)) = Inl too_large"
    and check_fraction: "r \<le> of_int mx \<Longrightarrow> r \<notin> \<int> \<Longrightarrow> check (Some (Fin r)) = Inl invalid"
    and check_nonpos: "n \<le> mx \<Longrightarrow> n \<le> 0 \<Longrightarrow> check (Some (Fin (of_int n))) = Inl invalid"
    and check_nonfinite: "check (Some PosInf) = Inl too_large" "check (Some NegInf) = Inl invalid"
      "check (Some NaN) = Inl invalid"
begin

lemma check_Inr_iff:
  "check num = Inr a \<longleftrightarrow>
   (\<exists>n. 0 < n \<and> n \<le> mx \<and> num = Some (Fin (of_int n)) \<and> a = \<lparr>currency = cur, amount = n\<rparr>)"
proof (cases num)
  case None
  then show ?thesis by (simp add: check_null)
next
  case (Some x)
  show ?thesis
  proof (cases x)
    case (Fin r)
    show ?thesis
      by (cases mx r rule: amount_input_cases)
        (auto simp: Some Fin check_large check_fraction check_accept check_nonpos)
  qed (simp_all add: Some check_nonfinite)
qed

lemma check_error_cases: "check num = Inl e \<Longrightarrow> e = too_large \<or> e = invalid"
proof (cases num)
  case None
  then show "check num = Inl e \<Longrightarrow> ?thesis" by (simp add: check_null)
next
  case (Some x)
  assume err: "check num = Inl e"
  show ?thesis
  proof (cases x)
    case (Fin r)
    then show ?thesis
      using Some err
      by (cases mx r rule: amount_input_cases)
        (auto simp: check_large check_fraction check_accept check_nonpos)
  qed (use Some err in \<open>auto simp: check_nonfinite\<close>)
qed

end

lemma floor_eq_iff_Ints: "(of_int \<lfloor>r\<rfloor> = (r :: rat)) \<longleftrightarrow> r \<in> \<int>"
  by (metis Ints_cases Ints_of_int floor_of_int)

lemma paymentAmountFromNumber_Fin [simp]:
  "paymentAmountFromNumber (Fin (of_int n)) c = Inr \<lparr>currency = c, amount = n\<rparr>"
  by (simp add: paymentAmountFromNumber_def safeBigInt_def BigInt_num_def)

lemmas checked_defs = gt_big_def js_eq_def js_floor_def js_truthy_def js_lt_def floor_eq_iff_Ints

interpretation btc_check: checked_amount checkedToBtcPaymentAmount "amount MAX_SATS" Btc
  BtcAmountTooLargeError InvalidBtcPaymentAmountError
  by unfold_locales (auto simp: checkedToBtcPaymentAmount_def checked_defs)

interpretation usd_check: checked_amount checkedToUsdPaymentAmount "amount MAX_CENTS" Usd
  UsdAmountTooLargeError InvalidUsdPaymentAmountError
  by unfold_locales (auto simp: checkedToUsdPaymentAmount_def checked_defs)

subsection \<open>Properties\<close>

text \<open>C21: client amounts. A number a client sends becomes a payment amount exactly when it is a
  positive integer of at most ten trillion, and then unchanged; this holds for satoshis and for
  cents. Undefined, fractions, zero, negative numbers, NaN and the infinities are refused.\<close>
theorem checked_amounts_accept_iff:
  "(checkedToBtcPaymentAmount num = Inr b \<longleftrightarrow>
     (\<exists>n. 0 < n \<and> n \<le> 10000000000000 \<and> num = Some (Fin (of_int n)) \<and> b = BtcPaymentAmount n)) \<and>
   (checkedToUsdPaymentAmount num = Inr u \<longleftrightarrow>
     (\<exists>n. 0 < n \<and> n \<le> 10000000000000 \<and> num = Some (Fin (of_int n)) \<and> u = UsdPaymentAmount n))"
  by (simp add: btc_check.check_Inr_iff usd_check.check_Inr_iff MAX_SATS_def MAX_CENTS_def
      BtcPaymentAmount_def UsdPaymentAmount_def)

text \<open>The three divisions of an amount. For a non-negative amount and a positive divisor, rounding
  is off by at most half the divisor, the ceiling is the least result that covers the amount,
  the floor the greatest that does not exceed it, and they are ordered floor, round, ceiling,
  at most one apart.\<close>
lemma division_rounding:
  assumes "0 \<le> amount a" and "0 < b"
  shows "2 * \<bar>amount (divRound a b) * b - amount a\<bar> \<le> b \<and>
    amount a \<le> amount (divCeil a b) * b \<and> amount (divCeil a b) * b < amount a + b \<and>
    amount (divFloor a b) * b \<le> amount a \<and> amount a < (amount (divFloor a b) + 1) * b \<and>
    amount (divFloor a b) \<le> amount (divRound a b) \<and> amount (divRound a b) \<le> amount (divCeil a b) \<and>
    amount (divCeil a b) \<le> amount (divFloor a b) + 1"
proof (intro conjI)
  have "amount a = amount a div b * b + amount a mod b" and "0 \<le> amount a mod b" and "amount a mod b < b"
    using assms(2) by simp_all
  then show "amount (divFloor a b) * b \<le> amount a" "amount a < (amount (divFloor a b) + 1) * b"
    unfolding divFloor_amount [OF assms] distrib_right by linarith+
qed (use divRound_nearest [OF assms] divCeil_least [OF assms] div_round_chain [OF assms] in simp_all)

end
