(* ===== verification/Price_Ratio.thy ===== *)
theory Price_Ratio
  imports Amounts
begin

text \<open>
  Price ratios: \<open>src/core/api/src/domain/payments/price-ratio.ts\<close>. The source returns an
  object of closures over the two sides of the ratio; here the ratio is the pair of sides and
  each closure a function of it.
\<close>

record price_ratio =
  ratio_other :: int
  ratio_walletAmount :: payment_amount

definition PriceRatio :: "int \<Rightarrow> payment_amount \<Rightarrow> error + price_ratio" where
  "PriceRatio other walletAmount =
     (if other = 0 \<or> amount walletAmount = 0 then Inl InvalidZeroAmountPriceRatioInputError
      else Inr \<lparr>ratio_other = other, ratio_walletAmount = walletAmount\<rparr>)"

definition convertFromOther :: "price_ratio \<Rightarrow> int \<Rightarrow> payment_amount" where
  "convertFromOther pr otherToConvert =
     (let cur = currency (ratio_walletAmount pr) in
      if otherToConvert = 0 then \<lparr>currency = cur, amount = 0\<rparr>
      else let a = amount (divRound
                     \<lparr>currency = cur, amount = otherToConvert * amount (ratio_walletAmount pr)\<rparr>
                     (ratio_other pr))
           in \<lparr>currency = cur, amount = (if a = 0 then 1 else a)\<rparr>)"

definition convertFromWallet :: "price_ratio \<Rightarrow> payment_amount \<Rightarrow> int" where
  "convertFromWallet pr w =
     (let cur = currency (ratio_walletAmount pr) in
      if amount w = 0 then 0
      else let a = amount (divRound \<lparr>currency = cur, amount = amount w * ratio_other pr\<rparr>
                     (amount (ratio_walletAmount pr)))
           in if a = 0 then 1 else a)"

definition convertFromWalletToFloor :: "price_ratio \<Rightarrow> payment_amount \<Rightarrow> int" where
  "convertFromWalletToFloor pr w =
     amount (divFloor
       \<lparr>currency = currency (ratio_walletAmount pr), amount = amount w * ratio_other pr\<rparr>
       (amount (ratio_walletAmount pr)))"

definition convertFromWalletToCeil :: "price_ratio \<Rightarrow> payment_amount \<Rightarrow> int" where
  "convertFromWalletToCeil pr w =
     amount (divCeil
       \<lparr>currency = currency (ratio_walletAmount pr), amount = amount w * ratio_other pr\<rparr>
       (amount (ratio_walletAmount pr)))"

definition otherUnitPerWalletUnit :: "price_ratio \<Rightarrow> jsnum" where
  "otherUnitPerWalletUnit pr =
     js_div (Number_big (ratio_other pr)) (Number_big (amount (ratio_walletAmount pr)))"

definition WalletPriceRatio :: "payment_amount \<Rightarrow> payment_amount \<Rightarrow> error + price_ratio" where
  "WalletPriceRatio usd btc = PriceRatio (amount usd) btc"

definition convertFromUsd :: "price_ratio \<Rightarrow> payment_amount \<Rightarrow> payment_amount" where
  "convertFromUsd pr usdWalletAmount = convertFromOther pr (amount usdWalletAmount)"

definition convertFromBtc :: "price_ratio \<Rightarrow> payment_amount \<Rightarrow> payment_amount" where
  "convertFromBtc pr btcWalletAmount =
     \<lparr>currency = Usd, amount = convertFromWallet pr btcWalletAmount\<rparr>"

definition convertFromBtcToFloor :: "price_ratio \<Rightarrow> payment_amount \<Rightarrow> payment_amount" where
  "convertFromBtcToFloor pr btcWalletAmount =
     \<lparr>currency = Usd, amount = convertFromWalletToFloor pr btcWalletAmount\<rparr>"

definition convertFromBtcToCeil :: "price_ratio \<Rightarrow> payment_amount \<Rightarrow> payment_amount" where
  "convertFromBtcToCeil pr btcWalletAmount =
     \<lparr>currency = Usd, amount = convertFromWalletToCeil pr btcWalletAmount\<rparr>"

text \<open>
  \<open>RATIO_PRECISION\<close> is read from the configuration file and is an argument here; \<open>BigInt\<close> of
  it throws when it is not an integer.
\<close>

definition toWalletPriceRatio :: "jsnum \<Rightarrow> jsnum \<Rightarrow> error + price_ratio" where
  "toWalletPriceRatio precision ratio =
     rbind (safeBigInt (js_floor (js_mul ratio precision))) (\<lambda>a.
       case BigInt_num precision of
         None \<Rightarrow> Inl (ThrownError ''RangeError'')
       | Some p \<Rightarrow> WalletPriceRatio \<lparr>currency = Usd, amount = a\<rparr> \<lparr>currency = Btc, amount = p\<rparr>)"

subsection \<open>The interface of a conversion\<close>

text \<open>
  What the flow builders and fee calculators rely on: nothing converts to nothing, something
  never converts to nothing, and the conversion is monotone. A conversion at a price also
  offers its floor and its ceiling. \<open>valid\<close> is the invariant of the ratio.
\<close>

locale rounded_conversion =
  fixes valid :: "'r \<Rightarrow> bool"
    and conv :: "'r \<Rightarrow> int \<Rightarrow> int"
  assumes conv_zero: "conv r 0 = 0"
    and conv_pos: "valid r \<Longrightarrow> 0 < n \<Longrightarrow> 0 < conv r n"
    and conv_mono: "valid r \<Longrightarrow> 0 \<le> m \<Longrightarrow> m \<le> n \<Longrightarrow> conv r m \<le> conv r n"
begin

lemma conv_nonneg: "valid r \<Longrightarrow> 0 \<le> n \<Longrightarrow> 0 \<le> conv r n"
  using conv_pos [of r n] conv_zero [of r] by (cases "n = 0") auto

lemma conv_eq_zero_iff: "valid r \<Longrightarrow> 0 \<le> n \<Longrightarrow> conv r n = 0 \<longleftrightarrow> n = 0"
  using conv_pos [of r n] conv_zero [of r] by (cases "n = 0") auto

end

locale price_conversion = rounded_conversion +
  fixes conv_floor conv_ceil :: "'a \<Rightarrow> int \<Rightarrow> int"
  assumes floor_le_conv: "valid r \<Longrightarrow> 0 \<le> n \<Longrightarrow> conv_floor r n \<le> conv r n"
    and conv_le_ceil: "valid r \<Longrightarrow> 0 \<le> n \<Longrightarrow> conv r n \<le> conv_ceil r n"
    and ceil_le_floor: "valid r \<Longrightarrow> 0 \<le> n \<Longrightarrow> conv_ceil r n \<le> conv_floor r n + 1"
    and floor_mono: "valid r \<Longrightarrow> 0 \<le> m \<Longrightarrow> m \<le> n \<Longrightarrow> conv_floor r m \<le> conv_floor r n"
    and ceil_zero: "conv_ceil r 0 = 0"
    and floor_zero: "conv_floor r 0 = 0"
    and floor_ceil_add: "valid r \<Longrightarrow> 0 \<le> m \<Longrightarrow> 0 \<le> n \<Longrightarrow>
      conv_floor r m + conv_ceil r n \<le> conv_ceil r (m + n)"
begin

lemma ceil_eq_zero_iff: "valid r \<Longrightarrow> 0 \<le> n \<Longrightarrow> conv_ceil r n = 0 \<longleftrightarrow> n = 0"
  using conv_le_ceil [of r n] conv_pos [of r n] ceil_zero [of r] by (cases "n = 0") auto

lemma floor_nonneg: "valid r \<Longrightarrow> 0 \<le> n \<Longrightarrow> 0 \<le> conv_floor r n"
  using floor_mono [of r 0 n] floor_zero [of r] by simp

lemma ceil_nonneg: "valid r \<Longrightarrow> 0 \<le> n \<Longrightarrow> 0 \<le> conv_ceil r n"
  using floor_nonneg [of r n] floor_le_conv [of r n] conv_le_ceil [of r n] by simp

end

subsection \<open>The code's conversions\<close>

definition valid_ratio :: "price_ratio \<Rightarrow> bool" where
  "valid_ratio pr \<longleftrightarrow> 0 < ratio_other pr \<and> 0 < amount (ratio_walletAmount pr)"

definition round_up_min1 :: "int \<Rightarrow> int \<Rightarrow> int" where
  "round_up_min1 n b =
     (let q = (if 2 * (n mod b) > b then n div b + 1 else n div b) in if q = 0 then 1 else q)"

definition ceil_div :: "int \<Rightarrow> int \<Rightarrow> int" where
  "ceil_div n b = (if 0 < n mod b then n div b + 1 else n div b)"

lemma ceil_div_zero [simp]: "ceil_div 0 b = 0"
  by (simp add: ceil_div_def)

lemma round_nearest_mono:
  fixes m n b :: int
  assumes "0 < b" and "m \<le> n"
  shows "(if 2 * (m mod b) > b then m div b + 1 else m div b) \<le>
         (if 2 * (n mod b) > b then n div b + 1 else n div b)"
proof (cases "m div b = n div b")
  case True
  have "m = n div b * b + m mod b" and "n = n div b * b + n mod b"
    using div_mult_mod_eq [of m b] div_mult_mod_eq [of n b] by (simp_all add: True)
  then have "m mod b \<le> n mod b"
    using assms(2) by linarith
  then show ?thesis
    using True by simp
next
  case False
  then show ?thesis
    using zdiv_mono1 [OF assms(2,1)] by simp
qed

lemma round_up_min1_mono: "0 < b \<Longrightarrow> 0 \<le> m \<Longrightarrow> m \<le> n \<Longrightarrow> round_up_min1 m b \<le> round_up_min1 n b"
  using round_nearest_mono [of b m n] pos_imp_zdiv_nonneg_iff [of b n]
  by (auto simp: round_up_min1_def Let_def)

lemma round_up_min1_pos: "0 < b \<Longrightarrow> 0 \<le> n \<Longrightarrow> 0 < round_up_min1 n b"
  using pos_imp_zdiv_nonneg_iff [of b n] by (auto simp: round_up_min1_def Let_def)

lemma round_up_min1_chain:
  assumes "0 < b" and "0 < n"
  shows "n div b \<le> round_up_min1 n b"
    and "round_up_min1 n b \<le> ceil_div n b"
proof -
  have "0 < n mod b" if "n div b = 0"
    using that assms by (metis div_mult_mod_eq add.left_neutral mult_zero_left)
  moreover have "0 \<le> n div b"
    using assms by (simp add: pos_imp_zdiv_nonneg_iff)
  ultimately show "n div b \<le> round_up_min1 n b"
    and "round_up_min1 n b \<le> ceil_div n b"
    using assms by (auto simp: round_up_min1_def ceil_div_def Let_def)
qed

lemma convertFromWallet_eq:
  assumes "valid_ratio pr" and "0 < amount w"
  shows "convertFromWallet pr w =
    round_up_min1 (amount w * ratio_other pr) (amount (ratio_walletAmount pr))"
  using assms
  by (simp add: convertFromWallet_def valid_ratio_def round_up_min1_def Let_def divRound_amount)

lemma convertFromOther_eq:
  assumes "valid_ratio pr" and "0 < n"
  shows "amount (convertFromOther pr n) =
    round_up_min1 (n * amount (ratio_walletAmount pr)) (ratio_other pr)"
  using assms
  by (simp add: convertFromOther_def valid_ratio_def round_up_min1_def Let_def divRound_amount)

lemma convertFromWallet_zero [simp]: "amount w = 0 \<Longrightarrow> convertFromWallet pr w = 0"
  by (simp add: convertFromWallet_def)

lemma convertFromOther_zero [simp]: "amount (convertFromOther pr 0) = 0"
  by (simp add: convertFromOther_def Let_def)

lemma convert_currency [simp]:
  "currency (convertFromOther pr n) = currency (ratio_walletAmount pr)"
  by (simp add: convertFromOther_def Let_def)

lemma convertFromWalletToFloor_eq:
  "valid_ratio pr \<Longrightarrow> 0 \<le> amount w \<Longrightarrow>
   convertFromWalletToFloor pr w = amount w * ratio_other pr div amount (ratio_walletAmount pr)"
  by (simp add: convertFromWalletToFloor_def valid_ratio_def divFloor_amount)

lemma convertFromWalletToCeil_eq:
  "valid_ratio pr \<Longrightarrow> 0 \<le> amount w \<Longrightarrow>
   convertFromWalletToCeil pr w =
     ceil_div (amount w * ratio_other pr) (amount (ratio_walletAmount pr))"
  by (simp add: convertFromWalletToCeil_def valid_ratio_def divCeil_amount ceil_div_def)

lemma ceil_div_add:
  fixes m n b :: int
  assumes "0 < b"
  shows "m div b + ceil_div n b \<le> ceil_div (m + n) b"
proof -
  have sum: "(m + n) div b = m div b + n div b + (m mod b + n mod b) div b"
    by (rule div_add1_eq)
  have "(m + n) mod b = (m mod b + n mod b) mod b"
    by (simp add: mod_add_eq)
  moreover have "0 \<le> m mod b" and "0 \<le> n mod b"
    using assms by simp_all
  ultimately show ?thesis
    using sum assms by (cases "m mod b + n mod b < b") (auto simp: ceil_div_def div_pos_pos_trivial
        pos_imp_zdiv_pos_iff pos_imp_zdiv_nonneg_iff int_one_le_iff_zero_less add_nonneg_pos)
qed

interpretation wallet_conv: price_conversion valid_ratio
  "\<lambda>pr n. convertFromWallet pr \<lparr>currency = Btc, amount = n\<rparr>"
  "\<lambda>pr n. convertFromWalletToFloor pr \<lparr>currency = Btc, amount = n\<rparr>"
  "\<lambda>pr n. convertFromWalletToCeil pr \<lparr>currency = Btc, amount = n\<rparr>"
proof
  fix r :: price_ratio and m n :: int
  let ?o = "ratio_other r" and ?w = "amount (ratio_walletAmount r)"
  let ?c = "\<lambda>n. convertFromWallet r \<lparr>currency = Btc, amount = n\<rparr>"
  let ?f = "\<lambda>n. convertFromWalletToFloor r \<lparr>currency = Btc, amount = n\<rparr>"
  let ?g = "\<lambda>n. convertFromWalletToCeil r \<lparr>currency = Btc, amount = n\<rparr>"
  show "?c 0 = 0" by simp
  show "?g 0 = 0" by (simp add: convertFromWalletToCeil_def divCeil_def big_div_def big_rem_def)
  show "?f 0 = 0" by (simp add: convertFromWalletToFloor_def divFloor_def big_div_def)
  assume v: "valid_ratio r"
  then have ow: "0 < ?o" "0 < ?w"
    by (simp_all add: valid_ratio_def)
  show "0 < ?c n" if "0 < n"
    using that v ow by (simp add: convertFromWallet_eq round_up_min1_pos)
  show "?c m \<le> ?c n" if "0 \<le> m" "m \<le> n"
    using that v ow round_up_min1_pos [of ?w "n * ?o"] round_up_min1_mono [of ?w "m * ?o" "n * ?o"]
    by (cases "m = 0"; cases "n = 0") (auto simp: convertFromWallet_eq)
  show "?f n \<le> ?c n" if "0 \<le> n"
    using that v ow round_up_min1_chain(1) [of ?w "n * ?o"]
    by (cases "n = 0") (simp_all add: convertFromWallet_eq convertFromWalletToFloor_eq)
  show "?c n \<le> ?g n" if "0 \<le> n"
    using that v ow round_up_min1_chain(2) [of ?w "n * ?o"]
    by (cases "n = 0") (simp_all add: convertFromWallet_eq convertFromWalletToCeil_eq)
  show "?g n \<le> ?f n + 1" if "0 \<le> n"
    using that v by (simp add: convertFromWalletToFloor_eq convertFromWalletToCeil_eq ceil_div_def)
  show "?f m \<le> ?f n" if "0 \<le> m" "m \<le> n"
    using that v ow by (simp add: convertFromWalletToFloor_eq zdiv_mono1)
  show "?f m + ?g n \<le> ?g (m + n)" if "0 \<le> m" "0 \<le> n"
    using that v ow ceil_div_add [of ?w "m * ?o" "n * ?o"]
    by (simp add: convertFromWalletToFloor_eq convertFromWalletToCeil_eq distrib_right)
qed

interpretation other_conv: rounded_conversion valid_ratio "\<lambda>pr n. amount (convertFromOther pr n)"
proof
  fix r :: price_ratio and m n :: int
  let ?o = "ratio_other r" and ?w = "amount (ratio_walletAmount r)"
  show "amount (convertFromOther r 0) = 0" by simp
  assume v: "valid_ratio r"
  then have ow: "0 < ?o" "0 < ?w"
    by (simp_all add: valid_ratio_def)
  show "0 < amount (convertFromOther r n)" if "0 < n"
    using that v ow by (simp add: convertFromOther_eq round_up_min1_pos)
  show "amount (convertFromOther r m) \<le> amount (convertFromOther r n)" if "0 \<le> m" "m \<le> n"
    using that v ow round_up_min1_pos [of ?o "n * ?w"] round_up_min1_mono [of ?o "m * ?w" "n * ?w"]
    by (cases "m = 0"; cases "n = 0") (auto simp: convertFromOther_eq)
qed

lemma WalletPriceRatio_Inr:
  "WalletPriceRatio usd btc = Inr pr \<longleftrightarrow>
     amount usd \<noteq> 0 \<and> amount btc \<noteq> 0 \<and>
     pr = \<lparr>ratio_other = amount usd, ratio_walletAmount = btc\<rparr>"
  by (auto simp: WalletPriceRatio_def PriceRatio_def)

lemma WalletPriceRatio_valid:
  "WalletPriceRatio usd btc = Inr pr \<Longrightarrow> 0 < amount usd \<Longrightarrow> 0 < amount btc \<Longrightarrow> valid_ratio pr"
  by (auto simp: WalletPriceRatio_Inr valid_ratio_def)

lemma convertFromWallet_amount:
  "convertFromWallet pr w = convertFromWallet pr \<lparr>currency = Btc, amount = amount w\<rparr>"
  "convertFromWalletToFloor pr w = convertFromWalletToFloor pr \<lparr>currency = Btc, amount = amount w\<rparr>"
  "convertFromWalletToCeil pr w = convertFromWalletToCeil pr \<lparr>currency = Btc, amount = amount w\<rparr>"
  by (simp_all add: convertFromWallet_def convertFromWalletToFloor_def convertFromWalletToCeil_def)

lemma round_up_min1_error:
  assumes "0 < b" and "0 < n"
  shows "\<bar>round_up_min1 n b * b - n\<bar> < b"
proof -
  define q r where "q = n div b" and "r = n mod b"
  have n: "n = q * b + r" and r: "0 \<le> r" "r < b" and q: "0 \<le> q"
    using assms by (simp_all add: q_def r_def pos_imp_zdiv_nonneg_iff)
  have u: "round_up_min1 n b = (if 2 * r > b then q + 1 else if q = 0 then 1 else q)"
    using q by (auto simp: round_up_min1_def Let_def simp flip: q_def r_def)
  show ?thesis
    using r assms(2) unfolding u
    by (cases "2 * r > b"; cases "q = 0") (auto simp: n distrib_right abs_if)
qed

lemma convertFromBtc_error:
  assumes "valid_ratio pr" and "0 < amount w"
  shows "\<bar>convertFromWallet pr w * amount (ratio_walletAmount pr) - amount w * ratio_other pr\<bar>
           < amount (ratio_walletAmount pr)"
  using assms round_up_min1_error [of "amount (ratio_walletAmount pr)" "amount w * ratio_other pr"]
  by (simp add: convertFromWallet_eq valid_ratio_def)

subsection \<open>The exact quotient\<close>

text \<open>What the conversions are measured against: the price of \<open>n\<close> wallet units, not rounded.\<close>

definition exact_conversion :: "price_ratio \<Rightarrow> int \<Rightarrow> rat" where
  "exact_conversion pr n = of_int n * of_int (ratio_other pr) / of_int (amount (ratio_walletAmount pr))"

lemma ceil_div_ceiling: "0 < b \<Longrightarrow> ceil_div n b = \<lceil>of_int n / of_int b :: rat\<rceil>"
  by (auto simp: ceil_div_def ceiling_divide_eq_div zdiv_zminus1_eq_if less_le)

lemma exact_floor:
  "valid_ratio pr \<Longrightarrow> 0 \<le> amount w \<Longrightarrow> convertFromWalletToFloor pr w = \<lfloor>exact_conversion pr (amount w)\<rfloor>"
  using floor_divide_of_int_eq [where 'a = rat, of "amount w * ratio_other pr" "amount (ratio_walletAmount pr)"]
  by (simp add: convertFromWalletToFloor_eq exact_conversion_def)

lemma exact_ceil:
  "valid_ratio pr \<Longrightarrow> 0 \<le> amount w \<Longrightarrow> convertFromWalletToCeil pr w = \<lceil>exact_conversion pr (amount w)\<rceil>"
  by (simp add: convertFromWalletToCeil_eq exact_conversion_def ceil_div_ceiling valid_ratio_def)

lemma exact_between:
  assumes "valid_ratio pr" and "0 \<le> amount w"
  shows "\<lfloor>exact_conversion pr (amount w)\<rfloor> \<le> convertFromWallet pr w"
    and "convertFromWallet pr w \<le> \<lceil>exact_conversion pr (amount w)\<rceil>"
  using wallet_conv.floor_le_conv [OF assms] wallet_conv.conv_le_ceil [OF assms] exact_floor [OF assms]
    exact_ceil [OF assms] convertFromWallet_amount [of pr w] by simp_all

lemma round_up_min1_nearest:
  assumes "0 < b" and "b \<le> n"
  shows "2 * \<bar>round_up_min1 n b * b - n\<bar> \<le> b"
proof -
  define q r where "q = n div b" and "r = n mod b"
  have n: "n = q * b + r" and r: "0 \<le> r" "r < b"
    using assms(1) by (simp_all add: q_def r_def)
  have q: "q \<noteq> 0" "q + 1 \<noteq> 0"
    using assms pos_imp_zdiv_pos_iff [of b n] by (simp_all add: q_def)
  have u: "round_up_min1 n b = (if 2 * r > b then q + 1 else q)"
    using q by (simp add: round_up_min1_def Let_def flip: q_def r_def)
  show ?thesis
    using r unfolding u by (cases "2 * r > b") (auto simp: n distrib_right abs_if)
qed

lemma exact_nearest:
  assumes "valid_ratio pr" and "0 \<le> amount w" and "1 \<le> exact_conversion pr (amount w)"
  shows "\<bar>of_int (convertFromWallet pr w) - exact_conversion pr (amount w)\<bar> \<le> 1 / 2"
proof -
  define b n where "b = amount (ratio_walletAmount pr)" and "n = amount w * ratio_other pr"
  have b: "0 < b"
    using assms(1) by (simp add: b_def valid_ratio_def)
  have x: "exact_conversion pr (amount w) = of_int n / of_int b"
    by (simp add: exact_conversion_def b_def n_def)
  have le: "b \<le> n"
    using assms(3) b by (simp add: x)
  then have "0 < amount w"
    using assms(2) b by (cases "amount w = 0") (auto simp: n_def)
  then have c: "convertFromWallet pr w = round_up_min1 n b"
    using assms(1) by (simp add: convertFromWallet_eq n_def b_def)
  have "of_int (2 * \<bar>round_up_min1 n b * b - n\<bar>) \<le> (of_int b :: rat)"
    using round_up_min1_nearest [OF b le] by (simp only: of_int_le_iff)
  then have "2 * \<bar>of_int (round_up_min1 n b) * of_int b - of_int n\<bar> \<le> (of_int b :: rat)"
    by simp
  moreover have "of_int (round_up_min1 n b) - of_int n / of_int b =
      (of_int (round_up_min1 n b) * of_int b - of_int n) / (of_int b :: rat)"
    using b by (simp add: field_simps)
  ultimately show ?thesis
    using b by (simp add: c x abs_divide field_simps)
qed

lemma exact_small:
  assumes "valid_ratio pr" and "0 \<le> amount w"
    and "0 < exact_conversion pr (amount w)" and "exact_conversion pr (amount w) < 1"
  shows "convertFromWallet pr w = 1"
proof -
  have "\<lceil>exact_conversion pr (amount w)\<rceil> = 1"
    using assms(3,4) by (simp add: ceiling_eq_iff)
  moreover have "amount w \<noteq> 0"
    using assms(3) by (auto simp: exact_conversion_def)
  ultimately show ?thesis
    using exact_between(2) [OF assms(1,2)] wallet_conv.conv_pos [OF assms(1), of "amount w"] assms(2)
      convertFromWallet_amount(1) [of pr w] by simp
qed

subsection \<open>Properties\<close>

text \<open>C16: a wallet price ratio of positive amounts converts satoshis at exactly that price. With
  \<open>x\<close> the exact quotient of the satoshis times the cents of the ratio by its satoshis, the
  rounding conversions are the floor and the ceiling of \<open>x\<close>; the plain conversion lies between
  them, is the nearest cent from one cent on and one cent for anything positive below, is zero
  for zero only, is in US dollars, and is monotone.\<close>
theorem convertFromBtc_bounds:
  fixes x :: rat
  assumes "WalletPriceRatio usd btc = Inr pr" and "0 < amount usd" and "0 < amount btc"
    and "0 \<le> amount w" and "amount w \<le> amount w'"
    and "x = of_int (amount w) * of_int (amount usd) / of_int (amount btc)"
  shows "convertFromBtcToFloor pr w = \<lparr>currency = Usd, amount = \<lfloor>x\<rfloor>\<rparr> \<and>
    convertFromBtcToCeil pr w = \<lparr>currency = Usd, amount = \<lceil>x\<rceil>\<rparr> \<and>
    \<lfloor>x\<rfloor> \<le> amount (convertFromBtc pr w) \<and> amount (convertFromBtc pr w) \<le> \<lceil>x\<rceil> \<and>
    (1 \<le> x \<longrightarrow> \<bar>of_int (amount (convertFromBtc pr w)) - x\<bar> \<le> 1 / 2) \<and>
    (0 < x \<and> x < 1 \<longrightarrow> amount (convertFromBtc pr w) = 1) \<and>
    (amount (convertFromBtc pr w) = 0 \<longleftrightarrow> amount w = 0) \<and>
    amount (convertFromBtc pr w) \<le> amount (convertFromBtc pr w') \<and>
    currency (convertFromBtc pr w) = Usd"
proof (intro conjI impI)
  have v: "valid_ratio pr"
    by (rule WalletPriceRatio_valid [OF assms(1-3)])
  have x: "x = exact_conversion pr (amount w)"
    using assms(1,6) by (simp add: WalletPriceRatio_Inr exact_conversion_def)
  note exact = exact_floor [OF v assms(4)] exact_ceil [OF v assms(4)]
  show "convertFromBtcToFloor pr w = \<lparr>currency = Usd, amount = \<lfloor>x\<rfloor>\<rparr>"
    and "convertFromBtcToCeil pr w = \<lparr>currency = Usd, amount = \<lceil>x\<rceil>\<rparr>"
    using exact by (simp_all add: x convertFromBtcToFloor_def convertFromBtcToCeil_def)
  show "\<lfloor>x\<rfloor> \<le> amount (convertFromBtc pr w)" and "amount (convertFromBtc pr w) \<le> \<lceil>x\<rceil>"
    using exact_between [OF v assms(4)] by (simp_all add: x convertFromBtc_def)
  show "\<bar>of_int (amount (convertFromBtc pr w)) - x\<bar> \<le> 1 / 2" if "1 \<le> x"
    using exact_nearest [OF v] that assms(4) by (simp add: x convertFromBtc_def)
  show "amount (convertFromBtc pr w) = 1" if "0 < x \<and> x < 1"
    using exact_small [OF v] that assms(4) by (simp add: x convertFromBtc_def)
  show "amount (convertFromBtc pr w) = 0 \<longleftrightarrow> amount w = 0"
    using wallet_conv.conv_eq_zero_iff [OF v assms(4)] convertFromWallet_amount(1) [of pr w]
    by (simp add: convertFromBtc_def)
  show "amount (convertFromBtc pr w) \<le> amount (convertFromBtc pr w')"
    using wallet_conv.conv_mono [OF v assms(4,5)] convertFromWallet_amount(1) [of pr w]
      convertFromWallet_amount(1) [of pr w'] by (simp add: convertFromBtc_def)
  show "currency (convertFromBtc pr w) = Usd"
    by (simp add: convertFromBtc_def)
qed

lemma convertFromBtc_bounds_witness:
  "amount (convertFromBtcToFloor
      \<lparr>ratio_other = 3, ratio_walletAmount = \<lparr>currency = Btc, amount = 100\<rparr>\<rparr>
      \<lparr>currency = Btc, amount = 40\<rparr>) = 1 \<and>
   amount (convertFromBtcToCeil
      \<lparr>ratio_other = 3, ratio_walletAmount = \<lparr>currency = Btc, amount = 100\<rparr>\<rparr>
      \<lparr>currency = Btc, amount = 40\<rparr>) = 2 \<and>
   \<bar>of_int (amount (convertFromBtc
      \<lparr>ratio_other = 3, ratio_walletAmount = \<lparr>currency = Btc, amount = 100\<rparr>\<rparr>
      \<lparr>currency = Btc, amount = 40\<rparr>)) - 6 / 5\<bar> \<le> (1 / 2 :: rat)"
  using convertFromBtc_bounds [of "\<lparr>currency = Usd, amount = 3\<rparr>" "\<lparr>currency = Btc, amount = 100\<rparr>"
      "\<lparr>ratio_other = 3, ratio_walletAmount = \<lparr>currency = Btc, amount = 100\<rparr>\<rparr>"
      "\<lparr>currency = Btc, amount = 40\<rparr>" "\<lparr>currency = Btc, amount = 41\<rparr>" "6 / 5"]
  by (simp add: WalletPriceRatio_Inr floor_eq_iff ceiling_eq_iff)

text \<open>C17: converting a positive satoshi amount to cents and back moves it by less than the
  price of one cent plus one satoshi: with a ratio of \<open>usd\<close> cents for \<open>btc\<close> satoshis, \<open>usd\<close>
  times the deviation is below \<open>btc + usd\<close>. Converting the two sides of the ratio itself is
  exact.\<close>
theorem convert_round_trip:
  assumes "WalletPriceRatio usd btc = Inr pr" and "0 < amount usd" and "0 < amount btc"
    and "0 < amount w"
  shows "amount usd * \<bar>amount (convertFromUsd pr (convertFromBtc pr w)) - amount w\<bar>
           < amount btc + amount usd \<and>
    amount (convertFromBtc pr btc) = amount usd \<and>
    amount (convertFromUsd pr usd) = amount btc"
proof (intro conjI)
  let ?u = "amount usd" and ?b = "amount btc" and ?w = "amount w"
  have v: "valid_ratio pr"
    by (rule WalletPriceRatio_valid [OF assms(1-3)])
  have pr: "ratio_other pr = ?u" "ratio_walletAmount pr = btc"
    using assms(1) by (simp_all add: WalletPriceRatio_Inr)
  define c d where "c = amount (convertFromBtc pr w)"
    and "d = amount (convertFromUsd pr (convertFromBtc pr w))"
  have c: "\<bar>c * ?b - ?w * ?u\<bar> < ?b"
    using convertFromBtc_error [OF v assms(4)] pr by (simp add: c_def convertFromBtc_def)
  have c0: "0 < c"
    using wallet_conv.conv_pos [OF v assms(4)] convertFromWallet_amount(1) [of pr w]
    by (simp add: c_def convertFromBtc_def)
  have "d = round_up_min1 (c * ?b) ?u"
    using c0 v pr by (simp add: d_def c_def convertFromUsd_def convertFromOther_eq)
  then have "\<bar>d * ?u - c * ?b\<bar> < ?u"
    using round_up_min1_error [of ?u "c * ?b"] c0 assms by simp
  then have "\<bar>d * ?u - ?w * ?u\<bar> < ?b + ?u"
    using c by linarith
  moreover have "d * ?u - ?w * ?u = ?u * (d - ?w)"
    by (simp add: algebra_simps)
  ultimately show "?u * \<bar>amount (convertFromUsd pr (convertFromBtc pr w)) - ?w\<bar> < ?b + ?u"
    using assms(2) by (simp add: d_def abs_mult)
  show "amount (convertFromBtc pr btc) = ?u"
    using v pr assms by (simp add: convertFromBtc_def convertFromWallet_eq round_up_min1_def)
  show "amount (convertFromUsd pr usd) = ?b"
    using v pr assms by (simp add: convertFromUsd_def convertFromOther_eq round_up_min1_def)
qed

lemma convert_round_trip_witness:
  "3 * \<bar>amount (convertFromUsd
      \<lparr>ratio_other = 3, ratio_walletAmount = \<lparr>currency = Btc, amount = 100\<rparr>\<rparr>
      (convertFromBtc \<lparr>ratio_other = 3, ratio_walletAmount = \<lparr>currency = Btc, amount = 100\<rparr>\<rparr>
        \<lparr>currency = Btc, amount = 75\<rparr>)) - 75\<bar> < (103 :: int)"
  using convert_round_trip [of "\<lparr>currency = Usd, amount = 3\<rparr>" "\<lparr>currency = Btc, amount = 100\<rparr>"
      "\<lparr>ratio_other = 3, ratio_walletAmount = \<lparr>currency = Btc, amount = 100\<rparr>\<rparr>"
      "\<lparr>currency = Btc, amount = 75\<rparr>"]
  by (simp add: WalletPriceRatio_Inr)

end
