(* ===== verification/Fees.thy ===== *)
theory Fees
  imports Price_Ratio
begin

text \<open>
  The fee policies: the lightning fee cap (\<open>domain/payments/ln-fees.ts\<close>), the on-chain
  withdrawal and deposit fees (\<open>domain/wallets/withdrawal-fee-calculator.ts\<close>,
  \<open>deposit-fee-calculator.ts\<close>), the imbalance that prices a withdrawal
  (\<open>domain/ledger/imbalance-calculator.ts\<close>) and the reimbursement of a prepaid routing fee
  (\<open>domain/ledger/fee-reimbursement.ts\<close>).
\<close>

record amount_pair =
  btc :: payment_amount
  usd :: payment_amount

subsection \<open>ln-fees.ts\<close>

definition FEECAP_BASIS_POINTS :: int where
  "FEECAP_BASIS_POINTS = 50"

definition maxProtocolAndBankFee :: "payment_amount \<Rightarrow> payment_amount" where
  "maxProtocolAndBankFee a =
     (if amount a = 0 then a
      else let maxFee = mulBasisPoints a FEECAP_BASIS_POINTS
           in \<lparr>currency = currency a, amount = (if amount maxFee = 0 then 1 else amount maxFee)\<rparr>)"

definition intraLedgerFees :: amount_pair where
  "intraLedgerFees = \<lparr>btc = ZERO_SATS, usd = ZERO_CENTS\<rparr>"

definition verifyMaxFee ::
  "payment_amount \<Rightarrow> payment_amount \<Rightarrow> payment_amount \<Rightarrow> price_ratio \<Rightarrow> wallet_currency \<Rightarrow> bool \<Rightarrow>
   error + unit" where
  "verifyMaxFee maxFeeAmount btcPaymentAmount usdPaymentAmount priceRatio senderWalletCurrency
     isFromNoAmountInvoice =
     (let btcCalculatedMaxFeeAmount = maxProtocolAndBankFee btcPaymentAmount;
          calculatedMaxFeeAmount =
            (if senderWalletCurrency = Usd then
               let maxFeeInUsd = maxProtocolAndBankFee usdPaymentAmount;
                   usdCalculatedMaxFeeAmount = convertFromUsd priceRatio maxFeeInUsd
               in if \<not> isFromNoAmountInvoice then
                    (if amount btcCalculatedMaxFeeAmount > amount usdCalculatedMaxFeeAmount
                     then btcCalculatedMaxFeeAmount else usdCalculatedMaxFeeAmount)
                  else usdCalculatedMaxFeeAmount
             else btcCalculatedMaxFeeAmount);
          calculatedMinFeeAmount = convertFromUsd priceRatio ONE_CENT
      in if (senderWalletCurrency = Btc \<or> amount maxFeeAmount > amount calculatedMinFeeAmount) \<and>
            amount maxFeeAmount > amount calculatedMaxFeeAmount
         then Inl MaxFeeTooLargeForRoutelessPaymentError
         else Inr ())"

text \<open>Of lnd's route only the two fields the code reads are modelled.\<close>

record raw_route =
  safe_fee :: jsnum
  total_mtokens :: "string option"

definition feeFromRawRoute :: "raw_route \<Rightarrow> error + payment_amount" where
  "feeFromRawRoute rawRoute = paymentAmountFromNumber (js_ceil (safe_fee rawRoute)) Btc"

subsection \<open>withdrawal-fee-calculator.ts and deposit-fee-calculator.ts\<close>

record onchain_withdrawal_config =
  thresholdImbalance :: payment_amount
  feeRatioAsBasisPoints :: int

record withdrawal_fee =
  totalFee :: payment_amount
  bankFee :: payment_amount

definition withdrawalFee ::
  "onchain_withdrawal_config \<Rightarrow> payment_amount \<Rightarrow> payment_amount \<Rightarrow> payment_amount \<Rightarrow>
   payment_amount \<Rightarrow> withdrawal_fee" where
  "withdrawalFee cfg minerFee amt minBankFee imbalance =
     (let amountWithImbalanceCalcs =
            \<lparr>currency = currency amt,
             amount = amount imbalance - amount (thresholdImbalance cfg) + amount amt\<rparr>;
          baseAmount = calc_max (calc_min amountWithImbalanceCalcs [amt]) [ZERO_SATS];
          fee = calc_max minBankFee [mulBasisPoints baseAmount (feeRatioAsBasisPoints cfg)]
      in \<lparr>totalFee = calc_add fee minerFee, bankFee = fee\<rparr>)"

definition onChainDepositFee ::
  "payment_amount \<Rightarrow> payment_amount \<Rightarrow> payment_amount \<Rightarrow> int \<Rightarrow> payment_amount" where
  "onChainDepositFee amt minBankFee minBankFeeThreshold ratio =
     (if amount amt < amount minBankFeeThreshold then minBankFee
      else if ratio = 0 then ZERO_SATS
      else mulBasisPoints amt ratio)"

definition lnDepositFee :: payment_amount where
  "lnDepositFee = ZERO_SATS"

subsection \<open>imbalance-calculator.ts\<close>

text \<open>
  The volume functions come from the ledger facade and the time of the call from the clock;
  both are arguments. A \<open>Date\<close> is its number of milliseconds.
\<close>

datatype withdrawal_fee_method = flat | proportionalOnImbalance

type_synonym volume_fn = "wallet_descriptor \<Rightarrow> int \<Rightarrow> error + payment_amount"

definition MS_PER_DAY :: int where
  "MS_PER_DAY = 24 * (60 * 60 * 1000)"

definition getNetInboundFlow :: "volume_fn \<Rightarrow> wallet_descriptor \<Rightarrow> int \<Rightarrow> error + jsnum" where
  "getNetInboundFlow netInVolumeAmountFn wallet since =
     rbind (netInVolumeAmountFn wallet since) (\<lambda>volumeAmount. Inr (Number_big (amount volumeAmount)))"

definition getSwapOutImbalanceAmount ::
  "withdrawal_fee_method \<Rightarrow> volume_fn \<Rightarrow> volume_fn \<Rightarrow> int \<Rightarrow> int \<Rightarrow> wallet_descriptor \<Rightarrow>
   error + payment_amount" where
  "getSwapOutImbalanceAmount method lightningFn onChainFn sinceDaysAgo now wallet =
     (let since = now - sinceDaysAgo * MS_PER_DAY in
      if method = flat then paymentAmountFromNumber (Fin 0) (wallet_currency wallet)
      else rbind (getNetInboundFlow lightningFn wallet since) (\<lambda>lnNetInbound.
           rbind (getNetInboundFlow onChainFn wallet since) (\<lambda>onChainNetInbound.
             paymentAmountFromNumber (js_sub lnNetInbound onChainNetInbound)
               (wallet_currency wallet))))"

subsection \<open>fee-reimbursement.ts\<close>

definition getReimbursement ::
  "amount_pair \<Rightarrow> price_ratio \<Rightarrow> payment_amount \<Rightarrow> error + amount_pair" where
  "getReimbursement prepaidFeeAmount priceRatio actualFee =
     (let feeDifferenceBtc = amount (btc prepaidFeeAmount) - amount actualFee in
      if feeDifferenceBtc < 0 then Inl FeeDifferenceError
      else let feeDifferenceBtcAmount = \<lparr>currency = Btc, amount = feeDifferenceBtc\<rparr>;
               feeDifferenceUsdAmount =
                 (if amount actualFee = 0 then convertFromBtc priceRatio feeDifferenceBtcAmount
                  else convertFromBtcToFloor priceRatio feeDifferenceBtcAmount)
           in Inr \<lparr>btc = feeDifferenceBtcAmount, usd = feeDifferenceUsdAmount\<rparr>)"

subsection \<open>Laws of the fee policies\<close>

definition round_div :: "int \<Rightarrow> int \<Rightarrow> int" where
  "round_div n b = (if 2 * (n mod b) > b then n div b + 1 else n div b)"

lemma mulBasisPoints_amount:
  "0 \<le> amount a \<Longrightarrow> 0 \<le> bp \<Longrightarrow> amount (mulBasisPoints a bp) = round_div (amount a * bp) 10000"
  by (simp add: mulBasisPoints_def divRound_amount round_div_def)

lemma round_div_mono: "0 < b \<Longrightarrow> m \<le> n \<Longrightarrow> round_div m b \<le> round_div n b"
  unfolding round_div_def by (rule round_nearest_mono)

lemma round_div_multiple: "0 < b \<Longrightarrow> round_div (n * b) b = n"
  by (simp add: round_div_def)

lemma round_div_nonneg: "0 < b \<Longrightarrow> 0 \<le> n \<Longrightarrow> 0 \<le> round_div n b"
  using round_div_mono [of b 0 n] by (simp add: round_div_def)

lemma mulBasisPoints_bounds:
  assumes "0 \<le> amount a" and "0 \<le> bp"
  shows "0 \<le> amount (mulBasisPoints a bp)"
    and "bp \<le> 10000 \<Longrightarrow> amount (mulBasisPoints a bp) \<le> amount a"
proof -
  show "0 \<le> amount (mulBasisPoints a bp)"
    using assms by (simp add: mulBasisPoints_amount round_div_nonneg)
  assume "bp \<le> 10000"
  then have "amount a * bp \<le> amount a * 10000"
    using assms(1) by (rule mult_left_mono)
  from round_div_mono [OF _ this, of 10000] show "amount (mulBasisPoints a bp) \<le> amount a"
    using assms by (simp add: mulBasisPoints_amount round_div_multiple)
qed

lemma mulBasisPoints_nearest:
  "0 \<le> amount a \<Longrightarrow> 0 \<le> bp \<Longrightarrow>
   2 * \<bar>amount (mulBasisPoints a bp) * 10000 - amount a * bp\<bar> \<le> 10000"
  using divRound_nearest [of "\<lparr>currency = currency a, amount = amount a * bp\<rparr>" 10000]
  by (simp add: mulBasisPoints_def)

lemma mulBasisPoints_mono:
  "0 \<le> amount a \<Longrightarrow> amount a \<le> amount b \<Longrightarrow> 0 \<le> bp \<Longrightarrow>
   amount (mulBasisPoints a bp) \<le> amount (mulBasisPoints b bp)"
  by (simp add: mulBasisPoints_amount round_div_mono mult_right_mono)

lemma maxFee_eq:
  assumes "0 < amount a"
  shows "amount (maxProtocolAndBankFee a) = max 1 (round_div (amount a * 50) 10000)"
  using assms round_div_nonneg [of 10000 "amount a * 50"]
  by (simp add: maxProtocolAndBankFee_def FEECAP_BASIS_POINTS_def mulBasisPoints_amount Let_def max_def)

lemma maxFee_currency [simp]: "currency (maxProtocolAndBankFee a) = currency a"
  by (simp add: maxProtocolAndBankFee_def Let_def)

lemma maxFee_zero: "amount a = 0 \<Longrightarrow> amount (maxProtocolAndBankFee a) = 0"
  by (simp add: maxProtocolAndBankFee_def)

subsection \<open>Properties\<close>

text \<open>C18: the cap on the lightning fee of a positive amount is half a percent of it rounded to
  the nearest unit and at least one unit; it never exceeds the amount, grows with it, and is
  zero for a zero amount.\<close>
theorem maxProtocolAndBankFee_bounds:
  assumes "0 < amount a" and "amount a \<le> amount b"
  shows "1 \<le> amount (maxProtocolAndBankFee a) \<and>
    amount (maxProtocolAndBankFee a) \<le> amount a \<and>
    amount (maxProtocolAndBankFee a) \<le> amount (maxProtocolAndBankFee b) \<and>
    (100 < amount a \<longrightarrow> \<bar>200 * amount (maxProtocolAndBankFee a) - amount a\<bar> \<le> 100) \<and>
    maxProtocolAndBankFee ZERO_SATS = ZERO_SATS"
proof (intro conjI impI)
  let ?f = "round_div (amount a * 50) 10000"
  have "?f \<le> amount a"
    using mulBasisPoints_bounds(2) [of a 50] assms by (simp add: mulBasisPoints_amount)
  then show "amount (maxProtocolAndBankFee a) \<le> amount a"
    using assms by (simp add: maxFee_eq)
  show "1 \<le> amount (maxProtocolAndBankFee a)"
    using assms by (simp add: maxFee_eq)
  have "?f \<le> round_div (amount b * 50) 10000"
    using assms by (simp add: round_div_mono)
  then show "amount (maxProtocolAndBankFee a) \<le> amount (maxProtocolAndBankFee b)"
    using assms by (auto simp: maxFee_eq max_def)
  show "maxProtocolAndBankFee ZERO_SATS = ZERO_SATS"
    by (simp add: maxProtocolAndBankFee_def)
  assume "100 < amount a"
  then have "1 \<le> ?f"
    using round_div_mono [of 10000 "101 * 50" "amount a * 50"] by (simp add: round_div_def)
  moreover have "2 * \<bar>?f * 10000 - amount a * 50\<bar> \<le> 10000"
    using mulBasisPoints_nearest [of a 50] assms by (simp add: mulBasisPoints_amount)
  ultimately show "\<bar>200 * amount (maxProtocolAndBankFee a) - amount a\<bar> \<le> 100"
    using assms by (simp add: maxFee_eq max_def)
qed

lemma maxProtocolAndBankFee_bounds_witness:
  "\<bar>200 * amount (maxProtocolAndBankFee \<lparr>currency = Btc, amount = 1234\<rparr>) - 1234\<bar> \<le> (100 :: int)"
  using maxProtocolAndBankFee_bounds [of "\<lparr>currency = Btc, amount = 1234\<rparr>" "\<lparr>currency = Btc, amount = 2000\<rparr>"]
  by simp

text \<open>Exactly when the check of a client-supplied maximal fee accepts it. From a bitcoin
  wallet the fee may not exceed the cap of the satoshi amount. From a dollar wallet it may not
  exceed the larger of the value of one cent and the converted cap of the cent amount, which
  for an invoice that fixes the amount is raised to the satoshi cap. The only error is
  \<open>MaxFeeTooLargeForRoutelessPaymentError\<close>.\<close>
lemma verifyMaxFee_accepts_iff:
  "verifyMaxFee maxFee btcAmt usdAmt pr cur noAmount =
     (let cap = amount (maxProtocolAndBankFee btcAmt);
          usdCap = amount (convertFromUsd pr (maxProtocolAndBankFee usdAmt));
          cent = amount (convertFromUsd pr ONE_CENT);
          limit = (case cur of Btc \<Rightarrow> cap
                   | Usd \<Rightarrow> max cent (if noAmount then usdCap else max cap usdCap))
      in if amount maxFee \<le> limit then Inr () else Inl MaxFeeTooLargeForRoutelessPaymentError)"
  by (cases cur) (auto simp: verifyMaxFee_def Let_def max_def)

text \<open>C19: the withdrawal fee. The bank fee is at least the configured minimum and at most the
  larger of the minimum and the full percentage of the amount; below the imbalance threshold
  only the minimum is charged, and above it the full percentage; the total adds the miner
  fee. All for a non-negative amount, ratio and minimum.\<close>
theorem withdrawalFee_bounds:
  assumes "0 \<le> amount amt" and "0 \<le> amount minBankFee" and "0 \<le> feeRatioAsBasisPoints cfg"
    and "w = withdrawalFee cfg minerFee amt minBankFee imbalance"
  shows "amount minBankFee \<le> amount (bankFee w) \<and>
    amount (bankFee w) \<le>
      max (amount minBankFee) (amount (mulBasisPoints amt (feeRatioAsBasisPoints cfg))) \<and>
    (amount imbalance + amount amt \<le> amount (thresholdImbalance cfg) \<longrightarrow>
      amount (bankFee w) = amount minBankFee) \<and>
    (amount (thresholdImbalance cfg) \<le> amount imbalance \<longrightarrow>
      amount (bankFee w) =
        max (amount minBankFee) (amount (mulBasisPoints amt (feeRatioAsBasisPoints cfg)))) \<and>
    amount (totalFee w) = amount (bankFee w) + amount minerFee"
proof -
  let ?r = "feeRatioAsBasisPoints cfg"
  define b where "b = calc_max (calc_min \<lparr>currency = currency amt,
      amount = amount imbalance - amount (thresholdImbalance cfg) + amount amt\<rparr> [amt]) [ZERO_SATS]"
  have b: "amount b =
      max 0 (min (amount imbalance - amount (thresholdImbalance cfg) + amount amt) (amount amt))"
    by (simp add: b_def max.commute)
  have fee: "amount (bankFee w) = max (amount minBankFee) (amount (mulBasisPoints b ?r))"
    by (simp add: assms(4) withdrawalFee_def Let_def flip: b_def)
  have "amount (mulBasisPoints b ?r) \<le> amount (mulBasisPoints amt ?r)"
    using assms b by (intro mulBasisPoints_mono) auto
  moreover have "amount (mulBasisPoints b ?r) = 0" if "amount b = 0"
    using that assms by (simp add: mulBasisPoints_amount round_div_def)
  moreover have "amount (mulBasisPoints b ?r) = amount (mulBasisPoints amt ?r)"
    if "amount b = amount amt"
    using that assms by (simp add: mulBasisPoints_amount)
  moreover have "amount (totalFee w) = amount (bankFee w) + amount minerFee"
    by (simp add: assms(4) withdrawalFee_def Let_def)
  ultimately show ?thesis
    using assms(1,2) b fee by (auto simp: max_def min_def)
qed

lemma withdrawalFee_bounds_witness:
  "amount (bankFee (withdrawalFee
     \<lparr>thresholdImbalance = \<lparr>currency = Btc, amount = 50\<rparr>, feeRatioAsBasisPoints = 30\<rparr>
     \<lparr>currency = Btc, amount = 7\<rparr> \<lparr>currency = Btc, amount = 100000\<rparr>
     \<lparr>currency = Btc, amount = 20\<rparr> \<lparr>currency = Btc, amount = 60\<rparr>)) = 300"
  using withdrawalFee_bounds [of "\<lparr>currency = Btc, amount = 100000\<rparr>" "\<lparr>currency = Btc, amount = 20\<rparr>"
      "\<lparr>thresholdImbalance = \<lparr>currency = Btc, amount = 50\<rparr>, feeRatioAsBasisPoints = 30\<rparr>" _
      "\<lparr>currency = Btc, amount = 7\<rparr>" "\<lparr>currency = Btc, amount = 60\<rparr>", OF _ _ _ refl]
  by (simp add: mulBasisPoints_amount round_div_def)

text \<open>C15: the reimbursement of a prepaid lightning fee. It fails exactly when the actual fee
  exceeds the prepaid one; otherwise the satoshi part is the difference, and, when the cents
  were prepaid rounded up, the cents given back together with the cents of the actual fee
  never exceed what was prepaid: the rounding is in the bank's favour.\<close>
theorem getReimbursement_conserves:
  assumes "WalletPriceRatio u b = Inr pr" and "0 < amount u" and "0 < amount b"
    and "0 \<le> amount actualFee"
    and "usd prepaid = convertFromBtcToCeil pr (btc prepaid)"
  shows "(getReimbursement prepaid pr actualFee = Inl FeeDifferenceError \<longleftrightarrow>
      amount (btc prepaid) < amount actualFee) \<and>
    (\<forall>r. getReimbursement prepaid pr actualFee = Inr r \<longrightarrow>
      amount (btc r) + amount actualFee = amount (btc prepaid) \<and> 0 \<le> amount (btc r) \<and>
      0 \<le> amount (usd r) \<and>
      amount (usd r) + amount (convertFromBtcToCeil pr actualFee) \<le> amount (usd prepaid))"
proof -
  have v: "valid_ratio pr"
    by (rule WalletPriceRatio_valid [OF assms(1-3)])
  let ?d = "amount (btc prepaid) - amount actualFee"
  note f = convertFromWallet_amount(3) [of pr actualFee] convertFromWallet_amount(3) [of pr "btc prepaid"]
  have "amount (usd r) + amount (convertFromBtcToCeil pr actualFee) \<le> amount (usd prepaid)"
    and "0 \<le> amount (usd r)"
    if "getReimbursement prepaid pr actualFee = Inr r" for r
    using that assms(4,5) f wallet_conv.conv_le_ceil [OF v, of ?d] wallet_conv.floor_nonneg [OF v, of ?d]
      wallet_conv.floor_ceil_add [OF v, of ?d "amount actualFee"] wallet_conv.conv_nonneg [OF v, of ?d]
      wallet_conv.ceil_zero [of pr]
    by (auto simp: getReimbursement_def Let_def convertFromBtc_def convertFromBtcToFloor_def
        convertFromBtcToCeil_def split: if_splits)
  then show ?thesis
    by (auto simp: getReimbursement_def Let_def split: if_splits)
qed

lemma getReimbursement_conserves_witness:
  "amount (usd (projr (getReimbursement \<lparr>btc = \<lparr>currency = Btc, amount = 50\<rparr>,
      usd = \<lparr>currency = Usd, amount = 2\<rparr>\<rparr>
      \<lparr>ratio_other = 3, ratio_walletAmount = \<lparr>currency = Btc, amount = 100\<rparr>\<rparr>
      \<lparr>currency = Btc, amount = 10\<rparr>))) \<le> 1"
  using getReimbursement_conserves [of "\<lparr>currency = Usd, amount = 3\<rparr>" "\<lparr>currency = Btc, amount = 100\<rparr>"
      "\<lparr>ratio_other = 3, ratio_walletAmount = \<lparr>currency = Btc, amount = 100\<rparr>\<rparr>"
      "\<lparr>currency = Btc, amount = 10\<rparr>"
      "\<lparr>btc = \<lparr>currency = Btc, amount = 50\<rparr>, usd = \<lparr>currency = Usd, amount = 2\<rparr>\<rparr>"]
  by (simp add: WalletPriceRatio_Inr convertFromBtcToCeil_def convertFromWalletToCeil_def divCeil_def
      getReimbursement_def Let_def)

end
