(* ===== verification/Ledger_Entry.thy ===== *)
theory Ledger_Entry
  imports Fees
begin

text \<open>
  The double-entry layer: \<open>services/ledger/domain/entry-builder.ts\<close>,
  \<open>fee-only-entry-builder.ts\<close>, \<open>accounts.ts\<close> and \<open>index.ts\<close>. The entry itself is an object of
  the medici package: its four operations the code uses are a record of functions passed to
  the builder, and what the code relies on of them is the predicate \<open>medici_laws\<close>. The
  builders mutate the entry; here it is passed on.
\<close>

subsection \<open>Transaction metadata\<close>

datatype mval =
    MStr string
  | MNum jsnum
  | MBool bool
  | MAddrs "string list"
  | MUndef

type_synonym tx_metadata = "string \<Rightarrow> mval option"

definition MOpt :: "string option \<Rightarrow> mval" where
  "MOpt s = (case s of None \<Rightarrow> MUndef | Some t \<Rightarrow> MStr t)"

fun currency_str :: "wallet_currency \<Rightarrow> string" where
  "currency_str Usd = ''USD''"
| "currency_str Btc = ''BTC''"

text \<open>\<open>{...a, ...b}\<close> is \<open>a ++ b\<close>: a key present in \<open>b\<close> overrides, also when its value is undefined.\<close>

definition spread_opt :: "tx_metadata option \<Rightarrow> tx_metadata" where
  "spread_opt m = (case m of None \<Rightarrow> Map.empty | Some x \<Rightarrow> x)"

definition line_meta :: "tx_metadata \<Rightarrow> wallet_currency \<Rightarrow> string option \<Rightarrow> tx_metadata" where
  "line_meta m cur externalId =
     m(''currency'' \<mapsto> MStr (currency_str cur), ''external_id'' \<mapsto> MOpt externalId)"

subsection \<open>The medici entry\<close>

record medici_tx =
  mt_account :: string
  mt_debit :: jsnum
  mt_credit :: jsnum
  mt_meta :: tx_metadata

record 'e medici =
  md_debit :: "'e \<Rightarrow> string \<Rightarrow> jsnum \<Rightarrow> tx_metadata \<Rightarrow> 'e"
  md_credit :: "'e \<Rightarrow> string \<Rightarrow> jsnum \<Rightarrow> tx_metadata \<Rightarrow> 'e"
  md_transactions :: "'e \<Rightarrow> medici_tx list"
  md_set_transactions :: "'e \<Rightarrow> medici_tx list \<Rightarrow> 'e"

definition medici_laws :: "'e medici \<Rightarrow> bool" where
  "medici_laws md \<longleftrightarrow>
     (\<forall>e a n m. md_transactions md (md_debit md e a n m) =
        md_transactions md e @ [\<lparr>mt_account = a, mt_debit = n, mt_credit = Fin 0, mt_meta = m\<rparr>]) \<and>
     (\<forall>e a n m. md_transactions md (md_credit md e a n m) =
        md_transactions md e @ [\<lparr>mt_account = a, mt_debit = Fin 0, mt_credit = n, mt_meta = m\<rparr>]) \<and>
     (\<forall>e ts. md_transactions md (md_set_transactions md e ts) = ts)"

subsection \<open>accounts.ts and index.ts\<close>

record account_descriptor =
  ad_id :: string
  ad_currency :: wallet_currency

definition assetsMainAccount :: string where
  "assetsMainAccount = ''Assets''"

definition lndLedgerAccountDescriptor :: account_descriptor where
  "lndLedgerAccountDescriptor =
     \<lparr>ad_id = assetsMainAccount @ '':Reserve:Lightning'', ad_currency = Btc\<rparr>"

definition onChainLedgerAccountDescriptor :: account_descriptor where
  "onChainLedgerAccountDescriptor =
     \<lparr>ad_id = assetsMainAccount @ '':OnChain'', ad_currency = Btc\<rparr>"

definition coldStorageAccountDescriptor :: account_descriptor where
  "coldStorageAccountDescriptor =
     \<lparr>ad_id = assetsMainAccount @ '':Reserve:Bitcoind'', ad_currency = Btc\<rparr>"

definition liabilitiesMainAccount :: string where
  "liabilitiesMainAccount = ''Liabilities''"

definition toLedgerAccountId :: "string \<Rightarrow> string" where
  "toLedgerAccountId walletId = liabilitiesMainAccount @ '':'' @ walletId"

definition toLedgerAccountDescriptor :: "wallet_descriptor \<Rightarrow> account_descriptor" where
  "toLedgerAccountDescriptor w =
     \<lparr>ad_id = toLedgerAccountId (wallet_id w), ad_currency = wallet_currency w\<rparr>"

subsection \<open>entry-builder.ts\<close>

record static_account_ids =
  bankOwnerAccountId :: string
  dealerBtcAccountId :: string
  dealerUsdAccountId :: string

record 'e eb_config =
  eb_entry :: 'e
  eb_metadata :: tx_metadata
  eb_additional :: tx_metadata
  eb_accounts :: static_account_ids
  eb_externalId :: "string option"

record 'e eb_fee_state = "'e eb_config" +
  eb_usdWithFees :: payment_amount
  eb_btcWithFees :: payment_amount

record 'e eb_debit_state = "'e eb_fee_state" +
  eb_usdBankFee :: payment_amount
  eb_btcBankFee :: payment_amount

record 'e eb_credit_state = "'e eb_debit_state" +
  eb_debitCurrency :: wallet_currency

definition withTotalAmount ::
  "'e eb_config \<Rightarrow> payment_amount \<Rightarrow> payment_amount \<Rightarrow> 'e eb_fee_state" where
  "withTotalAmount st usdWithFees btcWithFees =
     eb_config.extend st (eb_fee_state.fields usdWithFees btcWithFees)"

definition withBankFee ::
  "'e medici \<Rightarrow> 'e eb_fee_state \<Rightarrow> payment_amount \<Rightarrow> payment_amount \<Rightarrow> 'e eb_debit_state" where
  "withBankFee md st btcBankFee usdBankFee =
     (let entry =
            (if amount btcBankFee > 0 then
               md_credit md (eb_entry st) (bankOwnerAccountId (eb_accounts st))
                 (Number_big (amount btcBankFee))
                 (line_meta (eb_metadata st ++ eb_additional st) (currency btcBankFee) (eb_externalId st))
             else eb_entry st)
      in eb_fee_state.extend (st\<lparr>eb_entry := entry\<rparr>) (eb_debit_state.fields usdBankFee btcBankFee))"

definition debitAccount ::
  "'e medici \<Rightarrow> 'e eb_debit_state \<Rightarrow> account_descriptor \<Rightarrow> tx_metadata option \<Rightarrow> 'e eb_credit_state" where
  "debitAccount md st acc additionalMetadata =
     (let debitMetadata = eb_metadata st ++ spread_opt additionalMetadata;
          amt = (if ad_currency acc = Btc then eb_btcWithFees st else eb_usdWithFees st);
          entry = md_debit md (eb_entry st) (ad_id acc) (Number_big (amount amt))
                    (line_meta debitMetadata (currency amt) (eb_externalId st))
      in eb_debit_state.extend (st\<lparr>eb_entry := entry\<rparr>) (eb_credit_state.fields (ad_currency acc)))"

definition debitOffChain :: "'e medici \<Rightarrow> 'e eb_debit_state \<Rightarrow> 'e eb_credit_state" where
  "debitOffChain md st = debitAccount md st lndLedgerAccountDescriptor (Some (eb_additional st))"

definition debitOnChain :: "'e medici \<Rightarrow> 'e eb_debit_state \<Rightarrow> 'e eb_credit_state" where
  "debitOnChain md st = debitAccount md st onChainLedgerAccountDescriptor (Some (eb_additional st))"

definition debitColdStorage :: "'e medici \<Rightarrow> 'e eb_debit_state \<Rightarrow> 'e eb_credit_state" where
  "debitColdStorage md st = debitAccount md st coldStorageAccountDescriptor (Some (eb_additional st))"

definition addUsdToBtcConversionToDealer ::
  "'e medici \<Rightarrow> 'e eb_credit_state \<Rightarrow> payment_amount \<Rightarrow> payment_amount \<Rightarrow> 'e" where
  "addUsdToBtcConversionToDealer md st btcAmt usdAmt =
     (let dealerMetadata = eb_metadata st ++ eb_additional st;
          entry = md_debit md (eb_entry st) (dealerBtcAccountId (eb_accounts st))
                    (Number_big (amount btcAmt))
                    (line_meta dealerMetadata (currency btcAmt) (eb_externalId st))
      in md_credit md entry (dealerUsdAccountId (eb_accounts st)) (Number_big (amount usdAmt))
           (line_meta dealerMetadata (currency usdAmt) (eb_externalId st)))"

definition addBtcToUsdConversionToDealer ::
  "'e medici \<Rightarrow> 'e eb_credit_state \<Rightarrow> payment_amount \<Rightarrow> payment_amount \<Rightarrow> 'e" where
  "addBtcToUsdConversionToDealer md st btcAmt usdAmt =
     (let dealerMetadata = eb_metadata st ++ eb_additional st;
          entry = md_credit md (eb_entry st) (dealerBtcAccountId (eb_accounts st))
                    (Number_big (amount btcAmt))
                    (line_meta dealerMetadata (currency btcAmt) (eb_externalId st))
      in md_debit md entry (dealerUsdAccountId (eb_accounts st)) (Number_big (amount usdAmt))
           (line_meta dealerMetadata (currency usdAmt) (eb_externalId st)))"

definition addDealerDebitsAndCredits ::
  "'e medici \<Rightarrow> 'e eb_credit_state \<Rightarrow> account_descriptor \<Rightarrow> 'e" where
  "addDealerDebitsAndCredits md st acc =
     (if eb_debitCurrency st = Usd \<and> ad_currency acc = Usd \<and> amount (eb_usdBankFee st) > 0
      then addUsdToBtcConversionToDealer md st (eb_btcBankFee st) (eb_usdBankFee st)
      else if eb_debitCurrency st = Usd \<and> ad_currency acc = Btc
      then addUsdToBtcConversionToDealer md st (eb_btcWithFees st) (eb_usdWithFees st)
      else if eb_debitCurrency st = Btc \<and> ad_currency acc = Usd
      then addBtcToUsdConversionToDealer md st
             (calc_sub (eb_btcWithFees st) (eb_btcBankFee st))
             (calc_sub (eb_usdWithFees st) (eb_usdBankFee st))
      else eb_entry st)"

definition removeZeroAmountEntries :: "'e medici \<Rightarrow> 'e \<Rightarrow> 'e" where
  "removeZeroAmountEntries md entry =
     md_set_transactions md entry
       (filter (\<lambda>txn. \<not> (js_eq (mt_debit txn) (Fin 0) \<and> js_eq (mt_credit txn) (Fin 0)))
          (md_transactions md entry))"

definition creditAccount ::
  "'e medici \<Rightarrow> 'e eb_credit_state \<Rightarrow> account_descriptor \<Rightarrow> tx_metadata option \<Rightarrow> 'e" where
  "creditAccount md st acc additionalMetadata =
     (let updatedEntry = addDealerDebitsAndCredits md st acc;
          usdWithOutFee = calc_sub (eb_usdWithFees st) (eb_usdBankFee st);
          btcWithOutFee = calc_sub (eb_btcWithFees st) (eb_btcBankFee st);
          creditAmount = (if ad_currency acc = Usd then usdWithOutFee else btcWithOutFee);
          creditMetadata = eb_metadata st ++ spread_opt additionalMetadata
      in removeZeroAmountEntries md
           (md_credit md updatedEntry (ad_id acc) (Number_big (amount creditAmount))
              (line_meta creditMetadata (currency creditAmount) (eb_externalId st))))"

definition creditOffChain :: "'e medici \<Rightarrow> 'e eb_credit_state \<Rightarrow> 'e" where
  "creditOffChain md st = creditAccount md st lndLedgerAccountDescriptor (Some (eb_additional st))"

definition creditOnChain :: "'e medici \<Rightarrow> 'e eb_credit_state \<Rightarrow> 'e" where
  "creditOnChain md st = creditAccount md st onChainLedgerAccountDescriptor (Some (eb_additional st))"

definition creditColdStorage :: "'e medici \<Rightarrow> 'e eb_credit_state \<Rightarrow> 'e" where
  "creditColdStorage md st = creditAccount md st coldStorageAccountDescriptor (Some (eb_additional st))"

subsection \<open>fee-only-entry-builder.ts\<close>

record 'e fee_only_config =
  fo_entry :: 'e
  fo_metadata :: tx_metadata
  fo_bankOwnerAccountId :: string
  fo_btcFee :: payment_amount

definition fo_debitAccount ::
  "'e medici \<Rightarrow> 'e fee_only_config \<Rightarrow> account_descriptor \<Rightarrow> 'e fee_only_config" where
  "fo_debitAccount md st acc =
     st\<lparr>fo_entry := md_debit md (fo_entry st) (ad_id acc) (Number_big (amount (fo_btcFee st)))
       ((fo_metadata st)(''currency'' \<mapsto> MStr (currency_str (currency (fo_btcFee st)))))\<rparr>"

definition fo_creditAccount :: "'e medici \<Rightarrow> 'e fee_only_config \<Rightarrow> account_descriptor \<Rightarrow> 'e" where
  "fo_creditAccount md st acc =
     md_credit md (fo_entry st) (ad_id acc) (Number_big (amount (fo_btcFee st)))
       ((fo_metadata st)(''currency'' \<mapsto> MStr (currency_str (currency (fo_btcFee st)))))"

definition fo_bankOwner :: "'e fee_only_config \<Rightarrow> account_descriptor" where
  "fo_bankOwner st = \<lparr>ad_id = fo_bankOwnerAccountId st, ad_currency = currency (fo_btcFee st)\<rparr>"

definition debitBankOwner :: "'e medici \<Rightarrow> 'e fee_only_config \<Rightarrow> 'e fee_only_config" where
  "debitBankOwner md st = fo_debitAccount md st (fo_bankOwner st)"

definition fo_debitOnChain :: "'e medici \<Rightarrow> 'e fee_only_config \<Rightarrow> 'e fee_only_config" where
  "fo_debitOnChain md st = fo_debitAccount md st onChainLedgerAccountDescriptor"

definition creditBankOwner :: "'e medici \<Rightarrow> 'e fee_only_config \<Rightarrow> 'e" where
  "creditBankOwner md st = fo_creditAccount md st (fo_bankOwner st)"

definition fo_creditOnChain :: "'e medici \<Rightarrow> 'e fee_only_config \<Rightarrow> 'e" where
  "fo_creditOnChain md st = fo_creditAccount md st onChainLedgerAccountDescriptor"

subsection \<open>The balance of an entry\<close>

text \<open>
  The balance of the lines of one currency: debits minus credits. A line belongs to the
  currency its metadata names.
\<close>

definition num_val :: "jsnum \<Rightarrow> rat" where
  "num_val x = (case x of Fin r \<Rightarrow> r | _ \<Rightarrow> 0)"

definition in_currency :: "wallet_currency \<Rightarrow> medici_tx \<Rightarrow> bool" where
  "in_currency c t \<longleftrightarrow> mt_meta t ''currency'' = Some (MStr (currency_str c))"

definition ledger_balance :: "wallet_currency \<Rightarrow> medici_tx list \<Rightarrow> rat" where
  "ledger_balance c ts =
     sum_list (map (\<lambda>t. if in_currency c t then num_val (mt_debit t) - num_val (mt_credit t) else 0) ts)"

lemma ledger_balance_append [simp]:
  "ledger_balance c (xs @ ys) = ledger_balance c xs + ledger_balance c ys"
  by (simp add: ledger_balance_def)

lemma ledger_balance_Nil [simp]: "ledger_balance c [] = 0"
  by (simp add: ledger_balance_def)

lemma currency_str_inj [simp]: "currency_str c = currency_str d \<longleftrightarrow> c = d"
  by (cases c; cases d) simp_all

lemma in_currency_line [simp]:
  "in_currency c \<lparr>mt_account = a, mt_debit = x, mt_credit = y, mt_meta = line_meta m d e\<rparr> \<longleftrightarrow> c = d"
  by (auto simp: in_currency_def line_meta_def)

lemma in_currency_upd [simp]:
  "in_currency c \<lparr>mt_account = a, mt_debit = x, mt_credit = y,
     mt_meta = m(''currency'' \<mapsto> MStr (currency_str d))\<rparr> \<longleftrightarrow> c = d"
  by (auto simp: in_currency_def)

lemma ledger_balance_line [simp]:
  "ledger_balance c (\<lparr>mt_account = a, mt_debit = x, mt_credit = y, mt_meta = m\<rparr> # ts) =
     (if in_currency c \<lparr>mt_account = a, mt_debit = x, mt_credit = y, mt_meta = m\<rparr>
      then num_val x - num_val y else 0) + ledger_balance c ts"
  by (simp add: ledger_balance_def)

lemma num_val_Fin [simp]: "num_val (Fin r) = r"
  by (simp add: num_val_def)

lemma num_val_safe [simp]: "safe_int n \<Longrightarrow> num_val (Number_big n) = of_int n"
  by (simp add: Number_big_safe)

lemma js_eq_zero: "js_eq x (Fin 0) \<Longrightarrow> num_val x = 0"
  by (auto simp: js_eq_def num_val_def split: jsnum.splits)

lemma ledger_balance_filter_zero:
  "ledger_balance c (filter (\<lambda>t. \<not> (js_eq (mt_debit t) (Fin 0) \<and> js_eq (mt_credit t) (Fin 0))) ts) =
   ledger_balance c ts"
  by (induction ts) (auto simp: ledger_balance_def js_eq_zero)

lemma medici_transactions:
  assumes "medici_laws md"
  shows "md_transactions md (md_debit md e a n m) =
      md_transactions md e @ [\<lparr>mt_account = a, mt_debit = n, mt_credit = Fin 0, mt_meta = m\<rparr>]"
    and "md_transactions md (md_credit md e a n m) =
      md_transactions md e @ [\<lparr>mt_account = a, mt_debit = Fin 0, mt_credit = n, mt_meta = m\<rparr>]"
    and "md_transactions md (md_set_transactions md e ts) = ts"
  using assms by (simp_all add: medici_laws_def)

text \<open>The chain of builder calls every facade function makes.\<close>

definition build_entry ::
  "'e medici \<Rightarrow> 'e eb_config \<Rightarrow> amount_pair \<Rightarrow> amount_pair \<Rightarrow> account_descriptor \<Rightarrow> tx_metadata option \<Rightarrow>
   account_descriptor \<Rightarrow> tx_metadata option \<Rightarrow> 'e" where
  "build_entry md cfg tot fee dacc dmeta cacc cmeta =
     creditAccount md
       (debitAccount md (withBankFee md (withTotalAmount cfg (usd tot) (btc tot)) (btc fee) (usd fee))
          dacc dmeta) cacc cmeta"

text \<open>
  The amounts of an entry: in their currencies, fees non-negative and at most the total, the
  totals in the range where \<open>number\<close> is exact, and a satoshi fee only together with a cent fee.
\<close>

definition entry_amounts_ok :: "amount_pair \<Rightarrow> amount_pair \<Rightarrow> bool" where
  "entry_amounts_ok tot fee \<longleftrightarrow>
     currency (btc tot) = Btc \<and> currency (usd tot) = Usd \<and>
     currency (btc fee) = Btc \<and> currency (usd fee) = Usd \<and>
     0 \<le> amount (btc fee) \<and> amount (btc fee) \<le> amount (btc tot) \<and> safe_int (amount (btc tot)) \<and>
     0 \<le> amount (usd fee) \<and> amount (usd fee) \<le> amount (usd tot) \<and> safe_int (amount (usd tot)) \<and>
     (0 < amount (btc fee) \<longrightarrow> 0 < amount (usd fee))"

lemma entry_amounts_safe:
  assumes "entry_amounts_ok tot fee"
  shows "safe_int (amount (btc fee))" "safe_int (amount (usd fee))"
    "safe_int (amount (btc tot) - amount (btc fee))" "safe_int (amount (usd tot) - amount (usd fee))"
  using assms by (auto simp: entry_amounts_ok_def safe_int_def)

lemmas stage_defs [entry_simps] = withTotalAmount_def withBankFee_def debitAccount_def
  eb_config.defs eb_fee_state.defs eb_debit_state.defs eb_credit_state.defs Let_def

lemma stage_fields [simp]:
  "eb_entry (withTotalAmount cfg u b) = eb_entry cfg"
  "eb_usdWithFees (withTotalAmount cfg u b) = u" "eb_btcWithFees (withTotalAmount cfg u b) = b"
  "eb_usdWithFees (withBankFee md fs bf uf) = eb_usdWithFees fs"
  "eb_btcWithFees (withBankFee md fs bf uf) = eb_btcWithFees fs"
  "eb_usdBankFee (withBankFee md fs bf uf) = uf" "eb_btcBankFee (withBankFee md fs bf uf) = bf"
  "eb_usdWithFees (debitAccount md ds acc m) = eb_usdWithFees ds"
  "eb_btcWithFees (debitAccount md ds acc m) = eb_btcWithFees ds"
  "eb_usdBankFee (debitAccount md ds acc m) = eb_usdBankFee ds"
  "eb_btcBankFee (debitAccount md ds acc m) = eb_btcBankFee ds"
  "eb_debitCurrency (debitAccount md ds acc m) = ad_currency acc"
  by (simp_all add: entry_simps)

text \<open>The effect of each stage on the balance of a currency.\<close>

definition amount_in :: "wallet_currency \<Rightarrow> payment_amount \<Rightarrow> rat" where
  "amount_in c a = (if currency a = c then num_val (Number_big (amount a)) else 0)"

lemma withBankFee_balance:
  assumes "medici_laws md"
  shows "ledger_balance c (md_transactions md (eb_entry (withBankFee md fs bf uf))) =
    ledger_balance c (md_transactions md (eb_entry fs)) - (if 0 < amount bf then amount_in c bf else 0)"
  by (simp add: entry_simps medici_transactions [OF assms] amount_in_def)

lemma debitAccount_balance:
  assumes "medici_laws md"
  shows "ledger_balance c (md_transactions md (eb_entry (debitAccount md ds acc m))) =
    ledger_balance c (md_transactions md (eb_entry ds)) +
      amount_in c (if ad_currency acc = Btc then eb_btcWithFees ds else eb_usdWithFees ds)"
  by (simp add: entry_simps medici_transactions [OF assms] amount_in_def)

lemma dealer_balance:
  assumes "medici_laws md"
  shows "ledger_balance c (md_transactions md (addUsdToBtcConversionToDealer md cs b u)) =
      ledger_balance c (md_transactions md (eb_entry cs)) + amount_in c b - amount_in c u"
    and "ledger_balance c (md_transactions md (addBtcToUsdConversionToDealer md cs b u)) =
      ledger_balance c (md_transactions md (eb_entry cs)) - amount_in c b + amount_in c u"
  by (simp_all add: addUsdToBtcConversionToDealer_def addBtcToUsdConversionToDealer_def Let_def
      medici_transactions [OF assms] amount_in_def)

lemma removeZero_balance:
  assumes "medici_laws md"
  shows "ledger_balance c (md_transactions md (removeZeroAmountEntries md e)) =
    ledger_balance c (md_transactions md e)"
  by (simp only: removeZeroAmountEntries_def medici_transactions [OF assms] ledger_balance_filter_zero)

lemma creditAccount_balance:
  assumes "medici_laws md"
  shows "ledger_balance c (md_transactions md (creditAccount md cs acc m)) =
    ledger_balance c (md_transactions md (addDealerDebitsAndCredits md cs acc)) -
      amount_in c (if ad_currency acc = Usd then calc_sub (eb_usdWithFees cs) (eb_usdBankFee cs)
                   else calc_sub (eb_btcWithFees cs) (eb_btcBankFee cs))"
  by (simp add: creditAccount_def removeZero_balance [OF assms] Let_def medici_transactions [OF assms]
      amount_in_def)

lemma entry_amounts_in:
  assumes "entry_amounts_ok tot fee"
  shows "amount_in c (btc tot) = (if c = Btc then of_int (amount (btc tot)) else 0)"
    "amount_in c (usd tot) = (if c = Usd then of_int (amount (usd tot)) else 0)"
    "amount_in c (btc fee) = (if c = Btc then of_int (amount (btc fee)) else 0)"
    "amount_in c (usd fee) = (if c = Usd then of_int (amount (usd fee)) else 0)"
    "amount_in c (calc_sub (btc tot) (btc fee)) =
       (if c = Btc then of_int (amount (btc tot)) - of_int (amount (btc fee)) else 0)"
    "amount_in c (calc_sub (usd tot) (usd fee)) =
       (if c = Usd then of_int (amount (usd tot)) - of_int (amount (usd fee)) else 0)"
  using assms entry_amounts_safe [OF assms]
  by (auto simp: amount_in_def entry_amounts_ok_def)

lemma build_entry_balance:
  assumes "medici_laws md" and ok: "entry_amounts_ok tot fee"
  shows "ledger_balance c (md_transactions md (build_entry md cfg tot fee dacc dmeta cacc cmeta)) =
    ledger_balance c (md_transactions md (eb_entry cfg))"
proof -
  have fees: "amount (btc fee) = 0 \<and> 0 \<le> amount (usd fee) \<or> 0 < amount (btc fee) \<and> 0 < amount (usd fee)"
    using ok by (auto simp: entry_amounts_ok_def)
  show ?thesis
    using fees
    by (cases "ad_currency dacc"; cases "ad_currency cacc")
      (auto simp: build_entry_def addDealerDebitsAndCredits_def withBankFee_balance [OF assms(1)]
        debitAccount_balance [OF assms(1)] dealer_balance [OF assms(1)] creditAccount_balance [OF assms(1)]
        entry_amounts_in [OF ok])
qed

text \<open>The account a line is booked on, and the amounts of the non-zero lines.\<close>

definition line_summary :: "medici_tx \<Rightarrow> string \<times> jsnum \<times> jsnum \<times> mval option" where
  "line_summary t = (mt_account t, mt_debit t, mt_credit t, mt_meta t ''currency'')"

definition list_medici :: "medici_tx list medici" where
  "list_medici =
     \<lparr>md_debit = (\<lambda>e a n m. e @ [\<lparr>mt_account = a, mt_debit = n, mt_credit = Fin 0, mt_meta = m\<rparr>]),
      md_credit = (\<lambda>e a n m. e @ [\<lparr>mt_account = a, mt_debit = Fin 0, mt_credit = n, mt_meta = m\<rparr>]),
      md_transactions = (\<lambda>e. e), md_set_transactions = (\<lambda>e ts. ts)\<rparr>"

lemma list_medici_laws: "medici_laws list_medici"
  by (simp add: medici_laws_def list_medici_def)

definition example_entry_config :: "medici_tx list eb_config" where
  "example_entry_config =
     \<lparr>eb_entry = [], eb_metadata = Map.empty, eb_additional = Map.empty,
      eb_accounts = \<lparr>bankOwnerAccountId = ''bank'', dealerBtcAccountId = ''dealerBtc'',
        dealerUsdAccountId = ''dealerUsd''\<rparr>, eb_externalId = None\<rparr>"

subsection \<open>Properties\<close>

text \<open>C8: double entry. Whatever accounts are debited and credited, in whatever combination of
  currencies, building an entry leaves the balance of each currency unchanged: the debits in
  satoshis equal the credits in satoshis and the debits in cents equal the credits in cents,
  the bank's fee and the dealer's conversion lines included; and no line of the finished entry
  is zero on both sides. The amounts must be in their currencies, the fee between zero and the
  total, the totals below \<open>2^53\<close>, and a satoshi fee must come with a cent fee.\<close>
theorem entry_is_balanced:
  assumes "medici_laws md" and "entry_amounts_ok tot fee"
    and "entry = build_entry md cfg tot fee dacc dmeta cacc cmeta"
  shows "ledger_balance c (md_transactions md entry) = ledger_balance c (md_transactions md (eb_entry cfg)) \<and>
    list_all (\<lambda>t. \<not> (js_eq (mt_debit t) (Fin 0) \<and> js_eq (mt_credit t) (Fin 0))) (md_transactions md entry)"
  using build_entry_balance [OF assms(1,2)]
  by (simp add: assms(3) build_entry_def creditAccount_def removeZeroAmountEntries_def Let_def
      medici_transactions [OF assms(1)] list_all_iff)

definition example_total :: amount_pair where
  "example_total = \<lparr>btc = \<lparr>currency = Btc, amount = 1000\<rparr>, usd = \<lparr>currency = Usd, amount = 40\<rparr>\<rparr>"

definition example_fee :: amount_pair where
  "example_fee = \<lparr>btc = \<lparr>currency = Btc, amount = 50\<rparr>, usd = \<lparr>currency = Usd, amount = 2\<rparr>\<rparr>"

lemma entry_is_balanced_witness:
  "ledger_balance Btc (build_entry list_medici example_entry_config example_total example_fee
     \<lparr>ad_id = ''alice'', ad_currency = Usd\<rparr> None \<lparr>ad_id = ''bob'', ad_currency = Usd\<rparr> None) = 0"
  using entry_is_balanced [of list_medici example_total example_fee _ example_entry_config
      "\<lparr>ad_id = ''alice'', ad_currency = Usd\<rparr>" None "\<lparr>ad_id = ''bob'', ad_currency = Usd\<rparr>" None Btc,
      OF list_medici_laws _ refl]
  by (simp add: entry_amounts_ok_def example_total_def example_fee_def safe_int_def list_medici_def
      example_entry_config_def)

text \<open>The lines of a payment from a dollar wallet to a bitcoin account without a bank fee, in
  order: the sender is debited the cents, the dealer takes over the position (satoshis out of
  its bitcoin account, cents into its dollar account), and the recipient is credited the
  satoshis.\<close>
lemma usd_to_btc_lines:
  assumes "medici_laws md" and "md_transactions md (eb_entry cfg) = []"
    and "ad_currency dacc = Usd" and "ad_currency cacc = Btc"
    and "0 < amount (btc tot)" and "0 < amount (usd tot)"
    and "safe_int (amount (btc tot))" and "safe_int (amount (usd tot))"
    and "currency (btc tot) = Btc" and "currency (usd tot) = Usd"
  shows "map line_summary (md_transactions md
      (build_entry md cfg tot intraLedgerFees dacc dmeta cacc cmeta)) =
    [(ad_id dacc, Fin (of_int (amount (usd tot))), Fin 0, Some (MStr ''USD'')),
     (dealerBtcAccountId (eb_accounts cfg), Fin (of_int (amount (btc tot))), Fin 0, Some (MStr ''BTC'')),
     (dealerUsdAccountId (eb_accounts cfg), Fin 0, Fin (of_int (amount (usd tot))), Some (MStr ''USD'')),
     (ad_id cacc, Fin 0, Fin (of_int (amount (btc tot))), Some (MStr ''BTC''))]"
  using assms(2-)
  by (simp add: build_entry_def creditAccount_def addDealerDebitsAndCredits_def
      addUsdToBtcConversionToDealer_def removeZeroAmountEntries_def entry_simps
      medici_transactions [OF assms(1)] intraLedgerFees_def Number_big_safe js_eq_def line_summary_def
      line_meta_def)

end
