(* ===== verification/Ledger_Metadata.thy ===== *)
theory Ledger_Metadata
  imports Ledger_Entry
begin

text \<open>
  The metadata of ledger transactions: \<open>services/ledger/facade/tx-metadata.ts\<close> and the
  transaction types of \<open>domain/ledger/index.ts\<close>. Each constructor yields the metadata common to
  all lines of an entry and the additional metadata of the debited account, of the credited
  account and of the bank's own accounts.
\<close>

datatype ledger_transaction_type =
    LT_Invoice | LT_Payment | LT_LnFeeReimbursement | LT_OnchainReceipt | LT_OnchainPayment
  | LT_IntraLedger | LT_LnIntraLedger | LT_OnchainIntraLedger
  | LT_WalletIdTradeIntraAccount | LT_LnTradeIntraAccount | LT_OnChainTradeIntraAccount
  | LT_Fee | LT_ToColdStorage | LT_ToHotWallet | LT_Escrow | LT_RoutingRevenue | LT_Reconciliation

fun type_str :: "ledger_transaction_type \<Rightarrow> string" where
  "type_str LT_Invoice = ''invoice''"
| "type_str LT_Payment = ''payment''"
| "type_str LT_LnFeeReimbursement = ''fee_reimbursement''"
| "type_str LT_OnchainReceipt = ''onchain_receipt''"
| "type_str LT_OnchainPayment = ''onchain_payment''"
| "type_str LT_IntraLedger = ''on_us''"
| "type_str LT_LnIntraLedger = ''ln_on_us''"
| "type_str LT_OnchainIntraLedger = ''onchain_on_us''"
| "type_str LT_WalletIdTradeIntraAccount = ''self_trade''"
| "type_str LT_LnTradeIntraAccount = ''ln_self_trade''"
| "type_str LT_OnChainTradeIntraAccount = ''onchain_self_trade''"
| "type_str LT_Fee = ''fee''"
| "type_str LT_ToColdStorage = ''to_cold_storage''"
| "type_str LT_ToHotWallet = ''to_hot_wallet''"
| "type_str LT_Escrow = ''escrow''"
| "type_str LT_RoutingRevenue = ''routing_fee''"
| "type_str LT_Reconciliation = ''reconciliation''"

definition isOnChainTransaction :: "ledger_transaction_type \<Rightarrow> bool" where
  "isOnChainTransaction t \<longleftrightarrow>
     t = LT_OnchainIntraLedger \<or> t = LT_OnChainTradeIntraAccount \<or> t = LT_OnchainReceipt \<or>
     t = LT_OnchainPayment"

record amounts_and_fees =
  af_btcPaymentAmount :: payment_amount
  af_usdPaymentAmount :: payment_amount
  af_btcProtocolAndBankFee :: payment_amount
  af_usdProtocolAndBankFee :: payment_amount

record display_txn_amounts =
  dt_displayAmount :: jsnum
  dt_displayFee :: jsnum
  dt_displayCurrency :: string

definition display_meta :: "display_txn_amounts \<Rightarrow> tx_metadata" where
  "display_meta d =
     [''displayAmount'' \<mapsto> MNum (dt_displayAmount d), ''displayFee'' \<mapsto> MNum (dt_displayFee d),
      ''displayCurrency'' \<mapsto> MStr (dt_displayCurrency d)]"

text \<open>The result of a constructor; a send has no credit metadata and a receive no debit metadata.\<close>

record ledger_metadata =
  lm_metadata :: tx_metadata
  lm_debitAccountAdditionalMetadata :: tx_metadata
  lm_creditAccountAdditionalMetadata :: tx_metadata
  lm_internalAccountsAdditionalMetadata :: tx_metadata

definition UsdDisplayCurrency :: string where
  "UsdDisplayCurrency = ''USD''"

record intraledger_display_args =
  senderAmountDisplayCurrency :: jsnum
  senderFeeDisplayCurrency :: jsnum
  senderDisplayCurrency :: string
  recipientAmountDisplayCurrency :: jsnum
  recipientFeeDisplayCurrency :: jsnum
  recipientDisplayCurrency :: string

definition displayArgsFromArgs ::
  "intraledger_display_args \<Rightarrow> display_txn_amounts \<times> display_txn_amounts" where
  "displayArgsFromArgs a =
     (\<lparr>dt_displayAmount = senderAmountDisplayCurrency a, dt_displayFee = senderFeeDisplayCurrency a,
       dt_displayCurrency = senderDisplayCurrency a\<rparr>,
      \<lparr>dt_displayAmount = recipientAmountDisplayCurrency a,
       dt_displayFee = recipientFeeDisplayCurrency a,
       dt_displayCurrency = recipientDisplayCurrency a\<rparr>)"

definition internalMetadataAmounts :: "int \<Rightarrow> int \<Rightarrow> display_txn_amounts" where
  "internalMetadataAmounts centsAmount centsFee =
     \<lparr>dt_displayAmount = Number_big centsAmount, dt_displayFee = Number_big centsFee,
      dt_displayCurrency = UsdDisplayCurrency\<rparr>"

definition debitOrCreditMetadataAmounts ::
  "int \<Rightarrow> int \<Rightarrow> display_txn_amounts \<Rightarrow> display_txn_amounts \<times> display_txn_amounts" where
  "debitOrCreditMetadataAmounts centsAmount centsFee d =
     (let walletUsdAmount = Number_big centsAmount;
          walletUsdFee = Number_big centsFee;
          resultDisplayAmount =
            (if dt_displayCurrency d = UsdDisplayCurrency then walletUsdAmount else dt_displayAmount d);
          resultDisplayFee =
            (if dt_displayCurrency d = UsdDisplayCurrency then walletUsdFee else dt_displayFee d)
      in (\<lparr>dt_displayAmount = resultDisplayAmount, dt_displayFee = resultDisplayFee,
           dt_displayCurrency = dt_displayCurrency d\<rparr>,
          internalMetadataAmounts centsAmount centsFee))"

definition additionalMetadataAmounts ::
  "int \<Rightarrow> int \<Rightarrow> display_txn_amounts \<times> display_txn_amounts \<Rightarrow>
   display_txn_amounts \<times> display_txn_amounts \<times> display_txn_amounts" where
  "additionalMetadataAmounts centsAmount centsFee args =
     (let (debitMeta, internalMeta) = debitOrCreditMetadataAmounts centsAmount centsFee (fst args);
          (creditMeta, _) = debitOrCreditMetadataAmounts centsAmount centsFee (snd args)
      in (debitMeta, creditMeta, internalMeta))"

text \<open>The four amount fields every payment carries.\<close>

definition amounts_meta :: "amounts_and_fees \<Rightarrow> tx_metadata" where
  "amounts_meta p =
     [''satsAmount'' \<mapsto> MNum (Number_big (amount (af_btcPaymentAmount p))),
      ''satsFee'' \<mapsto> MNum (Number_big (amount (af_btcProtocolAndBankFee p))),
      ''centsAmount'' \<mapsto> MNum (Number_big (amount (af_usdPaymentAmount p))),
      ''centsFee'' \<mapsto> MNum (Number_big (amount (af_usdProtocolAndBankFee p)))]"

definition type_meta :: "ledger_transaction_type \<Rightarrow> bool \<Rightarrow> tx_metadata" where
  "type_meta t pending = [''type'' \<mapsto> MStr (type_str t), ''pending'' \<mapsto> MBool pending]"

definition payment_display ::
  "amounts_and_fees \<Rightarrow> display_txn_amounts \<Rightarrow> tx_metadata \<times> tx_metadata" where
  "payment_display p d =
     (let (outer, internal) = debitOrCreditMetadataAmounts (amount (af_usdPaymentAmount p))
            (amount (af_usdProtocolAndBankFee p)) d
      in (display_meta outer, display_meta internal))"

subsection \<open>Sends and receipts\<close>

definition LnSendLedgerMetadata ::
  "string \<Rightarrow> string \<Rightarrow> amounts_and_fees \<Rightarrow> display_txn_amounts \<Rightarrow> bool \<Rightarrow> string option \<Rightarrow> ledger_metadata" where
  "LnSendLedgerMetadata paymentHash pubkey p d feeKnownInAdvance memoOfPayer =
     \<lparr>lm_metadata = type_meta LT_Payment True ++
        [''hash'' \<mapsto> MStr paymentHash, ''pubkey'' \<mapsto> MStr pubkey,
         ''feeKnownInAdvance'' \<mapsto> MBool feeKnownInAdvance, ''memoPayer'' \<mapsto> MOpt memoOfPayer] ++
        amounts_meta p,
      lm_debitAccountAdditionalMetadata = fst (payment_display p d),
      lm_creditAccountAdditionalMetadata = Map.empty,
      lm_internalAccountsAdditionalMetadata = snd (payment_display p d)\<rparr>"

definition OnChainSendLedgerMetadata ::
  "amounts_and_fees \<Rightarrow> display_txn_amounts \<Rightarrow> string list \<Rightarrow> bool \<Rightarrow> string option \<Rightarrow> ledger_metadata" where
  "OnChainSendLedgerMetadata p d payeeAddresses sendAll memoOfPayer =
     \<lparr>lm_metadata = type_meta LT_OnchainPayment True ++
        [''hash'' \<mapsto> MUndef, ''payee_addresses'' \<mapsto> MAddrs payeeAddresses,
         ''sendAll'' \<mapsto> MBool sendAll, ''memoPayer'' \<mapsto> MOpt memoOfPayer] ++ amounts_meta p,
      lm_debitAccountAdditionalMetadata = fst (payment_display p d),
      lm_creditAccountAdditionalMetadata = Map.empty,
      lm_internalAccountsAdditionalMetadata = snd (payment_display p d)\<rparr>"

definition OnChainReceiveLedgerMetadata ::
  "string \<Rightarrow> jsnum \<Rightarrow> amounts_and_fees \<Rightarrow> display_txn_amounts \<Rightarrow> string list \<Rightarrow> string option \<Rightarrow>
   ledger_metadata" where
  "OnChainReceiveLedgerMetadata onChainTxHash onChainTxVout p d payeeAddresses newAddressRequestId =
     \<lparr>lm_metadata = type_meta LT_OnchainReceipt False ++
        [''hash'' \<mapsto> MStr onChainTxHash, ''vout'' \<mapsto> MNum onChainTxVout,
         ''payee_addresses'' \<mapsto> MAddrs payeeAddresses, ''request_id'' \<mapsto> MOpt newAddressRequestId] ++
        amounts_meta p,
      lm_debitAccountAdditionalMetadata = Map.empty,
      lm_creditAccountAdditionalMetadata = fst (payment_display p d),
      lm_internalAccountsAdditionalMetadata = snd (payment_display p d)\<rparr>"

definition LnReceiveLedgerMetadata ::
  "string \<Rightarrow> string \<Rightarrow> amounts_and_fees \<Rightarrow> display_txn_amounts \<Rightarrow> ledger_metadata" where
  "LnReceiveLedgerMetadata paymentHash pubkey p d =
     \<lparr>lm_metadata = type_meta LT_Invoice False ++
        [''hash'' \<mapsto> MStr paymentHash, ''pubkey'' \<mapsto> MStr pubkey] ++ amounts_meta p,
      lm_debitAccountAdditionalMetadata = Map.empty,
      lm_creditAccountAdditionalMetadata = fst (payment_display p d),
      lm_internalAccountsAdditionalMetadata = snd (payment_display p d)\<rparr>"

definition LnFeeReimbursementReceiveLedgerMetadata ::
  "amounts_and_fees \<Rightarrow> string \<Rightarrow> string \<Rightarrow> display_txn_amounts \<Rightarrow> ledger_metadata" where
  "LnFeeReimbursementReceiveLedgerMetadata p paymentHash journalId d =
     \<lparr>lm_metadata = type_meta LT_LnFeeReimbursement False ++
        [''hash'' \<mapsto> MStr paymentHash, ''related_journal'' \<mapsto> MStr journalId] ++ amounts_meta p,
      lm_debitAccountAdditionalMetadata = Map.empty,
      lm_creditAccountAdditionalMetadata = fst (payment_display p d),
      lm_internalAccountsAdditionalMetadata = snd (payment_display p d)\<rparr>"

definition LnFailedPaymentReceiveLedgerMetadata ::
  "amounts_and_fees \<Rightarrow> string \<Rightarrow> string \<Rightarrow> display_txn_amounts \<Rightarrow> ledger_metadata" where
  "LnFailedPaymentReceiveLedgerMetadata p paymentHash journalId d =
     \<lparr>lm_metadata = type_meta LT_Payment False ++
        [''hash'' \<mapsto> MStr paymentHash, ''related_journal'' \<mapsto> MStr journalId] ++ amounts_meta p,
      lm_debitAccountAdditionalMetadata = Map.empty,
      lm_creditAccountAdditionalMetadata = fst (payment_display p d),
      lm_internalAccountsAdditionalMetadata = snd (payment_display p d)\<rparr>"

subsection \<open>Payments inside the ledger\<close>

definition intraledger_display ::
  "amounts_and_fees \<Rightarrow> intraledger_display_args \<Rightarrow> tx_metadata \<times> tx_metadata \<times> tx_metadata" where
  "intraledger_display p args =
     (let (d, c, i) = additionalMetadataAmounts (amount (af_usdPaymentAmount p))
            (amount (af_usdProtocolAndBankFee p)) (displayArgsFromArgs args)
      in (display_meta d, display_meta c, display_meta i))"

definition OnChainIntraledgerLedgerMetadata ::
  "string list \<Rightarrow> bool \<Rightarrow> amounts_and_fees \<Rightarrow> string option \<Rightarrow> string option \<Rightarrow> string option \<Rightarrow>
   intraledger_display_args \<Rightarrow> ledger_metadata" where
  "OnChainIntraledgerLedgerMetadata payeeAddresses sendAll p memoOfPayer senderUsername
     recipientUsername args =
     (let (d, c, i) = intraledger_display p args in
      \<lparr>lm_metadata = type_meta LT_OnchainIntraLedger False ++
         [''memoPayer'' \<mapsto> MUndef, ''username'' \<mapsto> MOpt senderUsername,
          ''payee_addresses'' \<mapsto> MAddrs payeeAddresses, ''sendAll'' \<mapsto> MBool sendAll] ++ amounts_meta p,
       lm_debitAccountAdditionalMetadata =
         d ++ [''memoPayer'' \<mapsto> MOpt memoOfPayer, ''username'' \<mapsto> MOpt recipientUsername],
       lm_creditAccountAdditionalMetadata = c,
       lm_internalAccountsAdditionalMetadata = i\<rparr>)"

definition WalletIdIntraledgerLedgerMetadata ::
  "amounts_and_fees \<Rightarrow> string option \<Rightarrow> string option \<Rightarrow> string option \<Rightarrow>
   intraledger_display_args \<Rightarrow> ledger_metadata" where
  "WalletIdIntraledgerLedgerMetadata p memoOfPayer senderUsername recipientUsername args =
     (let (d, c, i) = intraledger_display p args in
      \<lparr>lm_metadata = type_meta LT_IntraLedger False ++
         [''memoPayer'' \<mapsto> MOpt memoOfPayer, ''username'' \<mapsto> MOpt senderUsername] ++ amounts_meta p,
       lm_debitAccountAdditionalMetadata = d ++ [''username'' \<mapsto> MOpt recipientUsername],
       lm_creditAccountAdditionalMetadata = c,
       lm_internalAccountsAdditionalMetadata = i\<rparr>)"

definition LnIntraledgerLedgerMetadata ::
  "string \<Rightarrow> string \<Rightarrow> amounts_and_fees \<Rightarrow> string option \<Rightarrow> string option \<Rightarrow> string option \<Rightarrow>
   intraledger_display_args \<Rightarrow> ledger_metadata" where
  "LnIntraledgerLedgerMetadata paymentHash pubkey p memoOfPayer senderUsername recipientUsername args =
     (let (d, c, i) = intraledger_display p args in
      \<lparr>lm_metadata = type_meta LT_LnIntraLedger False ++
         [''memoPayer'' \<mapsto> MUndef, ''username'' \<mapsto> MOpt senderUsername,
          ''hash'' \<mapsto> MStr paymentHash, ''pubkey'' \<mapsto> MStr pubkey] ++ amounts_meta p,
       lm_debitAccountAdditionalMetadata =
         d ++ [''memoPayer'' \<mapsto> MOpt memoOfPayer, ''username'' \<mapsto> MOpt recipientUsername],
       lm_creditAccountAdditionalMetadata = c,
       lm_internalAccountsAdditionalMetadata = i\<rparr>)"

subsection \<open>Trades between the wallets of one account\<close>

definition tradeDisplayArgs :: "display_txn_amounts \<Rightarrow> intraledger_display_args" where
  "tradeDisplayArgs d =
     \<lparr>senderAmountDisplayCurrency = dt_displayAmount d, senderFeeDisplayCurrency = dt_displayFee d,
      senderDisplayCurrency = dt_displayCurrency d,
      recipientAmountDisplayCurrency = dt_displayAmount d,
      recipientFeeDisplayCurrency = dt_displayFee d,
      recipientDisplayCurrency = dt_displayCurrency d\<rparr>"

definition OnChainTradeIntraAccountLedgerMetadata ::
  "string list \<Rightarrow> bool \<Rightarrow> amounts_and_fees \<Rightarrow> string option \<Rightarrow> display_txn_amounts \<Rightarrow> ledger_metadata" where
  "OnChainTradeIntraAccountLedgerMetadata payeeAddresses sendAll p memoOfPayer sender =
     (let (d, c, i) = intraledger_display p (tradeDisplayArgs sender) in
      \<lparr>lm_metadata = type_meta LT_OnChainTradeIntraAccount False ++
         [''memoPayer'' \<mapsto> MUndef, ''payee_addresses'' \<mapsto> MAddrs payeeAddresses,
          ''sendAll'' \<mapsto> MBool sendAll] ++ amounts_meta p,
       lm_debitAccountAdditionalMetadata = d ++ [''memoPayer'' \<mapsto> MOpt memoOfPayer],
       lm_creditAccountAdditionalMetadata = c,
       lm_internalAccountsAdditionalMetadata = i\<rparr>)"

definition WalletIdTradeIntraAccountLedgerMetadata ::
  "amounts_and_fees \<Rightarrow> string option \<Rightarrow> display_txn_amounts \<Rightarrow> ledger_metadata" where
  "WalletIdTradeIntraAccountLedgerMetadata p memoOfPayer sender =
     (let (d, c, i) = intraledger_display p (tradeDisplayArgs sender) in
      \<lparr>lm_metadata = type_meta LT_WalletIdTradeIntraAccount False ++
         [''memoPayer'' \<mapsto> MOpt memoOfPayer] ++ amounts_meta p,
       lm_debitAccountAdditionalMetadata = d,
       lm_creditAccountAdditionalMetadata = c,
       lm_internalAccountsAdditionalMetadata = i\<rparr>)"

definition LnTradeIntraAccountLedgerMetadata ::
  "string \<Rightarrow> string \<Rightarrow> amounts_and_fees \<Rightarrow> string option \<Rightarrow> display_txn_amounts \<Rightarrow> ledger_metadata" where
  "LnTradeIntraAccountLedgerMetadata paymentHash pubkey p memoOfPayer sender =
     (let (d, c, i) = intraledger_display p (tradeDisplayArgs sender) in
      \<lparr>lm_metadata = type_meta LT_LnTradeIntraAccount False ++
         [''memoPayer'' \<mapsto> MUndef, ''hash'' \<mapsto> MStr paymentHash, ''pubkey'' \<mapsto> MStr pubkey] ++
         amounts_meta p,
       lm_debitAccountAdditionalMetadata = d ++ [''memoPayer'' \<mapsto> MOpt memoOfPayer],
       lm_creditAccountAdditionalMetadata = c,
       lm_internalAccountsAdditionalMetadata = i\<rparr>)"

subsection \<open>The bank's own transactions\<close>

definition OnChainFeeReconciliationLedgerMetadata :: "string \<Rightarrow> string \<Rightarrow> bool \<Rightarrow> tx_metadata" where
  "OnChainFeeReconciliationLedgerMetadata payoutId txHash pending =
     type_meta LT_OnchainPayment pending ++ [''payout_id'' \<mapsto> MStr payoutId, ''hash'' \<mapsto> MStr txHash]"

definition LnChannelOpenOrClosingFee :: "string \<Rightarrow> tx_metadata" where
  "LnChannelOpenOrClosingFee txId = type_meta LT_Fee False ++ [''txid'' \<mapsto> MStr txId]"

definition Escrow :: tx_metadata where
  "Escrow = type_meta LT_Escrow False"

text \<open>\<open>Date.toDateString\<close> of the collection date is an argument.\<close>

definition LnRoutingRevenue :: "string \<Rightarrow> tx_metadata" where
  "LnRoutingRevenue collectedOn_string =
     type_meta LT_RoutingRevenue False ++ [''feesCollectedOn'' \<mapsto> MStr collectedOn_string]"

subsection \<open>What each side sees\<close>

text \<open>
  The contract of a payment that keeps its memo to the payer, shared by the lightning and
  on-chain payments inside the ledger: the debited line carries the memo, the other lines carry
  an undefined one, and nothing but the additional metadata of the debited line depends on it.
\<close>

locale private_memo =
  fixes mk :: "'a \<Rightarrow> string option \<Rightarrow> ledger_metadata"
  assumes payer_memo: "(lm_metadata (mk a memo) ++ lm_debitAccountAdditionalMetadata (mk a memo)) ''memoPayer'' =
      Some (MOpt memo)"
    and shared_memo: "lm_metadata (mk a memo) ''memoPayer'' = Some MUndef"
    and others_memo: "lm_creditAccountAdditionalMetadata (mk a memo) ''memoPayer'' = None"
      "lm_internalAccountsAdditionalMetadata (mk a memo) ''memoPayer'' = None"
    and memo_irrelevant: "lm_metadata (mk a memo) = lm_metadata (mk a memo')"
      "lm_creditAccountAdditionalMetadata (mk a memo) = lm_creditAccountAdditionalMetadata (mk a memo')"
      "lm_internalAccountsAdditionalMetadata (mk a memo) = lm_internalAccountsAdditionalMetadata (mk a memo')"
begin

lemma payee_memo:
  "(lm_metadata (mk a memo) ++ lm_creditAccountAdditionalMetadata (mk a memo)) ''memoPayer'' = Some MUndef"
  "(lm_metadata (mk a memo) ++ lm_internalAccountsAdditionalMetadata (mk a memo)) ''memoPayer'' = Some MUndef"
  using shared_memo [of a memo] others_memo [of a memo] by (simp_all add: map_add_def)

end

lemmas view_defs = intraledger_display_def
  additionalMetadataAmounts_def debitOrCreditMetadataAmounts_def internalMetadataAmounts_def
  displayArgsFromArgs_def display_meta_def amounts_meta_def type_meta_def payment_display_def

interpretation ln_memo: private_memo
  "\<lambda>(h, pk, p, su, ru, args) memo. LnIntraledgerLedgerMetadata h pk p memo su ru args"
  by unfold_locales (auto simp: LnIntraledgerLedgerMetadata_def view_defs Let_def split: prod.splits)

interpretation onchain_memo: private_memo
  "\<lambda>(pa, sa, p, su, ru, args) memo. OnChainIntraledgerLedgerMetadata pa sa p memo su ru args"
  by unfold_locales (auto simp: OnChainIntraledgerLedgerMetadata_def view_defs Let_def split: prod.splits)

interpretation ln_trade_memo: private_memo
  "\<lambda>(h, pk, p, d) memo. LnTradeIntraAccountLedgerMetadata h pk p memo d"
  by unfold_locales (auto simp: LnTradeIntraAccountLedgerMetadata_def view_defs Let_def split: prod.splits)

interpretation onchain_trade_memo: private_memo
  "\<lambda>(pa, sa, p, d) memo. OnChainTradeIntraAccountLedgerMetadata pa sa p memo d"
  by unfold_locales (auto simp: OnChainTradeIntraAccountLedgerMetadata_def view_defs Let_def split: prod.splits)

text \<open>
  Display amounts. A user whose display currency is the US dollar sees exactly the cents
  that were booked, as amount and as fee, whatever display amount the caller passed; any other
  user sees the caller's display amounts; and the bank's own lines always record the cents in
  US dollars.
\<close>

lemma display_amounts_recorded:
  "(lm_metadata (LnSendLedgerMetadata h pk p d known memo) ++
     lm_debitAccountAdditionalMetadata (LnSendLedgerMetadata h pk p d known memo)) ''displayAmount'' =
     Some (MNum (if dt_displayCurrency d = ''USD'' then Number_big (amount (af_usdPaymentAmount p))
                 else dt_displayAmount d)) \<and>
   (lm_metadata (LnSendLedgerMetadata h pk p d known memo) ++
     lm_debitAccountAdditionalMetadata (LnSendLedgerMetadata h pk p d known memo)) ''displayFee'' =
     Some (MNum (if dt_displayCurrency d = ''USD'' then Number_big (amount (af_usdProtocolAndBankFee p))
                 else dt_displayFee d)) \<and>
   (lm_metadata (LnReceiveLedgerMetadata h pk p d) ++
     lm_creditAccountAdditionalMetadata (LnReceiveLedgerMetadata h pk p d)) ''displayAmount'' =
     Some (MNum (if dt_displayCurrency d = ''USD'' then Number_big (amount (af_usdPaymentAmount p))
                 else dt_displayAmount d)) \<and>
   (lm_metadata (LnSendLedgerMetadata h pk p d known memo) ++
     lm_internalAccountsAdditionalMetadata (LnSendLedgerMetadata h pk p d known memo)) ''displayAmount'' =
     Some (MNum (Number_big (amount (af_usdPaymentAmount p)))) \<and>
   (lm_metadata (LnSendLedgerMetadata h pk p d known memo) ++
     lm_internalAccountsAdditionalMetadata (LnSendLedgerMetadata h pk p d known memo)) ''displayCurrency'' = Some (MStr ''USD'') \<and>
   (lm_metadata (LnReceiveLedgerMetadata h pk p d) ++
     lm_internalAccountsAdditionalMetadata (LnReceiveLedgerMetadata h pk p d)) ''displayCurrency'' = Some (MStr ''USD'')"
  by (auto simp: LnSendLedgerMetadata_def LnReceiveLedgerMetadata_def view_defs UsdDisplayCurrency_def
      Let_def)

end
