(* ===== verification/Ledger_Types.thy ===== *)
theory Ledger_Types
  imports Ledger_Metadata
begin

text \<open>
  Ledger transactions as the domain sees them: \<open>LedgerTransaction\<close> of
  \<open>domain/ledger/index.types.d.ts\<close>, the wallet paths of \<open>domain/ledger/index.ts\<close> and the
  translation of stored documents in \<open>services/ledger/translate.ts\<close>.
\<close>

subsection \<open>Wallet paths\<close>

definition toLiabilitiesWalletId :: "string \<Rightarrow> string" where
  "toLiabilitiesWalletId walletId = liabilitiesMainAccount @ '':'' @ walletId"

definition toWalletId :: "string \<Rightarrow> string option" where
  "toWalletId walletIdPath =
     (let path = str_split (CHR '':'') walletIdPath in
      if length path = 2 \<and> path ! 0 = liabilitiesMainAccount \<and> path ! 1 \<noteq> []
      then Some (path ! 1) else None)"

subsection \<open>Transactions\<close>

record ledger_transaction =
  lt_id :: string
  lt_walletId :: "string option"
  lt_type :: ledger_transaction_type
  lt_debit :: jsnum
  lt_credit :: jsnum
  lt_currency :: wallet_currency
  lt_timestamp :: int
  lt_pendingConfirmation :: bool
  lt_journalId :: string
  lt_externalId :: "string option"
  lt_lnMemo :: "string option"
  lt_username :: "string option"
  lt_memoFromPayer :: "string option"
  lt_paymentHash :: "string option"
  lt_pubkey :: "string option"
  lt_feeKnownInAdvance :: bool
  lt_lnPaymentState :: "string option"
  lt_satsAmount :: "jsnum option"
  lt_centsAmount :: "jsnum option"
  lt_satsFee :: "jsnum option"
  lt_centsFee :: "jsnum option"
  lt_displayAmount :: "jsnum option"
  lt_displayFee :: "jsnum option"
  lt_displayCurrency :: "string option"
  lt_address :: "string option"
  lt_txHash :: "string option"
  lt_vout :: "jsnum option"
  lt_requestId :: "string option"
  lt_payoutId :: "string option"
  lt_fee :: "jsnum option"
  lt_usd :: "jsnum option"
  lt_feeUsd :: "jsnum option"

text \<open>The stored document; only the fields the translation reads.\<close>

record stored_transaction =
  st_id :: string
  st_accounts :: string
  st_external_id :: "string option"
  st_type :: ledger_transaction_type
  st_debit :: jsnum
  st_credit :: jsnum
  st_currency :: wallet_currency
  st_timestamp :: int
  st_pending :: bool
  st_bundle_completion_state :: "string option"
  st_journal :: string
  st_memo :: "string option"
  st_username :: "string option"
  st_memoPayer :: "string option"
  st_hash :: "string option"
  st_pubkey :: "string option"
  st_payee_addresses :: "string list option"
  st_request_id :: "string option"
  st_payout_id :: "string option"
  st_vout :: "jsnum option"
  st_feeKnownInAdvance :: "bool option"
  st_satsAmount :: "jsnum option"
  st_centsAmount :: "jsnum option"
  st_satsFee :: "jsnum option"
  st_centsFee :: "jsnum option"
  st_displayAmount :: "jsnum option"
  st_displayFee :: "jsnum option"
  st_displayCurrency :: "string option"
  st_fee :: "jsnum option"
  st_usd :: "jsnum option"
  st_feeUsd :: "jsnum option"

text \<open>\<open>x || undefined\<close>: falsy values become undefined.\<close>

definition or_undefined :: "string option \<Rightarrow> string option" where
  "or_undefined s = (if str_truthy s then s else None)"

definition num_or_undefined :: "jsnum option \<Rightarrow> jsnum option" where
  "num_or_undefined x =
     (case x of None \<Rightarrow> None | Some n \<Rightarrow> if js_truthy n then Some n else None)"

definition translateToLedgerTx :: "stored_transaction \<Rightarrow> ledger_transaction" where
  "translateToLedgerTx tx =
     \<lparr>lt_id = st_id tx,
      lt_walletId = toWalletId (st_accounts tx),
      lt_type = st_type tx,
      lt_debit = st_debit tx,
      lt_credit = st_credit tx,
      lt_currency = st_currency tx,
      lt_timestamp = st_timestamp tx,
      lt_pendingConfirmation = st_pending tx,
      lt_journalId = st_journal tx,
      lt_externalId = or_undefined (st_external_id tx),
      lt_lnMemo = st_memo tx,
      lt_username = or_undefined (st_username tx),
      lt_memoFromPayer = st_memoPayer tx,
      lt_paymentHash = or_undefined (st_hash tx),
      lt_pubkey = or_undefined (st_pubkey tx),
      lt_feeKnownInAdvance = (case st_feeKnownInAdvance tx of None \<Rightarrow> False | Some b \<Rightarrow> b),
      lt_lnPaymentState = st_bundle_completion_state tx,
      lt_satsAmount = st_satsAmount tx,
      lt_centsAmount = st_centsAmount tx,
      lt_satsFee = st_satsFee tx,
      lt_centsFee = st_centsFee tx,
      lt_displayAmount = st_displayAmount tx,
      lt_displayFee = st_displayFee tx,
      lt_displayCurrency = st_displayCurrency tx,
      lt_address = (case st_payee_addresses tx of Some (a # _) \<Rightarrow> Some a | _ \<Rightarrow> None),
      lt_txHash = or_undefined (st_hash tx),
      lt_vout = num_or_undefined (st_vout tx),
      lt_requestId = or_undefined (st_request_id tx),
      lt_payoutId = or_undefined (st_payout_id tx),
      lt_fee = st_fee tx,
      lt_usd = st_usd tx,
      lt_feeUsd = st_feeUsd tx\<rparr>"

definition inputAmountFromLedgerTransaction :: "ledger_transaction \<Rightarrow> error + int" where
  "inputAmountFromLedgerTransaction txn =
     (let fee = (if lt_currency txn = Usd then lt_centsFee txn else lt_satsFee txn)
      in case fee of
           None \<Rightarrow> Inl InvalidLedgerTransactionStateError
         | Some f \<Rightarrow> safeBigInt (js_sub (lt_debit txn) f))"

subsection \<open>Properties\<close>

lemma str_split_pair: "str_split c s = [a, b] \<Longrightarrow> s = a @ c # b \<and> c \<notin> set a \<and> c \<notin> set b"
proof (induction s arbitrary: a)
  case (Cons x s)
  show ?case
  proof (cases "x = c")
    case True
    with Cons.prems have "a = []" and "str_split c s = [b]"
      by auto
    moreover have "str_split c s = [b] \<Longrightarrow> s = b \<and> c \<notin> set b" for s b
      by (induction s arbitrary: b) (auto split: if_splits list.splits)
    ultimately show ?thesis
      using True by auto
  next
    case False
    with Cons.prems Cons.IH show ?thesis
      by (auto split: list.splits)
  qed
qed simp

text \<open>Wallet ids survive the trip through the ledger's account paths, and only through them: the
  wallet id read from an account path is \<open>w\<close> exactly when the path is the liabilities path of
  \<open>w\<close>, where \<open>w\<close> is not empty and has no colon. In particular two wallets never share a path,
  and an asset account is never taken for a wallet.\<close>
lemma toWalletId_iff:
  "toWalletId path = Some w \<longleftrightarrow> path = toLiabilitiesWalletId w \<and> w \<noteq> [] \<and> CHR '':'' \<notin> set w"
proof
  assume "toWalletId path = Some w"
  then have "str_split (CHR '':'') path = [liabilitiesMainAccount, w]" and "w \<noteq> []"
    by (auto simp: toWalletId_def Let_def length_Suc_conv numeral_2_eq_2 split: if_splits)
  then show "path = toLiabilitiesWalletId w \<and> w \<noteq> [] \<and> CHR '':'' \<notin> set w"
    using str_split_pair [of "CHR '':''" path liabilitiesMainAccount w]
    by (simp add: toLiabilitiesWalletId_def)
next
  assume w: "path = toLiabilitiesWalletId w \<and> w \<noteq> [] \<and> CHR '':'' \<notin> set w"
  have "CHR '':'' \<notin> set liabilitiesMainAccount"
    by (simp add: liabilitiesMainAccount_def)
  with w show "toWalletId path = Some w"
    using str_split_sep [of "CHR '':''" liabilitiesMainAccount w] str_split_no_sep [of "CHR '':''" w]
    by (simp add: toWalletId_def toLiabilitiesWalletId_def)
qed

text \<open>
  Reading a stored transaction loses its output index when the index is zero: the first
  output of an on-chain transaction comes back without an index, every other index is kept.
\<close>

lemma translateToLedgerTx_vout:
  "lt_vout (translateToLedgerTx tx) =
     (if st_vout tx = Some (Fin 0) \<or> st_vout tx = Some NaN then None else st_vout tx)"
  by (auto simp: translateToLedgerTx_def num_or_undefined_def js_truthy_def
      split: option.splits jsnum.splits)

end
