(* ===== verification/Ledger_Books.thy ===== *)
theory Ledger_Books
  imports Ledger_Types
begin

text \<open>
  The book behind the ledger facade. The medici book and the two Mongo collections are services
  of the environment; the ids of the bank's own wallets are resolved by injected functions and
  cached in module variables (\<open>services/ledger/caching.ts\<close>), so the state is the database
  together with the four caches. An operation maps a state to a result and a state; the result
  \<open>None\<close> is an exception that leaves the function, \<open>Some (Inl e)\<close> an error object that is
  returned. \<open>books_laws\<close> states what the development relies on of the book.
\<close>

subsection \<open>Environment and state\<close>

record saved_entry =
  se_id :: string
  se_voided :: bool
  se_transactions :: "string list"

record tx_metadata_record =
  tm_id :: string
  tm_hash :: "string option"
  tm_revealedPreImage :: "string option"

datatype void_result = Voided saved_entry | JournalNotFound | VoidFailed

datatype tx_filter =
    ByHash string
  | ByPayoutId string
  | ByJournal string
  | ByRelatedJournal string

datatype tx_update =
    SetPending bool
  | SetPayoutId string
  | SetTxId string jsnum
  | SetBundleCompletionState string

datatype ledger_query =
    LedgerByPayoutId string string
  | LedgerByAccountsAndHash "string list" string
  | LedgerByPendingAndHash bool string
  | LedgerByAccount string
  | LedgerByAccountAndId string string
  | LedgerByAccountAndJournal string string
  | LedgerPendingPayments string
  | PendingPaymentsOfAll
  | ReceiptsForWallet string string jsnum
  | ReceiptsByHash string
  | OtherThanAccountByHash string string

record ('e, 'w) ledger_env =
  le_medici :: "'e medici"
  le_entry :: "string \<Rightarrow> 'e"
  le_commit :: "'e \<Rightarrow> 'w \<Rightarrow> saved_entry option \<times> 'w"
  le_void :: "string \<Rightarrow> string \<Rightarrow> 'w \<Rightarrow> void_result \<times> 'w"
  le_insertMany :: "tx_metadata_record list \<Rightarrow> 'w \<Rightarrow> 'w"
  le_updateMany :: "tx_filter \<Rightarrow> tx_update \<Rightarrow> 'w \<Rightarrow> nat option \<times> 'w"
  le_ledger :: "ledger_query \<Rightarrow> 'w \<Rightarrow> stored_transaction list option"
  le_balance :: "string \<Rightarrow> wallet_currency option \<Rightarrow> 'w \<Rightarrow> jsnum option"
  le_isValidObjectId :: "string \<Rightarrow> bool"
  le_findMetadata :: "string \<Rightarrow> 'w \<Rightarrow> error + tx_metadata_record"
  bankOwnerResolver :: "'w \<Rightarrow> string option"
  dealerBtcResolver :: "'w \<Rightarrow> string option"
  dealerUsdResolver :: "'w \<Rightarrow> string option"
  funderResolver :: "'w \<Rightarrow> string option"

record 'w ledger_state =
  ls_db :: 'w
  cacheDealerBtcWalletId :: "string option"
  cacheDealerUsdWalletId :: "string option"
  cacheBankOwnerWalletId :: "string option"
  cacheFunderWalletId :: "string option"

type_synonym ('w, 'a) ledger_op = "'w ledger_state \<Rightarrow> (error + 'a) option \<times> 'w ledger_state"

subsection \<open>Sequencing\<close>

text \<open>\<open>const x = await m; if (x instanceof Error) return x; ...\<close>\<close>

definition lbind :: "('w, 'a) ledger_op \<Rightarrow> ('a \<Rightarrow> ('w, 'b) ledger_op) \<Rightarrow> ('w, 'b) ledger_op" where
  "lbind m f s =
     (case m s of
        (None, s') \<Rightarrow> (None, s')
      | (Some (Inl e), s') \<Rightarrow> (Some (Inl e), s')
      | (Some (Inr a), s') \<Rightarrow> f a s')"

definition lreturn :: "'a \<Rightarrow> ('w, 'a) ledger_op" where
  "lreturn a s = (Some (Inr a), s)"

definition lerror :: "error \<Rightarrow> ('w, 'a) ledger_op" where
  "lerror e s = (Some (Inl e), s)"

text \<open>\<open>try { ... } catch (err) { return new UnknownLedgerError(err) }\<close>\<close>

definition catch_unknown :: "('w, 'a) ledger_op \<Rightarrow> ('w, 'a) ledger_op" where
  "catch_unknown m s =
     (case m s of (None, s') \<Rightarrow> (Some (Inl UnknownLedgerError), s') | r \<Rightarrow> r)"

text \<open>A step on the database that may throw.\<close>

definition on_db :: "('w \<Rightarrow> 'a option \<times> 'w) \<Rightarrow> ('w, 'a) ledger_op" where
  "on_db f s =
     (case f (ls_db s) of (r, w) \<Rightarrow> (map_option Inr r, s\<lparr>ls_db := w\<rparr>))"

subsection \<open>caching.ts\<close>

definition getDealerBtcWalletId :: "('e, 'w) ledger_env \<Rightarrow> ('w, string) ledger_op" where
  "getDealerBtcWalletId env s =
     (if str_truthy (cacheDealerBtcWalletId s) then (map_option Inr (cacheDealerBtcWalletId s), s)
      else case dealerBtcResolver env (ls_db s) of
             None \<Rightarrow> (None, s)
           | Some i \<Rightarrow> (Some (Inr i), s\<lparr>cacheDealerBtcWalletId := Some i\<rparr>))"

definition getDealerUsdWalletId :: "('e, 'w) ledger_env \<Rightarrow> ('w, string) ledger_op" where
  "getDealerUsdWalletId env s =
     (if str_truthy (cacheDealerUsdWalletId s) then (map_option Inr (cacheDealerUsdWalletId s), s)
      else case dealerUsdResolver env (ls_db s) of
             None \<Rightarrow> (None, s)
           | Some i \<Rightarrow> (Some (Inr i), s\<lparr>cacheDealerUsdWalletId := Some i\<rparr>))"

definition getBankOwnerWalletId :: "('e, 'w) ledger_env \<Rightarrow> ('w, string) ledger_op" where
  "getBankOwnerWalletId env s =
     (if str_truthy (cacheBankOwnerWalletId s) then (map_option Inr (cacheBankOwnerWalletId s), s)
      else case bankOwnerResolver env (ls_db s) of
             None \<Rightarrow> (None, s)
           | Some i \<Rightarrow> (Some (Inr i), s\<lparr>cacheBankOwnerWalletId := Some i\<rparr>))"

definition getFunderWalletId :: "('e, 'w) ledger_env \<Rightarrow> ('w, string) ledger_op" where
  "getFunderWalletId env s =
     (if str_truthy (cacheFunderWalletId s) then (map_option Inr (cacheFunderWalletId s), s)
      else case funderResolver env (ls_db s) of
             None \<Rightarrow> (None, s)
           | Some i \<Rightarrow> (Some (Inr i), s\<lparr>cacheFunderWalletId := Some i\<rparr>))"

definition getDealerWalletIds :: "('e, 'w) ledger_env \<Rightarrow> ('w, string \<times> string) ledger_op" where
  "getDealerWalletIds env =
     lbind (getDealerBtcWalletId env) (\<lambda>dealerBtc.
     lbind (getDealerUsdWalletId env) (\<lambda>dealerUsd. lreturn (dealerBtc, dealerUsd)))"

definition getNonEndUserWalletIds :: "('e, 'w) ledger_env \<Rightarrow> ('w, string list) ledger_op" where
  "getNonEndUserWalletIds env =
     lbind (getDealerWalletIds env) (\<lambda>(dealerBtc, dealerUsd).
     lbind (getBankOwnerWalletId env) (\<lambda>bankOwner.
     lbind (getFunderWalletId env) (\<lambda>funder. lreturn [dealerBtc, dealerUsd, bankOwner, funder])))"

subsection \<open>static-account-ids.ts, helpers.ts and transactions-metadata.ts\<close>

definition staticAccountIds :: "('e, 'w) ledger_env \<Rightarrow> ('w, static_account_ids) ledger_op" where
  "staticAccountIds env =
     catch_unknown (
       lbind (getBankOwnerWalletId env) (\<lambda>bankOwner.
       lbind (getDealerBtcWalletId env) (\<lambda>dealerBtc.
       lbind (getDealerUsdWalletId env) (\<lambda>dealerUsd.
         lreturn \<lparr>bankOwnerAccountId = toLedgerAccountId bankOwner,
                  dealerBtcAccountId = toLedgerAccountId dealerBtc,
                  dealerUsdAccountId = toLedgerAccountId dealerUsd\<rparr>))))"

record ledger_journal =
  lj_journalId :: string
  lj_voided :: bool
  lj_transactionIds :: "string list"

definition translateToLedgerJournal :: "saved_entry \<Rightarrow> ledger_journal" where
  "translateToLedgerJournal savedEntry =
     \<lparr>lj_journalId = se_id savedEntry, lj_voided = se_voided savedEntry,
      lj_transactionIds = se_transactions savedEntry\<rparr>"

text \<open>The callers ignore the result of \<open>persistAll\<close>, so only its effect is kept.\<close>

definition persistAll :: "('e, 'w) ledger_env \<Rightarrow> tx_metadata_record list \<Rightarrow> ('w, unit) ledger_op" where
  "persistAll env ledgerTxsMetadata s =
     (if ledgerTxsMetadata = [] then (Some (Inr ()), s)
      else (Some (Inr ()), s\<lparr>ls_db := le_insertMany env ledgerTxsMetadata (ls_db s)\<rparr>))"

definition persistAndReturnEntry ::
  "('e, 'w) ledger_env \<Rightarrow> 'e \<Rightarrow> string option \<Rightarrow> string option \<Rightarrow> ('w, ledger_journal) ledger_op" where
  "persistAndReturnEntry env entry hash revealedPreImage =
     catch_unknown (
       lbind (on_db (le_commit env entry)) (\<lambda>savedEntry.
       let journalEntry = translateToLedgerJournal savedEntry;
           txsMetadataToPersist =
             map (\<lambda>i. \<lparr>tm_id = i, tm_hash = hash, tm_revealedPreImage = revealedPreImage\<rparr>)
               (lj_transactionIds journalEntry)
       in lbind (persistAll env txsMetadataToPersist) (\<lambda>_. lreturn journalEntry)))"

end
