(* ===== verification/Ln_Payment_State.thy ===== *)
theory Ln_Payment_State
  imports Ledger_Types "HOL-Library.Multiset"
begin

text \<open>
  The completion state of a lightning payment, determined from the bundle of ledger
  transactions with its payment hash: \<open>domain/ledger/ln-payment-state.ts\<close>.
\<close>

datatype ln_payment_state =
    LS_Pending | LS_PendingAfterRetry
  | LS_Success | LS_SuccessWithReimbursement | LS_SuccessAfterRetry
  | LS_SuccessWithReimbursementAfterRetry
  | LS_Failed | LS_FailedAfterRetry | LS_FailedAfterSuccess
  | LS_FailedAfterSuccessWithReimbursement

definition isDebit :: "ledger_transaction \<Rightarrow> bool" where
  "isDebit txn \<longleftrightarrow> js_lt (Fin 0) (num_or (Some (lt_debit txn)) (Fin 0))"

text \<open>The details of the bundle that the error messages carry for the log are left out.\<close>

definition checkTxns :: "ledger_transaction list \<Rightarrow> error + unit" where
  "checkTxns txns =
     (if \<not> list_all (\<lambda>t. lt_type t \<in> {LT_Payment, LT_LnFeeReimbursement, LT_Invoice}) txns
      then Inl (InvalidLnPaymentTxnsBundleError ''Invalid type found'')
      else if txns = [] then Inl (InvalidLnPaymentTxnsBundleError ''No txns in bundle'')
      else Inr ())"

definition filterSelfPayments :: "ledger_transaction list \<Rightarrow> error + ledger_transaction list" where
  "filterSelfPayments txns =
     (let invoiceTxns = filter (\<lambda>t. lt_type t = LT_Invoice) txns;
          paymentTxns = filter (\<lambda>t. lt_type t = LT_Payment) txns
      in if length invoiceTxns > 0 \<and> length paymentTxns = 0
         then Inl (InvalidLnPaymentTxnsBundleError ''Invoice type found with no corresponding payments'')
         else Inr (filter (\<lambda>t. lt_type t \<noteq> LT_Invoice) txns))"

text \<open>\<open>Array.sort\<close> is stable, and so is \<open>sort_key\<close>.\<close>

definition sortTxnsByTimestampDesc :: "ledger_transaction list \<Rightarrow> ledger_transaction list" where
  "sortTxnsByTimestampDesc txns = sort_key (\<lambda>t. - lt_timestamp t) txns"

definition determine_pending ::
  "ledger_transaction list \<Rightarrow> ledger_transaction list \<Rightarrow> error + ln_payment_state" where
  "determine_pending txns pendingTxns =
     (if length txns = 1 then Inr LS_Pending
      else if length txns mod 2 = 1 \<and> length pendingTxns = 1 then Inr LS_PendingAfterRetry
      else Inl (InvalidLnPaymentTxnsBundleError ''There should be only 1 pending txn''))"

definition determine_reimbursed ::
  "ledger_transaction list \<Rightarrow> ledger_transaction list \<Rightarrow> error + ln_payment_state" where
  "determine_reimbursed txns reimburseTxns =
     (let paymentTypeTxns = filter (\<lambda>t. lt_type t = LT_Payment) txns;
          txnsAfterReimburse = filter (\<lambda>t. lt_timestamp t > lt_timestamp (hd reimburseTxns)) txns
      in if length paymentTypeTxns = 1 then Inr LS_SuccessWithReimbursement
         else if txnsAfterReimburse \<noteq> [] then Inr LS_FailedAfterSuccessWithReimbursement
         else if length paymentTypeTxns > 1 \<and> length reimburseTxns = 1
              then Inr LS_SuccessWithReimbursementAfterRetry
         else Inl (InvalidLnPaymentTxnsBundleError
           ''There should be payment txns and only 1 reimbursement txn''))"

definition determine_plain :: "ledger_transaction list \<Rightarrow> error + ln_payment_state" where
  "determine_plain txns =
     (if length txns = 1 then Inr LS_Success
      else if length txns = 2 then Inr LS_Failed
      else if length txns mod 2 = 1 \<and> (case txns of [] \<Rightarrow> False | t # _ \<Rightarrow> isDebit t)
           then Inr LS_SuccessAfterRetry
      else if length txns mod 2 = 1 then Inr LS_FailedAfterSuccess
      else if length txns mod 2 = 0 then Inr LS_FailedAfterRetry
      else Inl (InvalidLnPaymentTxnsBundleError ''Impossible state''))"

definition determine_txns :: "ledger_transaction list \<Rightarrow> error + ln_payment_state" where
  "determine_txns txns =
     (let pendingTxns = filter lt_pendingConfirmation txns;
          reimburseTxns = filter (\<lambda>t. lt_type t = LT_LnFeeReimbursement) txns
      in if pendingTxns \<noteq> [] then determine_pending txns pendingTxns
         else if reimburseTxns \<noteq> [] then determine_reimbursed txns reimburseTxns
         else determine_plain txns)"

definition determine :: "ledger_transaction list \<Rightarrow> error + ln_payment_state" where
  "determine unsortedTxns =
     rbind (checkTxns unsortedTxns) (\<lambda>_.
     rbind (filterSelfPayments (sortTxnsByTimestampDesc unsortedTxns)) determine_txns)"

subsection \<open>Histories of a payment\<close>

text \<open>
  What the ledger records over the life of a payment. A failed attempt leaves two transactions,
  the debit and its reversal; the last attempt is pending, settled, settled and reimbursed, or
  failed like the others. A history lists the transactions from the newest to the oldest.
\<close>

datatype ln_outcome = O_pending | O_settled | O_reimbursed | O_failed

definition plain_payment :: "ledger_transaction \<Rightarrow> bool" where
  "plain_payment t \<longleftrightarrow> lt_type t = LT_Payment \<and> \<not> lt_pendingConfirmation t"

fun history :: "ln_outcome \<Rightarrow> nat \<Rightarrow> ledger_transaction list \<Rightarrow> bool" where
  "history O_pending n (p # fs) \<longleftrightarrow> lt_type p = LT_Payment \<and> lt_pendingConfirmation p \<and>
     list_all plain_payment fs \<and> length fs = 2 * n"
| "history O_settled n (p # fs) \<longleftrightarrow> plain_payment p \<and> isDebit p \<and>
     list_all plain_payment fs \<and> length fs = 2 * n"
| "history O_reimbursed n (r # p # fs) \<longleftrightarrow>
     lt_type r = LT_LnFeeReimbursement \<and> \<not> lt_pendingConfirmation r \<and> plain_payment p \<and>
     list_all plain_payment fs \<and> length fs = 2 * n"
| "history O_failed n fs \<longleftrightarrow> 0 < n \<and> list_all plain_payment fs \<and> length fs = 2 * n"
| "history _ _ _ \<longleftrightarrow> False"

fun expected_state :: "ln_outcome \<Rightarrow> nat \<Rightarrow> ln_payment_state" where
  "expected_state O_pending n = (if n = 0 then LS_Pending else LS_PendingAfterRetry)"
| "expected_state O_settled n = (if n = 0 then LS_Success else LS_SuccessAfterRetry)"
| "expected_state O_reimbursed n =
     (if n = 0 then LS_SuccessWithReimbursement else LS_SuccessWithReimbursementAfterRetry)"
| "expected_state O_failed n = (if n = 1 then LS_Failed else LS_FailedAfterRetry)"

definition newest_first :: "ledger_transaction list \<Rightarrow> bool" where
  "newest_first h \<longleftrightarrow> sorted_wrt (\<lambda>a b. lt_timestamp b < lt_timestamp a) h"

lemma newest_first_sort:
  assumes "newest_first h" and "mset txns = mset h"
  shows "sortTxnsByTimestampDesc txns = h"
proof -
  have "sorted_wrt (\<lambda>a b. - lt_timestamp a < - lt_timestamp b) h"
    using assms(1) by (simp add: newest_first_def)
  then have "sorted_wrt (<) (map (\<lambda>t. - lt_timestamp t) h)"
    by (simp add: sorted_wrt_map)
  then have "sorted (map (\<lambda>t. - lt_timestamp t) h)" and "distinct (map (\<lambda>t. - lt_timestamp t) h)"
    by (simp_all add: strict_sorted_iff)
  then show ?thesis
    unfolding sortTxnsByTimestampDesc_def using assms(2) mset_eq_setD [OF assms(2)]
    by (intro sort_key_inj_key_eq) (auto simp: distinct_map)
qed

lemma plain_payments_filter:
  assumes "list_all plain_payment fs"
  shows "filter (\<lambda>t. lt_type t = LT_Invoice) fs = []" "filter (\<lambda>t. lt_type t = LT_Payment) fs = fs"
    "filter (\<lambda>t. lt_type t \<noteq> LT_Invoice) fs = fs" "filter lt_pendingConfirmation fs = []"
    "filter (\<lambda>t. lt_type t = LT_LnFeeReimbursement) fs = []"
  using assms by (induction fs) (auto simp: plain_payment_def)

lemma history_types:
  "history oc n h \<Longrightarrow> h \<noteq> [] \<and> list_all (\<lambda>t. lt_type t \<in> {LT_Payment, LT_LnFeeReimbursement}) h"
  by (induction oc n h rule: history.induct) (auto simp: plain_payment_def list_all_iff)

lemma no_later:
  assumes "newest_first (r # h)"
  shows "filter (\<lambda>t. lt_timestamp r < lt_timestamp t) (r # h) = []"
  using assms by (auto simp: newest_first_def filter_empty_conv)

lemma determine_txns_history:
  assumes "history oc n h" and "newest_first h"
  shows "determine_txns h = Inr (expected_state oc n)"
  using assms
proof (induction oc n h rule: history.induct)
  case (1 n p fs)
  then show ?case
    by (simp add: determine_txns_def determine_pending_def plain_payments_filter)
next
  case (2 n p fs)
  then show ?case
    by (simp add: determine_txns_def determine_plain_def plain_payments_filter plain_payment_def)
next
  case (3 n r p fs)
  then have "filter (\<lambda>t. lt_timestamp r < lt_timestamp t) (r # p # fs) = []"
    by (intro no_later)
  then show ?case
    using 3(1) unfolding determine_txns_def determine_reimbursed_def
    by (simp add: plain_payments_filter plain_payment_def Let_def split: if_splits)
next
  case (4 n fs)
  then show ?case
    by (simp add: determine_txns_def determine_plain_def plain_payments_filter)
qed simp_all

lemma checkTxns_history:
  assumes "history oc n h" and "set txns = set h"
  shows "checkTxns txns = Inr ()" and "filterSelfPayments h = Inr h"
proof -
  have t: "lt_type t \<noteq> LT_Invoice" "lt_type t \<in> {LT_Payment, LT_LnFeeReimbursement, LT_Invoice}" if "t \<in> set h" for t
    using history_types [OF assms(1)] that by (auto simp: list_all_iff)
  have "txns \<noteq> []"
    using history_types [OF assms(1)] assms(2) by (metis set_empty2)
  moreover have "list_all (\<lambda>t. lt_type t \<in> {LT_Payment, LT_LnFeeReimbursement, LT_Invoice}) txns"
    using t(2) unfolding list_all_iff assms(2) by blast
  ultimately show "checkTxns txns = Inr ()"
    by (simp add: checkTxns_def)
  have "filter (\<lambda>t. lt_type t = LT_Invoice) h = []" and "filter (\<lambda>t. lt_type t \<noteq> LT_Invoice) h = h"
    using t(1) by (simp_all add: filter_empty_conv filter_id_conv)
  then show "filterSelfPayments h = Inr h"
    by (simp add: filterSelfPayments_def)
qed

subsection \<open>Properties\<close>

text \<open>C9: the state determined from the ledger is the state the payment is in. Take any history of a
  lightning payment: some number of failed attempts, each a debit and its reversal, and a last
  attempt that is pending, settled, settled with a fee reimbursement, or failed. Whatever the
  order in which the ledger returns its transactions, the determined state is the one of that
  history, with the retries told apart from the first attempt.\<close>
theorem determine_history:
  assumes "history oc n h" and "newest_first h" and "mset txns = mset h"
  shows "determine txns = Inr (expected_state oc n)"
  using checkTxns_history [OF assms(1) mset_eq_setD [OF assms(3)]] determine_txns_history [OF assms(1,2)]
  by (simp add: determine_def newest_first_sort [OF assms(2,3)])

definition example_txn :: "ledger_transaction_type \<Rightarrow> int \<Rightarrow> int \<Rightarrow> bool \<Rightarrow> int \<Rightarrow> ledger_transaction" where
  "example_txn ty d c pending time =
     \<lparr>lt_id = [], lt_walletId = None, lt_type = ty, lt_debit = Fin (of_int d), lt_credit = Fin (of_int c),
      lt_currency = Btc, lt_timestamp = time, lt_pendingConfirmation = pending, lt_journalId = [],
      lt_externalId = None, lt_lnMemo = None, lt_username = None, lt_memoFromPayer = None,
      lt_paymentHash = None, lt_pubkey = None, lt_feeKnownInAdvance = False, lt_lnPaymentState = None,
      lt_satsAmount = None, lt_centsAmount = None, lt_satsFee = None, lt_centsFee = None,
      lt_displayAmount = None, lt_displayFee = None, lt_displayCurrency = None, lt_address = None,
      lt_txHash = None, lt_vout = None, lt_requestId = None, lt_payoutId = None, lt_fee = None,
      lt_usd = None, lt_feeUsd = None\<rparr>"

lemma determine_history_witness:
  "determine [example_txn LT_Payment 10 0 False 1, example_txn LT_LnFeeReimbursement 0 2 False 4,
     example_txn LT_Payment 10 0 False 3, example_txn LT_Payment 0 10 False 2] =
   Inr LS_SuccessWithReimbursementAfterRetry"
  using determine_history [of O_reimbursed 1 "[example_txn LT_LnFeeReimbursement 0 2 False 4,
      example_txn LT_Payment 10 0 False 3, example_txn LT_Payment 0 10 False 2,
      example_txn LT_Payment 10 0 False 1]"]
  by (simp add: newest_first_def plain_payment_def example_txn_def)

text \<open>
  The determined state does not depend on the order in which the ledger returns the
  transactions, as long as no two of them have the same time stamp; errors are the same too.
\<close>

lemma determine_order_independent:
  assumes "mset txns = mset txns'" and "inj_on lt_timestamp (set txns)"
  shows "determine txns = determine txns'"
proof -
  have "inj_on (\<lambda>t. - lt_timestamp t) (set txns)"
    using assms(2) by (auto simp: inj_on_def)
  then have "sortTxnsByTimestampDesc txns = sortTxnsByTimestampDesc txns'"
    unfolding sortTxnsByTimestampDesc_def by (rule sort_key_eq_sort_key [OF assms(1)])
  moreover have "checkTxns txns = checkTxns txns'"
    using mset_eq_setD [OF assms(1)] mset_eq_length [OF assms(1)]
    by (auto simp: checkTxns_def list_all_iff)
  ultimately show ?thesis
    by (simp add: determine_def)
qed

text \<open>A non-empty bundle of payments of which none is pending is always given one of the five
  success and failure states: the branch the code calls impossible is never taken.\<close>
lemma determine_plain_total:
  assumes "txns \<noteq> []" and "list_all plain_payment txns"
  shows "\<exists>s. determine txns = Inr s \<and>
    s \<in> {LS_Success, LS_Failed, LS_SuccessAfterRetry, LS_FailedAfterSuccess, LS_FailedAfterRetry}"
proof -
  let ?h = "sortTxnsByTimestampDesc txns"
  have h: "list_all plain_payment ?h"
    using assms by (auto simp: sortTxnsByTimestampDesc_def list_all_iff)
  have "checkTxns txns = Inr ()"
    using assms by (simp add: checkTxns_def list_all_iff plain_payment_def)
  moreover have "filterSelfPayments ?h = Inr ?h"
    using plain_payments_filter [OF h] by (simp add: filterSelfPayments_def)
  ultimately show ?thesis
    using plain_payments_filter [OF h]
    by (simp add: determine_def determine_txns_def determine_plain_def)
qed

end
