(* ===== verification/Ledger_Facade.thy ===== *)
theory Ledger_Facade
  imports Ledger_Books Ln_Payment_State
begin

text \<open>
  The ledger facade, \<open>services/ledger/facade/*.ts\<close>, with the older \<open>send.ts\<close>, \<open>admin.ts\<close> and
  \<open>admin-legacy.ts\<close>: every operation that writes to the book. Span attributes and recorded
  exceptions are left out.
\<close>

subsection \<open>Sending and receiving\<close>

record record_send_args =
  rs_description :: string
  rs_senderWalletDescriptor :: wallet_descriptor
  rs_amountToDebitSender :: amount_pair
  rs_bankFee :: "amount_pair option"
  rs_metadata :: tx_metadata
  rs_additionalDebitMetadata :: tx_metadata
  rs_additionalInternalMetadata :: tx_metadata

record record_receive_args =
  rr_description :: string
  rr_recipientWalletDescriptor :: wallet_descriptor
  rr_amountToCreditReceiver :: amount_pair
  rr_bankFee :: "amount_pair option"
  rr_externalId :: "string option"
  rr_metadata :: tx_metadata
  rr_txMetadata_hash :: "string option"
  rr_txMetadata_revealedPreImage :: "string option"
  rr_additionalCreditMetadata :: tx_metadata
  rr_additionalInternalMetadata :: tx_metadata

record record_intraledger_args =
  ri_description :: string
  ri_senderWalletDescriptor :: wallet_descriptor
  ri_recipientWalletDescriptor :: wallet_descriptor
  ri_amount :: amount_pair
  ri_metadata :: tx_metadata
  ri_additionalDebitMetadata :: tx_metadata
  ri_additionalCreditMetadata :: tx_metadata
  ri_additionalInternalMetadata :: tx_metadata

definition metadata_hash :: "tx_metadata \<Rightarrow> string option" where
  "metadata_hash m = (case m ''hash'' of Some (MStr h) \<Rightarrow> Some h | _ \<Rightarrow> None)"

definition ZERO_BANK_FEE :: amount_pair where
  "ZERO_BANK_FEE = \<lparr>btc = ZERO_SATS, usd = ZERO_CENTS\<rparr>"

definition entry_config ::
  "('e, 'w) ledger_env \<Rightarrow> string \<Rightarrow> static_account_ids \<Rightarrow> tx_metadata \<Rightarrow> tx_metadata \<Rightarrow>
   string option \<Rightarrow> 'e eb_config" where
  "entry_config env description accountIds metadata additionalInternalMetadata externalId =
     \<lparr>eb_entry = le_entry env description, eb_metadata = metadata,
      eb_additional = additionalInternalMetadata, eb_accounts = accountIds,
      eb_externalId = externalId\<rparr>"

definition recordSendOffChain ::
  "('e, 'w) ledger_env \<Rightarrow> record_send_args \<Rightarrow> ('w, ledger_journal) ledger_op" where
  "recordSendOffChain env args =
     (let actualFee = obj_or (rs_bankFee args) \<lparr>btc = ZERO_SATS, usd = ZERO_CENTS\<rparr>;
          md = le_medici env in
      lbind (staticAccountIds env) (\<lambda>accountIds.
      let builder = entry_config env (rs_description args) accountIds (rs_metadata args)
                      (rs_additionalInternalMetadata args) None;
          b1 = withTotalAmount builder (usd (rs_amountToDebitSender args))
                 (btc (rs_amountToDebitSender args));
          b2 = withBankFee md b1 (btc actualFee) (usd actualFee);
          b3 = debitAccount md b2 (toLedgerAccountDescriptor (rs_senderWalletDescriptor args))
                 (Some (rs_additionalDebitMetadata args));
          entry = creditOffChain md b3
      in persistAndReturnEntry env entry (metadata_hash (rs_metadata args)) None))"

definition recordSendOnChain ::
  "('e, 'w) ledger_env \<Rightarrow> record_send_args \<Rightarrow> ('w, ledger_journal) ledger_op" where
  "recordSendOnChain env args =
     (let actualFee = obj_or (rs_bankFee args) \<lparr>btc = ZERO_SATS, usd = ZERO_CENTS\<rparr>;
          md = le_medici env in
      lbind (staticAccountIds env) (\<lambda>accountIds.
      let builder = entry_config env (rs_description args) accountIds (rs_metadata args)
                      (rs_additionalInternalMetadata args) None;
          b1 = withTotalAmount builder (usd (rs_amountToDebitSender args))
                 (btc (rs_amountToDebitSender args));
          b2 = withBankFee md b1 (btc actualFee) (usd actualFee);
          b3 = debitAccount md b2 (toLedgerAccountDescriptor (rs_senderWalletDescriptor args))
                 (Some (rs_additionalDebitMetadata args));
          entry = creditOnChain md b3
      in persistAndReturnEntry env entry (metadata_hash (rs_metadata args)) None))"

definition recordReceiveOffChain ::
  "('e, 'w) ledger_env \<Rightarrow> record_receive_args \<Rightarrow> ('w, ledger_journal) ledger_op" where
  "recordReceiveOffChain env args =
     (let actualFee = obj_or (rr_bankFee args) \<lparr>btc = ZERO_SATS, usd = ZERO_CENTS\<rparr>;
          md = le_medici env in
      lbind (staticAccountIds env) (\<lambda>accountIds.
      let builder = entry_config env (rr_description args) accountIds (rr_metadata args)
                      (rr_additionalInternalMetadata args) (rr_externalId args);
          usdWithFees = calc_add (usd (rr_amountToCreditReceiver args)) (usd actualFee);
          btcWithFees = calc_add (btc (rr_amountToCreditReceiver args)) (btc actualFee);
          b1 = withTotalAmount builder usdWithFees btcWithFees;
          b2 = withBankFee md b1 (btc actualFee) (usd actualFee);
          b3 = debitOffChain md b2;
          entry = creditAccount md b3 (toLedgerAccountDescriptor (rr_recipientWalletDescriptor args))
                    (Some (rr_additionalCreditMetadata args))
      in persistAndReturnEntry env entry (rr_txMetadata_hash args)
           (rr_txMetadata_revealedPreImage args)))"

definition recordReceiveOnChain ::
  "('e, 'w) ledger_env \<Rightarrow> record_receive_args \<Rightarrow> ('w, ledger_journal) ledger_op" where
  "recordReceiveOnChain env args =
     (let actualFee = obj_or (rr_bankFee args) \<lparr>btc = ZERO_SATS, usd = ZERO_CENTS\<rparr>;
          md = le_medici env in
      lbind (staticAccountIds env) (\<lambda>accountIds.
      let builder = entry_config env (rr_description args) accountIds (rr_metadata args)
                      (rr_additionalInternalMetadata args) None;
          usdWithFees = calc_add (usd (rr_amountToCreditReceiver args)) (usd actualFee);
          btcWithFees = calc_add (btc (rr_amountToCreditReceiver args)) (btc actualFee);
          b1 = withTotalAmount builder usdWithFees btcWithFees;
          b2 = withBankFee md b1 (btc actualFee) (usd actualFee);
          b3 = debitOnChain md b2;
          entry = creditAccount md b3 (toLedgerAccountDescriptor (rr_recipientWalletDescriptor args))
                    (Some (rr_additionalCreditMetadata args))
      in persistAndReturnEntry env entry (rr_txMetadata_hash args)
           (rr_txMetadata_revealedPreImage args)))"

definition recordIntraledger ::
  "('e, 'w) ledger_env \<Rightarrow> record_intraledger_args \<Rightarrow> ('w, ledger_journal) ledger_op" where
  "recordIntraledger env args =
     (let md = le_medici env in
      lbind (staticAccountIds env) (\<lambda>accountIds.
      let builder = entry_config env (ri_description args) accountIds (ri_metadata args)
                      (ri_additionalInternalMetadata args) None;
          b1 = withTotalAmount builder (usd (ri_amount args)) (btc (ri_amount args));
          b2 = withBankFee md b1 (btc ZERO_BANK_FEE) (usd ZERO_BANK_FEE);
          b3 = debitAccount md b2 (toLedgerAccountDescriptor (ri_senderWalletDescriptor args))
                 (Some (ri_additionalDebitMetadata args));
          entry = creditAccount md b3 (toLedgerAccountDescriptor (ri_recipientWalletDescriptor args))
                    (Some (ri_additionalCreditMetadata args))
      in persistAndReturnEntry env entry (metadata_hash (ri_metadata args)) None))"

definition recordBankownerReconciliation ::
  "('e, 'w) ledger_env \<Rightarrow> string \<Rightarrow> amount_pair \<Rightarrow> ('w, ledger_journal) ledger_op" where
  "recordBankownerReconciliation env description amt =
     (let md = le_medici env in
      lbind (staticAccountIds env) (\<lambda>accountIds.
      let bankOwnerAccountDescriptor =
            \<lparr>ad_id = bankOwnerAccountId accountIds, ad_currency = Btc\<rparr>;
          metadata = [''type'' \<mapsto> MStr (type_str LT_Reconciliation),
                      ''currency'' \<mapsto> MStr (currency_str Btc),
                      ''pending'' \<mapsto> MBool False,
                      ''satsAmount'' \<mapsto> MNum (Number_big (amount (btc amt))),
                      ''satsFee'' \<mapsto> MNum (Fin 0),
                      ''centsAmount'' \<mapsto> MNum (Number_big (amount (usd amt))),
                      ''centsFee'' \<mapsto> MNum (Fin 0)];
          builder = entry_config env description accountIds metadata Map.empty None;
          b1 = withTotalAmount builder (usd amt) (btc amt);
          b2 = withBankFee md b1 (btc ZERO_BANK_FEE) (usd ZERO_BANK_FEE);
          b3 = debitAccount md b2 bankOwnerAccountDescriptor (Some Map.empty);
          entry = creditOffChain md b3
      in persistAndReturnEntry env entry None None))"

subsection \<open>onchain-reconcile.ts\<close>

definition recordReceiveOnChainFeeReconciliation ::
  "('e, 'w) ledger_env \<Rightarrow> payment_amount \<Rightarrow> payment_amount \<Rightarrow> tx_metadata \<Rightarrow>
   ('w, ledger_journal) ledger_op" where
  "recordReceiveOnChainFeeReconciliation env estimatedFee actualFee metadata =
     (let md = le_medici env in
      lbind (staticAccountIds env) (\<lambda>accountIds.
      let entry = le_entry env [];
          config = (\<lambda>btcFeeDifference.
            \<lparr>fo_entry = entry, fo_metadata = metadata,
             fo_bankOwnerAccountId = bankOwnerAccountId accountIds, fo_btcFee = btcFeeDifference\<rparr>);
          entry' =
            (if amount actualFee > amount estimatedFee
             then fo_creditOnChain md (debitBankOwner md (config (calc_sub actualFee estimatedFee)))
             else creditBankOwner md (fo_debitOnChain md (config (calc_sub estimatedFee actualFee))))
      in persistAndReturnEntry env entry' (metadata_hash metadata) None))"

definition isOnChainFeeReconciliationTxn :: "ledger_transaction \<Rightarrow> bool" where
  "isOnChainFeeReconciliationTxn txn \<longleftrightarrow> lt_type txn = LT_OnchainPayment \<and> lt_address txn = None"

definition isOnChainFeeReconciliationRecorded ::
  "('e, 'w) ledger_env \<Rightarrow> string \<Rightarrow> ('w, bool) ledger_op" where
  "isOnChainFeeReconciliationRecorded env payoutId =
     catch_unknown (
       lbind (getBankOwnerWalletId env) (\<lambda>bankOwnerWalletId.
       lbind (on_db (\<lambda>w. (le_ledger env
           (LedgerByPayoutId payoutId (toLiabilitiesWalletId bankOwnerWalletId)) w, w))) (\<lambda>results.
       let txns = map translateToLedgerTx results;
           reconciliationTxn = find isOnChainFeeReconciliationTxn txns
       in lreturn (reconciliationTxn \<noteq> None))))"

subsection \<open>onchain-send.ts\<close>

definition getTransactionsByPayoutId ::
  "('e, 'w) ledger_env \<Rightarrow> string \<Rightarrow> ('w, ledger_transaction list) ledger_op" where
  "getTransactionsByPayoutId env payoutId =
     catch_unknown (
       lbind (on_db (\<lambda>w. (le_ledger env (LedgerByPayoutId payoutId liabilitiesMainAccount) w, w)))
         (\<lambda>results. lreturn (map translateToLedgerTx results)))"

definition setOnChainTxPayoutId ::
  "('e, 'w) ledger_env \<Rightarrow> string \<Rightarrow> string \<Rightarrow> ('w, bool) ledger_op" where
  "setOnChainTxPayoutId env journalId payoutId =
     catch_unknown (
       if \<not> le_isValidObjectId env journalId then lerror NoTransactionToUpdateError
       else lbind (on_db (le_updateMany env (ByJournal journalId) (SetPayoutId payoutId)))
         (\<lambda>modifiedCount.
            if \<not> modifiedCount > 0 then lerror NoTransactionToUpdateError else lreturn True))"

definition recordOnChainSendRevert ::
  "('e, 'w) ledger_env \<Rightarrow> string \<Rightarrow> string \<Rightarrow> ('w, bool) ledger_op" where
  "recordOnChainSendRevert env journalId payoutId s =
     (if \<not> le_isValidObjectId env journalId then lerror NoTransactionToUpdateError s
      else case le_void env journalId ''Payment canceled'' (ls_db s) of
             (JournalNotFound, w) \<Rightarrow> lerror NoTransactionToUpdateError (s\<lparr>ls_db := w\<rparr>)
           | (VoidFailed, w) \<Rightarrow> lerror UnknownLedgerError (s\<lparr>ls_db := w\<rparr>)
           | (Voided savedEntry, w) \<Rightarrow>
               let journalEntry = translateToLedgerJournal savedEntry;
                   txsMetadataToPersist =
                     map (\<lambda>i. \<lparr>tm_id = i, tm_hash = None, tm_revealedPreImage = None\<rparr>)
                       (lj_transactionIds journalEntry)
               in lbind (persistAll env txsMetadataToPersist) (\<lambda>_. lreturn True) (s\<lparr>ls_db := w\<rparr>))"

text \<open>The estimate of the miner fee, read off the bank owner's line of the payout.\<close>

definition estimatedProtocolFee_from ::
  "string \<Rightarrow> ledger_transaction list \<Rightarrow> error + payment_amount" where
  "estimatedProtocolFee_from bankOwnerWalletId txns =
     (let bankOwnerTxns = filter (\<lambda>txn. lt_walletId txn = Some bankOwnerWalletId \<and>
                                       \<not> isOnChainFeeReconciliationTxn txn) txns
      in case bankOwnerTxns of
           [bankOwnerTxn] \<Rightarrow>
             let bankFee = lt_credit bankOwnerTxn;
                 protocolFee = js_sub (num_or (lt_satsFee bankOwnerTxn) (Fin 0)) bankFee
             in paymentAmountFromNumber protocolFee Btc
         | _ \<Rightarrow> Inr \<lparr>currency = Btc, amount = 0\<rparr>)"

definition checkTxHashes :: "ledger_transaction list \<Rightarrow> string \<Rightarrow> error + unit" where
  "checkTxHashes txns txId =
     (if txns = [] then Inl NoTransactionToUpdateError
      else let txHashes = map lt_txHash txns in
        if card (set txHashes) \<noteq> 1 then Inl InvalidLedgerTransactionStateError
        else if txHashes ! 0 \<noteq> Some txId then Inl InvalidLedgerTransactionStateError
        else Inr ())"

definition setOnChainTxIdByPayoutId ::
  "('e, 'w) ledger_env \<Rightarrow> string \<Rightarrow> string \<Rightarrow> jsnum \<Rightarrow> ('w, payment_amount) ledger_op" where
  "setOnChainTxIdByPayoutId env payoutId txId vout =
     lbind (catch_unknown (lbind (on_db (le_updateMany env (ByPayoutId payoutId) (SetTxId txId vout)))
         (\<lambda>modifiedCount. lreturn (modifiedCount > 0)))) (\<lambda>success.
     lbind (getTransactionsByPayoutId env payoutId) (\<lambda>txns.
     lbind (\<lambda>s. (Some (if \<not> success then checkTxHashes txns txId else Inr ()), s)) (\<lambda>_.
     lbind (getBankOwnerWalletId env) (\<lambda>bankOwnerWalletId s.
       (Some (estimatedProtocolFee_from bankOwnerWalletId txns), s)))))"

definition settlePendingOnChainPayment ::
  "('e, 'w) ledger_env \<Rightarrow> string \<Rightarrow> ('w, ledger_transaction option) ledger_op" where
  "settlePendingOnChainPayment env payoutId =
     lbind (catch_unknown (lbind (on_db (le_updateMany env (ByPayoutId payoutId) (SetPending False)))
         (\<lambda>modifiedCount.
            if \<not> modifiedCount > 0 then lerror NoTransactionToSettleError else lreturn ()))) (\<lambda>_.
     lbind (getTransactionsByPayoutId env payoutId) (\<lambda>txns.
     lbind (getNonEndUserWalletIds env) (\<lambda>nonUserWalletIds.
     let userLedgerTxn = find (\<lambda>txn. case lt_walletId txn of
                                 None \<Rightarrow> False
                               | Some w \<Rightarrow> w \<noteq> [] \<and> w \<notin> set nonUserWalletIds) txns
     in if userLedgerTxn = None \<and> length txns = 0 then lerror InvalidLedgerTransactionStateError
        else lreturn userLedgerTxn)))"

subsection \<open>offchain-send.ts, send.ts and update-state.ts\<close>

definition recordLnSendRevert ::
  "('e, 'w) ledger_env \<Rightarrow> string \<Rightarrow> string \<Rightarrow> ('w, bool) ledger_op" where
  "recordLnSendRevert env journalId paymentHash s =
     (case le_void env journalId ''Payment canceled'' (ls_db s) of
        (Voided savedEntry, w) \<Rightarrow>
          let journalEntry = translateToLedgerJournal savedEntry;
              txsMetadataToPersist =
                map (\<lambda>i. \<lparr>tm_id = i, tm_hash = Some paymentHash, tm_revealedPreImage = None\<rparr>)
                  (lj_transactionIds journalEntry)
          in lbind (persistAll env txsMetadataToPersist) (\<lambda>_. lreturn True) (s\<lparr>ls_db := w\<rparr>)
      | (_, w) \<Rightarrow> lerror UnknownLedgerError (s\<lparr>ls_db := w\<rparr>))"

text \<open>The service has the same operation; its body is the one above.\<close>

definition revertLightningPayment ::
  "('e, 'w) ledger_env \<Rightarrow> string \<Rightarrow> string \<Rightarrow> ('w, bool) ledger_op" where
  "revertLightningPayment env journalId paymentHash s =
     (case le_void env journalId ''Payment canceled'' (ls_db s) of
        (Voided savedEntry, w) \<Rightarrow>
          let journalEntry = translateToLedgerJournal savedEntry;
              txsMetadataToPersist =
                map (\<lambda>i. \<lparr>tm_id = i, tm_hash = Some paymentHash, tm_revealedPreImage = None\<rparr>)
                  (lj_transactionIds journalEntry)
          in lbind (persistAll env txsMetadataToPersist) (\<lambda>_. lreturn True) (s\<lparr>ls_db := w\<rparr>)
      | (_, w) \<Rightarrow> lerror UnknownLedgerError (s\<lparr>ls_db := w\<rparr>))"

lemma revertLightningPayment_eq: "revertLightningPayment = recordLnSendRevert"
  by (intro ext) (simp add: revertLightningPayment_def recordLnSendRevert_def)

definition settlePendingLnSend :: "('e, 'w) ledger_env \<Rightarrow> string \<Rightarrow> ('w, bool) ledger_op" where
  "settlePendingLnSend env paymentHash =
     catch_unknown (
       lbind (on_db (le_updateMany env (ByHash paymentHash) (SetPending False))) (\<lambda>modifiedCount.
         if \<not> modifiedCount > 0 then lerror NoTransactionToSettleError else lreturn True))"

definition revertOnChainPayment ::
  "('e, 'w) ledger_env \<Rightarrow> string \<Rightarrow> string option \<Rightarrow> ('w, bool) ledger_op" where
  "revertOnChainPayment env journalId description =
     catch_unknown (
       lbind (on_db (le_updateMany env (ByJournal journalId) (SetPending False))) (\<lambda>_ s.
         case le_void env journalId (obj_or description ''Protocol error'') (ls_db s) of
           (Voided _, w) \<Rightarrow> lreturn True (s\<lparr>ls_db := w\<rparr>)
         | (_, w) \<Rightarrow> (None, s\<lparr>ls_db := w\<rparr>)))"

fun LnPaymentState :: "ln_payment_state \<Rightarrow> string" where
  "LnPaymentState LS_Pending = ''ln_payment.pending''"
| "LnPaymentState LS_PendingAfterRetry = ''ln_payment.pending_after_retry''"
| "LnPaymentState LS_Success = ''ln_payment.success''"
| "LnPaymentState LS_SuccessWithReimbursement = ''ln_payment.success_with_reimbursement''"
| "LnPaymentState LS_SuccessAfterRetry = ''ln_payment.success_after_retry''"
| "LnPaymentState LS_SuccessWithReimbursementAfterRetry =
     ''ln_payment.success_with_reimbursement_after_retry''"
| "LnPaymentState LS_Failed = ''ln_payment.failed''"
| "LnPaymentState LS_FailedAfterRetry = ''ln_payment.failed_after_retry''"
| "LnPaymentState LS_FailedAfterSuccess = ''ln_payment.failed_after_success''"
| "LnPaymentState LS_FailedAfterSuccessWithReimbursement =
     ''ln_payment.failed_after_success_with_reimbursement''"

definition getTransactionsForWalletsByPaymentHash ::
  "('e, 'w) ledger_env \<Rightarrow> string list \<Rightarrow> string \<Rightarrow> ('w, ledger_transaction list) ledger_op" where
  "getTransactionsForWalletsByPaymentHash env walletIds paymentHash =
     (let liabilitiesWalletIds = map toLiabilitiesWalletId walletIds in
      catch_unknown (
        lbind (on_db (\<lambda>w.
            (le_ledger env (LedgerByAccountsAndHash liabilitiesWalletIds paymentHash) w, w)))
          (\<lambda>results. lreturn (map translateToLedgerTx results))))"

definition updateStateByRelatedJournal ::
  "('e, 'w) ledger_env \<Rightarrow> string \<Rightarrow> ln_payment_state \<Rightarrow> ('w, bool) ledger_op" where
  "updateStateByRelatedJournal env journalId bundleCompletionState =
     catch_unknown (
       lbind (on_db (le_updateMany env (ByRelatedJournal journalId)
           (SetBundleCompletionState (LnPaymentState bundleCompletionState)))) (\<lambda>modifiedCount.
         if \<not> modifiedCount > 0 then lerror NoTransactionToUpdateStateError else lreturn True))"

definition updateLnPaymentState ::
  "('e, 'w) ledger_env \<Rightarrow> string list \<Rightarrow> string \<Rightarrow> string \<Rightarrow> ('w, bool) ledger_op" where
  "updateLnPaymentState env walletIds paymentHash journalId =
     lbind (getTransactionsForWalletsByPaymentHash env walletIds paymentHash) (\<lambda>txns.
       case determine txns of
         Inl _ \<Rightarrow> lreturn False
       | Inr lnPaymentState \<Rightarrow> updateStateByRelatedJournal env journalId lnPaymentState)"

subsection \<open>admin.ts and admin-legacy.ts\<close>

definition escrowAccountId :: string where
  "escrowAccountId = assetsMainAccount @ '':Reserve:Escrow''"

definition coldStorage_metadata ::
  "ledger_transaction_type \<Rightarrow> string \<Rightarrow> string \<Rightarrow> jsnum \<Rightarrow> jsnum \<Rightarrow> jsnum \<Rightarrow> tx_metadata" where
  "coldStorage_metadata t txHash payeeAddress fee feeUsd usdAmount =
     [''type'' \<mapsto> MStr (type_str t), ''pending'' \<mapsto> MBool False, ''hash'' \<mapsto> MStr txHash,
      ''payee_addresses'' \<mapsto> MAddrs [payeeAddress], ''fee'' \<mapsto> MNum fee, ''feeUsd'' \<mapsto> MNum feeUsd,
      ''usd'' \<mapsto> MNum usdAmount, ''currency'' \<mapsto> MStr (currency_str Btc)]"

definition addColdStorageTxReceive ::
  "('e, 'w) ledger_env \<Rightarrow> string \<Rightarrow> string \<Rightarrow> string \<Rightarrow> jsnum \<Rightarrow> jsnum \<Rightarrow> jsnum \<Rightarrow> jsnum \<Rightarrow>
   ('w, ledger_journal) ledger_op" where
  "addColdStorageTxReceive env txHash payeeAddress description sats fee feeUsd usdAmount =
     (let metadata = coldStorage_metadata LT_ToColdStorage txHash payeeAddress fee feeUsd usdAmount;
          md = le_medici env in
      catch_unknown (
        lbind (getBankOwnerWalletId env) (\<lambda>bankOwnerWalletId.
        let bankOwnerPath = toLiabilitiesWalletId bankOwnerWalletId;
            e1 = md_credit md (le_entry env description) (ad_id lndLedgerAccountDescriptor)
                   (js_add sats fee) metadata;
            e2 = md_debit md e1 bankOwnerPath fee metadata;
            e3 = md_debit md e2 (ad_id coldStorageAccountDescriptor) sats metadata
        in lbind (on_db (le_commit env e3)) (\<lambda>savedEntry.
             lreturn (translateToLedgerJournal savedEntry)))))"

definition addColdStorageTxSend ::
  "('e, 'w) ledger_env \<Rightarrow> string \<Rightarrow> string \<Rightarrow> string \<Rightarrow> jsnum \<Rightarrow> jsnum \<Rightarrow> jsnum \<Rightarrow> jsnum \<Rightarrow>
   ('w, ledger_journal) ledger_op" where
  "addColdStorageTxSend env txHash payeeAddress description sats fee feeUsd usdAmount =
     (let metadata = coldStorage_metadata LT_ToHotWallet txHash payeeAddress fee feeUsd usdAmount;
          md = le_medici env in
      catch_unknown (
        lbind (getBankOwnerWalletId env) (\<lambda>bankOwnerWalletId.
        let bankOwnerPath = toLiabilitiesWalletId bankOwnerWalletId;
            e1 = md_credit md (le_entry env description) (ad_id coldStorageAccountDescriptor)
                   (js_add sats fee) metadata;
            e2 = md_debit md e1 bankOwnerPath fee metadata;
            e3 = md_debit md e2 (ad_id lndLedgerAccountDescriptor) sats metadata
        in lbind (on_db (le_commit env e3)) (\<lambda>savedEntry.
             lreturn (translateToLedgerJournal savedEntry)))))"

record escrow_data =
  ed_ledgerPrevAmount :: jsnum
  ed_lndAmount :: jsnum
  ed_diff :: jsnum
  ed_updated :: bool

definition updateLndEscrow :: "('e, 'w) ledger_env \<Rightarrow> jsnum \<Rightarrow> ('w, escrow_data) ledger_op" where
  "updateLndEscrow env amt =
     (let md = le_medici env in
      lbind (on_db (\<lambda>w. (le_balance env escrowAccountId (Some Btc) w, w))) (\<lambda>ledgerEscrow.
      let diff = js_add amt ledgerEscrow;
          escrowData = \<lparr>ed_ledgerPrevAmount = ledgerEscrow, ed_lndAmount = amt, ed_diff = diff,
                        ed_updated = False\<rparr>
      in if js_eq diff (Fin 0) then lreturn escrowData
         else
           let entry = le_entry env ''escrow'';
               metadata = [''type'' \<mapsto> MStr (type_str LT_Escrow),
                           ''currency'' \<mapsto> MStr (currency_str Btc), ''pending'' \<mapsto> MBool False];
               entry' =
                 (if js_lt (Fin 0) diff
                  then md_debit md (md_credit md entry (ad_id lndLedgerAccountDescriptor) diff metadata)
                         escrowAccountId diff metadata
                  else if js_lt diff (Fin 0)
                  then md_credit md
                         (md_debit md entry (ad_id lndLedgerAccountDescriptor) (js_neg diff) metadata)
                         escrowAccountId (js_neg diff) metadata
                  else entry)
           in lbind (on_db (le_commit env entry')) (\<lambda>_. lreturn (escrowData\<lparr>ed_updated := True\<rparr>))))"

definition addLndChannelOpeningOrClosingFee ::
  "('e, 'w) ledger_env \<Rightarrow> string \<Rightarrow> jsnum \<Rightarrow> string \<Rightarrow> ('w, bool) ledger_op" where
  "addLndChannelOpeningOrClosingFee env description fee txid =
     (let md = le_medici env;
          txMetadata = [''currency'' \<mapsto> MStr (currency_str Btc), ''type'' \<mapsto> MStr (type_str LT_Fee),
                        ''pending'' \<mapsto> MBool False, ''txid'' \<mapsto> MStr txid] in
      lbind (getBankOwnerWalletId env) (\<lambda>bankOwnerWalletId.
      let bankOwnerPath = toLiabilitiesWalletId bankOwnerWalletId;
          entry = md_credit md (md_debit md (le_entry env description) bankOwnerPath fee txMetadata)
                    (ad_id lndLedgerAccountDescriptor) fee txMetadata
      in catch_unknown (lbind (on_db (le_commit env entry)) (\<lambda>_. lreturn True))))"

definition addLndRoutingRevenue ::
  "('e, 'w) ledger_env \<Rightarrow> jsnum \<Rightarrow> string \<Rightarrow> ('w, bool) ledger_op" where
  "addLndRoutingRevenue env amt collectedOn =
     (let md = le_medici env;
          metadata = [''type'' \<mapsto> MStr (type_str LT_RoutingRevenue),
                      ''currency'' \<mapsto> MStr (currency_str Btc),
                      ''feesCollectedOn'' \<mapsto> MStr collectedOn, ''pending'' \<mapsto> MBool False] in
      lbind (getBankOwnerWalletId env) (\<lambda>bankOwnerWalletId.
      let bankOwnerPath = toLiabilitiesWalletId bankOwnerWalletId;
          entry = md_debit md (md_credit md (le_entry env ''routing fee'') bankOwnerPath amt metadata)
                    (ad_id lndLedgerAccountDescriptor) amt metadata
      in catch_unknown (lbind (on_db (le_commit env entry)) (\<lambda>_. lreturn True))))"

end
