(* ===== verification/Ledger_Invariant.thy ===== *)
theory Ledger_Invariant
  imports Ledger_Facade
begin

text \<open>
  The books stay balanced: whatever sequence of facade operations is run, every journal in the
  book has equal debits and credits in each currency. The contract shared by the operations
  that build an entry and commit it is the locale \<open>entry_recorder\<close>, interpreted for each of
  them; the step relation \<open>ledger_step\<close> collects every writing operation.
\<close>

subsection \<open>What is relied on of the book\<close>

text \<open>
  The journals of the book, oldest first: the id and the lines, each line as account, debit,
  credit and currency.
\<close>

type_synonym ledger_line = "string \<times> jsnum \<times> jsnum \<times> mval option"
type_synonym 'w journals = "'w \<Rightarrow> (string \<times> ledger_line list) list"

fun reverse_line :: "ledger_line \<Rightarrow> ledger_line" where
  "reverse_line (a, d, k, c) = (a, k, d, c)"

text \<open>
  Committing an entry appends its lines as one journal and, when it throws, records nothing;
  voiding a journal appends the journal with debits and credits exchanged; updating the
  metadata of transactions leaves accounts, amounts and currencies alone.
\<close>

definition books_laws :: "'w journals \<Rightarrow> ('e, 'w) ledger_env \<Rightarrow> bool" where
  "books_laws js env \<longleftrightarrow>
     medici_laws (le_medici env) \<and>
     (\<forall>d. md_transactions (le_medici env) (le_entry env d) = []) \<and>
     (\<forall>e w r w'. le_commit env e w = (Some r, w') \<longrightarrow>
        js w' = js w @ [(se_id r, map line_summary (md_transactions (le_medici env) e))]) \<and>
     (\<forall>e w w'. le_commit env e w = (None, w') \<longrightarrow> js w' = js w) \<and>
     (\<forall>j r w se w'. le_void env j r w = (Voided se, w') \<longrightarrow>
        (\<exists>ls. (j, ls) \<in> set (js w) \<and> js w' = js w @ [(se_id se, map reverse_line ls)])) \<and>
     (\<forall>j r w w'. le_void env j r w = (JournalNotFound, w') \<or> le_void env j r w = (VoidFailed, w') \<longrightarrow>
        js w' = js w) \<and>
     (\<forall>ms w. js (le_insertMany env ms w) = js w) \<and>
     (\<forall>f u w. js (snd (le_updateMany env f u w)) = js w)"

lemma books_laws_medici:
  "books_laws js env \<Longrightarrow> medici_laws (le_medici env)"
  "books_laws js env \<Longrightarrow> md_transactions (le_medici env) (le_entry env d) = []"
  by (simp_all add: books_laws_def)

lemma books_laws_commit:
  "books_laws js env \<Longrightarrow> le_commit env e w = (Some r, w') \<Longrightarrow>
     js w' = js w @ [(se_id r, map line_summary (md_transactions (le_medici env) e))]"
  "books_laws js env \<Longrightarrow> le_commit env e w = (None, w') \<Longrightarrow> js w' = js w"
  by (simp_all add: books_laws_def)

lemma books_laws_void:
  "books_laws js env \<Longrightarrow> le_void env j r w = (Voided se, w') \<Longrightarrow>
     \<exists>ls. (j, ls) \<in> set (js w) \<and> js w' = js w @ [(se_id se, map reverse_line ls)]"
  "books_laws js env \<Longrightarrow> le_void env j r w = (JournalNotFound, w') \<Longrightarrow> js w' = js w"
  "books_laws js env \<Longrightarrow> le_void env j r w = (VoidFailed, w') \<Longrightarrow> js w' = js w"
  unfolding books_laws_def by blast+

lemma books_laws_update [simp]:
  "books_laws js env \<Longrightarrow> js (le_insertMany env ms w) = js w"
  "books_laws js env \<Longrightarrow> js (snd (le_updateMany env f u w)) = js w"
  by (simp_all add: books_laws_def)

subsection \<open>Balanced journals\<close>

definition lines_balance :: "wallet_currency \<Rightarrow> ledger_line list \<Rightarrow> rat" where
  "lines_balance c ls =
     (\<Sum>(a, d, k, cur)\<leftarrow>ls. if cur = Some (MStr (currency_str c)) then num_val d - num_val k else 0)"

definition balanced :: "(string \<times> ledger_line list) list \<Rightarrow> bool" where
  "balanced jls \<longleftrightarrow> (\<forall>(j, ls) \<in> set jls. lines_balance Btc ls = 0 \<and> lines_balance Usd ls = 0)"

lemma lines_balance_summary: "lines_balance c (map line_summary ts) = ledger_balance c ts"
  by (induction ts) (simp_all add: lines_balance_def ledger_balance_def line_summary_def in_currency_def)

lemma lines_balance_reverse: "lines_balance c (map reverse_line ls) = - lines_balance c ls"
proof (induction ls)
  case (Cons l ls)
  then show ?case
    by (cases l) (simp add: lines_balance_def)
qed (simp add: lines_balance_def)

lemma balanced_append [simp]: "balanced (xs @ ys) \<longleftrightarrow> balanced xs \<and> balanced ys"
  by (auto simp: balanced_def)

lemma balanced_single [simp]:
  "balanced [(j, ls)] \<longleftrightarrow> lines_balance Btc ls = 0 \<and> lines_balance Usd ls = 0"
  by (simp add: balanced_def)

lemma balanced_member: "balanced jls \<Longrightarrow> (j, ls) \<in> set jls \<Longrightarrow> lines_balance c ls = 0"
  by (cases c) (auto simp: balanced_def)

subsection \<open>Operations that do not touch the journals\<close>

definition keeps :: "'w journals \<Rightarrow> ('w, 'a) ledger_op \<Rightarrow> bool" where
  "keeps js m \<longleftrightarrow> (\<forall>s. js (ls_db (snd (m s))) = js (ls_db s))"

definition keeps_balanced :: "'w journals \<Rightarrow> ('w, 'a) ledger_op \<Rightarrow> bool" where
  "keeps_balanced js m \<longleftrightarrow> (\<forall>s. balanced (js (ls_db s)) \<longrightarrow> balanced (js (ls_db (snd (m s)))))"

lemma keeps_imp_balanced: "keeps js m \<Longrightarrow> keeps_balanced js m"
  by (simp add: keeps_def keeps_balanced_def)

lemma lbind_snd:
  "snd (lbind m f s) = (case fst (m s) of Some (Inr a) \<Rightarrow> snd (f a (snd (m s))) | _ \<Rightarrow> snd (m s))"
  by (simp add: lbind_def split: option.splits sum.splits prod.splits)

lemma keeps_lbind [keeps_intros]: "keeps js m \<Longrightarrow> (\<And>a. keeps js (f a)) \<Longrightarrow> keeps js (lbind m f)"
  by (simp add: keeps_def lbind_snd split: option.splits sum.splits)

lemma keeps_balanced_lbind [keeps_intros]:
  "keeps_balanced js m \<Longrightarrow> (\<And>a. keeps_balanced js (f a)) \<Longrightarrow> keeps_balanced js (lbind m f)"
  by (simp add: keeps_balanced_def lbind_snd split: option.splits sum.splits)

lemma keeps_simple [keeps_intros]: "keeps js (lreturn a)" "keeps js (lerror e)" "keeps js (\<lambda>s. (r, s))"
  by (simp_all add: keeps_def lreturn_def lerror_def)

lemma catch_unknown_snd [simp]: "snd (catch_unknown m s) = snd (m s)"
  by (simp add: catch_unknown_def split: option.splits prod.splits)

lemma keeps_catch [keeps_intros]:
  "keeps js m \<Longrightarrow> keeps js (catch_unknown m)"
  "keeps_balanced js m \<Longrightarrow> keeps_balanced js (catch_unknown m)"
  by (simp_all add: keeps_def keeps_balanced_def)

lemma keeps_on_db [keeps_intros]: "(\<And>w. js (snd (f w)) = js w) \<Longrightarrow> keeps js (on_db f)"
  by (simp add: keeps_def on_db_def split: prod.splits) (metis snd_conv)

lemma keeps_caching [keeps_intros]:
  "keeps js (getDealerBtcWalletId env)" "keeps js (getDealerUsdWalletId env)"
  "keeps js (getBankOwnerWalletId env)" "keeps js (getFunderWalletId env)"
  by (simp_all add: keeps_def getDealerBtcWalletId_def getDealerUsdWalletId_def getBankOwnerWalletId_def
      getFunderWalletId_def split: option.splits)

lemma keeps_staticAccountIds [keeps_intros]: "keeps js (staticAccountIds env)"
  unfolding staticAccountIds_def by (intro keeps_intros)

lemma keeps_getNonEndUserWalletIds [keeps_intros]: "keeps js (getNonEndUserWalletIds env)"
  unfolding getNonEndUserWalletIds_def getDealerWalletIds_def
  by (rule keeps_lbind, intro keeps_intros, simp split: prod.splits) (intro allI impI keeps_intros)

lemma keeps_persistAll [keeps_intros]: "books_laws js env \<Longrightarrow> keeps js (persistAll env ms)"
  by (simp add: keeps_def persistAll_def)

lemma keeps_updateMany [keeps_intros]: "books_laws js env \<Longrightarrow> keeps js (on_db (le_updateMany env f u))"
  by (intro keeps_on_db) simp

lemma keeps_query [keeps_intros]: "keeps js (on_db (\<lambda>w. (q w, w)))"
  by (intro keeps_on_db) simp

lemma balanced_commit [keeps_intros]:
  assumes "books_laws js env"
    and "\<And>c. ledger_balance c (md_transactions (le_medici env) e) = 0"
  shows "keeps_balanced js (on_db (le_commit env e))"
proof -
  have "balanced (js (snd (le_commit env e w)))" if "balanced (js w)" for w
    using that books_laws_commit [OF assms(1), of e w] assms(2)
    by (cases "le_commit env e w"; cases "fst (le_commit env e w)") (auto simp: lines_balance_summary)
  then show ?thesis
    by (simp add: keeps_balanced_def on_db_def split: prod.splits) (metis snd_conv)
qed

lemma balanced_persist [keeps_intros]:
  assumes "books_laws js env"
    and "\<And>c. ledger_balance c (md_transactions (le_medici env) e) = 0"
  shows "keeps_balanced js (persistAndReturnEntry env e h p)"
  unfolding persistAndReturnEntry_def Let_def
  by (intro keeps_intros balanced_commit [OF assms] keeps_imp_balanced keeps_persistAll [OF assms(1)])

lemma balanced_void:
  assumes "books_laws js env" and "balanced (js w)"
  shows "balanced (js (snd (le_void env j r w)))"
  using books_laws_void [OF assms(1), of j r w] assms(2)
  by (cases "le_void env j r w"; cases "fst (le_void env j r w)")
    (auto simp: lines_balance_reverse dest: balanced_member)

subsection \<open>The contract of the recording operations\<close>

locale entry_recorder =
  fixes op :: "('e, 'w) ledger_env \<Rightarrow> 'a \<Rightarrow> ('w, ledger_journal) ledger_op"
    and entry_of :: "('e, 'w) ledger_env \<Rightarrow> static_account_ids \<Rightarrow> 'a \<Rightarrow> 'e"
    and hash_of :: "'a \<Rightarrow> string option"
    and preimage_of :: "'a \<Rightarrow> string option"
    and admissible :: "'a \<Rightarrow> bool"
  assumes op_eq: "op env args = lbind (staticAccountIds env) (\<lambda>ids.
      persistAndReturnEntry env (entry_of env ids args) (hash_of args) (preimage_of args))"
    and entry_balanced: "medici_laws (le_medici env) \<Longrightarrow>
      (\<And>d. md_transactions (le_medici env) (le_entry env d) = []) \<Longrightarrow> admissible args \<Longrightarrow>
      ledger_balance c (md_transactions (le_medici env) (entry_of env ids args)) = 0"
begin

lemma keeps_books_balanced:
  assumes "books_laws js env" and "admissible args"
  shows "keeps_balanced js (op env args)"
  unfolding op_eq
  by (intro keeps_intros keeps_imp_balanced balanced_persist assms(1)
      entry_balanced [OF books_laws_medici [OF assms(1)] assms(2)])

lemma records_one_journal_or_fails:
  assumes "books_laws js env" and "admissible args"
  shows "case op env args s of
      (Some (Inr j), s') \<Rightarrow> (\<exists>ls. js (ls_db s') = js (ls_db s) @ [(lj_journalId j, ls)] \<and>
        lines_balance Btc ls = 0 \<and> lines_balance Usd ls = 0)
    | (Some (Inl e), s') \<Rightarrow> e = UnknownLedgerError \<and> js (ls_db s') = js (ls_db s)
    | (None, s') \<Rightarrow> False"
proof -
  obtain r s1 where ids: "staticAccountIds env s = (r, s1)"
    by fastforce
  have s1: "js (ls_db s1) = js (ls_db s)"
    using keeps_staticAccountIds [of js env] ids by (metis keeps_def snd_conv)
  consider "r = Some (Inl UnknownLedgerError)" | ids' where "r = Some (Inr ids')"
    using ids unfolding staticAccountIds_def catch_unknown_def lbind_def lreturn_def
      getBankOwnerWalletId_def getDealerBtcWalletId_def getDealerUsdWalletId_def
    by (fastforce split: option.splits if_splits prod.splits sum.splits)
  then show ?thesis
  proof cases
    case 1
    then show ?thesis
      using ids s1 by (simp add: op_eq lbind_def)
  next
    case 2
    let ?e = "entry_of env ids' args"
    obtain q w where commit: "le_commit env ?e (ls_db s1) = (q, w)"
      by fastforce
    have "lines_balance c (map line_summary (md_transactions (le_medici env) ?e)) = 0" for c
      by (simp add: lines_balance_summary entry_balanced [OF books_laws_medici [OF assms(1)] assms(2)])
    then show ?thesis
      using 2 ids s1 commit books_laws_commit [OF assms(1), of ?e "ls_db s1"] books_laws_update(1) [OF assms(1)]
      by (cases q) (simp_all add: op_eq lbind_def persistAndReturnEntry_def catch_unknown_def on_db_def Let_def
          persistAll_def lreturn_def translateToLedgerJournal_def)
  qed
qed

end

subsection \<open>The recording operations\<close>

definition fee_or_zero :: "amount_pair option \<Rightarrow> amount_pair" where
  "fee_or_zero fee = obj_or fee \<lparr>btc = ZERO_SATS, usd = ZERO_CENTS\<rparr>"

definition with_fee :: "amount_pair \<Rightarrow> amount_pair \<Rightarrow> amount_pair" where
  "with_fee a fee = \<lparr>btc = calc_add (btc a) (btc fee), usd = calc_add (usd a) (usd fee)\<rparr>"

definition send_config :: "('e, 'w) ledger_env \<Rightarrow> static_account_ids \<Rightarrow> record_send_args \<Rightarrow> 'e eb_config" where
  "send_config env ids args = entry_config env (rs_description args) ids (rs_metadata args)
     (rs_additionalInternalMetadata args) None"

definition receive_config ::
  "('e, 'w) ledger_env \<Rightarrow> static_account_ids \<Rightarrow> record_receive_args \<Rightarrow> string option \<Rightarrow> 'e eb_config" where
  "receive_config env ids args externalId = entry_config env (rr_description args) ids (rr_metadata args)
     (rr_additionalInternalMetadata args) externalId"

definition send_entry ::
  "account_descriptor \<Rightarrow> ('e, 'w) ledger_env \<Rightarrow> static_account_ids \<Rightarrow> record_send_args \<Rightarrow> 'e" where
  "send_entry acc env ids args =
     build_entry (le_medici env) (send_config env ids args) (rs_amountToDebitSender args)
       (fee_or_zero (rs_bankFee args)) (toLedgerAccountDescriptor (rs_senderWalletDescriptor args))
       (Some (rs_additionalDebitMetadata args)) acc (Some (rs_additionalInternalMetadata args))"

definition receive_entry ::
  "account_descriptor \<Rightarrow> (record_receive_args \<Rightarrow> string option) \<Rightarrow> ('e, 'w) ledger_env \<Rightarrow>
   static_account_ids \<Rightarrow> record_receive_args \<Rightarrow> 'e" where
  "receive_entry acc ext env ids args =
     build_entry (le_medici env) (receive_config env ids args (ext args))
       (with_fee (rr_amountToCreditReceiver args) (fee_or_zero (rr_bankFee args)))
       (fee_or_zero (rr_bankFee args)) acc (Some (rr_additionalInternalMetadata args))
       (toLedgerAccountDescriptor (rr_recipientWalletDescriptor args))
       (Some (rr_additionalCreditMetadata args))"

definition send_admissible :: "record_send_args \<Rightarrow> bool" where
  "send_admissible args \<longleftrightarrow> entry_amounts_ok (rs_amountToDebitSender args) (fee_or_zero (rs_bankFee args))"

definition receive_admissible :: "record_receive_args \<Rightarrow> bool" where
  "receive_admissible args \<longleftrightarrow>
     entry_amounts_ok (with_fee (rr_amountToCreditReceiver args) (fee_or_zero (rr_bankFee args)))
       (fee_or_zero (rr_bankFee args))"

lemma additional_fields [simp]:
  "eb_additional (debitAccount md ds acc m) = eb_additional ds"
  "eb_additional (withBankFee md fs b u) = eb_additional fs"
  "eb_additional (withTotalAmount cfg u b) = eb_additional cfg"
  "eb_additional (entry_config env d ids mt add ext) = add"
  "eb_entry (entry_config env d ids mt add ext) = le_entry env d"
  by (simp_all add: entry_simps entry_config_def)

lemmas recorder_defs = send_entry_def receive_entry_def send_config_def receive_config_def
  fee_or_zero_def with_fee_def build_entry_def creditOffChain_def creditOnChain_def debitOffChain_def
  debitOnChain_def Let_def

lemma send_entry_balance:
  assumes "medici_laws (le_medici env)" and "\<And>d. md_transactions (le_medici env) (le_entry env d) = []"
    and "send_admissible args"
  shows "ledger_balance c (md_transactions (le_medici env) (send_entry acc env ids args)) = 0"
  using assms by (simp add: send_entry_def send_config_def send_admissible_def build_entry_balance)

lemma receive_entry_balance:
  assumes "medici_laws (le_medici env)" and "\<And>d. md_transactions (le_medici env) (le_entry env d) = []"
    and "receive_admissible args"
  shows "ledger_balance c (md_transactions (le_medici env) (receive_entry acc ext env ids args)) = 0"
  using assms by (simp add: receive_entry_def receive_config_def receive_admissible_def build_entry_balance)

interpretation send_offchain: entry_recorder recordSendOffChain "send_entry lndLedgerAccountDescriptor"
  "\<lambda>args. metadata_hash (rs_metadata args)" "\<lambda>_. None" send_admissible
proof
  show "recordSendOffChain env args = lbind (staticAccountIds env) (\<lambda>ids. persistAndReturnEntry env
      (send_entry lndLedgerAccountDescriptor env ids args) (metadata_hash (rs_metadata args)) None)"
    for env :: "('a, 'b) ledger_env" and args
    by (simp add: recordSendOffChain_def recorder_defs)
qed (rule send_entry_balance)

interpretation send_onchain: entry_recorder recordSendOnChain "send_entry onChainLedgerAccountDescriptor"
  "\<lambda>args. metadata_hash (rs_metadata args)" "\<lambda>_. None" send_admissible
proof
  show "recordSendOnChain env args = lbind (staticAccountIds env) (\<lambda>ids. persistAndReturnEntry env
      (send_entry onChainLedgerAccountDescriptor env ids args) (metadata_hash (rs_metadata args)) None)"
    for env :: "('a, 'b) ledger_env" and args
    by (simp add: recordSendOnChain_def recorder_defs)
qed (rule send_entry_balance)

interpretation receive_offchain: entry_recorder recordReceiveOffChain
  "receive_entry lndLedgerAccountDescriptor rr_externalId" rr_txMetadata_hash rr_txMetadata_revealedPreImage
  receive_admissible
proof
  show "recordReceiveOffChain env args = lbind (staticAccountIds env) (\<lambda>ids. persistAndReturnEntry env
      (receive_entry lndLedgerAccountDescriptor rr_externalId env ids args) (rr_txMetadata_hash args)
      (rr_txMetadata_revealedPreImage args))"
    for env :: "('a, 'b) ledger_env" and args
    by (simp add: recordReceiveOffChain_def recorder_defs)
qed (rule receive_entry_balance)

interpretation receive_onchain: entry_recorder recordReceiveOnChain
  "receive_entry onChainLedgerAccountDescriptor (\<lambda>_. None)" rr_txMetadata_hash
  rr_txMetadata_revealedPreImage receive_admissible
proof
  show "recordReceiveOnChain env args = lbind (staticAccountIds env) (\<lambda>ids. persistAndReturnEntry env
      (receive_entry onChainLedgerAccountDescriptor (\<lambda>_. None) env ids args) (rr_txMetadata_hash args)
      (rr_txMetadata_revealedPreImage args))"
    for env :: "('a, 'b) ledger_env" and args
    by (simp add: recordReceiveOnChain_def recorder_defs)
qed (rule receive_entry_balance)

definition intraledger_entry ::
  "('e, 'w) ledger_env \<Rightarrow> static_account_ids \<Rightarrow> record_intraledger_args \<Rightarrow> 'e" where
  "intraledger_entry env ids args =
     build_entry (le_medici env)
       (entry_config env (ri_description args) ids (ri_metadata args) (ri_additionalInternalMetadata args) None)
       (ri_amount args) ZERO_BANK_FEE
       (toLedgerAccountDescriptor (ri_senderWalletDescriptor args)) (Some (ri_additionalDebitMetadata args))
       (toLedgerAccountDescriptor (ri_recipientWalletDescriptor args))
       (Some (ri_additionalCreditMetadata args))"

interpretation intraledger: entry_recorder recordIntraledger intraledger_entry
  "\<lambda>args. metadata_hash (ri_metadata args)" "\<lambda>_. None" "\<lambda>args. entry_amounts_ok (ri_amount args) ZERO_BANK_FEE"
proof
  show "recordIntraledger env args = lbind (staticAccountIds env) (\<lambda>ids. persistAndReturnEntry env
      (intraledger_entry env ids args) (metadata_hash (ri_metadata args)) None)"
    for env :: "('a, 'b) ledger_env" and args
    by (simp add: recordIntraledger_def intraledger_entry_def recorder_defs)
qed (simp add: intraledger_entry_def build_entry_balance)

definition bankowner_metadata :: "amount_pair \<Rightarrow> tx_metadata" where
  "bankowner_metadata amt =
     [''type'' \<mapsto> MStr (type_str LT_Reconciliation), ''currency'' \<mapsto> MStr (currency_str Btc),
      ''pending'' \<mapsto> MBool False, ''satsAmount'' \<mapsto> MNum (Number_big (amount (btc amt))),
      ''satsFee'' \<mapsto> MNum (Fin 0), ''centsAmount'' \<mapsto> MNum (Number_big (amount (usd amt))),
      ''centsFee'' \<mapsto> MNum (Fin 0)]"

definition bankowner_entry ::
  "('e, 'w) ledger_env \<Rightarrow> static_account_ids \<Rightarrow> string \<times> amount_pair \<Rightarrow> 'e" where
  "bankowner_entry env ids args =
     build_entry (le_medici env)
       (entry_config env (fst args) ids (bankowner_metadata (snd args)) Map.empty None)
       (snd args) ZERO_BANK_FEE \<lparr>ad_id = bankOwnerAccountId ids, ad_currency = Btc\<rparr> (Some Map.empty)
       lndLedgerAccountDescriptor (Some Map.empty)"

interpretation bankowner: entry_recorder
  "\<lambda>env args. recordBankownerReconciliation env (fst args) (snd args)" bankowner_entry
  "\<lambda>_. None" "\<lambda>_. None" "\<lambda>args. entry_amounts_ok (snd args) ZERO_BANK_FEE"
proof
  show "recordBankownerReconciliation env (fst args) (snd args) = lbind (staticAccountIds env) (\<lambda>ids.
      persistAndReturnEntry env (bankowner_entry env ids args) None None)"
    for env :: "('a, 'b) ledger_env" and args
    by (simp add: recordBankownerReconciliation_def bankowner_entry_def bankowner_metadata_def recorder_defs)
qed (simp add: bankowner_entry_def build_entry_balance)

definition fee_reconciliation_entry ::
  "('e, 'w) ledger_env \<Rightarrow> static_account_ids \<Rightarrow> payment_amount \<times> payment_amount \<times> tx_metadata \<Rightarrow> 'e" where
  "fee_reconciliation_entry env ids = (\<lambda>(estimatedFee, actualFee, metadata).
     let md = le_medici env;
         config = (\<lambda>fee. \<lparr>fo_entry = le_entry env [], fo_metadata = metadata,
           fo_bankOwnerAccountId = bankOwnerAccountId ids, fo_btcFee = fee\<rparr>)
     in if amount actualFee > amount estimatedFee
        then fo_creditOnChain md (debitBankOwner md (config (calc_sub actualFee estimatedFee)))
        else creditBankOwner md (fo_debitOnChain md (config (calc_sub estimatedFee actualFee))))"

lemma fee_reconciliation_balance:
  assumes "medici_laws (le_medici env)" and "\<And>d. md_transactions (le_medici env) (le_entry env d) = []"
  shows "ledger_balance c (md_transactions (le_medici env) (fee_reconciliation_entry env ids args)) = 0"
  by (cases args)
    (simp add: fee_reconciliation_entry_def Let_def fo_creditOnChain_def debitBankOwner_def creditBankOwner_def
      fo_debitOnChain_def fo_debitAccount_def fo_creditAccount_def fo_bankOwner_def
      medici_transactions [OF assms(1)] assms(2))

interpretation fee_reconciliation: entry_recorder
  "\<lambda>env (est, act, meta). recordReceiveOnChainFeeReconciliation env est act meta" fee_reconciliation_entry
  "\<lambda>(est, act, meta). metadata_hash meta" "\<lambda>_. None" "\<lambda>_. True"
proof
  show "(case args of (est, act, meta) \<Rightarrow> recordReceiveOnChainFeeReconciliation env est act meta) =
      lbind (staticAccountIds env) (\<lambda>ids. persistAndReturnEntry env (fee_reconciliation_entry env ids args)
        (case args of (est, act, meta) \<Rightarrow> metadata_hash meta) None)"
    for env :: "('a, 'b) ledger_env" and args
    by (cases args) (simp add: recordReceiveOnChainFeeReconciliation_def fee_reconciliation_entry_def Let_def)
qed (rule fee_reconciliation_balance)

subsection \<open>Voiding, settling and the bank's own entries\<close>

lemma balanced_after_void:
  assumes "books_laws js env" and "balanced (js w)" and "le_void env j r w = (x, w')"
  shows "balanced (js w')"
  using balanced_void [OF assms(1,2), of j r] assms(3) by simp

lemma balanced_reverts:
  assumes "books_laws js env"
  shows "keeps_balanced js (recordLnSendRevert env j h)"
    and "keeps_balanced js (recordOnChainSendRevert env j p)"
    and "keeps_balanced js (revertOnChainPayment env j d)"
proof -
  show "keeps_balanced js (recordLnSendRevert env j h)" "keeps_balanced js (recordOnChainSendRevert env j p)"
    using books_laws_update [OF assms]
    by (auto simp: keeps_balanced_def recordLnSendRevert_def recordOnChainSendRevert_def lbind_snd lreturn_def
        lerror_def persistAll_def Let_def
        dest: balanced_after_void [OF assms] split: void_result.splits prod.splits)
  have "keeps_balanced js (\<lambda>s. case le_void env j r (ls_db s) of
      (Voided _, w) \<Rightarrow> lreturn True (s\<lparr>ls_db := w\<rparr>) | (_, w) \<Rightarrow> (None, s\<lparr>ls_db := w\<rparr>))" for r
    by (auto simp: keeps_balanced_def lreturn_def dest: balanced_after_void [OF assms]
        split: void_result.splits prod.splits)
  then show "keeps_balanced js (revertOnChainPayment env j d)"
    unfolding revertOnChainPayment_def
    by (intro keeps_intros keeps_imp_balanced [OF keeps_updateMany [OF assms]])
qed

lemma keeps_settle:
  assumes "books_laws js env"
  shows "keeps js (settlePendingLnSend env h)" and "keeps js (setOnChainTxPayoutId env j p)"
    and "keeps js (setOnChainTxIdByPayoutId env p t v)" and "keeps js (settlePendingOnChainPayment env p)"
    and "keeps js (updateLnPaymentState env ws h j)"
proof -
  note update = keeps_updateMany [OF assms]
  have get: "keeps js (getTransactionsByPayoutId env p)" for p
    unfolding getTransactionsByPayoutId_def by (intro keeps_intros)
  show "keeps js (settlePendingLnSend env h)"
    unfolding settlePendingLnSend_def by (intro keeps_intros update) (simp add: keeps_simple)
  show "keeps js (setOnChainTxPayoutId env j p)"
    unfolding setOnChainTxPayoutId_def
    by (cases "le_isValidObjectId env j") (simp_all add: keeps_intros update)
  show "keeps js (setOnChainTxIdByPayoutId env p t v)"
    unfolding setOnChainTxIdByPayoutId_def by (intro keeps_intros update get)
  show "keeps js (settlePendingOnChainPayment env p)"
    unfolding settlePendingOnChainPayment_def Let_def
    by (intro keeps_lbind keeps_catch update get keeps_getNonEndUserWalletIds) (simp_all add: keeps_simple)
  show "keeps js (updateLnPaymentState env ws h j)"
    unfolding updateLnPaymentState_def getTransactionsForWalletsByPaymentHash_def Let_def
    by (intro keeps_lbind keeps_catch keeps_query keeps_simple)
      (auto simp: updateStateByRelatedJournal_def keeps_simple split: sum.splits
        intro!: keeps_lbind keeps_catch update)
qed

lemma balanced_admin:
  assumes laws: "books_laws js env"
  shows "safe_int (n + f) \<Longrightarrow>
      keeps_balanced js (addColdStorageTxReceive env h a d (Fin (of_int n)) (Fin (of_int f)) fu u)"
    and "safe_int (n + f) \<Longrightarrow>
      keeps_balanced js (addColdStorageTxSend env h a d (Fin (of_int n)) (Fin (of_int f)) fu u)"
    and "keeps_balanced js (updateLndEscrow env amt)"
    and "keeps_balanced js (addLndChannelOpeningOrClosingFee env d amt t)"
    and "keeps_balanced js (addLndRoutingRevenue env amt t)"
proof -
  note md = medici_transactions [OF books_laws_medici(1) [OF laws]] books_laws_medici(2) [OF laws]
  note intros = keeps_balanced_lbind keeps_catch(2) balanced_commit [OF laws] keeps_simple [THEN keeps_imp_balanced]
    keeps_caching [THEN keeps_imp_balanced] keeps_query [THEN keeps_imp_balanced]
  have cur: "in_currency c \<lparr>mt_account = x, mt_debit = y, mt_credit = z, mt_meta = m\<rparr> \<longleftrightarrow> c = Btc"
    if "m ''currency'' = Some (MStr (currency_str Btc))" for c x y z m
    using that by (cases c) (simp_all add: in_currency_def)
  have sum: "js_add (Fin (of_int n)) (Fin (of_int f)) = Fin (of_int n + of_int f)" if "safe_int (n + f)"
    using round_double_int [OF that] by (simp add: js_add_def)
  show "keeps_balanced js (addColdStorageTxReceive env h a d (Fin (of_int n)) (Fin (of_int f)) fu u)"
    if "safe_int (n + f)"
    unfolding addColdStorageTxReceive_def Let_def
    by (intro intros) (simp add: md sum [OF that] cur coldStorage_metadata_def)
  show "keeps_balanced js (addColdStorageTxSend env h a d (Fin (of_int n)) (Fin (of_int f)) fu u)"
    if "safe_int (n + f)"
    unfolding addColdStorageTxSend_def Let_def
    by (intro intros) (simp add: md sum [OF that] cur coldStorage_metadata_def)
  show "keeps_balanced js (updateLndEscrow env amt)"
    unfolding updateLndEscrow_def Let_def
    by (intro keeps_balanced_lbind intros) (auto intro!: intros simp: md cur)
  show "keeps_balanced js (addLndChannelOpeningOrClosingFee env d amt t)"
    unfolding addLndChannelOpeningOrClosingFee_def Let_def by (intro intros) (simp add: md cur)
  show "keeps_balanced js (addLndRoutingRevenue env amt t)"
    unfolding addLndRoutingRevenue_def Let_def by (intro intros) (simp add: md cur)
qed

subsection \<open>Runs of the ledger\<close>

text \<open>One call of a writing operation, with the state it leaves, whatever it returns.\<close>

inductive ledger_step :: "('e, 'w) ledger_env \<Rightarrow> 'w ledger_state \<Rightarrow> 'w ledger_state \<Rightarrow> bool"
  for env :: "('e, 'w) ledger_env" where
  step_sendOffChain: "send_admissible sa \<Longrightarrow> ledger_step env s (snd (recordSendOffChain env sa s))"
| step_sendOnChain: "send_admissible sa \<Longrightarrow> ledger_step env s (snd (recordSendOnChain env sa s))"
| step_receiveOffChain: "receive_admissible ra \<Longrightarrow> ledger_step env s (snd (recordReceiveOffChain env ra s))"
| step_receiveOnChain: "receive_admissible ra \<Longrightarrow> ledger_step env s (snd (recordReceiveOnChain env ra s))"
| step_intraledger: "entry_amounts_ok (ri_amount ia) ZERO_BANK_FEE \<Longrightarrow>
    ledger_step env s (snd (recordIntraledger env ia s))"
| step_bankowner: "entry_amounts_ok amt ZERO_BANK_FEE \<Longrightarrow>
    ledger_step env s (snd (recordBankownerReconciliation env desc amt s))"
| step_feeReconciliation: "ledger_step env s (snd (recordReceiveOnChainFeeReconciliation env est act meta s))"
| step_lnRevert: "ledger_step env s (snd (recordLnSendRevert env j h s))"
| step_onChainRevert: "ledger_step env s (snd (recordOnChainSendRevert env j p s))"
| step_oldRevert: "ledger_step env s (snd (revertOnChainPayment env j reason s))"
| step_settleLn: "ledger_step env s (snd (settlePendingLnSend env h s))"
| step_payoutId: "ledger_step env s (snd (setOnChainTxPayoutId env j p s))"
| step_txId: "ledger_step env s (snd (setOnChainTxIdByPayoutId env p h v s))"
| step_settleOnChain: "ledger_step env s (snd (settlePendingOnChainPayment env p s))"
| step_lnState: "ledger_step env s (snd (updateLnPaymentState env ws h j s))"
| step_coldReceive: "safe_int (n + f) \<Longrightarrow> ledger_step env s
    (snd (addColdStorageTxReceive env h a desc (Fin (of_int n)) (Fin (of_int f)) fu u s))"
| step_coldSend: "safe_int (n + f) \<Longrightarrow> ledger_step env s
    (snd (addColdStorageTxSend env h a desc (Fin (of_int n)) (Fin (of_int f)) fu u s))"
| step_escrow: "ledger_step env s (snd (updateLndEscrow env x s))"
| step_channelFee: "ledger_step env s (snd (addLndChannelOpeningOrClosingFee env desc x h s))"
| step_routing: "ledger_step env s (snd (addLndRoutingRevenue env x h s))"

lemma keeps_balancedD: "keeps_balanced js m \<Longrightarrow> balanced (js (ls_db s)) \<Longrightarrow> balanced (js (ls_db (snd (m s))))"
  by (simp add: keeps_balanced_def)

lemma ledger_step_balanced:
  assumes "ledger_step env s s'" and laws: "books_laws js env" and "balanced (js (ls_db s))"
  shows "balanced (js (ls_db s'))"
  using assms(1,3)
proof cases
  case (step_bankowner amt desc)
  with assms(3) show ?thesis
    using keeps_balancedD [OF bankowner.keeps_books_balanced [OF laws, of "(desc, amt)"]] by simp
next
  case (step_feeReconciliation est act meta)
  with assms(3) show ?thesis
    using keeps_balancedD [OF fee_reconciliation.keeps_books_balanced [OF laws, of "(est, act, meta)"]] by simp
qed (use assms(3) in \<open>simp_all add: keeps_balancedD
      [OF send_offchain.keeps_books_balanced [OF laws]] keeps_balancedD [OF send_onchain.keeps_books_balanced [OF laws]]
      keeps_balancedD [OF receive_offchain.keeps_books_balanced [OF laws]]
      keeps_balancedD [OF receive_onchain.keeps_books_balanced [OF laws]]
      keeps_balancedD [OF intraledger.keeps_books_balanced [OF laws]]
      balanced_reverts [OF laws, THEN keeps_balancedD] balanced_admin [OF laws, THEN keeps_balancedD]
      keeps_settle [OF laws, THEN keeps_imp_balanced, THEN keeps_balancedD]\<close>)

text \<open>What a recording operation promises, and the balance of an account over the whole book.\<close>

definition recorded_or_failed ::
  "'w journals \<Rightarrow> 'w ledger_state \<Rightarrow> (error + ledger_journal) option \<times> 'w ledger_state \<Rightarrow> bool" where
  "recorded_or_failed js s r \<longleftrightarrow>
     (case r of
        (Some (Inr j), s') \<Rightarrow> (\<exists>ls. js (ls_db s') = js (ls_db s) @ [(lj_journalId j, ls)] \<and>
          lines_balance Btc ls = 0 \<and> lines_balance Usd ls = 0)
      | (Some (Inl e), s') \<Rightarrow> e = UnknownLedgerError \<and> js (ls_db s') = js (ls_db s)
      | (None, s') \<Rightarrow> False)"

definition account_lines :: "string \<Rightarrow> ledger_line list \<Rightarrow> ledger_line list" where
  "account_lines a ls = filter (\<lambda>l. fst l = a) ls"

definition account_balance :: "string \<Rightarrow> wallet_currency \<Rightarrow> (string \<times> ledger_line list) list \<Rightarrow> rat" where
  "account_balance a c jls = (\<Sum>(j, ls)\<leftarrow>jls. - lines_balance c (account_lines a ls))"

lemma account_lines_reverse: "account_lines a (map reverse_line ls) = map reverse_line (account_lines a ls)"
  by (induction ls) (auto simp: account_lines_def)

lemma account_balance_reverse:
  "account_balance a c (xs @ (j, ls) # ys @ [(k, map reverse_line ls)]) =
   account_balance a c xs + account_balance a c ys"
  by (simp add: account_balance_def account_lines_reverse lines_balance_reverse)

subsection \<open>A concrete book\<close>

text \<open>A book kept as the list of its journals, numbered by strings of growing length.\<close>

type_synonym list_book = "(string \<times> ledger_line list) list"

definition next_id :: "list_book \<Rightarrow> string" where
  "next_id w = replicate (Suc (sum_list (map (length \<circ> fst) w))) (CHR ''j'')"

definition saved_as :: "list_book \<Rightarrow> nat \<Rightarrow> saved_entry" where
  "saved_as w n = \<lparr>se_id = next_id w, se_voided = False, se_transactions = replicate n (next_id w)\<rparr>"

definition list_env :: "(medici_tx list, list_book) ledger_env" where
  "list_env =
     \<lparr>le_medici = list_medici, le_entry = (\<lambda>_. []),
      le_commit = (\<lambda>e w. (Some (saved_as w (length e)), w @ [(next_id w, map line_summary e)])),
      le_void = (\<lambda>j _ w. case map_of w j of
          None \<Rightarrow> (JournalNotFound, w)
        | Some ls \<Rightarrow> (Voided (saved_as w (length ls)), w @ [(next_id w, map reverse_line ls)])),
      le_insertMany = (\<lambda>_ w. w), le_updateMany = (\<lambda>_ _ w. (Some 1, w)), le_ledger = (\<lambda>_ _. Some []),
      le_balance = (\<lambda>a cur w. Some (Fin (case cur of
          None \<Rightarrow> account_balance a Btc w + account_balance a Usd w | Some c \<Rightarrow> account_balance a c w))), le_isValidObjectId = (\<lambda>_. True),
      le_findMetadata = (\<lambda>_ _. Inl CouldNotFindTransactionMetadataError),
      bankOwnerResolver = (\<lambda>_. Some ''bank''), dealerBtcResolver = (\<lambda>_. Some ''dealerBtc''),
      dealerUsdResolver = (\<lambda>_. Some ''dealerUsd''), funderResolver = (\<lambda>_. Some ''funder'')\<rparr>"

lemma list_env_laws: "books_laws (\<lambda>w. w) list_env"
  unfolding books_laws_def
proof (intro conjI allI impI)
  show "medici_laws (le_medici list_env)"
    by (simp add: list_env_def list_medici_laws)
  show "\<exists>ls. (j, ls) \<in> set w \<and> w' = w @ [(se_id se, map reverse_line ls)]"
    if "le_void list_env j r w = (Voided se, w')" for j r w se w'
    using that by (auto simp: list_env_def saved_as_def split: option.splits dest: map_of_SomeD)
qed (auto simp: list_env_def list_medici_def saved_as_def split: option.splits)

definition empty_book :: "list_book ledger_state" where
  "empty_book = \<lparr>ls_db = [], cacheDealerBtcWalletId = None, cacheDealerUsdWalletId = None,
     cacheBankOwnerWalletId = None, cacheFunderWalletId = None\<rparr>"

definition example_send :: record_send_args where
  "example_send = \<lparr>rs_description = ''send'',
     rs_senderWalletDescriptor = \<lparr>wallet_id = ''alice'', wallet_currency = Usd, wallet_accountId = ''a''\<rparr>,
     rs_amountToDebitSender = example_total, rs_bankFee = Some example_fee, rs_metadata = Map.empty,
     rs_additionalDebitMetadata = Map.empty, rs_additionalInternalMetadata = Map.empty\<rparr>"

lemma example_send_admissible: "send_admissible example_send"
  by (simp add: send_admissible_def example_send_def fee_or_zero_def entry_amounts_ok_def example_total_def
      example_fee_def safe_int_def)

lemma example_sent_Inr: "\<exists>j. fst (recordSendOffChain list_env example_send empty_book) = Some (Inr j)"
  by (simp add: recordSendOffChain_def Let_def lbind_def staticAccountIds_def catch_unknown_def lreturn_def
      getBankOwnerWalletId_def getDealerBtcWalletId_def getDealerUsdWalletId_def empty_book_def
      persistAndReturnEntry_def persistAll_def on_db_def list_env_def)

subsection \<open>Properties\<close>

text \<open>C1: the books balance. Starting from a book in which every journal has equal debits and credits
  in satoshis and in cents, every sequence of ledger operations leaves such a book: recording
  payments in and out on either network and between wallets, reconciling fees, reverting and
  settling payments, and the bank's own cold storage, escrow, channel and routing entries,
  whether they succeed or fail. The amounts of an entry are in their currencies and below
  \<open>2^53\<close>, and the book behaves as a double-entry book does on commit and void.\<close>
theorem books_stay_balanced:
  assumes "(ledger_step env)\<^sup>*\<^sup>* s s'" and "books_laws js env" and "balanced (js (ls_db s))"
    and "(j, ls) \<in> set (js (ls_db s'))"
  shows "lines_balance c ls = 0"
proof -
  have "balanced (js (ls_db s'))"
    using assms(1,3) by (induction rule: rtranclp_induct) (auto intro: ledger_step_balanced [OF _ assms(2)])
  then show ?thesis
    using assms(4) by (rule balanced_member)
qed

lemma books_stay_balanced_witness:
  "\<exists>j ls s'. (ledger_step list_env)\<^sup>*\<^sup>* empty_book s' \<and> (j, ls) \<in> set (ls_db s') \<and> lines_balance Btc ls = 0"
proof -
  let ?s = "snd (recordSendOffChain list_env example_send empty_book)"
  have step: "(ledger_step list_env)\<^sup>*\<^sup>* empty_book ?s"
    by (rule r_into_rtranclp) (rule step_sendOffChain, rule example_send_admissible)
  have "case recordSendOffChain list_env example_send empty_book of
      (Some (Inr j), s') \<Rightarrow> (\<exists>ls. ls_db s' = ls_db empty_book @ [(lj_journalId j, ls)] \<and>
        lines_balance Btc ls = 0 \<and> lines_balance Usd ls = 0)
    | (Some (Inl e), s') \<Rightarrow> e = UnknownLedgerError \<and> ls_db s' = ls_db empty_book
    | (None, s') \<Rightarrow> False"
    by (rule send_offchain.records_one_journal_or_fails [OF list_env_laws example_send_admissible])
  moreover note example_sent_Inr
  ultimately obtain j ls where mem: "(j, ls) \<in> set (ls_db ?s)"
    by (auto split: prod.splits option.splits sum.splits) blast
  have "balanced (ls_db empty_book)"
    by (simp add: empty_book_def balanced_def)
  from books_stay_balanced [OF step list_env_laws this mem, of Btc] step mem show ?thesis
    by blast
qed

text \<open>C11: recording is all or nothing. Each operation that books a payment, into or out of the bank on
  either network, between wallets, or as a reconciliation, either returns a journal, and then
  exactly that journal was added to the book and it balances in both currencies, or returns
  \<open>UnknownLedgerError\<close>, and then the book is as before. It never throws.\<close>
theorem recording_is_atomic:
  assumes "books_laws js env" and "send_admissible sa" and "receive_admissible ra"
    and "entry_amounts_ok (ri_amount ia) ZERO_BANK_FEE" and "entry_amounts_ok amt ZERO_BANK_FEE"
  shows "recorded_or_failed js s (recordSendOffChain env sa s) \<and>
    recorded_or_failed js s (recordSendOnChain env sa s) \<and>
    recorded_or_failed js s (recordReceiveOffChain env ra s) \<and>
    recorded_or_failed js s (recordReceiveOnChain env ra s) \<and>
    recorded_or_failed js s (recordIntraledger env ia s) \<and>
    recorded_or_failed js s (recordBankownerReconciliation env desc amt s) \<and>
    recorded_or_failed js s (recordReceiveOnChainFeeReconciliation env est act meta s)"
proof (intro conjI)
  show "recorded_or_failed js s (recordBankownerReconciliation env desc amt s)"
    using bankowner.records_one_journal_or_fails [OF assms(1), of "(desc, amt)" s] assms(5)
    by (simp add: recorded_or_failed_def)
  show "recorded_or_failed js s (recordReceiveOnChainFeeReconciliation env est act meta s)"
    using fee_reconciliation.records_one_journal_or_fails
      [OF assms(1), where args = "(est, act, meta)" and s = s]
    by (simp add: recorded_or_failed_def)
qed (use send_offchain.records_one_journal_or_fails [OF assms(1,2)] send_onchain.records_one_journal_or_fails [OF assms(1,2)]
    receive_offchain.records_one_journal_or_fails [OF assms(1,3)]
    receive_onchain.records_one_journal_or_fails [OF assms(1,3)]
    intraledger.records_one_journal_or_fails [OF assms(1,4)] in \<open>simp_all add: recorded_or_failed_def\<close>)

definition example_receive :: record_receive_args where
  "example_receive = \<lparr>rr_description = ''receive'',
     rr_recipientWalletDescriptor = \<lparr>wallet_id = ''bob'', wallet_currency = Btc, wallet_accountId = ''b''\<rparr>,
     rr_amountToCreditReceiver = example_total, rr_bankFee = None, rr_externalId = None,
     rr_metadata = Map.empty, rr_txMetadata_hash = None, rr_txMetadata_revealedPreImage = None,
     rr_additionalCreditMetadata = Map.empty, rr_additionalInternalMetadata = Map.empty\<rparr>"

definition example_intraledger :: record_intraledger_args where
  "example_intraledger = \<lparr>ri_description = ''transfer'',
     ri_senderWalletDescriptor = \<lparr>wallet_id = ''alice'', wallet_currency = Usd, wallet_accountId = ''a''\<rparr>,
     ri_recipientWalletDescriptor = \<lparr>wallet_id = ''bob'', wallet_currency = Btc, wallet_accountId = ''b''\<rparr>,
     ri_amount = example_total, ri_metadata = Map.empty, ri_additionalDebitMetadata = Map.empty,
     ri_additionalCreditMetadata = Map.empty, ri_additionalInternalMetadata = Map.empty\<rparr>"

lemma recording_is_atomic_witness:
  "recorded_or_failed (\<lambda>w. w) empty_book (recordIntraledger list_env example_intraledger empty_book)"
  using recording_is_atomic [of "\<lambda>w. w" list_env example_send example_receive example_intraledger example_total
      empty_book, OF list_env_laws example_send_admissible]
  by (simp add: receive_admissible_def example_receive_def fee_or_zero_def with_fee_def entry_amounts_ok_def
      example_total_def safe_int_def example_intraledger_def ZERO_BANK_FEE_def)

text \<open>C10: reverting a payment undoes it. When a lightning payment was booked, other activity \<open>meanwhile\<close> was
  booked in the meantime, and the payment is then reverted by the journal id its booking
  returned, every account has in each currency the balance it would have without the payment.
  Journal ids are unique.\<close>
theorem revert_undoes_payment:
  assumes "books_laws js env" and "send_admissible args"
    and "recordSendOffChain env args s = (Some (Inr j), s1)"
    and "js (ls_db s2) = js (ls_db s1) @ meanwhile" and "distinct (map fst (js (ls_db s2)))"
    and "recordLnSendRevert env (lj_journalId j) h s2 = (Some (Inr True), s3)"
  shows "account_balance a c (js (ls_db s3)) = account_balance a c (js (ls_db s)) + account_balance a c meanwhile"
proof -
  obtain ls where sent: "js (ls_db s1) = js (ls_db s) @ [(lj_journalId j, ls)]"
    using send_offchain.records_one_journal_or_fails [OF assms(1,2), of s] assms(3) by auto
  obtain se w where void: "le_void env (lj_journalId j) ''Payment canceled'' (ls_db s2) = (Voided se, w)"
      and s3: "js (ls_db s3) = js w"
    using assms(6) books_laws_update(1) [OF assms(1)]
    by (auto simp: recordLnSendRevert_def lerror_def lbind_def lreturn_def persistAll_def Let_def
        split: void_result.splits prod.splits if_splits)
  from books_laws_void(1) [OF assms(1) void] obtain ls' where
      "(lj_journalId j, ls') \<in> set (js (ls_db s2))" and w: "js w = js (ls_db s2) @ [(se_id se, map reverse_line ls')]"
    by blast
  then have "ls' = ls"
    using assms(4,5) sent eq_key_imp_eq_value [of "js (ls_db s2)" "lj_journalId j" ls' ls] by simp
  then show ?thesis
    using w s3 assms(4) sent by (simp add: account_balance_reverse)
qed

lemma revert_undoes_payment_witness:
  "\<exists>j s1 s3. recordSendOffChain list_env example_send empty_book = (Some (Inr j), s1) \<and>
     recordLnSendRevert list_env (lj_journalId j) ''h'' s1 = (Some (Inr True), s3) \<and>
     account_balance ''Liabilities:alice'' Usd (ls_db s3) = 0"
proof -
  obtain j s1 where sent: "recordSendOffChain list_env example_send empty_book = (Some (Inr j), s1)"
    using example_sent_Inr by (metis prod.collapse)
  then obtain ls where s1: "ls_db s1 = [(lj_journalId j, ls)]"
    using send_offchain.records_one_journal_or_fails [OF list_env_laws example_send_admissible, of empty_book]
    by (auto simp: empty_book_def)
  then obtain s3 where revert: "recordLnSendRevert list_env (lj_journalId j) ''h'' s1 = (Some (Inr True), s3)"
    by (simp add: recordLnSendRevert_def list_env_def lbind_def lreturn_def persistAll_def Let_def)
  have "ls_db s1 = ls_db s1 @ []" and "distinct (map fst (ls_db s1))"
    using s1 by simp_all
  from revert_undoes_payment [OF list_env_laws example_send_admissible sent this revert,
      of "''Liabilities:alice''" Usd]
  have "account_balance ''Liabilities:alice'' Usd (ls_db s3) = 0"
    by (simp add: account_balance_def empty_book_def)
  with sent revert show ?thesis
    by blast
qed

lemma checkTxHashes_iff:
  "checkTxHashes txns txId =
     (if txns = [] then Inl NoTransactionToUpdateError
      else if list_all (\<lambda>t. lt_txHash t = Some txId) txns then Inr ()
      else Inl InvalidLedgerTransactionStateError)"
proof (cases txns)
  case (Cons t ts)
  have "card (set (map lt_txHash txns)) = 1 \<and> lt_txHash t = Some txId \<longleftrightarrow>
      list_all (\<lambda>t. lt_txHash t = Some txId) txns"
    unfolding Cons One_nat_def card_1_singleton_iff list_all_iff by (auto simp: set_eq_iff) (metis image_eqI)
  then show ?thesis
    using Cons by (auto simp: checkTxHashes_def Let_def)
qed (simp add: checkTxHashes_def)

text \<open>
  Announcing a transaction id for a payout is safe to repeat. When the update changes nothing,
  the call succeeds only if every transaction of the payout already carries this very id, and
  then with the fee estimate read from the book; a payout without transactions and a payout that
  carries another id are refused with their errors.
\<close>

lemma setOnChainTxId_retry:
  assumes "le_updateMany env (ByPayoutId payoutId) (SetTxId txId vout) (ls_db s) = (Some 0, w)"
    and "le_ledger env (LedgerByPayoutId payoutId liabilitiesMainAccount) w = Some stored"
    and "cacheBankOwnerWalletId s = Some bankOwner" and "bankOwner \<noteq> []"
  shows "fst (setOnChainTxIdByPayoutId env payoutId txId vout s) = Some
    (if stored = [] then Inl NoTransactionToUpdateError
     else if list_all (\<lambda>t. or_undefined (st_hash t) = Some txId) stored
     then estimatedProtocolFee_from bankOwner (map translateToLedgerTx stored)
     else Inl InvalidLedgerTransactionStateError)"
proof -
  have "list_all (\<lambda>t. lt_txHash t = Some txId) (map translateToLedgerTx stored) =
      list_all (\<lambda>t. or_undefined (st_hash t) = Some txId) stored"
    by (simp add: list_all_iff translateToLedgerTx_def)
  then show ?thesis
    using assms
    by (cases "list_all (\<lambda>t. or_undefined (st_hash t) = Some txId) stored")
      (simp_all add: setOnChainTxIdByPayoutId_def lbind_def catch_unknown_def on_db_def lreturn_def
        getTransactionsByPayoutId_def checkTxHashes_iff getBankOwnerWalletId_def)
qed

definition example_retry_env :: "(medici_tx list, list_book) ledger_env" where
  "example_retry_env = list_env\<lparr>le_updateMany := (\<lambda>_ _ w. (Some 0, w))\<rparr>"

end
