(* ===== verification/Ledger_Service.thy ===== *)
theory Ledger_Service
  imports Ledger_Invariant
begin

text \<open>
  The queries of \<open>services/ledger/index.ts\<close> that payments rest on: the transactions of a hash,
  whether a lightning payment is recorded, and the balance of a wallet. Errors that are only
  recorded for tracing are left out.
\<close>

definition ledger_read ::
  "('e, 'w) ledger_env \<Rightarrow> ledger_query \<Rightarrow> ('w, stored_transaction list) ledger_op" where
  "ledger_read env q = on_db (\<lambda>w. (le_ledger env q w, w))"

definition getTransactionsByHash ::
  "('e, 'w) ledger_env \<Rightarrow> string \<Rightarrow> ('w, ledger_transaction list) ledger_op" where
  "getTransactionsByHash env hash =
     catch_unknown (lbind (ledger_read env (LedgerByAccountsAndHash [liabilitiesMainAccount] hash))
       (\<lambda>results. lreturn (map translateToLedgerTx results)))"

definition getTransactionsForWalletByPaymentHash ::
  "('e, 'w) ledger_env \<Rightarrow> string \<Rightarrow> string \<Rightarrow> ('w, ledger_transaction list) ledger_op" where
  "getTransactionsForWalletByPaymentHash env walletId paymentHash =
     catch_unknown (
       lbind (ledger_read env (LedgerByAccountsAndHash [toLiabilitiesWalletId walletId] paymentHash))
         (\<lambda>results. lreturn (map translateToLedgerTx results)))"

definition getTransactionsByWalletId ::
  "('e, 'w) ledger_env \<Rightarrow> string \<Rightarrow> ('w, ledger_transaction list) ledger_op" where
  "getTransactionsByWalletId env walletId =
     catch_unknown (lbind (ledger_read env (LedgerByAccount (toLiabilitiesWalletId walletId)))
       (\<lambda>results. lreturn (map translateToLedgerTx results)))"

definition isLnTxRecorded :: "('e, 'w) ledger_env \<Rightarrow> string \<Rightarrow> ('w, bool) ledger_op" where
  "isLnTxRecorded env paymentHash =
     catch_unknown (
       lbind (ledger_read env (LedgerByPendingAndHash False paymentHash)) (\<lambda>notPending.
       lbind (ledger_read env (LedgerByPendingAndHash True paymentHash)) (\<lambda>pending.
         lreturn (length notPending > 0 \<and> length pending = 0))))"

text \<open>
  A negative balance makes the code look up the dealer's wallets, to report it unless the wallet
  is the dealer's; the lookup may throw.
\<close>

definition getWalletBalanceAmount ::
  "('e, 'w) ledger_env \<Rightarrow> wallet_descriptor \<Rightarrow> ('w, payment_amount) ledger_op" where
  "getWalletBalanceAmount env walletDescriptor =
     catch_unknown (
       lbind (on_db (\<lambda>w. (le_balance env (toLiabilitiesWalletId (wallet_id walletDescriptor)) None w, w)))
         (\<lambda>bal.
       lbind (if js_lt bal (Fin 0) then lbind (getDealerWalletIds env) (\<lambda>_. lreturn ()) else lreturn ())
         (\<lambda>_ s.
           (Some (case balanceAmountFromNumber bal (wallet_currency walletDescriptor) of
                    Inl BigIntFloatConversionError \<Rightarrow>
                      balanceAmountFromNumber (js_floor bal) (wallet_currency walletDescriptor)
                  | r \<Rightarrow> r), s))))"

definition getWalletBalance :: "('e, 'w) ledger_env \<Rightarrow> string \<Rightarrow> ('w, jsnum) ledger_op" where
  "getWalletBalance env walletId =
     catch_unknown (
       lbind (on_db (\<lambda>w. (le_balance env (toLiabilitiesWalletId walletId) None w, w))) (\<lambda>bal.
       lbind (if js_lt bal (Fin 0)
              then lbind (getDealerUsdWalletId env) (\<lambda>_. lbind (getDealerBtcWalletId env) (\<lambda>_. lreturn ()))
              else lreturn ()) (\<lambda>_. lreturn bal)))"

text \<open>One transaction, by its id or by its journal; an invalid object id throws.\<close>

definition toObjectId :: "('e, 'w) ledger_env \<Rightarrow> string \<Rightarrow> ('w, string) ledger_op" where
  "toObjectId env i s = (if le_isValidObjectId env i then (Some (Inr i), s) else (None, s))"

definition only_transaction :: "stored_transaction list \<Rightarrow> ('w, stored_transaction) ledger_op" where
  "only_transaction results =
     (case results of [tx] \<Rightarrow> lreturn tx | _ \<Rightarrow> lerror CouldNotFindTransactionError)"

definition getTransactionById ::
  "('e, 'w) ledger_env \<Rightarrow> string \<Rightarrow> ('w, ledger_transaction) ledger_op" where
  "getTransactionById env i =
     catch_unknown (
       lbind (toObjectId env i) (\<lambda>oid.
       lbind (ledger_read env (LedgerByAccountAndId liabilitiesMainAccount oid)) (\<lambda>results.
       lbind (only_transaction results) (\<lambda>tx. lreturn (translateToLedgerTx tx)))))"

definition getTransactionForWalletById ::
  "('e, 'w) ledger_env \<Rightarrow> string \<Rightarrow> string \<Rightarrow> ('w, ledger_transaction) ledger_op" where
  "getTransactionForWalletById env walletId transactionId =
     catch_unknown (
       lbind (toObjectId env transactionId) (\<lambda>oid.
       lbind (ledger_read env (LedgerByAccountAndId (toLiabilitiesWalletId walletId) oid)) (\<lambda>results.
       lbind (only_transaction results) (\<lambda>tx. lreturn (translateToLedgerTx tx)))))"

text \<open>The stored metadata is merged in when it is found and belongs to the transaction.\<close>

definition translateToLedgerTxWithMetadata ::
  "stored_transaction \<Rightarrow> tx_metadata_record option \<Rightarrow>
   error + ledger_transaction \<times> tx_metadata_record option" where
  "translateToLedgerTxWithMetadata rawTx txMetadata =
     (let tx = translateToLedgerTx rawTx in
      case txMetadata of
        None \<Rightarrow> Inr (tx, None)
      | Some md \<Rightarrow> if lt_id tx \<noteq> tm_id md then Inl InvalidTxMetadataFetchedError else Inr (tx, Some md))"

definition getTransactionForWalletByJournalId ::
  "('e, 'w) ledger_env \<Rightarrow> string \<Rightarrow> string \<Rightarrow>
   ('w, ledger_transaction \<times> tx_metadata_record option) ledger_op" where
  "getTransactionForWalletByJournalId env walletId journalId =
     catch_unknown (
       lbind (toObjectId env journalId) (\<lambda>oid.
       lbind (ledger_read env (LedgerByAccountAndJournal (toLiabilitiesWalletId walletId) oid)) (\<lambda>results.
       lbind (only_transaction results) (\<lambda>rawTx s.
         let txMetadata = (case le_findMetadata env (st_id rawTx) (ls_db s) of Inl _ \<Rightarrow> None | Inr md \<Rightarrow> Some md)
         in (Some (translateToLedgerTxWithMetadata rawTx txMetadata), s)))))"

definition listPendingPayments ::
  "('e, 'w) ledger_env \<Rightarrow> string \<Rightarrow> ('w, ledger_transaction list) ledger_op" where
  "listPendingPayments env walletId =
     catch_unknown (lbind (ledger_read env (LedgerPendingPayments (toLiabilitiesWalletId walletId)))
       (\<lambda>results. lreturn (map translateToLedgerTx results)))"

definition getPendingPaymentsCount :: "('e, 'w) ledger_env \<Rightarrow> string \<Rightarrow> ('w, nat) ledger_op" where
  "getPendingPaymentsCount env walletId =
     lbind (ledger_read env (LedgerPendingPayments (toLiabilitiesWalletId walletId)))
       (\<lambda>results. lreturn (length results))"

definition isOnChainReceiptTxRecordedForWallet ::
  "('e, 'w) ledger_env \<Rightarrow> string \<Rightarrow> string \<Rightarrow> jsnum \<Rightarrow> ('w, bool \<times> string option) ledger_op" where
  "isOnChainReceiptTxRecordedForWallet env walletId txHash vout =
     catch_unknown (
       lbind (ledger_read env (ReceiptsForWallet (toLiabilitiesWalletId walletId) txHash vout)) (\<lambda>results.
         case results of
           [] \<Rightarrow> lreturn (False, None)
         | entry # _ \<Rightarrow> lreturn (True, lt_requestId (translateToLedgerTx entry))))"

definition isOnChainTxHashRecorded :: "('e, 'w) ledger_env \<Rightarrow> string \<Rightarrow> ('w, bool) ledger_op" where
  "isOnChainTxHashRecorded env txHash =
     catch_unknown (lbind (ledger_read env (ReceiptsByHash txHash)) (\<lambda>results. lreturn (length results > 0)))"

definition getWalletIdByPaymentHash :: "('e, 'w) ledger_env \<Rightarrow> string \<Rightarrow> ('w, string) ledger_op" where
  "getWalletIdByPaymentHash env hash =
     lbind (getBankOwnerWalletId env) (\<lambda>bankOwnerWalletId.
     lbind (ledger_read env (OtherThanAccountByHash (toLiabilitiesWalletId bankOwnerWalletId) hash)) (\<lambda>results.
       case results of
         [] \<Rightarrow> lerror CouldNotFindTransactionError
       | entry # _ \<Rightarrow>
           (case toWalletId (st_accounts entry) of
              None \<Rightarrow> lerror UnknownLedgerError | Some walletId \<Rightarrow> lreturn walletId)))"

definition listWalletIdsWithPendingPayments :: "('e, 'w) ledger_env \<Rightarrow> ('w, string list) ledger_op" where
  "listWalletIdsWithPendingPayments env =
     lbind (ledger_read env PendingPaymentsOfAll)
       (\<lambda>results. lreturn (List.map_filter toWalletId (remdups (map st_accounts results))))"

subsection \<open>Reads leave the database alone\<close>

text \<open>Operations that may fill the id caches but never write to the database.\<close>

definition reads_only :: "('w, 'a) ledger_op \<Rightarrow> bool" where
  "reads_only m \<longleftrightarrow> (\<forall>s. ls_db (snd (m s)) = ls_db s)"

named_theorems reads_intros \<open>operations that only read\<close>

lemma reads_only_basic [reads_intros]:
  "reads_only (lreturn a)" "reads_only (lerror e)" "reads_only (\<lambda>s. (r, s))"
  "reads_only (on_db (\<lambda>w. (q w, w)))" "reads_only (ledger_read env lq)"
  by (simp_all add: reads_only_def lreturn_def lerror_def on_db_def ledger_read_def)

lemma reads_only_lbind [reads_intros]:
  "reads_only m \<Longrightarrow> (\<And>a. reads_only (f a)) \<Longrightarrow> reads_only (lbind m f)"
  by (simp add: reads_only_def lbind_snd split: option.splits sum.splits)

lemma reads_only_catch [reads_intros]: "reads_only m \<Longrightarrow> reads_only (catch_unknown m)"
  by (simp add: reads_only_def)

lemma reads_only_if [reads_intros]: "reads_only m \<Longrightarrow> reads_only n \<Longrightarrow> reads_only (if b then m else n)"
  by simp

lemma reads_only_caching [reads_intros]:
  "reads_only (getDealerBtcWalletId env)" "reads_only (getDealerUsdWalletId env)"
  "reads_only (getBankOwnerWalletId env)" "reads_only (getFunderWalletId env)"
  by (simp_all add: reads_only_def getDealerBtcWalletId_def getDealerUsdWalletId_def
      getBankOwnerWalletId_def getFunderWalletId_def split: option.splits)

lemma reads_only_dealers [reads_intros]: "reads_only (getDealerWalletIds env)"
  unfolding getDealerWalletIds_def by (intro reads_intros)

lemma reads_only_static [reads_intros]: "reads_only (staticAccountIds env)"
  unfolding staticAccountIds_def by (intro reads_intros)

lemma reads_only_queries [reads_intros]:
  "reads_only (getTransactionsByHash env h)" "reads_only (isLnTxRecorded env h)"
  "reads_only (getWalletBalanceAmount env wd)"
  unfolding getTransactionsByHash_def isLnTxRecorded_def getWalletBalanceAmount_def
  by (intro reads_intros)+

lemma reads_only_eq: "reads_only m \<Longrightarrow> m s = (r, s') \<Longrightarrow> ls_db s' = ls_db s"
  unfolding reads_only_def by (metis snd_conv)

text \<open>A whole non-negative balance is returned as it is.\<close>

lemma getWalletBalanceAmount_whole:
  assumes "le_balance env (toLiabilitiesWalletId (wallet_id wd)) None (ls_db s) = Some (Fin (of_int n))"
    and "getWalletBalanceAmount env wd s = (Some (Inr bal), s')"
  shows "bal = \<lparr>currency = wallet_currency wd, amount = n\<rparr>"
  using assms
  by (auto simp: getWalletBalanceAmount_def catch_unknown_def lbind_def on_db_def balanceAmountFromNumber_def
      safeBigInt_def BigInt_num_def lreturn_def
      split: option.splits prod.splits sum.splits if_splits)

end
