(* ===== verification/Ledger_Balances.thy ===== *)
theory Ledger_Balances
  imports Ledger_Service
begin

text \<open>
  What booking means for the accounts. The abstract view of the book is the balance of every
  account in every currency; the specification of a booking is a list of postings to accounts.
  Every operation that records a payment refines its postings, and reverting a journal takes
  them back.
\<close>

subsection \<open>Balances and postings\<close>

type_synonym bank = "string \<Rightarrow> wallet_currency \<Rightarrow> rat"
type_synonym posting = "string \<times> wallet_currency \<times> rat"

definition balances :: "'w journals \<Rightarrow> 'w ledger_state \<Rightarrow> bank" where
  "balances js s = (\<lambda>a c. account_balance a c (js (ls_db s)))"

definition posted :: "posting list \<Rightarrow> string \<Rightarrow> wallet_currency \<Rightarrow> rat" where
  "posted ps a c = (\<Sum>(x, d, r)\<leftarrow>ps. if x = a \<and> d = c then r else 0)"

definition post_all :: "posting list \<Rightarrow> bank \<Rightarrow> bank" where
  "post_all ps b = (\<lambda>a c. b a c + posted ps a c)"

lemma posted_simps [simp]:
  "posted [] a c = 0"
  "posted ((x, d, r) # ps) a c = (if x = a \<and> d = c then r else 0) + posted ps a c"
  "posted (ps @ qs) a c = posted ps a c + posted qs a c"
  by (simp_all add: posted_def)

lemma post_all_simps [simp]: "post_all [] b = b" "post_all qs (post_all ps b) = post_all (ps @ qs) b"
  by (simp_all add: post_all_def fun_eq_iff)

text \<open>
  A transfer: the paying account gives the total in its currency, the bank gets the fee in
  satoshis, the receiving account gets the rest in its currency, and the dealer takes over
  what changes currency on the way.
\<close>

fun dealer_postings ::
  "static_account_ids \<Rightarrow> amount_pair \<Rightarrow> amount_pair \<Rightarrow> wallet_currency \<Rightarrow> wallet_currency \<Rightarrow> posting list" where
  "dealer_postings ids tot fee Btc Btc = []"
| "dealer_postings ids tot fee Usd Usd =
     [(dealerBtcAccountId ids, Btc, - of_int (amount (btc fee))),
      (dealerUsdAccountId ids, Usd, of_int (amount (usd fee)))]"
| "dealer_postings ids tot fee Usd Btc =
     [(dealerBtcAccountId ids, Btc, - of_int (amount (btc tot))),
      (dealerUsdAccountId ids, Usd, of_int (amount (usd tot)))]"
| "dealer_postings ids tot fee Btc Usd =
     [(dealerBtcAccountId ids, Btc, of_int (amount (btc tot) - amount (btc fee))),
      (dealerUsdAccountId ids, Usd, - of_int (amount (usd tot) - amount (usd fee)))]"

definition amount_of :: "wallet_currency \<Rightarrow> amount_pair \<Rightarrow> int" where
  "amount_of c p = (case c of Btc \<Rightarrow> amount (btc p) | Usd \<Rightarrow> amount (usd p))"

definition transfer ::
  "static_account_ids \<Rightarrow> amount_pair \<Rightarrow> amount_pair \<Rightarrow> account_descriptor \<Rightarrow> account_descriptor \<Rightarrow> posting list" where
  "transfer ids tot fee dacc cacc =
     [(ad_id dacc, ad_currency dacc, - of_int (amount_of (ad_currency dacc) tot)),
      (bankOwnerAccountId ids, Btc, of_int (amount (btc fee))),
      (ad_id cacc, ad_currency cacc,
        of_int (amount_of (ad_currency cacc) tot - amount_of (ad_currency cacc) fee))] @
     dealer_postings ids tot fee (ad_currency dacc) (ad_currency cacc)"

subsection \<open>Entries implement transfers\<close>

definition account_delta :: "string \<Rightarrow> wallet_currency \<Rightarrow> medici_tx list \<Rightarrow> rat" where
  "account_delta a c ts =
     (\<Sum>t\<leftarrow>ts. if mt_account t = a \<and> in_currency c t then num_val (mt_credit t) - num_val (mt_debit t) else 0)"

lemma account_delta_simps [simp]:
  "account_delta a c [] = 0"
  "account_delta a c (xs @ ys) = account_delta a c xs + account_delta a c ys"
  "account_delta a c (\<lparr>mt_account = b, mt_debit = x, mt_credit = y, mt_meta = m\<rparr> # ts) =
     (if b = a \<and> in_currency c \<lparr>mt_account = b, mt_debit = x, mt_credit = y, mt_meta = m\<rparr>
      then num_val y - num_val x else 0) + account_delta a c ts"
  by (auto simp: account_delta_def)

lemma account_delta_filter_zero:
  "account_delta a c (filter (\<lambda>t. \<not> (js_eq (mt_debit t) (Fin 0) \<and> js_eq (mt_credit t) (Fin 0))) ts) =
   account_delta a c ts"
  by (induction ts) (auto simp: account_delta_def js_eq_zero)

lemma account_balance_single:
  "account_balance a c [(j, map line_summary ts)] = account_delta a c ts"
  by (induction ts)
    (auto simp: account_balance_def account_lines_def lines_balance_def account_delta_def line_summary_def
      in_currency_def)

lemma account_balance_append [simp]: "account_balance a c (xs @ ys) = account_balance a c xs + account_balance a c ys"
  by (simp add: account_balance_def)

lemma account_balance_Nil [simp]: "account_balance a c [] = 0"
  by (simp add: account_balance_def)

text \<open>What a line of an amount adds to an account.\<close>

definition gain :: "string \<Rightarrow> wallet_currency \<Rightarrow> string \<Rightarrow> payment_amount \<Rightarrow> rat" where
  "gain a c x p = (if x = a then amount_in c p else 0)"

lemma removeZero_delta:
  assumes "medici_laws md"
  shows "account_delta a c (md_transactions md (removeZeroAmountEntries md e)) =
    account_delta a c (md_transactions md e)"
  by (simp only: removeZeroAmountEntries_def medici_transactions [OF assms] account_delta_filter_zero)

lemma withBankFee_delta:
  assumes "medici_laws md"
  shows "account_delta a c (md_transactions md (eb_entry (withBankFee md fs bf uf))) =
    account_delta a c (md_transactions md (eb_entry fs)) +
      (if 0 < amount bf then gain a c (bankOwnerAccountId (eb_accounts fs)) bf else 0)"
  by (simp add: entry_simps medici_transactions [OF assms] amount_in_def gain_def)

lemma debitAccount_delta:
  assumes "medici_laws md"
  shows "account_delta a c (md_transactions md (eb_entry (debitAccount md ds acc m))) =
    account_delta a c (md_transactions md (eb_entry ds)) -
      gain a c (ad_id acc) (if ad_currency acc = Btc then eb_btcWithFees ds else eb_usdWithFees ds)"
  by (simp add: entry_simps medici_transactions [OF assms] amount_in_def gain_def)

lemma dealer_delta:
  assumes "medici_laws md"
  shows "account_delta a c (md_transactions md (addUsdToBtcConversionToDealer md cs b u)) =
      account_delta a c (md_transactions md (eb_entry cs)) - gain a c (dealerBtcAccountId (eb_accounts cs)) b +
        gain a c (dealerUsdAccountId (eb_accounts cs)) u"
    and "account_delta a c (md_transactions md (addBtcToUsdConversionToDealer md cs b u)) =
      account_delta a c (md_transactions md (eb_entry cs)) + gain a c (dealerBtcAccountId (eb_accounts cs)) b -
        gain a c (dealerUsdAccountId (eb_accounts cs)) u"
  by (simp_all add: addUsdToBtcConversionToDealer_def addBtcToUsdConversionToDealer_def Let_def
      medici_transactions [OF assms] amount_in_def gain_def)

lemma creditAccount_delta:
  assumes "medici_laws md"
  shows "account_delta a c (md_transactions md (creditAccount md cs acc m)) =
    account_delta a c (md_transactions md (addDealerDebitsAndCredits md cs acc)) +
      gain a c (ad_id acc) (if ad_currency acc = Usd then calc_sub (eb_usdWithFees cs) (eb_usdBankFee cs)
                   else calc_sub (eb_btcWithFees cs) (eb_btcBankFee cs))"
  by (simp add: creditAccount_def removeZero_delta [OF assms] Let_def medici_transactions [OF assms]
      amount_in_def gain_def)

lemma stage_accounts [simp]:
  "eb_accounts (debitAccount md ds acc m) = eb_accounts ds"
  "eb_accounts (withBankFee md fs b u) = eb_accounts fs"
  "eb_accounts (withTotalAmount cfg u b) = eb_accounts cfg"
  "eb_accounts (entry_config env d ids mt add ext) = ids"
  by (simp_all add: entry_simps entry_config_def)

lemma build_entry_delta:
  assumes "medici_laws md" and ok: "entry_amounts_ok tot fee"
  shows "account_delta a c (md_transactions md (build_entry md cfg tot fee dacc dmeta cacc cmeta)) =
    account_delta a c (md_transactions md (eb_entry cfg)) + posted (transfer (eb_accounts cfg) tot fee dacc cacc) a c"
proof -
  have fees: "amount (btc fee) = 0 \<and> amount (usd fee) = 0 \<or> amount (btc fee) = 0 \<and> 0 < amount (usd fee) \<or>
      0 < amount (btc fee) \<and> 0 < amount (usd fee)"
    using ok by (auto simp: entry_amounts_ok_def)
  show ?thesis
    using fees
    by (cases "ad_currency dacc"; cases "ad_currency cacc"; cases c)
      (auto simp: build_entry_def addDealerDebitsAndCredits_def withBankFee_delta [OF assms(1)]
        debitAccount_delta [OF assms(1)] dealer_delta [OF assms(1)] creditAccount_delta [OF assms(1)]
        entry_amounts_in [OF ok] gain_def transfer_def amount_of_def)
qed

subsection \<open>Booking a list of postings\<close>

text \<open>The book grew by the journal \<open>j\<close>, and that journal makes the postings \<open>ps\<close>.\<close>

definition booked :: "'w journals \<Rightarrow> posting list \<Rightarrow> string \<Rightarrow> 'w ledger_state \<Rightarrow> 'w ledger_state \<Rightarrow> bool" where
  "booked js ps j s s' \<longleftrightarrow>
     (\<exists>ls. js (ls_db s') = js (ls_db s) @ [(j, ls)] \<and> (\<forall>a c. account_balance a c [(j, ls)] = posted ps a c))"

lemma booked_balances: "booked js ps j s s' \<Longrightarrow> balances js s' = post_all ps (balances js s)"
  by (auto simp: booked_def balances_def post_all_def fun_eq_iff)

locale transfer_recorder = entry_recorder op entry_of hash_of preimage_of admissible
  for op :: "('e, 'w) ledger_env \<Rightarrow> 'a \<Rightarrow> ('w, ledger_journal) ledger_op"
    and entry_of hash_of preimage_of admissible +
  fixes postings_of :: "static_account_ids \<Rightarrow> 'a \<Rightarrow> posting list"
  assumes entry_delta: "medici_laws (le_medici env) \<Longrightarrow>
      (\<And>d. md_transactions (le_medici env) (le_entry env d) = []) \<Longrightarrow> admissible args \<Longrightarrow>
      account_delta a c (md_transactions (le_medici env) (entry_of env ids args)) =
        posted (postings_of ids args) a c"
begin

lemma books_postings:
  assumes "books_laws js env" and "admissible args" and run: "op env args s = (Some (Inr j), s')"
  shows "\<exists>ids. fst (staticAccountIds env s) = Some (Inr ids) \<and> booked js (postings_of ids args) (lj_journalId j) s s'"
proof -
  obtain r s1 where ids: "staticAccountIds env s = (r, s1)"
    by fastforce
  with run obtain i where r: "r = Some (Inr i)"
    by (auto simp: op_eq lbind_def split: option.splits sum.splits)
  let ?e = "entry_of env i args"
  have s1: "js (ls_db s1) = js (ls_db s)"
    using keeps_staticAccountIds [of js env] ids by (metis keeps_def snd_conv)
  from run ids r obtain se w where commit: "le_commit env ?e (ls_db s1) = (Some se, w)"
      and j: "lj_journalId j = se_id se" and s': "js (ls_db s') = js w"
    using books_laws_update(1) [OF assms(1)]
    by (auto simp: op_eq lbind_def persistAndReturnEntry_def catch_unknown_def on_db_def Let_def persistAll_def
        lreturn_def translateToLedgerJournal_def split: option.splits prod.splits if_splits)
  have "js (ls_db s') = js (ls_db s) @ [(lj_journalId j, map line_summary (md_transactions (le_medici env) ?e))]"
    using books_laws_commit(1) [OF assms(1) commit] s1 s' j by simp
  then have "booked js (postings_of i args) (lj_journalId j) s s'"
    unfolding booked_def
    using entry_delta [OF books_laws_medici [OF assms(1)] assms(2)] by (auto simp: account_balance_single)
  with ids r show ?thesis
    by auto
qed

end

definition send_postings ::
  "account_descriptor \<Rightarrow> static_account_ids \<Rightarrow> record_send_args \<Rightarrow> posting list" where
  "send_postings acc ids args = transfer ids (rs_amountToDebitSender args) (fee_or_zero (rs_bankFee args))
     (toLedgerAccountDescriptor (rs_senderWalletDescriptor args)) acc"

definition receive_postings ::
  "account_descriptor \<Rightarrow> static_account_ids \<Rightarrow> record_receive_args \<Rightarrow> posting list" where
  "receive_postings acc ids args =
     transfer ids (with_fee (rr_amountToCreditReceiver args) (fee_or_zero (rr_bankFee args)))
       (fee_or_zero (rr_bankFee args)) acc (toLedgerAccountDescriptor (rr_recipientWalletDescriptor args))"

definition intraledger_postings :: "static_account_ids \<Rightarrow> record_intraledger_args \<Rightarrow> posting list" where
  "intraledger_postings ids args = transfer ids (ri_amount args) ZERO_BANK_FEE
     (toLedgerAccountDescriptor (ri_senderWalletDescriptor args))
     (toLedgerAccountDescriptor (ri_recipientWalletDescriptor args))"

definition bankowner_postings :: "static_account_ids \<Rightarrow> string \<times> amount_pair \<Rightarrow> posting list" where
  "bankowner_postings ids args = transfer ids (snd args) ZERO_BANK_FEE
     \<lparr>ad_id = bankOwnerAccountId ids, ad_currency = Btc\<rparr> lndLedgerAccountDescriptor"

interpretation send_offchain_transfer: transfer_recorder recordSendOffChain "send_entry lndLedgerAccountDescriptor"
  "\<lambda>args. metadata_hash (rs_metadata args)" "\<lambda>_. None" send_admissible
  "send_postings lndLedgerAccountDescriptor"
  by unfold_locales
    (simp add: send_entry_def send_config_def send_admissible_def build_entry_delta send_postings_def)

interpretation send_onchain_transfer: transfer_recorder recordSendOnChain "send_entry onChainLedgerAccountDescriptor"
  "\<lambda>args. metadata_hash (rs_metadata args)" "\<lambda>_. None" send_admissible
  "send_postings onChainLedgerAccountDescriptor"
  by unfold_locales
    (simp add: send_entry_def send_config_def send_admissible_def build_entry_delta send_postings_def)

interpretation receive_offchain_transfer: transfer_recorder recordReceiveOffChain
  "receive_entry lndLedgerAccountDescriptor rr_externalId" rr_txMetadata_hash rr_txMetadata_revealedPreImage
  receive_admissible "receive_postings lndLedgerAccountDescriptor"
  by unfold_locales
    (simp add: receive_entry_def receive_config_def receive_admissible_def build_entry_delta receive_postings_def)

interpretation receive_onchain_transfer: transfer_recorder recordReceiveOnChain
  "receive_entry onChainLedgerAccountDescriptor (\<lambda>_. None)" rr_txMetadata_hash rr_txMetadata_revealedPreImage
  receive_admissible "receive_postings onChainLedgerAccountDescriptor"
  by unfold_locales
    (simp add: receive_entry_def receive_config_def receive_admissible_def build_entry_delta receive_postings_def)

interpretation intraledger_transfer: transfer_recorder recordIntraledger intraledger_entry
  "\<lambda>args. metadata_hash (ri_metadata args)" "\<lambda>_. None" "\<lambda>args. entry_amounts_ok (ri_amount args) ZERO_BANK_FEE"
  intraledger_postings
  by unfold_locales (simp add: intraledger_entry_def build_entry_delta intraledger_postings_def)

interpretation bankowner_transfer: transfer_recorder
  "\<lambda>env args. recordBankownerReconciliation env (fst args) (snd args)" bankowner_entry
  "\<lambda>_. None" "\<lambda>_. None" "\<lambda>args. entry_amounts_ok (snd args) ZERO_BANK_FEE" bankowner_postings
  by unfold_locales (simp add: bankowner_entry_def build_entry_delta bankowner_postings_def)

subsection \<open>Recording refines transferring\<close>

text \<open>The operations that record a payment, with their arguments, and the transfer each stands for.\<close>

datatype recording =
    SendOffChain record_send_args
  | SendOnChain record_send_args
  | ReceiveOffChain record_receive_args
  | ReceiveOnChain record_receive_args
  | Intraledger record_intraledger_args
  | BankownerReconciliation "string \<times> amount_pair"

fun run_recording :: "('e, 'w) ledger_env \<Rightarrow> recording \<Rightarrow> ('w, ledger_journal) ledger_op" where
  "run_recording env (SendOffChain args) = recordSendOffChain env args"
| "run_recording env (SendOnChain args) = recordSendOnChain env args"
| "run_recording env (ReceiveOffChain args) = recordReceiveOffChain env args"
| "run_recording env (ReceiveOnChain args) = recordReceiveOnChain env args"
| "run_recording env (Intraledger args) = recordIntraledger env args"
| "run_recording env (BankownerReconciliation args) = recordBankownerReconciliation env (fst args) (snd args)"

fun recording_admissible :: "recording \<Rightarrow> bool" where
  "recording_admissible (SendOffChain args) = send_admissible args"
| "recording_admissible (SendOnChain args) = send_admissible args"
| "recording_admissible (ReceiveOffChain args) = receive_admissible args"
| "recording_admissible (ReceiveOnChain args) = receive_admissible args"
| "recording_admissible (Intraledger args) = entry_amounts_ok (ri_amount args) ZERO_BANK_FEE"
| "recording_admissible (BankownerReconciliation args) = entry_amounts_ok (snd args) ZERO_BANK_FEE"

fun recording_postings :: "static_account_ids \<Rightarrow> recording \<Rightarrow> posting list" where
  "recording_postings ids (SendOffChain args) = send_postings lndLedgerAccountDescriptor ids args"
| "recording_postings ids (SendOnChain args) = send_postings onChainLedgerAccountDescriptor ids args"
| "recording_postings ids (ReceiveOffChain args) = receive_postings lndLedgerAccountDescriptor ids args"
| "recording_postings ids (ReceiveOnChain args) = receive_postings onChainLedgerAccountDescriptor ids args"
| "recording_postings ids (Intraledger args) = intraledger_postings ids args"
| "recording_postings ids (BankownerReconciliation args) = bankowner_postings ids args"

lemmas recording_books_postings =
  send_offchain_transfer.books_postings send_onchain_transfer.books_postings
  receive_offchain_transfer.books_postings receive_onchain_transfer.books_postings
  intraledger_transfer.books_postings bankowner_transfer.books_postings

text \<open>C5: recording a payment implements a transfer between accounts. When an operation of the
  facade records a payment with admissible amounts and returns, the balance of every account in
  both currencies is the one before with exactly the postings of the transfer: the payer gives
  the total in its currency, the bank owner gets the bank fee in satoshis, the payee gets the
  rest in its currency, the dealer's two accounts take the conversion when the currencies
  differ, and no other account moves.\<close>
theorem recording_refines_transfer:
  assumes "books_laws js env" and "recording_admissible r" and "run_recording env r s = (Some (Inr j), s')"
  shows "\<exists>ids. fst (staticAccountIds env s) = Some (Inr ids) \<and>
    balances js s' = post_all (recording_postings ids r) (balances js s)"
proof -
  have "\<exists>ids. fst (staticAccountIds env s) = Some (Inr ids) \<and> booked js (recording_postings ids r) (lj_journalId j) s s'"
    using assms(2,3) by (cases r) (simp_all add: recording_books_postings [OF assms(1)])
  then show ?thesis
    using booked_balances by blast
qed

lemma recording_refines_transfer_witness:
  "\<exists>j s' ids. run_recording list_env (SendOffChain example_send) empty_book = (Some (Inr j), s') \<and>
     balances (\<lambda>w. w) s' = post_all (send_postings lndLedgerAccountDescriptor ids example_send) (balances (\<lambda>w. w) empty_book)"
proof -
  obtain j s' where run: "run_recording list_env (SendOffChain example_send) empty_book = (Some (Inr j), s')"
    using example_sent_Inr by (metis prod.collapse run_recording.simps(1))
  with recording_refines_transfer [OF list_env_laws _ run] example_send_admissible show ?thesis
    by auto
qed

end
