(* ===== verification/Ledger_Hoare.thy ===== *)
theory Ledger_Hoare
  imports Ledger_Balances
begin

text \<open>
  Triples for operations on the ledger. An assertion speaks about the journals of the book; a
  triple has one postcondition for a returned value and one for an error or an exception. Next
  to the assertions it keeps the fact that the bank's own wallets, in the caches and from the
  resolvers, lie in a given set of ids. The use cases of the application are verified with
  these rules.
\<close>

subsection \<open>The bank's own wallets\<close>

type_synonym book = "(string \<times> ledger_line list) list"

definition internal :: "('e, 'w) ledger_env \<Rightarrow> string set \<Rightarrow> 'w ledger_state \<Rightarrow> bool" where
  "internal env X s \<longleftrightarrow>
     set_option (cacheDealerBtcWalletId s) \<union> set_option (cacheDealerUsdWalletId s) \<union>
       set_option (cacheBankOwnerWalletId s) \<subseteq> X \<and>
     (\<forall>w. set_option (dealerBtcResolver env w) \<union> set_option (dealerUsdResolver env w) \<union>
       set_option (bankOwnerResolver env w) \<subseteq> X)"

lemma internal_db [simp]: "internal env X (s\<lparr>ls_db := w\<rparr>) = internal env X s"
  by (simp add: internal_def)

definition own_accounts :: "string set \<Rightarrow> static_account_ids \<Rightarrow> bool" where
  "own_accounts X ids \<longleftrightarrow>
     {bankOwnerAccountId ids, dealerBtcAccountId ids, dealerUsdAccountId ids} \<subseteq> toLedgerAccountId ` X"

subsection \<open>Operations that leave the journals alone\<close>

definition neutral :: "('e, 'w) ledger_env \<Rightarrow> ('w \<Rightarrow> 'j) \<Rightarrow> ('w, 'a) ledger_op \<Rightarrow> bool" where
  "neutral env js m \<longleftrightarrow>
     (\<forall>s. js (ls_db (snd (m s))) = js (ls_db s) \<and> (\<forall>X. internal env X s \<longrightarrow> internal env X (snd (m s))))"

named_theorems neutral_intros \<open>operations that leave the journals alone\<close>

lemma neutral_lbind [neutral_intros]:
  "neutral env js m \<Longrightarrow> (\<And>a. neutral env js (f a)) \<Longrightarrow> neutral env js (lbind m f)"
  by (simp add: neutral_def lbind_snd split: option.splits sum.splits)

lemma neutral_simple [neutral_intros]:
  "neutral env js (lreturn a)" "neutral env js (lerror e)" "neutral env js (\<lambda>s. (r, s))"
  by (simp_all add: neutral_def lreturn_def lerror_def)

lemma neutral_catch [neutral_intros]: "neutral env js m \<Longrightarrow> neutral env js (catch_unknown m)"
  by (simp add: neutral_def)

lemma neutral_if [neutral_intros]:
  "neutral env js m \<Longrightarrow> neutral env js n \<Longrightarrow> neutral env js (if b then m else n)"
  by simp

lemma neutral_on_db [neutral_intros]: "(\<And>w. js (snd (f w)) = js w) \<Longrightarrow> neutral env js (on_db f)"
  by (simp add: neutral_def on_db_def split: prod.splits) (metis snd_conv)

lemma neutral_read [neutral_intros]: "neutral env js (ledger_read env q)"
  unfolding ledger_read_def by (intro neutral_intros) simp

lemma neutral_caching [neutral_intros]:
  "neutral env js (getDealerBtcWalletId env)" "neutral env js (getDealerUsdWalletId env)"
  "neutral env js (getBankOwnerWalletId env)" "neutral env js (getFunderWalletId env)"
  by (auto simp: neutral_def internal_def getDealerBtcWalletId_def getDealerUsdWalletId_def
      getBankOwnerWalletId_def getFunderWalletId_def split: option.splits)

lemma neutral_static [neutral_intros]: "neutral env js (staticAccountIds env)"
  unfolding staticAccountIds_def by (intro neutral_intros)

lemma neutral_dealers [neutral_intros]: "neutral env js (getDealerWalletIds env)"
  unfolding getDealerWalletIds_def by (intro neutral_intros)

lemma neutral_nonEndUser [neutral_intros]: "neutral env js (getNonEndUserWalletIds env)"
  unfolding getNonEndUserWalletIds_def
  by (intro neutral_lbind neutral_dealers) (auto intro!: neutral_intros split: prod.splits)

lemma neutral_queries [neutral_intros]:
  "neutral env js (getTransactionsByHash env h)" "neutral env js (isLnTxRecorded env h)"
  "neutral env js (getWalletBalanceAmount env wd)" "neutral env js (getWalletBalance env i)"
  "neutral env js (getTransactionsForWalletsByPaymentHash env ws h)"
  unfolding getTransactionsByHash_def isLnTxRecorded_def getWalletBalanceAmount_def getWalletBalance_def
    getTransactionsForWalletsByPaymentHash_def Let_def
  by (intro neutral_intros | simp)+

lemma neutral_toObjectId [neutral_intros]: "neutral env js (toObjectId env i)"
  by (simp add: neutral_def toObjectId_def)

lemma neutral_only [neutral_intros]: "neutral env js (only_transaction ts)"
  unfolding only_transaction_def by (auto split: list.splits intro: neutral_intros)

lemma neutral_lookups [neutral_intros]:
  "neutral env js (getTransactionForWalletByJournalId env wi j)" "neutral env js (listPendingPayments env wi)"
  "neutral env js (getPendingPaymentsCount env wi)" "neutral env js (getWalletIdByPaymentHash env h)"
  "neutral env js (isOnChainReceiptTxRecordedForWallet env wi h v)" "neutral env js (isOnChainTxHashRecorded env h)"
  "neutral env js (listWalletIdsWithPendingPayments env)"
  unfolding getTransactionForWalletByJournalId_def listPendingPayments_def getPendingPaymentsCount_def
    getWalletIdByPaymentHash_def isOnChainReceiptTxRecordedForWallet_def isOnChainTxHashRecorded_def
    listWalletIdsWithPendingPayments_def
  by (auto intro!: neutral_intros split: list.splits option.splits simp: Let_def) (simp_all add: neutral_def)

lemma neutral_persistAll [neutral_intros]: "books_laws js env \<Longrightarrow> neutral env js (persistAll env ms)"
  by (simp add: neutral_def persistAll_def)

lemma neutral_updateMany [neutral_intros]: "books_laws js env \<Longrightarrow> neutral env js (on_db (le_updateMany env f u))"
  by (intro neutral_on_db) simp

lemma neutral_settle [neutral_intros]:
  assumes "books_laws js env"
  shows "neutral env js (settlePendingLnSend env h)" and "neutral env js (updateLnPaymentState env ws h j)"
proof -
  note update = neutral_updateMany [OF assms]
  show "neutral env js (settlePendingLnSend env h)"
    unfolding settlePendingLnSend_def by (intro neutral_intros update)
  show "neutral env js (updateLnPaymentState env ws h j)"
    unfolding updateLnPaymentState_def updateStateByRelatedJournal_def
    by (intro neutral_lbind neutral_queries)
      (auto split: sum.splits intro!: neutral_lbind neutral_catch neutral_simple neutral_if update)
qed

subsection \<open>Triples\<close>

definition ends :: "('a \<Rightarrow> book \<Rightarrow> bool) \<Rightarrow> (book \<Rightarrow> bool) \<Rightarrow> (error + 'a) option \<Rightarrow> book \<Rightarrow> bool" where
  "ends Q E r b \<longleftrightarrow> (case r of Some (Inr a) \<Rightarrow> Q a b | _ \<Rightarrow> E b)"

lemma ends_simps [simp]: "ends Q E (Some (Inr a)) b = Q a b" "ends Q E (Some (Inl e)) b = E b" "ends Q E None b = E b"
  by (simp_all add: ends_def)

lemma ends_mono: "ends Q E r b \<Longrightarrow> (\<And>a. Q a b \<Longrightarrow> Q' a b) \<Longrightarrow> (E b \<Longrightarrow> E' b) \<Longrightarrow> ends Q' E' r b"
  by (auto simp: ends_def split: option.splits sum.splits)

definition triple ::
  "('e, 'w) ledger_env \<Rightarrow> 'w journals \<Rightarrow> string set \<Rightarrow> (book \<Rightarrow> bool) \<Rightarrow> ('w, 'a) ledger_op \<Rightarrow>
   ('a \<Rightarrow> book \<Rightarrow> bool) \<Rightarrow> (book \<Rightarrow> bool) \<Rightarrow> bool" where
  "triple env js X P m Q E \<longleftrightarrow>
     (\<forall>s. internal env X s \<and> P (js (ls_db s)) \<longrightarrow>
        internal env X (snd (m s)) \<and> ends Q E (fst (m s)) (js (ls_db (snd (m s)))))"

lemma tripleI:
  "(\<And>s r s'. internal env X s \<Longrightarrow> P (js (ls_db s)) \<Longrightarrow> m s = (r, s') \<Longrightarrow>
     internal env X s' \<and> ends Q E r (js (ls_db s'))) \<Longrightarrow> triple env js X P m Q E"
  unfolding triple_def by (metis prod.collapse)

lemma tripleD:
  "triple env js X P m Q E \<Longrightarrow> internal env X s \<Longrightarrow> P (js (ls_db s)) \<Longrightarrow> m s = (r, s') \<Longrightarrow>
   internal env X s' \<and> ends Q E r (js (ls_db s'))"
  by (fastforce simp: triple_def)

lemma triple_run:
  "triple env js X (\<lambda>b. b = js (ls_db s)) m Q E \<Longrightarrow> internal env X s \<Longrightarrow>
   ends Q E (fst (m s)) (js (ls_db (snd (m s))))"
  by (simp add: triple_def)

lemma triple_lbind:
  assumes "triple env js X P m R E" and "\<And>a. triple env js X (R a) (f a) Q E"
  shows "triple env js X P (lbind m f) Q E"
proof (rule tripleI)
  fix s r s'
  assume "internal env X s" and "P (js (ls_db s))" and run: "lbind m f s = (r, s')"
  moreover obtain q s1 where m: "m s = (q, s1)"
    by fastforce
  ultimately have 1: "internal env X s1 \<and> ends R E q (js (ls_db s1))"
    using tripleD [OF assms(1)] by blast
  consider a where "q = Some (Inr a)" | "\<And>a. q \<noteq> Some (Inr a)"
    by blast
  then show "internal env X s' \<and> ends Q E r (js (ls_db s'))"
  proof cases
    case (1 a)
    with \<open>internal env X s1 \<and> ends R E q (js (ls_db s1))\<close> show ?thesis
      using tripleD [OF assms(2) [of a], of s1 r s'] run m by (simp add: lbind_def)
  next
    case 2
    with 1 run m show ?thesis
      by (cases q) (auto simp: lbind_def split: sum.splits)
  qed
qed

lemma triple_conseq:
  assumes "triple env js X P m Q E" and "\<And>b. P' b \<Longrightarrow> P b" and "\<And>a b. Q a b \<Longrightarrow> Q' a b"
    and "\<And>b. E b \<Longrightarrow> E' b"
  shows "triple env js X P' m Q' E'"
  using assms unfolding triple_def by (blast intro: ends_mono)

lemma triple_simple:
  "triple env js X (Q a) (lreturn a) Q E" "triple env js X E (lerror e) Q E"
  by (simp_all add: triple_def lreturn_def lerror_def)

lemma triple_neutral: "neutral env js m \<Longrightarrow> triple env js X P m (\<lambda>_. P) P"
  by (simp add: triple_def neutral_def ends_def split: option.splits sum.splits)

lemma triple_skip:
  assumes "neutral env js m" and "\<And>a. triple env js X P (f a) Q E" and "\<And>b. P b \<Longrightarrow> E b"
  shows "triple env js X P (lbind m f) Q E"
proof (rule triple_lbind)
  show "triple env js X P m (\<lambda>_. P) E"
    by (rule triple_conseq [OF triple_neutral [OF assms(1), where P = P]]) (auto intro: assms(3))
qed (rule assms(2))

lemma triple_return: "(\<And>b. P b \<Longrightarrow> Q a b) \<Longrightarrow> triple env js X P (lreturn a) Q E"
  by (simp add: triple_def lreturn_def)

lemma triple_if:
  "(c \<Longrightarrow> triple env js X P m Q E) \<Longrightarrow> (\<not> c \<Longrightarrow> triple env js X P n Q E) \<Longrightarrow>
   triple env js X P (if c then m else n) Q E"
  by simp

text \<open>Existential and pure parts of a precondition.\<close>

lemma triple_ex: "(\<And>x. triple env js X (P x) m Q E) \<Longrightarrow> triple env js X (\<lambda>b. \<exists>x. P x b) m Q E"
  by (auto simp: triple_def)

lemma triple_pure: "(A \<Longrightarrow> triple env js X P m Q E) \<Longrightarrow> triple env js X (\<lambda>b. A \<and> P b) m Q E"
  by (auto simp: triple_def)

lemma triple_or:
  "triple env js X P m Q E \<Longrightarrow> triple env js X P' m Q E \<Longrightarrow> triple env js X (\<lambda>b. P b \<or> P' b) m Q E"
  by (auto simp: triple_def)

text \<open>A run of a sequence has stopped in its first part or is a run of the second part.\<close>

lemma lbind_assoc: "lbind (lbind m f) g = lbind m (\<lambda>a. lbind (f a) g)"
  by (rule ext) (simp add: lbind_def split: option.splits sum.splits prod.splits)

lemma lbind_lreturn [simp]: "lbind (lreturn a) f = f a"
  by (rule ext) (simp add: lbind_def lreturn_def)

lemma triple_step:
  assumes "triple env js X P m R E" and "internal env X s" and "P (js (ls_db s))" and "lbind m f s = (r, s')"
  obtains (stopped) "E (js (ls_db s'))" and "\<And>a. r \<noteq> Some (Inr a)"
  | (passed) a s1 where "m s = (Some (Inr a), s1)" and "internal env X s1" and "R a (js (ls_db s1))"
      and "f a s1 = (r, s')"
proof -
  obtain q s1 where m: "m s = (q, s1)"
    by fastforce
  note 1 = tripleD [OF assms(1-3) m]
  show thesis
  proof (cases "\<exists>a. q = Some (Inr a)")
    case True
    with 1 m assms(4) show thesis
      by (auto simp: lbind_def intro: passed)
  next
    case False
    with 1 m assms(4) show thesis
      by (intro stopped) (auto simp: lbind_def split: option.splits sum.splits)
  qed
qed

subsection \<open>Booking, reverting and reading balances\<close>

text \<open>Ids of new journals are new.\<close>

definition fresh_ids :: "'w journals \<Rightarrow> ('e, 'w) ledger_env \<Rightarrow> bool" where
  "fresh_ids js env \<longleftrightarrow>
     (\<forall>e w r w'. le_commit env e w = (Some r, w') \<longrightarrow> se_id r \<notin> fst ` set (js w)) \<and>
     (\<forall>j d w r w'. le_void env j d w = (Voided r, w') \<longrightarrow> se_id r \<notin> fst ` set (js w))"

text \<open>The balance of an account is the exact sum over its lines, in whatever currency they are.\<close>

definition wallet_total :: "string \<Rightarrow> book \<Rightarrow> rat" where
  "wallet_total a b = account_balance a Btc b + account_balance a Usd b"

definition balance_law :: "'w journals \<Rightarrow> ('e, 'w) ledger_env \<Rightarrow> bool" where
  "balance_law js env \<longleftrightarrow>
     (\<forall>a w x. le_balance env a None w = Some x \<longrightarrow> x = Fin (wallet_total a (js w)))"

text \<open>The book \<open>b\<close> is \<open>b0\<close> with one more journal, the lines \<open>ls\<close> under a new id, posting \<open>ps\<close>.\<close>

definition entered :: "book \<Rightarrow> string \<Rightarrow> ledger_line list \<Rightarrow> posting list \<Rightarrow> book \<Rightarrow> bool" where
  "entered b0 j ls ps b \<longleftrightarrow>
     b = b0 @ [(j, ls)] \<and> j \<notin> fst ` set b0 \<and> (\<forall>a c. account_balance a c [(j, ls)] = posted ps a c)"

lemma internal_resolvers:
  assumes "internal env X s"
  shows "dealerBtcResolver env w = Some i \<Longrightarrow> i \<in> X" and "dealerUsdResolver env w = Some i \<Longrightarrow> i \<in> X"
    and "bankOwnerResolver env w = Some i \<Longrightarrow> i \<in> X"
  using assms by (auto simp: internal_def dest: spec [of _ w])

lemma own_wallets:
  assumes "internal env X s"
  shows "getBankOwnerWalletId env s = (Some (Inr i), s') \<Longrightarrow> i \<in> X \<and> internal env X s'"
    and "getDealerBtcWalletId env s = (Some (Inr i), s') \<Longrightarrow> i \<in> X \<and> internal env X s'"
    and "getDealerUsdWalletId env s = (Some (Inr i), s') \<Longrightarrow> i \<in> X \<and> internal env X s'"
  using assms internal_resolvers [OF assms]
  by (auto simp: getBankOwnerWalletId_def getDealerBtcWalletId_def getDealerUsdWalletId_def internal_def
      split: option.splits if_splits)

lemma lbind_InrD:
  "lbind m f s = (Some (Inr b), s') \<Longrightarrow> \<exists>a s1. m s = (Some (Inr a), s1) \<and> f a s1 = (Some (Inr b), s')"
  by (auto simp: lbind_def split: option.splits prod.splits sum.splits)

lemma catch_unknown_Inr [simp]: "catch_unknown m s = (Some (Inr a), s') \<longleftrightarrow> m s = (Some (Inr a), s')"
  by (simp add: catch_unknown_def split: option.splits prod.splits)

lemma staticAccountIds_own:
  assumes s: "internal env X s" and run: "fst (staticAccountIds env s) = Some (Inr ids)"
  shows "own_accounts X ids"
proof -
  from run obtain s' where "staticAccountIds env s = (Some (Inr ids), s')"
    by (metis prod.collapse)
  then obtain o1 o2 o3 s1 s2 s3 where o: "getBankOwnerWalletId env s = (Some (Inr o1), s1)"
      "getDealerBtcWalletId env s1 = (Some (Inr o2), s2)" "getDealerUsdWalletId env s2 = (Some (Inr o3), s3)"
      and ids: "ids = \<lparr>bankOwnerAccountId = toLedgerAccountId o1, dealerBtcAccountId = toLedgerAccountId o2,
        dealerUsdAccountId = toLedgerAccountId o3\<rparr>"
    by (auto simp: staticAccountIds_def lreturn_def dest!: lbind_InrD)
  have "o1 \<in> X" "o2 \<in> X" "o3 \<in> X"
    using own_wallets(1) [OF s o(1)] own_wallets(2) [OF _ o(2)] own_wallets(3) [OF _ o(3)] by auto
  then show ?thesis
    by (simp add: own_accounts_def ids)
qed

lemma internal_persist: "internal env X s \<Longrightarrow> internal env X (snd (persistAndReturnEntry env e h p s))"
  by (simp add: persistAndReturnEntry_def lbind_snd on_db_def persistAll_def lreturn_def Let_def
      split: option.splits prod.splits sum.splits)

context transfer_recorder
begin

lemma internal_op: "internal env X s \<Longrightarrow> internal env X (snd (op env args s))"
  using neutral_static [of env "\<lambda>_. []"]
  by (auto simp: op_eq lbind_snd neutral_def internal_persist split: option.splits sum.splits)

lemma fresh_journal:
  assumes "fresh_ids js env" and "op env args s = (Some (Inr j), s')"
  shows "lj_journalId j \<notin> fst ` set (js (ls_db s))"
proof -
  obtain r s1 where ids: "staticAccountIds env s = (r, s1)"
    by fastforce
  have s1: "js (ls_db s1) = js (ls_db s)"
    using keeps_staticAccountIds [of js env] ids by (metis keeps_def snd_conv)
  from assms(2) ids obtain i se w where "le_commit env (entry_of env i args) (ls_db s1) = (Some se, w)"
      and "lj_journalId j = se_id se"
    by (auto simp: op_eq lbind_def persistAndReturnEntry_def catch_unknown_def on_db_def Let_def persistAll_def
        lreturn_def translateToLedgerJournal_def split: option.splits prod.splits if_splits sum.splits)
  with assms(1) s1 show ?thesis
    by (metis fresh_ids_def)
qed

lemma record_triple:
  assumes "books_laws js env" and "fresh_ids js env" and "admissible args"
  shows "triple env js X (\<lambda>b. b = b0) (op env args)
    (\<lambda>j b. \<exists>ls ids. own_accounts X ids \<and> entered b0 (lj_journalId j) ls (postings_of ids args) b) (\<lambda>b. b = b0)"
proof (rule tripleI)
  fix s r s'
  assume s: "internal env X s" "js (ls_db s) = b0" and run: "op env args s = (r, s')"
  have "internal env X s'"
    using internal_op [OF s(1), of args] run by simp
  moreover have "ends (\<lambda>j b. \<exists>ls ids. own_accounts X ids \<and> entered b0 (lj_journalId j) ls (postings_of ids args) b)
      (\<lambda>b. b = b0) r (js (ls_db s'))"
  proof (cases "\<exists>j. r = Some (Inr j)")
    case True
    then obtain j where r: "r = Some (Inr j)"
      by blast
    from books_postings [OF assms(1,3)] run r obtain ids where "fst (staticAccountIds env s) = Some (Inr ids)"
        and "booked js (postings_of ids args) (lj_journalId j) s s'"
      by blast
    then show ?thesis
      using fresh_journal [OF assms(2)] run r s staticAccountIds_own [OF s(1)]
      by (fastforce simp: entered_def booked_def)
  next
    case False
    then show ?thesis
      using records_one_journal_or_fails [OF assms(1,3), of s] run s(2)
      by (cases r) (auto split: sum.splits)
  qed
  ultimately show "internal env X s' \<and>
      ends (\<lambda>j b. \<exists>ls ids. own_accounts X ids \<and> entered b0 (lj_journalId j) ls (postings_of ids args) b)
        (\<lambda>b. b = b0) r (js (ls_db s'))" ..
qed

end

text \<open>A booking step: what follows may assume the new journal and that the payment is covered.\<close>

lemma booked_triple:
  assumes rec: "triple env js X (\<lambda>b. b = b0) m
      (\<lambda>j b. \<exists>ls ids. own_accounts X ids \<and> entered b0 (lj_journalId j) ls (ps ids) b) (\<lambda>b. b = b0)"
    and rest: "\<And>j ls ids b1. own_accounts X ids \<Longrightarrow> entered b0 (lj_journalId j) ls (ps ids) b1 \<Longrightarrow>
      triple env js X (\<lambda>b. b = b1) (g j) Q E"
    and "E b0"
  shows "triple env js X (\<lambda>b. b = b0) (lbind m g) Q E"
proof (rule triple_lbind)
  show "triple env js X (\<lambda>b. b = b0) m
      (\<lambda>j b. \<exists>ls ids. own_accounts X ids \<and> entered b0 (lj_journalId j) ls (ps ids) b) E"
    by (rule triple_conseq [OF rec]) (use assms(3) in auto)
  have "triple env js X (\<lambda>b. own_accounts X ids \<and> entered b0 (lj_journalId j) ls (ps ids) b) (g j) Q E" for j ls ids
    using rest [of ids j ls "b0 @ [(lj_journalId j, ls)]"] by (auto simp: triple_def entered_def)
  then show "triple env js X (\<lambda>b. \<exists>ls ids. own_accounts X ids \<and> entered b0 (lj_journalId j) ls (ps ids) b) (g j) Q E" for j
    by (intro triple_ex)
qed

text \<open>A revert voids a journal of the book: it adds the reversed lines under a new id.\<close>

definition voided :: "book \<Rightarrow> string \<Rightarrow> book \<Rightarrow> bool" where
  "voided b1 j b \<longleftrightarrow> (\<exists>ls k. (j, ls) \<in> set b1 \<and> k \<notin> fst ` set b1 \<and> b = b1 @ [(k, map reverse_line ls)])"

lemma revert_triple:
  assumes "books_laws js env" and "fresh_ids js env"
  shows "triple env js X (\<lambda>b. b = b1) (recordLnSendRevert env j h) (\<lambda>_. voided b1 j) (\<lambda>b. b = b1)" (is ?ln)
    and "triple env js X (\<lambda>b. b = b1) (revertOnChainPayment env j d) (\<lambda>_. voided b1 j) (\<lambda>b. b = b1)" (is ?onchain)
proof -
  have void: "case x of Voided _ \<Rightarrow> voided b1 j (js w') | _ \<Rightarrow> js w' = b1"
    if v: "le_void env j r w = (x, w')" and w: "js w = b1" for r w x w'
  proof (cases x)
    case (Voided se)
    then obtain ls where "(j, ls) \<in> set b1" and "js w' = b1 @ [(se_id se, map reverse_line ls)]"
      using books_laws_void(1) [OF assms(1)] v w by blast
    moreover have "se_id se \<notin> fst ` set b1"
      using assms(2) v w Voided unfolding fresh_ids_def by blast
    ultimately show ?thesis
      using Voided by (auto simp: voided_def)
  qed (use books_laws_void(2,3) [OF assms(1)] v w in auto)
  show ?ln
    by (rule tripleI)
      (auto simp: recordLnSendRevert_def lbind_def lerror_def lreturn_def persistAll_def Let_def
        books_laws_update(1) [OF assms(1)] dest!: void split: void_result.splits prod.splits if_splits)
  show ?onchain
    unfolding revertOnChainPayment_def
  proof (rule tripleI)
    fix s r s'
    assume s: "internal env X s" "js (ls_db s) = b1"
      and run: "catch_unknown (lbind (on_db (le_updateMany env (ByJournal j) (SetPending False))) (\<lambda>_ s.
         case le_void env j (obj_or d ''Protocol error'') (ls_db s) of
           (Voided _, w) \<Rightarrow> lreturn True (s\<lparr>ls_db := w\<rparr>)
         | (_, w) \<Rightarrow> (None, s\<lparr>ls_db := w\<rparr>))) s = (r, s')"
    obtain n w where upd: "le_updateMany env (ByJournal j) (SetPending False) (ls_db s) = (n, w)"
      by fastforce
    then have w: "js w = b1"
      using books_laws_update(2) [OF assms(1), of "ByJournal j" "SetPending False" "ls_db s"] s(2) by simp
    obtain x w2 where v: "le_void env j (obj_or d ''Protocol error'') w = (x, w2)"
      by fastforce
    from void [OF v w] run upd v w s show "internal env X s' \<and> ends (\<lambda>_. voided b1 j) (\<lambda>b. b = b1) r (js (ls_db s'))"
      by (cases n; cases x) (auto simp: catch_unknown_def lbind_def on_db_def lreturn_def)
  qed
qed

text \<open>The balance the code reads never exceeds the balance of the account.\<close>

lemma balanceAmount_le:
  "(case balanceAmountFromNumber (Fin x) c of
      Inl BigIntFloatConversionError \<Rightarrow> balanceAmountFromNumber (js_floor (Fin x)) c | r \<Rightarrow> r) = Inr bal \<Longrightarrow>
   currency bal = c \<and> of_int (amount bal) \<le> x"
  by (auto simp: balanceAmountFromNumber_def safeBigInt_def BigInt_num_def js_floor_def
      split: option.splits if_splits sum.splits error.splits)

lemma balance_triple:
  assumes "balance_law js env"
  shows "triple env js X (\<lambda>b. b = b0) (getWalletBalanceAmount env wd)
    (\<lambda>bal b. (currency bal = wallet_currency wd \<and>
       of_int (amount bal) \<le> wallet_total (toLiabilitiesWalletId (wallet_id wd)) b0) \<and> b = b0) (\<lambda>b. b = b0)"
proof (rule tripleI)
  fix s r s'
  assume s: "internal env X s" "js (ls_db s) = b0" and run: "getWalletBalanceAmount env wd s = (r, s')"
  have "internal env X s' \<and> js (ls_db s') = b0"
    using neutral_queries(3) [of env js wd] s run unfolding neutral_def by (metis snd_conv)
  moreover have "currency bal = wallet_currency wd \<and>
      of_int (amount bal) \<le> wallet_total (toLiabilitiesWalletId (wallet_id wd)) b0"
    if "r = Some (Inr bal)" for bal
  proof -
    from run that obtain x where x: "le_balance env (toLiabilitiesWalletId (wallet_id wd)) None (ls_db s) = Some x"
        and bal: "(case balanceAmountFromNumber x (wallet_currency wd) of
          Inl BigIntFloatConversionError \<Rightarrow> balanceAmountFromNumber (js_floor x) (wallet_currency wd)
          | r \<Rightarrow> r) = Inr bal"
      by (auto simp: getWalletBalanceAmount_def on_db_def dest!: lbind_InrD)
    from x s(2) assms have "x = Fin (wallet_total (toLiabilitiesWalletId (wallet_id wd)) b0)"
      by (auto simp: balance_law_def)
    with bal show ?thesis
      using balanceAmount_le by blast
  qed
  ultimately show "internal env X s' \<and> ends (\<lambda>bal b. (currency bal = wallet_currency wd \<and>
       of_int (amount bal) \<le> wallet_total (toLiabilitiesWalletId (wallet_id wd)) b0) \<and> b = b0) (\<lambda>b. b = b0) r
      (js (ls_db s'))"
    by (auto simp: ends_def split: option.splits sum.splits)
qed

text \<open>The concrete book satisfies the laws.\<close>

lemma list_env_fresh: "fresh_ids (\<lambda>w. w) list_env"
proof -
  have "next_id w \<notin> fst ` set w" for w
  proof
    assume "next_id w \<in> fst ` set w"
    then obtain ls where "(next_id w, ls) \<in> set w"
      by auto
    then have "length (next_id w) \<le> sum_list (map (length \<circ> fst) w)"
      by (intro member_le_sum_list) (force, simp)
    then show False
      by (simp add: next_id_def)
  qed
  then show ?thesis
    by (auto simp: fresh_ids_def list_env_def saved_as_def split: option.splits)
qed

lemma list_env_balance: "balance_law (\<lambda>w. w) list_env"
  by (simp add: balance_law_def list_env_def wallet_total_def)

lemma list_env_internal: "internal list_env {''bank'', ''dealerBtc'', ''dealerUsd''} empty_book"
  by (simp add: internal_def list_env_def empty_book_def)

end
