(* ===== verification/Payment_Spec.thy ===== *)
theory Payment_Spec
  imports Ledger_Hoare
begin

text \<open>
  The specification of payments on the balances of the accounts: what a payment from a wallet,
  a receipt and a refund move, and that none of them overdraws a user's wallet. \<open>X\<close> are the ids
  of the bank's own wallets.
\<close>

subsection \<open>Postings on the accounts of users\<close>

lemma posted_other: "a \<notin> fst ` set ps \<Longrightarrow> posted ps a c = 0"
  by (induction ps) auto

lemma dealer_postings_accounts:
  "own_accounts X ids \<Longrightarrow> fst ` set (dealer_postings ids tot fee dc cc) \<subseteq> toLedgerAccountId ` X"
  by (cases dc; cases cc) (auto simp: own_accounts_def)

lemma toLedgerAccountId_eq [simp]: "toLedgerAccountId x = toLedgerAccountId y \<longleftrightarrow> x = y"
  by (simp add: toLedgerAccountId_def)

lemma toLedgerAccountId_image [simp]: "toLedgerAccountId x \<in> toLedgerAccountId ` X \<longleftrightarrow> x \<in> X"
  by auto

lemma node_accounts [simp]:
  "toLedgerAccountId x \<noteq> ad_id lndLedgerAccountDescriptor"
  "toLedgerAccountId x \<noteq> ad_id onChainLedgerAccountDescriptor"
  "ad_id lndLedgerAccountDescriptor \<noteq> toLedgerAccountId x"
  "ad_id onChainLedgerAccountDescriptor \<noteq> toLedgerAccountId x"
  by (simp_all add: toLedgerAccountId_def lndLedgerAccountDescriptor_def onChainLedgerAccountDescriptor_def
      liabilitiesMainAccount_def assetsMainAccount_def)

lemma transfer_user:
  assumes "own_accounts X ids" and "wid \<notin> X"
  shows "posted (transfer ids tot fee dacc cacc) (toLedgerAccountId wid) c =
    (if ad_id dacc = toLedgerAccountId wid \<and> ad_currency dacc = c then - of_int (amount_of c tot) else 0) +
    (if ad_id cacc = toLedgerAccountId wid \<and> ad_currency cacc = c
     then of_int (amount_of c tot - amount_of c fee) else 0)"
proof -
  have "posted (dealer_postings ids tot fee dc cc) (toLedgerAccountId wid) c = 0" for dc cc
    using dealer_postings_accounts [OF assms(1), of tot fee dc cc] assms(2)
    by (intro posted_other) (metis subsetD toLedgerAccountId_image)
  moreover have "bankOwnerAccountId ids \<noteq> toLedgerAccountId wid"
    using assms by (auto simp: own_accounts_def)
  ultimately show ?thesis
    by (auto simp: transfer_def)
qed

lemma wallet_total_append [simp]: "wallet_total a (b @ b') = wallet_total a b + wallet_total a b'"
  by (simp add: wallet_total_def)

lemma account_balance_reversed:
  "account_balance a c [(k, map reverse_line ls)] = - account_balance a c [(j, ls)]"
  by (simp add: account_balance_def account_lines_reverse lines_balance_reverse)

lemma safe_int_mono: "safe_int n \<Longrightarrow> 0 \<le> m \<Longrightarrow> m \<le> n \<Longrightarrow> safe_int m"
  by (simp add: safe_int_def)

lemma with_zero_fee: "with_fee d ZERO_BANK_FEE = d" "fee_or_zero None = ZERO_BANK_FEE"
  by (intro amount_pair.equality payment_amount.equality;
      simp add: with_fee_def calc_add_def fee_or_zero_def ZERO_BANK_FEE_def ZERO_SATS_def ZERO_CENTS_def)+

subsection \<open>What a payment does, on balances\<close>

definition bank_of :: "book \<Rightarrow> bank" where
  "bank_of b = (\<lambda>a c. account_balance a c b)"

lemma balances_bank_of: "balances js s = bank_of (js (ls_db s))"
  by (simp add: balances_def bank_of_def)

lemma entered_bank: "entered b0 j ls ps b \<Longrightarrow> bank_of b = post_all ps (bank_of b0)"
  by (auto simp: entered_def bank_of_def post_all_def fun_eq_iff)

lemma reverted_bank:
  assumes "entered b0 j ls ps b1" and "distinct (map fst b0)" and "voided b1 j b"
  shows "bank_of b = bank_of b0"
proof (intro ext)
  fix a c
  have b1: "b1 = b0 @ [(j, ls)]" and dist: "distinct (map fst b1)"
    using assms(1,2) by (auto simp: entered_def)
  from assms(3) obtain ls' k where "(j, ls') \<in> set b1" and b: "b = b1 @ [(k, map reverse_line ls')]"
    unfolding voided_def by blast
  moreover have "(j, ls) \<in> set b1"
    by (simp add: b1)
  ultimately have "ls' = ls"
    using eq_key_imp_eq_value [OF dist] by blast
  note b = b [unfolded this]
  show "bank_of b a c = bank_of b0 a c"
    by (simp only: b b1 bank_of_def account_balance_append account_balance_reversed [of a c k ls j])
qed

text \<open>The balance of a wallet, as the code reads it. No user's wallet is overdrawn.\<close>

definition funds :: "bank \<Rightarrow> string \<Rightarrow> rat" where
  "funds B wid = B (toLedgerAccountId wid) Btc + B (toLedgerAccountId wid) Usd"

definition solvent :: "string set \<Rightarrow> bank \<Rightarrow> bool" where
  "solvent X B \<longleftrightarrow> (\<forall>wid. wid \<notin> X \<longrightarrow> 0 \<le> funds B wid)"

lemma funds_transfer:
  assumes "own_accounts X ids" and "wid \<notin> X"
  shows "funds (post_all (transfer ids tot fee dacc cacc) B) wid = funds B wid -
      (if ad_id dacc = toLedgerAccountId wid then of_int (amount_of (ad_currency dacc) tot) else 0) +
      (if ad_id cacc = toLedgerAccountId wid
       then of_int (amount_of (ad_currency cacc) tot - amount_of (ad_currency cacc) fee) else 0)"
  by (cases "ad_currency dacc"; cases "ad_currency cacc")
    (simp_all add: funds_def post_all_def transfer_user [OF assms])

text \<open>
  A payment from the wallet \<open>wd\<close>: its balance covers the total, which moves to the account
  \<open>cacc\<close> with the fee to the bank. A receipt moves an amount from the account \<open>dacc\<close> to the
  wallet.
\<close>

definition pays ::
  "string set \<Rightarrow> wallet_descriptor \<Rightarrow> amount_pair \<Rightarrow> amount_pair \<Rightarrow> account_descriptor \<Rightarrow> bank \<Rightarrow> bank \<Rightarrow> bool" where
  "pays X wd tot fee cacc B B' \<longleftrightarrow>
     of_int (amount_of (wallet_currency wd) tot) \<le> funds B (wallet_id wd) \<and>
     (\<exists>ids. own_accounts X ids \<and> B' = post_all (transfer ids tot fee (toLedgerAccountDescriptor wd) cacc) B)"

definition receives ::
  "string set \<Rightarrow> account_descriptor \<Rightarrow> amount_pair \<Rightarrow> amount_pair \<Rightarrow> wallet_descriptor \<Rightarrow> bank \<Rightarrow> bank \<Rightarrow> bool" where
  "receives X dacc tot fee wd B B' \<longleftrightarrow>
     (\<exists>ids. own_accounts X ids \<and> B' = post_all (transfer ids tot fee dacc (toLedgerAccountDescriptor wd)) B)"

lemma entry_amounts_rest: "entry_amounts_ok tot fee \<Longrightarrow> amount_of c fee \<le> amount_of c tot"
  by (cases c) (simp_all add: entry_amounts_ok_def amount_of_def)

lemma descriptor_fields [simp]:
  "ad_id (toLedgerAccountDescriptor wd) = toLedgerAccountId (wallet_id wd)"
  "ad_currency (toLedgerAccountDescriptor wd) = wallet_currency wd"
  by (simp_all add: toLedgerAccountDescriptor_def)

lemma pays_solvent:
  assumes "pays X wd tot fee cacc B B'" and "entry_amounts_ok tot fee"
    and "ad_id cacc \<noteq> toLedgerAccountId (wallet_id wd)" and "solvent X B"
  shows "solvent X B'"
  using assms entry_amounts_rest [OF assms(2)]
  by (auto simp: pays_def solvent_def funds_transfer of_int_diff [symmetric] simp del: of_int_diff)

lemma receives_solvent:
  assumes "receives X dacc tot fee wd B B'" and "entry_amounts_ok tot fee"
    and "ad_id dacc \<notin> range toLedgerAccountId" and "solvent X B"
  shows "solvent X B'"
  using assms entry_amounts_rest [OF assms(2)]
  by (auto simp: receives_def solvent_def funds_transfer of_int_diff [symmetric] simp del: of_int_diff)

end
