(* ===== verification/Fiat_Display.thy ===== *)
theory Fiat_Display
  imports Ledger_Metadata
begin

text \<open>
  Amounts in the currency a user sees: \<open>domain/fiat/display-currency.ts\<close>,
  \<open>display-amounts-converter.ts\<close>, \<open>index.ts\<close> and the display part of
  \<open>domain/payments/price-ratio.ts\<close>. The number of fraction digits of a currency comes from the
  runtime's \<open>Intl.NumberFormat\<close> and is an argument (\<open>None\<close> when the constructor throws), and so is
  the printing of numbers outside the range of \<open>toFixed\<close>. \<open>majorToMinorUnit\<close>, which calls the
  bignumber package, is left out.
\<close>

record fiat_env =
  fe_minimumFractionDigits :: "string \<Rightarrow> nat option"
  fe_toString :: "jsnum \<Rightarrow> string"

record display_amount =
  da_amountInMinor :: int
  da_currency :: string
  da_displayInMajor :: string

subsection \<open>display-currency.ts\<close>

definition SAT_PRICE_PRECISION_OFFSET :: nat where
  "SAT_PRICE_PRECISION_OFFSET = 12"

definition USD_PRICE_PRECISION_OFFSET :: nat where
  "USD_PRICE_PRECISION_OFFSET = 6"

definition getCurrencyMajorExponent :: "fiat_env \<Rightarrow> string \<Rightarrow> nat" where
  "getCurrencyMajorExponent fe cur =
     (case fe_minimumFractionDigits fe cur of
        None \<Rightarrow> 2
      | Some d \<Rightarrow> if d = 0 then 0 else if d = 1 then 1 else if d = 3 then 3 else if d = 4 then 4 else 2)"

definition displayMinorToMajor :: "fiat_env \<Rightarrow> int \<Rightarrow> nat \<Rightarrow> string" where
  "displayMinorToMajor fe amountInMinor displayMajorExponent =
     toFixed (fe_toString fe) displayMajorExponent
       (js_div (Number_big amountInMinor) (Fin (10 ^ displayMajorExponent)))"

definition displayAmountFromNumber :: "fiat_env \<Rightarrow> jsnum \<Rightarrow> string \<Rightarrow> error + display_amount" where
  "displayAmountFromNumber fe amt cur =
     rbind (safeBigInt (js_round amt)) (\<lambda>amountInMinor.
       Inr \<lparr>da_amountInMinor = amountInMinor, da_currency = cur,
            da_displayInMajor = displayMinorToMajor fe amountInMinor (getCurrencyMajorExponent fe cur)\<rparr>)"

definition displayAmountFromWalletAmount :: "fiat_env \<Rightarrow> payment_amount \<Rightarrow> display_amount" where
  "displayAmountFromWalletAmount fe w =
     (let cur = currency_str (currency w) in
      \<lparr>da_amountInMinor = amount w, da_currency = cur,
       da_displayInMajor = displayMinorToMajor fe (amount w) (getCurrencyMajorExponent fe cur)\<rparr>)"

record display_price =
  dp_base :: int
  dp_offset :: nat
  dp_displayCurrency :: string
  dp_walletCurrency :: wallet_currency

definition priceAmountFromNumber :: "jsnum \<Rightarrow> string \<Rightarrow> wallet_currency \<Rightarrow> error + display_price" where
  "priceAmountFromNumber priceInMinorUnit displayCurrency walletCurrency =
     (let offset = (if walletCurrency = Btc then SAT_PRICE_PRECISION_OFFSET
                    else USD_PRICE_PRECISION_OFFSET)
      in case BigInt_num (js_floor (js_mul priceInMinorUnit (Fin (10 ^ offset)))) of
           None \<Rightarrow> Inl (ThrownError ''RangeError'')
         | Some base \<Rightarrow> Inr \<lparr>dp_base = base, dp_offset = offset,
             dp_displayCurrency = displayCurrency, dp_walletCurrency = walletCurrency\<rparr>)"

subsection \<open>Display price ratios\<close>

record display_price_ratio =
  dpr_ratio :: price_ratio
  dpr_displayCurrency :: string

definition toDisplayAmount :: "fiat_env \<Rightarrow> int \<Rightarrow> string \<Rightarrow> display_amount" where
  "toDisplayAmount fe amountInMinor cur =
     (let displayMajorExponent = getCurrencyMajorExponent fe cur in
      \<lparr>da_amountInMinor = amountInMinor, da_currency = cur,
       da_displayInMajor = toFixed (fe_toString fe) displayMajorExponent
         (js_div (Number_big amountInMinor) (Fin (10 ^ displayMajorExponent)))\<rparr>)"

definition toDisplayBaseAmount :: "display_amount \<Rightarrow> jsnum" where
  "toDisplayBaseAmount d = Number_big (da_amountInMinor d)"

definition DisplayPriceRatio :: "display_amount \<Rightarrow> payment_amount \<Rightarrow> error + display_price_ratio" where
  "DisplayPriceRatio displayAmount walletAmount =
     rbind (PriceRatio (da_amountInMinor displayAmount) walletAmount) (\<lambda>priceRatio.
       Inr \<lparr>dpr_ratio = priceRatio, dpr_displayCurrency = da_currency displayAmount\<rparr>)"

definition convertFromDisplayMinorUnit :: "display_price_ratio \<Rightarrow> display_amount \<Rightarrow> payment_amount" where
  "convertFromDisplayMinorUnit dpr d = convertFromOther (dpr_ratio dpr) (da_amountInMinor d)"

definition display_convertFromWallet ::
  "fiat_env \<Rightarrow> display_price_ratio \<Rightarrow> payment_amount \<Rightarrow> display_amount" where
  "display_convertFromWallet fe dpr w =
     toDisplayAmount fe (convertFromWallet (dpr_ratio dpr) w) (dpr_displayCurrency dpr)"

definition display_convertFromWalletToFloor ::
  "fiat_env \<Rightarrow> display_price_ratio \<Rightarrow> payment_amount \<Rightarrow> display_amount" where
  "display_convertFromWalletToFloor fe dpr w =
     toDisplayAmount fe (convertFromWalletToFloor (dpr_ratio dpr) w) (dpr_displayCurrency dpr)"

definition display_convertFromWalletToCeil ::
  "fiat_env \<Rightarrow> display_price_ratio \<Rightarrow> payment_amount \<Rightarrow> display_amount" where
  "display_convertFromWalletToCeil fe dpr w =
     toDisplayAmount fe (convertFromWalletToCeil (dpr_ratio dpr) w) (dpr_displayCurrency dpr)"

definition toDisplayPriceRatio ::
  "fiat_env \<Rightarrow> jsnum \<Rightarrow> jsnum \<Rightarrow> string \<Rightarrow> wallet_currency \<Rightarrow> error + display_price_ratio" where
  "toDisplayPriceRatio fe precision ratio displayCurrency walletCurrency =
     rbind (safeBigInt (js_floor (js_mul ratio precision))) (\<lambda>amountInMinor.
       case BigInt_num precision of
         None \<Rightarrow> Inl (ThrownError ''RangeError'')
       | Some p \<Rightarrow> DisplayPriceRatio (toDisplayAmount fe amountInMinor displayCurrency)
                    \<lparr>currency = walletCurrency, amount = p\<rparr>)"

definition priceAmountFromDisplayPriceRatio :: "display_price_ratio \<Rightarrow> error + display_price" where
  "priceAmountFromDisplayPriceRatio dpr =
     priceAmountFromNumber (otherUnitPerWalletUnit (dpr_ratio dpr)) (dpr_displayCurrency dpr)
       (currency (ratio_walletAmount (dpr_ratio dpr)))"

subsection \<open>display-amounts-converter.ts\<close>

record display_amounts =
  ds_displayAmount :: display_amount
  ds_displayFee :: display_amount
  ds_displayCurrency :: string
  ds_displayPrice :: display_price

definition DisplayAmountsConverter ::
  "fiat_env \<Rightarrow> display_price_ratio \<Rightarrow> amounts_and_fees \<Rightarrow> error + display_amounts" where
  "DisplayAmountsConverter fe dpr args =
     (let displayCurrency = dpr_displayCurrency dpr;
          displayAmount =
            (if displayCurrency = UsdDisplayCurrency
             then displayAmountFromWalletAmount fe (af_usdPaymentAmount args)
             else display_convertFromWallet fe dpr (af_btcPaymentAmount args));
          displayFee =
            (if displayCurrency = UsdDisplayCurrency
             then displayAmountFromWalletAmount fe (af_usdProtocolAndBankFee args)
             else display_convertFromWalletToCeil fe dpr (af_btcProtocolAndBankFee args))
      in rbind (priceAmountFromDisplayPriceRatio dpr) (\<lambda>displayPrice.
           Inr \<lparr>ds_displayAmount = displayAmount, ds_displayFee = displayFee,
                ds_displayCurrency = displayCurrency, ds_displayPrice = displayPrice\<rparr>))"

subsection \<open>index.ts\<close>

definition checkedToCents :: "jsnum \<Rightarrow> error + jsnum" where
  "checkedToCents amt =
     (if \<not> (js_truthy amt \<and> js_lt (Fin 0) amt) then Inl InvalidUsdCents
      else if BigInt_num amt = None then Inl NonIntegerError
      else Inr amt)"

definition fiat_sub :: "jsnum \<Rightarrow> jsnum \<Rightarrow> error + jsnum" where
  "fiat_sub a b =
     (let result = js_sub a b in
      if js_lt result (Fin 0) then Inl InvalidNegativeAmountError else Inr result)"

subsection \<open>Printing is exact\<close>

text \<open>A quotient in the normal range is off by at most its \<open>2^53\<close>-th part.\<close>

lemma round_double_error:
  assumes "1 / 2 ^ 64 \<le> r" and "r < 2 ^ 64"
  shows "\<exists>v. round_double r = Fin v \<and> \<bar>v - r\<bar> \<le> r / 2 ^ 53"
proof -
  have pos: "0 < r"
    using assms(1) by (rule less_le_trans [rotated]) simp
  define k where "k = rat_log2 r"
  note b = rat_log2_bounds [OF pos, folded k_def]
  have "(2 :: rat) powi (- 64) \<le> r"
    using assms(1) by (simp add: power_int_def power_one_over)
  with b(2) have "(2 :: rat) powi (- 64) < 2 powi (k + 1)"
    by (rule le_less_trans [rotated])
  then have lower: "- 65 < k"
    by (simp only: powi2_less_iff)
  have "r < (2 :: rat) powi 64"
    using assms(2) by simp
  with b(1) have "(2 :: rat) powi k < 2 powi 64"
    by (rule le_less_trans)
  then have upper: "k < 64"
    by (simp only: powi2_less_iff)
  define e where "e = k - 52"
  define v where "v = of_int (round_half_even (r / 2 powi e)) * (2 :: rat) powi e"
  have ulp: "ulp_exp r = e"
    using lower by (simp add: ulp_exp_def e_def k_def)
  have p: "(0 :: rat) < 2 powi e"
    by simp
  have "v - r = (of_int (round_half_even (r / 2 powi e)) - r / 2 powi e) * 2 powi e"
    unfolding v_def left_diff_distrib using p by simp
  then have "\<bar>v - r\<bar> = \<bar>of_int (round_half_even (r / 2 powi e)) - r / 2 powi e\<bar> * 2 powi e"
    using p by (simp add: abs_mult)
  also have "\<dots> \<le> 1 / 2 * 2 powi e"
    using round_half_even_error p by (intro mult_right_mono) simp_all
  also have "\<dots> = 2 powi k / 2 ^ 53"
  proof -
    have "(2 :: rat) powi k = 2 powi e * 2 powi 52"
      using power_int_add [of "2 :: rat" e 52] by (simp add: e_def del: power_int_numeral)
    then show ?thesis
      by simp
  qed
  also have "\<dots> \<le> r / 2 ^ 53"
    using b(1) by (intro divide_right_mono) simp_all
  finally have err: "\<bar>v - r\<bar> \<le> r / 2 ^ 53" .
  have "r / 2 ^ 53 \<le> r"
    using pos by simp
  with err have "v \<le> r + r"
    by linarith
  also have "\<dots> < 2 ^ 1024"
    using assms(2) by simp
  finally have "v < 2 ^ 1024" .
  then have "round_double r = Fin v"
    using pos by (simp add: round_double_def Let_def ulp v_def not_le)
  with err show ?thesis
    by blast
qed

lemma floor_near:
  fixes x :: rat and n :: nat
  assumes "\<bar>x - of_nat n\<bar> < 1 / 2"
  shows "nat \<lfloor>x + 1 / 2\<rfloor> = n"
proof -
  have "of_int (int n) \<le> x + 1 / 2" and "x + 1 / 2 < of_int (int n) + 1"
    using assms by linarith+
  then have "\<lfloor>x + 1 / 2\<rfloor> = int n"
    by (simp add: floor_unique)
  then show ?thesis
    by simp
qed

lemma displayMinorToMajor_exact:
  assumes "n < 2 ^ 52" and "f \<le> 4"
  shows "displayMinorToMajor fe (int n) f = fixed_digits f n"
proof (cases "n = 0")
  case True
  then show ?thesis
    by (simp add: displayMinorToMajor_def toFixed_def js_div_def Number_big_def round_double_def)
next
  case False
  define r :: rat where "r = of_nat n / 10 ^ f"
  have ten: "(1 :: rat) \<le> 10 ^ f" "(10 :: rat) ^ f \<le> 10 ^ 4"
    using assms(2) power_increasing [of f 4 "10 :: rat"] by simp_all
  have n52: "(of_nat n :: rat) < 2 ^ 52"
    using assms(1) by (metis of_nat_less_iff of_nat_numeral of_nat_power)
  have n1: "(1 :: rat) \<le> of_nat n"
    using False by simp
  have "r \<le> of_nat n"
    using ten(1) n1 by (simp add: r_def divide_le_eq mult_le_cancel_left1)
  then have up: "r < 2 ^ 64"
    using n52 by simp
  have "1 / 10 ^ 4 \<le> r"
    unfolding r_def using ten n1 by (intro frac_le) simp_all
  then have low: "1 / 2 ^ 64 \<le> r"
    by (rule order_trans [rotated]) simp
  obtain v where v: "round_double r = Fin v" "\<bar>v - r\<bar> \<le> r / 2 ^ 53"
    using round_double_error [OF low up] by blast
  have rn: "r * 10 ^ f = of_nat n"
    using ten(1) by (simp add: r_def)
  have rpos: "0 < r"
    using low by (rule less_le_trans [rotated]) simp
  then have "r / 2 ^ 53 \<le> r"
    by simp
  with v(2) have "\<bar>v - r\<bar> \<le> r"
    by (rule order_trans)
  then have vpos: "0 \<le> v" and vle: "v \<le> 2 * r"
    by linarith+
  have "\<bar>v * 10 ^ f - of_nat n\<bar> = \<bar>v - r\<bar> * 10 ^ f"
    unfolding rn [symmetric] left_diff_distrib [symmetric] using ten(1) by (simp add: abs_mult)
  also have "\<dots> \<le> r / 2 ^ 53 * 10 ^ f"
    using v(2) ten(1) by (intro mult_right_mono) simp_all
  also have "\<dots> = of_nat n / 2 ^ 53"
    by (simp flip: rn)
  also have "\<dots> < 1 / 2"
    using n52 by simp
  finally have "nat \<lfloor>v * 10 ^ f + 1 / 2\<rfloor> = n"
    by (rule floor_near)
  moreover have "safe_int (int n)"
    using assms(1) by (simp add: safe_int_def)
  moreover have "\<not> 10 ^ 21 \<le> v"
    using vle \<open>r \<le> of_nat n\<close> n52 by simp
  ultimately show ?thesis
    using v(1) vpos by (simp add: displayMinorToMajor_def toFixed_def js_div_def Number_big_safe flip: r_def)
qed

text \<open>Reading the digits back.\<close>

lemma digits_val_append: "digits_val acc (xs @ [c]) = 10 * digits_val acc xs + (of_char c - 48)"
  by (induction xs arbitrary: acc) simp_all

lemma digits_val_nat_to_string: "digits_val 0 (nat_to_string n) = n"
proof (induction n rule: nat_to_string.induct)
  case (1 n)
  then show ?case
    by (subst nat_to_string.simps) (auto simp: digits_val_append)
qed

lemma digits_val_zeros: "digits_val 0 (replicate k (CHR ''0'') @ s) = digits_val 0 s"
  by (induction k) simp_all

lemma nat_to_string_no_dot: "CHR ''.'' \<notin> set (nat_to_string n)"
proof (induction n rule: nat_to_string.induct)
  case (1 n)
  have dot: "CHR ''.'' \<noteq> char_of (48 + m)" if "m < 10" for m :: nat
  proof
    assume "CHR ''.'' = char_of (48 + m)"
    then have "of_char (CHR ''.'') = (of_char (char_of (48 + m) :: char) :: nat)"
      by (rule arg_cong)
    with that show False
      by simp
  qed
  show ?case
    using 1 dot [of n] dot [of "n mod 10"] by (subst nat_to_string.simps) auto
qed

lemma filter_insert_dot: "filter (\<lambda>c. c \<noteq> x) (take l z @ [x] @ drop l z) = filter (\<lambda>c. c \<noteq> x) z"
proof -
  have "filter (\<lambda>c. c \<noteq> x) z = filter (\<lambda>c. c \<noteq> x) (take l z @ drop l z)"
    by simp
  then show ?thesis
    by (simp del: append_take_drop_id)
qed

definition minor_units :: "string \<Rightarrow> nat" where
  "minor_units s = digits_val 0 (filter (\<lambda>c. c \<noteq> CHR ''.'') s)"

lemma minor_units_fixed_digits: "minor_units (fixed_digits f n) = n"
proof -
  define m where "m = nat_to_string n"
  define z where "z = replicate (f + 1 - length m) (CHR ''0'') @ m"
  have m: "filter (\<lambda>c. c \<noteq> CHR ''.'') m = m"
    using nat_to_string_no_dot [of n] by (auto simp: m_def intro: filter_True)
  then have z: "filter (\<lambda>c. c \<noteq> CHR ''.'') z = z"
    by (simp add: z_def)
  have "fixed_digits f n = (if f = 0 then m else take (length z - f) z @ ''.'' @ drop (length z - f) z)"
    by (simp only: fixed_digits_def Let_def m_def z_def)
  then have "filter (\<lambda>c. c \<noteq> CHR ''.'') (fixed_digits f n) = (if f = 0 then m else z)"
    using m z filter_insert_dot [of "CHR ''.''" "length z - f" z] by (cases "f = 0") simp_all
  then show ?thesis
    by (simp add: minor_units_def z_def m_def digits_val_zeros digits_val_nat_to_string)
qed

lemma getCurrencyMajorExponent_le: "getCurrencyMajorExponent fe cur \<le> 4"
  by (simp add: getCurrencyMajorExponent_def split: option.splits)

subsection \<open>Properties\<close>

text \<open>C24: the display string is exact. For a non-negative amount below \<open>2^52\<close> minor units, the string
  shown in major units has the digits of the amount, nothing is lost to floating point in the
  division: without its decimal point it reads back as the amount, whatever the number of
  fraction digits of the currency.\<close>
theorem display_string_exact:
  assumes "0 \<le> n" and "n < 2 ^ 52"
  shows "int (minor_units (da_displayInMajor (toDisplayAmount fe n cur))) = n \<and>
    da_displayInMajor (toDisplayAmount fe n cur) = fixed_digits (getCurrencyMajorExponent fe cur) (nat n)"
proof -
  have "nat n < 2 ^ 52"
    using assms by simp
  from displayMinorToMajor_exact [OF this getCurrencyMajorExponent_le [of fe cur], of fe]
  have "da_displayInMajor (toDisplayAmount fe n cur) = fixed_digits (getCurrencyMajorExponent fe cur) (nat n)"
    using assms(1) by (simp add: toDisplayAmount_def displayMinorToMajor_def Let_def)
  then show ?thesis
    using assms(1) by (simp add: minor_units_fixed_digits)
qed

definition example_fiat :: fiat_env where
  "example_fiat = \<lparr>fe_minimumFractionDigits = (\<lambda>c. if c = ''JPY'' then Some 0 else Some 2),
     fe_toString = (\<lambda>_. [])\<rparr>"

lemma fixed_digits_example: "fixed_digits 2 1205 = ''12.05''"
  by code_simp

lemma display_string_exact_witness:
  "da_displayInMajor (toDisplayAmount example_fiat 1205 ''EUR'') = ''12.05''"
  using display_string_exact [of 1205 example_fiat "''EUR''"]
  by (simp add: fixed_digits_example getCurrencyMajorExponent_def example_fiat_def)

text \<open>C25: what a user sees of a payment. In dollars the display amount and fee are the cents of the
  payment. In any other currency, with \<open>x\<close> and \<open>y\<close> the exact values of the satoshis and of the
  fee at the display price, the amount lies between the floor and the ceiling of \<open>x\<close>, is its
  nearest minor unit from one unit on and one unit for anything positive below, and is zero only
  for a zero payment; the fee is the ceiling of \<open>y\<close>. The price ratio is positive and the
  satoshis are not negative.\<close>
theorem display_amounts_of_payment:
  fixes x y :: rat
  assumes "valid_ratio (dpr_ratio dpr)" and "0 \<le> amount (af_btcPaymentAmount args)"
    and "0 \<le> amount (af_btcProtocolAndBankFee args)"
    and "DisplayAmountsConverter fe dpr args = Inr ds"
    and "x = of_int (amount (af_btcPaymentAmount args)) * of_int (ratio_other (dpr_ratio dpr)) /
      of_int (amount (ratio_walletAmount (dpr_ratio dpr)))"
    and "y = of_int (amount (af_btcProtocolAndBankFee args)) * of_int (ratio_other (dpr_ratio dpr)) /
      of_int (amount (ratio_walletAmount (dpr_ratio dpr)))"
  shows "(if dpr_displayCurrency dpr = ''USD''
     then da_amountInMinor (ds_displayAmount ds) = amount (af_usdPaymentAmount args) \<and>
       da_amountInMinor (ds_displayFee ds) = amount (af_usdProtocolAndBankFee args)
     else \<lfloor>x\<rfloor> \<le> da_amountInMinor (ds_displayAmount ds) \<and> da_amountInMinor (ds_displayAmount ds) \<le> \<lceil>x\<rceil> \<and>
       (1 \<le> x \<longrightarrow> \<bar>of_int (da_amountInMinor (ds_displayAmount ds)) - x\<bar> \<le> 1 / 2) \<and>
       (0 < x \<and> x < 1 \<longrightarrow> da_amountInMinor (ds_displayAmount ds) = 1) \<and>
       (da_amountInMinor (ds_displayAmount ds) = 0 \<longleftrightarrow> amount (af_btcPaymentAmount args) = 0) \<and>
       da_amountInMinor (ds_displayFee ds) = \<lceil>y\<rceil>) \<and>
    ds_displayCurrency ds = dpr_displayCurrency dpr"
proof -
  let ?r = "dpr_ratio dpr" and ?b = "af_btcPaymentAmount args" and ?e = "af_btcProtocolAndBankFee args"
  have xy: "x = exact_conversion ?r (amount ?b)" "y = exact_conversion ?r (amount ?e)"
    using assms(5,6) by (simp_all add: exact_conversion_def)
  note conv = exact_between [OF assms(1,2)] exact_nearest [OF assms(1,2)] exact_small [OF assms(1,2)]
    exact_ceil [OF assms(1,3)] wallet_conv.conv_eq_zero_iff [OF assms(1,2)]
  have "ds_displayAmount ds = (if dpr_displayCurrency dpr = ''USD''
      then displayAmountFromWalletAmount fe (af_usdPaymentAmount args)
      else display_convertFromWallet fe dpr ?b)"
    and "ds_displayFee ds = (if dpr_displayCurrency dpr = ''USD''
      then displayAmountFromWalletAmount fe (af_usdProtocolAndBankFee args)
      else display_convertFromWalletToCeil fe dpr ?e)"
    and "ds_displayCurrency ds = dpr_displayCurrency dpr"
    using assms(4) by (auto simp: DisplayAmountsConverter_def Let_def rbind_eq_Inr_iff UsdDisplayCurrency_def)
  then show ?thesis
    using conv convertFromWallet_amount(1) [of ?r ?b]
    by (simp add: xy displayAmountFromWalletAmount_def display_convertFromWallet_def
        display_convertFromWalletToCeil_def toDisplayAmount_def Let_def)
qed

definition example_display_ratio :: display_price_ratio where
  "example_display_ratio = \<lparr>dpr_ratio = \<lparr>ratio_other = 300, ratio_walletAmount = \<lparr>currency = Btc, amount = 100\<rparr>\<rparr>,
     dpr_displayCurrency = ''EUR''\<rparr>"

definition example_payment :: amounts_and_fees where
  "example_payment = \<lparr>af_btcPaymentAmount = \<lparr>currency = Btc, amount = 150\<rparr>,
     af_usdPaymentAmount = \<lparr>currency = Usd, amount = 6\<rparr>,
     af_btcProtocolAndBankFee = \<lparr>currency = Btc, amount = 10\<rparr>,
     af_usdProtocolAndBankFee = \<lparr>currency = Usd, amount = 1\<rparr>\<rparr>"

lemma example_price: "\<exists>p. priceAmountFromDisplayPriceRatio example_display_ratio = Inr p"
proof -
  have "otherUnitPerWalletUnit (dpr_ratio example_display_ratio) = Fin 3"
    using round_double_int [of 3]
    by (simp add: otherUnitPerWalletUnit_def example_display_ratio_def Number_big_safe safe_int_def js_div_def)
  moreover have "js_mul (Fin 3) (Fin (10 ^ 12)) = Fin (of_int 3000000000000)"
    using round_double_int [of 3000000000000] by (simp add: js_mul_def safe_int_def)
  ultimately show ?thesis
    by (simp add: priceAmountFromDisplayPriceRatio_def priceAmountFromNumber_def Let_def
        SAT_PRICE_PRECISION_OFFSET_def example_display_ratio_def js_floor_def BigInt_num_def)
qed

lemma display_amounts_of_payment_witness:
  "\<exists>ds. DisplayAmountsConverter example_fiat example_display_ratio example_payment = Inr ds \<and>
     da_amountInMinor (ds_displayAmount ds) = 450 \<and> da_amountInMinor (ds_displayFee ds) = 30"
proof -
  obtain ds where ds: "DisplayAmountsConverter example_fiat example_display_ratio example_payment = Inr ds"
    using example_price by (auto simp: DisplayAmountsConverter_def Let_def)
  moreover have "valid_ratio (dpr_ratio example_display_ratio)"
    and "0 \<le> amount (af_btcPaymentAmount example_payment)"
    and "0 \<le> amount (af_btcProtocolAndBankFee example_payment)"
    by (simp_all add: valid_ratio_def example_display_ratio_def example_payment_def)
  ultimately show ?thesis
    using display_amounts_of_payment [of example_display_ratio example_payment example_fiat ds, OF _ _ _ _ refl refl]
    by (auto simp: example_display_ratio_def example_payment_def)
qed

end
