(* ===== verification/Prices.thy ===== *)
theory Prices
  imports Fiat_Display "HOL-Library.Sublist"
begin

text \<open>
  Current prices: the price service of \<open>services/price/index.ts\<close> on top of its gRPC client, the
  cached prices of \<open>app/prices/get-current-price.ts\<close>, the mid price conversions of
  \<open>mid-price.ts\<close> and the ratio for limits of \<open>app/payments/helpers.ts\<close>. The gRPC client, the
  dealer's price server, the process cache and the clock belong to the environment; a call
  returns a result and leaves a world.
\<close>

subsection \<open>Environment\<close>

record real_time_price =
  rp_timestamp :: int
  rp_currency :: string
  rp_price :: jsnum

type_synonym display_prices = "string \<Rightarrow> real_time_price option"

text \<open>
  \<open>pe_getPrice\<close> is the promisified gRPC call: \<open>Inl\<close> the message of an exception, else the price
  field, which may be missing. \<open>pe_cacheGet\<close> is \<open>None\<close> when the cache has no value.
\<close>

record 'w price_env =
  pe_fiat :: fiat_env
  pe_ratioPrecision :: jsnum
  pe_getPrice :: "string \<Rightarrow> 'w \<Rightarrow> string + jsnum option"
  pe_now :: "'w \<Rightarrow> int"
  pe_cacheGet :: "string \<Rightarrow> 'w \<Rightarrow> display_prices option"
  pe_cacheSet :: "string \<Rightarrow> display_prices \<Rightarrow> 'w \<Rightarrow> 'w"
  pe_usdHedgeEnabled :: bool
  pe_getCentsPerSatsExchangeMidRate :: "'w \<Rightarrow> error + price_ratio"

type_synonym ('w, 'a) service = "'w \<Rightarrow> (error + 'a) \<times> 'w"

definition sbind :: "('w, 'a) service \<Rightarrow> ('a \<Rightarrow> ('w, 'b) service) \<Rightarrow> ('w, 'b) service" where
  "sbind m f w = (case m w of (Inl e, w') \<Rightarrow> (Inl e, w') | (Inr a, w') \<Rightarrow> f a w')"

subsection \<open>services/price/index.ts\<close>

definition SATS_PER_BTC :: jsnum where
  "SATS_PER_BTC = Fin (10 ^ 8)"

definition CENTS_PER_USD :: jsnum where
  "CENTS_PER_USD = Fin 100"

definition handlePriceErrors :: "string \<Rightarrow> error" where
  "handlePriceErrors errMsg =
     (if sublist ''No connection established'' errMsg then NoConnectionToPriceServiceError
      else UnknownPriceServiceError)"

text \<open>\<open>if (!price) return new PriceNotAvailableError()\<close>\<close>

definition present_price :: "string + jsnum option \<Rightarrow> error + jsnum" where
  "present_price r =
     (case r of
        Inl msg \<Rightarrow> Inl (handlePriceErrors msg)
      | Inr None \<Rightarrow> Inl PriceNotAvailableError
      | Inr (Some p) \<Rightarrow> if js_truthy p then Inr p else Inl PriceNotAvailableError)"

definition getRealTimePrice ::
  "'w price_env \<Rightarrow> string \<Rightarrow> wallet_currency \<Rightarrow> 'w \<Rightarrow> error + real_time_price" where
  "getRealTimePrice pe displayCurrency walletCurrency w =
     (if currency_str walletCurrency = displayCurrency then
        let offset = (if displayCurrency = UsdDisplayCurrency then CENTS_PER_USD else SATS_PER_BTC)
        in Inr \<lparr>rp_timestamp = pe_now pe w, rp_currency = displayCurrency,
                rp_price = js_div (Fin 1) offset\<rparr>
      else
        rbind (present_price (pe_getPrice pe displayCurrency w)) (\<lambda>price.
        rbind (if walletCurrency = Usd
               then rbind (present_price (pe_getPrice pe UsdDisplayCurrency w)) (\<lambda>usdBtcPrice.
                      Inr (js_div (js_div price usdBtcPrice) CENTS_PER_USD))
               else Inr (js_div price SATS_PER_BTC)) (\<lambda>displayCurrencyPrice.
        Inr \<lparr>rp_timestamp = pe_now pe w, rp_currency = displayCurrency, rp_price = displayCurrencyPrice\<rparr>)))"

subsection \<open>get-current-price.ts\<close>

text \<open>\<open>String.toUpperCase\<close> on ASCII letters.\<close>

definition js_upper_char :: "char \<Rightarrow> char" where
  "js_upper_char c =
     (if 97 \<le> (of_char c :: nat) \<and> (of_char c :: nat) \<le> 122 then char_of (of_char c - 32 :: nat) else c)"

definition toUpperCase :: "string \<Rightarrow> string" where
  "toUpperCase s = map js_upper_char s"

definition checkedToDisplayCurrency :: "string option \<Rightarrow> error + string" where
  "checkedToDisplayCurrency cur =
     (case cur of
        None \<Rightarrow> Inl InvalidDisplayCurrencyError
      | Some c \<Rightarrow> if c = [] \<or> length c > 4 then Inl InvalidDisplayCurrencyError
                  else Inr (toUpperCase c))"

definition priceCacheKey :: "wallet_currency \<Rightarrow> string" where
  "priceCacheKey c = (case c of Btc \<Rightarrow> ''price:current:sat'' | Usd \<Rightarrow> ''price:current:usdcent'')"

definition getCachedPrices :: "'w price_env \<Rightarrow> string \<Rightarrow> 'w \<Rightarrow> error + display_prices" where
  "getCachedPrices pe key w =
     (case pe_cacheGet pe key w of None \<Rightarrow> Inl PriceNotAvailableError | Some ps \<Rightarrow> Inr ps)"

definition getCachedPrice :: "'w price_env \<Rightarrow> string \<Rightarrow> string \<Rightarrow> 'w \<Rightarrow> error + real_time_price" where
  "getCachedPrice pe key cur w =
     (case getCachedPrices pe key w of
        Inl _ \<Rightarrow> Inl PriceNotAvailableError
      | Inr ps \<Rightarrow> (case ps cur of None \<Rightarrow> Inl PriceNotAvailableError | Some p \<Rightarrow> Inr p))"

definition getCurrentPrice ::
  "'w price_env \<Rightarrow> wallet_currency \<Rightarrow> string \<Rightarrow> ('w, real_time_price) service" where
  "getCurrentPrice pe walletCurrency displayCurrency w =
     (case checkedToDisplayCurrency (Some displayCurrency) of
        Inl e \<Rightarrow> (Inl e, w)
      | Inr checkedDisplayCurrency \<Rightarrow>
          let cacheKey = priceCacheKey walletCurrency in
          case getRealTimePrice pe checkedDisplayCurrency walletCurrency w of
            Inl _ \<Rightarrow> (getCachedPrice pe cacheKey checkedDisplayCurrency w, w)
          | Inr realtimePrice \<Rightarrow>
              let cachedPrices = (case getCachedPrices pe cacheKey w of Inl _ \<Rightarrow> Map.empty | Inr ps \<Rightarrow> ps);
                  updated = cachedPrices(displayCurrency \<mapsto> realtimePrice)
              in (Inr realtimePrice, pe_cacheSet pe cacheKey updated w))"

definition getCurrentSatPrice :: "'w price_env \<Rightarrow> string \<Rightarrow> ('w, real_time_price) service" where
  "getCurrentSatPrice pe cur = getCurrentPrice pe Btc cur"

definition getCurrentUsdCentPrice :: "'w price_env \<Rightarrow> string \<Rightarrow> ('w, real_time_price) service" where
  "getCurrentUsdCentPrice pe cur = getCurrentPrice pe Usd cur"

text \<open>\<open>price.price * 10 ** exponent\<close>\<close>

definition minorPrice :: "'w price_env \<Rightarrow> string \<Rightarrow> real_time_price \<Rightarrow> jsnum" where
  "minorPrice pe cur price = js_mul (rp_price price) (Fin (10 ^ getCurrencyMajorExponent (pe_fiat pe) cur))"

definition getCurrentPriceAsWalletPriceRatio :: "'w price_env \<Rightarrow> string \<Rightarrow> ('w, price_ratio) service" where
  "getCurrentPriceAsWalletPriceRatio pe cur =
     sbind (getCurrentSatPrice pe cur) (\<lambda>price w.
       (toWalletPriceRatio (pe_ratioPrecision pe) (minorPrice pe cur price), w))"

definition getCurrentPriceAsDisplayPriceRatio :: "'w price_env \<Rightarrow> string \<Rightarrow> ('w, display_price_ratio) service" where
  "getCurrentPriceAsDisplayPriceRatio pe cur =
     sbind (getCurrentSatPrice pe cur) (\<lambda>price w.
       (toDisplayPriceRatio (pe_fiat pe) (pe_ratioPrecision pe) (minorPrice pe cur price) cur Btc, w))"

text \<open>The wallet currency is left at its default, as in the source.\<close>

definition getCurrentUsdCentPriceAsDisplayPriceRatio ::
  "'w price_env \<Rightarrow> string \<Rightarrow> ('w, display_price_ratio) service" where
  "getCurrentUsdCentPriceAsDisplayPriceRatio pe cur =
     sbind (getCurrentUsdCentPrice pe cur) (\<lambda>price w.
       (toDisplayPriceRatio (pe_fiat pe) (pe_ratioPrecision pe) (minorPrice pe cur price) cur Btc, w))"

subsection \<open>mid-price.ts and the ratio for limits\<close>

definition getMidPriceRatio :: "'w price_env \<Rightarrow> bool \<Rightarrow> ('w, price_ratio) service" where
  "getMidPriceRatio pe usdHedgeEnabled w =
     (if usdHedgeEnabled then
        case pe_getCentsPerSatsExchangeMidRate pe w of
          Inl _ \<Rightarrow> getCurrentPriceAsWalletPriceRatio pe UsdDisplayCurrency w
        | Inr priceRatio \<Rightarrow> (Inr priceRatio, w)
      else getCurrentPriceAsWalletPriceRatio pe UsdDisplayCurrency w)"

definition usdFromBtcMidPriceFn :: "'w price_env \<Rightarrow> payment_amount \<Rightarrow> ('w, payment_amount) service" where
  "usdFromBtcMidPriceFn pe amt =
     sbind (getMidPriceRatio pe (pe_usdHedgeEnabled pe)) (\<lambda>midPriceRatio w.
       (Inr (convertFromBtc midPriceRatio amt), w))"

definition btcFromUsdMidPriceFn :: "'w price_env \<Rightarrow> payment_amount \<Rightarrow> ('w, payment_amount) service" where
  "btcFromUsdMidPriceFn pe amt =
     sbind (getMidPriceRatio pe (pe_usdHedgeEnabled pe)) (\<lambda>midPriceRatio w.
       (Inr (convertFromUsd midPriceRatio amt), w))"

definition MIN_SATS_FOR_PRICE_RATIO_PRECISION :: int where
  "MIN_SATS_FOR_PRICE_RATIO_PRECISION = 5000"

definition getPriceRatioForLimits :: "'w price_env \<Rightarrow> amount_pair \<Rightarrow> ('w, price_ratio) service" where
  "getPriceRatioForLimits pe amounts w =
     (if amount (btc amounts) < MIN_SATS_FOR_PRICE_RATIO_PRECISION then
        let btcPaymentAmountForRatio = \<lparr>currency = Btc, amount = MIN_SATS_FOR_PRICE_RATIO_PRECISION\<rparr>
        in sbind (usdFromBtcMidPriceFn pe btcPaymentAmountForRatio) (\<lambda>usdPaymentAmountForRatio w'.
             (WalletPriceRatio usdPaymentAmountForRatio btcPaymentAmountForRatio, w')) w
      else (WalletPriceRatio (usd amounts) (btc amounts), w))"

subsection \<open>Properties\<close>

text \<open>C26: the fallback price. After a price was fetched, a call for the same currency while the price
  service is down and the process cache still holds what was stored returns that price when the
  currency was given in capitals. Otherwise it returns what the cache held for the capitalised
  currency before: the new price was stored under the spelling of the caller, where the
  fallback does not look.\<close>
theorem price_fallback:
  assumes "getRealTimePrice pe (toUpperCase cur) c w = Inr p"
    and "getCurrentPrice pe c cur w = (Inr p, w')"
    and "\<forall>k ps x. pe_cacheGet pe k (pe_cacheSet pe k ps x) = Some ps"
    and "pe_cacheGet pe (priceCacheKey c) w2 = pe_cacheGet pe (priceCacheKey c) w'"
    and "getRealTimePrice pe (toUpperCase cur) c w2 = Inl e"
  shows "getCurrentPrice pe c cur w2 =
    (if toUpperCase cur = cur then Inr p else getCachedPrice pe (priceCacheKey c) (toUpperCase cur) w, w2)"
proof -
  have cur: "checkedToDisplayCurrency (Some cur) = Inr (toUpperCase cur)"
    using assms(2) by (auto simp: getCurrentPrice_def checkedToDisplayCurrency_def split: if_splits)
  let ?ps = "case getCachedPrices pe (priceCacheKey c) w of Inl _ \<Rightarrow> Map.empty | Inr ps \<Rightarrow> ps"
  have "w' = pe_cacheSet pe (priceCacheKey c) (?ps(cur \<mapsto> p)) w"
    using assms(1,2) cur by (simp add: getCurrentPrice_def Let_def)
  with assms(3,4) have "pe_cacheGet pe (priceCacheKey c) w2 = Some (?ps(cur \<mapsto> p))"
    by simp
  with cur assms(5) show ?thesis
    by (auto simp: getCurrentPrice_def Let_def getCachedPrice_def getCachedPrices_def split: option.splits)
qed

text \<open>A price service that answers while the world says it is up, and a one-entry process cache.\<close>

type_synonym price_world = "bool \<times> (string \<Rightarrow> display_prices option)"

definition example_price_env :: "price_world price_env" where
  "example_price_env =
     \<lparr>pe_fiat = example_fiat, pe_ratioPrecision = Fin (10 ^ 6),
      pe_getPrice = (\<lambda>_ w. if fst w then Inr (Some (Fin (10 ^ 8))) else Inl ''No connection established''),
      pe_now = (\<lambda>_. 0), pe_cacheGet = (\<lambda>k w. snd w k),
      pe_cacheSet = (\<lambda>k ps w. (fst w, (snd w)(k \<mapsto> ps))),
      pe_usdHedgeEnabled = False, pe_getCentsPerSatsExchangeMidRate = (\<lambda>_. Inl PriceNotAvailableError)\<rparr>"

lemma example_upper: "toUpperCase ''eur'' = ''EUR''" "toUpperCase ''EUR'' = ''EUR''"
  by (code_simp, code_simp)

lemma example_live_price:
  "\<exists>p. getRealTimePrice example_price_env ''EUR'' Btc (True, Map.empty) = Inr p"
  by (simp add: getRealTimePrice_def UsdDisplayCurrency_def example_price_env_def present_price_def js_truthy_def)

lemma example_down:
  "\<exists>e. getRealTimePrice example_price_env ''EUR'' Btc (False, c) = Inl e"
  by (simp add: getRealTimePrice_def UsdDisplayCurrency_def example_price_env_def present_price_def)

lemma price_fallback_witness:
  "\<exists>p w'. getCurrentPrice example_price_env Btc ''eur'' (True, Map.empty) = (Inr p, w') \<and>
     fst (getCurrentPrice example_price_env Btc ''eur'' (False, snd w')) = Inl PriceNotAvailableError"
proof -
  obtain p where live: "getRealTimePrice example_price_env ''EUR'' Btc (True, Map.empty) = Inr p"
    using example_live_price by blast
  then obtain w' where run: "getCurrentPrice example_price_env Btc ''eur'' (True, Map.empty) = (Inr p, w')"
    by (simp add: getCurrentPrice_def checkedToDisplayCurrency_def example_upper Let_def)
  obtain e where down: "getRealTimePrice example_price_env ''EUR'' Btc (False, snd w') = Inl e"
    using example_down by blast
  have "getCurrentPrice example_price_env Btc ''eur'' (False, snd w') =
      (getCachedPrice example_price_env (priceCacheKey Btc) ''EUR'' (True, Map.empty), (False, snd w'))"
    using price_fallback [of example_price_env "''eur''" Btc "(True, Map.empty)" p w' "(False, snd w')" e]
      live run down
    by (simp add: example_upper example_price_env_def)
  with run show ?thesis
    by (simp add: getCachedPrice_def getCachedPrices_def example_price_env_def)
qed

end
