(* ===== verification/Payment_Flow.thy ===== *)
theory Payment_Flow
  imports Fees
begin

text \<open>
  The payment flow the builders produce and the application consumes:
  \<open>domain/payments/payment-flow.ts\<close> with \<open>route-validator.ts\<close>, and the primitives of
  \<open>domain/wallets/tx-methods.ts\<close>. Identifiers and hashes are strings; a \<open>Date\<close> is its number
  of milliseconds. Tracing calls have no result and are left out.
\<close>

datatype settlement_method = SM_IntraLedger | SM_OnChain | SM_Lightning

datatype payment_initiation_method = PI_IntraLedger | PI_OnChain | PI_Lightning

record account_wallets =
  wallets_BTC :: wallet_descriptor
  wallets_USD :: wallet_descriptor

fun account_wallet :: "account_wallets \<Rightarrow> wallet_currency \<Rightarrow> wallet_descriptor" where
  "account_wallet ws Btc = wallets_BTC ws"
| "account_wallet ws Usd = wallets_USD ws"

subsection \<open>route-validator.ts\<close>

definition RouteValidator_validate :: "raw_route \<Rightarrow> payment_amount \<Rightarrow> error + unit" where
  "RouteValidator_validate rawRoute btcPaymentAmount =
     (let rawTokens = js_floor (js_div (parseInt10 (str_default (total_mtokens rawRoute) ''0'')) (Fin 1000));
          amt = Number_big (amount btcPaymentAmount)
      in if \<not> js_eq amt rawTokens then Inl BadAmountForRouteError else Inr ())"

subsection \<open>payment-flow.ts\<close>

record payment_flow_common =
  pf_btcPaymentAmount :: payment_amount
  pf_btcProtocolAndBankFee :: payment_amount
  pf_usdPaymentAmount :: payment_amount
  pf_usdProtocolAndBankFee :: payment_amount
  pf_senderWalletId :: string
  pf_senderWalletCurrency :: wallet_currency
  pf_senderAccountId :: string
  pf_settlementMethod :: settlement_method
  pf_paymentInitiationMethod :: payment_initiation_method
  pf_createdAt :: int
  pf_paymentSentAndPending :: bool
  pf_inputAmount :: int
  pf_recipientWalletId :: "string option"
  pf_recipientWalletCurrency :: "wallet_currency option"
  pf_recipientAccountId :: "string option"
  pf_recipientPubkey :: "string option"
  pf_recipientUsername :: "string option"
  pf_recipientUserId :: "string option"
  pf_outgoingNodePubkey :: "string option"
  pf_cachedRoute :: "raw_route option"

record payment_flow = payment_flow_common +
  pf_paymentHash :: "string option"
  pf_intraLedgerHash :: "string option"
  pf_descriptionFromInvoice :: string
  pf_skipProbeForDestination :: bool

record onchain_payment_flow = payment_flow_common +
  pf_address :: "string option"
  pf_btcBankFee :: payment_amount
  pf_usdBankFee :: payment_amount
  pf_btcMinerFee :: "payment_amount option"

definition protocolAndBankFeeInSenderWalletCurrency ::
  "'a payment_flow_common_scheme \<Rightarrow> payment_amount" where
  "protocolAndBankFeeInSenderWalletCurrency state =
     (if pf_senderWalletCurrency state = Btc then pf_btcProtocolAndBankFee state
      else pf_usdProtocolAndBankFee state)"

definition paymentAmounts :: "'a payment_flow_common_scheme \<Rightarrow> amount_pair" where
  "paymentAmounts state = \<lparr>btc = pf_btcPaymentAmount state, usd = pf_usdPaymentAmount state\<rparr>"

definition totalAmountsForPayment :: "'a payment_flow_common_scheme \<Rightarrow> amount_pair" where
  "totalAmountsForPayment state =
     \<lparr>btc = calc_add (pf_btcPaymentAmount state) (pf_btcProtocolAndBankFee state),
      usd = calc_add (pf_usdPaymentAmount state) (pf_usdProtocolAndBankFee state)\<rparr>"

definition routeDetails :: "'a payment_flow_common_scheme \<Rightarrow> raw_route option \<times> string option" where
  "routeDetails state =
     (let uncheckedRawRoute = pf_cachedRoute state;
          rawRoute =
            (case uncheckedRawRoute of
               None \<Rightarrow> None
             | Some r \<Rightarrow>
                 (case RouteValidator_validate r (pf_btcPaymentAmount state) of
                    Inl _ \<Rightarrow> None | Inr _ \<Rightarrow> Some r))
      in (rawRoute, if rawRoute \<noteq> None then pf_outgoingNodePubkey state else None))"

text \<open>\<open>a && b && c ? {...} : undefined\<close> on the three recipient fields.\<close>

definition recipientWalletDescriptor ::
  "'a payment_flow_common_scheme \<Rightarrow> wallet_descriptor option" where
  "recipientWalletDescriptor state =
     (case (pf_recipientWalletId state, pf_recipientWalletCurrency state, pf_recipientAccountId state) of
        (Some i, Some c, Some a) \<Rightarrow>
          if i \<noteq> [] \<and> a \<noteq> []
          then Some \<lparr>wallet_id = i, wallet_currency = c, wallet_accountId = a\<rparr> else None
      | _ \<Rightarrow> None)"

record recipient_details =
  rd_walletDescriptor :: "wallet_descriptor option"
  rd_recipientPubkey :: "string option"
  rd_recipientUsername :: "string option"
  rd_recipientUserId :: "string option"

definition recipientDetails :: "'a payment_flow_common_scheme \<Rightarrow> recipient_details" where
  "recipientDetails state =
     \<lparr>rd_walletDescriptor = recipientWalletDescriptor state,
      rd_recipientPubkey = pf_recipientPubkey state,
      rd_recipientUsername = pf_recipientUsername state,
      rd_recipientUserId = pf_recipientUserId state\<rparr>"

definition senderWalletDescriptor :: "'a payment_flow_common_scheme \<Rightarrow> wallet_descriptor" where
  "senderWalletDescriptor state =
     \<lparr>wallet_id = pf_senderWalletId state, wallet_currency = pf_senderWalletCurrency state,
      wallet_accountId = pf_senderAccountId state\<rparr>"

definition checkBalanceForSend ::
  "'a payment_flow_common_scheme \<Rightarrow> payment_amount \<Rightarrow> error + unit" where
  "checkBalanceForSend state balanceAmount =
     (if pf_senderWalletCurrency state \<noteq> currency balanceAmount then Inl InvalidCurrencyForWalletError
      else
        let (amt, fee) =
              (if currency balanceAmount = Btc
               then (pf_btcPaymentAmount state, pf_btcProtocolAndBankFee state)
               else (pf_usdPaymentAmount state, pf_usdProtocolAndBankFee state));
            totalSendAmount = calc_add amt fee
        in if amount balanceAmount < amount totalSendAmount then Inl InsufficientBalanceError
           else Inr ())"

definition paymentHashForFlow :: "payment_flow \<Rightarrow> error + string" where
  "paymentHashForFlow state =
     (if str_truthy (pf_paymentHash state) = str_truthy (pf_intraLedgerHash state)
      then Inl (InvalidLightningPaymentFlowBuilderStateError [])
      else case pf_paymentHash state of
             None \<Rightarrow> Inl IntraLedgerHashPresentInLnFlowError
           | Some h \<Rightarrow> if h = [] then Inl IntraLedgerHashPresentInLnFlowError else Inr h)"

definition intraLedgerHashForFlow :: "payment_flow \<Rightarrow> error + string" where
  "intraLedgerHashForFlow state =
     (if str_truthy (pf_paymentHash state) = str_truthy (pf_intraLedgerHash state)
      then Inl (InvalidLightningPaymentFlowBuilderStateError [])
      else case pf_intraLedgerHash state of
             None \<Rightarrow> Inl LnHashPresentInIntraLedgerFlowError
           | Some h \<Rightarrow> if h = [] then Inl LnHashPresentInIntraLedgerFlowError else Inr h)"

definition addressForFlow :: "onchain_payment_flow \<Rightarrow> error + string" where
  "addressForFlow state =
     (case pf_address state of
        None \<Rightarrow> Inl (InvalidOnChainPaymentFlowBuilderStateError [])
      | Some a \<Rightarrow> Inr a)"

definition bankFees :: "onchain_payment_flow \<Rightarrow> amount_pair" where
  "bankFees state = \<lparr>btc = pf_btcBankFee state, usd = pf_usdBankFee state\<rparr>"

subsection \<open>Properties\<close>

text \<open>
  The balance check of a payment flow succeeds exactly when the balance is in the
  currency of the sender's wallet and covers amount plus fee in that currency; a balance in
  the other currency and an insufficient balance have their own errors.
\<close>

lemma checkBalanceForSend_iff:
  "(checkBalanceForSend state bal = Inr () \<longleftrightarrow>
     currency bal = pf_senderWalletCurrency state \<and>
     amount (case pf_senderWalletCurrency state of
         Btc \<Rightarrow> btc (totalAmountsForPayment state)
       | Usd \<Rightarrow> usd (totalAmountsForPayment state)) \<le> amount bal) \<and>
   (checkBalanceForSend state bal = Inl InvalidCurrencyForWalletError \<longleftrightarrow>
     currency bal \<noteq> pf_senderWalletCurrency state)"
  by (cases "currency bal"; cases "pf_senderWalletCurrency state")
    (auto simp: checkBalanceForSend_def totalAmountsForPayment_def Let_def)

text \<open>A flow yields at most one of its two hashes. The lightning payment hash is returned
  exactly when it is present and the intraledger hash is not, and conversely; with both or
  neither present both calls report an error.\<close>
lemma hashForFlow_exclusive:
  "(paymentHashForFlow f = Inr h \<longleftrightarrow>
     pf_paymentHash f = Some h \<and> h \<noteq> [] \<and> \<not> str_truthy (pf_intraLedgerHash f)) \<and>
   (intraLedgerHashForFlow f = Inr h \<longleftrightarrow>
     pf_intraLedgerHash f = Some h \<and> h \<noteq> [] \<and> \<not> str_truthy (pf_paymentHash f)) \<and>
   (isError (paymentHashForFlow f) \<or> isError (intraLedgerHashForFlow f)) \<and>
   (isError (paymentHashForFlow f) \<and> isError (intraLedgerHashForFlow f) \<longleftrightarrow>
     (str_truthy (pf_paymentHash f) \<longleftrightarrow> str_truthy (pf_intraLedgerHash f)))"
  by (auto simp: paymentHashForFlow_def intraLedgerHashForFlow_def str_truthy_def
      split: option.splits if_splits)

end
