(* ===== verification/Lightning_Flow.thy ===== *)
theory Lightning_Flow
  imports Payment_Flow
begin

text \<open>
  The lightning payment flow builder: \<open>domain/payments/payment-flow-builder.ts\<close>, with the
  invoice readers of \<open>domain/bitcoin/lightning/index.ts\<close>. Each stage of the builder is a
  record of the state it closes over and each method a function from one stage to the next.
  \<open>LPFBWithError\<close> is the error value: all its methods hand the error on, which is what
  sequencing with \<open>rbind\<close> does.
\<close>

subsection \<open>Invoices\<close>

record ln_hop =
  nodePubkey :: string
  hop_channel :: "string option"

record ln_invoice =
  inv_destination :: string
  inv_paymentHash :: string
  inv_paymentAmount :: "payment_amount option"
  inv_description :: string
  inv_routeHints :: "ln_hop list list"

text \<open>\<open>Array.from(new Set(xs))\<close> keeps the first occurrence of each element.\<close>

fun js_unique :: "'a list \<Rightarrow> 'a list" where
  "js_unique [] = []"
| "js_unique (x # xs) = x # js_unique (filter (\<lambda>y. y \<noteq> x) xs)"

text \<open>Reading a field of the last hop of an empty route throws.\<close>

definition final_hop :: "ln_hop list \<Rightarrow> error + ln_hop" where
  "final_hop route =
     (if route = [] then Inl (ThrownError ''TypeError'')
      else let lastIdx = length route - 1;
               penUltIndex = (if length route > 1 then lastIdx - 1 else lastIdx)
           in Inr (route ! penUltIndex))"

fun parse_hops :: "ln_hop list list \<Rightarrow> error + string list" where
  "parse_hops [] = Inr []"
| "parse_hops (route # routes) =
     rbind (final_hop route) (\<lambda>h. rbind (parse_hops routes) (\<lambda>ps. Inr (nodePubkey h # ps)))"

definition parseFinalHopsFromInvoice :: "ln_invoice \<Rightarrow> error + string list" where
  "parseFinalHopsFromInvoice invoice =
     rbind (parse_hops (inv_routeHints invoice)) (\<lambda>pubkeys. Inr (js_unique pubkeys))"

fun parse_chans :: "ln_hop list list \<Rightarrow> error + string list" where
  "parse_chans [] = Inr []"
| "parse_chans (route # routes) =
     (if route = [] then Inl (ThrownError ''TypeError'')
      else rbind (parse_chans routes) (\<lambda>cs.
             Inr (case hop_channel (last route) of None \<Rightarrow> cs | Some c \<Rightarrow> c # cs)))"

definition parseFinalChanIdFromInvoice :: "ln_invoice \<Rightarrow> error + string list" where
  "parseFinalChanIdFromInvoice invoice =
     rbind (parse_chans (inv_routeHints invoice)) (\<lambda>chanIds. Inr (js_unique chanIds))"

subsection \<open>Builder states\<close>

record lpfb_config =
  localNodeIds :: "string list"
  skipProbe_pubkey :: "string list"
  skipProbe_chanId :: "string list"

record lpfb_invoice_state = lpfb_config +
  lp_paymentHash :: "string option"
  lp_intraLedgerHash :: "string option"
  lp_settlementMethod :: settlement_method
  lp_paymentInitiationMethod :: payment_initiation_method
  lp_descriptionFromInvoice :: string
  lp_btcPaymentAmount :: "payment_amount option"
  lp_inputAmount :: "int option"
  lp_uncheckedAmount :: "jsnum option"
  lp_btcProtocolAndBankFee :: "payment_amount option"
  lp_usdProtocolAndBankFee :: "payment_amount option"
  lp_skipProbeForDestination :: bool

record lpfb_sender_state = lpfb_invoice_state +
  lp_senderWalletId :: string
  lp_senderWalletCurrency :: wallet_currency
  lp_senderAccountId :: string
  lp_usdPaymentAmount :: "payment_amount option"

record lpfb_recipient_state = lpfb_sender_state +
  lp_recipientWalletId :: "string option"
  lp_recipientWalletCurrency :: "wallet_currency option"
  lp_recipientPubkey :: "string option"
  lp_recipientUsername :: "string option"
  lp_recipientUserId :: "string option"
  lp_recipientAccountId :: "string option"
  lp_recipientWalletDescriptors :: "account_wallets option"

text \<open>
  From the conversion on, the four amounts are required fields: they are kept beside the
  state they override.
\<close>

record lpfb_conversion_state =
  lc_state :: lpfb_recipient_state
  lc_createdAt :: int
  lc_btcPaymentAmount :: payment_amount
  lc_usdPaymentAmount :: payment_amount
  lc_btcProtocolAndBankFee :: payment_amount
  lc_usdProtocolAndBankFee :: payment_amount

definition LPFBWithError :: "error \<Rightarrow> error + 's" where
  "LPFBWithError e = Inl e"

subsection \<open>LightningPaymentFlowBuilder\<close>

definition settlementMethodFromDestination ::
  "lpfb_config \<Rightarrow> string option \<Rightarrow>
   settlement_method \<times> payment_amount option \<times> payment_amount option" where
  "settlementMethodFromDestination config destination =
     (let settlementMethod =
            (case destination of
               None \<Rightarrow> SM_IntraLedger
             | Some d \<Rightarrow> if d \<in> set (localNodeIds config) then SM_IntraLedger else SM_Lightning)
      in (settlementMethod,
          if settlementMethod = SM_IntraLedger then Some (btc intraLedgerFees) else None,
          if settlementMethod = SM_IntraLedger then Some (usd intraLedgerFees) else None))"

definition skipProbeFromInvoice :: "lpfb_config \<Rightarrow> ln_invoice \<Rightarrow> error + bool" where
  "skipProbeFromInvoice config invoice =
     rbind (parseFinalHopsFromInvoice invoice) (\<lambda>pubkeys.
       let pubkeyIsFlagged = (set pubkeys \<inter> set (skipProbe_pubkey config) \<noteq> {}) in
       rbind (parseFinalChanIdFromInvoice invoice) (\<lambda>chanIds.
         let chanIdIsFlagged = (set chanIds \<inter> set (skipProbe_chanId config) \<noteq> {})
         in Inr (pubkeyIsFlagged \<or> chanIdIsFlagged)))"

definition withInvoice :: "lpfb_config \<Rightarrow> ln_invoice \<Rightarrow> error + lpfb_invoice_state" where
  "withInvoice config invoice =
     (case inv_paymentAmount invoice of
        None \<Rightarrow> LPFBWithError
          (InvalidLightningPaymentFlowBuilderStateError ''withInvoice - paymentAmount missing'')
      | Some paymentAmount \<Rightarrow>
          let (method, btcFee, usdFee) =
                settlementMethodFromDestination config (Some (inv_destination invoice))
          in rbind (skipProbeFromInvoice config invoice) (\<lambda>skip.
               Inr (lpfb_config.extend config (lpfb_invoice_state.fields
                 (Some (inv_paymentHash invoice)) None method PI_Lightning
                 (inv_description invoice) (Some paymentAmount) (Some (amount paymentAmount)) None
                 btcFee usdFee skip))))"

definition withNoAmountInvoice ::
  "lpfb_config \<Rightarrow> ln_invoice \<Rightarrow> jsnum \<Rightarrow> error + lpfb_invoice_state" where
  "withNoAmountInvoice config invoice uncheckedAmount =
     (let (method, btcFee, usdFee) =
            settlementMethodFromDestination config (Some (inv_destination invoice))
      in rbind (skipProbeFromInvoice config invoice) (\<lambda>skip.
           Inr (lpfb_config.extend config (lpfb_invoice_state.fields
             (Some (inv_paymentHash invoice)) None method PI_Lightning
             (inv_description invoice) None None (Some uncheckedAmount) btcFee usdFee skip))))"

text \<open>\<open>generateIntraLedgerHash\<close> hashes random bytes: the hash is an argument.\<close>

definition withoutInvoice ::
  "lpfb_config \<Rightarrow> string \<Rightarrow> jsnum \<Rightarrow> string \<Rightarrow> error + lpfb_invoice_state" where
  "withoutInvoice config generatedHash uncheckedAmount description =
     (let (method, btcFee, usdFee) = settlementMethodFromDestination config None
      in Inr (lpfb_config.extend config (lpfb_invoice_state.fields
           None (Some generatedHash) method PI_IntraLedger
           description None None (Some uncheckedAmount) btcFee usdFee False)))"

subsection \<open>LPFBWithInvoice and LPFBWithSenderWallet\<close>

text \<open>
  The guard on the checked amount is \<open>instanceof ValidationError\<close>, narrower than
  \<open>instanceof Error\<close>; an error that is not a validation error would be taken for an amount
  and its missing \<open>amount\<close> field read as undefined. The last branch stands for that case.
\<close>

definition checked_guard ::
  "error + payment_amount \<Rightarrow> (payment_amount \<Rightarrow> error + 's) \<Rightarrow> error + 's" where
  "checked_guard x f =
     (case x of
        Inr a \<Rightarrow> f a
      | Inl e \<Rightarrow> if isValidationError e then LPFBWithError e else Inl (ThrownError ''not an amount''))"

definition withSenderWallet ::
  "lpfb_invoice_state \<Rightarrow> wallet_descriptor \<Rightarrow> error + lpfb_sender_state" where
  "withSenderWallet state senderWallet =
     (let cur = wallet_currency senderWallet;
          sender = (\<lambda>st usdAmt. lpfb_invoice_state.extend st
            (lpfb_sender_state.fields (wallet_id senderWallet) cur (wallet_accountId senderWallet) usdAmt))
      in case lp_uncheckedAmount state of
           Some unchecked \<Rightarrow>
             if cur = Btc then
               checked_guard (checkedToBtcPaymentAmount (Some unchecked)) (\<lambda>paymentAmount.
                 Inr (sender (state\<lparr>
                     lp_btcPaymentAmount := Some paymentAmount,
                     lp_inputAmount := Some (amount paymentAmount),
                     lp_btcProtocolAndBankFee := Some (obj_or (lp_btcProtocolAndBankFee state)
                       (maxProtocolAndBankFee paymentAmount))\<rparr>) None))
             else
               checked_guard (checkedToUsdPaymentAmount (Some unchecked)) (\<lambda>paymentAmount.
                 Inr (sender (state\<lparr>
                     lp_inputAmount := Some (amount paymentAmount),
                     lp_usdProtocolAndBankFee := Some (obj_or (lp_usdProtocolAndBankFee state)
                       (maxProtocolAndBankFee paymentAmount))\<rparr>) (Some paymentAmount)))
         | None \<Rightarrow>
             (case (lp_inputAmount state, lp_btcPaymentAmount state) of
                (Some inputAmount, Some btcPaymentAmount) \<Rightarrow>
                  if inputAmount \<noteq> 0 then
                    Inr (sender (state\<lparr>
                        lp_btcProtocolAndBankFee := Some (obj_or (lp_btcProtocolAndBankFee state)
                          (maxProtocolAndBankFee btcPaymentAmount))\<rparr>) None)
                  else Inl (ThrownError ''withSenderWallet impossible'')
              | _ \<Rightarrow> Inl (ThrownError ''withSenderWallet impossible'')))"

definition withoutRecipientWallet :: "lpfb_sender_state \<Rightarrow> error + lpfb_recipient_state" where
  "withoutRecipientWallet state =
     (if lp_settlementMethod state = SM_IntraLedger then
        LPFBWithError (InvalidLightningPaymentFlowBuilderStateError
          ''withoutRecipientWallet called but settlementMethod is IntraLedger'')
      else Inr (lpfb_sender_state.extend state
             (lpfb_recipient_state.fields None None None None None None None)))"

record lpfb_recipient_args =
  ra_defaultWalletCurrency :: wallet_currency
  ra_recipientWalletDescriptors :: account_wallets
  ra_userId :: string
  ra_pubkey :: "string option"
  ra_usdPaymentAmount :: "payment_amount option"
  ra_username :: "string option"

definition withRecipientWallet ::
  "lpfb_sender_state \<Rightarrow> lpfb_recipient_args \<Rightarrow> error + lpfb_recipient_state" where
  "withRecipientWallet state args =
     (let cur = ra_defaultWalletCurrency args;
          wallet = account_wallet (ra_recipientWalletDescriptors args) cur
      in if wallet_id wallet = lp_senderWalletId state then LPFBWithError SelfPaymentError
         else if cur = Usd \<and>
           ((ra_usdPaymentAmount args \<noteq> None) =
            (case lp_uncheckedAmount state of None \<Rightarrow> False | Some n \<Rightarrow> js_truthy n))
         then LPFBWithError (InvalidLightningPaymentFlowBuilderStateError
           ''withRecipientWallet incorrect combination of usdPaymentAmount and uncheckedAmount'')
         else Inr (lpfb_sender_state.extend
           (state\<lparr>lp_usdPaymentAmount :=
              (case ra_usdPaymentAmount args of
                 Some u \<Rightarrow> Some u | None \<Rightarrow> lp_usdPaymentAmount state)\<rparr>)
           (lpfb_recipient_state.fields (Some (wallet_id wallet)) (Some cur) (ra_pubkey args)
              (ra_username args) (Some (ra_userId args)) (Some (wallet_accountId wallet))
              (Some (ra_recipientWalletDescriptors args)))))"

definition LPFB_isIntraLedger :: "lpfb_sender_state \<Rightarrow> bool" where
  "LPFB_isIntraLedger state \<longleftrightarrow> lp_settlementMethod state = SM_IntraLedger"

subsection \<open>LPFBWithRecipientWallet\<close>

text \<open>The prices come from the dealer and the mid-price service: functions that may fail.\<close>

record conversion_fns =
  usdFromBtc :: "payment_amount \<Rightarrow> error + payment_amount"
  btcFromUsd :: "payment_amount \<Rightarrow> error + payment_amount"

record with_conversion_args =
  hedgeBuyUsd :: conversion_fns
  hedgeSellUsd :: conversion_fns
  mid :: conversion_fns

definition currentStateFromAllAmountsPresent ::
  "lpfb_recipient_state \<Rightarrow> int \<Rightarrow> payment_amount \<times> payment_amount \<Rightarrow>
   payment_amount \<times> payment_amount \<Rightarrow> error + lpfb_conversion_state" where
  "currentStateFromAllAmountsPresent state now btcAmounts usdAmounts =
     Inr \<lparr>lc_state = state, lc_createdAt = now, lc_btcPaymentAmount = fst btcAmounts,
          lc_usdPaymentAmount = fst usdAmounts, lc_btcProtocolAndBankFee = snd btcAmounts,
          lc_usdProtocolAndBankFee = snd usdAmounts\<rparr>"

definition updatedStateFromBtcPaymentAmountMid ::
  "with_conversion_args \<Rightarrow> lpfb_recipient_state \<Rightarrow> int \<Rightarrow> payment_amount \<times> payment_amount \<Rightarrow>
   wallet_descriptor option \<Rightarrow> error + lpfb_conversion_state" where
  "updatedStateFromBtcPaymentAmountMid args state now btcAmounts recipientWallet =
     rbind (usdFromBtc (mid args) (fst btcAmounts)) (\<lambda>convertedAmount.
     rbind (WalletPriceRatio convertedAmount (fst btcAmounts)) (\<lambda>priceRatio.
       Inr \<lparr>lc_state = (case recipientWallet of
                None \<Rightarrow> state
              | Some w \<Rightarrow> state\<lparr>lp_recipientWalletId := Some (wallet_id w),
                              lp_recipientWalletCurrency := Some (wallet_currency w)\<rparr>),
            lc_createdAt = now, lc_btcPaymentAmount = fst btcAmounts,
            lc_usdPaymentAmount = convertedAmount, lc_btcProtocolAndBankFee = snd btcAmounts,
            lc_usdProtocolAndBankFee = convertFromBtcToCeil priceRatio (snd btcAmounts)\<rparr>))"

definition updatedStateFromBtcPaymentAmountDealer ::
  "with_conversion_args \<Rightarrow> lpfb_recipient_state \<Rightarrow> int \<Rightarrow> payment_amount \<times> payment_amount \<Rightarrow>
   error + lpfb_conversion_state" where
  "updatedStateFromBtcPaymentAmountDealer args state now btcAmounts =
     (let convert = (if lp_senderWalletCurrency state = Btc then usdFromBtc (hedgeBuyUsd args)
                     else usdFromBtc (hedgeSellUsd args))
      in rbind (convert (fst btcAmounts)) (\<lambda>convertedAmount.
         rbind (WalletPriceRatio convertedAmount (fst btcAmounts)) (\<lambda>priceRatio.
           Inr \<lparr>lc_state = state, lc_createdAt = now, lc_btcPaymentAmount = fst btcAmounts,
                lc_usdPaymentAmount = convertedAmount, lc_btcProtocolAndBankFee = snd btcAmounts,
                lc_usdProtocolAndBankFee = convertFromBtcToCeil priceRatio (snd btcAmounts)\<rparr>)))"

definition updatedStateFromUsdPaymentAmountMid ::
  "with_conversion_args \<Rightarrow> lpfb_recipient_state \<Rightarrow> int \<Rightarrow> payment_amount \<times> payment_amount \<Rightarrow>
   error + lpfb_conversion_state" where
  "updatedStateFromUsdPaymentAmountMid args state now usdAmounts =
     rbind (btcFromUsd (mid args) (fst usdAmounts)) (\<lambda>convertedAmount.
     rbind (WalletPriceRatio (fst usdAmounts) convertedAmount) (\<lambda>priceRatio.
       Inr \<lparr>lc_state = state, lc_createdAt = now, lc_btcPaymentAmount = convertedAmount,
            lc_usdPaymentAmount = fst usdAmounts,
            lc_btcProtocolAndBankFee = convertFromUsd priceRatio (snd usdAmounts),
            lc_usdProtocolAndBankFee = snd usdAmounts\<rparr>))"

definition updatedStateFromUsdPaymentAmountDealer ::
  "with_conversion_args \<Rightarrow> lpfb_recipient_state \<Rightarrow> int \<Rightarrow> payment_amount \<times> payment_amount \<Rightarrow>
   error + lpfb_conversion_state" where
  "updatedStateFromUsdPaymentAmountDealer args state now usdAmounts =
     (let convert = (if lp_senderWalletCurrency state = Btc then btcFromUsd (hedgeBuyUsd args)
                     else btcFromUsd (hedgeSellUsd args))
      in rbind (convert (fst usdAmounts)) (\<lambda>convertedAmount.
         rbind (WalletPriceRatio (fst usdAmounts) convertedAmount) (\<lambda>priceRatio.
           Inr \<lparr>lc_state = state, lc_createdAt = now, lc_btcPaymentAmount = convertedAmount,
                lc_usdPaymentAmount = fst usdAmounts,
                lc_btcProtocolAndBankFee = convertFromUsd priceRatio (snd usdAmounts),
                lc_usdProtocolAndBankFee = snd usdAmounts\<rparr>)))"

definition updatedStateFromBtcPaymentAmountDealerFallbackMid ::
  "with_conversion_args \<Rightarrow> lpfb_recipient_state \<Rightarrow> int \<Rightarrow> payment_amount \<times> payment_amount \<Rightarrow>
   error + lpfb_conversion_state" where
  "updatedStateFromBtcPaymentAmountDealerFallbackMid args state now btcAmounts =
     (let updatedState = updatedStateFromBtcPaymentAmountDealer args state now btcAmounts in
      if (case updatedState of Inl e \<Rightarrow> e \<noteq> InvalidZeroAmountPriceRatioInputError | Inr _ \<Rightarrow> True)
      then updatedState
      else case lp_recipientWalletDescriptors state of
             None \<Rightarrow> Inl (InvalidLightningPaymentFlowBuilderStateError
                       ''expected recipient BTC wallet missing'')
           | Some ws \<Rightarrow>
               if wallet_id (wallets_BTC ws) = lp_senderWalletId state
               then Inl SubOneCentSatAmountForUsdSelfSendError
               else updatedStateFromBtcPaymentAmountMid args state now btcAmounts
                      (Some (wallets_BTC ws)))"

text \<open>\<open>!!(amount && fee)\<close>: both objects present.\<close>

definition both_present :: "'a option \<Rightarrow> 'b option \<Rightarrow> ('a \<times> 'b) option" where
  "both_present x y = (case (x, y) of (Some a, Some b) \<Rightarrow> Some (a, b) | _ \<Rightarrow> None)"

definition noConversionRequired :: "lpfb_recipient_state \<Rightarrow> bool" where
  "noConversionRequired state \<longleftrightarrow>
     (lp_senderWalletCurrency state = Btc \<and> lp_settlementMethod state = SM_Lightning) \<or>
     lp_recipientWalletCurrency state = Some (lp_senderWalletCurrency state)"

definition withConversion ::
  "with_conversion_args \<Rightarrow> int \<Rightarrow> lpfb_recipient_state \<Rightarrow> error + lpfb_conversion_state" where
  "withConversion args now state =
     (let btcAmounts = both_present (lp_btcPaymentAmount state) (lp_btcProtocolAndBankFee state);
          usdAmounts = both_present (lp_usdPaymentAmount state) (lp_usdProtocolAndBankFee state);
          isUsdRecipient = (lp_recipientWalletCurrency state = Some Usd)
      in if noConversionRequired state then
           (case (btcAmounts, usdAmounts) of
              (Some b, Some u) \<Rightarrow> currentStateFromAllAmountsPresent state now b u
            | (Some b, None) \<Rightarrow> updatedStateFromBtcPaymentAmountMid args state now b None
            | (None, Some u) \<Rightarrow> updatedStateFromUsdPaymentAmountMid args state now u
            | (None, None) \<Rightarrow> LPFBWithError (InvalidLightningPaymentFlowBuilderStateError
                ''withConversion - btcPaymentAmount || btcProtocolAndBankFee not set''))
         else
           (case (btcAmounts, usdAmounts) of
              (Some b, Some u) \<Rightarrow>
                if isUsdRecipient then currentStateFromAllAmountsPresent state now b u
                else updatedStateFromBtcPaymentAmountDealerFallbackMid args state now b
            | (Some b, None) \<Rightarrow> updatedStateFromBtcPaymentAmountDealerFallbackMid args state now b
            | (None, Some u) \<Rightarrow> updatedStateFromUsdPaymentAmountDealer args state now u
            | (None, None) \<Rightarrow> LPFBWithError (InvalidLightningPaymentFlowBuilderStateError
                ''withConversion - impossible withConversion state'')))"

subsection \<open>LPFBWithConversion\<close>

definition paymentFromState ::
  "lpfb_conversion_state \<Rightarrow> string option \<Rightarrow> raw_route option \<Rightarrow> error + payment_flow" where
  "paymentFromState cs outgoingNode checkedRoute =
     (let state = lc_state cs;
          flow = (\<lambda>hash intraHash.
            Inr \<lparr>pf_btcPaymentAmount = lc_btcPaymentAmount cs,
                 pf_btcProtocolAndBankFee = lc_btcProtocolAndBankFee cs,
                 pf_usdPaymentAmount = lc_usdPaymentAmount cs,
                 pf_usdProtocolAndBankFee = lc_usdProtocolAndBankFee cs,
                 pf_senderWalletId = lp_senderWalletId state,
                 pf_senderWalletCurrency = lp_senderWalletCurrency state,
                 pf_senderAccountId = lp_senderAccountId state,
                 pf_settlementMethod = lp_settlementMethod state,
                 pf_paymentInitiationMethod = lp_paymentInitiationMethod state,
                 pf_createdAt = lc_createdAt cs,
                 pf_paymentSentAndPending = False,
                 pf_inputAmount = (case lp_inputAmount state of Some n \<Rightarrow> n | None \<Rightarrow> 0),
                 pf_recipientWalletId = lp_recipientWalletId state,
                 pf_recipientWalletCurrency = lp_recipientWalletCurrency state,
                 pf_recipientAccountId = lp_recipientAccountId state,
                 pf_recipientPubkey = lp_recipientPubkey state,
                 pf_recipientUsername = lp_recipientUsername state,
                 pf_recipientUserId = lp_recipientUserId state,
                 pf_outgoingNodePubkey = outgoingNode,
                 pf_cachedRoute = checkedRoute,
                 pf_paymentHash = hash,
                 pf_intraLedgerHash = intraHash,
                 pf_descriptionFromInvoice = lp_descriptionFromInvoice state,
                 pf_skipProbeForDestination = lp_skipProbeForDestination state\<rparr>)
      in if str_truthy (lp_paymentHash state) then flow (lp_paymentHash state) None
         else if str_truthy (lp_intraLedgerHash state) then flow None (lp_intraLedgerHash state)
         else Inl InvalidLightningPaymentFlowStateError)"

definition withoutRoute :: "lpfb_conversion_state \<Rightarrow> error + payment_flow" where
  "withoutRoute state = paymentFromState state None None"

definition withRoute :: "lpfb_conversion_state \<Rightarrow> string \<Rightarrow> raw_route \<Rightarrow> error + payment_flow" where
  "withRoute state pubkey rawRoute =
     rbind (WalletPriceRatio (lc_usdPaymentAmount state) (lc_btcPaymentAmount state)) (\<lambda>priceRatio.
     rbind (feeFromRawRoute rawRoute) (\<lambda>btcFee.
       paymentFromState
         (state\<lparr>lc_btcProtocolAndBankFee := btcFee,
                lc_usdProtocolAndBankFee := convertFromBtcToCeil priceRatio btcFee\<rparr>)
         (Some pubkey) (Some rawRoute)))"

definition LPFB_isTradeIntraAccount :: "lpfb_conversion_state \<Rightarrow> bool" where
  "LPFB_isTradeIntraAccount cs \<longleftrightarrow>
     lp_recipientAccountId (lc_state cs) = Some (lp_senderAccountId (lc_state cs)) \<and>
     lp_recipientWalletCurrency (lc_state cs) \<noteq> Some (lp_senderWalletCurrency (lc_state cs))"

end
