(* ===== verification/App_Services.thy ===== *)
theory App_Services
  imports Ledger_Hoare Prices Lightning_Flow
begin

text \<open>
  The services the use cases of \<open>app\<close> call besides the ledger: the lightning node, the on-chain
  node, the repositories and the prices. They act on the same world as the ledger but do not
  write journals (\<open>app_laws\<close>). A service that reports failure returns an error value; an
  exception of the code itself is \<open>None\<close>.
\<close>

subsection \<open>Services\<close>

record pay_result =
  py_roundedUpFee :: jsnum
  py_revealedPreImage :: "string option"

record sent_invoice = ln_invoice +
  inv_paymentRequest :: string
  inv_amount :: "jsnum option"

record account =
  ac_id :: string
  ac_displayCurrency :: string
  ac_username :: "string option"
  ac_kratosUserId :: string
  ac_isActive :: bool

record wallet_invoice =
  wi_paymentHash :: string
  wi_secret :: string
  wi_selfGenerated :: bool
  wi_pubkey :: string
  wi_usdAmount :: "payment_amount option"
  wi_recipientWalletDescriptor :: wallet_descriptor
  wi_paid :: bool
  wi_createdAt :: int
  wi_processingCompleted :: bool
  wi_externalId :: string
  wi_lnInvoice_expiresAt :: int

datatype payment_status = PS_Pending | PS_Settled | PS_Failed

record ln_payment_lookup =
  pl_status :: payment_status
  pl_roundedUpAmount :: jsnum
  pl_confirmedDetails :: "(jsnum \<times> string option) option"

record ln_invoice_lookup =
  il_isSettled :: bool
  il_isHeld :: bool
  il_isCanceled :: bool
  il_roundedDownReceived :: jsnum
  il_description :: string

text \<open>
  What a lock is taken on. The source builds a string of each resource, with a prefix per kind
  (\<open>services/lock/index.ts\<close>).
\<close>

datatype lock_resource =
    getWalletLockResource string
  | getPaymentHashLockResource string
  | getOnChainTxHashAndVoutLockResource string jsnum

record ('e, 'w) app_env =
  ap_ledger :: "('e, 'w) ledger_env"
  ap_prices :: "'w price_env"
  ap_LndService :: "error + string"
  ap_payInvoiceViaRoutes :: "string \<Rightarrow> raw_route \<Rightarrow> string option \<Rightarrow> ('w, pay_result) service"
  ap_payInvoiceViaPaymentDetails ::
    "sent_invoice \<Rightarrow> payment_amount \<Rightarrow> payment_amount \<Rightarrow> ('w, pay_result) service"
  ap_cancelInvoice :: "string \<Rightarrow> string \<Rightarrow> ('w, unit) service"
  ap_settleInvoice :: "string \<Rightarrow> string \<Rightarrow> ('w, unit) service"
  ap_estimateFeeForPayout :: "payment_amount \<Rightarrow> string \<Rightarrow> string \<Rightarrow> ('w, payment_amount) service"
  ap_queuePayoutToAddress ::
    "wallet_descriptor \<Rightarrow> string option \<Rightarrow> payment_amount \<Rightarrow> string \<Rightarrow> string \<Rightarrow> ('w, string) service"
  ap_lnPayments_persistNew :: "string \<Rightarrow> string \<Rightarrow> string \<Rightarrow> ('w, unit) service"
  ap_updateMetadataByHash :: "string \<Rightarrow> string option \<Rightarrow> ('w, unit) service"
  ap_updateLightningPaymentFlow :: "payment_flow \<Rightarrow> ('w, unit) service"
  ap_markFlowNotPending :: "string \<Rightarrow> string \<Rightarrow> int \<Rightarrow> ('w, payment_flow) service"
  ap_invoices_findByPaymentHash :: "string \<Rightarrow> 'w \<Rightarrow> error + wallet_invoice"
  ap_invoices_markAsPaid :: "string \<Rightarrow> ('w, wallet_invoice) service"
  ap_wallets_findById :: "string \<Rightarrow> 'w \<Rightarrow> error + wallet_descriptor"
  ap_wallets_listByAccountId :: "string \<Rightarrow> 'w \<Rightarrow> error + wallet_descriptor list"
  ap_findAccountWallets :: "string \<Rightarrow> 'w \<Rightarrow> error + account_wallets"
  ap_accounts_findById :: "string \<Rightarrow> 'w \<Rightarrow> error + account"
  ap_users_findById :: "string \<Rightarrow> 'w \<Rightarrow> error + string"
  ap_lock :: "lock_resource \<Rightarrow> ('w, unit) service"
  ap_lookupPayment :: "string \<Rightarrow> ('w, ln_payment_lookup) service"
  ap_lookupInvoice :: "string \<Rightarrow> string \<Rightarrow> ('w, ln_invoice_lookup) service"
  ap_getCentsFromSatsForImmediateBuy :: "payment_amount \<Rightarrow> ('w, payment_amount) service"
  ap_invoices_findForWalletByPaymentHash :: "string \<Rightarrow> string \<Rightarrow> 'w \<Rightarrow> error + wallet_invoice"
  ap_invoices_markAsProcessingCompleted :: "string \<Rightarrow> ('w, wallet_invoice) service"
  ap_wallets_findByAddress :: "string \<Rightarrow> 'w \<Rightarrow> error + wallet_descriptor"
  ap_getLastOnChainAddress :: "string \<Rightarrow> ('w, string) service"
  ap_randomUUID :: "('w, string) service"
  ap_pendingReceive_remove :: "string \<Rightarrow> string \<Rightarrow> jsnum \<Rightarrow> ('w, unit) service"
  ap_createOnChainAddress :: "string \<Rightarrow> string \<Rightarrow> ('w, string) service"

subsection \<open>Calls\<close>

text \<open>\<open>const x = await service(); if (x instanceof Error) return x\<close>\<close>

definition call :: "('w, 'a) service \<Rightarrow> ('w, 'a) ledger_op" where
  "call f s = (case f (ls_db s) of (r, w) \<Rightarrow> (Some r, s\<lparr>ls_db := w\<rparr>))"

text \<open>A call whose error is a value the code looks at, or ignores.\<close>

definition attempt :: "('w, 'a) service \<Rightarrow> ('w, error + 'a) ledger_op" where
  "attempt f s = (case f (ls_db s) of (r, w) \<Rightarrow> (Some (Inr r), s\<lparr>ls_db := w\<rparr>))"

definition query :: "('w \<Rightarrow> error + 'a) \<Rightarrow> ('w, 'a) ledger_op" where
  "query f s = (Some (f (ls_db s)), s)"

definition check :: "error + 'a \<Rightarrow> ('w, 'a) ledger_op" where
  "check r s = (Some r, s)"

text \<open>A computation that throws instead of returning its error.\<close>

definition or_throw :: "error + 'a \<Rightarrow> ('w, 'a) ledger_op" where
  "or_throw r s = (case r of Inl _ \<Rightarrow> (None, s) | Inr a \<Rightarrow> (Some (Inr a), s))"

definition guard_lock :: "bool \<Rightarrow> ('w, unit) ledger_op" where
  "guard_lock aborted = (if aborted then lerror ResourceExpiredLockServiceError else lreturn ())"

definition flow_amounts :: "'a payment_flow_common_scheme \<Rightarrow> amounts_and_fees" where
  "flow_amounts f =
     \<lparr>af_btcPaymentAmount = pf_btcPaymentAmount f, af_usdPaymentAmount = pf_usdPaymentAmount f,
      af_btcProtocolAndBankFee = pf_btcProtocolAndBankFee f,
      af_usdProtocolAndBankFee = pf_usdProtocolAndBankFee f\<rparr>"

text \<open>The display price of a user and the display amounts of a payment.\<close>

definition displayAmountsFor ::
  "('e, 'w) app_env \<Rightarrow> string \<Rightarrow> amounts_and_fees \<Rightarrow> ('w, display_amounts) ledger_op" where
  "displayAmountsFor ap displayCurrency amounts =
     lbind (call (getCurrentPriceAsDisplayPriceRatio (ap_prices ap) displayCurrency)) (\<lambda>displayPriceRatio.
       or_throw (DisplayAmountsConverter (pe_fiat (ap_prices ap)) displayPriceRatio amounts))"

definition display_txn :: "display_amounts \<Rightarrow> string \<Rightarrow> display_txn_amounts" where
  "display_txn ds displayCurrency =
     \<lparr>dt_displayAmount = toDisplayBaseAmount (ds_displayAmount ds),
      dt_displayFee = toDisplayBaseAmount (ds_displayFee ds), dt_displayCurrency = displayCurrency\<rparr>"

subsection \<open>Services write no journals\<close>

definition quiet :: "('w \<Rightarrow> 'j) \<Rightarrow> ('w \<Rightarrow> 'a \<times> 'w) \<Rightarrow> bool" where
  "quiet js f \<longleftrightarrow> (\<forall>w. js (snd (f w)) = js w)"

definition app_laws :: "'w journals \<Rightarrow> ('e, 'w) app_env \<Rightarrow> bool" where
  "app_laws js ap \<longleftrightarrow>
     books_laws js (ap_ledger ap) \<and> fresh_ids js (ap_ledger ap) \<and> balance_law js (ap_ledger ap) \<and>
     (\<forall>k ps w. js (pe_cacheSet (ap_prices ap) k ps w) = js w) \<and>
     (\<forall>h r p. quiet js (ap_payInvoiceViaRoutes ap h r p)) \<and>
     (\<forall>i b m. quiet js (ap_payInvoiceViaPaymentDetails ap i b m)) \<and>
     (\<forall>p h. quiet js (ap_cancelInvoice ap p h)) \<and> (\<forall>p h. quiet js (ap_settleInvoice ap p h)) \<and>
     (\<forall>a d v. quiet js (ap_estimateFeeForPayout ap a d v)) \<and>
     (\<forall>w a b v j. quiet js (ap_queuePayoutToAddress ap w a b v j)) \<and>
     (\<forall>h r p. quiet js (ap_lnPayments_persistNew ap h r p)) \<and>
     (\<forall>h r. quiet js (ap_updateMetadataByHash ap h r)) \<and>
     (\<forall>f. quiet js (ap_updateLightningPaymentFlow ap f)) \<and>
     (\<forall>h w n. quiet js (ap_markFlowNotPending ap h w n)) \<and>
     (\<forall>h. quiet js (ap_invoices_markAsPaid ap h)) \<and> (\<forall>k. quiet js (ap_lock ap k)) \<and>
     (\<forall>h. quiet js (ap_lookupPayment ap h)) \<and> (\<forall>p h. quiet js (ap_lookupInvoice ap p h)) \<and>
     (\<forall>a. quiet js (ap_getCentsFromSatsForImmediateBuy ap a)) \<and>
     (\<forall>h. quiet js (ap_invoices_markAsProcessingCompleted ap h)) \<and>
     (\<forall>w. quiet js (ap_getLastOnChainAddress ap w)) \<and> quiet js (ap_randomUUID ap) \<and>
     (\<forall>w h v. quiet js (ap_pendingReceive_remove ap w h v)) \<and>
     (\<forall>w r. quiet js (ap_createOnChainAddress ap w r))"

lemma app_laws_ledger:
  "app_laws js ap \<Longrightarrow> books_laws js (ap_ledger ap)" "app_laws js ap \<Longrightarrow> fresh_ids js (ap_ledger ap)"
  "app_laws js ap \<Longrightarrow> balance_law js (ap_ledger ap)"
  by (simp_all add: app_laws_def)

lemma app_laws_quiet:
  assumes "app_laws js ap"
  shows "quiet js (ap_payInvoiceViaRoutes ap h rt po)" "quiet js (ap_payInvoiceViaPaymentDetails ap iv b m)"
    "quiet js (ap_cancelInvoice ap p h)" "quiet js (ap_settleInvoice ap p h)"
    "quiet js (ap_estimateFeeForPayout ap a d v)" "quiet js (ap_queuePayoutToAddress ap wd ao b v j)"
    "quiet js (ap_lnPayments_persistNew ap h r p)" "quiet js (ap_updateMetadataByHash ap h po)"
    "quiet js (ap_updateLightningPaymentFlow ap f)" "quiet js (ap_markFlowNotPending ap h wi n)"
    "quiet js (ap_invoices_markAsPaid ap h)" "quiet js (ap_lock ap k)" "quiet js (ap_lookupPayment ap h)"
    "quiet js (ap_lookupInvoice ap p h)" "quiet js (ap_getCentsFromSatsForImmediateBuy ap pa)"
    "quiet js (ap_invoices_markAsProcessingCompleted ap h)" "quiet js (ap_getLastOnChainAddress ap wi)"
    "quiet js (ap_randomUUID ap)" "quiet js (ap_pendingReceive_remove ap wi h jn)"
    "quiet js (ap_createOnChainAddress ap wi h)"
  using assms by (simp_all add: app_laws_def)

lemma quiet_sbind: "quiet js m \<Longrightarrow> (\<And>a. quiet js (f a)) \<Longrightarrow> quiet js (sbind m f)"
  by (auto simp: quiet_def sbind_def split: prod.splits sum.splits) (metis snd_conv)+

lemma quiet_return: "quiet js (\<lambda>w. (r, w))"
  by (simp add: quiet_def)

definition quiet_cache :: "('w \<Rightarrow> 'j) \<Rightarrow> ('e, 'w) app_env \<Rightarrow> bool" where
  "quiet_cache js ap \<longleftrightarrow> (\<forall>k ps w. js (pe_cacheSet (ap_prices ap) k ps w) = js w)"

lemma app_laws_cache: "app_laws js ap \<Longrightarrow> quiet_cache js ap"
  by (simp add: app_laws_def quiet_cache_def)

lemma quiet_price: "quiet_cache js ap \<Longrightarrow> quiet js (getCurrentPrice (ap_prices ap) c cur)"
  by (auto simp: quiet_cache_def quiet_def getCurrentPrice_def Let_def split: sum.splits)

lemma quiet_displayRatio:
  "quiet_cache js ap \<Longrightarrow> quiet js (getCurrentPriceAsDisplayPriceRatio (ap_prices ap) cur)"
  unfolding getCurrentPriceAsDisplayPriceRatio_def getCurrentSatPrice_def
  by (intro quiet_sbind quiet_price quiet_return)

lemma quiet_walletRatio:
  "app_laws js ap \<Longrightarrow> quiet js (getCurrentPriceAsWalletPriceRatio (ap_prices ap) cur)"
  unfolding getCurrentPriceAsWalletPriceRatio_def getCurrentSatPrice_def
  by (intro quiet_sbind quiet_price quiet_return app_laws_cache)

lemma quiet_midPrice: "app_laws js ap \<Longrightarrow> quiet js (usdFromBtcMidPriceFn (ap_prices ap) amt)"
  unfolding usdFromBtcMidPriceFn_def
proof (intro quiet_sbind quiet_return)
  assume "app_laws js ap"
  from quiet_walletRatio [OF this] show "quiet js (getMidPriceRatio (ap_prices ap) b)" for b
    by (auto simp: quiet_def getMidPriceRatio_def split: sum.splits)
qed

lemma neutral_calls [neutral_intros]:
  "quiet js f \<Longrightarrow> neutral env js (call f)" "quiet js f \<Longrightarrow> neutral env js (attempt f)"
  "neutral env js (query q)" "neutral env js (check r)" "neutral env js (or_throw r)"
  "neutral env js (guard_lock b)"
  by (auto simp: neutral_def quiet_def call_def attempt_def query_def check_def or_throw_def guard_lock_def
      lerror_def lreturn_def split: prod.splits sum.splits) (metis snd_conv)+

lemma neutral_display_cache:
  "quiet_cache js ap \<Longrightarrow> neutral env js (displayAmountsFor ap cur amounts)"
  unfolding displayAmountsFor_def by (intro neutral_intros quiet_displayRatio)

lemma neutral_displayAmounts [neutral_intros]:
  "app_laws js ap \<Longrightarrow> neutral env js (displayAmountsFor ap cur amounts)"
  by (intro neutral_display_cache app_laws_cache)

lemma check_triple:
  "(\<And>a. r = Inr a \<Longrightarrow> triple env js X P (f a) Q E) \<Longrightarrow> (\<And>b. P b \<Longrightarrow> E b) \<Longrightarrow>
   triple env js X P (lbind (check r) f) Q E"
  by (cases r) (auto simp: triple_def lbind_def check_def)

lemma triple_check: "(\<And>a b. r = Inr a \<Longrightarrow> P b \<Longrightarrow> Q a b) \<Longrightarrow> (\<And>b. P b \<Longrightarrow> E b) \<Longrightarrow> triple env js X P (check r) Q E"
  by (cases r) (auto simp: triple_def check_def)

lemma call_triple:
  assumes "quiet js sv" and "\<And>w a. fst (sv w) = Inr a \<Longrightarrow> triple env js X P (f a) Q E" and "\<And>b. P b \<Longrightarrow> E b"
  shows "triple env js X P (lbind (call sv) f) Q E"
proof (rule tripleI)
  fix s r s'
  assume s: "internal env X s" "P (js (ls_db s))" and run: "lbind (call sv) f s = (r, s')"
  obtain q w where q: "sv (ls_db s) = (q, w)"
    by fastforce
  with assms(1) have w: "js w = js (ls_db s)"
    by (metis quiet_def snd_conv)
  show "internal env X s' \<and> ends Q E r (js (ls_db s'))"
  proof (cases q)
    case (Inl e)
    with run q w s assms(3) show ?thesis
      by (auto simp: lbind_def call_def)
  next
    case (Inr a)
    with run q have "f a (s\<lparr>ls_db := w\<rparr>) = (r, s')"
      by (simp add: lbind_def call_def)
    moreover have "triple env js X P (f a) Q E"
      using assms(2) [of "ls_db s" a] q Inr by simp
    ultimately show ?thesis
      using tripleD [of env js X P "f a" Q E "s\<lparr>ls_db := w\<rparr>" r s'] s w by simp
  qed
qed

end
