(* ===== verification/Send_Lightning.thy ===== *)
theory Send_Lightning
  imports App_Services
begin

text \<open>
  Sending a lightning payment: the steps of \<open>app/payments/send-lightning.ts\<close> that run under the
  sender's wallet lock, the fee reimbursement of \<open>reimburse-fee.ts\<close> and the attempt results of
  \<open>ln-send-result.ts\<close>. \<open>aborted\<close> is the state of the lock's abort signal when it is read.
  \<open>LnSendAttemptResult.err(e)\<close> is the error \<open>e\<close> of the operation.
\<close>

datatype ln_send_result =
    LnSendOk string
  | LnSendPending string
  | LnSendAlreadyPaid string
  | LnSendErrWithJournal string error

datatype intraledger_send_result =
    IlSendOk string
  | IlSendAlreadyPaid

subsection \<open>reimburse-fee.ts\<close>

definition difference_amounts :: "amount_pair \<Rightarrow> amounts_and_fees" where
  "difference_amounts d =
     \<lparr>af_btcPaymentAmount = btc d, af_usdPaymentAmount = usd d,
      af_btcProtocolAndBankFee = ZERO_SATS, af_usdProtocolAndBankFee = ZERO_CENTS\<rparr>"

definition reimburse_args ::
  "payment_flow \<Rightarrow> amount_pair \<Rightarrow> string \<Rightarrow> string \<Rightarrow> string option \<Rightarrow> display_txn_amounts \<Rightarrow>
   record_receive_args" where
  "reimburse_args f feeDifference paymentHash journalId revealedPreImage d =
     (let lm = LnFeeReimbursementReceiveLedgerMetadata (difference_amounts feeDifference) paymentHash journalId d
      in \<lparr>rr_description = ''fee reimbursement'', rr_recipientWalletDescriptor = senderWalletDescriptor f,
          rr_amountToCreditReceiver = feeDifference, rr_bankFee = None, rr_externalId = None,
          rr_metadata = lm_metadata lm, rr_txMetadata_hash = Some paymentHash,
          rr_txMetadata_revealedPreImage = revealedPreImage,
          rr_additionalCreditMetadata = lm_creditAccountAdditionalMetadata lm,
          rr_additionalInternalMetadata = lm_internalAccountsAdditionalMetadata lm\<rparr>)"

definition reimburseFee ::
  "('e, 'w) app_env \<Rightarrow> payment_flow \<Rightarrow> jsnum \<Rightarrow> string \<Rightarrow> string \<Rightarrow> jsnum \<Rightarrow> string option \<Rightarrow>
   ('w, bool) ledger_op" where
  "reimburseFee ap f senderDisplayAmount displayCur journalId actualFee revealedPreImage =
     (let fe = pe_fiat (ap_prices ap) in
      lbind (check (paymentAmountFromNumber actualFee Btc)) (\<lambda>actualFeeAmount.
      let maxFeeAmounts = \<lparr>btc = pf_btcProtocolAndBankFee f, usd = pf_usdProtocolAndBankFee f\<rparr> in
      lbind (check (WalletPriceRatio (usd (paymentAmounts f)) (btc (paymentAmounts f)))) (\<lambda>priceRatio.
      case getReimbursement maxFeeAmounts priceRatio actualFeeAmount of
        Inl _ \<Rightarrow> lreturn True
      | Inr feeDifference \<Rightarrow>
          if amount (btc feeDifference) = 0 then lreturn True
          else
            lbind (check (displayAmountFromNumber fe senderDisplayAmount displayCur))
              (\<lambda>displayAmount.
            lbind (check (DisplayPriceRatio displayAmount (pf_btcPaymentAmount f))) (\<lambda>displayPriceRatio.
            lbind (or_throw (DisplayAmountsConverter fe displayPriceRatio (difference_amounts feeDifference)))
              (\<lambda>ds.
            lbind (check (paymentHashForFlow f)) (\<lambda>paymentHash.
            lbind (recordReceiveOffChain (ap_ledger ap)
                (reimburse_args f feeDifference paymentHash journalId revealedPreImage
                  (display_txn ds displayCur))) (\<lambda>_. lreturn True))))))))"

subsection \<open>lockedPaymentViaLnSteps\<close>

definition send_total :: "'a payment_flow_common_scheme \<Rightarrow> amount_pair" where
  "send_total f =
     \<lparr>btc = \<lparr>currency = currency (pf_btcPaymentAmount f),
             amount = amount (pf_btcPaymentAmount f) + amount (pf_btcProtocolAndBankFee f)\<rparr>,
      usd = \<lparr>currency = currency (pf_usdPaymentAmount f),
             amount = amount (pf_usdPaymentAmount f) + amount (pf_usdProtocolAndBankFee f)\<rparr>\<rparr>"

definition ln_send_args ::
  "payment_flow \<Rightarrow> string \<Rightarrow> string \<Rightarrow> bool \<Rightarrow> string option \<Rightarrow> display_txn_amounts \<Rightarrow> record_send_args" where
  "ln_send_args f paymentHash pubkey feeKnownInAdvance memo d =
     (let lm = LnSendLedgerMetadata paymentHash pubkey (flow_amounts f) d feeKnownInAdvance
            (Some (str_default memo (pf_descriptionFromInvoice f)))
      in \<lparr>rs_description = str_default (Some (pf_descriptionFromInvoice f)) (str_default memo []),
          rs_senderWalletDescriptor = senderWalletDescriptor f,
          rs_amountToDebitSender = send_total f, rs_bankFee = None, rs_metadata = lm_metadata lm,
          rs_additionalDebitMetadata = lm_debitAccountAdditionalMetadata lm,
          rs_additionalInternalMetadata = lm_internalAccountsAdditionalMetadata lm\<rparr>)"

text \<open>Paying over the node: along the probed route, or by details within the fee cap.\<close>

definition execute_payment ::
  "('e, 'w) app_env \<Rightarrow> sent_invoice \<Rightarrow> payment_flow \<Rightarrow> price_ratio \<Rightarrow> ('w, error + pay_result) ledger_op" where
  "execute_payment ap invoice f walletPriceRatio =
     (case fst (routeDetails f) of
        Some rawRoute \<Rightarrow>
          attempt (ap_payInvoiceViaRoutes ap (inv_paymentHash invoice) rawRoute (snd (routeDetails f)))
      | None \<Rightarrow>
          (case verifyMaxFee (pf_btcProtocolAndBankFee f) (pf_btcPaymentAmount f) (pf_usdPaymentAmount f)
                  walletPriceRatio (wallet_currency (senderWalletDescriptor f))
                  (inv_amount invoice = Some (Fin 0) \<or> inv_amount invoice = None) of
             Inl e \<Rightarrow> lreturn (Inl e)
           | Inr _ \<Rightarrow> attempt (ap_payInvoiceViaPaymentDetails ap invoice (pf_btcPaymentAmount f)
                       (pf_btcProtocolAndBankFee f))))"

text \<open>Keeping the invoice and, for a payment that went through, the preimage.\<close>

definition persist_payment ::
  "('e, 'w) app_env \<Rightarrow> sent_invoice \<Rightarrow> string \<Rightarrow> error + pay_result \<Rightarrow> ('w, unit) ledger_op" where
  "persist_payment ap invoice sentFromPubkey payResult =
     (if payResult = Inl LnAlreadyPaidError then lreturn ()
      else
        lbind (attempt (ap_lnPayments_persistNew ap (inv_paymentHash invoice) (inv_paymentRequest invoice)
          sentFromPubkey)) (\<lambda>_.
        case payResult of
          Inl _ \<Rightarrow> lreturn ()
        | Inr r \<Rightarrow> lbind (attempt (ap_updateMetadataByHash ap (inv_paymentHash invoice)
            (py_revealedPreImage r))) (\<lambda>_. lreturn ())))"

text \<open>What becomes of the booked payment once the node has answered.\<close>

definition finish_payment ::
  "('e, 'w) app_env \<Rightarrow> payment_flow \<Rightarrow> string \<Rightarrow> string list \<Rightarrow> jsnum \<Rightarrow> string \<Rightarrow> string \<Rightarrow>
   error + pay_result \<Rightarrow> ('w, ln_send_result) ledger_op" where
  "finish_payment ap f paymentHash walletIds senderDisplayAmount displayCur journalId payResult =
     (let env = ap_ledger ap;
          updateState = updateLnPaymentState env walletIds paymentHash journalId in
      case payResult of
        Inl e \<Rightarrow>
          if e = LnPaymentPendingError then
            lbind (attempt (ap_updateLightningPaymentFlow ap (f\<lparr>pf_paymentSentAndPending := True\<rparr>))) (\<lambda>_.
            lbind updateState (\<lambda>_. lreturn (LnSendPending journalId)))
          else
            lbind (settlePendingLnSend env paymentHash) (\<lambda>_.
            lbind (recordLnSendRevert env journalId paymentHash) (\<lambda>_.
            lbind updateState (\<lambda>_.
              lreturn (if e = LnAlreadyPaidError then LnSendAlreadyPaid journalId
                       else LnSendErrWithJournal journalId e))))
      | Inr r \<Rightarrow>
          lbind (settlePendingLnSend env paymentHash) (\<lambda>_.
          lbind (if fst (routeDetails f) = None
                 then reimburseFee ap f senderDisplayAmount displayCur journalId
                        (py_roundedUpFee r) (py_revealedPreImage r)
                 else lreturn True) (\<lambda>_.
          lbind updateState (\<lambda>_. lreturn (LnSendOk journalId)))))"

definition lockedPaymentViaLnSteps ::
  "('e, 'w) app_env \<Rightarrow> bool \<Rightarrow> sent_invoice \<Rightarrow> payment_flow \<Rightarrow> string \<Rightarrow> string option \<Rightarrow> string list \<Rightarrow>
   ('w, ln_send_result) ledger_op" where
  "lockedPaymentViaLnSteps ap aborted decodedInvoice f displayCur memo walletIds =
     (let env = ap_ledger ap; paymentHash = inv_paymentHash decodedInvoice;
          outgoingNodePubkey = snd (routeDetails f) in
      lbind (getTransactionsByHash env paymentHash) (\<lambda>ledgerTransactions.
      if list_ex lt_pendingConfirmation ledgerTransactions then lerror LnPaymentRequestInTransitError
      else
        lbind (getWalletBalanceAmount env (senderWalletDescriptor f)) (\<lambda>bal.
        lbind (check (checkBalanceForSend f bal)) (\<lambda>_.
        lbind (check (ap_LndService ap)) (\<lambda>defaultPubkey.
        lbind (displayAmountsFor ap displayCur (flow_amounts f)) (\<lambda>ds.
        lbind (guard_lock aborted) (\<lambda>_.
        let pubkey = str_default outgoingNodePubkey defaultPubkey in
        lbind (check (WalletPriceRatio (pf_usdPaymentAmount f) (pf_btcPaymentAmount f))) (\<lambda>walletPriceRatio.
        lbind (recordSendOffChain env (ln_send_args f paymentHash pubkey (fst (routeDetails f) \<noteq> None) memo
          (display_txn ds displayCur))) (\<lambda>journal.
        lbind (execute_payment ap decodedInvoice f walletPriceRatio) (\<lambda>payResult.
        lbind (persist_payment ap decodedInvoice pubkey payResult) (\<lambda>_.
        finish_payment ap f paymentHash walletIds (toDisplayBaseAmount (ds_displayAmount ds))
          displayCur (lj_journalId journal) payResult)))))))))))"

end
