(* ===== verification/Pending_Payments.thy ===== *)
theory Pending_Payments
  imports Send_Lightning
begin

text \<open>
  Settling pending lightning payments: \<open>app/payments/update-pending-payments.ts\<close> with
  \<open>reimburse-failed-usd.ts\<close> and \<open>translations.ts\<close>. A payment left pending is looked up on the
  node and then confirmed, with the unused fee reimbursed, or taken back. Notifications, spans
  and logging are left out; the lookups that can fail before a notification are kept.
\<close>

subsection \<open>translations.ts\<close>

definition PaymentFlowFromLedgerTransaction ::
  "ledger_transaction \<Rightarrow> string \<Rightarrow> error + payment_flow" where
  "PaymentFlowFromLedgerTransaction ledgerTxn senderAccountId =
     (if lt_type ledgerTxn \<noteq> LT_Payment then Inl NonLnPaymentTransactionForPaymentFlowError
      else case (lt_walletId ledgerTxn, lt_paymentHash ledgerTxn, lt_satsAmount ledgerTxn,
                 lt_centsAmount ledgerTxn, lt_satsFee ledgerTxn, lt_centsFee ledgerTxn) of
        (Some senderWalletId, Some paymentHash, Some satsAmount, Some centsAmount, Some satsFee, Some centsFee) \<Rightarrow>
          rbind (paymentAmountFromNumber satsAmount Btc) (\<lambda>btcPaymentAmount.
          rbind (paymentAmountFromNumber centsAmount Usd) (\<lambda>usdPaymentAmount.
          rbind (paymentAmountFromNumber satsFee Btc) (\<lambda>btcProtocolAndBankFee.
          rbind (paymentAmountFromNumber centsFee Usd) (\<lambda>usdProtocolAndBankFee.
            Inr \<lparr>pf_btcPaymentAmount = btcPaymentAmount,
                 pf_btcProtocolAndBankFee = btcProtocolAndBankFee,
                 pf_usdPaymentAmount = usdPaymentAmount,
                 pf_usdProtocolAndBankFee = usdProtocolAndBankFee,
                 pf_senderWalletId = senderWalletId,
                 pf_senderWalletCurrency = lt_currency ledgerTxn,
                 pf_senderAccountId = senderAccountId,
                 pf_settlementMethod = SM_Lightning, pf_paymentInitiationMethod = PI_Lightning,
                 pf_createdAt = lt_timestamp ledgerTxn, pf_paymentSentAndPending = True,
                 pf_inputAmount =
                   (if lt_currency ledgerTxn = Usd then amount usdPaymentAmount else amount btcPaymentAmount),
                 pf_recipientWalletId = None, pf_recipientWalletCurrency = None, pf_recipientAccountId = None,
                 pf_recipientPubkey = None, pf_recipientUsername = None, pf_recipientUserId = None,
                 pf_outgoingNodePubkey = None, pf_cachedRoute = None,
                 pf_paymentHash = Some paymentHash, pf_intraLedgerHash = None,
                 pf_descriptionFromInvoice = [], pf_skipProbeForDestination = False\<rparr>))))
      | _ \<Rightarrow> Inl MissingPropsInTransactionForPaymentFlowError)"

subsection \<open>reimburse-failed-usd.ts\<close>

definition FAILED_USD_MEMO :: string where
  "FAILED_USD_MEMO = ''Usd payment canceled''"

text \<open>The satoshi wallet of the sender's account.\<close>

definition btcWalletFor :: "('e, 'w) app_env \<Rightarrow> string \<Rightarrow> ('w, wallet_descriptor) ledger_op" where
  "btcWalletFor ap walletId =
     lbind (query (ap_wallets_findById ap walletId)) (\<lambda>recipientWallet.
       if wallet_currency recipientWallet = Btc then lreturn recipientWallet
       else lbind (query (ap_wallets_listByAccountId ap (wallet_accountId recipientWallet))) (\<lambda>recipientWallets.
         case find (\<lambda>wallet. wallet_currency wallet = Btc) recipientWallets of
           None \<Rightarrow> lerror CouldNotFindBtcWalletForAccountError
         | Some wallet \<Rightarrow> lreturn wallet))"

definition failed_usd_args ::
  "payment_flow \<Rightarrow> wallet_descriptor \<Rightarrow> string \<Rightarrow> string \<Rightarrow> display_txn_amounts \<Rightarrow> record_receive_args" where
  "failed_usd_args f btcWalletDescriptor paymentHash journalId d =
     (let lm = LnFailedPaymentReceiveLedgerMetadata (flow_amounts f) paymentHash journalId d
      in \<lparr>rr_description = FAILED_USD_MEMO, rr_recipientWalletDescriptor = btcWalletDescriptor,
          rr_amountToCreditReceiver = totalAmountsForPayment f, rr_bankFee = None, rr_externalId = None,
          rr_metadata = lm_metadata lm, rr_txMetadata_hash = Some paymentHash,
          rr_txMetadata_revealedPreImage = None,
          rr_additionalCreditMetadata = lm_creditAccountAdditionalMetadata lm,
          rr_additionalInternalMetadata = lm_internalAccountsAdditionalMetadata lm\<rparr>)"

definition reimburseFailedUsdPayment ::
  "('e, 'w) app_env \<Rightarrow> string \<Rightarrow> ledger_transaction \<Rightarrow> payment_flow \<Rightarrow> ('w, bool) ledger_op" where
  "reimburseFailedUsdPayment ap walletId pendingPayment f =
     lbind (case lt_displayCurrency pendingPayment of
              Some c \<Rightarrow> lreturn c
            | None \<Rightarrow>
                lbind (query (ap_wallets_findById ap walletId)) (\<lambda>wallet.
                lbind (query (ap_accounts_findById ap (wallet_accountId wallet))) (\<lambda>account.
                  lreturn (ac_displayCurrency account)))) (\<lambda>displayCur.
     lbind (check (paymentHashForFlow f)) (\<lambda>paymentHash.
     let d = \<lparr>dt_displayAmount = num_or (lt_displayAmount pendingPayment) (Fin 0),
              dt_displayFee = num_or (lt_displayFee pendingPayment) (Fin 0), dt_displayCurrency = displayCur\<rparr> in
     lbind (btcWalletFor ap (wallet_id (senderWalletDescriptor f))) (\<lambda>btcWalletDescriptor.
     lbind (recordReceiveOffChain (ap_ledger ap)
         (failed_usd_args f btcWalletDescriptor paymentHash (lt_journalId pendingPayment) d)) (\<lambda>_.
       lreturn True))))"

subsection \<open>update-pending-payments.ts\<close>

definition pending_payment_of :: "string list \<Rightarrow> ledger_transaction \<Rightarrow> bool" where
  "pending_payment_of nonEndUserWalletIds tx \<longleftrightarrow>
     lt_pendingConfirmation tx \<and> lt_type tx = LT_Payment \<and> js_lt (Fin 0) (lt_debit tx) \<and>
     (case lt_walletId tx of None \<Rightarrow> False | Some w \<Rightarrow> w \<notin> set nonEndUserWalletIds)"

definition amount_matches :: "wallet_currency \<Rightarrow> jsnum \<Rightarrow> ledger_transaction \<Rightarrow> bool" where
  "amount_matches c inputAmount tx =
     (case (if c = Btc then lt_satsAmount tx else lt_centsAmount tx) of
        None \<Rightarrow> False | Some a \<Rightarrow> js_eq a inputAmount)"

definition reconstructPendingPaymentFlow ::
  "('e, 'w) app_env \<Rightarrow> string \<Rightarrow> jsnum \<Rightarrow> ('w, payment_flow) ledger_op" where
  "reconstructPendingPaymentFlow ap paymentHash inputAmount =
     lbind (getTransactionsByHash (ap_ledger ap) paymentHash) (\<lambda>ledgerTxns.
     lbind (getNonEndUserWalletIds (ap_ledger ap)) (\<lambda>nonEndUserWalletIds.
     case filter (pending_payment_of nonEndUserWalletIds) ledgerTxns of
       [] \<Rightarrow> lerror CouldNotFindTransactionError
     | payment # payments \<Rightarrow>
         if \<not> str_truthy (lt_walletId payment) then lerror MissingPropsInTransactionForPaymentFlowError
         else
           lbind (query (ap_wallets_findById ap (str_default (lt_walletId payment) []))) (\<lambda>senderWallet.
           lbind (query (ap_accounts_findById ap (wallet_accountId senderWallet))) (\<lambda>senderAccount.
           case filter (amount_matches (wallet_currency senderWallet) inputAmount) (payment # payments) of
             [] \<Rightarrow> lerror CouldNotFindTransactionError
           | [p] \<Rightarrow> check (PaymentFlowFromLedgerTransaction p (ac_id senderAccount))
           | _ \<Rightarrow> lerror MultiplePendingPaymentsForHashError))))"

definition finalizePaymentUpdate ::
  "('e, 'w) app_env \<Rightarrow> string list \<Rightarrow> string \<Rightarrow> string \<Rightarrow> string \<Rightarrow> ('w, bool) ledger_op" where
  "finalizePaymentUpdate ap walletIds paymentHash journalId walletId =
     lbind (updateLnPaymentState (ap_ledger ap) walletIds paymentHash journalId) (\<lambda>_.
     lbind (getTransactionForWalletByJournalId (ap_ledger ap) walletId journalId) (\<lambda>_.
     lbind (getNonEndUserWalletIds (ap_ledger ap)) (\<lambda>_. lreturn True)))"

text \<open>The flow kept with the payment, or one rebuilt from the ledger.\<close>

definition pendingFlow ::
  "('e, 'w) app_env \<Rightarrow> string \<Rightarrow> string \<Rightarrow> int \<Rightarrow> ('w, payment_flow) ledger_op" where
  "pendingFlow ap paymentHash walletId inputAmount =
     lbind (attempt (ap_markFlowNotPending ap paymentHash walletId inputAmount)) (\<lambda>r.
       case r of
         Inr f \<Rightarrow> lreturn f
       | Inl _ \<Rightarrow> reconstructPendingPaymentFlow ap paymentHash (Number_big inputAmount))"

text \<open>\<open>confirmedDetails?.roundedUpFee || toSats(0)\<close>\<close>

definition confirmed_fee :: "ln_payment_lookup \<Rightarrow> jsnum" where
  "confirmed_fee lookup = num_or (map_option fst (pl_confirmedDetails lookup)) (Fin 0)"

definition confirmed_preimage :: "ln_payment_lookup \<Rightarrow> string option" where
  "confirmed_preimage lookup = (case pl_confirmedDetails lookup of None \<Rightarrow> None | Some (_, p) \<Rightarrow> p)"

text \<open>The payment failed, or the node's latest payment is another version of it.\<close>

definition payment_failed :: "ln_payment_lookup \<Rightarrow> payment_flow \<Rightarrow> bool" where
  "payment_failed lookup f \<longleftrightarrow>
     (pl_status lookup = PS_Failed \<or>
      \<not> js_eq (js_sub (pl_roundedUpAmount lookup) (confirmed_fee lookup)) (Number_big (amount (pf_btcPaymentAmount f))))"

text \<open>Taking the payment back: a satoshi payment is voided, a dollar payment is paid back in satoshis.\<close>

definition takeBack ::
  "('e, 'w) app_env \<Rightarrow> string \<Rightarrow> string \<Rightarrow> ledger_transaction \<Rightarrow> payment_flow \<Rightarrow> ('w, bool) ledger_op" where
  "takeBack ap paymentHash walletId pendingPayment f =
     (if pf_senderWalletCurrency f = Btc
      then revertLightningPayment (ap_ledger ap) (lt_journalId pendingPayment) paymentHash
      else reimburseFailedUsdPayment ap walletId pendingPayment f)"

text \<open>Confirming the payment: the preimage is kept and the unused part of the fee goes back.\<close>

definition confirmPayment ::
  "('e, 'w) app_env \<Rightarrow> string \<Rightarrow> ledger_transaction \<Rightarrow> ln_payment_lookup \<Rightarrow> payment_flow \<Rightarrow> ('w, bool) ledger_op" where
  "confirmPayment ap paymentHash pendingPayment lookup f =
     lbind (if str_truthy (confirmed_preimage lookup)
            then lbind (attempt (ap_updateMetadataByHash ap paymentHash (confirmed_preimage lookup))) (\<lambda>_. lreturn ())
            else lreturn ()) (\<lambda>_.
       if lt_feeKnownInAdvance pendingPayment then lreturn True
       else case (num_or_undefined (lt_displayAmount pendingPayment), num_or_undefined (lt_displayFee pendingPayment),
                  or_undefined (lt_displayCurrency pendingPayment)) of
         (Some displayAmount, Some displayFee, Some displayCur) \<Rightarrow>
           reimburseFee ap f displayAmount displayCur (lt_journalId pendingPayment) (confirmed_fee lookup)
             (confirmed_preimage lookup)
       | _ \<Rightarrow> lerror MissingExpectedDisplayAmountsForTransactionError)"

definition lockedPendingPaymentSteps ::
  "('e, 'w) app_env \<Rightarrow> string \<Rightarrow> string \<Rightarrow> ledger_transaction \<Rightarrow> ln_payment_lookup \<Rightarrow> string list \<Rightarrow>
   ('w, bool) ledger_op" where
  "lockedPendingPaymentSteps ap paymentHash walletId pendingPayment lookup walletIds =
     lbind (isLnTxRecorded (ap_ledger ap) paymentHash) (\<lambda>recorded.
       if recorded then lreturn True
       else
         lbind (check (inputAmountFromLedgerTransaction pendingPayment)) (\<lambda>inputAmount.
         lbind (pendingFlow ap paymentHash walletId inputAmount) (\<lambda>f.
         lbind (settlePendingLnSend (ap_ledger ap) paymentHash) (\<lambda>_.
         lbind (if payment_failed lookup f then takeBack ap paymentHash walletId pendingPayment f
                else confirmPayment ap paymentHash pendingPayment lookup f) (\<lambda>_.
           finalizePaymentUpdate ap walletIds paymentHash (lt_journalId pendingPayment) walletId)))))"

definition updatePendingPayment ::
  "('e, 'w) app_env \<Rightarrow> string \<Rightarrow> ledger_transaction \<Rightarrow> ('w, bool) ledger_op" where
  "updatePendingPayment ap walletId pendingPayment =
     (if \<not> str_truthy (lt_paymentHash pendingPayment) then lerror InconsistentDataError
      else if \<not> str_truthy (lt_pubkey pendingPayment) then lerror InconsistentDataError
      else let paymentHash = str_default (lt_paymentHash pendingPayment) [] in
        lbind (check (ap_LndService ap)) (\<lambda>_.
        lbind (call (ap_lookupPayment ap paymentHash)) (\<lambda>lookup.
          if pl_status lookup = PS_Pending then lreturn True
          else
            lbind (query (ap_wallets_findById ap walletId)) (\<lambda>senderWallet.
            lbind (query (ap_accounts_findById ap (wallet_accountId senderWallet))) (\<lambda>senderAccount.
            lbind (query (ap_users_findById ap (ac_kratosUserId senderAccount))) (\<lambda>_.
            lbind (query (ap_findAccountWallets ap (ac_id senderAccount))) (\<lambda>wallets.
            lbind (call (ap_lock ap (getWalletLockResource walletId))) (\<lambda>_.
              lockedPendingPaymentSteps ap paymentHash walletId pendingPayment lookup
                [wallet_id (wallets_BTC wallets), wallet_id (wallets_USD wallets)]))))))))"

text \<open>The result of each update is dropped; an exception ends the loop.\<close>

fun updateEach ::
  "('e, 'w) app_env \<Rightarrow> string \<Rightarrow> ledger_transaction list \<Rightarrow> ('w, unit) ledger_op" where
  "updateEach ap walletId [] = lreturn ()"
| "updateEach ap walletId (p # ps) =
     (\<lambda>s. case updatePendingPayment ap walletId p s of
        (None, s') \<Rightarrow> (None, s') | (Some _, s') \<Rightarrow> updateEach ap walletId ps s')"

definition updatePendingPaymentsByWalletId :: "('e, 'w) app_env \<Rightarrow> string \<Rightarrow> ('w, unit) ledger_op" where
  "updatePendingPaymentsByWalletId ap walletId =
     lbind (getPendingPaymentsCount (ap_ledger ap) walletId) (\<lambda>count.
       if count = 0 then lreturn ()
       else lbind (listPendingPayments (ap_ledger ap) walletId) (\<lambda>pendingPayments.
         updateEach ap walletId pendingPayments))"

definition updatePendingPaymentByHash :: "('e, 'w) app_env \<Rightarrow> string \<Rightarrow> ('w, unit) ledger_op" where
  "updatePendingPaymentByHash ap paymentHash =
     lbind (getWalletIdByPaymentHash (ap_ledger ap) paymentHash) (\<lambda>walletId.
       updatePendingPaymentsByWalletId ap walletId)"

end
