(* ===== verification/Wallet_Invoices.thy ===== *)
theory Wallet_Invoices
  imports App_Services
begin

text \<open>
  Invoices of wallets: \<open>domain/wallet-invoices\<close> with the expiration of \<open>domain/bitcoin/lightning\<close>,
  and the receiver of an on-chain address in \<open>domain/wallet-on-chain\<close>. Times are milliseconds.
  Functions that await a price or the node are services.
\<close>

subsection \<open>invoice-expiration.ts\<close>

definition SECS_PER_MIN :: int where "SECS_PER_MIN = 60"

fun default_delay :: "wallet_currency \<Rightarrow> int" where
  "default_delay Btc = 60 * 60 * 24"
| "default_delay Usd = 60 * 5"

definition invoiceExpirationForCurrency :: "wallet_currency \<Rightarrow> int \<Rightarrow> int option \<Rightarrow> int" where
  "invoiceExpirationForCurrency c now delay =
     (let expirationDelay = (case delay of None \<Rightarrow> 0 | Some d \<Rightarrow> d);
          effective = (if expirationDelay < SECS_PER_MIN \<or> expirationDelay > default_delay c
                       then default_delay c else expirationDelay)
      in now + effective * 1000)"

subsection \<open>wallet-invoice-checker.ts and wallet-invoice-status-checker.ts\<close>

definition shouldDecline :: "int \<Rightarrow> error + wallet_invoice \<Rightarrow> bool" where
  "shouldDecline now walletInvoice =
     (case walletInvoice of
        Inl e \<Rightarrow> e = CouldNotFindWalletInvoiceError
      | Inr walletInv \<Rightarrow>
          let expiresAtWithDelay =
                invoiceExpirationForCurrency (wallet_currency (wi_recipientWalletDescriptor walletInv)) (wi_createdAt walletInv) None;
              isUsdRecipient = (wallet_currency (wi_recipientWalletDescriptor walletInv) = Usd)
          in isUsdRecipient \<and> expiresAtWithDelay < now)"

datatype wallet_invoice_status = WIS_Pending | WIS_Paid | WIS_Expired

definition invoice_status :: "wallet_invoice \<Rightarrow> int \<Rightarrow> wallet_invoice_status" where
  "invoice_status walletInv currentTime =
     (if wi_paid walletInv then WIS_Paid
      else if wi_lnInvoice_expiresAt walletInv < currentTime then WIS_Expired
      else WIS_Pending)"

subsection \<open>wallet-invoice-builder.ts\<close>

record wib_externalId_state =
  wb_externalId :: "string option"

record wib_description_state = wib_externalId_state +
  wb_description :: string
  wb_descriptionHash :: "string option"

record wib_origin_state = wib_description_state +
  wb_selfGenerated :: bool

record wib_recipient_state = wib_origin_state +
  wb_recipientWalletDescriptor :: wallet_descriptor

record wib_expiration_state = wib_recipient_state +
  wb_invoiceExpiration :: int

record wib_amount_state = wib_expiration_state +
  wb_hasAmount :: bool
  wb_btcAmount :: payment_amount
  wb_usdAmount :: "payment_amount option"

record register_invoice_args =
  rg_paymentHash :: string
  rg_description :: string
  rg_descriptionHash :: "string option"
  rg_btcPaymentAmount :: payment_amount
  rg_expiresAt :: int

record registered_invoice =
  ri_invoice_paymentHash :: string
  ri_invoice_expiresAt :: int
  ri_pubkey :: string

record 'w wib_config =
  wc_dealerBtcFromUsd :: "payment_amount \<Rightarrow> ('w, payment_amount) service"
  wc_dealerUsdFromBtc :: "payment_amount \<Rightarrow> ('w, payment_amount) service"
  wc_lnRegisterInvoice :: "register_invoice_args \<Rightarrow> ('w, registered_invoice) service"
  wc_getSecretAndPaymentHash :: "'w \<Rightarrow> (string \<times> string) \<times> 'w"
  wc_now :: "'w \<Rightarrow> int"

definition WIB_withExternalId :: "string option \<Rightarrow> wib_externalId_state" where
  "WIB_withExternalId externalId = \<lparr>wb_externalId = externalId\<rparr>"

definition WIB_withDescription ::
  "wib_externalId_state \<Rightarrow> string \<Rightarrow> string option \<Rightarrow> wib_description_state" where
  "WIB_withDescription st description descriptionHash =
     wib_externalId_state.extend st (wib_description_state.fields description descriptionHash)"

definition generatedForRecipient :: "wib_description_state \<Rightarrow> wib_origin_state" where
  "generatedForRecipient st = wib_description_state.extend st (wib_origin_state.fields False)"

definition generatedForSelf :: "wib_description_state \<Rightarrow> wib_origin_state" where
  "generatedForSelf st = wib_description_state.extend st (wib_origin_state.fields True)"

definition WIB_withRecipientWallet :: "wib_origin_state \<Rightarrow> wallet_descriptor \<Rightarrow> wib_recipient_state" where
  "WIB_withRecipientWallet st recipientWallet =
     wib_origin_state.extend st (wib_recipient_state.fields recipientWallet)"

definition withExpiration :: "int \<Rightarrow> wib_recipient_state \<Rightarrow> int \<Rightarrow> wib_expiration_state" where
  "withExpiration now st minutes =
     wib_recipient_state.extend st (wib_expiration_state.fields
       (invoiceExpirationForCurrency (wallet_currency (wb_recipientWalletDescriptor st)) now (Some (minutes * 60))))"

definition with_amounts ::
  "wib_expiration_state \<Rightarrow> bool \<Rightarrow> payment_amount \<Rightarrow> payment_amount option \<Rightarrow> wib_amount_state" where
  "with_amounts st hasAmount btcAmount usdAmount =
     wib_expiration_state.extend st (wib_amount_state.fields hasAmount btcAmount usdAmount)"

definition WIB_withAmount ::
  "'w wib_config \<Rightarrow> wib_expiration_state \<Rightarrow> payment_amount \<Rightarrow> ('w, wib_amount_state) service" where
  "WIB_withAmount cfg st amt =
     (if wallet_currency (wb_recipientWalletDescriptor st) = Usd then
        if currency amt = Usd then
          sbind (wc_dealerBtcFromUsd cfg amt) (\<lambda>btcAmount w. (Inr (with_amounts st True btcAmount (Some amt)), w))
        else
          sbind (wc_dealerUsdFromBtc cfg amt) (\<lambda>usdAmount w.
            if amount usdAmount = 0 then (Inl SubOneCentSatAmountForUsdReceiveError, w)
            else (Inr (with_amounts st True amt (Some usdAmount)), w))
      else if currency amt \<noteq> Btc then (\<lambda>w. (Inl InvalidWalletInvoiceBuilderStateError, w))
      else (\<lambda>w. (Inr (with_amounts st True amt None), w)))"

definition WIB_withoutAmount :: "wib_expiration_state \<Rightarrow> wib_amount_state" where
  "WIB_withoutAmount st = with_amounts st False ZERO_SATS None"

text \<open>The regular expression of external ids, over single characters: between 1 and 100 of \<open>a-z0-9_-\<close>.\<close>

definition external_id_char :: "char \<Rightarrow> bool" where
  "external_id_char c \<longleftrightarrow> c \<in> set ''abcdefghijklmnopqrstuvwxyz0123456789_-''"

definition checkedToLedgerExternalId :: "string \<Rightarrow> error + string" where
  "checkedToLedgerExternalId externalId =
     (if 1 \<le> length externalId \<and> length externalId \<le> 100 \<and> list_all external_id_char externalId
      then Inr externalId else Inl InvalidLedgerExternalId)"

definition registerInvoice :: "'w wib_config \<Rightarrow> wib_amount_state \<Rightarrow> ('w, wallet_invoice) service" where
  "registerInvoice cfg st w0 =
     (let ((secret, paymentHash), w1) = wc_getSecretAndPaymentHash cfg w0 in
      case checkedToLedgerExternalId paymentHash of
        Inl e \<Rightarrow> (Inl e, w1)
      | Inr defaultExternalId \<Rightarrow>
          sbind (wc_lnRegisterInvoice cfg
              \<lparr>rg_paymentHash = paymentHash, rg_description = wb_description st,
               rg_descriptionHash = wb_descriptionHash st, rg_btcPaymentAmount = wb_btcAmount st,
               rg_expiresAt = wb_invoiceExpiration st\<rparr>) (\<lambda>registered w.
            if paymentHash \<noteq> ri_invoice_paymentHash registered
            then (Inl InvalidWalletInvoiceBuilderStateError, w)
            else (Inr \<lparr>wi_paymentHash = paymentHash, wi_secret = secret,
                       wi_selfGenerated = wb_selfGenerated st, wi_pubkey = ri_pubkey registered,
                       wi_usdAmount = wb_usdAmount st,
                       wi_recipientWalletDescriptor = wb_recipientWalletDescriptor st, wi_paid = False,
                       wi_createdAt = wc_now cfg w, wi_processingCompleted = False,
                       wi_externalId = str_default (wb_externalId st) defaultExternalId,
                       wi_lnInvoice_expiresAt = ri_invoice_expiresAt registered\<rparr>, w)) w1)"

subsection \<open>wallet-invoice-receiver.ts\<close>

record received_wallet_invoice =
  rw_usdToCreditReceiver :: payment_amount
  rw_btcToCreditReceiver :: payment_amount
  rw_usdBankFee :: payment_amount
  rw_btcBankFee :: payment_amount
  rw_recipientWalletDescriptor :: wallet_descriptor

definition receivedAmount :: "payment_amount \<Rightarrow> payment_amount \<Rightarrow> wallet_descriptor \<Rightarrow> payment_amount" where
  "receivedAmount receivedBtc receivedUsd wd = (if wallet_currency wd = Btc then receivedBtc else receivedUsd)"

text \<open>The amounts at the price of the receipt; the three conversions of the source share them.\<close>

definition received_at ::
  "payment_amount \<Rightarrow> payment_amount \<Rightarrow> payment_amount \<Rightarrow> wallet_descriptor \<Rightarrow> error + received_wallet_invoice" where
  "received_at receivedBtc receivedUsd satsFee wd =
     rbind (WalletPriceRatio receivedUsd receivedBtc) (\<lambda>priceRatio.
       let btcBankFee = satsFee; usdBankFee = convertFromBtcToCeil priceRatio btcBankFee in
       Inr \<lparr>rw_usdToCreditReceiver = calc_sub receivedUsd usdBankFee,
            rw_btcToCreditReceiver = calc_sub receivedBtc btcBankFee,
            rw_usdBankFee = usdBankFee, rw_btcBankFee = btcBankFee, rw_recipientWalletDescriptor = wd\<rparr>)"

definition WalletInvoiceReceiver_withConversion ::
  "wallet_invoice \<Rightarrow> account_wallets \<Rightarrow> payment_amount \<Rightarrow> payment_amount \<Rightarrow>
   (payment_amount \<Rightarrow> ('w, payment_amount) service) \<Rightarrow> (payment_amount \<Rightarrow> ('w, payment_amount) service) \<Rightarrow>
   ('w, received_wallet_invoice) service" where
  "WalletInvoiceReceiver_withConversion walletInv wallets receivedBtc satsFee mid_usdFromBtc hedgeBuyUsd_usdFromBtc =
     (let recipient = (wi_recipientWalletDescriptor walletInv)
            \<lparr>wallet_accountId := wallet_accountId (wallets_BTC wallets)\<rparr>;
          fromBtcAmountMid = (\<lambda>wd. sbind (mid_usdFromBtc receivedBtc) (\<lambda>receivedUsd w.
            (received_at receivedBtc receivedUsd satsFee wd, w)));
          fromBtcAmountDealer = sbind (hedgeBuyUsd_usdFromBtc receivedBtc) (\<lambda>receivedUsd w.
            (received_at receivedBtc receivedUsd satsFee recipient, w))
      in if wallet_currency recipient = Btc then fromBtcAmountMid recipient
         else case wi_usdAmount walletInv of
           Some receivedUsd \<Rightarrow> (\<lambda>w. (received_at receivedBtc receivedUsd satsFee recipient, w))
         | None \<Rightarrow> (\<lambda>w. case fromBtcAmountDealer w of
             (Inl InvalidZeroAmountPriceRatioInputError, w') \<Rightarrow> fromBtcAmountMid (wallets_BTC wallets) w'
           | r \<Rightarrow> r))"

subsection \<open>wallet-address-receiver.ts\<close>

record wallet_address_receiver =
  wa_usdToCreditReceiver :: payment_amount
  wa_btcToCreditReceiver :: payment_amount
  wa_usdBankFee :: payment_amount
  wa_btcBankFee :: payment_amount

definition WalletAddressReceiver ::
  "wallet_descriptor \<Rightarrow> payment_amount \<Rightarrow> payment_amount \<Rightarrow>
   (payment_amount \<Rightarrow> ('w, payment_amount) service) \<Rightarrow> (payment_amount \<Rightarrow> ('w, payment_amount) service) \<Rightarrow>
   ('w, wallet_address_receiver) service" where
  "WalletAddressReceiver wd receivedBtc satsFee usdFromBtc_fn usdFromBtcMidPrice =
     sbind ((if wallet_currency wd = Btc then usdFromBtcMidPrice else usdFromBtc_fn) receivedBtc) (\<lambda>receivedUsd w.
       (rbind (WalletPriceRatio receivedUsd receivedBtc) (\<lambda>priceRatio.
          let usdBankFee = convertFromBtcToCeil priceRatio satsFee;
              btcToCreditReceiver = calc_sub receivedBtc satsFee;
              usdToCreditReceiver = calc_sub receivedUsd usdBankFee
          in if amount btcToCreditReceiver \<le> 0 \<or> amount usdToCreditReceiver \<le> 0 then Inl AmountLessThanFeeError
             else Inr \<lparr>wa_usdToCreditReceiver = usdToCreditReceiver, wa_btcToCreditReceiver = btcToCreditReceiver,
                       wa_usdBankFee = usdBankFee, wa_btcBankFee = satsFee\<rparr>), w))"

definition settlementAmounts ::
  "wallet_descriptor \<Rightarrow> wallet_address_receiver \<Rightarrow> payment_amount \<times> payment_amount" where
  "settlementAmounts wd r =
     (if wallet_currency wd = Btc then (wa_btcToCreditReceiver r, wa_btcBankFee r)
      else (wa_usdToCreditReceiver r, wa_usdBankFee r))"

end
