(* ===== verification/Receive.thy ===== *)
theory Receive
  imports Wallet_Invoices
begin

text \<open>
  Receiving: the processing of invoices that are held or paid on the node
  (\<open>app/wallets/update-single-pending-invoice.ts\<close>, \<open>decline-single-pending-invoice.ts\<close>,
  \<open>process-pending-invoice-result.ts\<close>, \<open>handle-held-invoices.ts\<close>,
  \<open>cancel-invoice-for-wallet.ts\<close>) and of settled on-chain deposits
  (\<open>add-settled-on-chain-transaction.ts\<close>). Notifications, logging and spans are left out; the
  lookups made for a notification are kept because they can fail.
\<close>

subsection \<open>process-pending-invoice-result.ts\<close>

datatype processed_reason = InvoiceNotFound | InvoiceCanceled | InvoiceNotFoundOrCanceled

datatype process_result =
    processAsPaid
  | processAsPaidWithError error
  | processAsCanceledOrExpired processed_reason
  | notPaid
  | process_err error

text \<open>An error becomes the result \<open>err(e)\<close>, or \<open>processAsPaidWithError(e)\<close> once the receipt is booked.\<close>

definition as_result :: "(error \<Rightarrow> process_result) \<Rightarrow> ('w, process_result) ledger_op \<Rightarrow> ('w, process_result) ledger_op" where
  "as_result wrap m s =
     (case m s of (Some (Inl e), s') \<Rightarrow> (Some (Inr (wrap e)), s') | r \<Rightarrow> r)"

subsection \<open>decline-single-pending-invoice.ts\<close>

text \<open>
  For an invoice that is not held the source evaluates \<open>ProcessPendingInvoiceResult.notPaid()\<close>
  without returning it, so that branch changes nothing.
\<close>

definition processPendingInvoiceForDecline ::
  "('e, 'w) app_env \<Rightarrow> wallet_invoice \<Rightarrow> ('w, process_result) ledger_op" where
  "processPendingInvoiceForDecline ap walletInv =
     as_result process_err (
       lbind (check (ap_LndService ap)) (\<lambda>_.
       lbind (attempt (ap_lookupInvoice ap (wi_pubkey walletInv) (wi_paymentHash walletInv))) (\<lambda>lookup.
       case lookup of
         Inl e \<Rightarrow> if e = InvoiceNotFoundError then lreturn (processAsCanceledOrExpired InvoiceNotFound) else lerror e
       | Inr lnInvoiceLookup \<Rightarrow>
           if il_isSettled lnInvoiceLookup then lreturn (processAsPaidWithError InvalidNonHodlInvoiceError)
           else
             lbind (call (ap_cancelInvoice ap (wi_pubkey walletInv) (wi_paymentHash walletInv))) (\<lambda>_.
               lreturn processAsPaid))))"

definition declineHeldInvoice :: "('e, 'w) app_env \<Rightarrow> wallet_invoice \<Rightarrow> ('w, bool) ledger_op" where
  "declineHeldInvoice ap walletInv =
     lbind (processPendingInvoiceForDecline ap walletInv) (\<lambda>result.
       case result of
         processAsCanceledOrExpired _ \<Rightarrow>
           lbind (call (ap_invoices_markAsProcessingCompleted ap (wi_paymentHash walletInv))) (\<lambda>_. lreturn True)
       | process_err e \<Rightarrow> lerror e
       | _ \<Rightarrow> lreturn True)"

subsection \<open>update-single-pending-invoice.ts\<close>

definition completed_result :: "wallet_invoice \<Rightarrow> process_result" where
  "completed_result walletInv =
     (if wi_paid walletInv then processAsPaid else processAsCanceledOrExpired InvoiceNotFoundOrCanceled)"

definition received_amounts :: "received_wallet_invoice \<Rightarrow> amounts_and_fees" where
  "received_amounts r =
     \<lparr>af_btcPaymentAmount = rw_btcToCreditReceiver r, af_usdPaymentAmount = rw_usdToCreditReceiver r,
      af_btcProtocolAndBankFee = rw_btcBankFee r, af_usdProtocolAndBankFee = rw_usdBankFee r\<rparr>"

definition ln_receive_args ::
  "wallet_invoice \<Rightarrow> received_wallet_invoice \<Rightarrow> string \<Rightarrow> string \<Rightarrow> string \<Rightarrow> display_txn_amounts \<Rightarrow>
   record_receive_args" where
  "ln_receive_args walletInv r paymentHash description externalId d =
     (let lm = LnReceiveLedgerMetadata paymentHash (wi_pubkey walletInv) (received_amounts r) d
      in \<lparr>rr_description = description, rr_recipientWalletDescriptor = rw_recipientWalletDescriptor r,
          rr_amountToCreditReceiver = \<lparr>btc = rw_btcToCreditReceiver r, usd = rw_usdToCreditReceiver r\<rparr>,
          rr_bankFee = Some \<lparr>btc = rw_btcBankFee r, usd = rw_usdBankFee r\<rparr>,
          rr_externalId = Some externalId, rr_metadata = lm_metadata lm,
          rr_txMetadata_hash = Some paymentHash, rr_txMetadata_revealedPreImage = Some (wi_secret walletInv),
          rr_additionalCreditMetadata = lm_creditAccountAdditionalMetadata lm,
          rr_additionalInternalMetadata = lm_internalAccountsAdditionalMetadata lm\<rparr>)"

text \<open>What follows the booking: the recipient is looked up for a notification.\<close>

definition notify_receiver ::
  "('e, 'w) app_env \<Rightarrow> account \<Rightarrow> string \<Rightarrow> string \<Rightarrow> ('w, unit) ledger_op" where
  "notify_receiver ap recipientAccount walletId journalId =
     lbind (query (ap_users_findById ap (ac_kratosUserId recipientAccount))) (\<lambda>_.
     lbind (getTransactionForWalletByJournalId (ap_ledger ap) walletId journalId) (\<lambda>_.
     lbind (getNonEndUserWalletIds (ap_ledger ap)) (\<lambda>_. lreturn ())))"

definition lockedUpdatePendingInvoiceSteps ::
  "('e, 'w) app_env \<Rightarrow> string \<Rightarrow> string \<Rightarrow> payment_amount \<Rightarrow> string \<Rightarrow> string \<Rightarrow> bool \<Rightarrow>
   ('w, process_result) ledger_op" where
  "lockedUpdatePendingInvoiceSteps ap paymentHash recipientWalletId receivedBtc description externalId isSettledInLnd =
     as_result process_err (
       lbind (query (ap_invoices_findByPaymentHash ap paymentHash)) (\<lambda>walletInv.
       if wi_processingCompleted walletInv then lreturn (completed_result walletInv)
       else
         lbind (query (ap_wallets_findById ap recipientWalletId)) (\<lambda>recipientInvoiceWallet.
         lbind (query (ap_findAccountWallets ap (wallet_accountId recipientInvoiceWallet))) (\<lambda>accountWallets.
         lbind (call (WalletInvoiceReceiver_withConversion walletInv accountWallets receivedBtc ZERO_SATS
             (usdFromBtcMidPriceFn (ap_prices ap)) (ap_getCentsFromSatsForImmediateBuy ap))) (\<lambda>received.
         lbind (query (ap_accounts_findById ap (wallet_accountId recipientInvoiceWallet))) (\<lambda>recipientAccount.
         lbind (displayAmountsFor ap (ac_displayCurrency recipientAccount) (received_amounts received)) (\<lambda>ds.
         lbind (if isSettledInLnd then lreturn ()
                else lbind (check (ap_LndService ap)) (\<lambda>_.
                  call (ap_settleInvoice ap (wi_pubkey walletInv) (wi_secret walletInv)))) (\<lambda>_.
         lbind (call (ap_invoices_markAsPaid ap paymentHash)) (\<lambda>_.
         lbind (recordReceiveOffChain (ap_ledger ap) (ln_receive_args walletInv received paymentHash description
             externalId (display_txn ds (ac_displayCurrency recipientAccount)))) (\<lambda>journal.
           as_result processAsPaidWithError (
             lbind (notify_receiver ap recipientAccount (wallet_id (rw_recipientWalletDescriptor received))
               (lj_journalId journal)) (\<lambda>_. lreturn processAsPaid))))))))))))"

definition checkedToSats :: "jsnum \<Rightarrow> error + jsnum" where
  "checkedToSats a =
     (if \<not> (js_truthy a \<and> js_lt (Fin 0) a) then Inl InvalidSatoshiAmountError
      else if gt_big a (amount MAX_SATS) then Inl BtcAmountTooLargeError
      else Inr a)"

definition processPendingInvoice ::
  "('e, 'w) app_env \<Rightarrow> wallet_invoice \<Rightarrow> ('w, process_result) ledger_op" where
  "processPendingInvoice ap walletInv =
     as_result process_err (
       lbind (check (ap_LndService ap)) (\<lambda>_.
       lbind (attempt (ap_lookupInvoice ap (wi_pubkey walletInv) (wi_paymentHash walletInv))) (\<lambda>lookup.
       case lookup of
         Inl e \<Rightarrow> if e = InvoiceNotFoundError then lreturn (processAsCanceledOrExpired InvoiceNotFound) else lerror e
       | Inr lnInvoiceLookup \<Rightarrow>
           if wi_processingCompleted walletInv then lreturn (completed_result walletInv)
           else if il_isCanceled lnInvoiceLookup then lreturn (processAsCanceledOrExpired InvoiceCanceled)
           else if \<not> il_isHeld lnInvoiceLookup \<and> \<not> il_isSettled lnInvoiceLookup then lreturn notPaid
           else case rbind (checkedToSats (il_roundedDownReceived lnInvoiceLookup))
                       (\<lambda>received. paymentAmountFromNumber received Btc) of
             Inl _ \<Rightarrow> processPendingInvoiceForDecline ap walletInv
           | Inr receivedBtc \<Rightarrow>
               lbind (call (ap_lock ap (getPaymentHashLockResource (wi_paymentHash walletInv)))) (\<lambda>_.
                 lockedUpdatePendingInvoiceSteps ap (wi_paymentHash walletInv)
                   (wallet_id (wi_recipientWalletDescriptor walletInv)) receivedBtc
                   (il_description lnInvoiceLookup) (wi_externalId walletInv) (il_isSettled lnInvoiceLookup)))))"

definition updatePendingInvoice :: "('e, 'w) app_env \<Rightarrow> wallet_invoice \<Rightarrow> ('w, bool) ledger_op" where
  "updatePendingInvoice ap walletInv =
     lbind (processPendingInvoice ap walletInv) (\<lambda>result.
       if wi_processingCompleted walletInv then lreturn True
       else
         let markPaid = (\<lambda>k. lbind (attempt (ap_invoices_markAsPaid ap (wi_paymentHash walletInv))) (\<lambda>marked.
               case marked of
                 Inl e \<Rightarrow> if e = CouldNotFindWalletInvoiceError then k else lerror e
               | Inr _ \<Rightarrow> k))
         in case result of
              processAsCanceledOrExpired _ \<Rightarrow>
                lbind (call (ap_invoices_markAsProcessingCompleted ap (wi_paymentHash walletInv))) (\<lambda>_. lreturn True)
            | processAsPaid \<Rightarrow> markPaid (lreturn True)
            | processAsPaidWithError e \<Rightarrow> markPaid (lerror e)
            | process_err e \<Rightarrow> lerror e
            | notPaid \<Rightarrow> lreturn True)"

subsection \<open>handle-held-invoices.ts and cancel-invoice-for-wallet.ts\<close>

definition handleHeldInvoice :: "('e, 'w) app_env \<Rightarrow> int \<Rightarrow> wallet_invoice \<Rightarrow> ('w, bool) ledger_op" where
  "handleHeldInvoice ap now walletInv =
     (if shouldDecline now (Inr walletInv) then declineHeldInvoice ap walletInv else updatePendingInvoice ap walletInv)"

definition handleHeldInvoiceByPaymentHash :: "('e, 'w) app_env \<Rightarrow> int \<Rightarrow> string \<Rightarrow> ('w, bool) ledger_op" where
  "handleHeldInvoiceByPaymentHash ap now paymentHash =
     lbind (query (ap_invoices_findByPaymentHash ap paymentHash)) (\<lambda>walletInv. handleHeldInvoice ap now walletInv)"

definition AccountValidator_active :: "account \<Rightarrow> error + unit" where
  "AccountValidator_active account = (if \<not> ac_isActive account then Inl InactiveAccountError else Inr ())"

text \<open>
  A failure to mark the invoice returns the result of the cancellation, which is \<open>true\<close> there.
  The wallet id was checked by the caller.
\<close>

definition cancelInvoiceForWallet ::
  "('e, 'w) app_env \<Rightarrow> int \<Rightarrow> string \<Rightarrow> string \<Rightarrow> ('w, bool) ledger_op" where
  "cancelInvoiceForWallet ap now walletId paymentHash =
     lbind (query (ap_wallets_findById ap walletId)) (\<lambda>wallet.
     lbind (query (ap_accounts_findById ap (wallet_accountId wallet))) (\<lambda>account.
     lbind (check (AccountValidator_active account)) (\<lambda>_.
     lbind (call (ap_lock ap (getPaymentHashLockResource paymentHash))) (\<lambda>_.
     lbind (query (ap_invoices_findForWalletByPaymentHash ap walletId paymentHash)) (\<lambda>walletInv.
     if wi_processingCompleted walletInv \<or> invoice_status walletInv now \<noteq> WIS_Pending
     then lerror InvoiceAlreadyProcessedError
     else
       lbind (check (ap_LndService ap)) (\<lambda>_.
       lbind (call (ap_lookupInvoice ap (wi_pubkey walletInv) paymentHash)) (\<lambda>lookup.
       if il_isSettled lookup \<or> il_isHeld lookup then lerror InvoiceAlreadyProcessedError
       else
         lbind (call (ap_cancelInvoice ap (wi_pubkey walletInv) paymentHash)) (\<lambda>_.
         lbind (attempt (ap_invoices_markAsProcessingCompleted ap paymentHash)) (\<lambda>_. lreturn True)))))))))"

subsection \<open>add-settled-on-chain-transaction.ts\<close>

text \<open>The modelled classes that extend \<open>CouldNotFindError\<close>.\<close>

definition isCouldNotFindError :: "error \<Rightarrow> bool" where
  "isCouldNotFindError e \<longleftrightarrow>
     e = CouldNotFindWalletInvoiceError \<or> e = CouldNotFindBtcWalletForAccountError \<or>
     e = CouldNotFindWalletFromOnChainAddressError \<or> e = CouldNotFindWalletOnChainPendingReceiveError"

record deposit_config =
  dc_dustThreshold :: jsnum
  dc_depositDefaultMin :: payment_amount
  dc_depositThreshold :: payment_amount
  dc_depositRatioAsBasisPoints :: int

record deposit =
  dp_txId :: string
  dp_vout :: jsnum
  dp_satoshis :: payment_amount
  dp_address :: string

definition deposit_amounts :: "wallet_address_receiver \<Rightarrow> amounts_and_fees" where
  "deposit_amounts r =
     \<lparr>af_btcPaymentAmount = wa_btcToCreditReceiver r, af_usdPaymentAmount = wa_usdToCreditReceiver r,
      af_btcProtocolAndBankFee = wa_btcBankFee r, af_usdProtocolAndBankFee = wa_usdBankFee r\<rparr>"

definition onchain_receive_args ::
  "deposit \<Rightarrow> wallet_descriptor \<Rightarrow> wallet_address_receiver \<Rightarrow> display_txn_amounts \<Rightarrow> string option \<Rightarrow>
   record_receive_args" where
  "onchain_receive_args dep wallet r d newAddressRequestId =
     (let lm = OnChainReceiveLedgerMetadata (dp_txId dep) (dp_vout dep) (deposit_amounts r) d [dp_address dep]
            newAddressRequestId
      in \<lparr>rr_description = [], rr_recipientWalletDescriptor = wallet,
          rr_amountToCreditReceiver = \<lparr>btc = wa_btcToCreditReceiver r, usd = wa_usdToCreditReceiver r\<rparr>,
          rr_bankFee = Some \<lparr>btc = wa_btcBankFee r, usd = wa_usdBankFee r\<rparr>,
          rr_externalId = None, rr_metadata = lm_metadata lm, rr_txMetadata_hash = None,
          rr_txMetadata_revealedPreImage = None,
          rr_additionalCreditMetadata = lm_creditAccountAdditionalMetadata lm,
          rr_additionalInternalMetadata = lm_internalAccountsAdditionalMetadata lm\<rparr>)"

text \<open>A new address is requested when the deposit used the wallet's last one.\<close>

definition nextAddressRequest ::
  "('e, 'w) app_env \<Rightarrow> string \<Rightarrow> string \<Rightarrow> ('w, string option) ledger_op" where
  "nextAddressRequest ap walletId address =
     lbind (attempt (ap_getLastOnChainAddress ap walletId)) (\<lambda>currentAddress.
       if currentAddress = Inr address then lbind (call (ap_randomUUID ap)) (\<lambda>u. lreturn (Some u))
       else lreturn None)"

definition lockedAddSettledTransaction ::
  "('e, 'w) app_env \<Rightarrow> deposit_config \<Rightarrow> deposit \<Rightarrow> wallet_descriptor \<Rightarrow> ('w, string option) ledger_op" where
  "lockedAddSettledTransaction ap cfg dep wallet =
     lbind (isOnChainReceiptTxRecordedForWallet (ap_ledger ap) (wallet_id wallet) (dp_txId dep) (dp_vout dep))
       (\<lambda>(recorded, recordedAddressRequestId).
     if recorded then lreturn recordedAddressRequestId
     else
       lbind (query (ap_accounts_findById ap (wallet_accountId wallet))) (\<lambda>account.
       let fee = onChainDepositFee (dp_satoshis dep) (dc_depositDefaultMin cfg) (dc_depositThreshold cfg)
                   (dc_depositRatioAsBasisPoints cfg) in
       lbind (call (WalletAddressReceiver wallet (dp_satoshis dep) fee (ap_getCentsFromSatsForImmediateBuy ap)
           (usdFromBtcMidPriceFn (ap_prices ap)))) (\<lambda>r.
       lbind (displayAmountsFor ap (ac_displayCurrency account) (deposit_amounts r)) (\<lambda>ds.
       lbind (nextAddressRequest ap (wallet_id wallet) (dp_address dep)) (\<lambda>newAddressRequestId.
       lbind (recordReceiveOnChain (ap_ledger ap) (onchain_receive_args dep wallet r
           (display_txn ds (ac_displayCurrency account)) newAddressRequestId)) (\<lambda>journal.
       lbind (notify_receiver ap account (wallet_id wallet) (lj_journalId journal)) (\<lambda>_.
         lreturn newAddressRequestId)))))))"

definition addSettledTransactionBeforeFinally ::
  "('e, 'w) app_env \<Rightarrow> deposit_config \<Rightarrow> deposit \<Rightarrow> ('w, wallet_descriptor \<times> string option) ledger_op" where
  "addSettledTransactionBeforeFinally ap cfg dep =
     (if gt_big (dc_dustThreshold cfg) (amount (dp_satoshis dep)) then lerror LessThanDustThresholdError
      else
        lbind (query (ap_wallets_findByAddress ap (dp_address dep))) (\<lambda>wallet.
        lbind (call (ap_lock ap (getOnChainTxHashAndVoutLockResource (dp_txId dep) (dp_vout dep)))) (\<lambda>_.
        lbind (lockedAddSettledTransaction ap cfg dep wallet) (\<lambda>newAddressRequestId.
          lreturn (wallet, newAddressRequestId)))))"

definition addSettledTransaction ::
  "('e, 'w) app_env \<Rightarrow> deposit_config \<Rightarrow> deposit \<Rightarrow> ('w, bool) ledger_op" where
  "addSettledTransaction ap cfg dep =
     lbind (addSettledTransactionBeforeFinally ap cfg dep) (\<lambda>(walletDescriptor, newAddressRequestId).
     lbind (attempt (ap_pendingReceive_remove ap (wallet_id walletDescriptor) (dp_txId dep) (dp_vout dep))) (\<lambda>removed.
     lbind (case removed of
              Inl e \<Rightarrow> if isCouldNotFindError e then lreturn () else lerror e
            | Inr _ \<Rightarrow> lreturn ()) (\<lambda>_.
     if str_truthy newAddressRequestId
     then lbind (call (ap_createOnChainAddress ap (wallet_id walletDescriptor) (str_default newAddressRequestId [])))
            (\<lambda>_. lreturn True)
     else lreturn True)))"

end
