(* ===== verification/Send_Intraledger.thy ===== *)
theory Send_Intraledger
  imports Send_Lightning
begin

text \<open>
  Payments between wallets of the bank, under the sender's wallet lock: the function
  \<open>lockedPaymentViaIntraledgerSteps\<close> of \<open>send-lightning.ts\<close> for a local invoice, of
  \<open>send-intraledger.ts\<close> for a wallet id, and of \<open>send-on-chain.ts\<close> for a local address.
\<close>

text \<open>The display amounts of sender and recipient, in this order.\<close>

definition displayAmountsForBoth ::
  "('e, 'w) app_env \<Rightarrow> string \<Rightarrow> string \<Rightarrow> amounts_and_fees \<Rightarrow>
   ('w, display_txn_amounts \<times> display_txn_amounts) ledger_op" where
  "displayAmountsForBoth ap senderCur recipientCur amounts =
     lbind (displayAmountsFor ap senderCur amounts) (\<lambda>ds.
     lbind (displayAmountsFor ap recipientCur amounts) (\<lambda>dr.
       lreturn (display_txn ds senderCur, display_txn dr recipientCur)))"

definition both_display :: "display_txn_amounts \<Rightarrow> display_txn_amounts \<Rightarrow> intraledger_display_args" where
  "both_display ds dr =
     \<lparr>senderAmountDisplayCurrency = dt_displayAmount ds, senderFeeDisplayCurrency = dt_displayFee ds,
      senderDisplayCurrency = dt_displayCurrency ds,
      recipientAmountDisplayCurrency = dt_displayAmount dr,
      recipientFeeDisplayCurrency = dt_displayFee dr,
      recipientDisplayCurrency = dt_displayCurrency dr\<rparr>"

text \<open>\<open>memo || undefined\<close>\<close>

definition memo_or_undefined :: "string option \<Rightarrow> string option" where
  "memo_or_undefined memo = (if str_truthy memo then memo else None)"

definition intraledger_args ::
  "string \<Rightarrow> 'a payment_flow_common_scheme \<Rightarrow> wallet_descriptor \<Rightarrow> ledger_metadata \<Rightarrow> record_intraledger_args" where
  "intraledger_args description f recipient lm =
     \<lparr>ri_description = description, ri_senderWalletDescriptor = senderWalletDescriptor f,
      ri_recipientWalletDescriptor = recipient,
      ri_amount = \<lparr>btc = pf_btcPaymentAmount f, usd = pf_usdPaymentAmount f\<rparr>,
      ri_metadata = lm_metadata lm,
      ri_additionalDebitMetadata = lm_debitAccountAdditionalMetadata lm,
      ri_additionalCreditMetadata = lm_creditAccountAdditionalMetadata lm,
      ri_additionalInternalMetadata = lm_internalAccountsAdditionalMetadata lm\<rparr>"

record intraledger_parties =
  ip_senderDisplayCurrency :: string
  ip_senderUsername :: "string option"
  ip_recipientDisplayCurrency :: string
  ip_recipientUsername :: "string option"
  ip_memo :: "string option"

subsection \<open>send-lightning.ts\<close>

definition ln_intraledger_metadata ::
  "payment_flow \<Rightarrow> intraledger_parties \<Rightarrow> wallet_descriptor \<Rightarrow> string \<Rightarrow> string \<Rightarrow>
   display_txn_amounts \<times> display_txn_amounts \<Rightarrow> ledger_metadata" where
  "ln_intraledger_metadata f ip recipient paymentHash pubkey d =
     (if wallet_accountId (senderWalletDescriptor f) = wallet_accountId recipient
      then LnTradeIntraAccountLedgerMetadata paymentHash pubkey (flow_amounts f)
             (memo_or_undefined (ip_memo ip)) (fst d)
      else LnIntraledgerLedgerMetadata paymentHash pubkey (flow_amounts f) (memo_or_undefined (ip_memo ip))
             (ip_senderUsername ip) (ip_recipientUsername ip) (both_display (fst d) (snd d)))"

definition ln_lockedPaymentViaIntraledgerSteps ::
  "('e, 'w) app_env \<Rightarrow> bool \<Rightarrow> string \<Rightarrow> payment_flow \<Rightarrow> intraledger_parties \<Rightarrow>
   ('w, intraledger_send_result) ledger_op" where
  "ln_lockedPaymentViaIntraledgerSteps ap aborted paymentHash f ip =
     (let env = ap_ledger ap; details = recipientDetails f in
      case (rd_walletDescriptor details, rd_recipientPubkey details) of
        (Some recipient, Some pubkey) \<Rightarrow>
          if pubkey = [] then lerror (InvalidLightningPaymentFlowBuilderStateError ''Expected recipient details missing'')
          else
            lbind (isLnTxRecorded env paymentHash) (\<lambda>recorded.
            if recorded then lreturn IlSendAlreadyPaid
            else
              lbind (getWalletBalanceAmount env (senderWalletDescriptor f)) (\<lambda>bal.
              lbind (check (checkBalanceForSend f bal)) (\<lambda>_.
              lbind (displayAmountsForBoth ap (ip_senderDisplayCurrency ip) (ip_recipientDisplayCurrency ip)
                (flow_amounts f)) (\<lambda>d.
              lbind (guard_lock aborted) (\<lambda>_.
              lbind (recordIntraledger env (intraledger_args (pf_descriptionFromInvoice f) f recipient
                (ln_intraledger_metadata f ip recipient paymentHash pubkey d))) (\<lambda>journal.
              lbind (check (ap_LndService ap)) (\<lambda>_.
              lbind (call (ap_cancelInvoice ap pubkey paymentHash)) (\<lambda>_.
              lbind (call (ap_invoices_markAsPaid ap paymentHash)) (\<lambda>_.
                lreturn (IlSendOk (lj_journalId journal)))))))))))
      | _ \<Rightarrow> lerror (InvalidLightningPaymentFlowBuilderStateError ''Expected recipient details missing''))"

subsection \<open>send-intraledger.ts\<close>

definition walletId_metadata ::
  "payment_flow \<Rightarrow> intraledger_parties \<Rightarrow> wallet_descriptor \<Rightarrow> display_txn_amounts \<times> display_txn_amounts \<Rightarrow>
   ledger_metadata" where
  "walletId_metadata f ip recipient d =
     (if wallet_accountId (senderWalletDescriptor f) = wallet_accountId recipient
      then WalletIdTradeIntraAccountLedgerMetadata (flow_amounts f) (memo_or_undefined (ip_memo ip)) (fst d)
      else WalletIdIntraledgerLedgerMetadata (flow_amounts f) (memo_or_undefined (ip_memo ip))
             (ip_senderUsername ip) (ip_recipientUsername ip) (both_display (fst d) (snd d)))"

definition walletId_lockedPaymentViaIntraledgerSteps ::
  "('e, 'w) app_env \<Rightarrow> bool \<Rightarrow> payment_flow \<Rightarrow> intraledger_parties \<Rightarrow> ('w, string) ledger_op" where
  "walletId_lockedPaymentViaIntraledgerSteps ap aborted f ip =
     (let env = ap_ledger ap in
      case recipientWalletDescriptor f of
        None \<Rightarrow> lerror (InvalidLightningPaymentFlowBuilderStateError ''Expected recipient details missing'')
      | Some recipient \<Rightarrow>
          lbind (getWalletBalanceAmount env (senderWalletDescriptor f)) (\<lambda>bal.
          lbind (check (checkBalanceForSend f bal)) (\<lambda>_.
          lbind (displayAmountsForBoth ap (ip_senderDisplayCurrency ip) (ip_recipientDisplayCurrency ip)
            (flow_amounts f)) (\<lambda>d.
          lbind (guard_lock aborted) (\<lambda>_.
          lbind (recordIntraledger env (intraledger_args (pf_descriptionFromInvoice f) f recipient
            (walletId_metadata f ip recipient d))) (\<lambda>journal.
            lreturn (lj_journalId journal)))))))"

subsection \<open>send-on-chain.ts\<close>

definition onchain_intraledger_metadata ::
  "onchain_payment_flow \<Rightarrow> intraledger_parties \<Rightarrow> wallet_descriptor \<Rightarrow> string list \<Rightarrow> bool \<Rightarrow>
   display_txn_amounts \<times> display_txn_amounts \<Rightarrow> ledger_metadata" where
  "onchain_intraledger_metadata f ip recipient payeeAddresses sendAllFlag d =
     (if wallet_accountId (senderWalletDescriptor f) = wallet_accountId recipient
      then OnChainTradeIntraAccountLedgerMetadata payeeAddresses sendAllFlag (flow_amounts f)
             (memo_or_undefined (ip_memo ip)) (fst d)
      else OnChainIntraledgerLedgerMetadata payeeAddresses sendAllFlag (flow_amounts f)
             (memo_or_undefined (ip_memo ip)) (ip_senderUsername ip) (ip_recipientUsername ip)
             (both_display (fst d) (snd d)))"

definition onchain_lockedPaymentViaIntraledgerSteps ::
  "('e, 'w) app_env \<Rightarrow> bool \<Rightarrow> onchain_payment_flow \<Rightarrow> intraledger_parties \<Rightarrow> bool \<Rightarrow>
   ('w, string) ledger_op" where
  "onchain_lockedPaymentViaIntraledgerSteps ap aborted f ip sendAllFlag =
     (let env = ap_ledger ap in
      case rd_walletDescriptor (recipientDetails f) of
        None \<Rightarrow> lerror (InvalidLightningPaymentFlowBuilderStateError ''Expected recipient details missing'')
      | Some recipient \<Rightarrow>
          lbind (getWalletBalanceAmount env (senderWalletDescriptor f)) (\<lambda>bal.
          lbind (check (checkBalanceForSend f bal)) (\<lambda>_.
          lbind (guard_lock aborted) (\<lambda>_.
          lbind (check (addressForFlow f)) (\<lambda>address.
          lbind (check (WalletPriceRatio (pf_usdPaymentAmount f) (pf_btcPaymentAmount f))) (\<lambda>_.
          lbind (displayAmountsForBoth ap (ip_senderDisplayCurrency ip) (ip_recipientDisplayCurrency ip)
            (flow_amounts f)) (\<lambda>d.
          lbind (recordIntraledger env (intraledger_args [] f recipient
            (onchain_intraledger_metadata f ip recipient [address] sendAllFlag d))) (\<lambda>journal.
            lreturn (lj_journalId journal)))))))))"

end
