(* ===== verification/Onchain_Flow.thy ===== *)
theory Onchain_Flow
  imports Lightning_Flow
begin

text \<open>
  The on-chain payment flow builder: \<open>domain/payments/onchain-payment-flow-builder.ts\<close>. As for
  lightning, each stage is a record and each method a function to the next stage. The fee
  configuration is read from the configuration file and is an argument; so are the clock, the
  volume functions of the ledger and the address lookup, which are part of the builder's own
  configuration object.
\<close>

record fees_config =
  fc_withdrawMethod :: withdrawal_fee_method
  fc_withdrawRatioAsBasisPoints :: int
  fc_withdrawThreshold :: int
  fc_withdrawDaysLookback :: int
  fc_withdrawDefaultMin :: jsnum

definition onChainFees :: "fees_config \<Rightarrow> onchain_withdrawal_config" where
  "onChainFees fc =
     \<lparr>thresholdImbalance = \<lparr>currency = Btc, amount = fc_withdrawThreshold fc\<rparr>,
      feeRatioAsBasisPoints = fc_withdrawRatioAsBasisPoints fc\<rparr>"

record opfb_config =
  netInVolumeAmountLightningFn :: volume_fn
  netInVolumeAmountOnChainFn :: volume_fn
  isExternalAddress :: "string \<Rightarrow> bool"
  sendAll :: bool
  dustThreshold :: jsnum

record opfb_address_state = opfb_config +
  op_paymentInitiationMethod :: payment_initiation_method
  op_address :: string

record opfb_sender_state = opfb_address_state +
  op_senderWalletId :: string
  op_senderWalletCurrency :: wallet_currency
  op_senderAccountId :: string
  op_senderWithdrawFee :: "jsnum option"

record opfb_recipient_state = opfb_sender_state +
  op_settlementMethod :: settlement_method
  op_recipientWalletId :: "string option"
  op_recipientWalletCurrency :: "wallet_currency option"
  op_recipientUsername :: "string option"
  op_recipientUserId :: "string option"
  op_recipientAccountId :: "string option"
  op_recipientWalletDescriptors :: "account_wallets option"

record opfb_amount_state = opfb_recipient_state +
  op_inputAmount :: int
  op_btcProposedAmount :: "payment_amount option"
  op_usdProposedAmount :: "payment_amount option"

record opfb_conversion_state =
  oc_state :: opfb_amount_state
  oc_createdAt :: int
  oc_btcProposedAmount :: payment_amount
  oc_usdProposedAmount :: payment_amount

definition OPFBWithError :: "error \<Rightarrow> error + 's" where
  "OPFBWithError e = Inl e"

definition withAddress :: "opfb_config \<Rightarrow> string \<Rightarrow> opfb_address_state" where
  "withAddress config address =
     opfb_config.extend config (opfb_address_state.fields PI_OnChain address)"

definition withSenderWalletAndAccount ::
  "opfb_address_state \<Rightarrow> wallet_descriptor \<Rightarrow> jsnum option \<Rightarrow> opfb_sender_state" where
  "withSenderWalletAndAccount state wallet account_withdrawFee =
     opfb_address_state.extend state (opfb_sender_state.fields (wallet_id wallet)
       (wallet_currency wallet) (wallet_accountId wallet) account_withdrawFee)"

definition OPFB_withoutRecipientWallet :: "opfb_sender_state \<Rightarrow> error + opfb_recipient_state" where
  "OPFB_withoutRecipientWallet state =
     Inr (opfb_sender_state.extend state
       (opfb_recipient_state.fields SM_OnChain None None None None None None))"

record opfb_recipient_args =
  oa_defaultWalletCurrency :: wallet_currency
  oa_recipientWalletDescriptors :: account_wallets
  oa_userId :: string
  oa_username :: "string option"

definition OPFB_withRecipientWallet ::
  "opfb_sender_state \<Rightarrow> opfb_recipient_args \<Rightarrow> error + opfb_recipient_state" where
  "OPFB_withRecipientWallet state args =
     (let cur = oa_defaultWalletCurrency args;
          wallet = account_wallet (oa_recipientWalletDescriptors args) cur
      in if wallet_id wallet = op_senderWalletId state then OPFBWithError SelfPaymentError
         else Inr (opfb_sender_state.extend state
           (opfb_recipient_state.fields SM_IntraLedger (Some (wallet_id wallet)) (Some cur)
              (oa_username args) (Some (oa_userId args)) (Some (wallet_accountId wallet))
              (Some (oa_recipientWalletDescriptors args)))))"

definition OPFB_isIntraLedger :: "opfb_sender_state \<Rightarrow> bool" where
  "OPFB_isIntraLedger state \<longleftrightarrow> \<not> isExternalAddress state (op_address state)"

definition withAmount :: "opfb_recipient_state \<Rightarrow> payment_amount \<Rightarrow> opfb_amount_state" where
  "withAmount state paymentAmount =
     (if currency paymentAmount = Btc
      then opfb_recipient_state.extend state
             (opfb_amount_state.fields (amount paymentAmount) (Some paymentAmount) None)
      else opfb_recipient_state.extend state
             (opfb_amount_state.fields (amount paymentAmount) None (Some paymentAmount)))"

subsection \<open>OPFBWithAmount\<close>

definition OPFB_currentState ::
  "opfb_amount_state \<Rightarrow> int \<Rightarrow> payment_amount \<Rightarrow> payment_amount \<Rightarrow> error + opfb_conversion_state" where
  "OPFB_currentState state now btcAmt usdAmt =
     Inr \<lparr>oc_state = state, oc_createdAt = now, oc_btcProposedAmount = btcAmt,
          oc_usdProposedAmount = usdAmt\<rparr>"

definition updatedStateFromBtcProposedAmountMid ::
  "with_conversion_args \<Rightarrow> opfb_amount_state \<Rightarrow> int \<Rightarrow> payment_amount \<Rightarrow> wallet_descriptor option \<Rightarrow>
   error + opfb_conversion_state" where
  "updatedStateFromBtcProposedAmountMid args state now btcAmt recipientWallet =
     rbind (usdFromBtc (mid args) btcAmt) (\<lambda>convertedAmountRaw.
       let convertedAmount =
             (if amount btcAmt > 0 \<and> amount convertedAmountRaw = 0 then ONE_CENT
              else convertedAmountRaw)
       in rbind (WalletPriceRatio convertedAmount btcAmt) (\<lambda>priceRatio.
            Inr \<lparr>oc_state = (case recipientWallet of
                     None \<Rightarrow> state
                   | Some w \<Rightarrow> state\<lparr>op_recipientWalletId := Some (wallet_id w),
                                   op_recipientWalletCurrency := Some (wallet_currency w)\<rparr>),
                 oc_createdAt = now, oc_btcProposedAmount = btcAmt,
                 oc_usdProposedAmount = convertedAmount\<rparr>))"

definition updatedStateFromUsdProposedAmountMid ::
  "with_conversion_args \<Rightarrow> opfb_amount_state \<Rightarrow> int \<Rightarrow> payment_amount \<Rightarrow> error + opfb_conversion_state" where
  "updatedStateFromUsdProposedAmountMid args state now usdAmt =
     rbind (btcFromUsd (mid args) usdAmt) (\<lambda>convertedAmount.
     rbind (WalletPriceRatio usdAmt convertedAmount) (\<lambda>priceRatio.
       Inr \<lparr>oc_state = state, oc_createdAt = now, oc_btcProposedAmount = convertedAmount,
            oc_usdProposedAmount = usdAmt\<rparr>))"

definition updatedStateFromBtcProposedAmountDealer ::
  "with_conversion_args \<Rightarrow> opfb_amount_state \<Rightarrow> int \<Rightarrow> payment_amount \<Rightarrow> error + opfb_conversion_state" where
  "updatedStateFromBtcProposedAmountDealer args state now btcAmt =
     (let convert = (if op_senderWalletCurrency state = Btc then usdFromBtc (hedgeBuyUsd args)
                     else usdFromBtc (hedgeSellUsd args))
      in rbind (convert btcAmt) (\<lambda>convertedAmount.
         rbind (WalletPriceRatio convertedAmount btcAmt) (\<lambda>priceRatio.
           Inr \<lparr>oc_state = state, oc_createdAt = now, oc_btcProposedAmount = btcAmt,
                oc_usdProposedAmount = convertedAmount\<rparr>)))"

definition updatedStateFromUsdProposedAmountDealer ::
  "with_conversion_args \<Rightarrow> opfb_amount_state \<Rightarrow> int \<Rightarrow> payment_amount \<Rightarrow> error + opfb_conversion_state" where
  "updatedStateFromUsdProposedAmountDealer args state now usdAmt =
     (let convert = (if op_senderWalletCurrency state = Btc then btcFromUsd (hedgeBuyUsd args)
                     else btcFromUsd (hedgeSellUsd args))
      in rbind (convert usdAmt) (\<lambda>convertedAmount.
         rbind (WalletPriceRatio usdAmt convertedAmount) (\<lambda>priceRatio.
           Inr \<lparr>oc_state = state, oc_createdAt = now, oc_btcProposedAmount = convertedAmount,
                oc_usdProposedAmount = usdAmt\<rparr>)))"

definition updatedStateFromBtcProposedAmountDealerFallbackMid ::
  "with_conversion_args \<Rightarrow> opfb_amount_state \<Rightarrow> int \<Rightarrow> payment_amount \<Rightarrow> error + opfb_conversion_state" where
  "updatedStateFromBtcProposedAmountDealerFallbackMid args state now btcAmt =
     (let updatedState = updatedStateFromBtcProposedAmountDealer args state now btcAmt in
      if (case updatedState of Inl e \<Rightarrow> e \<noteq> InvalidZeroAmountPriceRatioInputError | Inr _ \<Rightarrow> True)
      then updatedState
      else case op_recipientWalletDescriptors state of
             None \<Rightarrow> Inl (InvalidLightningPaymentFlowBuilderStateError
                       ''expected recipient BTC wallet missing'')
           | Some ws \<Rightarrow>
               if wallet_id (wallets_BTC ws) = op_senderWalletId state
               then Inl SubOneCentSatAmountForUsdSelfSendError
               else updatedStateFromBtcProposedAmountMid args state now btcAmt
                      (Some (wallets_BTC ws)))"

definition OPFB_noConversionRequired :: "opfb_amount_state \<Rightarrow> bool" where
  "OPFB_noConversionRequired state \<longleftrightarrow>
     (op_senderWalletCurrency state = Btc \<and> op_settlementMethod state = SM_OnChain) \<or>
     op_recipientWalletCurrency state = Some (op_senderWalletCurrency state)"

definition OPFB_withConversion ::
  "with_conversion_args \<Rightarrow> int \<Rightarrow> opfb_amount_state \<Rightarrow> error + opfb_conversion_state" where
  "OPFB_withConversion args now state =
     (if OPFB_noConversionRequired state then
        (case (op_btcProposedAmount state, op_usdProposedAmount state) of
           (Some b, Some u) \<Rightarrow> OPFB_currentState state now b u
         | (Some b, None) \<Rightarrow> updatedStateFromBtcProposedAmountMid args state now b None
         | (None, Some u) \<Rightarrow> updatedStateFromUsdProposedAmountMid args state now u
         | (None, None) \<Rightarrow> OPFBWithError (InvalidOnChainPaymentFlowBuilderStateError
             ''withConversion - btcProposedAmount || btcProtocolAndBankFee not set''))
      else
        (case (op_btcProposedAmount state, op_usdProposedAmount state) of
           (Some b, _) \<Rightarrow> updatedStateFromBtcProposedAmountDealerFallbackMid args state now b
         | (None, Some u) \<Rightarrow> updatedStateFromUsdProposedAmountDealer args state now u
         | (None, None) \<Rightarrow> OPFBWithError (InvalidOnChainPaymentFlowBuilderStateError
             ''withConversion - impossible withConversion state'')))"

subsection \<open>OPFBWithConversion\<close>

definition validateBtcPaymentAmountForDust ::
  "opfb_conversion_state \<Rightarrow> payment_amount \<Rightarrow> error + payment_amount" where
  "validateBtcPaymentAmountForDust cs btcAmt =
     (if op_settlementMethod (oc_state cs) \<noteq> SM_IntraLedger \<and>
         gt_big (dustThreshold (oc_state cs)) (amount btcAmt)
      then Inl LessThanDustThresholdError else Inr btcAmt)"

definition stateFromPromise :: "opfb_conversion_state \<Rightarrow> error + opfb_conversion_state" where
  "stateFromPromise cs =
     (let state = oc_state cs;
          settlementMethodFromAddress =
            (if \<not> isExternalAddress state (op_address state) then SM_IntraLedger else SM_OnChain)
      in if op_settlementMethod state \<noteq> settlementMethodFromAddress \<or>
            (op_settlementMethod state = SM_IntraLedger \<and> \<not> str_truthy (op_recipientWalletId state))
         then Inl (InvalidOnChainPaymentFlowBuilderStateError
           ''withoutRecipientWallet called but settlementMethod is IntraLedger'')
         else rbind (validateBtcPaymentAmountForDust cs (oc_btcProposedAmount cs)) (\<lambda>_. Inr cs))"

text \<open>\<open>OnChainPaymentFlow({...state, ...})\<close>: the flow made of the state and the given amounts.\<close>

definition OnChainPaymentFlow ::
  "opfb_conversion_state \<Rightarrow> payment_amount \<Rightarrow> payment_amount \<Rightarrow> payment_amount \<Rightarrow> payment_amount \<Rightarrow>
   payment_amount \<Rightarrow> payment_amount \<Rightarrow> payment_amount option \<Rightarrow> onchain_payment_flow" where
  "OnChainPaymentFlow cs btcAmt usdAmt btcFee usdFee btcBank usdBank minerFee =
     (let state = oc_state cs in
      \<lparr>pf_btcPaymentAmount = btcAmt, pf_btcProtocolAndBankFee = btcFee,
       pf_usdPaymentAmount = usdAmt, pf_usdProtocolAndBankFee = usdFee,
       pf_senderWalletId = op_senderWalletId state,
       pf_senderWalletCurrency = op_senderWalletCurrency state,
       pf_senderAccountId = op_senderAccountId state,
       pf_settlementMethod = op_settlementMethod state,
       pf_paymentInitiationMethod = op_paymentInitiationMethod state,
       pf_createdAt = oc_createdAt cs,
       pf_paymentSentAndPending = False,
       pf_inputAmount = op_inputAmount state,
       pf_recipientWalletId = op_recipientWalletId state,
       pf_recipientWalletCurrency = op_recipientWalletCurrency state,
       pf_recipientAccountId = op_recipientAccountId state,
       pf_recipientPubkey = None,
       pf_recipientUsername = op_recipientUsername state,
       pf_recipientUserId = op_recipientUserId state,
       pf_outgoingNodePubkey = None,
       pf_cachedRoute = None,
       pf_address = Some (op_address state),
       pf_btcBankFee = btcBank,
       pf_usdBankFee = usdBank,
       pf_btcMinerFee = minerFee\<rparr>)"

definition withoutMinerFee :: "opfb_conversion_state \<Rightarrow> error + onchain_payment_flow" where
  "withoutMinerFee cs0 =
     rbind (stateFromPromise cs0) (\<lambda>cs.
       Inr (OnChainPaymentFlow cs (oc_btcProposedAmount cs) (oc_usdProposedAmount cs)
         (btc intraLedgerFees) (usd intraLedgerFees) ZERO_SATS ZERO_CENTS None))"

text \<open>With \<open>sendAll\<close> the fee is taken out of the amount, in the sender's currency.\<close>

definition sent_amounts ::
  "opfb_conversion_state \<Rightarrow> price_ratio \<Rightarrow> payment_amount \<Rightarrow> payment_amount \<Rightarrow>
   payment_amount \<times> payment_amount" where
  "sent_amounts cs pr btcFee usdFee =
     (if sendAll (oc_state cs) then
        (case op_senderWalletCurrency (oc_state cs) of
           Btc \<Rightarrow> (calc_sub (oc_btcProposedAmount cs) btcFee,
                  convertFromBtc pr (calc_sub (oc_btcProposedAmount cs) btcFee))
         | Usd \<Rightarrow> (convertFromUsd pr (calc_sub (oc_usdProposedAmount cs) usdFee),
                  calc_sub (oc_usdProposedAmount cs) usdFee))
      else (oc_btcProposedAmount cs, oc_usdProposedAmount cs))"

definition withMinerFee ::
  "fees_config \<Rightarrow> int \<Rightarrow> opfb_conversion_state \<Rightarrow> payment_amount \<Rightarrow> error + onchain_payment_flow" where
  "withMinerFee feeConfig now cs0 minerFee =
     rbind (stateFromPromise cs0) (\<lambda>cs.
     rbind (WalletPriceRatio (oc_usdProposedAmount cs) (oc_btcProposedAmount cs)) (\<lambda>priceRatio.
     rbind (paymentAmountFromNumber
              (num_or (op_senderWithdrawFee (oc_state cs)) (fc_withdrawDefaultMin feeConfig)) Btc)
       (\<lambda>minBankFee.
     rbind (getSwapOutImbalanceAmount (fc_withdrawMethod feeConfig)
              (netInVolumeAmountLightningFn (oc_state cs)) (netInVolumeAmountOnChainFn (oc_state cs))
              (fc_withdrawDaysLookback feeConfig) now
              \<lparr>wallet_id = op_senderWalletId (oc_state cs),
               wallet_currency = op_senderWalletCurrency (oc_state cs),
               wallet_accountId = op_senderAccountId (oc_state cs)\<rparr>) (\<lambda>imbalanceForWallet.
       let imbalance = (if currency imbalanceForWallet = Btc then imbalanceForWallet
                        else convertFromUsd priceRatio imbalanceForWallet);
           feeAmounts = withdrawalFee (onChainFees feeConfig) minerFee (oc_btcProposedAmount cs)
                          minBankFee imbalance;
           btcFee = totalFee feeAmounts;
           usdFee = convertFromBtcToCeil priceRatio (totalFee feeAmounts);
           (btcAmt, usdAmt) = sent_amounts cs priceRatio btcFee usdFee
       in rbind (validateBtcPaymentAmountForDust cs btcAmt) (\<lambda>validated.
            Inr (OnChainPaymentFlow cs validated usdAmt btcFee usdFee (bankFee feeAmounts)
              (convertFromBtcToCeil priceRatio (bankFee feeAmounts)) (Some minerFee)))))))"

definition OPFB_proposedAmounts :: "opfb_conversion_state \<Rightarrow> error + amount_pair" where
  "OPFB_proposedAmounts cs0 =
     rbind (stateFromPromise cs0) (\<lambda>cs.
       Inr \<lparr>btc = oc_btcProposedAmount cs, usd = oc_usdProposedAmount cs\<rparr>)"

end
