(* ===== verification/Send_Onchain.thy ===== *)
theory Send_Onchain
  imports Send_Intraledger Onchain_Flow
begin

text \<open>
  Sending on chain: \<open>lockedPaymentViaOnChainSteps\<close> of \<open>app/payments/send-on-chain.ts\<close> with
  \<open>getMinerFeeAndPaymentFlow\<close> of \<open>app/wallets/get-on-chain-fee.ts\<close>. The builder stage, the fee
  configuration and the clock are arguments as in the builder (an error is the stage
  \<open>OPFBWithError\<close>); the payout queue and its fee estimate are services.
\<close>

definition OPFB_btcProposedAmount :: "opfb_conversion_state \<Rightarrow> error + payment_amount" where
  "OPFB_btcProposedAmount cs0 = rbind (stateFromPromise cs0) (\<lambda>cs. Inr (oc_btcProposedAmount cs))"

definition OPFB_addressForFlow :: "opfb_conversion_state \<Rightarrow> error + string" where
  "OPFB_addressForFlow cs0 = rbind (stateFromPromise cs0) (\<lambda>cs. Inr (op_address (oc_state cs)))"

definition getMinerFeeAndPaymentFlow ::
  "('e, 'w) app_env \<Rightarrow> fees_config \<Rightarrow> int \<Rightarrow> error + opfb_conversion_state \<Rightarrow> string \<Rightarrow>
   ('w, onchain_payment_flow) ledger_op" where
  "getMinerFeeAndPaymentFlow ap feeConfig now builder speed =
     lbind (check (rbind builder OPFB_btcProposedAmount)) (\<lambda>proposedBtcAmount.
     lbind (check (rbind builder OPFB_addressForFlow)) (\<lambda>address.
     lbind (call (ap_estimateFeeForPayout ap proposedBtcAmount address speed)) (\<lambda>minerFee.
       check (rbind builder (\<lambda>cs. withMinerFee feeConfig now cs minerFee)))))"

text \<open>The flow of the builder always has its address.\<close>

definition onchain_send_args ::
  "onchain_payment_flow \<Rightarrow> string option \<Rightarrow> bool \<Rightarrow> display_txn_amounts \<Rightarrow> record_send_args" where
  "onchain_send_args f memo sendAllFlag d =
     (let lm = OnChainSendLedgerMetadata (flow_amounts f) d (case pf_address f of None \<Rightarrow> [] | Some a \<Rightarrow> [a])
            sendAllFlag (memo_or_undefined memo)
      in \<lparr>rs_description = str_default memo [],
          rs_senderWalletDescriptor = senderWalletDescriptor f,
          rs_amountToDebitSender = send_total f, rs_bankFee = Some (bankFees f),
          rs_metadata = lm_metadata lm,
          rs_additionalDebitMetadata = lm_debitAccountAdditionalMetadata lm,
          rs_additionalInternalMetadata = lm_internalAccountsAdditionalMetadata lm\<rparr>)"

definition lockedPaymentViaOnChainSteps ::
  "('e, 'w) app_env \<Rightarrow> fees_config \<Rightarrow> int \<Rightarrow> bool \<Rightarrow> error + opfb_conversion_state \<Rightarrow> string \<Rightarrow> string \<Rightarrow>
   string option \<Rightarrow> bool \<Rightarrow> ('w, string) ledger_op" where
  "lockedPaymentViaOnChainSteps ap feeConfig now aborted builder speed displayCur memo sendAllFlag =
     (let env = ap_ledger ap in
      lbind (getMinerFeeAndPaymentFlow ap feeConfig now builder speed) (\<lambda>f.
      lbind (getWalletBalanceAmount env (senderWalletDescriptor f)) (\<lambda>bal.
      lbind (check (checkBalanceForSend f bal)) (\<lambda>_.
      lbind (guard_lock aborted) (\<lambda>_.
      lbind (displayAmountsFor ap displayCur (flow_amounts f)) (\<lambda>ds.
      lbind (recordSendOnChain env (onchain_send_args f memo sendAllFlag (display_txn ds displayCur)))
        (\<lambda>journal.
      lbind (attempt (ap_queuePayoutToAddress ap (senderWalletDescriptor f) (pf_address f)
          (pf_btcPaymentAmount f) speed (lj_journalId journal))) (\<lambda>payout.
      case payout of
        Inl e \<Rightarrow>
          lbind (revertOnChainPayment env (lj_journalId journal) None) (\<lambda>_. lerror e)
      | Inr _ \<Rightarrow> lreturn (lj_journalId journal)))))))))"

end
