(* ===== verification/Lightning_Invariant.thy ===== *)
theory Lightning_Invariant
  imports Lightning_Flow
begin

text \<open>
  The lightning payment flow builder as a state machine over its stages, the invariant of
  each stage, and what therefore holds of every flow it can produce.
\<close>

subsection \<open>The builder as a state machine\<close>

datatype lpfb =
    LB_start
  | LB_invoice lpfb_invoice_state
  | LB_sender lpfb_sender_state
  | LB_recipient lpfb_recipient_state
  | LB_conversion lpfb_conversion_state
  | LB_flow payment_flow
  | LB_error error

definition lb :: "('s \<Rightarrow> lpfb) \<Rightarrow> error + 's \<Rightarrow> lpfb" where
  "lb stage r = (case r of Inl e \<Rightarrow> LB_error e | Inr s \<Rightarrow> stage s)"

definition pos_amount :: "wallet_currency \<Rightarrow> payment_amount \<Rightarrow> bool" where
  "pos_amount c a \<longleftrightarrow> currency a = c \<and> 0 < amount a"

definition nonneg_amount :: "wallet_currency \<Rightarrow> payment_amount \<Rightarrow> bool" where
  "nonneg_amount c a \<longleftrightarrow> currency a = c \<and> 0 \<le> amount a"

definition ln_invoice_ok :: "ln_invoice \<Rightarrow> bool" where
  "ln_invoice_ok iv \<longleftrightarrow>
     inv_paymentHash iv \<noteq> [] \<and> pred_option (pos_amount Btc) (inv_paymentAmount iv)"

definition recipient_args_ok :: "lpfb_recipient_args \<Rightarrow> bool" where
  "recipient_args_ok args \<longleftrightarrow> pred_option (pos_amount Usd) (ra_usdPaymentAmount args)"

definition raw_route_ok :: "raw_route \<Rightarrow> bool" where
  "raw_route_ok r \<longleftrightarrow> (case safe_fee r of Fin x \<Rightarrow> 0 \<le> x | _ \<Rightarrow> False)"

definition conversion_fns_ok :: "conversion_fns \<Rightarrow> bool" where
  "conversion_fns_ok c \<longleftrightarrow>
     (\<forall>a b. usdFromBtc c a = Inr b \<longrightarrow> nonneg_amount Usd b) \<and>
     (\<forall>a b. btcFromUsd c a = Inr b \<longrightarrow> nonneg_amount Btc b)"

definition conversion_args_ok :: "with_conversion_args \<Rightarrow> bool" where
  "conversion_args_ok args \<longleftrightarrow>
     conversion_fns_ok (hedgeBuyUsd args) \<and> conversion_fns_ok (hedgeSellUsd args) \<and>
     conversion_fns_ok (mid args)"

inductive lpfb_step :: "lpfb_config \<times> with_conversion_args \<Rightarrow> lpfb \<Rightarrow> lpfb \<Rightarrow> bool" for env where
  invoice: "ln_invoice_ok iv \<Longrightarrow>
    lpfb_step env LB_start (lb LB_invoice (withInvoice (fst env) iv))"
| no_amount_invoice: "ln_invoice_ok iv \<Longrightarrow>
    lpfb_step env LB_start (lb LB_invoice (withNoAmountInvoice (fst env) iv n))"
| no_invoice: "hash \<noteq> [] \<Longrightarrow>
    lpfb_step env LB_start (lb LB_invoice (withoutInvoice (fst env) hash n descr))"
| sender: "lpfb_step env (LB_invoice si) (lb LB_sender (withSenderWallet si w))"
| no_recipient: "lpfb_step env (LB_sender ss) (lb LB_recipient (withoutRecipientWallet ss))"
| recipient: "recipient_args_ok args \<Longrightarrow>
    lpfb_step env (LB_sender ss) (lb LB_recipient (withRecipientWallet ss args))"
| conversion: "lpfb_step env (LB_recipient sr) (lb LB_conversion (withConversion (snd env) now sr))"
| route: "raw_route_ok r \<Longrightarrow>
    lpfb_step env (LB_conversion sc) (lb LB_flow (withRoute sc pubkey r))"
| no_route: "lpfb_step env (LB_conversion sc) (lb LB_flow (withoutRoute sc))"
| failed: "lpfb_step env (LB_error e) (LB_error e)"

text \<open>The invariant of each stage.\<close>

definition lp_methods_ok :: "'a lpfb_invoice_state_scheme \<Rightarrow> bool" where
  "lp_methods_ok st \<longleftrightarrow>
     lp_settlementMethod st \<noteq> SM_OnChain \<and>
     lp_paymentInitiationMethod st \<noteq> PI_OnChain \<and>
     (lp_paymentInitiationMethod st = PI_Lightning \<longrightarrow>
        str_truthy (lp_paymentHash st) \<and> lp_intraLedgerHash st = None) \<and>
     (lp_paymentInitiationMethod st = PI_IntraLedger \<longrightarrow>
        lp_paymentHash st = None \<and> str_truthy (lp_intraLedgerHash st) \<and>
        lp_settlementMethod st = SM_IntraLedger) \<and>
     (lp_settlementMethod st = SM_IntraLedger \<longrightarrow>
        lp_btcProtocolAndBankFee st = Some ZERO_SATS \<and> lp_usdProtocolAndBankFee st = Some ZERO_CENTS)"

definition lp_invoice_ok :: "lpfb_invoice_state \<Rightarrow> bool" where
  "lp_invoice_ok st \<longleftrightarrow> lp_methods_ok st \<and>
     pred_option (pos_amount Btc) (lp_btcPaymentAmount st) \<and>
     lp_inputAmount st = map_option amount (lp_btcPaymentAmount st) \<and>
     (lp_uncheckedAmount st = None) = (lp_btcPaymentAmount st \<noteq> None) \<and>
     (lp_settlementMethod st = SM_Lightning \<longrightarrow>
        lp_btcProtocolAndBankFee st = None \<and> lp_usdProtocolAndBankFee st = None)"

definition lp_amounts_ok :: "'a lpfb_sender_state_scheme \<Rightarrow> bool" where
  "lp_amounts_ok st \<longleftrightarrow> lp_methods_ok st \<and>
     pred_option (pos_amount Btc) (lp_btcPaymentAmount st) \<and>
     pred_option (pos_amount Usd) (lp_usdPaymentAmount st) \<and>
     pred_option (nonneg_amount Btc) (lp_btcProtocolAndBankFee st) \<and>
     pred_option (nonneg_amount Usd) (lp_usdProtocolAndBankFee st) \<and>
     (lp_settlementMethod st = SM_Lightning \<longrightarrow>
        lp_btcProtocolAndBankFee st = None \<or> lp_usdProtocolAndBankFee st = None) \<and>
     (\<exists>n > 0. lp_inputAmount st = Some n)"

definition lp_recipient_ok :: "lpfb_recipient_state \<Rightarrow> bool" where
  "lp_recipient_ok st \<longleftrightarrow> lp_amounts_ok st \<and>
     lp_recipientWalletId st \<noteq> Some (lp_senderWalletId st) \<and>
     (lp_settlementMethod st = SM_IntraLedger \<longrightarrow> lp_recipientWalletId st \<noteq> None)"

text \<open>
  The amounts of a flow belong together: the two payment amounts form a price ratio, and the
  fee in one currency is the fee in the other at that ratio (the cents rounded up).
\<close>

definition fees_priced :: "payment_amount \<Rightarrow> payment_amount \<Rightarrow> payment_amount \<Rightarrow> payment_amount \<Rightarrow> bool" where
  "fees_priced btcAmt usdAmt btcFee usdFee \<longleftrightarrow>
     pos_amount Btc btcAmt \<and> pos_amount Usd usdAmt \<and>
     nonneg_amount Btc btcFee \<and> nonneg_amount Usd usdFee \<and>
     (case WalletPriceRatio usdAmt btcAmt of
        Inl _ \<Rightarrow> False
      | Inr pr \<Rightarrow> usdFee = convertFromBtcToCeil pr btcFee \<or> btcFee = convertFromUsd pr usdFee)"

definition lp_conversion_ok :: "lpfb_conversion_state \<Rightarrow> bool" where
  "lp_conversion_ok cs \<longleftrightarrow> lp_methods_ok (lc_state cs) \<and>
     (\<exists>n > 0. lp_inputAmount (lc_state cs) = Some n) \<and>
     lp_recipientWalletId (lc_state cs) \<noteq> Some (lp_senderWalletId (lc_state cs)) \<and>
     (lp_settlementMethod (lc_state cs) = SM_IntraLedger \<longrightarrow> lp_recipientWalletId (lc_state cs) \<noteq> None) \<and>
     fees_priced (lc_btcPaymentAmount cs) (lc_usdPaymentAmount cs)
       (lc_btcProtocolAndBankFee cs) (lc_usdProtocolAndBankFee cs) \<and>
     (lp_settlementMethod (lc_state cs) = SM_IntraLedger \<longrightarrow>
        amount (lc_btcProtocolAndBankFee cs) = 0 \<and> amount (lc_usdProtocolAndBankFee cs) = 0)"

definition lightning_flow_ok :: "payment_flow \<Rightarrow> bool" where
  "lightning_flow_ok f \<longleftrightarrow>
     fees_priced (pf_btcPaymentAmount f) (pf_usdPaymentAmount f)
       (pf_btcProtocolAndBankFee f) (pf_usdProtocolAndBankFee f) \<and>
     0 < pf_inputAmount f \<and>
     pf_recipientWalletId f \<noteq> Some (pf_senderWalletId f) \<and>
     (pf_settlementMethod f = SM_IntraLedger \<longrightarrow> pf_recipientWalletId f \<noteq> None) \<and>
     pf_settlementMethod f \<noteq> SM_OnChain \<and> \<not> pf_paymentSentAndPending f \<and>
     str_truthy (pf_paymentHash f) = (pf_paymentInitiationMethod f = PI_Lightning) \<and>
     str_truthy (pf_intraLedgerHash f) = (pf_paymentInitiationMethod f = PI_IntraLedger) \<and>
     str_truthy (pf_paymentHash f) \<noteq> str_truthy (pf_intraLedgerHash f) \<and>
     (pf_settlementMethod f = SM_IntraLedger \<and> pf_cachedRoute f = None \<longrightarrow>
        amount (pf_btcProtocolAndBankFee f) = 0 \<and> amount (pf_usdProtocolAndBankFee f) = 0)"

fun lpfb_ok :: "lpfb_config \<times> with_conversion_args \<Rightarrow> lpfb \<Rightarrow> bool" where
  "lpfb_ok env (LB_invoice st) = lp_invoice_ok st"
| "lpfb_ok env (LB_sender st) = lp_amounts_ok st"
| "lpfb_ok env (LB_recipient st) = lp_recipient_ok st"
| "lpfb_ok env (LB_conversion cs) = lp_conversion_ok cs"
| "lpfb_ok env (LB_flow f) = lightning_flow_ok f"
| "lpfb_ok env _ = True"

subsection \<open>Every stage keeps the invariant\<close>

lemma settlementMethodFromDestination_cases:
  "settlementMethodFromDestination cfg d = (SM_IntraLedger, Some ZERO_SATS, Some ZERO_CENTS) \<or>
   d \<noteq> None \<and> settlementMethodFromDestination cfg d = (SM_Lightning, None, None)"
  by (auto simp: settlementMethodFromDestination_def intraLedgerFees_def split: option.splits)

lemma invoice_state_ok:
  assumes "pred_option (pos_amount Btc) amt"
    and "init = PI_Lightning \<and> str_truthy h \<and> ih = None \<or>
      init = PI_IntraLedger \<and> h = None \<and> str_truthy ih \<and> d = None"
    and "settlementMethodFromDestination cfg d = (m, bf, uf)" and "(u = None) = (amt \<noteq> None)"
  shows "lp_invoice_ok (lpfb_config.extend cfg (lpfb_invoice_state.fields h ih m init descr amt
    (map_option amount amt) u bf uf skip))"
  using assms settlementMethodFromDestination_cases [of cfg d]
  by (auto simp: lp_invoice_ok_def lp_methods_ok_def lpfb_config.defs lpfb_invoice_state.defs)

lemma withInvoice_ok: "ln_invoice_ok iv \<Longrightarrow> lpfb_ok env (lb LB_invoice (withInvoice cfg iv))"
  unfolding withInvoice_def
  by (auto simp: lb_def LPFBWithError_def rbind_def ln_invoice_ok_def Let_def
      split: option.split sum.split prod.split
      intro!: invoice_state_ok [where amt = "Some _" and d = "Some _", simplified])

lemma withNoAmountInvoice_ok:
  "ln_invoice_ok iv \<Longrightarrow> lpfb_ok env (lb LB_invoice (withNoAmountInvoice cfg iv n))"
  unfolding withNoAmountInvoice_def
  by (auto simp: lb_def rbind_def ln_invoice_ok_def Let_def split: sum.split prod.split
      intro!: invoice_state_ok [where amt = None and d = "Some _", simplified])

lemma withoutInvoice_ok:
  "hash \<noteq> [] \<Longrightarrow> lpfb_ok env (lb LB_invoice (withoutInvoice cfg hash n descr))"
  unfolding withoutInvoice_def
  by (auto simp: lb_def Let_def split: prod.split
      intro!: invoice_state_ok [where amt = None and d = None, simplified])

lemma maxFee_nonneg: "pos_amount c a \<Longrightarrow> nonneg_amount c (maxProtocolAndBankFee a)"
  by (simp add: pos_amount_def nonneg_amount_def maxFee_eq)

lemma zero_nonneg [simp]: "nonneg_amount Btc ZERO_SATS" "nonneg_amount Usd ZERO_CENTS"
  by (simp_all add: nonneg_amount_def)

lemma checked_btc: "checkedToBtcPaymentAmount x = Inr a \<Longrightarrow> pos_amount Btc a"
  by (auto simp: btc_check.check_Inr_iff pos_amount_def)

lemma checked_usd: "checkedToUsdPaymentAmount x = Inr a \<Longrightarrow> pos_amount Usd a"
  by (auto simp: usd_check.check_Inr_iff pos_amount_def)

lemma not_OnChain: "m \<noteq> SM_OnChain \<Longrightarrow> m = SM_IntraLedger \<or> m = SM_Lightning"
  by (cases m) auto

lemma withSenderWallet_ok:
  assumes "lp_invoice_ok si"
  shows "lpfb_ok env (lb LB_sender (withSenderWallet si w))"
proof (cases "withSenderWallet si w")
  case (Inr ss)
  have m: "lp_methods_ok si" "lp_settlementMethod si = SM_IntraLedger \<or> lp_settlementMethod si = SM_Lightning"
    using assms not_OnChain by (auto simp: lp_invoice_ok_def lp_methods_ok_def)
  then have "lp_amounts_ok ss"
    using assms Inr
    by (auto simp: withSenderWallet_def Let_def checked_guard_def LPFBWithError_def lp_invoice_ok_def
        lp_amounts_ok_def lp_methods_ok_def lpfb_invoice_state.defs lpfb_sender_state.defs
        maxFee_nonneg pos_amount_def
        dest!: checked_btc checked_usd
        split: option.splits if_splits sum.splits)
  then show ?thesis
    by (simp add: Inr lb_def)
qed (simp add: lb_def)

lemma withoutRecipientWallet_ok:
  "lp_amounts_ok ss \<Longrightarrow> lpfb_ok env (lb LB_recipient (withoutRecipientWallet ss))"
  by (auto simp: withoutRecipientWallet_def lb_def LPFBWithError_def lp_recipient_ok_def
      lp_amounts_ok_def lp_methods_ok_def lpfb_sender_state.defs lpfb_recipient_state.defs)

lemma withRecipientWallet_ok:
  "lp_amounts_ok ss \<Longrightarrow> recipient_args_ok args \<Longrightarrow>
   lpfb_ok env (lb LB_recipient (withRecipientWallet ss args))"
  by (auto simp: withRecipientWallet_def Let_def lb_def LPFBWithError_def lp_recipient_ok_def
      recipient_args_ok_def lp_amounts_ok_def lp_methods_ok_def lpfb_sender_state.defs
      lpfb_recipient_state.defs split: option.splits)

lemma ratio_of_amounts:
  assumes "WalletPriceRatio u b = Inr pr" and "nonneg_amount Usd u" and "nonneg_amount Btc b"
  shows "valid_ratio pr" and "pos_amount Usd u" and "pos_amount Btc b" and "ratio_walletAmount pr = b"
  using assms by (auto simp: WalletPriceRatio_Inr valid_ratio_def pos_amount_def nonneg_amount_def)

lemma pos_nonneg: "pos_amount c a \<Longrightarrow> nonneg_amount c a"
  by (simp add: pos_amount_def nonneg_amount_def)

lemma convertFromBtcToCeil_nonneg:
  "valid_ratio pr \<Longrightarrow> nonneg_amount c f \<Longrightarrow> nonneg_amount Usd (convertFromBtcToCeil pr f)"
  using wallet_conv.ceil_nonneg [of pr "amount f"] convertFromWallet_amount(3) [of pr f]
  by (simp add: nonneg_amount_def convertFromBtcToCeil_def)

lemma convertFromUsd_nonneg:
  "valid_ratio pr \<Longrightarrow> nonneg_amount c f \<Longrightarrow>
   nonneg_amount (currency (ratio_walletAmount pr)) (convertFromUsd pr f)"
  using other_conv.conv_nonneg [of pr "amount f"]
  by (simp add: nonneg_amount_def convertFromUsd_def)

lemma fees_priced_ceil:
  assumes "WalletPriceRatio u b = Inr pr" and "nonneg_amount Usd u" and "nonneg_amount Btc b"
    and "nonneg_amount Btc f"
  shows "fees_priced b u f (convertFromBtcToCeil pr f)"
  using assms ratio_of_amounts [OF assms(1-3)]
  by (simp add: fees_priced_def convertFromBtcToCeil_nonneg)

lemma fees_priced_usd:
  assumes "WalletPriceRatio u b = Inr pr" and "nonneg_amount Usd u" and "nonneg_amount Btc b"
    and "nonneg_amount Usd f"
  shows "fees_priced b u (convertFromUsd pr f) f"
  using assms ratio_of_amounts [OF assms(1-3)] convertFromUsd_nonneg [of pr Usd f]
  by (simp add: fees_priced_def pos_amount_def)

lemma convert_zero_fee [simp]:
  "convertFromBtcToCeil pr ZERO_SATS = ZERO_CENTS"
  "amount (convertFromUsd pr ZERO_CENTS) = 0"
  using wallet_conv.ceil_zero [of pr] convertFromWallet_amount(3) [of pr ZERO_SATS]
  by (simp_all add: convertFromBtcToCeil_def ZERO_CENTS_def convertFromUsd_def)

lemma fees_priced_zero:
  assumes "pos_amount Btc b" and "pos_amount Usd u"
  shows "fees_priced b u ZERO_SATS ZERO_CENTS"
proof -
  obtain pr where "WalletPriceRatio u b = Inr pr"
    using assms by (auto simp: WalletPriceRatio_Inr pos_amount_def)
  from fees_priced_ceil [OF this, of ZERO_SATS] show ?thesis
    using assms by (simp add: pos_nonneg)
qed

lemma fees_priced_zero_iff:
  assumes "fees_priced b u bf uf"
  shows "amount uf = 0 \<longleftrightarrow> amount bf = 0"
proof -
  obtain pr where pr: "WalletPriceRatio u b = Inr pr"
      and f: "uf = convertFromBtcToCeil pr bf \<or> bf = convertFromUsd pr uf"
    using assms by (auto simp: fees_priced_def split: sum.splits)
  have nn: "nonneg_amount Usd uf" "nonneg_amount Btc bf" and v: "valid_ratio pr"
    using assms ratio_of_amounts(1) [OF pr] by (auto simp: fees_priced_def pos_nonneg)
  show ?thesis
    using f nn wallet_conv.ceil_eq_zero_iff [OF v, of "amount bf"] convertFromWallet_amount(3) [of pr bf]
      other_conv.conv_eq_zero_iff [OF v, of "amount uf"]
    by (auto simp: nonneg_amount_def convertFromBtcToCeil_def convertFromUsd_def)
qed

lemma conversion_fns_okD:
  assumes "conversion_fns_ok c"
  shows "usdFromBtc c a = Inr b \<Longrightarrow> nonneg_amount Usd b"
    and "btcFromUsd c a = Inr b \<Longrightarrow> nonneg_amount Btc b"
  using assms by (auto simp: conversion_fns_ok_def)

lemma both_present_Some: "both_present x y = Some p \<longleftrightarrow> x = Some (fst p) \<and> y = Some (snd p)"
  by (cases p) (auto simp: both_present_def split: option.splits)

lemma both_present_None: "both_present x y = None \<longleftrightarrow> x = None \<or> y = None"
  by (auto simp: both_present_def split: option.splits)

lemma lp_recipient_okD:
  assumes "lp_recipient_ok st"
  shows "lp_methods_ok st" and "lp_recipientWalletId st \<noteq> Some (lp_senderWalletId st)"
    and "\<exists>n > 0. lp_inputAmount st = Some n"
    and "lp_btcPaymentAmount st = Some b \<Longrightarrow> pos_amount Btc b"
    and "lp_usdPaymentAmount st = Some u \<Longrightarrow> pos_amount Usd u"
    and "lp_btcProtocolAndBankFee st = Some f \<Longrightarrow> nonneg_amount Btc f"
    and "lp_usdProtocolAndBankFee st = Some g \<Longrightarrow> nonneg_amount Usd g"
    and "lp_btcProtocolAndBankFee st = Some f \<Longrightarrow> lp_usdProtocolAndBankFee st = Some g \<Longrightarrow>
      f = ZERO_SATS \<and> g = ZERO_CENTS"
    and "lp_settlementMethod st = SM_IntraLedger \<Longrightarrow> lp_btcProtocolAndBankFee st = Some ZERO_SATS"
    and "lp_settlementMethod st = SM_IntraLedger \<Longrightarrow> lp_usdProtocolAndBankFee st = Some ZERO_CENTS"
    and "lp_settlementMethod st = SM_IntraLedger \<Longrightarrow> lp_recipientWalletId st \<noteq> None"
  using assms not_OnChain [of "lp_settlementMethod st"]
  by (auto simp: lp_recipient_ok_def lp_amounts_ok_def lp_methods_ok_def)

lemma conversion_args_okD:
  assumes "conversion_args_ok args"
  shows "conversion_fns_ok (mid args)"
    and "conversion_fns_ok (if c then hedgeBuyUsd args else hedgeSellUsd args)"
  using assms by (simp_all add: conversion_args_ok_def)

lemma btc_conversion_ok:
  assumes st: "lp_recipient_ok st" and fns: "conversion_fns_ok c"
    and b: "lp_btcPaymentAmount st = Some (fst b)" "lp_btcProtocolAndBankFee st = Some (snd b)"
    and conv: "usdFromBtc c (fst b) = Inr u" and pr: "WalletPriceRatio u (fst b) = Inr pr"
    and rid: "rid \<noteq> Some (lp_senderWalletId st)" "lp_recipientWalletId st \<noteq> None \<longrightarrow> rid \<noteq> None"
  shows "lp_conversion_ok \<lparr>lc_state = st\<lparr>lp_recipientWalletId := rid, lp_recipientWalletCurrency := rc\<rparr>,
    lc_createdAt = now, lc_btcPaymentAmount = fst b, lc_usdPaymentAmount = u,
    lc_btcProtocolAndBankFee = snd b, lc_usdProtocolAndBankFee = convertFromBtcToCeil pr (snd b)\<rparr>"
proof -
  have "fees_priced (fst b) u (snd b) (convertFromBtcToCeil pr (snd b))"
    using lp_recipient_okD(4,6) [OF st] b conversion_fns_okD(1) [OF fns conv]
    by (intro fees_priced_ceil [OF pr]) (auto intro: pos_nonneg)
  moreover have "snd b = ZERO_SATS" if "lp_settlementMethod st = SM_IntraLedger"
    using lp_recipient_okD(9) [OF st that] b by simp
  ultimately show ?thesis
    using lp_recipient_okD(1-3,11) [OF st] rid by (auto simp: lp_conversion_ok_def lp_methods_ok_def)
qed

lemma usd_conversion_ok:
  assumes st: "lp_recipient_ok st" and fns: "conversion_fns_ok c"
    and u: "lp_usdPaymentAmount st = Some (fst u)" "lp_usdProtocolAndBankFee st = Some (snd u)"
    and conv: "btcFromUsd c (fst u) = Inr b" and pr: "WalletPriceRatio (fst u) b = Inr pr"
  shows "lp_conversion_ok \<lparr>lc_state = st, lc_createdAt = now, lc_btcPaymentAmount = b,
    lc_usdPaymentAmount = fst u, lc_btcProtocolAndBankFee = convertFromUsd pr (snd u),
    lc_usdProtocolAndBankFee = snd u\<rparr>"
proof -
  have "fees_priced b (fst u) (convertFromUsd pr (snd u)) (snd u)"
    using lp_recipient_okD(5,7) [OF st] u conversion_fns_okD(2) [OF fns conv]
    by (intro fees_priced_usd [OF pr]) (auto intro: pos_nonneg)
  moreover have "snd u = ZERO_CENTS" if "lp_settlementMethod st = SM_IntraLedger"
    using lp_recipient_okD(10) [OF st that] u by simp
  ultimately show ?thesis
    using lp_recipient_okD(1-3,11) [OF st] by (auto simp: lp_conversion_ok_def)
qed

lemma current_conversion_ok:
  assumes "lp_recipient_ok st"
    and "lp_btcPaymentAmount st = Some (fst b)" "lp_btcProtocolAndBankFee st = Some (snd b)"
    and "lp_usdPaymentAmount st = Some (fst u)" "lp_usdProtocolAndBankFee st = Some (snd u)"
    and "currentStateFromAllAmountsPresent st now b u = Inr cs"
  shows "lp_conversion_ok cs"
  using assms(2-) lp_recipient_okD(1-5,11) [OF assms(1)] lp_recipient_okD(8) [OF assms(1,3,5)]
  by (auto simp: currentStateFromAllAmountsPresent_def lp_conversion_ok_def intro: fees_priced_zero)

lemma btc_mid_ok:
  assumes "lp_recipient_ok st" and "conversion_args_ok args"
    and "lp_btcPaymentAmount st = Some (fst b)" "lp_btcProtocolAndBankFee st = Some (snd b)"
    and "pred_option (\<lambda>w. wallet_id w \<noteq> lp_senderWalletId st) rw"
    and "updatedStateFromBtcPaymentAmountMid args st now b rw = Inr cs"
  shows "lp_conversion_ok cs"
  using assms(5-) lp_recipient_okD(2) [OF assms(1)]
    btc_conversion_ok [OF assms(1) conversion_args_okD(1) [OF assms(2)] assms(3,4), where now = now,
      where rid = "lp_recipientWalletId st" and rc = "lp_recipientWalletCurrency st"]
    btc_conversion_ok [OF assms(1) conversion_args_okD(1) [OF assms(2)] assms(3,4), where now = now]
  by (auto simp: updatedStateFromBtcPaymentAmountMid_def rbind_eq_Inr_iff split: option.splits)

lemma btc_dealer_ok:
  assumes "lp_recipient_ok st" and "conversion_args_ok args"
    and "lp_btcPaymentAmount st = Some (fst b)" "lp_btcProtocolAndBankFee st = Some (snd b)"
    and "updatedStateFromBtcPaymentAmountDealer args st now b = Inr cs"
  shows "lp_conversion_ok cs"
  using assms(5) lp_recipient_okD(2) [OF assms(1)]
    btc_conversion_ok [OF assms(1) conversion_args_okD(2) [OF assms(2),
        of "lp_senderWalletCurrency st = Btc"] assms(3,4), where now = now,
      where rid = "lp_recipientWalletId st" and rc = "lp_recipientWalletCurrency st"]
  by (auto simp: updatedStateFromBtcPaymentAmountDealer_def rbind_eq_Inr_iff split: if_splits)

lemma btc_fallback_ok:
  assumes "lp_recipient_ok st" and "conversion_args_ok args"
    and "lp_btcPaymentAmount st = Some (fst b)" "lp_btcProtocolAndBankFee st = Some (snd b)"
    and "updatedStateFromBtcPaymentAmountDealerFallbackMid args st now b = Inr cs"
  shows "lp_conversion_ok cs"
  using assms(5) btc_dealer_ok [OF assms(1-4)] btc_mid_ok [OF assms(1-4), where rw = "Some _"]
  by (auto simp: updatedStateFromBtcPaymentAmountDealerFallbackMid_def Let_def
      split: if_splits option.splits sum.splits)

lemma usd_mid_ok:
  assumes "lp_recipient_ok st" and "conversion_args_ok args"
    and "lp_usdPaymentAmount st = Some (fst u)" "lp_usdProtocolAndBankFee st = Some (snd u)"
    and "updatedStateFromUsdPaymentAmountMid args st now u = Inr cs"
  shows "lp_conversion_ok cs"
  using assms(5) usd_conversion_ok [OF assms(1) conversion_args_okD(1) [OF assms(2)] assms(3,4)]
  by (auto simp: updatedStateFromUsdPaymentAmountMid_def rbind_eq_Inr_iff)

lemma usd_dealer_ok:
  assumes "lp_recipient_ok st" and "conversion_args_ok args"
    and "lp_usdPaymentAmount st = Some (fst u)" "lp_usdProtocolAndBankFee st = Some (snd u)"
    and "updatedStateFromUsdPaymentAmountDealer args st now u = Inr cs"
  shows "lp_conversion_ok cs"
  using assms(5) usd_conversion_ok [OF assms(1) conversion_args_okD(2) [OF assms(2),
        of "lp_senderWalletCurrency st = Btc"] assms(3,4)]
  by (auto simp: updatedStateFromUsdPaymentAmountDealer_def rbind_eq_Inr_iff split: if_splits)

lemma withConversion_ok:
  assumes "lp_recipient_ok st" and "conversion_args_ok args"
  shows "lpfb_ok env (lb LB_conversion (withConversion args now st))"
proof (cases "withConversion args now st")
  case (Inr cs)
  then have "lp_conversion_ok cs"
    using current_conversion_ok [OF assms(1)] btc_mid_ok [OF assms, where rw = None] usd_mid_ok [OF assms]
      btc_fallback_ok [OF assms] usd_dealer_ok [OF assms]
    by (auto simp: withConversion_def Let_def LPFBWithError_def both_present_Some
        split: option.splits if_splits)
  then show ?thesis
    by (simp add: Inr lb_def)
qed (simp add: lb_def)

lemma paymentFromState_ok:
  assumes "lp_conversion_ok cs" and "fees_priced (lc_btcPaymentAmount cs) (lc_usdPaymentAmount cs) bf uf"
    and "r = None \<Longrightarrow> bf = lc_btcProtocolAndBankFee cs \<and> uf = lc_usdProtocolAndBankFee cs"
    and "paymentFromState (cs\<lparr>lc_btcProtocolAndBankFee := bf, lc_usdProtocolAndBankFee := uf\<rparr>) node r
      = Inr f"
  shows "lightning_flow_ok f"
proof -
  have "lp_paymentInitiationMethod (lc_state cs) = PI_Lightning \<or>
      lp_paymentInitiationMethod (lc_state cs) = PI_IntraLedger"
    using assms(1) by (cases "lp_paymentInitiationMethod (lc_state cs)")
      (auto simp: lp_conversion_ok_def lp_methods_ok_def)
  then show ?thesis
    using assms by (auto simp: lp_conversion_ok_def paymentFromState_def Let_def lightning_flow_ok_def
        lp_methods_ok_def split: if_splits)
qed

lemma withoutRoute_ok:
  "lp_conversion_ok cs \<Longrightarrow> lpfb_ok env (lb LB_flow (withoutRoute cs))"
  using paymentFromState_ok [of cs "lc_btcProtocolAndBankFee cs" "lc_usdProtocolAndBankFee cs" None]
  by (cases "withoutRoute cs") (auto simp: lb_def withoutRoute_def lp_conversion_ok_def)

lemma feeFromRawRoute_nonneg:
  "raw_route_ok r \<Longrightarrow> feeFromRawRoute r = Inr fee \<Longrightarrow> nonneg_amount Btc fee"
  by (auto simp: raw_route_ok_def feeFromRawRoute_def js_ceil_def nonneg_amount_def split: jsnum.splits)

lemma withRoute_ok:
  assumes "lp_conversion_ok cs" and "raw_route_ok r"
  shows "lpfb_ok env (lb LB_flow (withRoute cs pubkey r))"
proof (cases "withRoute cs pubkey r")
  case (Inr f)
  then obtain pr fee where pr: "WalletPriceRatio (lc_usdPaymentAmount cs) (lc_btcPaymentAmount cs) = Inr pr"
    and fee: "feeFromRawRoute r = Inr fee"
    and f: "paymentFromState (cs\<lparr>lc_btcProtocolAndBankFee := fee,
      lc_usdProtocolAndBankFee := convertFromBtcToCeil pr fee\<rparr>) (Some pubkey) (Some r) = Inr f"
    by (auto simp: withRoute_def rbind_eq_Inr_iff)
  have "fees_priced (lc_btcPaymentAmount cs) (lc_usdPaymentAmount cs) fee (convertFromBtcToCeil pr fee)"
    using assms(1) feeFromRawRoute_nonneg [OF assms(2) fee]
    by (intro fees_priced_ceil [OF pr]) (auto simp: lp_conversion_ok_def fees_priced_def pos_nonneg)
  then show ?thesis
    using paymentFromState_ok [OF assms(1) _ _ f] Inr by (simp add: lb_def)
qed (simp add: lb_def)

interpretation lpfb_machine: builder_machine "\<lambda>env. conversion_args_ok (snd env)" "\<lambda>_. LB_start"
  lpfb_step lpfb_ok
proof
  fix env :: "lpfb_config \<times> with_conversion_args" and s s'
  show "lpfb_ok env LB_start"
    by simp
  assume "conversion_args_ok (snd env)" and "lpfb_ok env s" and "lpfb_step env s s'"
  from this(3,1,2) show "lpfb_ok env s'"
    by (cases rule: lpfb_step.cases)
      (simp_all add: withInvoice_ok withNoAmountInvoice_ok withoutInvoice_ok withSenderWallet_ok
        withoutRecipientWallet_ok withRecipientWallet_ok withConversion_ok withRoute_ok withoutRoute_ok)
qed

subsection \<open>Running the builder\<close>

text \<open>The chain of calls the application makes for an invoice that is paid externally.\<close>

definition lpfb_external ::
  "lpfb_config \<Rightarrow> with_conversion_args \<Rightarrow> int \<Rightarrow> ln_invoice \<Rightarrow> wallet_descriptor \<Rightarrow> error + payment_flow" where
  "lpfb_external cfg args now iv w =
     rbind (withInvoice cfg iv) (\<lambda>si. rbind (withSenderWallet si w) (\<lambda>ss.
     rbind (withoutRecipientWallet ss) (\<lambda>sr. rbind (withConversion args now sr) withoutRoute)))"

lemma lpfb_external_reachable:
  assumes "ln_invoice_ok iv" and "lpfb_external cfg args now iv w = Inr f"
  shows "(lpfb_step (cfg, args))\<^sup>*\<^sup>* LB_start (LB_flow f)"
proof -
  let ?S = "lpfb_step (cfg, args)"
  obtain si ss sr sc where r: "withInvoice cfg iv = Inr si" "withSenderWallet si w = Inr ss"
      "withoutRecipientWallet ss = Inr sr" "withConversion args now sr = Inr sc" "withoutRoute sc = Inr f"
    using assms(2) by (auto simp: lpfb_external_def rbind_eq_Inr_iff)
  have "?S LB_start (LB_invoice si)" and "?S (LB_invoice si) (LB_sender ss)"
    and "?S (LB_sender ss) (LB_recipient sr)" and "?S (LB_recipient sr) (LB_conversion sc)"
    and "?S (LB_conversion sc) (LB_flow f)"
    using lpfb_step.invoice [OF assms(1), of "(cfg, args)"] lpfb_step.sender [of "(cfg, args)" si w]
      lpfb_step.no_recipient [of "(cfg, args)" ss] lpfb_step.conversion [of "(cfg, args)" sr now]
      lpfb_step.no_route [of "(cfg, args)" sc]
    by (simp_all add: r lb_def)
  then show ?thesis
    by (meson r_into_rtranclp rtranclp.rtrancl_into_rtrancl)
qed

definition example_prices :: conversion_fns where
  "example_prices = \<lparr>usdFromBtc = (\<lambda>a. Inr \<lparr>currency = Usd, amount = max 0 (amount a div 25)\<rparr>),
     btcFromUsd = (\<lambda>a. Inr \<lparr>currency = Btc, amount = max 0 (amount a * 25)\<rparr>)\<rparr>"

definition example_args :: with_conversion_args where
  "example_args = \<lparr>hedgeBuyUsd = example_prices, hedgeSellUsd = example_prices, mid = example_prices\<rparr>"

definition example_config :: lpfb_config where
  "example_config = \<lparr>localNodeIds = [''local''], skipProbe_pubkey = [], skipProbe_chanId = []\<rparr>"

definition example_invoice :: ln_invoice where
  "example_invoice = \<lparr>inv_destination = ''remote'', inv_paymentHash = ''h'',
     inv_paymentAmount = Some \<lparr>currency = Btc, amount = 1000\<rparr>, inv_description = ''coffee'',
     inv_routeHints = []\<rparr>"

definition example_wallet :: wallet_descriptor where
  "example_wallet = \<lparr>wallet_id = ''w1'', wallet_currency = Btc, wallet_accountId = ''a1''\<rparr>"

lemma example_ok: "conversion_args_ok example_args" "ln_invoice_ok example_invoice"
  by (simp_all add: conversion_args_ok_def example_args_def conversion_fns_ok_def example_prices_def
      nonneg_amount_def ln_invoice_ok_def example_invoice_def pos_amount_def)

lemma example_run:
  "map_sum id (\<lambda>f. (amount (pf_btcProtocolAndBankFee f), amount (pf_usdProtocolAndBankFee f)))
     (lpfb_external example_config example_args 0 example_invoice example_wallet) = Inr (5, 1)"
  by code_simp

subsection \<open>Properties\<close>

text \<open>C6: every flow the lightning builder can produce, through any sequence of its methods, is
  well formed: both payment amounts are positive and in their currencies, the fees are
  non-negative and belong to the payment amounts at one price (cents rounded up, or satoshis
  converted from cents), exactly one of the two hashes is present and it matches the
  initiation method, the recipient's wallet is not the sender's wallet, a payment settled
  inside the ledger has a recipient's wallet, the flow is not marked
  as sent, and a payment settled inside the ledger without a route carries no fee. The prices
  are only assumed to be non-negative amounts in the right currency.\<close>
theorem lightning_flow_invariant:
  assumes "conversion_args_ok args" and "(lpfb_step (cfg, args))\<^sup>*\<^sup>* LB_start (LB_flow f)"
  shows "lightning_flow_ok f"
  using lpfb_machine.reachable_ok [OF assms(2)] assms(1) by simp

lemma lightning_flow_invariant_witness:
  "\<exists>f. lpfb_external example_config example_args 0 example_invoice example_wallet = Inr f \<and>
     amount (pf_btcProtocolAndBankFee f) = 5 \<and> lightning_flow_ok f"
proof -
  obtain f where f: "lpfb_external example_config example_args 0 example_invoice example_wallet = Inr f"
      "amount (pf_btcProtocolAndBankFee f) = 5"
    using example_run
    by (cases "lpfb_external example_config example_args 0 example_invoice example_wallet") auto
  with lightning_flow_invariant [OF example_ok(1) lpfb_external_reachable [OF example_ok(2) f(1)]]
  show ?thesis
    by blast
qed

text \<open>
  In a flow the lightning builder produces, the fee is zero in one currency exactly when
  it is zero in the other, so a fee is never charged in one ledger and forgotten in the
  other.
\<close>

lemma lightning_flow_fee_zero_iff:
  assumes "conversion_args_ok args" and "(lpfb_step (cfg, args))\<^sup>*\<^sup>* LB_start (LB_flow f)"
  shows "amount (pf_usdProtocolAndBankFee f) = 0 \<longleftrightarrow> amount (pf_btcProtocolAndBankFee f) = 0"
proof -
  have ok: "fees_priced (pf_btcPaymentAmount f) (pf_usdPaymentAmount f)
      (pf_btcProtocolAndBankFee f) (pf_usdProtocolAndBankFee f)"
    using lpfb_machine.reachable_ok [OF assms(2)] assms(1) by (simp add: lightning_flow_ok_def)
  then show ?thesis
    by (rule fees_priced_zero_iff)
qed

lemma checked_guard_errors:
  "checked_guard (checkedToBtcPaymentAmount x) (\<lambda>a. Inr (f a)) = Inl e \<Longrightarrow>
     e = BtcAmountTooLargeError \<or> e = InvalidBtcPaymentAmountError"
  "checked_guard (checkedToUsdPaymentAmount x) (\<lambda>a. Inr (f a)) = Inl e \<Longrightarrow>
     e = UsdAmountTooLargeError \<or> e = InvalidUsdPaymentAmountError"
  using btc_check.check_error_cases [of x] usd_check.check_error_cases [of x]
  by (auto simp: checked_guard_def LPFBWithError_def isValidationError_def split: sum.splits)

text \<open>Choosing the sender's wallet on any state the builder can reach fails only for an
  amount the client supplied, and only with the error of the wallet's currency: the throw
  marked as impossible and a non-validation error slipping through the
  \<open>instanceof ValidationError\<close> guard cannot happen.\<close>
lemma withSenderWallet_errors:
  assumes "conversion_args_ok args" and "(lpfb_step (cfg, args))\<^sup>*\<^sup>* LB_start (LB_invoice si)"
    and "withSenderWallet si w = Inl e"
  shows "lp_uncheckedAmount si \<noteq> None \<and>
    e \<in> (case wallet_currency w of
           Btc \<Rightarrow> {BtcAmountTooLargeError, InvalidBtcPaymentAmountError}
         | Usd \<Rightarrow> {UsdAmountTooLargeError, InvalidUsdPaymentAmountError})"
proof -
  have "lp_invoice_ok si"
    using lpfb_machine.reachable_ok [OF assms(2)] assms(1) by simp
  then show ?thesis
    using assms(3)
    by (cases "wallet_currency w"; cases "lp_uncheckedAmount si")
      (auto simp: withSenderWallet_def Let_def lp_invoice_ok_def pos_amount_def split: if_splits
        dest!: checked_guard_errors)
qed

end
