(* ===== verification/Onchain_Invariant.thy ===== *)
theory Onchain_Invariant
  imports Onchain_Flow Lightning_Invariant
begin

text \<open>
  The on-chain payment flow builder as a state machine over its stages, and what holds of
  every flow it can produce.
\<close>

datatype opfb =
    OB_start
  | OB_address opfb_address_state
  | OB_sender opfb_sender_state
  | OB_recipient opfb_recipient_state
  | OB_amount opfb_amount_state
  | OB_conversion opfb_conversion_state
  | OB_flow onchain_payment_flow
  | OB_error error

definition ob :: "('s \<Rightarrow> opfb) \<Rightarrow> error + 's \<Rightarrow> opfb" where
  "ob stage r = (case r of Inl e \<Rightarrow> OB_error e | Inr s \<Rightarrow> stage s)"

text \<open>
  Configured fees are finite and non-negative, and the dust threshold is above one satoshi.
\<close>

definition nonneg_num :: "jsnum \<Rightarrow> bool" where
  "nonneg_num n \<longleftrightarrow> (case n of Fin x \<Rightarrow> 0 \<le> x | _ \<Rightarrow> False)"

definition fees_config_ok :: "fees_config \<Rightarrow> bool" where
  "fees_config_ok fc \<longleftrightarrow> 0 \<le> fc_withdrawRatioAsBasisPoints fc \<and> nonneg_num (fc_withdrawDefaultMin fc)"

type_synonym opfb_env = "opfb_config \<times> with_conversion_args \<times> fees_config"

fun opfb_env_ok :: "opfb_env \<Rightarrow> bool" where
  "opfb_env_ok (cfg, args, fc) \<longleftrightarrow>
     gt_big (dustThreshold cfg) 1 \<and> conversion_args_ok args \<and> fees_config_ok fc"

inductive opfb_step :: "opfb_env \<Rightarrow> opfb \<Rightarrow> opfb \<Rightarrow> bool" for env where
  address: "opfb_step env OB_start (OB_address (withAddress (fst env) a))"
| sender: "pred_option nonneg_num fee \<Longrightarrow>
    opfb_step env (OB_address sa) (OB_sender (withSenderWalletAndAccount sa w fee))"
| no_recipient: "opfb_step env (OB_sender ss) (ob OB_recipient (OPFB_withoutRecipientWallet ss))"
| recipient: "opfb_step env (OB_sender ss) (ob OB_recipient (OPFB_withRecipientWallet ss args))"
| amount: "0 < amount a \<Longrightarrow> opfb_step env (OB_recipient sr) (OB_amount (withAmount sr a))"
| conversion: "opfb_step env (OB_amount st)
    (ob OB_conversion (OPFB_withConversion (fst (snd env)) now st))"
| no_miner_fee: "opfb_step env (OB_conversion sc) (ob OB_flow (withoutMinerFee sc))"
| miner_fee: "nonneg_amount Btc minerFee \<Longrightarrow>
    opfb_step env (OB_conversion sc) (ob OB_flow (withMinerFee (snd (snd env)) now sc minerFee))"
| failed: "opfb_step env (OB_error e) (OB_error e)"

subsection \<open>The invariant of each stage\<close>

definition op_sender_ok :: "opfb_config \<Rightarrow> 'a opfb_address_state_scheme \<Rightarrow> bool" where
  "op_sender_ok cfg st \<longleftrightarrow>
     op_paymentInitiationMethod st = PI_OnChain \<and> dustThreshold st = dustThreshold cfg \<and>
     isExternalAddress st = isExternalAddress cfg \<and> sendAll st = sendAll cfg"

definition op_recipient_ok :: "opfb_config \<Rightarrow> 'a opfb_recipient_state_scheme \<Rightarrow> bool" where
  "op_recipient_ok cfg st \<longleftrightarrow> op_sender_ok cfg st \<and>
     pred_option nonneg_num (op_senderWithdrawFee st) \<and>
     op_recipientWalletId st \<noteq> Some (op_senderWalletId st) \<and>
     op_settlementMethod st \<noteq> SM_Lightning"

definition op_amount_ok :: "opfb_config \<Rightarrow> opfb_amount_state \<Rightarrow> bool" where
  "op_amount_ok cfg st \<longleftrightarrow> op_recipient_ok cfg st \<and>
     pred_option (pos_amount Btc) (op_btcProposedAmount st) \<and>
     pred_option (pos_amount Usd) (op_usdProposedAmount st)"

definition op_conversion_ok :: "opfb_config \<Rightarrow> opfb_conversion_state \<Rightarrow> bool" where
  "op_conversion_ok cfg cs \<longleftrightarrow> op_recipient_ok cfg (oc_state cs) \<and>
     pos_amount Btc (oc_btcProposedAmount cs) \<and> pos_amount Usd (oc_usdProposedAmount cs)"

text \<open>
  A flow to an external address pays at least the dust threshold, positive in both
  currencies, and its fee is the bank fee plus the miner fee when a miner fee was given; a
  flow inside the ledger has a recipient wallet.
\<close>

definition onchain_flow_ok :: "opfb_config \<Rightarrow> onchain_payment_flow \<Rightarrow> bool" where
  "onchain_flow_ok cfg f \<longleftrightarrow>
     pf_paymentInitiationMethod f = PI_OnChain \<and> \<not> pf_paymentSentAndPending f \<and>
     pf_recipientWalletId f \<noteq> Some (pf_senderWalletId f) \<and>
     (case pf_address f of
        None \<Rightarrow> False
      | Some a \<Rightarrow> pf_settlementMethod f = (if isExternalAddress cfg a then SM_OnChain else SM_IntraLedger)) \<and>
     (pf_settlementMethod f = SM_IntraLedger \<longrightarrow> str_truthy (pf_recipientWalletId f)) \<and>
     (pf_settlementMethod f = SM_OnChain \<longrightarrow>
        \<not> gt_big (dustThreshold cfg) (amount (pf_btcPaymentAmount f)) \<and>
        pos_amount Btc (pf_btcPaymentAmount f) \<and> pos_amount Usd (pf_usdPaymentAmount f)) \<and>
     nonneg_amount Btc (pf_btcProtocolAndBankFee f) \<and> nonneg_amount Usd (pf_usdProtocolAndBankFee f) \<and>
     nonneg_amount Btc (pf_btcBankFee f) \<and> nonneg_amount Usd (pf_usdBankFee f) \<and>
     (amount (pf_usdProtocolAndBankFee f) = 0 \<longleftrightarrow> amount (pf_btcProtocolAndBankFee f) = 0) \<and>
     (amount (pf_usdBankFee f) = 0 \<longleftrightarrow> amount (pf_btcBankFee f) = 0) \<and>
     amount (pf_btcProtocolAndBankFee f) =
       amount (pf_btcBankFee f) + (case pf_btcMinerFee f of None \<Rightarrow> 0 | Some m \<Rightarrow> amount m)"

fun opfb_ok :: "opfb_env \<Rightarrow> opfb \<Rightarrow> bool" where
  "opfb_ok env (OB_address st) = op_sender_ok (fst env) st"
| "opfb_ok env (OB_sender st) = (op_sender_ok (fst env) st \<and> pred_option nonneg_num (op_senderWithdrawFee st))"
| "opfb_ok env (OB_recipient st) = op_recipient_ok (fst env) st"
| "opfb_ok env (OB_amount st) = op_amount_ok (fst env) st"
| "opfb_ok env (OB_conversion cs) = op_conversion_ok (fst env) cs"
| "opfb_ok env (OB_flow f) = onchain_flow_ok (fst env) f"
| "opfb_ok env _ = True"

subsection \<open>Every stage keeps the invariant\<close>

lemmas opfb_state_defs = opfb_config.defs opfb_address_state.defs opfb_sender_state.defs
  opfb_recipient_state.defs opfb_amount_state.defs

lemma early_stages_ok:
  "op_sender_ok cfg (withAddress cfg a)"
  "op_sender_ok cfg sa \<Longrightarrow> op_sender_ok cfg (withSenderWalletAndAccount sa w fee)"
  "op_senderWithdrawFee (withSenderWalletAndAccount sa w fee) = fee"
  by (simp_all add: withAddress_def withSenderWalletAndAccount_def op_sender_ok_def opfb_state_defs)

lemma recipient_stage_ok:
  assumes "op_sender_ok (fst env) ss" and "pred_option nonneg_num (op_senderWithdrawFee ss)"
  shows "opfb_ok env (ob OB_recipient (OPFB_withoutRecipientWallet ss))"
    and "opfb_ok env (ob OB_recipient (OPFB_withRecipientWallet ss args))"
  using assms
  by (auto simp: OPFB_withoutRecipientWallet_def OPFB_withRecipientWallet_def OPFBWithError_def ob_def
      Let_def op_recipient_ok_def op_sender_ok_def opfb_state_defs)

lemma withAmount_ok:
  assumes "op_recipient_ok cfg sr" and "0 < amount a"
  shows "op_amount_ok cfg (withAmount sr a)"
  using assms by (cases "currency a")
    (auto simp: withAmount_def op_amount_ok_def op_recipient_ok_def op_sender_ok_def pos_amount_def
      opfb_state_defs)

lemma op_conversion_okI:
  assumes "op_amount_ok cfg st" and "WalletPriceRatio u b = Inr pr"
    and "nonneg_amount Usd u" and "nonneg_amount Btc b" and "rid \<noteq> Some (op_senderWalletId st)"
  shows "op_conversion_ok cfg \<lparr>oc_state = st\<lparr>op_recipientWalletId := rid,
      op_recipientWalletCurrency := rc\<rparr>, oc_createdAt = now,
    oc_btcProposedAmount = b, oc_usdProposedAmount = u\<rparr>"
  using assms(1,5) ratio_of_amounts(2,3) [OF assms(2-4)]
  by (auto simp: op_conversion_ok_def op_amount_ok_def op_recipient_ok_def op_sender_ok_def)

lemma op_conversion_ok_same:
  assumes "op_amount_ok cfg st" and "WalletPriceRatio u b = Inr pr"
    and "nonneg_amount Usd u" and "nonneg_amount Btc b"
  shows "op_conversion_ok cfg \<lparr>oc_state = st, oc_createdAt = now,
    oc_btcProposedAmount = b, oc_usdProposedAmount = u\<rparr>"
  using op_conversion_okI [OF assms, of "op_recipientWalletId st" "op_recipientWalletCurrency st"] assms(1)
  by (simp add: op_amount_ok_def op_recipient_ok_def)

lemma op_amount_okD:
  assumes "op_amount_ok cfg st"
  shows "op_btcProposedAmount st = Some b \<Longrightarrow> pos_amount Btc b"
    and "op_usdProposedAmount st = Some u \<Longrightarrow> pos_amount Usd u"
    and "op_recipientWalletId st \<noteq> Some (op_senderWalletId st)"
  using assms by (auto simp: op_amount_ok_def op_recipient_ok_def)

lemma op_btc_mid_ok:
  assumes "op_amount_ok cfg st" and "conversion_args_ok args" and "pos_amount Btc b"
    and "pred_option (\<lambda>w. wallet_id w \<noteq> op_senderWalletId st) rw"
    and "updatedStateFromBtcProposedAmountMid args st now b rw = Inr cs"
  shows "op_conversion_ok cfg cs"
proof -
  obtain raw u pr where raw: "usdFromBtc (mid args) b = Inr raw"
    and u: "u = (if amount raw = 0 then ONE_CENT else raw)" and pr: "WalletPriceRatio u b = Inr pr"
    and cs: "cs = \<lparr>oc_state = (case rw of None \<Rightarrow> st | Some w \<Rightarrow>
        st\<lparr>op_recipientWalletId := Some (wallet_id w), op_recipientWalletCurrency := Some (wallet_currency w)\<rparr>),
      oc_createdAt = now, oc_btcProposedAmount = b, oc_usdProposedAmount = u\<rparr>"
    using assms(3,5)
    by (auto simp: updatedStateFromBtcProposedAmountMid_def rbind_eq_Inr_iff Let_def pos_amount_def
        split: if_splits)
  have "nonneg_amount Usd u" and "nonneg_amount Btc b"
    using conversion_fns_okD(1) [OF conversion_args_okD(1) [OF assms(2)] raw] u assms(3)
    by (auto simp: nonneg_amount_def pos_amount_def)
  then show ?thesis
    using assms(1,4) pr by (cases rw) (auto simp: cs intro: op_conversion_ok_same op_conversion_okI)
qed

lemma op_btc_dealer_ok:
  assumes "op_amount_ok cfg st" and "conversion_args_ok args" and "pos_amount Btc b"
    and "updatedStateFromBtcProposedAmountDealer args st now b = Inr cs"
  shows "op_conversion_ok cfg cs"
  using assms(1,4) pos_nonneg [OF assms(3)]
    conversion_fns_okD(1) [OF conversion_args_okD(2) [OF assms(2), of "op_senderWalletCurrency st = Btc"]]
  by (auto simp: updatedStateFromBtcProposedAmountDealer_def rbind_eq_Inr_iff
      intro!: op_conversion_ok_same split: if_splits)

lemma op_btc_fallback_ok:
  assumes "op_amount_ok cfg st" and "conversion_args_ok args" and "pos_amount Btc b"
    and "updatedStateFromBtcProposedAmountDealerFallbackMid args st now b = Inr cs"
  shows "op_conversion_ok cfg cs"
  using assms(4) op_btc_dealer_ok [OF assms(1-3)] op_btc_mid_ok [OF assms(1-3), where rw = "Some _"]
  by (auto simp: updatedStateFromBtcProposedAmountDealerFallbackMid_def Let_def
      split: if_splits option.splits sum.splits)

lemma op_usd_mid_ok:
  assumes "op_amount_ok cfg st" and "conversion_args_ok args" and "pos_amount Usd u"
    and "updatedStateFromUsdProposedAmountMid args st now u = Inr cs"
  shows "op_conversion_ok cfg cs"
  using assms(1,4) pos_nonneg [OF assms(3)] conversion_fns_okD(2) [OF conversion_args_okD(1) [OF assms(2)]]
  by (auto simp: updatedStateFromUsdProposedAmountMid_def rbind_eq_Inr_iff
      intro!: op_conversion_ok_same)

lemma op_usd_dealer_ok:
  assumes "op_amount_ok cfg st" and "conversion_args_ok args" and "pos_amount Usd u"
    and "updatedStateFromUsdProposedAmountDealer args st now u = Inr cs"
  shows "op_conversion_ok cfg cs"
  using assms(1,4) pos_nonneg [OF assms(3)]
    conversion_fns_okD(2) [OF conversion_args_okD(2) [OF assms(2), of "op_senderWalletCurrency st = Btc"]]
  by (auto simp: updatedStateFromUsdProposedAmountDealer_def rbind_eq_Inr_iff
      intro!: op_conversion_ok_same split: if_splits)

lemma op_current_ok:
  assumes "op_amount_ok cfg st" and "pos_amount Btc b" and "pos_amount Usd u"
    and "OPFB_currentState st now b u = Inr cs"
  shows "op_conversion_ok cfg cs"
  using assms by (auto simp: OPFB_currentState_def op_conversion_ok_def op_amount_ok_def)

lemma OPFB_withConversion_ok:
  assumes "op_amount_ok (fst env) st" and "conversion_args_ok args"
  shows "opfb_ok env (ob OB_conversion (OPFB_withConversion args now st))"
proof (cases "OPFB_withConversion args now st")
  case (Inr cs)
  then have "op_conversion_ok (fst env) cs"
    using op_current_ok [OF assms(1)] op_btc_mid_ok [OF assms, where rw = None] op_usd_mid_ok [OF assms]
      op_btc_fallback_ok [OF assms] op_usd_dealer_ok [OF assms] op_amount_okD(1,2) [OF assms(1)]
    by (auto simp: OPFB_withConversion_def OPFBWithError_def split: option.splits if_splits)
  then show ?thesis
    by (simp add: Inr ob_def)
qed (simp add: ob_def)

lemma stateFromPromise_Inr:
  "stateFromPromise cs0 = Inr cs \<longleftrightarrow> cs = cs0 \<and>
     op_settlementMethod (oc_state cs) =
       (if isExternalAddress (oc_state cs) (op_address (oc_state cs)) then SM_OnChain else SM_IntraLedger) \<and>
     (op_settlementMethod (oc_state cs) = SM_IntraLedger \<longrightarrow> str_truthy (op_recipientWalletId (oc_state cs))) \<and>
     (op_settlementMethod (oc_state cs) \<noteq> SM_IntraLedger \<longrightarrow>
        \<not> gt_big (dustThreshold (oc_state cs)) (amount (oc_btcProposedAmount cs)))"
  by (auto simp: stateFromPromise_def Let_def rbind_eq_Inr_iff validateBtcPaymentAmountForDust_def)

lemma withoutMinerFee_ok:
  assumes "op_conversion_ok (fst env) cs"
  shows "opfb_ok env (ob OB_flow (withoutMinerFee cs))"
proof (cases "withoutMinerFee cs")
  case (Inr f)
  then have "onchain_flow_ok (fst env) f"
    using assms
    by (auto simp: withoutMinerFee_def rbind_eq_Inr_iff stateFromPromise_Inr OnChainPaymentFlow_def
        onchain_flow_ok_def op_conversion_ok_def op_recipient_ok_def op_sender_ok_def intraLedgerFees_def
        Let_def split: if_splits)
  then show ?thesis
    by (simp add: Inr ob_def)
qed (simp add: ob_def)

lemma withdrawalFee_nonneg:
  assumes "nonneg_amount Btc m" and "nonneg_amount Btc minFee" and "pos_amount Btc b"
  shows "nonneg_amount Btc (bankFee (withdrawalFee cfg m b minFee i))"
    and "nonneg_amount Btc (totalFee (withdrawalFee cfg m b minFee i))"
    and "amount (totalFee (withdrawalFee cfg m b minFee i)) =
      amount (bankFee (withdrawalFee cfg m b minFee i)) + amount m"
  using assms
  by (auto simp: withdrawalFee_def Let_def nonneg_amount_def pos_amount_def calc_minmax_currency max_def)

lemma ceil_zero_iff:
  assumes "valid_ratio pr" and "nonneg_amount Btc f"
  shows "amount (convertFromBtcToCeil pr f) = 0 \<longleftrightarrow> amount f = 0"
  using wallet_conv.ceil_eq_zero_iff [OF assms(1), of "amount f"] assms(2)
    convertFromWallet_amount(3) [of pr f]
  by (simp add: convertFromBtcToCeil_def nonneg_amount_def)

text \<open>
  A negative dollar amount converts to at most one satoshi, so a send-all whose fee exceeds the
  balance is stopped by the dust threshold.
\<close>

lemma convertFromUsd_nonpos:
  assumes "valid_ratio pr" and "amount u \<le> 0"
  shows "amount (convertFromUsd pr u) \<le> 1"
proof (cases "amount u = 0")
  case False
  let ?n = "amount u * amount (ratio_walletAmount pr)"
  have neg: "?n < 0" and o: "0 < ratio_other pr"
    using assms False by (auto simp: valid_ratio_def mult_less_0_iff)
  then have "big_div ?n (ratio_other pr) \<le> 0" and "big_rem ?n (ratio_other pr) \<le> 0"
    by (simp_all add: big_div_neg big_rem_neg pos_imp_zdiv_nonneg_iff)
  moreover have "0 \<le> big_div (ratio_other pr) 2"
    using o by simp
  ultimately show ?thesis
    using False by (simp add: convertFromUsd_def convertFromOther_def Let_def divRound_def)
qed (simp add: convertFromUsd_def)

lemma not_dust: "gt_big d 1 \<Longrightarrow> \<not> gt_big d n \<Longrightarrow> 1 < n"
  by (auto simp: gt_big_def split: jsnum.splits)

lemma withMinerFee_Inr:
  assumes "withMinerFee fc now cs m = Inr f"
  obtains pr minFee imb fee where
    "stateFromPromise cs = Inr cs"
    "WalletPriceRatio (oc_usdProposedAmount cs) (oc_btcProposedAmount cs) = Inr pr"
    "paymentAmountFromNumber (num_or (op_senderWithdrawFee (oc_state cs)) (fc_withdrawDefaultMin fc)) Btc
       = Inr minFee"
    "fee = withdrawalFee (onChainFees fc) m (oc_btcProposedAmount cs) minFee imb"
    "validateBtcPaymentAmountForDust cs (fst (sent_amounts cs pr (totalFee fee) (convertFromBtcToCeil pr (totalFee fee)))) =
       Inr (fst (sent_amounts cs pr (totalFee fee) (convertFromBtcToCeil pr (totalFee fee))))"
    "f = OnChainPaymentFlow cs (fst (sent_amounts cs pr (totalFee fee) (convertFromBtcToCeil pr (totalFee fee))))
       (snd (sent_amounts cs pr (totalFee fee) (convertFromBtcToCeil pr (totalFee fee)))) (totalFee fee)
       (convertFromBtcToCeil pr (totalFee fee)) (bankFee fee)
       (convertFromBtcToCeil pr (bankFee fee)) (Some m)"
proof -
  have s: "cs' = cs" if "stateFromPromise cs = Inr cs'" for cs'
    using that by (simp add: stateFromPromise_Inr)
  have v: "b = a" if "validateBtcPaymentAmountForDust cs a = Inr b" for a b
    using that by (auto simp: validateBtcPaymentAmountForDust_def split: if_splits)
  let ?fee = "\<lambda>cs pr minFee iw. withdrawalFee (onChainFees fc) m (oc_btcProposedAmount cs) minFee
    (if currency iw = Btc then iw else convertFromUsd pr iw)"
  let ?sent = "\<lambda>cs pr fee. sent_amounts cs pr (totalFee fee) (convertFromBtcToCeil pr (totalFee fee))"
  obtain cs' pr minFee iw a where sp: "stateFromPromise cs = Inr cs'"
    and r: "WalletPriceRatio (oc_usdProposedAmount cs') (oc_btcProposedAmount cs') = Inr pr"
      "paymentAmountFromNumber (num_or (op_senderWithdrawFee (oc_state cs')) (fc_withdrawDefaultMin fc)) Btc
       = Inr minFee"
      "validateBtcPaymentAmountForDust cs' (fst (?sent cs' pr (?fee cs' pr minFee iw))) = Inr a"
      "f = OnChainPaymentFlow cs' a (snd (?sent cs' pr (?fee cs' pr minFee iw)))
         (totalFee (?fee cs' pr minFee iw)) (convertFromBtcToCeil pr (totalFee (?fee cs' pr minFee iw)))
         (bankFee (?fee cs' pr minFee iw)) (convertFromBtcToCeil pr (bankFee (?fee cs' pr minFee iw))) (Some m)"
    using assms unfolding withMinerFee_def Let_def case_prod_beta rbind_eq_Inr_iff by blast
  have "cs' = cs" and "a = fst (?sent cs pr (?fee cs pr minFee iw))"
    using s [OF sp] r(3) by (auto dest: v)
  with sp r show ?thesis
    by (intro that [of pr minFee _ "if currency iw = Btc then iw else convertFromUsd pr iw"]) simp_all
qed

lemma sent_amounts_pos:
  assumes "op_conversion_ok cfg cs" and "valid_ratio pr" and "ratio_walletAmount pr = oc_btcProposedAmount cs"
    and "1 < amount (fst (sent_amounts cs pr fee ufee))"
  shows "pos_amount Btc (fst (sent_amounts cs pr fee ufee))" and "pos_amount Usd (snd (sent_amounts cs pr fee ufee))"
proof -
  let ?b = "calc_sub (oc_btcProposedAmount cs) fee"
  let ?u = "calc_sub (oc_usdProposedAmount cs) ufee"
  have "0 < amount ?u" if "1 < amount (convertFromUsd pr ?u)"
    using that convertFromUsd_nonpos [OF assms(2), of ?u] by linarith
  moreover have "0 < amount (convertFromBtc pr ?b)" if "1 < amount ?b"
    using that wallet_conv.conv_pos [OF assms(2), of "amount ?b"] convertFromWallet_amount(1) [of pr ?b]
    by (simp add: convertFromBtc_def)
  ultimately show "pos_amount Btc (fst (sent_amounts cs pr fee ufee))"
      and "pos_amount Usd (snd (sent_amounts cs pr fee ufee))"
    using assms(1,3,4)
    by (auto simp: sent_amounts_def pos_amount_def op_conversion_ok_def convertFromBtc_def convertFromUsd_def
        split: if_splits wallet_currency.splits)
qed

lemma num_or_nonneg: "pred_option nonneg_num x \<Longrightarrow> nonneg_num y \<Longrightarrow> nonneg_num (num_or x y)"
  by (auto simp: num_or_def split: option.split)

lemma paymentAmountFromNumber_nonneg:
  "nonneg_num x \<Longrightarrow> paymentAmountFromNumber x c = Inr a \<Longrightarrow> nonneg_amount c a"
  by (auto simp: nonneg_num_def paymentAmountFromNumber_def safeBigInt_def BigInt_num_def rbind_eq_Inr_iff
      nonneg_amount_def split: jsnum.splits option.splits if_splits)

lemma withMinerFee_ok:
  assumes "opfb_env_ok env" and "op_conversion_ok (fst env) cs" and "nonneg_amount Btc m"
  shows "opfb_ok env (ob OB_flow (withMinerFee (snd (snd env)) now cs m))"
proof (cases "withMinerFee (snd (snd env)) now cs m")
  case (Inr f)
  let ?fc = "snd (snd env)"
  have env: "gt_big (dustThreshold (fst env)) 1" "fees_config_ok ?fc"
    using assms(1) by (cases env; simp)+
  have st: "op_recipient_ok (fst env) (oc_state cs)" "pos_amount Btc (oc_btcProposedAmount cs)"
      "pos_amount Usd (oc_usdProposedAmount cs)"
    using assms(2) by (simp_all add: op_conversion_ok_def)
  from Inr show ?thesis
  proof (cases rule: withMinerFee_Inr)
    case (1 pr minFee imb fee)
    have v: "valid_ratio pr" "ratio_walletAmount pr = oc_btcProposedAmount cs"
      using ratio_of_amounts(1,4) [OF 1(2)] st by (simp_all add: pos_nonneg)
    have "nonneg_num (num_or (op_senderWithdrawFee (oc_state cs)) (fc_withdrawDefaultMin ?fc))"
      using st(1) env(2) by (simp add: num_or_nonneg op_recipient_ok_def fees_config_ok_def)
    then have "nonneg_amount Btc minFee"
      using paymentAmountFromNumber_nonneg 1(3) by blast
    note fees = withdrawalFee_nonneg [OF assms(3) this st(2), of "onChainFees ?fc" imb, folded 1(4)]
    have dust: "1 < amount (fst (sent_amounts cs pr (totalFee fee) (convertFromBtcToCeil pr (totalFee fee))))"
      if "op_settlementMethod (oc_state cs) = SM_OnChain"
      using 1(5) that env(1) st(1) not_dust [of "dustThreshold (fst env)"]
      by (auto simp: validateBtcPaymentAmountForDust_def op_recipient_ok_def op_sender_ok_def split: if_splits)
    have "onchain_flow_ok (fst env) f"
      using 1(1,5) st(1) fees sent_amounts_pos [OF assms(2) v, of "totalFee fee" "convertFromBtcToCeil pr (totalFee fee)"] dust
        convertFromBtcToCeil_nonneg [OF v(1) fees(1)] convertFromBtcToCeil_nonneg [OF v(1) fees(2)]
        ceil_zero_iff [OF v(1) fees(1)] ceil_zero_iff [OF v(1) fees(2)]
      by (auto simp: 1(6) onchain_flow_ok_def OnChainPaymentFlow_def Let_def stateFromPromise_Inr
          validateBtcPaymentAmountForDust_def op_recipient_ok_def op_sender_ok_def split: if_splits)
    then show ?thesis
      by (simp add: Inr ob_def)
  qed
qed (simp add: ob_def)

interpretation opfb_machine: builder_machine opfb_env_ok "\<lambda>_. OB_start" opfb_step opfb_ok
proof
  fix env :: opfb_env and s s'
  show "opfb_ok env OB_start"
    by simp
  assume env: "opfb_env_ok env" and "opfb_ok env s" and "opfb_step env s s'"
  moreover have "conversion_args_ok (fst (snd env))"
    using env by (cases env) simp
  ultimately show "opfb_ok env s'"
    by (auto elim!: opfb_step.cases simp: early_stages_ok recipient_stage_ok withAmount_ok OPFB_withConversion_ok
        withoutMinerFee_ok withMinerFee_ok)
qed

subsection \<open>Running the builder\<close>

text \<open>The chain of calls for a payment to an external address.\<close>

definition opfb_external ::
  "opfb_env \<Rightarrow> int \<Rightarrow> string \<Rightarrow> wallet_descriptor \<Rightarrow> jsnum option \<Rightarrow> payment_amount \<Rightarrow> payment_amount \<Rightarrow>
   error + onchain_payment_flow" where
  "opfb_external env now address w withdrawFee amt minerFee =
     rbind (OPFB_withoutRecipientWallet
              (withSenderWalletAndAccount (withAddress (fst env) address) w withdrawFee)) (\<lambda>sr.
     rbind (OPFB_withConversion (fst (snd env)) now (withAmount sr amt)) (\<lambda>sc.
       withMinerFee (snd (snd env)) now sc minerFee))"

lemma opfb_external_reachable:
  assumes "opfb_external env now address w fee amt m = Inr f" and "0 < amount amt"
    and "pred_option nonneg_num fee" and "nonneg_amount Btc m"
  shows "(opfb_step env)\<^sup>*\<^sup>* OB_start (OB_flow f)"
proof -
  let ?sa = "withAddress (fst env) address"
  let ?ss = "withSenderWalletAndAccount ?sa w fee"
  obtain sr sc where r: "OPFB_withoutRecipientWallet ?ss = Inr sr"
      "OPFB_withConversion (fst (snd env)) now (withAmount sr amt) = Inr sc"
      "withMinerFee (snd (snd env)) now sc m = Inr f"
    using assms(1) by (auto simp: opfb_external_def rbind_eq_Inr_iff)
  have "opfb_step env OB_start (OB_address ?sa)" and "opfb_step env (OB_address ?sa) (OB_sender ?ss)"
    and "opfb_step env (OB_sender ?ss) (OB_recipient sr)"
    and "opfb_step env (OB_recipient sr) (OB_amount (withAmount sr amt))"
    and "opfb_step env (OB_amount (withAmount sr amt)) (OB_conversion sc)"
    and "opfb_step env (OB_conversion sc) (OB_flow f)"
    using opfb_step.address [of env address] opfb_step.sender [OF assms(3), of env ?sa w]
      opfb_step.no_recipient [of env ?ss] opfb_step.amount [OF assms(2), of env sr]
      opfb_step.conversion [of env "withAmount sr amt" now] opfb_step.miner_fee [OF assms(4), of env sc now]
    by (simp_all add: r ob_def)
  then show ?thesis
    by (meson r_into_rtranclp rtranclp.rtrancl_into_rtrancl)
qed

definition example_onchain_env :: "bool \<Rightarrow> opfb_env" where
  "example_onchain_env all =
     (\<lparr>netInVolumeAmountLightningFn = (\<lambda>w t. Inr \<lparr>currency = wallet_currency w, amount = 500000\<rparr>),
       netInVolumeAmountOnChainFn = (\<lambda>w t. Inr \<lparr>currency = wallet_currency w, amount = 0\<rparr>),
       isExternalAddress = (\<lambda>a. True), sendAll = all, dustThreshold = Fin 5000\<rparr>,
      example_args,
      \<lparr>fc_withdrawMethod = flat, fc_withdrawRatioAsBasisPoints = 0,
       fc_withdrawThreshold = 1000000, fc_withdrawDaysLookback = 30, fc_withdrawDefaultMin = Fin 2000\<rparr>)"

lemma example_onchain_ok: "opfb_env_ok (example_onchain_env all)"
  using example_ok(1)
  by (simp add: example_onchain_env_def gt_big_def fees_config_ok_def nonneg_num_def)

definition example_onchain :: "bool \<Rightarrow> error + onchain_payment_flow" where
  "example_onchain all =
     opfb_external (example_onchain_env all) 0 ''bc1'' example_wallet None
       \<lparr>currency = Btc, amount = 100000\<rparr> \<lparr>currency = Btc, amount = 300\<rparr>"

lemma example_onchain_run:
  "map_sum id (\<lambda>f. (amount (pf_btcPaymentAmount f), amount (pf_btcProtocolAndBankFee f)))
     (example_onchain False) = Inr (100000, 2300)"
  by code_simp

subsection \<open>Properties\<close>



text \<open>C14: sending the whole balance on chain spends exactly the proposed amount in the currency
  of the sender's wallet: payment plus fee equals the proposed amount, with the fee computed on
  it. Without send-all both payment amounts are the proposed ones. In both cases the fee is the
  withdrawal fee, split into the bank's and the miner's part, and the cents of the fee are the satoshis rounded up at the flow's price.\<close>
theorem withMinerFee_amounts:
  assumes "withMinerFee fc now cs m = Inr f"
  shows "(if sendAll (oc_state cs) then
      (case op_senderWalletCurrency (oc_state cs) of
         Btc \<Rightarrow> amount (pf_btcPaymentAmount f) + amount (pf_btcProtocolAndBankFee f)
                = amount (oc_btcProposedAmount cs)
       | Usd \<Rightarrow> amount (pf_usdPaymentAmount f) + amount (pf_usdProtocolAndBankFee f)
                = amount (oc_usdProposedAmount cs))
     else pf_btcPaymentAmount f = oc_btcProposedAmount cs \<and>
          pf_usdPaymentAmount f = oc_usdProposedAmount cs) \<and>
    amount (pf_btcProtocolAndBankFee f) = amount (pf_btcBankFee f) + amount m \<and>
    pf_btcMinerFee f = Some m \<and>
    (\<exists>pr. WalletPriceRatio (oc_usdProposedAmount cs) (oc_btcProposedAmount cs) = Inr pr \<and>
       pf_usdProtocolAndBankFee f = convertFromBtcToCeil pr (pf_btcProtocolAndBankFee f))"
proof -
  obtain pr minFee imb fee where r:
    "WalletPriceRatio (oc_usdProposedAmount cs) (oc_btcProposedAmount cs) = Inr pr"
    "fee = withdrawalFee (onChainFees fc) m (oc_btcProposedAmount cs) minFee imb"
    "f = OnChainPaymentFlow cs
       (fst (sent_amounts cs pr (totalFee fee) (convertFromBtcToCeil pr (totalFee fee))))
       (snd (sent_amounts cs pr (totalFee fee) (convertFromBtcToCeil pr (totalFee fee)))) (totalFee fee)
       (convertFromBtcToCeil pr (totalFee fee)) (bankFee fee)
       (convertFromBtcToCeil pr (bankFee fee)) (Some m)"
    using withMinerFee_Inr [OF assms] by metis
  have "amount (totalFee fee) = amount (bankFee fee) + amount m"
    by (simp add: r(2) withdrawalFee_def Let_def)
  then show ?thesis
    by (cases "op_senderWalletCurrency (oc_state cs)")
      (auto simp: r(1,3) OnChainPaymentFlow_def Let_def sent_amounts_def)
qed

definition example_conversion_state :: "opfb_conversion_state" where
  "example_conversion_state =
     projr (OPFB_withConversion example_args 0 (withAmount
       (projr (OPFB_withoutRecipientWallet (withSenderWalletAndAccount
          (withAddress (fst (example_onchain_env True)) ''bc1'') example_wallet None)))
       \<lparr>currency = Btc, amount = 100000\<rparr>))"

lemma example_sendAll_run:
  "map_sum id (\<lambda>f. ()) (withMinerFee (snd (snd (example_onchain_env True))) 0 example_conversion_state
     \<lparr>currency = Btc, amount = 300\<rparr>) = Inr ()"
  "sendAll (oc_state example_conversion_state)"
  "op_senderWalletCurrency (oc_state example_conversion_state) = Btc"
  "amount (oc_btcProposedAmount example_conversion_state) = 100000"
  by code_simp+

lemma withMinerFee_amounts_witness:
  "\<exists>f. withMinerFee (snd (snd (example_onchain_env True))) 0 example_conversion_state
     \<lparr>currency = Btc, amount = 300\<rparr> = Inr f \<and>
     amount (pf_btcPaymentAmount f) + amount (pf_btcProtocolAndBankFee f) = 100000"
proof -
  obtain f where f: "withMinerFee (snd (snd (example_onchain_env True))) 0 example_conversion_state
     \<lparr>currency = Btc, amount = 300\<rparr> = Inr f"
    using example_sendAll_run(1)
    by (cases "withMinerFee (snd (snd (example_onchain_env True))) 0 example_conversion_state
     \<lparr>currency = Btc, amount = 300\<rparr>") auto
  with withMinerFee_amounts [OF f] show ?thesis
    by (simp add: example_sendAll_run)
qed

text \<open>C22: a withdrawal fee of zero set on an account has no effect, although zero passes the
  sanity check of account fees: the builder takes it for unset and the bank fee is at least the
  configured default minimum.\<close>
theorem withMinerFee_zero_account_fee:
  assumes "op_senderWithdrawFee (oc_state cs) = Some (Fin 0)"
    and "withMinerFee fc now cs m = Inr f" and "fc_withdrawDefaultMin fc = Fin (of_int d)"
  shows "d \<le> amount (pf_btcBankFee f)"
proof -
  obtain minFee imb fee where r:
    "paymentAmountFromNumber (num_or (op_senderWithdrawFee (oc_state cs)) (fc_withdrawDefaultMin fc)) Btc
       = Inr minFee"
    "fee = withdrawalFee (onChainFees fc) m (oc_btcProposedAmount cs) minFee imb"
    "pf_btcBankFee f = bankFee fee"
    using withMinerFee_Inr [OF assms(2)] by (metis OnChainPaymentFlow_def onchain_payment_flow.select_convs(2))
  have "minFee = \<lparr>currency = Btc, amount = d\<rparr>"
    using r(1) assms(1,3) by (simp add: num_or_def js_truthy_def)
  then show ?thesis
    using r(2,3) by (simp add: withdrawalFee_def Let_def)
qed

lemma example_zero_fee_run:
  "map_sum id (\<lambda>f. ()) (withMinerFee (snd (snd (example_onchain_env True))) 0
     (example_conversion_state\<lparr>oc_state := (oc_state example_conversion_state)\<lparr>
        op_senderWithdrawFee := Some (Fin 0)\<rparr>\<rparr>) \<lparr>currency = Btc, amount = 300\<rparr>) = Inr ()"
  "fc_withdrawDefaultMin (snd (snd (example_onchain_env True))) = Fin (of_int 2000)"
  by code_simp+

lemma withMinerFee_zero_account_fee_witness:
  "\<exists>f. withMinerFee (snd (snd (example_onchain_env True))) 0
     (example_conversion_state\<lparr>oc_state := (oc_state example_conversion_state)\<lparr>
        op_senderWithdrawFee := Some (Fin 0)\<rparr>\<rparr>) \<lparr>currency = Btc, amount = 300\<rparr> = Inr f \<and>
     2000 \<le> amount (pf_btcBankFee f)"
proof -
  let ?cs = "example_conversion_state\<lparr>oc_state := (oc_state example_conversion_state)\<lparr>
        op_senderWithdrawFee := Some (Fin 0)\<rparr>\<rparr>"
  obtain f where f: "withMinerFee (snd (snd (example_onchain_env True))) 0 ?cs
     \<lparr>currency = Btc, amount = 300\<rparr> = Inr f"
    using example_zero_fee_run(1)
    by (cases "withMinerFee (snd (snd (example_onchain_env True))) 0 ?cs
     \<lparr>currency = Btc, amount = 300\<rparr>") auto
  with withMinerFee_zero_account_fee [of ?cs, OF _ f example_zero_fee_run(2)] show ?thesis
    by auto
qed

end
