(* ===== verification/Example_Bank.thy ===== *)
theory Example_Bank
  imports Pending_Payments Receive Send_Onchain Lightning_Invariant Onchain_Invariant
begin

text \<open>
  A small bank on which the use cases run: it shows that the laws required of the services can
  hold, and the runs that end in success serve as instances of the theorems.
\<close>

subsection \<open>Services\<close>

text \<open>
  Services over a book such as \<open>list_env\<close>: a node that pays every invoice for a fee of two
  satoshis, a payout queue with a fee of 300 satoshis, and a price of one dollar for a
  satoshi. They satisfy \<open>app_laws\<close>.
\<close>

definition example_price_service :: "'w price_env" where
  "example_price_service =
     \<lparr>pe_fiat = example_fiat, pe_ratioPrecision = Fin (10 ^ 6), pe_getPrice = (\<lambda>_ _. Inr (Some (Fin (10 ^ 8)))),
      pe_now = (\<lambda>_. 0), pe_cacheGet = (\<lambda>_ _. None), pe_cacheSet = (\<lambda>_ _ w. w),
      pe_usdHedgeEnabled = False, pe_getCentsPerSatsExchangeMidRate = (\<lambda>_. Inl PriceNotAvailableError)\<rparr>"

definition alice :: wallet_descriptor where
  "alice = \<lparr>wallet_id = ''alice'', wallet_currency = Btc, wallet_accountId = ''a''\<rparr>"

definition bob :: wallet_descriptor where
  "bob = \<lparr>wallet_id = ''bob'', wallet_currency = Btc, wallet_accountId = ''b''\<rparr>"

definition bob_invoice :: "bool \<Rightarrow> wallet_invoice" where
  "bob_invoice completed =
     \<lparr>wi_paymentHash = ''h'', wi_secret = ''s'', wi_selfGenerated = True, wi_pubkey = ''pk'', wi_usdAmount = None,
      wi_recipientWalletDescriptor = bob, wi_paid = completed, wi_createdAt = 0,
      wi_processingCompleted = completed, wi_externalId = ''h'', wi_lnInvoice_expiresAt = 1000\<rparr>"

definition example_services :: "('e, 'x list) ledger_env \<Rightarrow> ('e, 'x list) app_env" where
  "example_services env =
     \<lparr>ap_ledger = env, ap_prices = example_price_service, ap_LndService = Inr ''node'',
      ap_payInvoiceViaRoutes = (\<lambda>_ _ _ w. (Inr \<lparr>py_roundedUpFee = Fin 2, py_revealedPreImage = Some ''p''\<rparr>, w)),
      ap_payInvoiceViaPaymentDetails = (\<lambda>_ _ _ w.
        (Inr \<lparr>py_roundedUpFee = Fin 2, py_revealedPreImage = Some ''p''\<rparr>, w)),
      ap_cancelInvoice = (\<lambda>_ _ w. (Inr (), w)), ap_settleInvoice = (\<lambda>_ _ w. (Inr (), w)),
      ap_estimateFeeForPayout = (\<lambda>_ _ _ w. (Inr \<lparr>currency = Btc, amount = 300\<rparr>, w)),
      ap_queuePayoutToAddress = (\<lambda>_ _ _ _ _ w. (Inr ''payout'', w)),
      ap_lnPayments_persistNew = (\<lambda>_ _ _ w. (Inr (), w)), ap_updateMetadataByHash = (\<lambda>_ _ w. (Inr (), w)),
      ap_updateLightningPaymentFlow = (\<lambda>_ w. (Inr (), w)),
      ap_markFlowNotPending = (\<lambda>_ _ _ w. (Inl CouldNotFindTransactionError, w)),
      ap_invoices_findByPaymentHash = (\<lambda>_ w. Inr (bob_invoice (w \<noteq> []))),
      ap_invoices_markAsPaid = (\<lambda>_ w. (Inr (bob_invoice True), w)),
      ap_wallets_findById = (\<lambda>_ _. Inr bob), ap_wallets_listByAccountId = (\<lambda>_ _. Inr [bob]),
      ap_findAccountWallets = (\<lambda>_ _. Inr \<lparr>wallets_BTC = bob, wallets_USD = bob\<lparr>wallet_currency := Usd\<rparr>\<rparr>),
      ap_accounts_findById = (\<lambda>_ _. Inr \<lparr>ac_id = ''b'', ac_displayCurrency = ''USD'', ac_username = None,
        ac_kratosUserId = ''u'', ac_isActive = True\<rparr>),
      ap_users_findById = (\<lambda>_ _. Inr ''u''), ap_lock = (\<lambda>_ w. (Inr (), w)),
      ap_lookupPayment = (\<lambda>_ w. (Inr \<lparr>pl_status = PS_Settled, pl_roundedUpAmount = Fin 102,
        pl_confirmedDetails = Some (Fin 2, Some ''p'')\<rparr>, w)),
      ap_lookupInvoice = (\<lambda>_ _ w. (Inr \<lparr>il_isSettled = False, il_isHeld = True, il_isCanceled = False,
        il_roundedDownReceived = Fin 1000, il_description = ''d''\<rparr>, w)),
      ap_getCentsFromSatsForImmediateBuy = (\<lambda>a w. (Inr \<lparr>currency = Usd, amount = amount a div 100\<rparr>, w)),
      ap_invoices_findForWalletByPaymentHash = (\<lambda>_ _ w. Inr (bob_invoice (w \<noteq> []))),
      ap_invoices_markAsProcessingCompleted = (\<lambda>_ w. (Inr (bob_invoice True), w)),
      ap_wallets_findByAddress = (\<lambda>_ _. Inr bob), ap_getLastOnChainAddress = (\<lambda>_ w. (Inr ''addr'', w)),
      ap_randomUUID = (\<lambda>w. (Inr ''uuid'', w)), ap_pendingReceive_remove = (\<lambda>_ _ _ w. (Inr (), w)),
      ap_createOnChainAddress = (\<lambda>_ _ w. (Inr ''addr2'', w))\<rparr>"

definition example_app :: "(medici_tx list, list_book) app_env" where
  "example_app = example_services list_env"

lemmas example_app_def' = example_app_def example_services_def

lemma example_app_fields [simp]:
  "ap_ledger example_app = list_env" "ap_prices example_app = example_price_service"
  "pe_fiat example_price_service = example_fiat" "ap_LndService example_app = Inr ''node''"
  by (simp_all add: example_app_def' example_price_service_def)

lemma example_app_laws: "app_laws (\<lambda>w. w) example_app"
  by (simp add: app_laws_def example_app_def' example_price_service_def quiet_def list_env_laws list_env_fresh list_env_balance)

subsection \<open>A lightning payment\<close>

text \<open>Alice has 20000 satoshis and pays an invoice of 10000, with a fee of at most 50.\<close>

definition example_flow :: payment_flow where
  "example_flow =
     \<lparr>pf_btcPaymentAmount = \<lparr>currency = Btc, amount = 10000\<rparr>, pf_btcProtocolAndBankFee = \<lparr>currency = Btc, amount = 50\<rparr>,
      pf_usdPaymentAmount = \<lparr>currency = Usd, amount = 10000\<rparr>, pf_usdProtocolAndBankFee = \<lparr>currency = Usd, amount = 50\<rparr>,
      pf_senderWalletId = ''alice'', pf_senderWalletCurrency = Btc, pf_senderAccountId = ''a'',
      pf_settlementMethod = SM_Lightning, pf_paymentInitiationMethod = PI_Lightning, pf_createdAt = 0,
      pf_paymentSentAndPending = False, pf_inputAmount = 10000, pf_recipientWalletId = None,
      pf_recipientWalletCurrency = None, pf_recipientAccountId = None, pf_recipientPubkey = None,
      pf_recipientUsername = None, pf_recipientUserId = None, pf_outgoingNodePubkey = None, pf_cachedRoute = None,
      pf_paymentHash = Some ''h'', pf_intraLedgerHash = None, pf_descriptionFromInvoice = ''d'',
      pf_skipProbeForDestination = False\<rparr>"

definition example_bank :: "list_book ledger_state" where
  "example_bank = empty_book\<lparr>ls_db := [(''j0'', [(''Liabilities:alice'', Fin 0, Fin 20000, Some (MStr ''BTC''))])]\<rparr>"

definition example_sent :: sent_invoice where
  "example_sent = \<lparr>inv_destination = ''dest'', inv_paymentHash = ''h'', inv_paymentAmount = None, inv_description = ''d'',
     inv_routeHints = [], inv_paymentRequest = ''lnbc'', inv_amount = None\<rparr>"

lemma example_flow_ok: "lightning_flow_ok example_flow"
  by (simp add: example_flow_def lightning_flow_ok_def fees_priced_def pos_amount_def nonneg_amount_def
      WalletPriceRatio_def PriceRatio_def convertFromBtcToCeil_def convertFromWalletToCeil_def divCeil_def
      big_div_def big_rem_def)

lemma lbind_run: "m s = (Some (Inr a), s1) \<Longrightarrow> lbind m f s = f a s1"
  by (simp add: lbind_def)

lemma round_double_numeral:
  "safe_int (numeral n) \<Longrightarrow> round_double (numeral n) = Fin (numeral n)" "round_double 1 = Fin 1" "round_double 0 = Fin 0"
  using round_double_int [of "numeral n"] round_double_int [of 1] round_double_int [of 0]
  by (simp_all add: safe_int_def)

lemma example_ratio:
  "getCurrentPriceAsDisplayPriceRatio example_price_service ''USD'' w =
     (Inr \<lparr>dpr_ratio = \<lparr>ratio_other = 100000000, ratio_walletAmount = \<lparr>currency = Btc, amount = 1000000\<rparr>\<rparr>,
           dpr_displayCurrency = ''USD''\<rparr>, w)"
proof -
  have "toUpperCase ''USD'' = ''USD''"
    by code_simp
  then show ?thesis
    by (simp add: getCurrentPriceAsDisplayPriceRatio_def getCurrentSatPrice_def getCurrentPrice_def
        checkedToDisplayCurrency_def example_price_service_def sbind_def Let_def getRealTimePrice_def
        UsdDisplayCurrency_def present_price_def js_truthy_def SATS_PER_BTC_def js_div_def minorPrice_def
        js_mul_def getCurrencyMajorExponent_def example_fiat_def toDisplayPriceRatio_def round_double_numeral
        safe_int_def js_floor_def safeBigInt_def BigInt_num_def DisplayPriceRatio_def PriceRatio_def
        toDisplayAmount_def rbind_def)
qed

lemma example_convert:
  "\<exists>ds. DisplayAmountsConverter example_fiat
       \<lparr>dpr_ratio = \<lparr>ratio_other = 100000000, ratio_walletAmount = \<lparr>currency = Btc, amount = 1000000\<rparr>\<rparr>,
        dpr_displayCurrency = ''USD''\<rparr> am = Inr ds \<and> da_amountInMinor (ds_displayAmount ds) = amount (af_usdPaymentAmount am)"
  by (simp add: DisplayAmountsConverter_def Let_def UsdDisplayCurrency_def priceAmountFromDisplayPriceRatio_def
      priceAmountFromNumber_def otherUnitPerWalletUnit_def Number_big_safe safe_int_def js_div_def js_mul_def
      round_double_numeral SAT_PRICE_PRECISION_OFFSET_def js_floor_def BigInt_num_def displayAmountFromWalletAmount_def rbind_def)

lemma example_display:
  "\<exists>ds. displayAmountsFor example_app ''USD'' am s = (Some (Inr ds), s) \<and>
     da_amountInMinor (ds_displayAmount ds) = amount (af_usdPaymentAmount am)"
  using example_convert [of am]
  by (auto simp: displayAmountsFor_def lbind_def call_def example_ratio or_throw_def)

text \<open>The concrete book answers every call.\<close>

lemma list_env_static: "\<exists>ids s'. staticAccountIds list_env s = (Some (Inr ids), s') \<and> ls_db s' = ls_db s"
  by (auto simp: staticAccountIds_def catch_unknown_def lbind_def lreturn_def getBankOwnerWalletId_def
      getDealerBtcWalletId_def getDealerUsdWalletId_def list_env_def split: option.splits)

lemma list_env_persist: "\<exists>j s'. persistAndReturnEntry list_env e h p s = (Some (Inr j), s')"
  by (simp add: persistAndReturnEntry_def catch_unknown_def lbind_def on_db_def persistAll_def lreturn_def Let_def
      list_env_def)

lemma list_env_records:
  "\<exists>j s'. recordSendOffChain list_env sa s = (Some (Inr j), s')"
  "\<exists>j s'. recordReceiveOffChain list_env ra s = (Some (Inr j), s')"
  "\<exists>j s'. recordReceiveOnChain list_env ra s = (Some (Inr j), s')"
  "\<exists>j s'. recordSendOnChain list_env sa s = (Some (Inr j), s')"
  "\<exists>j s'. recordIntraledger list_env ia s = (Some (Inr j), s')"
  using list_env_static [of s]
  by (auto simp: recordSendOffChain_def recordReceiveOffChain_def recordReceiveOnChain_def recordSendOnChain_def
      recordIntraledger_def Let_def lbind_run list_env_persist)

lemma list_env_queries:
  "getTransactionsByHash list_env h s = (Some (Inr []), s)"
  "settlePendingLnSend list_env h s = (Some (Inr True), s)"
  "isLnTxRecorded list_env h s = (Some (Inr False), s)"
  by (simp_all add: getTransactionsByHash_def settlePendingLnSend_def isLnTxRecorded_def ledger_read_def
      catch_unknown_def lbind_def on_db_def list_env_def lreturn_def)

lemma list_env_state: "\<exists>r. updateLnPaymentState list_env ws h j s = (Some (Inr r), s)"
  by (cases "determine []") (auto simp: updateLnPaymentState_def getTransactionsForWalletsByPaymentHash_def
      catch_unknown_def lbind_def on_db_def list_env_def lreturn_def updateStateByRelatedJournal_def)

text \<open>The payment goes through.\<close>

lemma example_balance:
  "getWalletBalanceAmount list_env (senderWalletDescriptor example_flow) example_bank =
     (Some (Inr \<lparr>currency = Btc, amount = 20000\<rparr>), example_bank)"
  by code_simp

abbreviation example_ratio_of_flow :: price_ratio where
  "example_ratio_of_flow \<equiv> \<lparr>ratio_other = 10000, ratio_walletAmount = \<lparr>currency = Btc, amount = 10000\<rparr>\<rparr>"

lemma example_paid:
  "execute_payment example_app example_sent example_flow example_ratio_of_flow s =
     (Some (Inr (Inr \<lparr>py_roundedUpFee = Fin 2, py_revealedPreImage = Some ''p''\<rparr>)), s)"
proof -
  have "fst (routeDetails example_flow) = None"
    by code_simp
  moreover have "verifyMaxFee (pf_btcProtocolAndBankFee example_flow) (pf_btcPaymentAmount example_flow)
      (pf_usdPaymentAmount example_flow) example_ratio_of_flow
      (wallet_currency (senderWalletDescriptor example_flow)) True = Inr ()"
    by code_simp
  ultimately show ?thesis
    by (simp add: execute_payment_def example_sent_def attempt_def example_app_def')
qed

lemma example_flow_ratio: "WalletPriceRatio (pf_usdPaymentAmount example_flow) (pf_btcPaymentAmount example_flow) = Inr example_ratio_of_flow"
  by code_simp

lemma example_reimbursed:
  "\<exists>s'. reimburseFee example_app example_flow (Fin 10000) ''USD'' j (Fin 2) p s = (Some (Inr True), s')"
proof -
  let ?d = "\<lparr>btc = \<lparr>currency = Btc, amount = 48\<rparr>, usd = \<lparr>currency = Usd, amount = 48\<rparr>\<rparr>"
  have amounts: "paymentAmountFromNumber (Fin 2) Btc = Inr \<lparr>currency = Btc, amount = 2\<rparr>"
      "WalletPriceRatio (usd (paymentAmounts example_flow)) (btc (paymentAmounts example_flow)) = Inr example_ratio_of_flow"
      "getReimbursement \<lparr>btc = pf_btcProtocolAndBankFee example_flow, usd = pf_usdProtocolAndBankFee example_flow\<rparr>
         example_ratio_of_flow \<lparr>currency = Btc, amount = 2\<rparr> = Inr ?d"
      "paymentHashForFlow example_flow = Inr ''h''"
    by code_simp+
  have "\<lfloor>20001 / 2 :: rat\<rfloor> = 10000"
    by (simp add: floor_eq_iff)
  then obtain da where da: "displayAmountFromNumber example_fiat (Fin 10000) ''USD'' = Inr da"
      and "da_amountInMinor da = 10000" "da_currency da = ''USD''"
    by (simp add: displayAmountFromNumber_def js_round_def safeBigInt_def BigInt_num_def rbind_def)
  then have ratio: "DisplayPriceRatio da (pf_btcPaymentAmount example_flow) =
      Inr \<lparr>dpr_ratio = example_ratio_of_flow, dpr_displayCurrency = ''USD''\<rparr>"
    by (simp add: DisplayPriceRatio_def PriceRatio_def rbind_def example_flow_def)
  obtain ds where ds: "DisplayAmountsConverter example_fiat
      \<lparr>dpr_ratio = example_ratio_of_flow, dpr_displayCurrency = ''USD''\<rparr> (difference_amounts ?d) = Inr ds"
    by (simp add: DisplayAmountsConverter_def Let_def UsdDisplayCurrency_def priceAmountFromDisplayPriceRatio_def
        priceAmountFromNumber_def otherUnitPerWalletUnit_def Number_big_safe safe_int_def js_div_def js_mul_def
        round_double_numeral SAT_PRICE_PRECISION_OFFSET_def js_floor_def BigInt_num_def rbind_def)
  obtain journal s' where "recordReceiveOffChain list_env
      (reimburse_args example_flow ?d ''h'' j p (display_txn ds ''USD'')) s = (Some (Inr journal), s')"
    using list_env_records(2) by blast
  then show ?thesis
    by (simp add: reimburseFee_def Let_def lbind_def check_def or_throw_def lreturn_def amounts da ratio ds)
qed

lemma example_payment:
  "\<exists>j. fst (lockedPaymentViaLnSteps example_app False example_sent example_flow ''USD'' None [''alice''] example_bank) =
     Some (Inr (LnSendOk j))"
proof -
  have balance: "checkBalanceForSend example_flow \<lparr>currency = Btc, amount = 20000\<rparr> = Inr ()"
    by code_simp
  obtain ds where ds: "displayAmountsFor example_app ''USD'' (flow_amounts example_flow) example_bank = (Some (Inr ds), example_bank)"
      and "da_amountInMinor (ds_displayAmount ds) = 10000"
    using example_display [of "flow_amounts example_flow" example_bank] by (auto simp: flow_amounts_def example_flow_def)
  then have base: "toDisplayBaseAmount (ds_displayAmount ds) = Fin 10000"
    by (simp add: toDisplayBaseAmount_def Number_big_safe safe_int_def)
  obtain j s1 where send: "recordSendOffChain list_env (ln_send_args example_flow ''h'' ''node'' False None (display_txn ds ''USD''))
      example_bank = (Some (Inr j), s1)"
    using list_env_records(1) by blast
  obtain s2 where "reimburseFee example_app example_flow (Fin 10000) ''USD'' (lj_journalId j) (Fin 2) (Some ''p'') s1 =
      (Some (Inr True), s2)"
    using example_reimbursed by blast
  moreover obtain r where "updateLnPaymentState list_env [''alice''] ''h'' (lj_journalId j) s2 = (Some (Inr r), s2)"
    using list_env_state by blast
  moreover have "routeDetails example_flow = (None, None)" "inv_paymentHash example_sent = ''h''"
    by code_simp+
  moreover have "persist_payment example_app example_sent pk (Inr pay) s = (Some (Inr ()), s)" for pk pay s
    by (simp add: persist_payment_def lbind_def attempt_def lreturn_def example_app_def')
  ultimately show ?thesis
    by (simp add: lockedPaymentViaLnSteps_def Let_def lbind_def check_def guard_lock_def lreturn_def list_env_queries
        example_balance balance ds base send example_flow_ratio example_paid finish_payment_def str_default_def)
qed

subsection \<open>Payments from Alice to Bob\<close>

definition example_local_flow :: payment_flow where
  "example_local_flow = example_flow\<lparr>pf_btcProtocolAndBankFee := ZERO_SATS, pf_usdProtocolAndBankFee := ZERO_CENTS,
     pf_settlementMethod := SM_IntraLedger, pf_recipientWalletId := Some ''bob'', pf_recipientWalletCurrency := Some Btc,
     pf_recipientAccountId := Some ''b'', pf_recipientPubkey := Some ''pk''\<rparr>"

definition example_local_onchain :: onchain_payment_flow where
  "example_local_onchain = payment_flow_common.extend (payment_flow_common.truncate example_local_flow)
     (onchain_payment_flow.fields (Some ''bc1'') ZERO_SATS ZERO_CENTS None)"

definition example_parties :: intraledger_parties where
  "example_parties = \<lparr>ip_senderDisplayCurrency = ''USD'', ip_senderUsername = Some ''alice'', ip_recipientDisplayCurrency = ''USD'',
     ip_recipientUsername = None, ip_memo = Some ''thanks''\<rparr>"

lemma example_display_both: "\<exists>d. displayAmountsForBoth example_app ''USD'' ''USD'' am s = (Some (Inr d), s)"
  using example_display [of am s] by (auto simp: displayAmountsForBoth_def lbind_def lreturn_def)

lemma example_local_facts:
  "getWalletBalanceAmount list_env (senderWalletDescriptor example_local_flow) example_bank =
     (Some (Inr \<lparr>currency = Btc, amount = 20000\<rparr>), example_bank)"
  "checkBalanceForSend example_local_flow \<lparr>currency = Btc, amount = 20000\<rparr> = Inr ()"
  "recipientWalletDescriptor example_local_flow = Some bob"
  "pf_recipientPubkey example_local_flow = Some ''pk''"
  by code_simp+

lemma example_local_onchain_facts:
  "getWalletBalanceAmount list_env (senderWalletDescriptor example_local_onchain) example_bank =
     (Some (Inr \<lparr>currency = Btc, amount = 20000\<rparr>), example_bank)"
  "checkBalanceForSend example_local_onchain \<lparr>currency = Btc, amount = 20000\<rparr> = Inr ()"
  "recipientWalletDescriptor example_local_onchain = Some bob"
  "addressForFlow example_local_onchain = Inr ''bc1''"
  "WalletPriceRatio (pf_usdPaymentAmount example_local_onchain) (pf_btcPaymentAmount example_local_onchain) =
     Inr example_ratio_of_flow"
  by code_simp+

lemma example_parties_currency [simp]:
  "ip_senderDisplayCurrency example_parties = ''USD''" "ip_recipientDisplayCurrency example_parties = ''USD''"
  by (simp_all add: example_parties_def)

lemma example_local_payments:
  "\<exists>j. fst (walletId_lockedPaymentViaIntraledgerSteps example_app False example_local_flow example_parties example_bank) =
     Some (Inr j)"
  "\<exists>j. fst (onchain_lockedPaymentViaIntraledgerSteps example_app False example_local_onchain example_parties False
     example_bank) = Some (Inr j)"
  "\<exists>j. fst (ln_lockedPaymentViaIntraledgerSteps example_app False ''h'' example_local_flow example_parties example_bank) =
     Some (Inr (IlSendOk j))"
proof -
  obtain d where d: "displayAmountsForBoth example_app ''USD'' ''USD'' (flow_amounts example_local_flow) example_bank =
      (Some (Inr d), example_bank)"
    using example_display_both by blast
  obtain e where e: "displayAmountsForBoth example_app ''USD'' ''USD'' (flow_amounts example_local_onchain) example_bank =
      (Some (Inr e), example_bank)"
    using example_display_both by blast
  have calls: "ap_cancelInvoice example_app pk h w = (Inr (), w)" "ap_invoices_markAsPaid example_app h w = (Inr (bob_invoice True), w)" for pk h w
    by (simp_all add: example_app_def')
  note run = lbind_def check_def guard_lock_def lreturn_def example_local_facts example_local_onchain_facts
    recipientDetails_def list_env_queries call_def calls
  show "\<exists>j. fst (walletId_lockedPaymentViaIntraledgerSteps example_app False example_local_flow example_parties example_bank) =
     Some (Inr j)"
    using list_env_records(5) [of "intraledger_args (pf_descriptionFromInvoice example_local_flow) example_local_flow bob
      (walletId_metadata example_local_flow example_parties bob d)" example_bank]
    by (auto simp: walletId_lockedPaymentViaIntraledgerSteps_def run d)
  show "\<exists>j. fst (onchain_lockedPaymentViaIntraledgerSteps example_app False example_local_onchain example_parties False
     example_bank) = Some (Inr j)"
    using list_env_records(5) [of "intraledger_args [] example_local_onchain bob
      (onchain_intraledger_metadata example_local_onchain example_parties bob [''bc1''] False e)" example_bank]
    by (auto simp: onchain_lockedPaymentViaIntraledgerSteps_def run e)
  show "\<exists>j. fst (ln_lockedPaymentViaIntraledgerSteps example_app False ''h'' example_local_flow example_parties example_bank) =
     Some (Inr (IlSendOk j))"
    using list_env_records(5) [of "intraledger_args (pf_descriptionFromInvoice example_local_flow) example_local_flow bob
      (ln_intraledger_metadata example_local_flow example_parties bob ''h'' ''pk'' d)" example_bank]
    by (auto simp: ln_lockedPaymentViaIntraledgerSteps_def run d)
qed

end
