(* ===== verification/Send_Invariant.thy ===== *)
theory Send_Invariant
  imports Payment_Spec Example_Bank
begin

text \<open>
  What the sending use cases do to the accounts, proved with the triples of \<open>Ledger_Hoare\<close>: the
  outcomes of a lightning payment, and that no use case overdraws the sender's wallet.
\<close>

subsection \<open>The amounts of a flow can be booked\<close>

definition safe_total :: "'a payment_flow_common_scheme \<Rightarrow> bool" where
  "safe_total f \<longleftrightarrow>
     safe_int (amount (pf_btcPaymentAmount f) + amount (pf_btcProtocolAndBankFee f)) \<and>
     safe_int (amount (pf_usdPaymentAmount f) + amount (pf_usdProtocolAndBankFee f))"

lemma fees_pricedD:
  assumes "fees_priced b u bf uf"
  shows "currency b = Btc" "currency u = Usd" "0 < amount b" "0 < amount u"
    "currency bf = Btc" "currency uf = Usd" "0 \<le> amount bf" "0 \<le> amount uf"
  using assms by (simp_all add: fees_priced_def pos_amount_def nonneg_amount_def)

lemma lightning_flow_priced:
  "lightning_flow_ok f \<Longrightarrow> fees_priced (pf_btcPaymentAmount f) (pf_usdPaymentAmount f)
     (pf_btcProtocolAndBankFee f) (pf_usdProtocolAndBankFee f)"
  by (simp add: lightning_flow_ok_def)

lemma ln_send_admissible:
  assumes "lightning_flow_ok f" and "safe_total f"
  shows "send_admissible (ln_send_args f h p k m d)"
  using fees_pricedD [OF lightning_flow_priced [OF assms(1)]] assms(2)
  by (simp add: send_admissible_def entry_amounts_ok_def ln_send_args_def Let_def send_total_def
      fee_or_zero_def safe_total_def ZERO_SATS_def ZERO_CENTS_def)

lemma ceil_div_le:
  fixes n b k :: int
  assumes "0 < b" and "n \<le> b * k"
  shows "ceil_div n b \<le> k"
proof -
  have "n div b \<le> k"
    using zdiv_mono1 [OF assms(2,1)] assms(1) by simp
  moreover have "n mod b \<le> 0" if "n div b = k"
  proof -
    have "b * k + n mod b = n"
      using mult_div_mod_eq [of b n] by (simp add: that)
    with assms(2) show ?thesis
      by linarith
  qed
  ultimately show ?thesis
    unfolding ceil_div_def by (cases "n div b = k") auto
qed

lemma ceil_div_bounds:
  fixes n b :: int
  assumes "0 < b"
  shows "n \<le> ceil_div n b * b" and "ceil_div n b * b < n + b"
proof -
  define q r where "q = n div b" and "r = n mod b"
  have n: "n = q * b + r" and r: "r < b" "0 \<le> r"
    using assms by (simp_all add: q_def r_def)
  have c: "ceil_div n b = (if 0 < r then q + 1 else q)"
    by (simp add: ceil_div_def flip: q_def r_def)
  show "n \<le> ceil_div n b * b" and "ceil_div n b * b < n + b"
    unfolding c using r by (auto simp: n distrib_right)
qed

lemma fee_in_cents:
  assumes "fees_priced b u bf uf"
  shows "amount bf * amount u \<le> amount b * (amount u + amount uf)"
proof -
  let ?B = "amount b" and ?U = "amount u" and ?pr = "\<lparr>ratio_other = amount u, ratio_walletAmount = b\<rparr>"
  note pos = fees_pricedD [OF assms]
  have v: "valid_ratio ?pr"
    by (simp add: valid_ratio_def pos)
  have "WalletPriceRatio u b = Inr ?pr"
    using pos by (simp add: WalletPriceRatio_Inr)
  with assms consider "uf = convertFromBtcToCeil ?pr bf" | "bf = convertFromUsd ?pr uf"
    by (auto simp: fees_priced_def)
  then show ?thesis
  proof cases
    case 1
    then have "amount uf = ceil_div (amount bf * ?U) ?B"
      using v pos by (simp add: convertFromBtcToCeil_def convertFromWalletToCeil_eq)
    then have "amount bf * ?U \<le> amount uf * ?B"
      using ceil_div_bounds(1) [of ?B "amount bf * ?U"] pos by simp
    moreover have "0 \<le> ?B * ?U"
      using pos by simp
    ultimately show ?thesis
      by (simp add: algebra_simps)
  next
    case 2
    show ?thesis
    proof (cases "amount uf = 0")
      case True
      with 2 pos show ?thesis
        by (simp add: convertFromUsd_def)
    next
      case False
      then have "0 < amount uf * ?B"
        using pos by simp
      then have "amount bf \<le> ceil_div (amount uf * ?B) ?U"
        using 2 v pos False round_up_min1_chain(2) [of ?U "amount uf * ?B"]
        by (simp add: convertFromUsd_def convertFromOther_eq)
      then have "amount bf * ?U \<le> ceil_div (amount uf * ?B) ?U * ?U"
        using pos by (simp add: mult_right_mono)
      also have "\<dots> < amount uf * ?B + ?U"
        using ceil_div_bounds(2) [of ?U] pos by simp
      also have "?U \<le> ?B * ?U"
        using pos by simp
      finally show ?thesis
        by (simp add: algebra_simps)
    qed
  qed
qed

text \<open>The reimbursed cents are at most the cents of the payment with its fee.\<close>

lemma reimbursement_amounts:
  assumes priced: "fees_priced b u bf uf" and pr: "WalletPriceRatio u b = Inr pr" and "0 \<le> amount act"
    and d: "getReimbursement \<lparr>btc = bf, usd = uf\<rparr> pr act = Inr d"
  shows "currency (btc d) = Btc" "currency (usd d) = Usd" "0 \<le> amount (btc d)" "amount (btc d) \<le> amount bf"
    "0 \<le> amount (usd d)" "amount (usd d) \<le> amount u + amount uf"
proof -
  note pos = fees_pricedD [OF priced]
  have v: "valid_ratio pr" and ratio: "ratio_other pr = amount u" "ratio_walletAmount pr = b"
    using pr by (auto simp: WalletPriceRatio_Inr valid_ratio_def pos)
  let ?n = "amount bf - amount act"
  have n: "0 \<le> ?n" and btc: "btc d = \<lparr>currency = Btc, amount = ?n\<rparr>"
      and usd: "usd d = convertFromBtc pr \<lparr>currency = Btc, amount = ?n\<rparr> \<or>
        usd d = convertFromBtcToFloor pr \<lparr>currency = Btc, amount = ?n\<rparr>"
    using d by (auto simp: getReimbursement_def Let_def split: if_splits)
  show "currency (btc d) = Btc" "0 \<le> amount (btc d)" "amount (btc d) \<le> amount bf"
    using btc n \<open>0 \<le> amount act\<close> by simp_all
  show "currency (usd d) = Usd"
    using usd by (auto simp: convertFromBtc_def convertFromBtcToFloor_def)
  have le: "amount (usd d) \<le> convertFromWalletToCeil pr \<lparr>currency = Btc, amount = ?n\<rparr>"
    and "0 \<le> amount (usd d)"
    using usd wallet_conv.conv_le_ceil [OF v n] wallet_conv.floor_le_conv [OF v n] wallet_conv.floor_nonneg [OF v n]
    by (auto simp: convertFromBtc_def convertFromBtcToFloor_def)
  then show "0 \<le> amount (usd d)"
    by simp
  have "ceil_div (?n * amount u) (amount b) \<le> amount u + amount uf"
  proof (rule ceil_div_le)
    have "?n * amount u \<le> amount bf * amount u"
      using pos \<open>0 \<le> amount act\<close> by (simp add: mult_right_mono)
    also have "\<dots> \<le> amount b * (amount u + amount uf)"
      by (rule fee_in_cents [OF priced])
    finally show "?n * amount u \<le> amount b * (amount u + amount uf)" .
  qed (rule pos)
  with le show "amount (usd d) \<le> amount u + amount uf"
    using v n by (simp add: convertFromWalletToCeil_eq ratio)
qed


subsection \<open>The balance check\<close>

text \<open>A flow that passes the check is covered.\<close>

lemma funds_check:
  assumes "checkBalanceForSend f bal = Inr u" and "currency bal = wallet_currency (senderWalletDescriptor f)"
    and "of_int (amount bal) \<le> wallet_total (toLiabilitiesWalletId (wallet_id (senderWalletDescriptor f))) b"
  shows "of_int (amount_of (wallet_currency (senderWalletDescriptor f)) (send_total f)) \<le>
    funds (bank_of b) (wallet_id (senderWalletDescriptor f))"
proof -
  have "amount_of (wallet_currency (senderWalletDescriptor f)) (send_total f) \<le> amount bal"
    using assms(1,2)
    by (cases "currency bal")
      (auto simp: checkBalanceForSend_def senderWalletDescriptor_def send_total_def amount_of_def Let_def
        calc_add_def split: if_splits)
  moreover have "toLiabilitiesWalletId = toLedgerAccountId"
    by (simp add: fun_eq_iff toLiabilitiesWalletId_def toLedgerAccountId_def)
  ultimately show ?thesis
    using assms(3) by (simp add: funds_def bank_of_def wallet_total_def)
qed

lemma covered_triple:
  assumes "balance_law js env"
    and "of_int (amount_of (wallet_currency (senderWalletDescriptor f)) (send_total f)) \<le>
        funds (bank_of b0) (wallet_id (senderWalletDescriptor f)) \<Longrightarrow>
      triple env js X (\<lambda>b. b = b0) m Q E" and "E b0"
  shows "triple env js X (\<lambda>b. b = b0)
    (lbind (getWalletBalanceAmount env (senderWalletDescriptor f)) (\<lambda>bal.
       lbind (check (checkBalanceForSend f bal)) (\<lambda>_. m))) Q E"
proof (rule triple_lbind)
  show "triple env js X (\<lambda>b. b = b0) (getWalletBalanceAmount env (senderWalletDescriptor f))
      (\<lambda>bal b. (currency bal = wallet_currency (senderWalletDescriptor f) \<and> of_int (amount bal) \<le>
         wallet_total (toLiabilitiesWalletId (wallet_id (senderWalletDescriptor f))) b0) \<and> b = b0) E"
    by (rule triple_conseq [OF balance_triple [OF assms(1)]]) (use assms(3) in auto)
qed (intro triple_pure check_triple assms(2) funds_check, use assms(3) in auto)

subsection \<open>A lightning payment\<close>

text \<open>The node answered the payment with \<open>pay\<close>.\<close>

definition node_pays :: "('e, 'w) app_env \<Rightarrow> sent_invoice \<Rightarrow> payment_flow \<Rightarrow> pay_result \<Rightarrow> bool" where
  "node_pays ap invoice f pay \<longleftrightarrow>
     (\<exists>w. Inr pay = fst (case fst (routeDetails f) of
        Some rawRoute \<Rightarrow> ap_payInvoiceViaRoutes ap (inv_paymentHash invoice) rawRoute (snd (routeDetails f)) w
      | None \<Rightarrow> ap_payInvoiceViaPaymentDetails ap invoice (pf_btcPaymentAmount f) (pf_btcProtocolAndBankFee f) w))"

text \<open>The fee the node reports is not negative.\<close>

definition node_fees_ok :: "('e, 'w) app_env \<Rightarrow> bool" where
  "node_fees_ok ap \<longleftrightarrow>
     (\<forall>iv b m w pay. fst (ap_payInvoiceViaPaymentDetails ap iv b m w) = Inr pay \<longrightarrow> nonneg_num (py_roundedUpFee pay))"

text \<open>What the sender gets back of the fee: nothing when the route was known in advance.\<close>

definition refund :: "payment_flow \<Rightarrow> pay_result \<Rightarrow> amount_pair option" where
  "refund f pay =
     (if fst (routeDetails f) \<noteq> None then None
      else case rbind (paymentAmountFromNumber (py_roundedUpFee pay) Btc) (\<lambda>actualFee.
          rbind (WalletPriceRatio (pf_usdPaymentAmount f) (pf_btcPaymentAmount f)) (\<lambda>priceRatio.
            getReimbursement \<lparr>btc = pf_btcProtocolAndBankFee f, usd = pf_usdProtocolAndBankFee f\<rparr> priceRatio
              actualFee)) of
        Inl _ \<Rightarrow> None
      | Inr d \<Rightarrow> if amount (btc d) = 0 then None else Some d)"

lemma refund_amounts:
  assumes "lightning_flow_ok f" and "node_fees_ok ap" and "node_pays ap invoice f pay" and "refund f pay = Some d"
  shows "currency (btc d) = Btc" "currency (usd d) = Usd" "0 \<le> amount (btc d)"
    "amount (btc d) \<le> amount (pf_btcProtocolAndBankFee f)" "0 \<le> amount (usd d)"
    "amount (usd d) \<le> amount (pf_usdPaymentAmount f) + amount (pf_usdProtocolAndBankFee f)"
proof -
  from assms(4) obtain act pr where act: "paymentAmountFromNumber (py_roundedUpFee pay) Btc = Inr act"
      and pr: "WalletPriceRatio (pf_usdPaymentAmount f) (pf_btcPaymentAmount f) = Inr pr"
      and d: "getReimbursement \<lparr>btc = pf_btcProtocolAndBankFee f, usd = pf_usdProtocolAndBankFee f\<rparr> pr act = Inr d"
      and "fst (routeDetails f) = None"
    by (auto simp: refund_def rbind_eq_Inr_iff split: if_splits sum.splits)
  then have "nonneg_num (py_roundedUpFee pay)"
    using assms(2,3) by (auto simp: node_pays_def node_fees_ok_def)
  then have "0 \<le> amount act"
    using paymentAmountFromNumber_nonneg [OF _ act] by (simp add: nonneg_amount_def)
  note * = reimbursement_amounts [OF lightning_flow_priced [OF assms(1)] pr this d]
  show "currency (btc d) = Btc" "currency (usd d) = Usd" "0 \<le> amount (btc d)"
    "amount (btc d) \<le> amount (pf_btcProtocolAndBankFee f)" "0 \<le> amount (usd d)"
    "amount (usd d) \<le> amount (pf_usdPaymentAmount f) + amount (pf_usdProtocolAndBankFee f)"
    by (fact *)+
qed

lemma reimburse_admissible:
  assumes "lightning_flow_ok f" and "safe_total f" and "node_fees_ok ap" and "node_pays ap invoice f pay"
    and "refund f pay = Some d"
  shows "receive_admissible (reimburse_args f d h j p ds)"
proof -
  note d = refund_amounts [OF assms(1,3,4,5)]
  have "safe_int (amount (btc d))" "safe_int (amount (usd d))"
    using assms(2) d fees_pricedD(3) [OF lightning_flow_priced [OF assms(1)]]
    by (auto simp: safe_total_def intro: safe_int_mono)
  with d show ?thesis
    by (simp add: receive_admissible_def reimburse_args_def Let_def entry_amounts_ok_def with_fee_def fee_or_zero_def
        calc_add_def ZERO_SATS_def ZERO_CENTS_def)
qed

lemma record_reimbursement:
  assumes "app_laws js ap" and "receive_admissible (reimburse_args f d h j p ds)"
  shows "triple (ap_ledger ap) js X (\<lambda>b. b = b1)
    (lbind (recordReceiveOffChain (ap_ledger ap) (reimburse_args f d h j p ds)) (\<lambda>_. lreturn True))
    (\<lambda>_ b. receives X lndLedgerAccountDescriptor d ZERO_BANK_FEE (senderWalletDescriptor f) (bank_of b1) (bank_of b)) (\<lambda>b. b = b1)"
proof (rule triple_lbind)
  note laws = app_laws_ledger [OF assms(1)]
  have *: "receive_postings lndLedgerAccountDescriptor ids (reimburse_args f d h j p ds) =
      transfer ids d ZERO_BANK_FEE lndLedgerAccountDescriptor (toLedgerAccountDescriptor (senderWalletDescriptor f))" for ids
    by (simp add: receive_postings_def reimburse_args_def Let_def with_zero_fee)
  show "triple (ap_ledger ap) js X (\<lambda>b. b = b1)
      (recordReceiveOffChain (ap_ledger ap) (reimburse_args f d h j p ds))
      (\<lambda>_ b. receives X lndLedgerAccountDescriptor d ZERO_BANK_FEE (senderWalletDescriptor f) (bank_of b1) (bank_of b)) (\<lambda>b. b = b1)"
    by (rule triple_conseq [OF receive_offchain_transfer.record_triple [OF laws(1,2) assms(2), where ?b0.0 = b1]])
      (auto simp: receives_def * dest: entered_bank)
qed (rule triple_simple)

text \<open>Reimbursing refunds exactly \<open>refund\<close>, or fails without booking.\<close>

definition refunded :: "string set \<Rightarrow> payment_flow \<Rightarrow> pay_result \<Rightarrow> bank \<Rightarrow> bank \<Rightarrow> bool" where
  "refunded X f pay B B' \<longleftrightarrow>
     (case refund f pay of None \<Rightarrow> B' = B | Some d \<Rightarrow> receives X lndLedgerAccountDescriptor d ZERO_BANK_FEE (senderWalletDescriptor f) B B')"

lemma reimburseFee_triple:
  assumes laws: "app_laws js ap" "node_fees_ok ap" and f: "lightning_flow_ok f" "safe_total f"
    and pay: "node_pays ap invoice f pay" and route: "fst (routeDetails f) = None"
  shows "triple (ap_ledger ap) js X (\<lambda>b. b = b1)
    (reimburseFee ap f da cur j (py_roundedUpFee pay) (py_revealedPreImage pay))
    (\<lambda>_ b. refunded X f pay (bank_of b1) (bank_of b)) (\<lambda>b. b = b1)"
  unfolding reimburseFee_def Let_def
proof (intro check_triple)
  fix act pr
  assume act: "paymentAmountFromNumber (py_roundedUpFee pay) Btc = Inr act"
    and pr: "WalletPriceRatio (usd (paymentAmounts f)) (btc (paymentAmounts f)) = Inr pr"
  let ?r = "getReimbursement \<lparr>btc = pf_btcProtocolAndBankFee f, usd = pf_usdProtocolAndBankFee f\<rparr> pr act"
  have refund: "refund f pay = (case ?r of Inl _ \<Rightarrow> None | Inr d \<Rightarrow> if amount (btc d) = 0 then None else Some d)"
    using act pr route by (simp add: refund_def paymentAmounts_def split: sum.splits)
  have unrefunded: "triple (ap_ledger ap) js X (\<lambda>b. b = b1) (lreturn True)
      (\<lambda>_ b. refunded X f pay (bank_of b1) (bank_of b)) (\<lambda>b. b = b1)" if "refund f pay = None"
    using that by (simp add: triple_def lreturn_def refunded_def)
  have rest: "triple (ap_ledger ap) js X (\<lambda>b. b = b1)
      (lbind (recordReceiveOffChain (ap_ledger ap) (reimburse_args f d h j p ds)) (\<lambda>_. lreturn True))
      (\<lambda>_ b. refunded X f pay (bank_of b1) (bank_of b)) (\<lambda>b. b = b1)" if "refund f pay = Some d" for d h p ds
    using record_reimbursement [OF laws(1) reimburse_admissible [OF f laws(2) pay that]]
    by (simp add: refunded_def that)
  show "triple (ap_ledger ap) js X (\<lambda>b. b = b1)
      (case ?r of Inl _ \<Rightarrow> lreturn True
       | Inr feeDifference \<Rightarrow>
          if amount (btc feeDifference) = 0 then lreturn True
          else
            lbind (check (displayAmountFromNumber (pe_fiat (ap_prices ap)) da cur)) (\<lambda>displayAmount.
            lbind (check (DisplayPriceRatio displayAmount (pf_btcPaymentAmount f))) (\<lambda>displayPriceRatio.
            lbind (or_throw (DisplayAmountsConverter (pe_fiat (ap_prices ap)) displayPriceRatio
                (difference_amounts feeDifference))) (\<lambda>ds.
            lbind (check (paymentHashForFlow f)) (\<lambda>paymentHash.
            lbind (recordReceiveOffChain (ap_ledger ap)
                (reimburse_args f feeDifference paymentHash j (py_revealedPreImage pay) (display_txn ds cur)))
              (\<lambda>_. lreturn True))))))
      (\<lambda>_ b. refunded X f pay (bank_of b1) (bank_of b)) (\<lambda>b. b = b1)"
    using refund by (auto split: sum.splits if_splits intro!: unrefunded rest triple_skip [where P = "\<lambda>b. b = b1"] neutral_calls)
qed auto

text \<open>What is left of a booked payment when the attempt ends with each of the results.\<close>

fun ln_finished :: "string set \<Rightarrow> payment_flow \<Rightarrow> error + pay_result \<Rightarrow> ln_send_result \<Rightarrow> bank \<Rightarrow> bank \<Rightarrow> bank \<Rightarrow> bool" where
  "ln_finished X f (Inr pay) (LnSendOk j) B0 B B' = refunded X f pay B B'"
| "ln_finished X f (Inl e) (LnSendPending j) B0 B B' = (B' = B)"
| "ln_finished X f (Inl e) (LnSendAlreadyPaid j) B0 B B' = (B' = B0)"
| "ln_finished X f (Inl e) (LnSendErrWithJournal j e') B0 B B' = (B' = B0)"
| "ln_finished _ _ _ _ _ _ _ = False"

text \<open>A failure may leave the payment booked, refunded or reverted.\<close>

definition ln_interrupted :: "string set \<Rightarrow> payment_flow \<Rightarrow> error + pay_result \<Rightarrow> bank \<Rightarrow> bank \<Rightarrow> bank \<Rightarrow> bool" where
  "ln_interrupted X f r B0 B B' \<longleftrightarrow> B' = B \<or> B' = B0 \<or> (\<exists>pay. r = Inr pay \<and> refunded X f pay B B')"

lemma finish_payment_triple:
  assumes laws: "app_laws js ap" "node_fees_ok ap" and f: "lightning_flow_ok f" "safe_total f"
    and r: "\<And>pay. r = Inr pay \<Longrightarrow> node_pays ap invoice f pay"
    and b1: "entered b0 j ls ps b1" "distinct (map fst b0)"
  shows "triple (ap_ledger ap) js X (\<lambda>b. b = b1) (finish_payment ap f h ws da cur j r)
    (\<lambda>q b. ln_finished X f r q (bank_of b0) (bank_of b1) (bank_of b))
    (\<lambda>b. ln_interrupted X f r (bank_of b0) (bank_of b1) (bank_of b))" (is "triple _ _ _ _ _ ?Q ?E")
proof (cases r)
  note neutral = neutral_settle [OF app_laws_ledger(1) [OF laws(1)]]
    neutral_calls(2) [OF app_laws_quiet(9) [OF laws(1)]]
  case (Inl e)
  have revert: "triple (ap_ledger ap) js X (\<lambda>b. b = b1) (recordLnSendRevert (ap_ledger ap) j h)
      (\<lambda>_ b. bank_of b = bank_of b0) ?E"
    by (rule triple_conseq [OF revert_triple(1) [OF app_laws_ledger(1,2) [OF laws(1)]]])
      (auto simp: ln_interrupted_def reverted_bank [OF b1])
  note steps = triple_return triple_lbind [OF revert]
    triple_skip [where P = "\<lambda>b. b = b1", OF neutral(1)] triple_skip [where P = "\<lambda>b. b = b1", OF neutral(2)]
    triple_skip [where P = "\<lambda>b. b = b1", OF neutral(3)]
    triple_skip [where P = "\<lambda>b. bank_of b = bank_of b0", OF neutral(2)]
  show ?thesis
    unfolding finish_payment_def Let_def Inl sum.case
    by (intro triple_if steps [unfolded Inl]) (auto simp: ln_interrupted_def)
next
  note neutral = neutral_settle [OF app_laws_ledger(1) [OF laws(1)]]
  case (Inr pay)
  have reimburse: "triple (ap_ledger ap) js X (\<lambda>b. b = b1)
      (if fst (routeDetails f) = None
       then reimburseFee ap f da cur j (py_roundedUpFee pay) (py_revealedPreImage pay) else lreturn True)
      (\<lambda>_ b. refunded X f pay (bank_of b1) (bank_of b)) ?E"
  proof (cases "fst (routeDetails f) = None")
    case True
    then show ?thesis
      using triple_conseq [OF reimburseFee_triple [OF laws f r [OF Inr] True]]
      by (auto simp: ln_interrupted_def)
  next
    case False
    then show ?thesis
      by (auto simp: triple_def lreturn_def refunded_def refund_def)
  qed
  show ?thesis
    unfolding finish_payment_def Let_def Inr sum.case
    by (intro triple_return triple_lbind [OF reimburse [unfolded Inr]]
        triple_skip [where P = "\<lambda>b. b = b1", OF neutral(1)]
        triple_skip [where P = "\<lambda>b. refunded X f pay (bank_of b1) (bank_of b)", OF neutral(2)])
      (auto simp: ln_interrupted_def)
qed

definition ln_pays :: "string set \<Rightarrow> payment_flow \<Rightarrow> bank \<Rightarrow> bank \<Rightarrow> bool" where
  "ln_pays X f = pays X (senderWalletDescriptor f) (send_total f) ZERO_BANK_FEE lndLedgerAccountDescriptor"

fun ln_payment_outcome ::
  "('e, 'w) app_env \<Rightarrow> string set \<Rightarrow> sent_invoice \<Rightarrow> payment_flow \<Rightarrow> (error + ln_send_result) option \<Rightarrow>
   bank \<Rightarrow> bank \<Rightarrow> bool" where
  "ln_payment_outcome ap X invoice f (Some (Inr (LnSendOk j))) B B' =
     (\<exists>B1 pay. ln_pays X f B B1 \<and> node_pays ap invoice f pay \<and> refunded X f pay B1 B')"
| "ln_payment_outcome ap X invoice f (Some (Inr (LnSendPending j))) B B' = ln_pays X f B B'"
| "ln_payment_outcome ap X invoice f (Some (Inr (LnSendAlreadyPaid j))) B B' = (B' = B)"
| "ln_payment_outcome ap X invoice f (Some (Inr (LnSendErrWithJournal j e))) B B' = (B' = B)"
| "ln_payment_outcome ap X invoice f _ B B' =
     (B' = B \<or>
      (\<exists>B1. ln_pays X f B B1 \<and> (B' = B1 \<or> (\<exists>pay. node_pays ap invoice f pay \<and> refunded X f pay B1 B'))))"

lemma execute_triple:
  assumes "app_laws js ap"
  shows "triple env js X (\<lambda>b. b = b1) (execute_payment ap invoice f pr)
    (\<lambda>r b. (\<forall>pay. r = Inr pay \<longrightarrow> node_pays ap invoice f pay) \<and> b = b1) (\<lambda>b. b = b1)"
proof -
  have *: "triple env js X (\<lambda>b. b = b1) (attempt sv)
      (\<lambda>r b. (\<forall>pay. r = Inr pay \<longrightarrow> node_pays ap invoice f pay) \<and> b = b1) (\<lambda>b. b = b1)"
    if "quiet js sv" and "\<And>w pay. Inr pay = fst (sv w) \<Longrightarrow> node_pays ap invoice f pay" for sv
    using that by (auto simp: triple_def attempt_def quiet_def split: prod.splits) (metis fst_conv snd_conv)+
  show ?thesis
  proof (cases "fst (routeDetails f)")
    case None
    then show ?thesis
      using * [OF app_laws_quiet(2) [OF assms]]
      by (auto simp: execute_payment_def node_pays_def split: sum.splits intro: triple_return)
  next
    case (Some route)
    then show ?thesis
      using * [OF app_laws_quiet(1) [OF assms]] by (auto simp: execute_payment_def node_pays_def)
  qed
qed

lemma neutral_persist_payment [neutral_intros]:
  "app_laws js ap \<Longrightarrow> neutral env js (persist_payment ap invoice p r)"
  unfolding persist_payment_def
  by (auto split: sum.splits intro!: neutral_intros app_laws_quiet)

lemma ln_payment_triple:
  assumes laws: "app_laws js ap" "node_fees_ok ap" and f: "lightning_flow_ok f" "safe_total f"
    and b0: "distinct (map fst b0)"
  shows "triple (ap_ledger ap) js X (\<lambda>b. b = b0) (lockedPaymentViaLnSteps ap ab invoice f cur memo ws)
    (\<lambda>r b. ln_payment_outcome ap X invoice f (Some (Inr r)) (bank_of b0) (bank_of b))
    (\<lambda>b. ln_payment_outcome ap X invoice f None (bank_of b0) (bank_of b))" (is "triple _ _ _ _ _ ?Q ?E")
proof -
  have E0: "?E b0"
    by simp
  note skip = triple_skip [where P = "\<lambda>b. b = b0"] and book = booked_triple [where ?b0.0 = b0]
  note laws' = app_laws_ledger [OF laws(1)]
  have rest: "triple (ap_ledger ap) js X (\<lambda>b. b = b1)
      (lbind (execute_payment ap invoice f pr) (\<lambda>r.
       lbind (persist_payment ap invoice pk r) (\<lambda>_. finish_payment ap f h ws da cur j r))) ?Q ?E"
    if cov: "of_int (amount_of (wallet_currency (senderWalletDescriptor f)) (send_total f)) \<le>
        funds (bank_of b0) (wallet_id (senderWalletDescriptor f))"
      and own: "own_accounts X ids"
      and b1: "entered b0 j ls (send_postings lndLedgerAccountDescriptor ids (ln_send_args f h pk k m ds)) b1"
    for j ls ids b1 pr pk h da k m ds
  proof -
    have "bank_of b1 = post_all (transfer ids (send_total f) ZERO_BANK_FEE
        (toLedgerAccountDescriptor (senderWalletDescriptor f)) lndLedgerAccountDescriptor) (bank_of b0)"
      using entered_bank [OF b1] by (simp add: send_postings_def ln_send_args_def Let_def with_zero_fee)
    then have pays: "ln_pays X f (bank_of b0) (bank_of b1)"
      using cov own by (auto simp: ln_pays_def pays_def)
    have fin: "triple (ap_ledger ap) js X (\<lambda>b. b = b1) (finish_payment ap f h ws da cur j r) ?Q ?E"
      if r: "\<forall>pay. r = Inr pay \<longrightarrow> node_pays ap invoice f pay" for r
    proof (rule triple_conseq [OF finish_payment_triple [OF laws f _ b1 b0, where r = r]])
      show "?Q q b" if "ln_finished X f r q (bank_of b0) (bank_of b1) (bank_of b)" for q b
        using that pays r by (cases r; cases q) auto
      show "?E b" if "ln_interrupted X f r (bank_of b0) (bank_of b1) (bank_of b)" for b
        using that pays r by (auto simp: ln_interrupted_def)
    qed (use r in auto)
    show ?thesis
    proof (rule triple_lbind)
      show "triple (ap_ledger ap) js X (\<lambda>b. b = b1) (execute_payment ap invoice f pr)
          (\<lambda>r b. (\<forall>pay. r = Inr pay \<longrightarrow> node_pays ap invoice f pay) \<and> b = b1) ?E"
        by (rule triple_conseq [OF execute_triple [OF laws(1)]]) (use pays in auto)
    qed (intro triple_pure triple_skip [where P = "\<lambda>b. b = b1"] neutral_persist_payment laws(1) fin, use pays in auto)
  qed
  show ?thesis
    unfolding lockedPaymentViaLnSteps_def Let_def
    by (intro skip [OF neutral_queries(1)] triple_if covered_triple [OF laws'(3)] check_triple
        skip [OF neutral_displayAmounts [OF laws(1)]] skip [OF neutral_calls(6)]
        book [OF send_offchain_transfer.record_triple [OF laws'(1,2) ln_send_admissible [OF f]]] rest)
      (auto simp: triple_def lerror_def)
qed

subsection \<open>Payments between wallets of the bank\<close>

definition payable :: "'a payment_flow_common_scheme \<Rightarrow> bool" where
  "payable f \<longleftrightarrow>
     nonneg_amount Btc (pf_btcPaymentAmount f) \<and> nonneg_amount Usd (pf_usdPaymentAmount f) \<and>
     nonneg_amount Btc (pf_btcProtocolAndBankFee f) \<and> nonneg_amount Usd (pf_usdProtocolAndBankFee f) \<and>
     pf_recipientWalletId f \<noteq> Some (pf_senderWalletId f) \<and> safe_total f"

lemma lightning_payable:
  assumes "lightning_flow_ok f" and "safe_total f"
  shows "payable f"
proof -
  have "pf_recipientWalletId f \<noteq> Some (pf_senderWalletId f)"
    using assms(1) by (simp add: lightning_flow_ok_def)
  with assms(2) fees_pricedD [OF lightning_flow_priced [OF assms(1)]] show ?thesis
    by (simp add: payable_def nonneg_amount_def)
qed

lemma withoutMinerFee_payable:
  assumes "op_conversion_ok cfg cs" and "withoutMinerFee cs = Inr f" and "safe_total f"
  shows "payable f"
  using assms
  by (auto simp: payable_def withoutMinerFee_def rbind_eq_Inr_iff stateFromPromise_Inr OnChainPaymentFlow_def
      op_conversion_ok_def op_recipient_ok_def pos_amount_def nonneg_amount_def intraLedgerFees_def Let_def
      ZERO_SATS_def ZERO_CENTS_def split: if_splits)

lemma payable_amounts: "payable f \<Longrightarrow> entry_amounts_ok (paymentAmounts f) ZERO_BANK_FEE"
  using safe_int_mono [of "amount (pf_btcPaymentAmount f) + amount (pf_btcProtocolAndBankFee f)" "amount (pf_btcPaymentAmount f)"]
    safe_int_mono [of "amount (pf_usdPaymentAmount f) + amount (pf_usdProtocolAndBankFee f)" "amount (pf_usdPaymentAmount f)"]
  by (simp add: payable_def entry_amounts_ok_def paymentAmounts_def nonneg_amount_def safe_total_def ZERO_BANK_FEE_def
      ZERO_SATS_def ZERO_CENTS_def)

definition il_pays :: "string set \<Rightarrow> 'a payment_flow_common_scheme \<Rightarrow> bank \<Rightarrow> bank \<Rightarrow> bool" where
  "il_pays X f B B' \<longleftrightarrow>
     (\<exists>recipient. recipientWalletDescriptor f = Some recipient \<and>
        pays X (senderWalletDescriptor f) (paymentAmounts f) ZERO_BANK_FEE (toLedgerAccountDescriptor recipient) B B')"

lemma il_paysI:
  assumes "payable f" and "recipientWalletDescriptor f = Some recipient" and "own_accounts X ids"
    and cov: "of_int (amount_of (wallet_currency (senderWalletDescriptor f)) (send_total f)) \<le>
      funds (bank_of b0) (wallet_id (senderWalletDescriptor f))"
    and b1: "entered b0 j ls (intraledger_postings ids (intraledger_args desc f recipient lm)) b1"
  shows "il_pays X f (bank_of b0) (bank_of b1)"
proof -
  have "amount_of c (paymentAmounts f) \<le> amount_of c (send_total f)" for c
    using assms(1) by (cases c) (simp_all add: amount_of_def paymentAmounts_def send_total_def payable_def nonneg_amount_def)
  then have "of_int (amount_of (wallet_currency (senderWalletDescriptor f)) (paymentAmounts f)) \<le>
      funds (bank_of b0) (wallet_id (senderWalletDescriptor f))"
    using cov by (meson of_int_le_iff order_trans)
  moreover have "intraledger_postings ids (intraledger_args desc f recipient lm) = transfer ids (paymentAmounts f)
      ZERO_BANK_FEE (toLedgerAccountDescriptor (senderWalletDescriptor f)) (toLedgerAccountDescriptor recipient)"
    by (simp add: intraledger_postings_def intraledger_args_def paymentAmounts_def)
  ultimately show ?thesis
    using assms(2,3) entered_bank [OF b1] by (auto simp: il_pays_def pays_def)
qed

lemma neutral_displayBoth [neutral_intros]:
  "app_laws js ap \<Longrightarrow> neutral env js (displayAmountsForBoth ap c d am)"
  unfolding displayAmountsForBoth_def by (intro neutral_intros)

lemma record_intraledger:
  assumes "app_laws js ap" and "payable f"
  shows "triple (ap_ledger ap) js X (\<lambda>b. b = b0) (recordIntraledger (ap_ledger ap) (intraledger_args desc f r lm))
    (\<lambda>j b. \<exists>ls ids. own_accounts X ids \<and>
       entered b0 (lj_journalId j) ls (intraledger_postings ids (intraledger_args desc f r lm)) b) (\<lambda>b. b = b0)"
  by (rule intraledger_transfer.record_triple)
    (use app_laws_ledger [OF assms(1)] payable_amounts [OF assms(2)] in
      \<open>simp_all add: intraledger_args_def paymentAmounts_def\<close>)

lemma walletId_triple:
  assumes laws: "app_laws js ap" and f: "payable f"
  shows "triple (ap_ledger ap) js X (\<lambda>b. b = b0) (walletId_lockedPaymentViaIntraledgerSteps ap ab f ip)
    (\<lambda>_ b. il_pays X f (bank_of b0) (bank_of b)) (\<lambda>b. bank_of b = bank_of b0)" (is "triple _ _ _ _ _ ?Q ?E")
proof (cases "recipientWalletDescriptor f")
  case (Some r)
  note skip = triple_skip [where P = "\<lambda>b. b = b0"]
  show ?thesis
    unfolding walletId_lockedPaymentViaIntraledgerSteps_def Let_def Some option.case
    by (intro covered_triple [OF app_laws_ledger(3) [OF laws]] skip [OF neutral_displayBoth [OF laws]]
        skip [OF neutral_calls(6)] booked_triple [where ?b0.0 = b0, OF record_intraledger [OF laws f]] triple_return)
      (auto elim!: il_paysI [OF f Some])
qed (simp add: walletId_lockedPaymentViaIntraledgerSteps_def triple_def lerror_def)

lemma onchain_il_triple:
  assumes laws: "app_laws js ap" and f: "payable f"
  shows "triple (ap_ledger ap) js X (\<lambda>b. b = b0) (onchain_lockedPaymentViaIntraledgerSteps ap ab f ip all)
    (\<lambda>_ b. il_pays X f (bank_of b0) (bank_of b)) (\<lambda>b. bank_of b = bank_of b0)" (is "triple _ _ _ _ _ ?Q ?E")
proof (cases "recipientWalletDescriptor f")
  case (Some r)
  note skip = triple_skip [where P = "\<lambda>b. b = b0"]
  show ?thesis
    unfolding onchain_lockedPaymentViaIntraledgerSteps_def Let_def recipientDetails_def recipient_details.simps
      Some option.case
    by (intro covered_triple [OF app_laws_ledger(3) [OF laws]] skip [OF neutral_displayBoth [OF laws]] check_triple
        skip [OF neutral_calls(6)] booked_triple [where ?b0.0 = b0, OF record_intraledger [OF laws f]] triple_return)
      (auto elim!: il_paysI [OF f Some])
qed (simp add: onchain_lockedPaymentViaIntraledgerSteps_def recipientDetails_def triple_def lerror_def)

text \<open>
  Paying an invoice books the payment first and closes the invoice then. The booking, up to and
  with the journal, and the three steps after it; an invoice is left open when one of them fails,
  and the payment then ends with the error of that step.
\<close>

definition ln_il_booking ::
  "('e, 'w) app_env \<Rightarrow> bool \<Rightarrow> string \<Rightarrow> payment_flow \<Rightarrow> intraledger_parties \<Rightarrow> wallet_descriptor \<Rightarrow> string \<Rightarrow>
   ('w, ledger_journal) ledger_op" where
  "ln_il_booking ap aborted h f ip recipient pk =
     lbind (getWalletBalanceAmount (ap_ledger ap) (senderWalletDescriptor f)) (\<lambda>bal.
     lbind (check (checkBalanceForSend f bal)) (\<lambda>_.
     lbind (displayAmountsForBoth ap (ip_senderDisplayCurrency ip) (ip_recipientDisplayCurrency ip) (flow_amounts f)) (\<lambda>d.
     lbind (guard_lock aborted) (\<lambda>_.
       recordIntraledger (ap_ledger ap) (intraledger_args (pf_descriptionFromInvoice f) f recipient
         (ln_intraledger_metadata f ip recipient h pk d))))))"

definition ln_il_closing ::
  "('e, 'w) app_env \<Rightarrow> string \<Rightarrow> string \<Rightarrow> ledger_journal \<Rightarrow> ('w, intraledger_send_result) ledger_op" where
  "ln_il_closing ap h pk journal =
     lbind (check (ap_LndService ap)) (\<lambda>_.
     lbind (call (ap_cancelInvoice ap pk h)) (\<lambda>_.
     lbind (call (ap_invoices_markAsPaid ap h)) (\<lambda>_. lreturn (IlSendOk (lj_journalId journal)))))"

lemma ln_il_split:
  assumes "recipientWalletDescriptor f = Some recipient" and "pf_recipientPubkey f = Some pk" and "pk \<noteq> []"
  shows "ln_lockedPaymentViaIntraledgerSteps ap aborted h f ip =
    lbind (isLnTxRecorded (ap_ledger ap) h) (\<lambda>recorded.
      if recorded then lreturn IlSendAlreadyPaid
      else lbind (ln_il_booking ap aborted h f ip recipient pk) (ln_il_closing ap h pk))"
  using assms
  by (simp add: ln_lockedPaymentViaIntraledgerSteps_def Let_def recipientDetails_def ln_il_booking_def
      ln_il_closing_def [abs_def] lbind_assoc cong: if_cong)

lemma ln_il_booking_triple:
  assumes laws: "app_laws js ap" and f: "payable f" and r: "recipientWalletDescriptor f = Some recipient"
  shows "triple (ap_ledger ap) js X (\<lambda>b. b = b0) (ln_il_booking ap ab h f ip recipient pk)
    (\<lambda>_ b. il_pays X f (bank_of b0) (bank_of b)) (\<lambda>b. bank_of b = bank_of b0)" (is "triple _ _ _ _ _ ?Q ?E")
proof -
  note skip = triple_skip [where P = "\<lambda>b. b = b0"]
  have book: "triple (ap_ledger ap) js X (\<lambda>b. b = b0)
      (recordIntraledger (ap_ledger ap) (intraledger_args desc f recipient lm)) ?Q ?E"
    if "of_int (amount_of (wallet_currency (senderWalletDescriptor f)) (send_total f)) \<le>
      funds (bank_of b0) (wallet_id (senderWalletDescriptor f))" for desc lm
    by (rule triple_conseq [OF record_intraledger [OF laws f, where ?b0.0 = b0]])
      (use that in \<open>auto elim!: il_paysI [OF f r]\<close>)
  show ?thesis
    unfolding ln_il_booking_def
    by (intro covered_triple [OF app_laws_ledger(3) [OF laws]] skip [OF neutral_displayBoth [OF laws]]
        skip [OF neutral_calls(6)] book) auto
qed

definition invoice_left_open ::
  "('e, 'w) app_env \<Rightarrow> string \<Rightarrow> payment_flow \<Rightarrow> (error + 'a) option \<Rightarrow> 'w \<Rightarrow> bool" where
  "invoice_left_open ap h f r w \<longleftrightarrow>
     (\<exists>e. r = Some (Inl e) \<and>
        (ap_LndService ap = Inl e \<or>
         (\<exists>pk w1. pf_recipientPubkey f = Some pk \<and> ap_cancelInvoice ap pk h w1 = (Inl e, w)) \<or>
         (\<exists>w1. ap_invoices_markAsPaid ap h w1 = (Inl e, w))))"

lemma ln_il_closing_run:
  assumes laws: "app_laws js ap" and pk: "pf_recipientPubkey f = Some pk"
    and run: "ln_il_closing ap h pk journal s1 = (r, s')"
  shows "js (ls_db s') = js (ls_db s1)"
    and "r = Some (Inr (IlSendOk (lj_journalId journal))) \<or> invoice_left_open ap h f r (ls_db s')"
proof -
  have "neutral (ap_ledger ap) js (ln_il_closing ap h pk journal)"
    unfolding ln_il_closing_def by (intro neutral_intros app_laws_quiet [OF laws])
  then show "js (ls_db s') = js (ls_db s1)"
    using run by (metis neutral_def snd_conv)
  show "r = Some (Inr (IlSendOk (lj_journalId journal))) \<or> invoice_left_open ap h f r (ls_db s')"
    using run pk
    by (auto simp: ln_il_closing_def lbind_def check_def call_def lreturn_def invoice_left_open_def
        split: sum.splits prod.splits)
qed

text \<open>The three outcomes of paying an invoice.\<close>

fun ln_il_outcome ::
  "('e, 'w) app_env \<Rightarrow> string set \<Rightarrow> string \<Rightarrow> payment_flow \<Rightarrow> (error + intraledger_send_result) option \<Rightarrow> 'w \<Rightarrow>
   bank \<Rightarrow> bank \<Rightarrow> bool" where
  "ln_il_outcome ap X h f (Some (Inr (IlSendOk j))) w B B' = il_pays X f B B'"
| "ln_il_outcome ap X h f (Some (Inr IlSendAlreadyPaid)) w B B' = (B' = B)"
| "ln_il_outcome ap X h f r w B B' = (B' = B \<or> il_pays X f B B' \<and> invoice_left_open ap h f r w)"

lemma ln_il_outcome_stopped: "(\<And>a. r \<noteq> Some (Inr a)) \<Longrightarrow> ln_il_outcome ap X h f r w B B"
  by (cases "(ap, X, h, f, r, w, B, B)" rule: ln_il_outcome.cases) auto

lemma ln_il_run:
  assumes laws: "app_laws js ap" and f: "payable f" and s: "internal (ap_ledger ap) X s"
    and run: "ln_lockedPaymentViaIntraledgerSteps ap ab h f ip s = (r, s')"
  shows "ln_il_outcome ap X h f r (ls_db s') (balances js s) (balances js s')"
proof (cases "\<exists>recipient pk. recipientWalletDescriptor f = Some recipient \<and> pf_recipientPubkey f = Some pk \<and> pk \<noteq> []")
  case False
  then show ?thesis
    using run by (auto simp: ln_lockedPaymentViaIntraledgerSteps_def recipientDetails_def lerror_def Let_def
        split: option.splits if_splits)
next
  case True
  then obtain recipient pk where rec: "recipientWalletDescriptor f = Some recipient" "pf_recipientPubkey f = Some pk" "pk \<noteq> []"
    by blast
  note run' = run [unfolded ln_il_split [OF rec]]
  have "triple (ap_ledger ap) js X (\<lambda>b. b = js (ls_db s)) (isLnTxRecorded (ap_ledger ap) h)
      (\<lambda>_ b. b = js (ls_db s)) (\<lambda>b. b = js (ls_db s))"
    by (rule triple_neutral [OF neutral_queries(2)])
  from this s refl run' show ?thesis
  proof (cases rule: triple_step)
    case stopped
    then show ?thesis
      by (simp add: balances_bank_of ln_il_outcome_stopped)
  next
    case (passed recorded s1)
    show ?thesis
    proof (cases recorded)
      case True
      then show ?thesis
        using passed by (auto simp: lreturn_def balances_bank_of)
    next
      case False
      with passed(4) have "lbind (ln_il_booking ap ab h f ip recipient pk) (ln_il_closing ap h pk) s1 = (r, s')"
        by simp
      from ln_il_booking_triple [OF laws f rec(1)] passed(2,3) this show ?thesis
      proof (cases rule: triple_step)
        case stopped
        then show ?thesis
          by (simp add: balances_bank_of ln_il_outcome_stopped)
      next
        case (passed journal s2)
        with ln_il_closing_run [OF laws rec(2) passed(4)] show ?thesis
          by (cases r) (auto simp: balances_bank_of invoice_left_open_def)
      qed
    qed
  qed
qed

subsection \<open>Properties\<close>

text \<open>C2: what a lightning payment does to the accounts, for every result. The payment is booked only
  when the sender's balance covers the amount and the fee. On success the amount and the capped
  fee have moved from the sender to the node's account, less the refund of the unused part of
  the fee when the route was not known in advance; while the payment is pending they have moved
  in full; when the node failed or the invoice was already paid every balance is as before. An
  error or exception leaves the accounts as they were, or the payment booked, or booked and
  refunded, and nothing else. The book and the services keep \<open>app_laws\<close>, and the node reports no
  negative fee.\<close>
theorem lightning_payment_outcomes:
  assumes "app_laws js ap" and "node_fees_ok ap" and "lightning_flow_ok f" and "safe_total f"
    and "internal (ap_ledger ap) X s" and "distinct (map fst (js (ls_db s)))"
    and "lockedPaymentViaLnSteps ap aborted invoice f cur memo walletIds s = (r, s')"
  shows "ln_payment_outcome ap X invoice f r (balances js s) (balances js s')"
  using triple_run [OF ln_payment_triple [OF assms(1-4,6), where ab = aborted and invoice = invoice and cur = cur and memo = memo and ws = walletIds]
    assms(5)] assms(7)
  by (auto simp: ends_def balances_bank_of split: option.splits sum.splits)

abbreviation bank_wallets :: "string set" where
  "bank_wallets \<equiv> {''bank'', ''dealerBtc'', ''dealerUsd''}"

lemma example_bank_start:
  "internal (ap_ledger example_app) bank_wallets example_bank" "distinct (map fst (ls_db example_bank))"
  using list_env_internal by (simp_all add: example_bank_def)

lemma example_node_fees: "node_fees_ok example_app"
  by (auto simp: node_fees_ok_def example_app_def' nonneg_num_def)

lemma example_safe: "safe_total example_flow"
  by (simp add: safe_total_def example_flow_def safe_int_def)

lemma lightning_payment_outcomes_witness:
  "\<exists>j s' B pay. lockedPaymentViaLnSteps example_app False example_sent example_flow ''USD'' None [''alice''] example_bank =
       (Some (Inr (LnSendOk j)), s') \<and>
     ln_pays bank_wallets example_flow (balances (\<lambda>w. w) example_bank) B \<and>
     refunded bank_wallets example_flow pay B (balances (\<lambda>w. w) s')"
proof -
  obtain j s' where run: "lockedPaymentViaLnSteps example_app False example_sent example_flow ''USD'' None [''alice'']
      example_bank = (Some (Inr (LnSendOk j)), s')"
    using example_payment by (metis prod.collapse)
  with lightning_payment_outcomes [OF example_app_laws example_node_fees example_flow_ok example_safe
      example_bank_start run] show ?thesis
    by auto
qed

text \<open>C3: what a payment between two wallets of the bank does to the accounts, for the three ways to
  make one: to a wallet id, to the address of a wallet and to an invoice of a wallet. When it
  returns a journal the sender's balance covered the payment, and the amount has moved from the
  sender to the recipient, each in the currency of their wallet, with the dealer's accounts
  taking the conversion and no fee. An invoice that was already paid, an exception, and every
  error leave all balances as they were, with one exception: an invoice whose payment was booked
  could not be closed. Then the error is the one with which the node service, cancelling the
  invoice at the node, or marking it as paid failed, as the last call that was made.\<close>
theorem intraledger_payment_outcomes:
  assumes "app_laws js ap" and "payable f" and "payable g" and "internal (ap_ledger ap) X s"
  shows "(case walletId_lockedPaymentViaIntraledgerSteps ap aborted f parties s of
        (Some (Inr _), s') \<Rightarrow> il_pays X f (balances js s) (balances js s')
      | (_, s') \<Rightarrow> balances js s' = balances js s) \<and>
    (case onchain_lockedPaymentViaIntraledgerSteps ap aborted g parties all s of
        (Some (Inr _), s') \<Rightarrow> il_pays X g (balances js s) (balances js s')
      | (_, s') \<Rightarrow> balances js s' = balances js s) \<and>
    (case ln_lockedPaymentViaIntraledgerSteps ap aborted h f parties s of
        (Some (Inr (IlSendOk _)), s') \<Rightarrow> il_pays X f (balances js s) (balances js s')
      | (Some (Inr IlSendAlreadyPaid), s') \<Rightarrow> balances js s' = balances js s
      | (None, s') \<Rightarrow> balances js s' = balances js s
      | (Some (Inl e), s') \<Rightarrow> balances js s' = balances js s \<or>
          il_pays X f (balances js s) (balances js s') \<and>
          (ap_LndService ap = Inl e \<or>
           (\<exists>pubkey w. pf_recipientPubkey f = Some pubkey \<and> ap_cancelInvoice ap pubkey h w = (Inl e, ls_db s')) \<or>
           (\<exists>w. ap_invoices_markAsPaid ap h w = (Inl e, ls_db s'))))"
proof (intro conjI)
  note outcome = ends_def balances_bank_of
  show "case walletId_lockedPaymentViaIntraledgerSteps ap aborted f parties s of
        (Some (Inr _), s') \<Rightarrow> il_pays X f (balances js s) (balances js s')
      | (_, s') \<Rightarrow> balances js s' = balances js s"
    using triple_run [OF walletId_triple [OF assms(1,2), of _ _ aborted parties] assms(4)]
    by (auto simp: outcome split: option.splits sum.splits prod.splits)
  show "case onchain_lockedPaymentViaIntraledgerSteps ap aborted g parties all s of
        (Some (Inr _), s') \<Rightarrow> il_pays X g (balances js s) (balances js s')
      | (_, s') \<Rightarrow> balances js s' = balances js s"
    using triple_run [OF onchain_il_triple [OF assms(1,3), of _ _ aborted parties all] assms(4)]
    by (auto simp: outcome split: option.splits sum.splits prod.splits)
qed (use ln_il_run [OF assms(1,2,4), of aborted h parties] in
    \<open>auto simp: invoice_left_open_def split: option.splits sum.splits prod.splits intraledger_send_result.splits\<close>)

lemma example_local_payable: "payable example_local_flow" "payable example_local_onchain"
  by (simp_all add: payable_def safe_total_def example_local_flow_def example_local_onchain_def example_flow_def
      payment_flow_common.defs onchain_payment_flow.defs nonneg_amount_def safe_int_def ZERO_SATS_def ZERO_CENTS_def)

lemma intraledger_payment_outcomes_witness:
  "\<exists>j s' j2 s2 j3 s3.
     walletId_lockedPaymentViaIntraledgerSteps example_app False example_local_flow example_parties example_bank = (Some (Inr j), s') \<and>
     il_pays bank_wallets example_local_flow (balances (\<lambda>w. w) example_bank) (balances (\<lambda>w. w) s') \<and>
     onchain_lockedPaymentViaIntraledgerSteps example_app False example_local_onchain example_parties False example_bank =
       (Some (Inr j2), s2) \<and>
     il_pays bank_wallets example_local_onchain (balances (\<lambda>w. w) example_bank) (balances (\<lambda>w. w) s2) \<and>
     ln_lockedPaymentViaIntraledgerSteps example_app False ''h'' example_local_flow example_parties example_bank =
       (Some (Inr (IlSendOk j3)), s3) \<and>
     il_pays bank_wallets example_local_flow (balances (\<lambda>w. w) example_bank) (balances (\<lambda>w. w) s3)"
proof -
  obtain j s' j2 s2 j3 s3 where run:
    "walletId_lockedPaymentViaIntraledgerSteps example_app False example_local_flow example_parties example_bank = (Some (Inr j), s')"
    "onchain_lockedPaymentViaIntraledgerSteps example_app False example_local_onchain example_parties False example_bank =
       (Some (Inr j2), s2)"
    "ln_lockedPaymentViaIntraledgerSteps example_app False ''h'' example_local_flow example_parties example_bank =
       (Some (Inr (IlSendOk j3)), s3)"
    using example_local_payments by (metis prod.collapse)
  from intraledger_payment_outcomes [OF example_app_laws example_local_payable example_bank_start(1),
      of False example_parties False "''h''"] run show ?thesis
    by auto
qed

end
