(* ===== verification/Send_Onchain_Invariant.thy ===== *)
theory Send_Onchain_Invariant
  imports Send_Invariant
begin

text \<open>
  What an on-chain payment does to the accounts: the flow that the builder makes of the fee the
  payout service estimates can be booked, and the payment moves its total to the on-chain
  account or leaves everything as it was.
\<close>

subsection \<open>An on-chain payment\<close>

text \<open>
  The fees the payout service estimates are not negative, and the flows they give have totals
  in the safe range.
\<close>

definition payouts_ok ::
  "('e, 'w) app_env \<Rightarrow> opfb_env \<Rightarrow> int \<Rightarrow> opfb_conversion_state \<Rightarrow> bool" where
  "payouts_ok ap env now cs \<longleftrightarrow>
     opfb_env_ok env \<and> op_conversion_ok (fst env) cs \<and> op_settlementMethod (oc_state cs) = SM_OnChain \<and>
     (\<forall>a d v w m. fst (ap_estimateFeeForPayout ap a d v w) = Inr m \<longrightarrow>
        nonneg_amount Btc m \<and> (\<forall>f. withMinerFee (snd (snd env)) now cs m = Inr f \<longrightarrow> safe_total f))"

text \<open>The flow of the builder for a fee the service estimated.\<close>

definition payout_flow ::
  "('e, 'w) app_env \<Rightarrow> fees_config \<Rightarrow> int \<Rightarrow> error + opfb_conversion_state \<Rightarrow> onchain_payment_flow \<Rightarrow> bool" where
  "payout_flow ap fc now builder f \<longleftrightarrow>
     (\<exists>cs m a d v w. builder = Inr cs \<and> fst (ap_estimateFeeForPayout ap a d v w) = Inr m \<and>
        withMinerFee fc now cs m = Inr f)"

lemma ceil_mono:
  assumes "valid_ratio pr" and "0 \<le> m" and "m \<le> n"
  shows "convertFromWalletToCeil pr \<lparr>currency = Btc, amount = m\<rparr> \<le>
    convertFromWalletToCeil pr \<lparr>currency = Btc, amount = n\<rparr>"
  using wallet_conv.floor_ceil_add [OF assms(1), of "n - m" m] wallet_conv.floor_nonneg [OF assms(1), of "n - m"] assms(2,3)
  by simp

lemma usd_bank_fee_le:
  assumes "opfb_env_ok env" and "op_conversion_ok (fst env) cs" and "nonneg_amount Btc m"
    and "withMinerFee (snd (snd env)) now cs m = Inr f"
  shows "amount (pf_usdBankFee f) \<le> amount (pf_usdProtocolAndBankFee f)"
  using assms(4)
proof (cases rule: withMinerFee_Inr)
  case (1 pr minFee imb fee)
  have st: "op_recipient_ok (fst env) (oc_state cs)" "pos_amount Btc (oc_btcProposedAmount cs)"
      "pos_amount Usd (oc_usdProposedAmount cs)"
    using assms(2) by (simp_all add: op_conversion_ok_def)
  have v: "valid_ratio pr"
    using ratio_of_amounts(1) [OF 1(2)] st by (simp add: pos_nonneg)
  have "fees_config_ok (snd (snd env))"
    using assms(1) by (cases env) simp
  then have "nonneg_amount Btc minFee"
    using paymentAmountFromNumber_nonneg [OF _ 1(3)] st(1)
    by (simp add: num_or_nonneg op_recipient_ok_def fees_config_ok_def)
  note fees = withdrawalFee_nonneg [OF assms(3) this st(2), of "onChainFees (snd (snd env))" imb, folded 1(4)]
  have "amount (bankFee fee) \<le> amount (totalFee fee)" "0 \<le> amount (bankFee fee)"
    using fees assms(3) by (simp_all add: nonneg_amount_def)
  then show ?thesis
    using ceil_mono [OF v] convertFromWallet_amount(3) [of pr "bankFee fee"] convertFromWallet_amount(3) [of pr "totalFee fee"]
    by (simp add: 1(6) OnChainPaymentFlow_def Let_def convertFromBtcToCeil_def)
qed

lemma payout_flow_ok:
  assumes "payouts_ok ap env now cs" and "payout_flow ap (snd (snd env)) now (Inr cs) f"
  shows "onchain_flow_ok (fst env) f" and "pf_settlementMethod f = SM_OnChain" and "safe_total f"
    and "amount (pf_usdBankFee f) \<le> amount (pf_usdProtocolAndBankFee f)"
    and "\<exists>m. nonneg_amount Btc m \<and> pf_btcMinerFee f = Some m"
proof -
  from assms obtain m where m: "nonneg_amount Btc m" and f: "withMinerFee (snd (snd env)) now cs m = Inr f"
      and env: "opfb_env_ok env" "op_conversion_ok (fst env) cs" "op_settlementMethod (oc_state cs) = SM_OnChain"
      and "safe_total f"
    unfolding payouts_ok_def payout_flow_def by blast
  then show "safe_total f"
    by simp
  show "onchain_flow_ok (fst env) f"
    using withMinerFee_ok [OF env(1,2) m, of now] f by (simp add: ob_def)
  show "amount (pf_usdBankFee f) \<le> amount (pf_usdProtocolAndBankFee f)"
    by (rule usd_bank_fee_le [OF env(1,2) m f])
  show "pf_settlementMethod f = SM_OnChain" and "\<exists>m. nonneg_amount Btc m \<and> pf_btcMinerFee f = Some m"
    using f env(3) m by (auto elim!: withMinerFee_Inr simp: OnChainPaymentFlow_def Let_def)
qed

lemma onchain_send_amounts:
  assumes "payouts_ok ap env now cs" and "payout_flow ap (snd (snd env)) now (Inr cs) f"
  shows "entry_amounts_ok (send_total f) (bankFees f)"
  using payout_flow_ok [OF assms]
  by (auto simp: onchain_flow_ok_def entry_amounts_ok_def send_total_def bankFees_def safe_total_def pos_amount_def
      nonneg_amount_def)

definition onchain_pays ::
  "('e, 'w) app_env \<Rightarrow> fees_config \<Rightarrow> int \<Rightarrow> error + opfb_conversion_state \<Rightarrow> string set \<Rightarrow>
   onchain_payment_flow \<Rightarrow> bank \<Rightarrow> bank \<Rightarrow> bool" where
  "onchain_pays ap fc now builder X f B B' \<longleftrightarrow>
     payout_flow ap fc now builder f \<and>
     pays X (senderWalletDescriptor f) (send_total f) (bankFees f) onChainLedgerAccountDescriptor B B'"

lemma minerFee_triple:
  assumes "app_laws js ap"
  shows "triple (ap_ledger ap) js X (\<lambda>b. b = b0) (getMinerFeeAndPaymentFlow ap fc now builder speed)
    (\<lambda>f b. payout_flow ap fc now builder f \<and> b = b0) (\<lambda>b. b = b0)"
  unfolding getMinerFeeAndPaymentFlow_def
  by (intro check_triple call_triple [OF app_laws_quiet(5) [OF assms]] triple_check)
    (fastforce simp: payout_flow_def rbind_eq_Inr_iff)+

lemma record_payout:
  assumes laws: "app_laws js ap" and env: "payouts_ok ap env now cs" and f: "payout_flow ap (snd (snd env)) now (Inr cs) f"
  shows "triple (ap_ledger ap) js X (\<lambda>b. b = b0)
    (recordSendOnChain (ap_ledger ap) (onchain_send_args f memo all d))
    (\<lambda>j b. \<exists>ls ids. own_accounts X ids \<and> entered b0 (lj_journalId j) ls
       (transfer ids (send_total f) (bankFees f) (toLedgerAccountDescriptor (senderWalletDescriptor f))
          onChainLedgerAccountDescriptor) b) (\<lambda>b. b = b0)"
proof -
  have *: "send_postings onChainLedgerAccountDescriptor ids (onchain_send_args f memo all d) =
      transfer ids (send_total f) (bankFees f) (toLedgerAccountDescriptor (senderWalletDescriptor f))
        onChainLedgerAccountDescriptor" for ids
    by (simp add: send_postings_def onchain_send_args_def Let_def fee_or_zero_def obj_or_def)
  have "send_admissible (onchain_send_args f memo all d)"
    using onchain_send_amounts [OF env f]
    by (simp add: send_admissible_def onchain_send_args_def Let_def fee_or_zero_def obj_or_def)
  from send_onchain_transfer.record_triple [OF app_laws_ledger(1,2) [OF laws] this, of X b0] show ?thesis
    by (simp only: *)
qed

text \<open>
  The payment books first and queues the payout then: the booking, with the flow and the journal
  it leads to, and the steps after it.
\<close>

definition onchain_booking ::
  "('e, 'w) app_env \<Rightarrow> fees_config \<Rightarrow> int \<Rightarrow> bool \<Rightarrow> error + opfb_conversion_state \<Rightarrow> string \<Rightarrow> string \<Rightarrow>
   string option \<Rightarrow> bool \<Rightarrow> ('w, onchain_payment_flow \<times> ledger_journal) ledger_op" where
  "onchain_booking ap fc now ab builder speed cur memo all =
     lbind (getMinerFeeAndPaymentFlow ap fc now builder speed) (\<lambda>f.
     lbind (getWalletBalanceAmount (ap_ledger ap) (senderWalletDescriptor f)) (\<lambda>bal.
     lbind (check (checkBalanceForSend f bal)) (\<lambda>_.
     lbind (guard_lock ab) (\<lambda>_.
     lbind (displayAmountsFor ap cur (flow_amounts f)) (\<lambda>ds.
     lbind (recordSendOnChain (ap_ledger ap) (onchain_send_args f memo all (display_txn ds cur))) (\<lambda>journal.
       lreturn (f, journal)))))))"

definition onchain_payout ::
  "('e, 'w) app_env \<Rightarrow> string \<Rightarrow> onchain_payment_flow \<times> ledger_journal \<Rightarrow> ('w, string) ledger_op" where
  "onchain_payout ap speed =
     (\<lambda>(f, journal). lbind (attempt (ap_queuePayoutToAddress ap (senderWalletDescriptor f) (pf_address f)
          (pf_btcPaymentAmount f) speed (lj_journalId journal))) (\<lambda>payout.
      case payout of
        Inl e \<Rightarrow> lbind (revertOnChainPayment (ap_ledger ap) (lj_journalId journal) None) (\<lambda>_. lerror e)
      | Inr _ \<Rightarrow> lreturn (lj_journalId journal)))"

lemma onchain_split:
  "lockedPaymentViaOnChainSteps ap fc now ab builder speed cur memo all =
     lbind (onchain_booking ap fc now ab builder speed cur memo all) (onchain_payout ap speed)"
  by (simp add: lockedPaymentViaOnChainSteps_def Let_def onchain_booking_def onchain_payout_def lbind_assoc)

lemma onchain_booking_triple:
  assumes laws: "app_laws js ap" and env: "payouts_ok ap env now cs"
  shows "triple (ap_ledger ap) js X (\<lambda>b. b = b0) (onchain_booking ap (snd (snd env)) now ab (Inr cs) speed cur memo all)
    (\<lambda>(f, journal) b. onchain_pays ap (snd (snd env)) now (Inr cs) X f (bank_of b0) (bank_of b) \<and>
       (\<exists>ls ps. entered b0 (lj_journalId journal) ls ps b)) (\<lambda>b. b = b0)" (is "triple _ _ _ _ _ ?Q ?E")
proof -
  note skip = triple_skip [where P = "\<lambda>b. b = b0"]
  have run: "triple (ap_ledger ap) js X (\<lambda>b. b = b0)
      (lbind (getWalletBalanceAmount (ap_ledger ap) (senderWalletDescriptor f)) (\<lambda>bal.
       lbind (check (checkBalanceForSend f bal)) (\<lambda>_.
       lbind (guard_lock ab) (\<lambda>_.
       lbind (displayAmountsFor ap cur (flow_amounts f)) (\<lambda>ds.
       lbind (recordSendOnChain (ap_ledger ap) (onchain_send_args f memo all (display_txn ds cur))) (\<lambda>journal.
         lreturn (f, journal))))))) ?Q ?E"
    if f: "payout_flow ap (snd (snd env)) now (Inr cs) f" for f
    by (intro covered_triple [OF app_laws_ledger(3) [OF laws]] skip [OF neutral_calls(6)]
        skip [OF neutral_displayAmounts [OF laws]] triple_return
        booked_triple [where ?b0.0 = b0, OF record_payout [OF laws env f]])
      (auto simp: onchain_pays_def pays_def f dest: entered_bank)
  show ?thesis
    unfolding onchain_booking_def
    by (rule triple_lbind [OF minerFee_triple [OF laws]]) (intro triple_pure run)
qed

lemma revertOnChain_result:
  "revertOnChainPayment env j d s = (r, s') \<Longrightarrow> r = Some (Inr True) \<or> r = Some (Inl UnknownLedgerError)"
  by (auto simp: revertOnChainPayment_def catch_unknown_def lbind_def on_db_def lreturn_def
      split: option.splits prod.splits void_result.splits)

text \<open>The payout was refused and taking the payment back failed; the result is the error of that.\<close>

definition payout_not_reverted ::
  "('e, 'w) app_env \<Rightarrow> string \<Rightarrow> onchain_payment_flow \<Rightarrow> error \<Rightarrow> 'w ledger_state \<Rightarrow> bool" where
  "payout_not_reverted ap speed f e s' \<longleftrightarrow>
     (\<exists>j refusal w s1. ap_queuePayoutToAddress ap (senderWalletDescriptor f) (pf_address f) (pf_btcPaymentAmount f)
          speed j w = (Inl refusal, ls_db s1) \<and>
        revertOnChainPayment (ap_ledger ap) j None s1 = (Some (Inl e), s'))"

lemma onchain_payout_run:
  assumes laws: "app_laws js ap" and s1: "internal (ap_ledger ap) X s1"
    and b1: "entered b0 (lj_journalId journal) ls ps (js (ls_db s1))" and b0: "distinct (map fst b0)"
    and run: "onchain_payout ap speed (f, journal) s1 = (r, s')"
  obtains (queued) payout :: string and w where "r = Some (Inr (lj_journalId journal))" and "js (ls_db s') = js (ls_db s1)"
      and "ap_queuePayoutToAddress ap (senderWalletDescriptor f) (pf_address f) (pf_btcPaymentAmount f) speed
        (lj_journalId journal) w = (Inr payout, ls_db s')"
  | (taken_back) e where "r = Some (Inl e)" and "bank_of (js (ls_db s')) = bank_of b0"
  | (not_reverted) e where "r = Some (Inl e)" and "js (ls_db s') = js (ls_db s1)" and "payout_not_reverted ap speed f e s'"
proof -
  let ?j = "lj_journalId journal"
  obtain q w where q: "ap_queuePayoutToAddress ap (senderWalletDescriptor f) (pf_address f) (pf_btcPaymentAmount f)
      speed ?j (ls_db s1) = (q, w)"
    by fastforce
  then have w: "js w = js (ls_db s1)"
    using app_laws_quiet(6) [OF laws] by (metis quiet_def snd_conv)
  show thesis
  proof (cases q)
    case (Inr payout)
    with q w run show thesis
      by (intro queued [of "ls_db s1" payout]) (auto simp: onchain_payout_def lbind_def attempt_def lreturn_def)
  next
    case (Inl e)
    obtain x s2 where x: "revertOnChainPayment (ap_ledger ap) ?j None (s1\<lparr>ls_db := w\<rparr>) = (x, s2)"
      by fastforce
    from tripleD [OF revert_triple(2) [OF app_laws_ledger(1,2) [OF laws], where ?b1.0 = "js (ls_db s1)"] _ _ x, of X] s1 w
    have rev: "ends (\<lambda>_. voided (js (ls_db s1)) ?j) (\<lambda>b. b = js (ls_db s1)) x (js (ls_db s2))"
      by simp
    from revertOnChain_result [OF x] show thesis
    proof
      assume "x = Some (Inr True)"
      with Inl q x run rev show thesis
        by (intro taken_back [of e]) (auto simp: onchain_payout_def lbind_def attempt_def lerror_def reverted_bank [OF b1 b0])
    next
      assume x': "x = Some (Inl UnknownLedgerError)"
      with Inl q x run have r: "r = Some (Inl UnknownLedgerError)" "s' = s2"
        by (simp_all add: onchain_payout_def lbind_def attempt_def)
      have "payout_not_reverted ap speed f UnknownLedgerError s'"
        unfolding payout_not_reverted_def using q x x' Inl
        by (intro exI [of _ ?j] exI [of _ e] exI [of _ "ls_db s1"] exI [of _ "s1\<lparr>ls_db := w\<rparr>"]) (simp add: r)
      then show thesis
        using rev by (intro not_reverted [OF r(1)]) (simp_all add: r x')
    qed
  qed
qed

subsection \<open>Properties\<close>

text \<open>C4: what an on-chain payment does to the accounts. When it returns a journal, the sender's
  balance covered the total, the flow came from the builder with a fee the payout service
  estimated, exactly the amount and the miner fee have moved from the sender to the on-chain
  account and the bank fee to the bank owner, and the payout of this journal was queued as the
  last step. When it throws or fails, also because the payout was not queued, every balance is
  as before. The one exception: the payout was refused, the revert that followed failed itself,
  and the payment ends with the error of that revert; then the payment is still booked.\<close>
theorem onchain_payment_outcomes:
  assumes "app_laws js ap" and "payouts_ok ap env now cs" and "internal (ap_ledger ap) X s"
    and "distinct (map fst (js (ls_db s)))"
  shows "case lockedPaymentViaOnChainSteps ap (snd (snd env)) now aborted (Inr cs) speed cur memo all s of
      (Some (Inr j), s') \<Rightarrow> (\<exists>f payout w. onchain_pays ap (snd (snd env)) now (Inr cs) X f (balances js s) (balances js s') \<and>
        ap_queuePayoutToAddress ap (senderWalletDescriptor f) (pf_address f) (pf_btcPaymentAmount f) speed j w =
          (Inr payout, ls_db s'))
    | (None, s') \<Rightarrow> balances js s' = balances js s
    | (Some (Inl e), s') \<Rightarrow> balances js s' = balances js s \<or>
        (\<exists>f j refusal w s1. onchain_pays ap (snd (snd env)) now (Inr cs) X f (balances js s) (balances js s') \<and>
          ap_queuePayoutToAddress ap (senderWalletDescriptor f) (pf_address f) (pf_btcPaymentAmount f) speed j w =
            (Inl refusal, ls_db s1) \<and>
          revertOnChainPayment (ap_ledger ap) j None s1 = (Some (Inl e), s'))"
proof -
  obtain r s' where run: "lockedPaymentViaOnChainSteps ap (snd (snd env)) now aborted (Inr cs) speed cur memo all s = (r, s')"
    by fastforce
  from onchain_booking_triple [OF assms(1,2)] assms(3) refl run [unfolded onchain_split] show ?thesis
  proof (cases rule: triple_step)
    case stopped
    then show ?thesis
      by (cases r) (auto simp: run balances_bank_of split: sum.splits)
  next
    case (passed a s1)
    obtain f journal where a: "a = (f, journal)"
      by fastforce
    with passed(3) obtain ls ps where b1: "entered (js (ls_db s)) (lj_journalId journal) ls ps (js (ls_db s1))"
        and pays: "onchain_pays ap (snd (snd env)) now (Inr cs) X f (bank_of (js (ls_db s))) (bank_of (js (ls_db s1)))"
      by auto
    from assms(1) passed(2) b1 assms(4) passed(4) [unfolded a] show ?thesis
      by (cases rule: onchain_payout_run) (use run pays in \<open>auto simp: balances_bank_of payout_not_reverted_def\<close>)
  qed
qed

definition example_payout_amount :: opfb_amount_state where
  "example_payout_amount =
     withAmount (projr (OPFB_withoutRecipientWallet (withSenderWalletAndAccount
       (withAddress (fst (example_onchain_env False)) ''bc1'') alice None))) \<lparr>currency = Btc, amount = 10000\<rparr>"

definition example_payout_state :: opfb_conversion_state where
  "example_payout_state = projr (OPFB_withConversion example_args 0 example_payout_amount)"

lemma example_payout_conversion: "op_conversion_ok (fst (example_onchain_env False)) example_payout_state"
proof -
  have "op_amount_ok (fst (example_onchain_env False)) example_payout_amount"
    unfolding example_payout_amount_def
    by (intro withAmount_ok) (simp_all add: OPFB_withoutRecipientWallet_def op_recipient_ok_def op_sender_ok_def
        withSenderWalletAndAccount_def withAddress_def opfb_state_defs)
  moreover have "\<not> isl (OPFB_withConversion example_args 0 example_payout_amount)"
    by code_simp
  ultimately show ?thesis
    using OPFB_withConversion_ok [of "example_onchain_env False" example_payout_amount example_args 0] example_ok(1)
    by (cases "OPFB_withConversion example_args 0 example_payout_amount") (auto simp: example_payout_state_def ob_def)
qed

lemma example_payout_facts:
  "op_settlementMethod (oc_state example_payout_state) = SM_OnChain"
  "rbind (withMinerFee (snd (snd (example_onchain_env False))) 0 example_payout_state \<lparr>currency = Btc, amount = 300\<rparr>)
     (\<lambda>f. Inr (safe_total f, senderWalletDescriptor f, checkBalanceForSend f \<lparr>currency = Btc, amount = 20000\<rparr>)) =
     Inr (True, alice, Inr ())"
  "\<not> isl (OPFB_btcProposedAmount example_payout_state)" "\<not> isl (OPFB_addressForFlow example_payout_state)"
  "getWalletBalanceAmount list_env alice example_bank = (Some (Inr \<lparr>currency = Btc, amount = 20000\<rparr>), example_bank)"
  by code_simp+

lemma example_estimate: "ap_estimateFeeForPayout example_app a d v w = (Inr \<lparr>currency = Btc, amount = 300\<rparr>, w)"
  "ap_queuePayoutToAddress example_app wd ad am sp j w = (Inr ''payout'', w)"
  by (simp_all add: example_app_def')

lemma example_payouts_ok: "payouts_ok example_app (example_onchain_env False) 0 example_payout_state"
  using example_payout_facts(1,2) example_payout_conversion example_onchain_ok
  by (auto simp: payouts_ok_def example_estimate nonneg_amount_def rbind_eq_Inr_iff)

lemma example_payout:
  "\<exists>j. fst (lockedPaymentViaOnChainSteps example_app (snd (snd (example_onchain_env False))) 0 False
     (Inr example_payout_state) ''fast'' ''USD'' None False example_bank) = Some (Inr j)"
proof -
  obtain f where f: "withMinerFee (snd (snd (example_onchain_env False))) 0 example_payout_state
      \<lparr>currency = Btc, amount = 300\<rparr> = Inr f"
      and bal: "senderWalletDescriptor f = alice" "checkBalanceForSend f \<lparr>currency = Btc, amount = 20000\<rparr> = Inr ()"
    using example_payout_facts(2) by (auto simp: rbind_eq_Inr_iff)
  obtain b a where "OPFB_btcProposedAmount example_payout_state = Inr b" "OPFB_addressForFlow example_payout_state = Inr a"
    using example_payout_facts(3,4) by (auto simp: isl_def) (metis sumE)
  then have flow: "getMinerFeeAndPaymentFlow example_app (snd (snd (example_onchain_env False))) 0
      (Inr example_payout_state) ''fast'' example_bank = (Some (Inr f), example_bank)"
    by (simp add: getMinerFeeAndPaymentFlow_def lbind_def check_def call_def example_estimate f rbind_def)
  obtain ds where ds: "displayAmountsFor example_app ''USD'' (flow_amounts f) example_bank = (Some (Inr ds), example_bank)"
    using example_display by blast
  obtain j s1 where "recordSendOnChain list_env (onchain_send_args f None False (display_txn ds ''USD'')) example_bank =
      (Some (Inr j), s1)"
    using list_env_records(4) by blast
  then show ?thesis
    by (simp add: lockedPaymentViaOnChainSteps_def lbind_def flow bal example_payout_facts(5) check_def guard_lock_def
        lreturn_def ds attempt_def example_estimate)
qed

lemma onchain_payment_outcomes_witness:
  "\<exists>j s'. lockedPaymentViaOnChainSteps example_app (snd (snd (example_onchain_env False))) 0 False
       (Inr example_payout_state) ''fast'' ''USD'' None False example_bank = (Some (Inr j), s') \<and>
     (\<exists>f. onchain_pays example_app (snd (snd (example_onchain_env False))) 0 (Inr example_payout_state) bank_wallets f
       (balances (\<lambda>w. w) example_bank) (balances (\<lambda>w. w) s'))"
proof -
  obtain j s' where run: "lockedPaymentViaOnChainSteps example_app (snd (snd (example_onchain_env False))) 0 False
       (Inr example_payout_state) ''fast'' ''USD'' None False example_bank = (Some (Inr j), s')"
    using example_payout by (metis prod.collapse)
  from onchain_payment_outcomes [OF example_app_laws example_payouts_ok example_bank_start,
      where aborted = False and speed = "''fast''" and cur = "''USD''" and memo = None and all = False]
    run show ?thesis
    by auto
qed

end
