(* ===== verification/Payment_Memos.thy ===== *)
theory Payment_Memos
  imports Send_Invariant
begin

text \<open>
  What the parties of a payment inside the bank can read of it. The transactions a payment
  stores carry metadata, the memo of the payer and the user names among it; this theory follows
  them from the arguments of the three use cases through the entry builder to the lines that are
  committed. What the lines of the other accounts record does not depend on the memo of a payment
  by invoice or by address.
\<close>

subsection \<open>The stored lines\<close>

text \<open>
  The documents of the book, oldest first: the id of a journal and its lines with their metadata.
  A commit stores the transactions of the entry under the id it returns; the metadata
  collection, the price cache, the node and the invoices are other collections or services.
\<close>

type_synonym 'w documents = "'w \<Rightarrow> (string \<times> medici_tx list) list"

definition documents_laws :: "'w documents \<Rightarrow> ('e, 'w) app_env \<Rightarrow> bool" where
  "documents_laws docs ap \<longleftrightarrow>
     medici_laws (le_medici (ap_ledger ap)) \<and>
     (\<forall>d. md_transactions (le_medici (ap_ledger ap)) (le_entry (ap_ledger ap) d) = []) \<and>
     (\<forall>e w r w'. le_commit (ap_ledger ap) e w = (Some r, w') \<longrightarrow>
        docs w' = docs w @ [(se_id r, md_transactions (le_medici (ap_ledger ap)) e)]) \<and>
     (\<forall>ms w. docs (le_insertMany (ap_ledger ap) ms w) = docs w) \<and>
     quiet_cache docs ap \<and>
     (\<forall>p h. quiet docs (ap_cancelInvoice ap p h)) \<and> (\<forall>h. quiet docs (ap_invoices_markAsPaid ap h))"

text \<open>The line of the payer and the other lines of a payment, before zero lines are dropped.\<close>

definition payer_account :: "wallet_descriptor \<Rightarrow> string" where
  "payer_account sender = toLedgerAccountId (wallet_id sender)"

definition payer_line :: "record_intraledger_args \<Rightarrow> medici_tx" where
  "payer_line args =
     (let a = (if wallet_currency (ri_senderWalletDescriptor args) = Btc then btc (ri_amount args) else usd (ri_amount args))
      in \<lparr>mt_account = payer_account (ri_senderWalletDescriptor args), mt_debit = Number_big (amount a), mt_credit = Fin 0,
          mt_meta = line_meta (ri_metadata args ++ ri_additionalDebitMetadata args) (currency a) None\<rparr>)"

definition dealer_lines :: "static_account_ids \<Rightarrow> record_intraledger_args \<Rightarrow> medici_tx list" where
  "dealer_lines ids args =
     (let m = ri_metadata args ++ ri_additionalInternalMetadata args; b = btc (ri_amount args); u = usd (ri_amount args) in
      case (wallet_currency (ri_senderWalletDescriptor args), wallet_currency (ri_recipientWalletDescriptor args)) of
        (Usd, Btc) \<Rightarrow>
          [\<lparr>mt_account = dealerBtcAccountId ids, mt_debit = Number_big (amount b), mt_credit = Fin 0,
            mt_meta = line_meta m (currency b) None\<rparr>,
           \<lparr>mt_account = dealerUsdAccountId ids, mt_debit = Fin 0, mt_credit = Number_big (amount u),
            mt_meta = line_meta m (currency u) None\<rparr>]
      | (Btc, Usd) \<Rightarrow>
          [\<lparr>mt_account = dealerBtcAccountId ids, mt_debit = Fin 0, mt_credit = Number_big (amount b),
            mt_meta = line_meta m (currency b) None\<rparr>,
           \<lparr>mt_account = dealerUsdAccountId ids, mt_debit = Number_big (amount u), mt_credit = Fin 0,
            mt_meta = line_meta m (currency u) None\<rparr>]
      | _ \<Rightarrow> [])"

definition payee_line :: "record_intraledger_args \<Rightarrow> medici_tx" where
  "payee_line args =
     (let a = (if wallet_currency (ri_recipientWalletDescriptor args) = Usd then usd (ri_amount args) else btc (ri_amount args))
      in \<lparr>mt_account = toLedgerAccountId (wallet_id (ri_recipientWalletDescriptor args)), mt_debit = Fin 0,
          mt_credit = Number_big (amount a),
          mt_meta = line_meta (ri_metadata args ++ ri_additionalCreditMetadata args) (currency a) None\<rparr>)"

definition other_lines :: "static_account_ids \<Rightarrow> record_intraledger_args \<Rightarrow> medici_tx list" where
  "other_lines ids args = dealer_lines ids args @ [payee_line args]"

definition not_zero :: "medici_tx \<Rightarrow> bool" where
  "not_zero t \<longleftrightarrow> \<not> (js_eq (mt_debit t) (Fin 0) \<and> js_eq (mt_credit t) (Fin 0))"

lemma intraledger_entry_lines:
  assumes "medici_laws (le_medici env)" and "\<And>d. md_transactions (le_medici env) (le_entry env d) = []"
  shows "md_transactions (le_medici env) (intraledger_entry env ids args) =
    filter not_zero (payer_line args # other_lines ids args)"
  using assms(2)
  by (cases "wallet_currency (ri_senderWalletDescriptor args)"; cases "wallet_currency (ri_recipientWalletDescriptor args)")
    (simp_all add: intraledger_entry_def build_entry_def creditAccount_def addDealerDebitsAndCredits_def
      addUsdToBtcConversionToDealer_def addBtcToUsdConversionToDealer_def removeZeroAmountEntries_def entry_simps
      entry_config_def medici_transactions [OF assms(1)] ZERO_BANK_FEE_def ZERO_SATS_def ZERO_CENTS_def
      toLedgerAccountDescriptor_def payer_line_def other_lines_def dealer_lines_def payee_line_def payer_account_def
      spread_opt_def not_zero_def [abs_def] calc_sub_def)

lemma recorded_lines:
  assumes laws: "documents_laws docs ap" and run: "recordIntraledger (ap_ledger ap) args s = (Some (Inr j), s')"
  obtains ids where "fst (staticAccountIds (ap_ledger ap) s) = Some (Inr ids)"
    and "docs (ls_db s') = docs (ls_db s) @ [(lj_journalId j, filter not_zero (payer_line args # other_lines ids args))]"
proof -
  obtain q s1 where ids: "staticAccountIds (ap_ledger ap) s = (q, s1)"
    by fastforce
  have s1: "docs (ls_db s1) = docs (ls_db s)"
    using neutral_static [of "ap_ledger ap" docs] ids by (metis neutral_def snd_conv)
  from run ids obtain i se w where i: "q = Some (Inr i)"
      and "le_commit (ap_ledger ap) (intraledger_entry (ap_ledger ap) i args) (ls_db s1) = (Some se, w)"
      and "lj_journalId j = se_id se" and "docs (ls_db s') = docs w"
    using laws
    by (auto simp: intraledger.op_eq lbind_def persistAndReturnEntry_def catch_unknown_def on_db_def Let_def
        persistAll_def lreturn_def translateToLedgerJournal_def documents_laws_def
        split: option.splits prod.splits if_splits sum.splits)
  then have "docs (ls_db s') = docs (ls_db s) @
      [(lj_journalId j, md_transactions (le_medici (ap_ledger ap)) (intraledger_entry (ap_ledger ap) i args))]"
    using laws s1 by (simp add: documents_laws_def)
  with i ids laws that show thesis
    by (simp add: documents_laws_def intraledger_entry_lines)
qed

subsection \<open>Payments and what their lines reveal\<close>

text \<open>
  The lines a run has added; that the lines of other accounts are the same whatever the memo; and
  that a new journal has a line of the payer, a value \<open>mine\<close> under a key on the payer's lines and
  \<open>others\<close> on every other line.
\<close>

definition new_lines :: "'w documents \<Rightarrow> 'w ledger_state \<Rightarrow> 'w ledger_state \<Rightarrow> medici_tx list" where
  "new_lines docs s s' = concat (map snd (drop (length (docs (ls_db s))) (docs (ls_db s'))))"

definition hides_memo ::
  "'w documents \<Rightarrow> string \<Rightarrow> (string option \<Rightarrow> ('w, 'r) ledger_op) \<Rightarrow> 'w ledger_state \<Rightarrow> bool" where
  "hides_memo docs acc run s \<longleftrightarrow>
     (\<forall>m m' r r' s1 s2. run m s = (Some (Inr r), s1) \<and> run m' s = (Some (Inr r'), s2) \<longrightarrow>
        filter (\<lambda>t. mt_account t \<noteq> acc) (new_lines docs s s1) = filter (\<lambda>t. mt_account t \<noteq> acc) (new_lines docs s s2))"

definition reveals ::
  "'w documents \<Rightarrow> string \<Rightarrow> string \<Rightarrow> string \<Rightarrow> mval \<Rightarrow> mval \<Rightarrow> 'w ledger_state \<Rightarrow> 'w ledger_state \<Rightarrow> bool" where
  "reveals docs acc j key mine others s s' \<longleftrightarrow>
     (\<exists>ts. docs (ls_db s') = docs (ls_db s) @ [(j, ts)] \<and> (\<exists>t \<in> set ts. mt_account t = acc) \<and>
        (\<forall>t \<in> set ts. mt_meta t key = Some (if mt_account t = acc then mine else others)))"

text \<open>The metadata of every line of an entry at one key.\<close>

definition entry_shows :: "record_intraledger_args \<Rightarrow> string \<Rightarrow> mval \<Rightarrow> mval \<Rightarrow> bool" where
  "entry_shows args key mine others \<longleftrightarrow>
     (ri_metadata args ++ ri_additionalDebitMetadata args) key = Some mine \<and>
     (ri_metadata args ++ ri_additionalCreditMetadata args) key = Some others \<and>
     (ri_metadata args ++ ri_additionalInternalMetadata args) key = Some others"

lemma lines_show:
  assumes "entry_shows args key mine others" and "key \<noteq> ''currency''" and "key \<noteq> ''external_id''"
  shows "mt_meta (payer_line args) key = Some mine"
    and "\<forall>t \<in> set (other_lines ids args). mt_meta t key = Some others"
  using assms
  by (cases "wallet_currency (ri_senderWalletDescriptor args)"; cases "wallet_currency (ri_recipientWalletDescriptor args)",
      simp_all add: entry_shows_def payer_line_def other_lines_def dealer_lines_def payee_line_def line_meta_def Let_def
      del: map_add_Some_iff)+

lemma toLedgerAccountId_inj [simp]: "toLedgerAccountId a = toLedgerAccountId b \<longleftrightarrow> a = b"
  by (simp add: toLedgerAccountId_def)

lemma other_accounts:
  assumes "own_accounts X ids" and "wallet_id (ri_senderWalletDescriptor args) \<notin> X"
    and "wallet_id (ri_recipientWalletDescriptor args) \<noteq> wallet_id (ri_senderWalletDescriptor args)"
    and "t \<in> set (other_lines ids args)"
  shows "mt_account t \<noteq> payer_account (ri_senderWalletDescriptor args)"
proof -
  have "payer_account (ri_senderWalletDescriptor args) \<notin> toLedgerAccountId ` X"
    using assms(2) by (auto simp: payer_account_def)
  then show ?thesis
    using assms
    by (auto simp: own_accounts_def other_lines_def dealer_lines_def payee_line_def payer_account_def Let_def
        split: wallet_currency.splits)
qed

text \<open>
  The contract of a use case that books one payment inside the bank: steps that store nothing
  lead to what the entry is made of, or show that there is nothing to pay; the payment is recorded;
  steps that store nothing follow and return the journal.
\<close>

locale local_payment =
  fixes app :: "'x \<Rightarrow> ('e, 'w) app_env"
    and run :: "'x \<Rightarrow> string option \<Rightarrow> ('w, 'r) ledger_op"
    and before :: "'x \<Rightarrow> ('w, 'd option) ledger_op"
    and args_of :: "'x \<Rightarrow> string option \<Rightarrow> 'd \<Rightarrow> record_intraledger_args"
    and after :: "'x \<Rightarrow> 'd \<Rightarrow> ledger_journal \<Rightarrow> ('w, 'r) ledger_op"
    and already :: 'r
    and result :: "string \<Rightarrow> 'r"
    and payer :: "'x \<Rightarrow> wallet_descriptor"
  assumes run_eq: "run x m = lbind (before x) (\<lambda>d. case d of None \<Rightarrow> lreturn already
      | Some d \<Rightarrow> lbind (recordIntraledger (ap_ledger (app x)) (args_of x m d)) (after x d))"
    and before_neutral: "documents_laws docs (app x) \<Longrightarrow> neutral (ap_ledger (app x)) docs (before x)"
    and after_neutral: "documents_laws docs (app x) \<Longrightarrow> neutral (ap_ledger (app x)) docs (after x d journal)"
    and after_result: "after x d journal s = (Some (Inr r), s') \<Longrightarrow> r = result (lj_journalId journal)"
    and result_inj: "result i = result j \<Longrightarrow> i = j"
    and payer_sends: "ri_senderWalletDescriptor (args_of x m d) = payer x"
begin

lemma run_cases:
  assumes laws: "documents_laws docs (app x)" and "run x m s = (Some (Inr r), s')"
  obtains (already) s1 where "before x s = (Some (Inr None), s1)" and "r = already" and "docs (ls_db s') = docs (ls_db s)"
  | (paid) d s1 ids j where "before x s = (Some (Inr (Some d)), s1)" and "r = result j"
      and "fst (staticAccountIds (ap_ledger (app x)) s1) = Some (Inr ids)"
      and "docs (ls_db s') = docs (ls_db s) @
        [(j, filter not_zero (payer_line (args_of x m d) # other_lines ids (args_of x m d)))]"
proof -
  from assms(2) obtain q s1 where q: "before x s = (Some (Inr q), s1)"
      and rest: "(case q of None \<Rightarrow> lreturn already
        | Some d \<Rightarrow> lbind (recordIntraledger (ap_ledger (app x)) (args_of x m d)) (after x d)) s1 = (Some (Inr r), s')"
    unfolding run_eq by (blast dest: lbind_InrD)
  have s1: "docs (ls_db s1) = docs (ls_db s)"
    using before_neutral [OF laws] q by (metis neutral_def snd_conv)
  show thesis
  proof (cases q)
    case None
    with q rest s1 show thesis
      by (intro already) (auto simp: lreturn_def)
  next
    case (Some d)
    with rest obtain journal s2 where rec: "recordIntraledger (ap_ledger (app x)) (args_of x m d) s1 = (Some (Inr journal), s2)"
        and aft: "after x d journal s2 = (Some (Inr r), s')"
      by (auto dest: lbind_InrD)
    have "docs (ls_db s') = docs (ls_db s2)"
      using after_neutral [OF laws] aft by (metis neutral_def snd_conv)
    with recorded_lines [OF laws rec] q Some s1 after_result [OF aft] paid show thesis
      by metis
  qed
qed

lemma run_reveals:
  assumes laws: "documents_laws docs (app x)" and s: "internal (ap_ledger (app x)) X s"
    and run: "run x m s = (Some (Inr (result j)), s')"
    and pays: "\<And>s1. before x s = (Some (Inr None), s1) \<Longrightarrow> result j \<noteq> already"
    and own: "wallet_id (payer x) \<notin> X"
    and entry: "\<And>d s1. before x s = (Some (Inr (Some d)), s1) \<Longrightarrow>
      entry_shows (args_of x m d) key mine others \<and> not_zero (payer_line (args_of x m d)) \<and>
      wallet_id (ri_recipientWalletDescriptor (args_of x m d)) \<noteq> wallet_id (payer x)"
    and key: "key \<noteq> ''currency''" "key \<noteq> ''external_id''"
  shows "reveals docs (payer_account (payer x)) j key mine others s s'"
  using laws run
proof (cases rule: run_cases)
  case already
  with pays show ?thesis
    by simp
next
  case (paid d s1 ids i)
  let ?A = "args_of x m d"
  have "internal (ap_ledger (app x)) X s1"
    using before_neutral [OF laws] s paid(1) by (metis neutral_def snd_conv)
  note ids = staticAccountIds_own [OF this paid(3)]
  have i: "i = j"
    using paid(2) by (auto dest: result_inj)
  have A: "entry_shows ?A key mine others" "not_zero (payer_line ?A)"
      "wallet_id (ri_recipientWalletDescriptor ?A) \<noteq> wallet_id (payer x)"
    using entry [OF paid(1)] by simp_all
  have "mt_account t \<noteq> payer_account (payer x)" if "t \<in> set (other_lines ids ?A)" for t
    using other_accounts [OF ids _ _ that] own A(3) by (simp add: payer_sends)
  moreover have "mt_account (payer_line ?A) = payer_account (payer x)"
    by (simp add: payer_line_def Let_def payer_sends)
  ultimately show ?thesis
    using paid(4) A(2) lines_show [OF A(1) key] unfolding reveals_def i by auto
qed

end

locale private_payment = local_payment +
  assumes others_unchanged: "other_lines ids (args_of x m d) = other_lines ids (args_of x m' d)"
begin

lemma run_hides:
  assumes laws: "documents_laws docs (app x)"
  shows "hides_memo docs (payer_account (payer x)) (run x) s"
  unfolding hides_memo_def
proof (intro allI impI, elim conjE)
  fix m m' r r' s1 s2
  assume 1: "run x m s = (Some (Inr r), s1)" and 2: "run x m' s = (Some (Inr r'), s2)"
  have payer: "mt_account (payer_line (args_of x n d)) = payer_account (payer x)" for n d
    by (simp add: payer_line_def Let_def payer_sends)
  from laws 1 show "filter (\<lambda>t. mt_account t \<noteq> payer_account (payer x)) (new_lines docs s s1) =
      filter (\<lambda>t. mt_account t \<noteq> payer_account (payer x)) (new_lines docs s s2)"
  proof (cases rule: run_cases)
    case already
    from laws 2 show ?thesis
      by (cases rule: run_cases) (use already in \<open>simp_all add: new_lines_def\<close>)
  next
    case (paid d s3 ids j)
    from laws 2 show ?thesis
      by (cases rule: run_cases)
        (use paid others_unchanged [of ids x m d m'] in \<open>auto simp: new_lines_def payer\<close>)
  qed
qed

end

subsection \<open>The three use cases\<close>

text \<open>Paying an invoice of a wallet.\<close>

definition ln_before ::
  "('e, 'w) app_env \<times> bool \<times> string \<times> payment_flow \<times> intraledger_parties \<Rightarrow>
   ('w, (wallet_descriptor \<times> string \<times> (display_txn_amounts \<times> display_txn_amounts)) option) ledger_op" where
  "ln_before = (\<lambda>(ap, aborted, h, f, ip).
     case (recipientWalletDescriptor f, pf_recipientPubkey f) of
       (Some recipient, Some pk) \<Rightarrow>
         if pk = [] then lerror (InvalidLightningPaymentFlowBuilderStateError ''Expected recipient details missing'')
         else
           lbind (isLnTxRecorded (ap_ledger ap) h) (\<lambda>recorded.
           if recorded then lreturn None
           else
             lbind (getWalletBalanceAmount (ap_ledger ap) (senderWalletDescriptor f)) (\<lambda>bal.
             lbind (check (checkBalanceForSend f bal)) (\<lambda>_.
             lbind (displayAmountsForBoth ap (ip_senderDisplayCurrency ip) (ip_recipientDisplayCurrency ip) (flow_amounts f)) (\<lambda>d.
             lbind (guard_lock aborted) (\<lambda>_. lreturn (Some (recipient, pk, d)))))))
     | _ \<Rightarrow> lerror (InvalidLightningPaymentFlowBuilderStateError ''Expected recipient details missing''))"

text \<open>Paying to the address of a wallet.\<close>

definition onchain_before ::
  "('e, 'w) app_env \<times> bool \<times> onchain_payment_flow \<times> intraledger_parties \<times> bool \<Rightarrow>
   ('w, (wallet_descriptor \<times> string \<times> (display_txn_amounts \<times> display_txn_amounts)) option) ledger_op" where
  "onchain_before = (\<lambda>(ap, aborted, f, ip, all).
     case recipientWalletDescriptor f of
       None \<Rightarrow> lerror (InvalidLightningPaymentFlowBuilderStateError ''Expected recipient details missing'')
     | Some recipient \<Rightarrow>
         lbind (getWalletBalanceAmount (ap_ledger ap) (senderWalletDescriptor f)) (\<lambda>bal.
         lbind (check (checkBalanceForSend f bal)) (\<lambda>_.
         lbind (guard_lock aborted) (\<lambda>_.
         lbind (check (addressForFlow f)) (\<lambda>address.
         lbind (check (WalletPriceRatio (pf_usdPaymentAmount f) (pf_btcPaymentAmount f))) (\<lambda>_.
         lbind (displayAmountsForBoth ap (ip_senderDisplayCurrency ip) (ip_recipientDisplayCurrency ip) (flow_amounts f)) (\<lambda>d.
           lreturn (Some (recipient, address, d)))))))))"

text \<open>Paying to a wallet id.\<close>

definition walletId_before ::
  "('e, 'w) app_env \<times> bool \<times> payment_flow \<times> intraledger_parties \<Rightarrow>
   ('w, (wallet_descriptor \<times> (display_txn_amounts \<times> display_txn_amounts)) option) ledger_op" where
  "walletId_before = (\<lambda>(ap, aborted, f, ip).
     case recipientWalletDescriptor f of
       None \<Rightarrow> lerror (InvalidLightningPaymentFlowBuilderStateError ''Expected recipient details missing'')
     | Some recipient \<Rightarrow>
         lbind (getWalletBalanceAmount (ap_ledger ap) (senderWalletDescriptor f)) (\<lambda>bal.
         lbind (check (checkBalanceForSend f bal)) (\<lambda>_.
         lbind (displayAmountsForBoth ap (ip_senderDisplayCurrency ip) (ip_recipientDisplayCurrency ip) (flow_amounts f)) (\<lambda>d.
         lbind (guard_lock aborted) (\<lambda>_. lreturn (Some (recipient, d)))))))"

lemma neutral_display_both: "quiet_cache docs ap \<Longrightarrow> neutral env docs (displayAmountsForBoth ap c d am)"
  unfolding displayAmountsForBoth_def by (intro neutral_intros neutral_display_cache)

lemma documents_cache: "documents_laws docs ap \<Longrightarrow> quiet_cache docs ap"
  by (simp add: documents_laws_def)

lemma before_neutrals:
  "documents_laws docs (fst x) \<Longrightarrow> neutral (ap_ledger (fst x)) docs (ln_before x)"
  "documents_laws docs (fst y) \<Longrightarrow> neutral (ap_ledger (fst y)) docs (onchain_before y)"
  "documents_laws docs (fst z) \<Longrightarrow> neutral (ap_ledger (fst z)) docs (walletId_before z)"
  unfolding ln_before_def onchain_before_def walletId_before_def
  by (auto split: prod.splits option.splits
      intro!: neutral_intros neutral_display_both documents_cache)

lemma before_recipient:
  "ln_before (ap, ab, h, f, ip) s = (Some (Inr (Some (r, pk, d))), s1) \<Longrightarrow> recipientWalletDescriptor f = Some r"
  "onchain_before (ap, ab, g, ip, all) s = (Some (Inr (Some (r, a, d))), s1) \<Longrightarrow> recipientWalletDescriptor g = Some r"
  "walletId_before (ap, ab, f, ip) s = (Some (Inr (Some (r, d))), s1) \<Longrightarrow> recipientWalletDescriptor f = Some r"
  unfolding ln_before_def onchain_before_def walletId_before_def
  by (auto simp: lerror_def lreturn_def dest!: lbind_InrD split: option.splits if_splits)

lemma lbind_simps:
  "lbind (lerror e) f = lerror e" "lbind (if b then m else n) f = (if b then lbind m f else lbind n f)"
  by (auto simp: lbind_def lerror_def)

lemmas handler_defs = ln_lockedPaymentViaIntraledgerSteps_def onchain_lockedPaymentViaIntraledgerSteps_def
  walletId_lockedPaymentViaIntraledgerSteps_def ln_before_def onchain_before_def walletId_before_def
  recipientDetails_def Let_def lbind_assoc lbind_simps ln_il_closing_def [abs_def]

lemmas line_defs = other_lines_def dealer_lines_def payee_line_def intraledger_args_def

interpretation ln_private: private_payment fst
  "\<lambda>(ap, aborted, h, f, ip) m. ln_lockedPaymentViaIntraledgerSteps ap aborted h f (ip\<lparr>ip_memo := m\<rparr>)" ln_before
  "\<lambda>(ap, aborted, h, f, ip) m (recipient, pk, d). intraledger_args (pf_descriptionFromInvoice f) f recipient
     (ln_intraledger_metadata f (ip\<lparr>ip_memo := m\<rparr>) recipient h pk d)"
  "\<lambda>(ap, aborted, h, f, ip) (recipient, pk, d). ln_il_closing ap h pk" IlSendAlreadyPaid IlSendOk
  "\<lambda>(ap, aborted, h, f, ip). senderWalletDescriptor f"
proof (unfold_locales, goal_cases)
  case (1 x m)
  show ?case
    by (cases x) (simp add: handler_defs split: option.split cong: if_cong option.case_cong)
next
  case (7 ids x m d m')
  obtain ap aborted h f ip recipient pk da where x: "x = (ap, aborted, h, f, ip)" "d = (recipient, pk, da)"
    by (cases x; cases d) blast
  show ?case
    using ln_memo.memo_irrelevant [of "(h, pk, flow_amounts f, ip_senderUsername ip, ip_recipientUsername ip,
        both_display (fst da) (snd da))" "memo_or_undefined m" "memo_or_undefined m'"]
      ln_trade_memo.memo_irrelevant [of "(h, pk, flow_amounts f, fst da)" "memo_or_undefined m" "memo_or_undefined m'"]
    by (simp add: x ln_intraledger_metadata_def line_defs)
qed (auto simp: before_neutrals ln_il_closing_def lreturn_def intraledger_args_def documents_laws_def
    intro!: neutral_intros dest!: lbind_InrD)

interpretation onchain_private: private_payment fst
  "\<lambda>(ap, aborted, f, ip, all) m. onchain_lockedPaymentViaIntraledgerSteps ap aborted f (ip\<lparr>ip_memo := m\<rparr>) all" onchain_before
  "\<lambda>(ap, aborted, f, ip, all) m (recipient, address, d). intraledger_args [] f recipient
     (onchain_intraledger_metadata f (ip\<lparr>ip_memo := m\<rparr>) recipient [address] all d)"
  "\<lambda>_ _ journal. lreturn (lj_journalId journal)" "[]" "\<lambda>j. j" "\<lambda>(ap, aborted, f, ip, all). senderWalletDescriptor f"
proof (unfold_locales, goal_cases)
  case (1 x m)
  show ?case
    by (cases x) (simp add: handler_defs split: option.split cong: if_cong option.case_cong)
next
  case (7 ids x m d m')
  obtain ap aborted f ip all recipient address da where x: "x = (ap, aborted, f, ip, all)" "d = (recipient, address, da)"
    by (cases x; cases d) blast
  show ?case
    using onchain_memo.memo_irrelevant [of "([address], all, flow_amounts f, ip_senderUsername ip, ip_recipientUsername ip,
        both_display (fst da) (snd da))" "memo_or_undefined m" "memo_or_undefined m'"]
      onchain_trade_memo.memo_irrelevant [of "([address], all, flow_amounts f, fst da)" "memo_or_undefined m" "memo_or_undefined m'"]
    by (simp add: x onchain_intraledger_metadata_def line_defs)
qed (auto simp: before_neutrals lreturn_def intraledger_args_def intro!: neutral_intros)

interpretation walletId_shared: local_payment fst
  "\<lambda>(ap, aborted, f, ip) m. walletId_lockedPaymentViaIntraledgerSteps ap aborted f (ip\<lparr>ip_memo := m\<rparr>)" walletId_before
  "\<lambda>(ap, aborted, f, ip) m (recipient, d). intraledger_args (pf_descriptionFromInvoice f) f recipient
     (walletId_metadata f (ip\<lparr>ip_memo := m\<rparr>) recipient d)"
  "\<lambda>_ _ journal. lreturn (lj_journalId journal)" "[]" "\<lambda>j. j" "\<lambda>(ap, aborted, f, ip). senderWalletDescriptor f"
proof (unfold_locales, goal_cases)
  case (1 x m)
  show ?case
    by (cases x) (simp add: handler_defs split: option.split cong: if_cong option.case_cong)
qed (auto simp: before_neutrals lreturn_def intraledger_args_def intro!: neutral_intros)

lemma before_pays:
  "onchain_before y s \<noteq> (Some (Inr None), s1)" "walletId_before z s \<noteq> (Some (Inr None), s1)"
  unfolding onchain_before_def walletId_before_def
  by (auto simp: lerror_def lreturn_def dest!: lbind_InrD split: option.splits prod.splits)

text \<open>What the metadata of the three use cases show of the memo and of the names.\<close>

lemma metadata_shows_memo:
  "entry_shows (intraledger_args desc f r (ln_intraledger_metadata f ip r h pk d)) ''memoPayer''
     (MOpt (memo_or_undefined (ip_memo ip))) MUndef"
  "entry_shows (intraledger_args desc g r (onchain_intraledger_metadata g ip r addrs all d)) ''memoPayer''
     (MOpt (memo_or_undefined (ip_memo ip))) MUndef"
  "entry_shows (intraledger_args desc f r (walletId_metadata f ip r d)) ''memoPayer''
     (MOpt (memo_or_undefined (ip_memo ip))) (MOpt (memo_or_undefined (ip_memo ip)))"
proof -
  let ?m = "memo_or_undefined (ip_memo ip)" and ?d = "both_display (fst d) (snd d)"
  show "entry_shows (intraledger_args desc f r (ln_intraledger_metadata f ip r h pk d)) ''memoPayer'' (MOpt ?m) MUndef"
    using ln_memo.payer_memo [of "(h, pk, flow_amounts f, ip_senderUsername ip, ip_recipientUsername ip, ?d)" ?m]
      ln_memo.payee_memo [of "(h, pk, flow_amounts f, ip_senderUsername ip, ip_recipientUsername ip, ?d)" ?m]
      ln_trade_memo.payer_memo [of "(h, pk, flow_amounts f, fst d)" ?m]
      ln_trade_memo.payee_memo [of "(h, pk, flow_amounts f, fst d)" ?m]
    by (simp add: entry_shows_def intraledger_args_def ln_intraledger_metadata_def del: map_add_Some_iff)
  show "entry_shows (intraledger_args desc g r (onchain_intraledger_metadata g ip r addrs all d)) ''memoPayer'' (MOpt ?m) MUndef"
    using onchain_memo.payer_memo [of "(addrs, all, flow_amounts g, ip_senderUsername ip, ip_recipientUsername ip, ?d)" ?m]
      onchain_memo.payee_memo [of "(addrs, all, flow_amounts g, ip_senderUsername ip, ip_recipientUsername ip, ?d)" ?m]
      onchain_trade_memo.payer_memo [of "(addrs, all, flow_amounts g, fst d)" ?m]
      onchain_trade_memo.payee_memo [of "(addrs, all, flow_amounts g, fst d)" ?m]
    by (simp add: entry_shows_def intraledger_args_def onchain_intraledger_metadata_def del: map_add_Some_iff)
  show "entry_shows (intraledger_args desc f r (walletId_metadata f ip r d)) ''memoPayer'' (MOpt ?m) (MOpt ?m)"
    by (auto simp: entry_shows_def intraledger_args_def walletId_metadata_def WalletIdTradeIntraAccountLedgerMetadata_def
        WalletIdIntraledgerLedgerMetadata_def view_defs Let_def split: prod.splits)
qed

lemma recipient_account: "recipientWalletDescriptor f = Some r \<Longrightarrow> pf_recipientAccountId f = Some (wallet_accountId r)"
  by (auto simp: recipientWalletDescriptor_def split: option.splits if_splits)

lemma metadata_shows_names:
  assumes "recipientWalletDescriptor f = Some r" and "pf_recipientAccountId f \<noteq> Some (pf_senderAccountId f)"
  shows "entry_shows (intraledger_args desc f r (ln_intraledger_metadata f ip r h pk d)) ''username''
     (MOpt (ip_recipientUsername ip)) (MOpt (ip_senderUsername ip))"
    and "entry_shows (intraledger_args desc f r (walletId_metadata f ip r d)) ''username''
     (MOpt (ip_recipientUsername ip)) (MOpt (ip_senderUsername ip))"
  using recipient_account [OF assms(1)] assms(2)
  by (auto simp: entry_shows_def intraledger_args_def ln_intraledger_metadata_def walletId_metadata_def
      LnIntraledgerLedgerMetadata_def WalletIdIntraledgerLedgerMetadata_def senderWalletDescriptor_def view_defs
      Let_def split: prod.splits)

definition positive_payment :: "'a payment_flow_common_scheme \<Rightarrow> bool" where
  "positive_payment f \<longleftrightarrow> payable f \<and> 0 < amount (pf_btcPaymentAmount f) \<and> 0 < amount (pf_usdPaymentAmount f)"

lemma payer_line_not_zero:
  assumes "positive_payment f"
  shows "not_zero (payer_line (intraledger_args desc f r lm))"
proof -
  have "safe_int (amount (pf_btcPaymentAmount f))" "safe_int (amount (pf_usdPaymentAmount f))"
    using payable_amounts [of f] assms by (simp_all add: positive_payment_def entry_amounts_ok_def paymentAmounts_def)
  with assms show ?thesis
    by (auto simp: positive_payment_def not_zero_def payer_line_def intraledger_args_def Let_def Number_big_safe js_eq_def)
qed

lemma recipient_not_sender:
  "payable f \<Longrightarrow> recipientWalletDescriptor f = Some r \<Longrightarrow> wallet_id r \<noteq> wallet_id (senderWalletDescriptor f)"
  by (auto simp: payable_def recipientWalletDescriptor_def senderWalletDescriptor_def split: option.splits if_splits)

lemma local_entry:
  assumes "positive_payment f" and "recipientWalletDescriptor f = Some r"
    and "entry_shows (intraledger_args desc f r lm) key mine others"
  shows "entry_shows (intraledger_args desc f r lm) key mine others \<and>
    not_zero (payer_line (intraledger_args desc f r lm)) \<and>
    wallet_id (ri_recipientWalletDescriptor (intraledger_args desc f r lm)) \<noteq> wallet_id (senderWalletDescriptor f)"
  using payer_line_not_zero [OF assms(1)] recipient_not_sender [OF _ assms(2)] assms(1,3)
  by (simp add: positive_payment_def intraledger_args_def)

text \<open>The runs of the three use cases, with what is shown at a key.\<close>

definition payer_of :: "'a payment_flow_common_scheme \<Rightarrow> string" where
  "payer_of f = payer_account (senderWalletDescriptor f)"

lemma ln_reveals:
  assumes "documents_laws docs ap" and "internal (ap_ledger ap) X s" and "positive_payment f" and "pf_senderWalletId f \<notin> X"
    and "key \<noteq> ''currency''" and "key \<noteq> ''external_id''"
    and "ln_lockedPaymentViaIntraledgerSteps ap ab h f ip s = (Some (Inr (IlSendOk j)), s')"
    and "\<And>r pk d. recipientWalletDescriptor f = Some r \<Longrightarrow> entry_shows (intraledger_args (pf_descriptionFromInvoice f) f r (ln_intraledger_metadata f ip r h pk d)) key mine others"
  shows "reveals docs (payer_of f) j key mine others s s'"
proof -
  have own: "wallet_id (senderWalletDescriptor f) \<notin> X"
    using assms(4) by (simp add: senderWalletDescriptor_def)
  have entry: "entry_shows A key mine others \<and> not_zero (payer_line A) \<and>
      wallet_id (ri_recipientWalletDescriptor A) \<noteq> wallet_id (senderWalletDescriptor f)"
    if "ln_before (ap, ab, h, f, ip) s = (Some (Inr (Some (r, pk, d))), s1)"
      and "A = intraledger_args (pf_descriptionFromInvoice f) f r (ln_intraledger_metadata f ip r h pk d)" for r pk d s1 A
    unfolding that(2) by (intro local_entry [OF assms(3)] assms(8) before_recipient(1) [OF that(1)])
  show ?thesis
    unfolding payer_of_def
    by (rule ln_private.run_reveals [of docs "(ap, ab, h, f, ip)" X s "ip_memo ip" j s' key mine others, simplified])
      (use own assms(1,2,5-7) entry in \<open>auto\<close>)
qed

lemma onchain_reveals:
  assumes "documents_laws docs ap" and "internal (ap_ledger ap) X s" and "positive_payment f" and "pf_senderWalletId f \<notin> X"
    and "key \<noteq> ''currency''" and "key \<noteq> ''external_id''"
    and "onchain_lockedPaymentViaIntraledgerSteps ap ab f ip all s = (Some (Inr j), s')"
    and "\<And>r a d. recipientWalletDescriptor f = Some r \<Longrightarrow> entry_shows (intraledger_args [] f r (onchain_intraledger_metadata f ip r [a] all d)) key mine others"
  shows "reveals docs (payer_of f) j key mine others s s'"
proof -
  have own: "wallet_id (senderWalletDescriptor f) \<notin> X"
    using assms(4) by (simp add: senderWalletDescriptor_def)
  have entry: "entry_shows A key mine others \<and> not_zero (payer_line A) \<and>
      wallet_id (ri_recipientWalletDescriptor A) \<noteq> wallet_id (senderWalletDescriptor f)"
    if "onchain_before (ap, ab, f, ip, all) s = (Some (Inr (Some (r, a, d))), s1)"
      and "A = intraledger_args [] f r (onchain_intraledger_metadata f ip r [a] all d)" for r a d s1 A
    unfolding that(2) by (intro local_entry [OF assms(3)] assms(8) before_recipient(2) [OF that(1)])
  show ?thesis
    unfolding payer_of_def
    by (rule onchain_private.run_reveals [of docs "(ap, ab, f, ip, all)" X s "ip_memo ip" j s' key mine others, simplified])
      (use own assms(1,2,5-7) entry in \<open>auto simp: before_pays\<close>)
qed

lemma walletId_reveals:
  assumes "documents_laws docs ap" and "internal (ap_ledger ap) X s" and "positive_payment f" and "pf_senderWalletId f \<notin> X"
    and "key \<noteq> ''currency''" and "key \<noteq> ''external_id''"
    and "walletId_lockedPaymentViaIntraledgerSteps ap ab f ip s = (Some (Inr j), s')"
    and "\<And>r d. recipientWalletDescriptor f = Some r \<Longrightarrow> entry_shows (intraledger_args (pf_descriptionFromInvoice f) f r (walletId_metadata f ip r d)) key mine others"
  shows "reveals docs (payer_of f) j key mine others s s'"
proof -
  have own: "wallet_id (senderWalletDescriptor f) \<notin> X"
    using assms(4) by (simp add: senderWalletDescriptor_def)
  have entry: "entry_shows A key mine others \<and> not_zero (payer_line A) \<and>
      wallet_id (ri_recipientWalletDescriptor A) \<noteq> wallet_id (senderWalletDescriptor f)"
    if "walletId_before (ap, ab, f, ip) s = (Some (Inr (Some (r, d))), s1)"
      and "A = intraledger_args (pf_descriptionFromInvoice f) f r (walletId_metadata f ip r d)" for r d s1 A
    unfolding that(2) by (intro local_entry [OF assms(3)] assms(8) before_recipient(3) [OF that(1)])
  show ?thesis
    unfolding payer_of_def
    by (rule walletId_shared.run_reveals [of docs "(ap, ab, f, ip)" X s "ip_memo ip" j s' key mine others, simplified])
      (use own assms(1,2,5-7) entry in \<open>auto simp: before_pays\<close>)
qed

subsection \<open>Properties\<close>


text \<open>A book that keeps the lines as they are committed, with the services of the example.\<close>

definition document_env :: "(medici_tx list, (string \<times> medici_tx list) list) ledger_env" where
  "document_env =
     \<lparr>le_medici = list_medici, le_entry = (\<lambda>_. []),
      le_commit = (\<lambda>e w. (Some \<lparr>se_id = ''j'', se_voided = False, se_transactions = []\<rparr>, w @ [(''j'', e)])),
      le_void = (\<lambda>_ _ w. (VoidFailed, w)), le_insertMany = (\<lambda>_ w. w), le_updateMany = (\<lambda>_ _ w. (Some 1, w)),
      le_ledger = (\<lambda>_ _. Some []), le_balance = (\<lambda>_ _ _. Some (Fin 20000)), le_isValidObjectId = (\<lambda>_. True),
      le_findMetadata = (\<lambda>_ _. Inl CouldNotFindTransactionMetadataError),
      bankOwnerResolver = (\<lambda>_. Some ''bank''), dealerBtcResolver = (\<lambda>_. Some ''dealerBtc''),
      dealerUsdResolver = (\<lambda>_. Some ''dealerUsd''), funderResolver = (\<lambda>_. Some ''funder'')\<rparr>"

definition document_app :: "(medici_tx list, (string \<times> medici_tx list) list) app_env" where
  "document_app = example_services document_env"

definition no_documents :: "(string \<times> medici_tx list) list ledger_state" where
  "no_documents = \<lparr>ls_db = [], cacheDealerBtcWalletId = None, cacheDealerUsdWalletId = None,
     cacheBankOwnerWalletId = None, cacheFunderWalletId = None\<rparr>"

lemma document_app_laws: "documents_laws (\<lambda>w. w) document_app" "internal (ap_ledger document_app) bank_wallets no_documents"
  by (auto simp: documents_laws_def document_app_def example_services_def document_env_def list_medici_laws
      example_price_service_def quiet_cache_def quiet_def internal_def no_documents_def)
    (simp_all add: list_medici_def)

lemma example_positive: "positive_payment example_local_flow" "positive_payment example_local_onchain"
  using example_local_payable
  by (simp_all add: positive_payment_def example_local_flow_def example_local_onchain_def example_flow_def
      payment_flow_common.defs onchain_payment_flow.defs)

lemma document_display: "\<exists>d. displayAmountsForBoth document_app ''USD'' ''USD'' am s = (Some (Inr d), s)"
  using example_convert [of am]
  by (auto simp: displayAmountsForBoth_def displayAmountsFor_def lbind_def lreturn_def call_def document_app_def
      example_services_def example_ratio or_throw_def)

lemma document_payment:
  "\<exists>s'. ln_lockedPaymentViaIntraledgerSteps document_app False ''h'' example_local_flow (example_parties\<lparr>ip_memo := m\<rparr>)
     no_documents = (Some (Inr (IlSendOk ''j'')), s')"
proof -
  obtain d where d: "displayAmountsForBoth document_app ''USD'' ''USD'' (flow_amounts example_local_flow) no_documents =
      (Some (Inr d), no_documents)"
    using document_display by blast
  have bal: "getWalletBalanceAmount document_env (senderWalletDescriptor example_local_flow) no_documents =
      (Some (Inr \<lparr>currency = Btc, amount = 20000\<rparr>), no_documents)"
      "isLnTxRecorded document_env ''h'' no_documents = (Some (Inr False), no_documents)"
    by (simp_all add: getWalletBalanceAmount_def isLnTxRecorded_def ledger_read_def lbind_def on_db_def catch_unknown_def
        lreturn_def document_env_def no_documents_def balanceAmountFromNumber_def safeBigInt_def BigInt_num_def
        senderWalletDescriptor_def example_local_flow_def example_flow_def js_lt_def)
  have rec: "\<exists>s'. recordIntraledger document_env A no_documents =
      (Some (Inr \<lparr>lj_journalId = ''j'', lj_voided = False, lj_transactionIds = []\<rparr>), s')" for A
    by (auto simp: recordIntraledger_def Let_def lbind_def staticAccountIds_def catch_unknown_def lreturn_def
        getBankOwnerWalletId_def getDealerBtcWalletId_def getDealerUsdWalletId_def no_documents_def document_env_def
        persistAndReturnEntry_def on_db_def persistAll_def translateToLedgerJournal_def)
  have app: "ap_ledger document_app = document_env" "ap_LndService document_app = Inr ''node''"
      "ap_cancelInvoice document_app pk h w = (Inr (), w)" "ap_invoices_markAsPaid document_app h w = (Inr (bob_invoice True), w)"
    for pk h w
    by (simp_all add: document_app_def example_services_def)
  show ?thesis
    using rec [of "intraledger_args (pf_descriptionFromInvoice example_local_flow) example_local_flow bob
      (ln_intraledger_metadata example_local_flow (example_parties\<lparr>ip_memo := m\<rparr>) bob ''h'' ''pk'' d)"]
    by (auto simp: ln_lockedPaymentViaIntraledgerSteps_def lbind_def check_def guard_lock_def lreturn_def
        example_local_facts recipientDetails_def call_def bal app d)
qed


end
