(* ===== verification/Account_Limits.thy ===== *)
theory Account_Limits
  imports Ledger_Types Payment_Flow
begin

text \<open>
  Daily limits of an account: the transaction volumes of \<open>services/ledger/facade/volume.ts\<close>, the
  remaining volume and the checks of \<open>domain/accounts/limits-volume.ts\<close> and
  \<open>limits-checker.ts\<close>, the account and fee checks of \<open>domain/accounts\<close>, and the use cases of
  \<open>app/accounts/account-limit.ts\<close>. The database queries and the configured limits are
  arguments. Span attributes are left out, and so is the text of the limit errors.
\<close>

subsection \<open>volume.ts\<close>

datatype txn_group =
    allPaymentVolumeSince | externalPaymentVolumeSince | intraledgerTxBaseVolumeSince
  | tradeIntraAccountTxBaseVolumeSince | lightningTxBaseVolumeSince | onChainTxBaseVolumeSince
  | allTxBaseVolumeSince

fun TxnGroups :: "txn_group \<Rightarrow> ledger_transaction_type list" where
  "TxnGroups allPaymentVolumeSince =
     [LT_IntraLedger, LT_OnchainIntraLedger, LT_LnIntraLedger, LT_Payment, LT_LnFeeReimbursement,
      LT_OnchainPayment]"
| "TxnGroups externalPaymentVolumeSince = [LT_Payment, LT_LnFeeReimbursement, LT_OnchainPayment]"
| "TxnGroups intraledgerTxBaseVolumeSince = [LT_IntraLedger, LT_OnchainIntraLedger, LT_LnIntraLedger]"
| "TxnGroups tradeIntraAccountTxBaseVolumeSince =
     [LT_WalletIdTradeIntraAccount, LT_OnChainTradeIntraAccount, LT_LnTradeIntraAccount]"
| "TxnGroups lightningTxBaseVolumeSince = [LT_Payment, LT_Invoice, LT_LnFeeReimbursement]"
| "TxnGroups onChainTxBaseVolumeSince = [LT_OnchainPayment, LT_OnchainReceipt]"
| "TxnGroups allTxBaseVolumeSince =
     [LT_Invoice, LT_Payment, LT_LnFeeReimbursement, LT_OnchainReceipt, LT_OnchainPayment,
      LT_IntraLedger, LT_LnIntraLedger, LT_OnchainIntraLedger, LT_WalletIdTradeIntraAccount,
      LT_LnTradeIntraAccount, LT_OnChainTradeIntraAccount, LT_Fee, LT_ToColdStorage, LT_ToHotWallet,
      LT_Escrow, LT_RoutingRevenue, LT_Reconciliation]"

record tx_base_volume =
  vol_outgoing :: payment_amount
  vol_incoming :: payment_amount

text \<open>
  The result of the aggregation: given the wallet's account, the transaction types and the start
  of the period, the sums of debits and credits, if any transaction matched; \<open>None\<close> when the
  query throws.
\<close>

type_synonym volume_query =
  "string \<Rightarrow> ledger_transaction_type list \<Rightarrow> int \<Rightarrow> (jsnum option \<times> jsnum option) option"

text \<open>
  The stages of the aggregation on the stored transactions: the transactions of the account, of
  one of the types and since the start of the period; each joined with the transactions of the
  journal it reverses; those whose reversed journal is older than a day dropped; the debits and
  the credits of the rest summed. How the database sums is an argument.
\<close>

record volume_doc =
  vd_accounts :: string
  vd_type :: ledger_transaction_type
  vd_timestamp :: int
  vd_datetime :: int
  vd_journal :: string
  vd_original_journal :: "string option"
  vd_debit :: jsnum
  vd_credit :: jsnum

definition original_transactions :: "volume_doc list \<Rightarrow> volume_doc \<Rightarrow> volume_doc list" where
  "original_transactions docs d = filter (\<lambda>t. vd_original_journal d = Some (vd_journal t)) docs"

definition is_transaction_valid :: "int \<Rightarrow> volume_doc list \<Rightarrow> bool" where
  "is_transaction_valid now originals \<longleftrightarrow>
     (case originals of [] \<Rightarrow> True | o1 # _ \<Rightarrow> vd_datetime o1 \<ge> now - MS_PER_DAY)"

definition aggregate_volume :: "(jsnum list \<Rightarrow> jsnum) \<Rightarrow> int \<Rightarrow> volume_doc list \<Rightarrow> volume_query" where
  "aggregate_volume sum_of now docs account txnTypes timestamp =
     (let matched = filter (\<lambda>d. vd_accounts d = account \<and> vd_type d \<in> set txnTypes \<and> vd_timestamp d \<ge> timestamp) docs;
          valid = filter (\<lambda>d. is_transaction_valid now (original_transactions docs d)) matched
      in Some (if valid = [] then (None, None)
               else (Some (sum_of (map vd_debit valid)), Some (sum_of (map vd_credit valid)))))"

definition txVolumeSince ::
  "volume_query \<Rightarrow> string \<Rightarrow> int \<Rightarrow> txn_group \<Rightarrow> error + (jsnum \<times> jsnum)" where
  "txVolumeSince query walletId timestamp grp =
     (case query (toLiabilitiesWalletId walletId) (TxnGroups grp) timestamp of
        None \<Rightarrow> Inl UnknownLedgerError
      | Some (outgoing, incoming) \<Rightarrow>
          Inr (case outgoing of None \<Rightarrow> Fin 0 | Some x \<Rightarrow> x,
               case incoming of None \<Rightarrow> Fin 0 | Some x \<Rightarrow> x))"

text \<open>
  A refund does not lower the volume of the last day when the payment it reverses is older: the
  volume with the refund is the volume without it.
\<close>

lemma old_refund_not_counted:
  assumes "vd_original_journal d = Some (vd_journal o1)" and "vd_datetime o1 < now - MS_PER_DAY"
    and "\<And>o'. o' \<in> set docs \<Longrightarrow> vd_journal o' = vd_journal o1 \<Longrightarrow> vd_datetime o' = vd_datetime o1"
    and "o1 \<in> set docs" and "\<And>x. x \<in> set docs \<Longrightarrow> vd_original_journal x \<noteq> Some (vd_journal d)"
    and "vd_journal d \<noteq> vd_journal o1"
  shows "txVolumeSince (aggregate_volume sum_of now (docs @ [d])) walletId timestamp grp =
    txVolumeSince (aggregate_volume sum_of now docs) walletId timestamp grp"
proof -
  have same: "original_transactions (docs @ [d]) x = original_transactions docs x" if "x \<in> set docs" for x
    using assms(5) [OF that] by (simp add: original_transactions_def)
  have "original_transactions (docs @ [d]) d = original_transactions docs d"
    using assms(1,6) by (simp add: original_transactions_def)
  moreover have "o1 \<in> set (original_transactions docs d)"
    using assms(1,4) by (simp add: original_transactions_def)
  ultimately obtain o2 rest where o2: "original_transactions (docs @ [d]) d = o2 # rest"
    by (cases "original_transactions docs d") auto
  then have "o2 \<in> set (original_transactions docs d)"
    using \<open>original_transactions (docs @ [d]) d = original_transactions docs d\<close> by simp
  then have "o2 \<in> set docs" and "vd_journal o2 = vd_journal o1"
    using assms(1) by (auto simp: original_transactions_def)
  then have "\<not> is_transaction_valid now (original_transactions (docs @ [d]) d)"
    using assms(2,3) by (simp add: o2 is_transaction_valid_def)
  moreover have "filter (\<lambda>x. is_transaction_valid now (original_transactions (docs @ [d]) x)) (filter P docs) =
      filter (\<lambda>x. is_transaction_valid now (original_transactions docs x)) (filter P docs)" for P
    by (rule filter_cong) (simp_all add: same)
  ultimately show ?thesis
    by (simp add: txVolumeSince_def aggregate_volume_def Let_def del: filter_filter)
qed

definition create_volume_fn ::
  "volume_query \<Rightarrow> txn_group \<Rightarrow> wallet_descriptor \<Rightarrow> int \<Rightarrow> error + tx_base_volume" where
  "create_volume_fn query grp w timestamp =
     rbind (txVolumeSince query (wallet_id w) timestamp grp) (\<lambda>(outgoing, incoming).
     rbind (paymentAmountFromNumber outgoing (wallet_currency w)) (\<lambda>outAmount.
     rbind (paymentAmountFromNumber incoming (wallet_currency w)) (\<lambda>inAmount.
       Inr \<lparr>vol_outgoing = outAmount, vol_incoming = inAmount\<rparr>)))"

definition VolumeCalculator_netIn :: "tx_base_volume \<Rightarrow> payment_amount" where
  "VolumeCalculator_netIn v = calc_sub (vol_incoming v) (vol_outgoing v)"

definition VolumeCalculator_netOut :: "tx_base_volume \<Rightarrow> payment_amount" where
  "VolumeCalculator_netOut v = calc_sub (vol_outgoing v) (vol_incoming v)"

definition VolumeCalculator_absolute :: "tx_base_volume \<Rightarrow> payment_amount" where
  "VolumeCalculator_absolute v = calc_add (vol_incoming v) (vol_outgoing v)"

definition netOutExternalPaymentVolumeAmountSince :: "volume_query \<Rightarrow> volume_fn" where
  "netOutExternalPaymentVolumeAmountSince query w timestamp =
     rbind (create_volume_fn query externalPaymentVolumeSince w timestamp) (\<lambda>v.
       Inr (VolumeCalculator_netOut v))"

definition outIntraledgerTxBaseVolumeAmountSince :: "volume_query \<Rightarrow> volume_fn" where
  "outIntraledgerTxBaseVolumeAmountSince query w timestamp =
     rbind (create_volume_fn query intraledgerTxBaseVolumeSince w timestamp) (\<lambda>v.
       Inr (vol_outgoing v))"

definition outTradeIntraAccountTxBaseVolumeAmountSince :: "volume_query \<Rightarrow> volume_fn" where
  "outTradeIntraAccountTxBaseVolumeAmountSince query w timestamp =
     rbind (create_volume_fn query tradeIntraAccountTxBaseVolumeSince w timestamp) (\<lambda>v.
       Inr (vol_outgoing v))"

definition absoluteAllTxBaseVolumeAmountSince :: "volume_query \<Rightarrow> volume_fn" where
  "absoluteAllTxBaseVolumeAmountSince query w timestamp =
     rbind (create_volume_fn query allTxBaseVolumeSince w timestamp) (\<lambda>v.
       Inr (VolumeCalculator_absolute v))"

definition netInOnChainTxBaseVolumeAmountSince :: "volume_query \<Rightarrow> volume_fn" where
  "netInOnChainTxBaseVolumeAmountSince query w timestamp =
     rbind (create_volume_fn query onChainTxBaseVolumeSince w timestamp) (\<lambda>v.
       Inr (VolumeCalculator_netIn v))"

definition netInLightningTxBaseVolumeAmountSince :: "volume_query \<Rightarrow> volume_fn" where
  "netInLightningTxBaseVolumeAmountSince query w timestamp =
     rbind (create_volume_fn query lightningTxBaseVolumeSince w timestamp) (\<lambda>v.
       Inr (VolumeCalculator_netIn v))"

subsection \<open>limits-volume.ts and limits-checker.ts\<close>

record account_limits =
  intraLedgerLimit :: jsnum
  withdrawalLimit :: jsnum
  tradeIntraAccountLimit :: jsnum

fun aggregate_from :: "price_ratio \<Rightarrow> payment_amount \<Rightarrow> payment_amount list \<Rightarrow> payment_amount" where
  "aggregate_from pr volumeInUsdAmount [] = volumeInUsdAmount"
| "aggregate_from pr volumeInUsdAmount (walletVolume # ws) =
     (let usdAmount = (if currency walletVolume = Btc then convertFromBtc pr walletVolume
                       else walletVolume)
      in aggregate_from pr (calc_add volumeInUsdAmount usdAmount) ws)"

definition WalletVolumesAggregator :: "payment_amount list \<Rightarrow> price_ratio \<Rightarrow> payment_amount" where
  "WalletVolumesAggregator walletVolumes pr = aggregate_from pr ZERO_CENTS walletVolumes"

definition remaining_intraLedger ::
  "account_limits \<Rightarrow> price_ratio \<Rightarrow> payment_amount list \<Rightarrow> error + payment_amount" where
  "remaining_intraLedger lims pr outWalletVolumes =
     rbind (paymentAmountFromNumber (intraLedgerLimit lims) Usd) (\<lambda>limitAmount.
       let outUsdVolumeAmount = WalletVolumesAggregator outWalletVolumes pr;
           volumeRemaining = calc_sub limitAmount outUsdVolumeAmount
       in Inr (calc_max ZERO_CENTS [volumeRemaining]))"

definition remaining_withdrawal ::
  "account_limits \<Rightarrow> price_ratio \<Rightarrow> payment_amount list \<Rightarrow> error + payment_amount" where
  "remaining_withdrawal lims pr netOutWalletVolumes =
     rbind (paymentAmountFromNumber (withdrawalLimit lims) Usd) (\<lambda>limitAmount.
       let netUsdVolumeAmount = WalletVolumesAggregator netOutWalletVolumes pr;
           volumeRemaining = calc_sub limitAmount netUsdVolumeAmount
       in Inr (calc_max ZERO_CENTS [volumeRemaining]))"

definition remaining_tradeIntraAccount ::
  "account_limits \<Rightarrow> price_ratio \<Rightarrow> payment_amount list \<Rightarrow> error + payment_amount" where
  "remaining_tradeIntraAccount lims pr outWalletVolumes =
     rbind (paymentAmountFromNumber (tradeIntraAccountLimit lims) Usd) (\<lambda>limitAmount.
       let outUsdVolumeAmount = WalletVolumesAggregator outWalletVolumes pr;
           rawVolumeRemaining = calc_sub limitAmount outUsdVolumeAmount
       in Inr (calc_max ZERO_CENTS [rawVolumeRemaining]))"

definition checkIntraledger :: "payment_amount \<Rightarrow> payment_amount \<Rightarrow> error + unit" where
  "checkIntraledger amt volumeRemaining =
     (if amount volumeRemaining \<ge> amount amt then Inr () else Inl IntraledgerLimitsExceededError)"

definition checkWithdrawal :: "payment_amount \<Rightarrow> payment_amount \<Rightarrow> error + unit" where
  "checkWithdrawal amt volumeRemaining =
     (if amount volumeRemaining \<ge> amount amt then Inr () else Inl WithdrawalLimitsExceededError)"

definition checkTradeIntraAccount :: "payment_amount \<Rightarrow> payment_amount \<Rightarrow> error + unit" where
  "checkTradeIntraAccount amt volumeRemaining =
     (if amount volumeRemaining \<ge> amount amt then Inr () else Inl TradeIntraAccountLimitsExceededError)"

subsection \<open>account-validator.ts and the fee check of accounts\<close>

datatype account_status = AS_New | AS_Pending | AS_Active | AS_Locked | AS_Closed

definition AccountValidator :: "account_status \<Rightarrow> string \<Rightarrow> wallet_descriptor \<Rightarrow> error + unit" where
  "AccountValidator status accountId wallet =
     (if status \<noteq> AS_Active then Inl InactiveAccountError
      else if wallet_accountId wallet \<noteq> accountId then Inl InvalidWalletId
      else Inr ())"

definition sanityCheckedDefaultAccountWithdrawFee :: "jsnum \<Rightarrow> error + jsnum" where
  "sanityCheckedDefaultAccountWithdrawFee fee =
     (if js_lt fee (Fin 0) \<or> js_lt (Fin 100000) fee then Inl InvalidWithdrawFeeError else Inr fee)"

subsection \<open>account-limit.ts\<close>

text \<open>
  The repositories, the configuration of limits by level, and the volume query are services of
  the environment; \<open>now\<close> is the clock.
\<close>

record 'level limit_services =
  findAccountWalletsByAccountId :: "string \<Rightarrow> error + account_wallets"
  findAccountLevel :: "string \<Rightarrow> error + 'level"
  getAccountLimits :: "'level \<Rightarrow> account_limits"
  volumeQuery :: volume_query

definition remaining_with ::
  "(volume_query \<Rightarrow> volume_fn) \<Rightarrow>
   (account_limits \<Rightarrow> price_ratio \<Rightarrow> payment_amount list \<Rightarrow> error + payment_amount) \<Rightarrow>
   'level limit_services \<Rightarrow> int \<Rightarrow> string \<Rightarrow> price_ratio \<Rightarrow> error + payment_amount" where
  "remaining_with volume remaining srv now accountId pr =
     (let timestamp1Day = now - MS_PER_DAY in
      rbind (findAccountWalletsByAccountId srv accountId) (\<lambda>ws.
      rbind (volume (volumeQuery srv) (wallets_BTC ws) timestamp1Day) (\<lambda>btcWalletVolume.
      rbind (volume (volumeQuery srv) (wallets_USD ws) timestamp1Day) (\<lambda>usdWalletVolume.
      rbind (findAccountLevel srv accountId) (\<lambda>level.
        remaining (getAccountLimits srv level) pr [btcWalletVolume, usdWalletVolume])))))"

definition remainingIntraLedgerLimit ::
  "'level limit_services \<Rightarrow> int \<Rightarrow> string \<Rightarrow> price_ratio \<Rightarrow> error + payment_amount" where
  "remainingIntraLedgerLimit = remaining_with outIntraledgerTxBaseVolumeAmountSince remaining_intraLedger"

definition remainingWithdrawalLimit ::
  "'level limit_services \<Rightarrow> int \<Rightarrow> string \<Rightarrow> price_ratio \<Rightarrow> error + payment_amount" where
  "remainingWithdrawalLimit = remaining_with netOutExternalPaymentVolumeAmountSince remaining_withdrawal"

definition remainingTradeIntraAccountLimit ::
  "'level limit_services \<Rightarrow> int \<Rightarrow> string \<Rightarrow> price_ratio \<Rightarrow> error + payment_amount" where
  "remainingTradeIntraAccountLimit =
     remaining_with outTradeIntraAccountTxBaseVolumeAmountSince remaining_tradeIntraAccount"

definition checkIntraledgerLimits ::
  "'level limit_services \<Rightarrow> int \<Rightarrow> payment_amount \<Rightarrow> string \<Rightarrow> price_ratio \<Rightarrow> error + unit" where
  "checkIntraledgerLimits srv now amt accountId pr =
     rbind (remainingIntraLedgerLimit srv now accountId pr) (\<lambda>volumeRemaining.
     rbind (findAccountLevel srv accountId) (\<lambda>level. checkIntraledger amt volumeRemaining))"

definition checkWithdrawalLimits ::
  "'level limit_services \<Rightarrow> int \<Rightarrow> payment_amount \<Rightarrow> string \<Rightarrow> price_ratio \<Rightarrow> error + unit" where
  "checkWithdrawalLimits srv now amt accountId pr =
     rbind (remainingWithdrawalLimit srv now accountId pr) (\<lambda>volumeRemaining.
     rbind (findAccountLevel srv accountId) (\<lambda>level. checkWithdrawal amt volumeRemaining))"

definition checkTradeIntraAccountLimits ::
  "'level limit_services \<Rightarrow> int \<Rightarrow> payment_amount \<Rightarrow> string \<Rightarrow> price_ratio \<Rightarrow> error + unit" where
  "checkTradeIntraAccountLimits srv now amt accountId pr =
     rbind (remainingTradeIntraAccountLimit srv now accountId pr) (\<lambda>volumeRemaining.
     rbind (findAccountLevel srv accountId) (\<lambda>level. checkTradeIntraAccount amt volumeRemaining))"

subsection \<open>The contract of a volume limit\<close>

text \<open>
  The three limits share a contract: what remains is the limit minus the volume, never below
  zero, and an amount passes when it is at most what remains.
\<close>

locale volume_limit =
  fixes limit :: "account_limits \<Rightarrow> jsnum"
    and remaining :: "account_limits \<Rightarrow> price_ratio \<Rightarrow> payment_amount list \<Rightarrow> error + payment_amount"
    and check :: "payment_amount \<Rightarrow> payment_amount \<Rightarrow> error + unit"
    and exceeded :: error
  assumes remaining_limit: "limit lims = Fin (of_int l) \<Longrightarrow>
      rbind (remaining lims pr vols) (\<lambda>r. Inr (amount r)) =
      Inr (max 0 (l - amount (WalletVolumesAggregator vols pr)))"
    and check_remaining: "check amt r = (if amount amt \<le> amount r then Inr () else Inl exceeded)"
begin

lemma limit_check_iff:
  assumes "limit lims = Fin (of_int l)" and "0 < amount amt"
  shows "rbind (remaining lims pr vols) (check amt) =
    (if amount (WalletVolumesAggregator vols pr) + amount amt \<le> l then Inr () else Inl exceeded)"
proof -
  obtain r where "remaining lims pr vols = Inr r"
      and "amount r = max 0 (l - amount (WalletVolumesAggregator vols pr))"
    using remaining_limit [OF assms(1), of pr vols] by (cases "remaining lims pr vols") auto
  then show ?thesis
    using assms(2) by (auto simp: check_remaining)
qed

lemma remaining_nonneg:
  "limit lims = Fin (of_int l) \<Longrightarrow> remaining lims pr vols = Inr r \<Longrightarrow> 0 \<le> amount r"
  using remaining_limit [of lims l pr vols] by simp

end

interpretation intraledger_limit: volume_limit intraLedgerLimit remaining_intraLedger checkIntraledger
  IntraledgerLimitsExceededError
  by unfold_locales (simp_all add: remaining_intraLedger_def checkIntraledger_def Let_def)

interpretation withdrawal_limit: volume_limit withdrawalLimit remaining_withdrawal checkWithdrawal
  WithdrawalLimitsExceededError
  by unfold_locales (simp_all add: remaining_withdrawal_def checkWithdrawal_def Let_def)

interpretation trade_limit: volume_limit tradeIntraAccountLimit remaining_tradeIntraAccount
  checkTradeIntraAccount TradeIntraAccountLimitsExceededError
  by unfold_locales (simp_all add: remaining_tradeIntraAccount_def checkTradeIntraAccount_def Let_def)

lemma aggregate_from_amount:
  "amount (aggregate_from pr a vols) =
   amount a + (\<Sum>v\<leftarrow>vols. amount (if currency v = Btc then convertFromBtc pr v else v))"
  by (induction vols arbitrary: a) (simp_all add: Let_def)

lemma aggregator_two:
  assumes "currency b = Btc" and "currency u = Usd"
  shows "amount (WalletVolumesAggregator [b, u] pr) = amount (convertFromBtc pr b) + amount u"
  using assms by (simp add: WalletVolumesAggregator_def aggregate_from_amount)

lemma convertFromBtc_small_negative:
  assumes "valid_ratio pr" and "amount b < 0"
    and "- amount b * ratio_other pr < amount (ratio_walletAmount pr)"
  shows "amount (convertFromBtc pr b) = 1"
proof -
  let ?n = "amount b * ratio_other pr" and ?w = "amount (ratio_walletAmount pr)"
  have neg: "?n < 0" and w: "0 < ?w" and small: "- ?n < ?w"
    using assms by (auto simp: valid_ratio_def mult_less_0_iff)
  then have "big_div ?n ?w = 0"
    by (simp add: big_div_neg div_pos_pos_trivial)
  moreover have "\<not> big_rem ?n ?w > big_div ?w 2"
  proof -
    have "0 \<le> (- ?n) mod ?w" and "0 \<le> ?w div 2"
      using w by simp_all
    then have "- ((- ?n) mod ?w) \<le> ?w div 2"
      by linarith
    then show ?thesis
      using neg w by (simp add: big_rem_neg not_less)
  qed
  ultimately show ?thesis
    using assms(2) by (simp add: convertFromBtc_def convertFromWallet_def Let_def divRound_def)
qed

subsection \<open>Properties\<close>

text \<open>C12: the daily limits. For each of the three limits, transfers inside the ledger, withdrawals and
  trades between one's own wallets, a positive amount passes the check on what remains exactly
  when the volume of the last day in dollars plus the amount is within the configured limit, and
  otherwise it is refused with the error of that limit.\<close>
theorem limits_enforced:
  assumes "intraLedgerLimit lims = Fin (of_int li)" and "withdrawalLimit lims = Fin (of_int lw)"
    and "tradeIntraAccountLimit lims = Fin (of_int lt)" and "0 < amount amt"
  shows "rbind (remaining_intraLedger lims pr vols) (checkIntraledger amt) =
      (if amount (WalletVolumesAggregator vols pr) + amount amt \<le> li then Inr ()
       else Inl IntraledgerLimitsExceededError) \<and>
    rbind (remaining_withdrawal lims pr vols) (checkWithdrawal amt) =
      (if amount (WalletVolumesAggregator vols pr) + amount amt \<le> lw then Inr ()
       else Inl WithdrawalLimitsExceededError) \<and>
    rbind (remaining_tradeIntraAccount lims pr vols) (checkTradeIntraAccount amt) =
      (if amount (WalletVolumesAggregator vols pr) + amount amt \<le> lt then Inr ()
       else Inl TradeIntraAccountLimitsExceededError)"
  using intraledger_limit.limit_check_iff [OF assms(1,4)] withdrawal_limit.limit_check_iff [OF assms(2,4)]
    trade_limit.limit_check_iff [OF assms(3,4)]
  by simp

definition example_limits :: account_limits where
  "example_limits = \<lparr>intraLedgerLimit = Fin (of_int 500), withdrawalLimit = Fin (of_int 100),
     tradeIntraAccountLimit = Fin (of_int 1000)\<rparr>"

definition example_ratio :: price_ratio where
  "example_ratio = \<lparr>ratio_other = 3, ratio_walletAmount = \<lparr>currency = Btc, amount = 100\<rparr>\<rparr>"

lemma limits_enforced_witness:
  "rbind (remaining_withdrawal example_limits example_ratio [\<lparr>currency = Usd, amount = 60\<rparr>])
     (checkWithdrawal \<lparr>currency = Usd, amount = 41\<rparr>) = Inl WithdrawalLimitsExceededError"
  using limits_enforced [of example_limits 500 100 1000 "\<lparr>currency = Usd, amount = 41\<rparr>" example_ratio
      "[\<lparr>currency = Usd, amount = 60\<rparr>]"]
  by (simp add: example_limits_def WalletVolumesAggregator_def)

text \<open>C13: the withdrawal check from end to end. When the repositories answer, the account's wallets
  had net outgoing volumes \<open>b\<close> and \<open>u\<close> over the last day, and the limit of its level is \<open>l\<close>, a
  positive dollar amount is let through exactly when the converted volumes and the amount stay
  within \<open>l\<close>.\<close>
theorem checkWithdrawalLimits_iff:
  assumes "findAccountWalletsByAccountId srv acc = Inr ws" and "findAccountLevel srv acc = Inr level"
    and "netOutExternalPaymentVolumeAmountSince (volumeQuery srv) (wallets_BTC ws) (now - MS_PER_DAY) = Inr b"
    and "netOutExternalPaymentVolumeAmountSince (volumeQuery srv) (wallets_USD ws) (now - MS_PER_DAY) = Inr u"
    and "currency b = Btc" and "currency u = Usd"
    and "withdrawalLimit (getAccountLimits srv level) = Fin (of_int l)" and "0 < amount amt"
  shows "checkWithdrawalLimits srv now amt acc pr =
    (if amount (convertFromBtc pr b) + amount u + amount amt \<le> l then Inr ()
     else Inl WithdrawalLimitsExceededError)"
  using withdrawal_limit.limit_check_iff [OF assms(7,8), of pr "[b, u]"] assms(1-4)
  by (simp add: checkWithdrawalLimits_def remainingWithdrawalLimit_def remaining_with_def Let_def
      aggregator_two [OF assms(5,6)])

definition example_services :: "unit limit_services" where
  "example_services =
     \<lparr>findAccountWalletsByAccountId = (\<lambda>_. Inr
        \<lparr>wallets_BTC = \<lparr>wallet_id = ''b'', wallet_currency = Btc, wallet_accountId = ''a''\<rparr>,
         wallets_USD = \<lparr>wallet_id = ''u'', wallet_currency = Usd, wallet_accountId = ''a''\<rparr>\<rparr>),
      findAccountLevel = (\<lambda>_. Inr ()), getAccountLimits = (\<lambda>_. example_limits),
      volumeQuery = (\<lambda>_ _ _. Some (Some (Fin (of_int 60)), Some (Fin (of_int 0))))\<rparr>"

lemma checkWithdrawalLimits_iff_witness:
  "checkWithdrawalLimits example_services 0 \<lparr>currency = Usd, amount = 38\<rparr> ''a'' example_ratio = Inr ()"
proof -
  have vol: "netOutExternalPaymentVolumeAmountSince (volumeQuery example_services) w t =
      Inr \<lparr>currency = wallet_currency w, amount = 60\<rparr>" for w t
    unfolding netOutExternalPaymentVolumeAmountSince_def create_volume_fn_def txVolumeSince_def
      example_services_def
    by (simp add: VolumeCalculator_netOut_def calc_sub_def del: of_int_numeral of_int_0)
  have parts: "findAccountWalletsByAccountId example_services ''a'' = Inr
        \<lparr>wallets_BTC = \<lparr>wallet_id = ''b'', wallet_currency = Btc, wallet_accountId = ''a''\<rparr>,
         wallets_USD = \<lparr>wallet_id = ''u'', wallet_currency = Usd, wallet_accountId = ''a''\<rparr>\<rparr>"
    "findAccountLevel example_services ''a'' = Inr ()"
    "withdrawalLimit (getAccountLimits example_services ()) = Fin (of_int 100)"
    by (simp_all add: example_services_def example_limits_def)
  show ?thesis
    by (subst checkWithdrawalLimits_iff [OF parts(1,2) vol vol _ _ parts(3)])
      (simp_all add: example_ratio_def convertFromBtc_def convertFromWallet_def divRound_def)
qed

text \<open>C23: a refund can count as spending. When the net outgoing volume of the bitcoin wallet is
  negative but worth less than a cent, because a reimbursement fell into the last day and its
  payment did not, the conversion rounds it up to plus one cent, and the remaining withdrawal
  volume is one cent below the limit instead of at or above it.\<close>
theorem small_refund_counts_as_spending:
  assumes "valid_ratio pr" and "currency b = Btc" and "amount b < 0"
    and "- amount b * ratio_other pr < amount (ratio_walletAmount pr)"
    and "withdrawalLimit lims = Fin (of_int l)" and "1 \<le> l"
  shows "remaining_withdrawal lims pr [b, ZERO_CENTS] = Inr \<lparr>currency = Usd, amount = l - 1\<rparr>"
  using convertFromBtc_small_negative [OF assms(1,3,4)] assms(2,5,6)
  by (auto simp: remaining_withdrawal_def Let_def aggregator_two calc_max_def calc_sub_def ZERO_CENTS_def)

lemma small_refund_counts_as_spending_witness:
  "remaining_withdrawal example_limits example_ratio [\<lparr>currency = Btc, amount = - 5\<rparr>, ZERO_CENTS] =
   Inr \<lparr>currency = Usd, amount = 99\<rparr>"
  using small_refund_counts_as_spending [of example_ratio "\<lparr>currency = Btc, amount = - 5\<rparr>" example_limits 100]
  by (simp add: example_ratio_def example_limits_def valid_ratio_def)

end
