(* ===== verification/Rust_Base.thy ===== *)
theory Rust_Base
  imports Galoy_Prelude "HOL-Library.Word"
begin

text \<open>
  Shared vocabulary of the Rust services (\<open>src/core/notifications\<close>, \<open>src/core/api-keys\<close>,
  \<open>src/lib\<close>). A function that returns \<open>Result\<close> and works on a database is a state transformer
  with an error outcome; \<open>?\<close> is its sequencing. The database itself is a set of tables with the
  clock of the transaction, a tape of connection faults (statement \<open>n\<close> fails when the
  tape says so) and the source of random identifiers.
\<close>

subsection \<open>Results over a state\<close>

type_synonym ('s, 'e, 'a) rust = "'s \<Rightarrow> ('e + 'a) \<times> 's"

definition rs_ok :: "'a \<Rightarrow> ('s, 'e, 'a) rust" where
  "rs_ok a = (\<lambda>s. (Inr a, s))"

definition rs_err :: "'e \<Rightarrow> ('s, 'e, 'a) rust" where
  "rs_err e = (\<lambda>s. (Inl e, s))"

definition rs_bind :: "('s, 'e, 'a) rust \<Rightarrow> ('a \<Rightarrow> ('s, 'e, 'b) rust) \<Rightarrow> ('s, 'e, 'b) rust" where
  "rs_bind m f = (\<lambda>s. case m s of (Inl e, s') \<Rightarrow> (Inl e, s') | (Inr a, s') \<Rightarrow> f a s')"

definition rs_get :: "('s \<Rightarrow> 'a) \<Rightarrow> ('s, 'e, 'a) rust" where
  "rs_get f = (\<lambda>s. (Inr (f s), s))"

text \<open>\<open>for x in xs { body(x)?; }\<close>\<close>

fun rs_for :: "'a list \<Rightarrow> ('a \<Rightarrow> ('s, 'e, unit) rust) \<Rightarrow> ('s, 'e, unit) rust" where
  "rs_for [] body = rs_ok ()"
| "rs_for (x # xs) body = rs_bind (body x) (\<lambda>_. rs_for xs body)"

definition rs_when :: "bool \<Rightarrow> ('s, 'e, unit) rust \<Rightarrow> ('s, 'e, unit) rust" where
  "rs_when b m = (if b then m else rs_ok ())"

named_theorems rs_defs \<open>the combinators of results over a state\<close>

declare rs_ok_def [rs_defs] rs_err_def [rs_defs] rs_bind_def [rs_defs] rs_get_def [rs_defs]
  rs_when_def [rs_defs]

lemma rs_bind_run [simp]:
  "m s = (Inr a, s') \<Longrightarrow> rs_bind m f s = f a s'"
  "m s = (Inl e, s') \<Longrightarrow> rs_bind m f s = (Inl e, s')"
  by (simp_all add: rs_bind_def)

lemma rs_bind_ok [simp]: "rs_bind (rs_ok a) f = f a"
  by (simp add: rs_bind_def rs_ok_def)

lemma rs_bind_err [simp]: "rs_bind (rs_err e) f = rs_err e"
  by (simp add: rs_bind_def rs_err_def)

lemma rs_bind_eq_Inr_iff:
  "rs_bind m f s = (Inr b, t) \<longleftrightarrow> (\<exists>a s'. m s = (Inr a, s') \<and> f a s' = (Inr b, t))"
  by (auto simp: rs_bind_def split: prod.splits sum.splits)

lemma rs_bind_eq_Inl_iff:
  "rs_bind m f s = (Inl e, t) \<longleftrightarrow>
     m s = (Inl e, t) \<or> (\<exists>a s'. m s = (Inr a, s') \<and> f a s' = (Inl e, t))"
  by (auto simp: rs_bind_def split: prod.splits sum.splits)

lemma find_append:
  "List.find P (xs @ ys) = (case List.find P xs of None \<Rightarrow> List.find P ys | Some x \<Rightarrow> Some x)"
  by (induction xs) simp_all

lemma find_SomeD: "List.find P xs = Some x \<Longrightarrow> x \<in> set xs \<and> P x"
  by (auto simp: find_Some_iff)

subsection \<open>Integer casts\<close>

text \<open>\<open>n as i32\<close> keeps the low 32 bits, read as a signed number.\<close>

definition as_i32 :: "nat \<Rightarrow> int" where
  "as_i32 n = sint (of_nat n :: 32 word)"

lemma as_i32_small: "n < 2 ^ 31 \<Longrightarrow> as_i32 n = int n"
proof -
  assume "n < 2 ^ 31"
  then have "int n < 2 ^ 31"
    by (metis of_nat_less_iff of_nat_numeral of_nat_power)
  then show ?thesis
    by (simp add: as_i32_def signed_of_nat signed_take_bit_int_eq_self)
qed

subsection \<open>Database errors\<close>

text \<open>
  \<open>sqlx::Error\<close> as far as the services tell them apart: a statement that could not be run, and a
  violated constraint. A panic (\<open>expect\<close>, \<open>unwrap\<close>) is a value of its own.
\<close>

datatype sqlx_error = ConnectionFailed | UniqueViolation | ForeignKeyViolation | RowNotFound

type_synonym uuid = string
type_synonym timestamp = int

subsection \<open>The database\<close>

text \<open>
  \<open>primary\<close> is the state behind the connection pool and \<open>replica\<close> the one behind the pool for
  reading, which may lag behind. \<open>tx_now\<close> is the time of the current transaction. The head of
  \<open>faults\<close> tells whether the next statement fails; an exhausted tape means no further faults.
\<close>

record 'd pg =
  primary :: 'd
  replica :: 'd
  tx_now :: timestamp
  faults :: "bool list"
  uuids :: "nat \<Rightarrow> uuid"
  drawn :: nat

definition pg_stmt :: "(timestamp \<Rightarrow> 'd \<Rightarrow> sqlx_error + 'a \<times> 'd) \<Rightarrow> ('d pg, sqlx_error, 'a) rust" where
  "pg_stmt f db =
     (let db' = db\<lparr> faults := tl (faults db) \<rparr>
      in if faults db \<noteq> [] \<and> hd (faults db) then (Inl ConnectionFailed, db')
         else case f (tx_now db) (primary db) of
                Inl e \<Rightarrow> (Inl e, db')
              | Inr (a, d) \<Rightarrow> (Inr a, db'\<lparr> primary := d \<rparr>))"

definition pg_select :: "('d pg \<Rightarrow> 'a) \<Rightarrow> ('d pg, sqlx_error, 'a) rust" where
  "pg_select f db =
     (let db' = db\<lparr> faults := tl (faults db) \<rparr>
      in if faults db \<noteq> [] \<and> hd (faults db) then (Inl ConnectionFailed, db') else (Inr (f db), db'))"

definition new_uuid :: "('d pg, 'e, uuid) rust" where
  "new_uuid db = (Inr (uuids db (drawn db)), db\<lparr> drawn := Suc (drawn db) \<rparr>)"

definition rs_map_err :: "('e \<Rightarrow> 'f) \<Rightarrow> ('s, 'e, 'a) rust \<Rightarrow> ('s, 'f, 'a) rust" where
  "rs_map_err g m = (\<lambda>s. case m s of (Inl e, s') \<Rightarrow> (Inl (g e), s') | (Inr a, s') \<Rightarrow> (Inr a, s'))"

text \<open>
  A transaction: begin, the body, commit. When any of them fails, or the body panics, the
  transaction is dropped and rolled back.
\<close>

definition in_tx :: "(sqlx_error \<Rightarrow> 'e) \<Rightarrow> ('d pg, 'e, 'a) rust \<Rightarrow> ('d pg, 'e, 'a) rust" where
  "in_tx wrap m = (\<lambda>db.
     case rs_bind (rs_map_err wrap (pg_select (\<lambda>_. ()))) (\<lambda>_.
          rs_bind m (\<lambda>a.
          rs_bind (rs_map_err wrap (pg_select (\<lambda>_. ()))) (\<lambda>_. rs_ok a))) db of
       (Inl e, db') \<Rightarrow> (Inl e, db'\<lparr> primary := primary db \<rparr>)
     | (Inr a, db') \<Rightarrow> (Inr a, db'))"

text \<open>A database without faults left.\<close>

abbreviation faultless :: "('d, 'z) pg_scheme \<Rightarrow> bool" where
  "faultless db \<equiv> faults db = []"

lemma faultless_tl [simp]: "faultless db \<Longrightarrow> db\<lparr> faults := [] \<rparr> = db"
  by (cases db) simp

lemma pg_select_run [simp]: "faultless db \<Longrightarrow> pg_select f db = (Inr (f db), db)"
  by (simp add: pg_select_def)

lemma pg_stmt_run:
  "faultless db \<Longrightarrow>
   pg_stmt f db = (case f (tx_now db) (primary db) of
      Inl e \<Rightarrow> (Inl e, db) | Inr (a, d) \<Rightarrow> (Inr a, db\<lparr> primary := d \<rparr>))"
  by (simp add: pg_stmt_def Let_def)

lemma rs_map_err_run [simp]:
  "m s = (Inr a, s') \<Longrightarrow> rs_map_err g m s = (Inr a, s')"
  "m s = (Inl e, s') \<Longrightarrow> rs_map_err g m s = (Inl (g e), s')"
  by (simp_all add: rs_map_err_def)

lemma in_tx_run:
  assumes "faultless db" "m db = (r, db')" "faultless db'"
  shows "in_tx wrap m db = (r, if isl r then db'\<lparr> primary := primary db \<rparr> else db')"
  using assms by (cases r) (simp_all add: in_tx_def rs_bind_def rs_map_err_def rs_ok_def)

lemma in_tx_error: "in_tx wrap m db = (Inl e, db') \<Longrightarrow> primary db' = primary db"
  by (auto simp: in_tx_def split: prod.splits sum.splits)

text \<open>What a statement leaves alone, and its three outcomes.\<close>

definition same_session :: "'d pg \<Rightarrow> 'd pg \<Rightarrow> bool" where
  "same_session db db' \<longleftrightarrow>
     replica db' = replica db \<and> tx_now db' = tx_now db \<and> uuids db' = uuids db \<and>
     drawn db \<le> drawn db' \<and> (faultless db \<longrightarrow> faultless db')"

lemma same_session_refl [simp]: "same_session db db"
  by (simp add: same_session_def)

lemma same_session_trans [trans]:
  "same_session db db' \<Longrightarrow> same_session db' db'' \<Longrightarrow> same_session db db''"
  by (auto simp: same_session_def)

lemma same_session_primary [simp]: "same_session db (db'\<lparr> primary := d \<rparr>) = same_session db db'"
  by (simp add: same_session_def)

lemma pg_stmt_cases:
  assumes "pg_stmt f db = (r, db')"
  obtains (fault) "r = Inl ConnectionFailed" "\<not> faultless db" "primary db' = primary db"
      "same_session db db'" "drawn db' = drawn db"
    | (error) e where "f (tx_now db) (primary db) = Inl e" "r = Inl e" "primary db' = primary db"
      "same_session db db'" "drawn db' = drawn db"
    | (ok) a d where "f (tx_now db) (primary db) = Inr (a, d)" "r = Inr a" "primary db' = d"
      "same_session db db'" "drawn db' = drawn db"
  using assms
  by (auto simp: pg_stmt_def Let_def same_session_def split: if_splits sum.splits prod.splits)

lemma pg_select_cases:
  assumes "pg_select f db = (r, db')"
  obtains (fault) "r = Inl ConnectionFailed" "\<not> faultless db" "primary db' = primary db"
      "same_session db db'" "drawn db' = drawn db"
    | (ok) "r = Inr (f db)" "primary db' = primary db" "same_session db db'" "drawn db' = drawn db"
  using assms by (auto simp: pg_select_def Let_def same_session_def split: if_splits)

lemma rs_map_err_eq_Inl_iff:
  "rs_map_err g m s = (Inl e, s') \<longleftrightarrow> (\<exists>e'. m s = (Inl e', s') \<and> e = g e')"
  by (auto simp: rs_map_err_def split: prod.splits sum.splits)

lemma rs_map_err_eq_Inr_iff: "rs_map_err g m s = (Inr a, s') \<longleftrightarrow> m s = (Inr a, s')"
  by (auto simp: rs_map_err_def split: prod.splits sum.splits)

text \<open>
  A transaction either fails, by a fault of begin or commit or by an error of its body, and
  leaves the data as it was, or it has run its body.
\<close>

lemma in_tx_cases:
  assumes "in_tx wrap m db = (r, db')"
    "\<forall>s t x. m s = (x, t) \<longrightarrow> primary s = primary db \<longrightarrow> same_session db s \<longrightarrow> same_session s t"
  obtains (fault) "r = Inl (wrap ConnectionFailed)" "\<not> faultless db" "primary db' = primary db"
      "same_session db db'"
    | (error) e s t where "m s = (Inl e, t)" "primary s = primary db" "same_session db s"
      "drawn s = drawn db" "r = Inl e" "primary db' = primary db" "same_session db db'"
    | (ok) a s t where "m s = (Inr a, t)" "primary s = primary db" "same_session db s"
      "drawn s = drawn db" "r = Inr a" "primary db' = primary t" "same_session db db'"
proof -
  obtain x s where start: "pg_select (\<lambda>_. ()) db = (x, s)"
    by (cases "pg_select (\<lambda>_. ()) db")
  from start show thesis
  proof (cases rule: pg_select_cases)
    case fault
    then have "r = Inl (wrap ConnectionFailed)" "db' = s\<lparr> primary := primary db \<rparr>"
      using assms(1) start by (simp_all add: in_tx_def rs_bind_def rs_map_err_def)
    then show ?thesis
      using fault that(1) by simp
  next
    case ok
    obtain y t where body: "m s = (y, t)"
      by (cases "m s")
    then have st: "same_session s t"
      using assms(2) ok by blast
    show ?thesis
    proof (cases y)
      case (Inl e)
      then have "r = Inl e" "db' = t\<lparr> primary := primary db \<rparr>"
        using assms(1) start body ok by (simp_all add: in_tx_def rs_bind_def rs_map_err_def)
      then show ?thesis
        using Inl body ok st that(2) [of s e t] same_session_trans [of db s t] by simp
    next
      case (Inr a)
      obtain z u where commit: "pg_select (\<lambda>_. ()) t = (z, u)"
        by (cases "pg_select (\<lambda>_. ()) t")
      have eq: "(r, db') = (case z of
          Inl e \<Rightarrow> (Inl (wrap e), u\<lparr> primary := primary db \<rparr>) | Inr _ \<Rightarrow> (Inr a, u))"
        using assms(1) start body ok Inr commit
        by (cases z) (simp_all add: in_tx_def rs_bind_def rs_map_err_def rs_ok_def)
      from commit show ?thesis
      proof (cases rule: pg_select_cases)
        case fault
        moreover have "same_session db u"
          using ok st fault same_session_trans by blast
        moreover have "\<not> faultless db"
          using fault(2) st ok(3) by (auto simp: same_session_def)
        ultimately show ?thesis
          using that(1) eq by simp
      next
        case ok': ok
        have "same_session db u"
          using ok st ok' same_session_trans by blast
        then show ?thesis
          using that(3) [of s a t] eq ok ok' body Inr by simp
      qed
    qed
  qed
qed

lemma pg_select_Inr: "pg_select f db = (Inr a, db') \<Longrightarrow> primary db' = primary db \<and> drawn db' = drawn db"
  by (auto simp: pg_select_def Let_def split: if_splits)

lemma in_tx_Inr:
  assumes "in_tx wrap m db = (Inr a, db')"
  obtains s t where "m s = (Inr a, t)" "primary s = primary db" "drawn s = drawn db" "primary db' = primary t"
proof -
  have "rs_bind (rs_map_err wrap (pg_select (\<lambda>_. ()))) (\<lambda>_. rs_bind m (\<lambda>a.
      rs_bind (rs_map_err wrap (pg_select (\<lambda>_. ()))) (\<lambda>_. rs_ok a))) db = (Inr a, db')"
    using assms by (simp add: in_tx_def split: prod.splits sum.splits)
  then show thesis
    using that by (auto simp: rs_bind_eq_Inr_iff rs_map_err_eq_Inr_iff rs_ok_def dest!: pg_select_Inr)
qed

text \<open>Operations that keep a property of the data, whatever their result.\<close>

definition rs_keeps :: "('d \<Rightarrow> bool) \<Rightarrow> ('d pg, 'e, 'a) rust \<Rightarrow> bool" where
  "rs_keeps P m \<longleftrightarrow> (\<forall>db. P (primary db) \<longrightarrow> P (primary (snd (m db))))"

lemma rs_keepsD: "rs_keeps P m \<Longrightarrow> m db = (r, db') \<Longrightarrow> P (primary db) \<Longrightarrow> P (primary db')"
  by (metis rs_keeps_def snd_conv)

lemma rs_keeps_bind [intro]:
  fixes m :: "('d pg, 'e, 'a) rust"
  assumes "rs_keeps P m" "\<And>a. rs_keeps P (f a)"
  shows "rs_keeps P (rs_bind m f)"
  unfolding rs_keeps_def
proof (intro allI impI)
  fix db :: "'d pg"
  assume "P (primary db)"
  moreover obtain r db' where "m db = (r, db')"
    by (cases "m db")
  ultimately show "P (primary (snd (rs_bind m f db)))"
    using assms by (cases r) (auto simp: rs_keeps_def rs_bind_def dest: spec [of _ db])
qed

lemma rs_keeps_simps [simp]:
  "rs_keeps P (rs_ok a)" "rs_keeps P (rs_err e)" "rs_keeps P (rs_get f)" "rs_keeps P new_uuid"
  "rs_keeps P (pg_select g)"
  by (simp_all add: rs_keeps_def rs_ok_def rs_err_def rs_get_def new_uuid_def pg_select_def Let_def)

lemma rs_keeps_map_err [simp]: "rs_keeps P (rs_map_err g m) = rs_keeps P m"
proof -
  have "snd (rs_map_err g m db) = snd (m db)" for db
    by (cases "m db") (auto simp: rs_map_err_def split: sum.split)
  then show ?thesis
    by (simp add: rs_keeps_def)
qed

lemma rs_keeps_stmt:
  fixes f :: "timestamp \<Rightarrow> 'd \<Rightarrow> sqlx_error + 'a \<times> 'd"
  assumes "\<And>t d a d'. P d \<Longrightarrow> f t d = Inr (a, d') \<Longrightarrow> P d'"
  shows "rs_keeps P (pg_stmt f)"
  unfolding rs_keeps_def
proof (intro allI impI)
  fix db :: "'d pg"
  assume P: "P (primary db)"
  obtain r db' where run: "pg_stmt f db = (r, db')"
    by (cases "pg_stmt f db")
  then have "P (primary db')"
    using P assms by (cases rule: pg_stmt_cases) auto
  then show "P (primary (snd (pg_stmt f db)))"
    by (simp add: run)
qed

lemma rs_keeps_in_tx [intro]:
  fixes m :: "('d pg, 'e, 'a) rust"
  assumes "rs_keeps P m"
  shows "rs_keeps P (in_tx wrap m)"
  unfolding rs_keeps_def
proof (intro allI impI)
  fix db :: "'d pg"
  let ?body = "rs_bind (rs_map_err wrap (pg_select (\<lambda>_. ()))) (\<lambda>_. rs_bind m (\<lambda>a.
      rs_bind (rs_map_err wrap (pg_select (\<lambda>_. ()))) (\<lambda>_. rs_ok a)))"
  assume P: "P (primary db)"
  have "rs_keeps P ?body"
    using assms by (intro rs_keeps_bind) auto
  then have "P (primary (snd (?body db)))"
    using P by (simp add: rs_keeps_def)
  then show "P (primary (snd (in_tx wrap m db)))"
    using P unfolding in_tx_def by (auto split: prod.splits sum.splits)
qed

text \<open>A concrete database, with the tables \<open>d\<close>.\<close>

definition fresh_pg :: "'d \<Rightarrow> 'd pg" where
  "fresh_pg d =
     \<lparr> primary = d, replica = d, tx_now = 0, faults = [], uuids = \<lambda>n. replicate n (CHR ''x''),
       drawn = 0 \<rparr>"

lemma fresh_pg_simps [simp]:
  "primary (fresh_pg d) = d" "replica (fresh_pg d) = d" "tx_now (fresh_pg d) = 0" "faultless (fresh_pg d)"
  by (simp_all add: fresh_pg_def)

end
