(* ===== verification/Entity_Events.thy ===== *)
theory Entity_Events
  imports Rust_Base
begin

text \<open>
  Event sourced entities (\<open>src/lib/es-entity-rs\<close>): an entity is the list of its events, the ones
  read from the database and the new ones. Persisting appends the new events to the event table
  with consecutive sequence numbers; loading groups the rows of a query by entity. The codec
  between events and JSON is generated by serde and is a parameter.
\<close>

subsection \<open>Data\<close>

text \<open>
  The errors of the Rust services. The variants that only wrap another error (\<open>From\<close>) are left
  out; \<open>External\<close> is an error of a service outside, and a panic is an error of its own.
\<close>

datatype rust_error =
    Sqlx sqlx_error
  | NoEntityEventsPresent
  | UninitializedFieldError string
  | External string
  | Panic string

record ('e, 'j) event_codec =
  to_value :: "'e \<Rightarrow> 'j"
  from_value :: "'j \<Rightarrow> 'e option"
  value_type :: "'j \<Rightarrow> string option"

definition serde_ok :: "('e, 'j) event_codec \<Rightarrow> bool" where
  "serde_ok c \<longleftrightarrow>
     (\<forall>e. from_value c (to_value c e) = Some e \<and> value_type c (to_value c e) \<noteq> None)"

record 'j GenericEvent =
  ge_id :: uuid
  sequence :: int
  event :: 'j
  entity_created_at :: timestamp
  event_recorded_at :: timestamp

record 'e EntityEvents =
  entity_first_persisted_at :: "timestamp option"
  latest_event_persisted_at :: "timestamp option"
  entity_id :: uuid
  persisted_events :: "'e list"
  new_events :: "'e list"

text \<open>A row of an event table, and the values of an insert into it.\<close>

record 'j event_row =
  er_id :: uuid
  er_sequence :: int
  er_event_type :: string
  er_event :: 'j
  er_recorded_at :: timestamp

type_synonym 'j event_values = "uuid \<times> int \<times> string \<times> 'j"

subsection \<open>Operations\<close>

definition EntityEvents_init :: "uuid \<Rightarrow> 'e list \<Rightarrow> 'e EntityEvents" where
  "EntityEvents_init i initial_events =
     \<lparr> entity_first_persisted_at = None, latest_event_persisted_at = None, entity_id = i,
       persisted_events = [], new_events = initial_events \<rparr>"

definition push :: "'e \<Rightarrow> 'e EntityEvents \<Rightarrow> 'e EntityEvents" where
  "push e ev = ev\<lparr> new_events := new_events ev @ [e] \<rparr>"

definition iter :: "'e EntityEvents \<Rightarrow> 'e list" where
  "iter ev = persisted_events ev @ new_events ev"

text \<open>The values bound for one event; \<open>None\<close> when the JSON has no type and \<open>expect\<close> panics.\<close>

definition bind_event :: "('e, 'j) event_codec \<Rightarrow> uuid \<Rightarrow> nat \<Rightarrow> 'e \<Rightarrow> 'j event_values option" where
  "bind_event c i sq e =
     (let event_json = to_value c e
      in case value_type c event_json of
           None \<Rightarrow> None
         | Some event_type \<Rightarrow> Some (i, as_i32 sq, event_type, event_json))"

fun bind_events ::
  "('e, 'j) event_codec \<Rightarrow> uuid \<Rightarrow> nat \<Rightarrow> 'e list \<Rightarrow> 'j event_values list option" where
  "bind_events c i sq [] = Some []"
| "bind_events c i sq (e # es) =
     (case bind_event c i sq e of
        None \<Rightarrow> None
      | Some v \<Rightarrow> (case bind_events c i (sq + 1) es of None \<Rightarrow> None | Some vs \<Rightarrow> Some (v # vs)))"

text \<open>
  \<open>persist\<close> moves the new events out of the entity first and counts them afterwards. \<open>exec\<close> runs
  the insert and returns the \<open>recorded_at\<close> of the inserted rows.
\<close>

definition persist ::
  "('e, 'j) event_codec \<Rightarrow> ('j event_values list \<Rightarrow> ('s, sqlx_error, timestamp list) rust) \<Rightarrow>
   'e EntityEvents \<Rightarrow> 's \<Rightarrow> ((rust_error + nat) \<times> 'e EntityEvents) \<times> 's" where
  "persist c exec self s =
     (let events = new_events self;
          self = self\<lparr> new_events := [] \<rparr>
      in if events = [] then ((Inr 0, self), s)
         else
           let sq = length (persisted_events self) + 1;
               n_persisted = length (new_events self)
           in case bind_events c (entity_id self) sq events of
                None \<Rightarrow> ((Inl (Panic ''Could not get type''), self), s)
              | Some vs \<Rightarrow>
                  (case exec vs s of
                     (Inl e, s') \<Rightarrow> ((Inl (Sqlx e), self), s')
                   | (Inr rows, s') \<Rightarrow>
                       if rows = [] then ((Inl (Panic ''Could not get recorded_at''), self), s')
                       else
                         let recorded_at = last rows
                         in ((Inr n_persisted,
                              self\<lparr> latest_event_persisted_at := Some recorded_at,
                                    entity_first_persisted_at :=
                                      (case entity_first_persisted_at self of
                                         None \<Rightarrow> Some recorded_at | Some t \<Rightarrow> Some t),
                                    persisted_events := persisted_events self @ events \<rparr>), s')))"

text \<open>\<open>batch_persist\<close>: one insert for the new events of all entities.\<close>

fun batch_values :: "('e, 'j) event_codec \<Rightarrow> 'e EntityEvents list \<Rightarrow> 'j event_values list option" where
  "batch_values c [] = Some []"
| "batch_values c (entity # es) =
     (case bind_events c (entity_id entity) (length (persisted_events entity) + 1)
             (new_events entity) of
        None \<Rightarrow> None
      | Some vs \<Rightarrow> (case batch_values c es of None \<Rightarrow> None | Some ws \<Rightarrow> Some (vs @ ws)))"

definition batch_persist ::
  "('e, 'j) event_codec \<Rightarrow> ('j event_values list \<Rightarrow> ('s, sqlx_error, timestamp list) rust) \<Rightarrow>
   'e EntityEvents list \<Rightarrow> ('s, rust_error, unit) rust" where
  "batch_persist c exec entities s =
     (case batch_values c entities of
        None \<Rightarrow> (Inl (Panic ''Could not get type''), s)
      | Some vs \<Rightarrow>
          (case exec vs s of (Inl e, s') \<Rightarrow> (Inl (Sqlx e), s') | (Inr _, s') \<Rightarrow> (Inr (), s')))"

text \<open>The two loading loops.\<close>

definition start_entity :: "'j GenericEvent \<Rightarrow> 'e EntityEvents" where
  "start_entity e =
     \<lparr> entity_first_persisted_at = Some (entity_created_at e), latest_event_persisted_at = None,
       entity_id = ge_id e, persisted_events = [], new_events = [] \<rparr>"

definition load_event ::
  "('e, 'j) event_codec \<Rightarrow> 'e EntityEvents \<Rightarrow> 'j GenericEvent \<Rightarrow> rust_error + 'e EntityEvents" where
  "load_event c cur e =
     (case from_value c (event e) of
        None \<Rightarrow> Inl (Panic ''Could not deserialize event'')
      | Some ev \<Rightarrow>
          Inr (cur\<lparr> latest_event_persisted_at := Some (event_recorded_at e),
                    persisted_events := persisted_events cur @ [ev] \<rparr>))"

fun load_first_loop ::
  "('e, 'j) event_codec \<Rightarrow> 'j GenericEvent list \<Rightarrow> 'e EntityEvents option \<Rightarrow>
   rust_error + 'e EntityEvents option" where
  "load_first_loop c [] current = Inr current"
| "load_first_loop c (e # es) current =
     (let cur = (case current of None \<Rightarrow> start_entity e | Some cur \<Rightarrow> cur)
      in if entity_id cur \<noteq> ge_id e then Inr (Some cur)
         else rbind (load_event c cur e) (\<lambda>cur. load_first_loop c es (Some cur)))"

definition load_first ::
  "('e, 'j) event_codec \<Rightarrow> ('e EntityEvents \<Rightarrow> rust_error + 'x) \<Rightarrow> 'j GenericEvent list \<Rightarrow>
   rust_error + 'x" where
  "load_first c try_from es =
     rbind (load_first_loop c es None) (\<lambda>current.
       case current of None \<Rightarrow> Inl NoEntityEventsPresent | Some cur \<Rightarrow> try_from cur)"

fun load_n_loop ::
  "('e, 'j) event_codec \<Rightarrow> ('e EntityEvents \<Rightarrow> rust_error + 'x) \<Rightarrow> nat \<Rightarrow> 'j GenericEvent list \<Rightarrow>
   'e EntityEvents option \<Rightarrow> 'x list \<Rightarrow> rust_error + 'x list \<times> bool" where
  "load_n_loop c try_from n [] current ret =
     (case current of
        None \<Rightarrow> Inr (ret, False)
      | Some cur \<Rightarrow> rbind (try_from cur) (\<lambda>x. Inr (ret @ [x], False)))"
| "load_n_loop c try_from n (e # es) current ret =
     (case current of
        None \<Rightarrow>
          rbind (load_event c (start_entity e) e) (\<lambda>cur. load_n_loop c try_from n es (Some cur) ret)
      | Some cur \<Rightarrow>
          if entity_id cur \<noteq> ge_id e
          then rbind (try_from cur) (\<lambda>x.
                 if length (ret @ [x]) = n then Inr (ret @ [x], True)
                 else rbind (load_event c (start_entity e) e) (\<lambda>cur.
                        load_n_loop c try_from n es (Some cur) (ret @ [x])))
          else rbind (load_event c cur e) (\<lambda>cur. load_n_loop c try_from n es (Some cur) ret))"

definition load_n ::
  "('e, 'j) event_codec \<Rightarrow> ('e EntityEvents \<Rightarrow> rust_error + 'x) \<Rightarrow> 'j GenericEvent list \<Rightarrow> nat \<Rightarrow>
   rust_error + 'x list \<times> bool" where
  "load_n c try_from es n = load_n_loop c try_from n es None []"

text \<open>
  The event tables: \<open>UNIQUE(id, sequence)\<close>, and \<open>id\<close> refers to the table of the entities. The
  rows of one statement get the time of the transaction.
\<close>

definition insert_events ::
  "uuid list \<Rightarrow> timestamp \<Rightarrow> 'j event_values list \<Rightarrow> 'j event_row list \<Rightarrow>
   sqlx_error + 'j event_row list" where
  "insert_events ids now vs tab =
     (let rows = map (\<lambda>(i, sq, ty, v).
             \<lparr> er_id = i, er_sequence = sq, er_event_type = ty, er_event = v,
               er_recorded_at = now \<rparr>) vs
      in if \<not> distinct (map (\<lambda>r. (er_id r, er_sequence r)) rows)
            \<or> (\<exists>r \<in> set rows. \<exists>r' \<in> set tab. er_id r = er_id r' \<and> er_sequence r = er_sequence r')
         then Inl UniqueViolation
         else if \<exists>r \<in> set rows. er_id r \<notin> set ids then Inl ForeignKeyViolation
         else Inr (tab @ rows))"

subsection \<open>Stored events\<close>

text \<open>
  The rows of one entity in an event table, the events they hold, and the invariant of an event
  table: the sequence numbers of every entity are \<open>1, 2, 3, ...\<close> in the order of insertion, and
  every row holds the JSON of an event.
\<close>

definition rows_of :: "'j event_row list \<Rightarrow> uuid \<Rightarrow> 'j event_row list" where
  "rows_of tab i = filter (\<lambda>r. er_id r = i) tab"

definition stored :: "('e, 'j) event_codec \<Rightarrow> 'j event_row list \<Rightarrow> uuid \<Rightarrow> 'e list" where
  "stored c tab i = map (\<lambda>r. the (from_value c (er_event r))) (rows_of tab i)"

definition table_ok :: "('e, 'j) event_codec \<Rightarrow> 'j event_row list \<Rightarrow> bool" where
  "table_ok c tab \<longleftrightarrow>
     (\<forall>i. map er_sequence (rows_of tab i) = map (\<lambda>k. int (Suc k)) [0..<length (rows_of tab i)]) \<and>
     (\<forall>r \<in> set tab. \<exists>e. er_event r = to_value c e)"

lemma rows_of_append [simp]: "rows_of (xs @ ys) i = rows_of xs i @ rows_of ys i"
  by (simp add: rows_of_def)

lemma length_stored [simp]: "length (stored c tab i) = length (rows_of tab i)"
  by (simp add: stored_def)

lemma rows_of_sorted: "table_ok c tab \<Longrightarrow> sort_key er_sequence (rows_of tab i) = rows_of tab i"
proof -
  assume "table_ok c tab"
  then have "map er_sequence (rows_of tab i) = map (\<lambda>k. int (Suc k)) [0..<length (rows_of tab i)]"
    by (simp add: table_ok_def)
  then have "sorted (map er_sequence (rows_of tab i))"
    by (simp add: sorted_wrt_map sorted_wrt_iff_nth_less)
  then show ?thesis
    by (rule sort_key_id_if_sorted)
qed

lemma rows_of_sequences:
  "table_ok c tab \<Longrightarrow>
   er_sequence ` set (rows_of tab i) = (\<lambda>k. int (Suc k)) ` {0..<length (rows_of tab i)}"
proof -
  assume "table_ok c tab"
  then have "map er_sequence (rows_of tab i) = map (\<lambda>k. int (Suc k)) [0..<length (rows_of tab i)]"
    by (simp add: table_ok_def)
  then have "set (map er_sequence (rows_of tab i)) =
      set (map (\<lambda>k. int (Suc k)) [0..<length (rows_of tab i)])"
    by (rule arg_cong)
  then show ?thesis
    by (simp only: set_map set_upt)
qed

subsection \<open>Inserting events\<close>

definition event_rows_of :: "timestamp \<Rightarrow> 'j event_values list \<Rightarrow> 'j event_row list" where
  "event_rows_of now vs =
     map (\<lambda>(i, sq, ty, v).
       \<lparr> er_id = i, er_sequence = sq, er_event_type = ty, er_event = v, er_recorded_at = now \<rparr>) vs"

lemma length_event_rows_of [simp]: "length (event_rows_of now vs) = length vs"
  by (simp add: event_rows_of_def)

lemma bind_events_ok:
  assumes "serde_ok c"
  obtains vs where "bind_events c i sq es = Some vs"
proof -
  have "\<exists>vs. bind_events c i sq es = Some vs"
  proof (induction es arbitrary: sq)
    case (Cons e es)
    obtain ty where "value_type c (to_value c e) = Some ty"
      using assms by (auto simp: serde_ok_def)
    moreover obtain vs where "bind_events c i (Suc sq) es = Some vs"
      using Cons by blast
    ultimately show ?case
      by (simp add: bind_event_def)
  qed simp
  then show thesis
    using that by blast
qed

lemma event_rows_of_bind:
  "bind_events c i sq es = Some vs \<Longrightarrow>
   map er_id (event_rows_of now vs) = replicate (length es) i \<and>
   map er_sequence (event_rows_of now vs) = map as_i32 [sq..<sq + length es] \<and>
   map er_event (event_rows_of now vs) = map (to_value c) es"
proof (induction es arbitrary: sq vs)
  case (Cons e es)
  then obtain ty ws where ws: "vs = (i, as_i32 sq, ty, to_value c e) # ws"
    "bind_events c i (Suc sq) es = Some ws"
    by (auto simp: bind_event_def Let_def split: option.splits)
  have "[sq..<sq + length (e # es)] = sq # [Suc sq..<Suc sq + length es]"
    by (simp add: upt_conv_Cons del: upt_Suc)
  then show ?case
    using Cons.IH [OF ws(2)] ws(1) by (simp add: event_rows_of_def)
qed (simp add: event_rows_of_def)

lemma length_bind_events: "bind_events c i sq es = Some vs \<Longrightarrow> length vs = length es"
  using event_rows_of_bind [of c i sq es vs 0] by (metis length_event_rows_of length_map)

lemma rows_of_bind:
  assumes "bind_events c i sq es = Some vs"
  shows "rows_of (event_rows_of now vs) j = (if j = i then event_rows_of now vs else [])"
proof -
  have "set (map er_id (event_rows_of now vs)) \<subseteq> {i}"
    using event_rows_of_bind [OF assms, of now] by (simp add: set_replicate_conv_if)
  then have "er_id r = i" if "r \<in> set (event_rows_of now vs)" for r
    using that by auto
  then show ?thesis
    by (auto simp: rows_of_def filter_id_conv filter_empty_conv)
qed

text \<open>
  The next events of an entity are stored behind the ones it has; an insert that starts at a
  sequence number already taken is refused.
\<close>

definition next_events ::
  "('e, 'j) event_codec \<Rightarrow> uuid \<Rightarrow> 'e list \<Rightarrow> 'j event_row list \<Rightarrow> 'j event_row list \<Rightarrow> bool" where
  "next_events c i es tab tab' \<longleftrightarrow>
     table_ok c tab' \<and> stored c tab' i = stored c tab i @ es \<and>
     (\<forall>j. j \<noteq> i \<longrightarrow> rows_of tab' j = rows_of tab j)"

lemma as_i32_upt:
  "m \<le> 2 ^ 31 \<Longrightarrow> map as_i32 [n..<m] = map int [n..<m]"
  by (auto intro!: as_i32_small)

lemma insert_next_events:
  assumes c: "serde_ok c" and tab: "table_ok c tab" and i: "i \<in> set ids"
    and small: "length (rows_of tab i) + length es < 2 ^ 31"
    and vs: "bind_events c i (Suc (length (rows_of tab i))) es = Some vs"
  shows "insert_events ids now vs tab = Inr (tab @ event_rows_of now vs)"
    and "next_events c i es tab (tab @ event_rows_of now vs)"
proof -
  let ?n = "length (rows_of tab i)" and ?rows = "event_rows_of now vs"
  note rows = event_rows_of_bind [OF vs, of now]
  have sq: "map er_sequence ?rows = map int [Suc ?n..<Suc ?n + length es]"
    using rows small by (simp add: as_i32_upt del: upt_Suc)
  have ids: "er_id r = i" if "r \<in> set ?rows" for r
    using rows_of_bind [OF vs, of now i] that by (metis (mono_tags) mem_Collect_eq rows_of_def set_filter)
  have "distinct (map er_sequence ?rows)"
    unfolding sq by (simp add: distinct_map del: upt_Suc)
  then have d: "distinct (map (\<lambda>r. (er_id r, er_sequence r)) ?rows)"
    by (auto simp: distinct_map inj_on_def)
  have new: "er_sequence r \<noteq> er_sequence r'"
    if "r \<in> set ?rows" "r' \<in> set tab" "er_id r = er_id r'" for r r'
  proof -
    have "er_sequence r \<in> int ` {Suc ?n..<Suc ?n + length es}"
      using that(1) arg_cong [OF sq, of set] by (metis imageI set_map set_upt)
    moreover have "r' \<in> set (rows_of tab i)"
      using that ids by (simp add: rows_of_def)
    then have "er_sequence r' \<in> (\<lambda>k. int (Suc k)) ` {0..<?n}"
      using rows_of_sequences [OF tab, of i] by blast
    ultimately show ?thesis
      by auto
  qed
  show "insert_events ids now vs tab = Inr (tab @ ?rows)"
    using d new ids i
    unfolding insert_events_def Let_def event_rows_of_def [symmetric] by auto
  have "map (\<lambda>r. the (from_value c (er_event r))) ?rows =
      map (\<lambda>v. the (from_value c v)) (map er_event ?rows)"
    by simp
  also have "\<dots> = es"
    using rows c by (simp add: serde_ok_def comp_def)
  finally have st: "stored c (tab @ ?rows) i = stored c tab i @ es"
    by (simp add: stored_def rows_of_bind [OF vs])
  have "map er_sequence (rows_of (tab @ ?rows) j) =
      map (\<lambda>k. int (Suc k)) [0..<length (rows_of (tab @ ?rows) j)]" for j
  proof (cases "j = i")
    case True
    have "map er_sequence (rows_of (tab @ ?rows) i) =
        map (\<lambda>k. int (Suc k)) [0..<?n] @ map int [Suc ?n..<Suc ?n + length es]"
      using tab sq by (simp add: table_ok_def rows_of_bind [OF vs] del: upt_Suc)
    also have "map int [Suc ?n..<Suc ?n + length es] = map (\<lambda>k. int (Suc k)) [?n..<?n + length es]"
      using map_Suc_upt [of ?n "?n + length es"]
      by (metis (no_types, lifting) add_Suc comp_apply map_eq_conv map_map)
    finally show ?thesis
      using True length_bind_events [OF vs] upt_add_eq_append [of 0 ?n "length es"]
      by (simp add: rows_of_bind [OF vs] del: upt_Suc)
  next
    case False
    then show ?thesis
      using tab by (simp add: table_ok_def rows_of_bind [OF vs])
  qed
  moreover have "\<exists>e. er_event r = to_value c e" if "r \<in> set ?rows" for r
  proof -
    have "er_event r \<in> set (map er_event ?rows)"
      using that by simp
    then show ?thesis
      using rows by auto
  qed
  ultimately have "table_ok c (tab @ ?rows)"
    using tab by (auto simp: table_ok_def)
  then show "next_events c i es tab (tab @ ?rows)"
    using st by (simp add: next_events_def rows_of_bind [OF vs])
qed

lemma insert_stale_events:
  assumes tab: "table_ok c tab" and n: "n < length (rows_of tab i)"
    and small: "length (rows_of tab i) < 2 ^ 31"
    and vs: "bind_events c i (Suc n) es = Some vs" and es: "es \<noteq> []"
  shows "insert_events ids now vs tab = Inl UniqueViolation"
proof -
  let ?rows = "event_rows_of now vs"
  obtain r rs where r: "?rows = r # rs"
    using length_bind_events [OF vs] es by (metis length_0_conv length_event_rows_of neq_Nil_conv)
  have "[Suc n..<Suc n + length es] = Suc n # [Suc (Suc n)..<Suc n + length es]"
    using es by (simp add: upt_conv_Cons del: upt_Suc)
  then have "er_id r = i" "er_sequence r = int (Suc n)"
    using event_rows_of_bind [OF vs, of now] es n small
    by (auto simp: r as_i32_small neq_Nil_conv simp del: upt_Suc)
  have "int (Suc n) \<in> er_sequence ` set (rows_of tab i)"
    using rows_of_sequences [OF tab, of i] n by auto
  then obtain r' where "r' \<in> set tab" "er_id r' = i" "er_sequence r' = int (Suc n)"
    by (auto simp: rows_of_def)
  then have "\<exists>r \<in> set ?rows. \<exists>r' \<in> set tab. er_id r = er_id r' \<and> er_sequence r = er_sequence r'"
    using r \<open>er_id r = i\<close> \<open>er_sequence r = int (Suc n)\<close> by auto
  then show ?thesis
    unfolding insert_events_def Let_def event_rows_of_def [symmetric] by simp
qed

subsection \<open>Loading events\<close>

text \<open>A row of the join of an entity, created at \<open>cr\<close>, with its events.\<close>

definition generic :: "timestamp \<Rightarrow> 'j event_row \<Rightarrow> 'j GenericEvent" where
  "generic cr r =
     \<lparr> ge_id = er_id r, sequence = er_sequence r, event = er_event r, entity_created_at = cr,
       event_recorded_at = er_recorded_at r \<rparr>"

definition loaded_entity ::
  "('e, 'j) event_codec \<Rightarrow> uuid \<Rightarrow> timestamp \<Rightarrow> 'j event_row list \<Rightarrow> 'e EntityEvents" where
  "loaded_entity c i cr rows =
     \<lparr> entity_first_persisted_at = Some cr,
       latest_event_persisted_at = map_option er_recorded_at (if rows = [] then None else Some (last rows)),
       entity_id = i, persisted_events = map (\<lambda>r. the (from_value c (er_event r))) rows,
       new_events = [] \<rparr>"

abbreviation decodable :: "('e, 'j) event_codec \<Rightarrow> 'j event_row list \<Rightarrow> bool" where
  "decodable c rows \<equiv> (\<forall>r \<in> set rows. from_value c (er_event r) \<noteq> None)"

lemma loaded_entity_snoc:
  "loaded_entity c i cr (rows @ [r]) =
     (loaded_entity c i cr rows)\<lparr> latest_event_persisted_at := Some (er_recorded_at r),
        persisted_events := persisted_events (loaded_entity c i cr rows) @
          [the (from_value c (er_event r))] \<rparr>"
  by (simp add: loaded_entity_def)

lemma start_entity_generic: "start_entity (generic cr r) = loaded_entity c (er_id r) cr []"
  by (simp add: start_entity_def generic_def loaded_entity_def)

lemma loaded_entity_simps [simp]:
  "entity_id (loaded_entity c i cr rows) = i"
  "persisted_events (loaded_entity c i cr rows) = map (\<lambda>r. the (from_value c (er_event r))) rows"
  "new_events (loaded_entity c i cr rows) = []"
  "entity_first_persisted_at (loaded_entity c i cr rows) = Some cr"
  by (simp_all add: loaded_entity_def)

lemma load_event_generic:
  "from_value c (er_event r) \<noteq> None \<Longrightarrow>
   load_event c (loaded_entity c i cr rows) (generic cr r) = Inr (loaded_entity c i cr (rows @ [r]))"
  by (auto simp: load_event_def generic_def loaded_entity_snoc)

lemma load_first_loop_rows:
  "decodable c rows \<Longrightarrow> \<forall>r \<in> set rows. er_id r = i \<Longrightarrow>
   load_first_loop c (map (generic cr) rows) (Some (loaded_entity c i cr rs)) =
     Inr (Some (loaded_entity c i cr (rs @ rows)))"
proof (induction rows arbitrary: rs)
  case (Cons r rows)
  then show ?case
    using Cons.IH [of "rs @ [r]"] by (simp add: load_event_generic Let_def) (simp add: generic_def)
qed simp

lemma load_first_rows:
  assumes "decodable c rows" "\<forall>r \<in> set rows. er_id r = i" "rows \<noteq> []"
  shows "load_first c try_from (map (generic cr) rows) = try_from (loaded_entity c i cr rows)"
proof -
  obtain r rs where rows: "rows = r # rs"
    using assms(3) by (cases rows) auto
  have "load_first_loop c (map (generic cr) rows) None = Inr (Some (loaded_entity c i cr rows))"
    using assms load_first_loop_rows [of rs c i cr "[r]"] load_event_generic [of c r i cr "[]"]
      start_entity_generic [of cr r c]
    by (simp add: rows Let_def) (simp add: generic_def)
  then show ?thesis
    by (simp add: load_first_def)
qed

text \<open>
  A query result that lists whole entities one after the other: \<open>(id, created_at, rows)\<close>.
\<close>

type_synonym 'j entity_group = "uuid \<times> timestamp \<times> 'j event_row list"

definition groups_ok :: "('e, 'j) event_codec \<Rightarrow> 'j entity_group list \<Rightarrow> bool" where
  "groups_ok c gs \<longleftrightarrow>
     distinct (map fst gs) \<and>
     (\<forall>(i, cr, rows) \<in> set gs. rows \<noteq> [] \<and> decodable c rows \<and> (\<forall>r \<in> set rows. er_id r = i))"

definition group_events :: "'j entity_group list \<Rightarrow> 'j GenericEvent list" where
  "group_events gs = concat (map (\<lambda>(i, cr, rows). map (generic cr) rows) gs)"

lemma load_n_loop_rows:
  "decodable c rows \<Longrightarrow> \<forall>r \<in> set rows. er_id r = i \<Longrightarrow>
   load_n_loop c try_from n (map (generic cr) rows @ es) (Some (loaded_entity c i cr rs)) ret =
     load_n_loop c try_from n es (Some (loaded_entity c i cr (rs @ rows))) ret"
proof (induction rows arbitrary: rs)
  case (Cons r rows)
  then show ?case
    using Cons.IH [of "rs @ [r]"] by (simp add: load_event_generic) (simp add: generic_def)
qed simp

lemma load_n_start:
  assumes "rows \<noteq> []" "decodable c rows" "\<forall>r \<in> set rows. er_id r = i"
  obtains r rs where "rows = r # rs" "er_id r = i"
    "start_entity (generic cr r) = loaded_entity c i cr []"
    "load_event c (loaded_entity c i cr []) (generic cr r) = Inr (loaded_entity c i cr [r])"
    "load_n_loop c try_from n (map (generic cr) rs @ es) (Some (loaded_entity c i cr [r])) ret =
       load_n_loop c try_from n es (Some (loaded_entity c i cr rows)) ret"
proof -
  obtain r rs where rows: "rows = r # rs"
    using assms(1) by (cases rows) auto
  then show thesis
    using that [OF rows] assms load_event_generic [of c r i cr "[]"]
      load_n_loop_rows [of rs c i try_from n cr es "[r]" ret] start_entity_generic [of cr r c]
    by simp
qed

lemma load_n_loop_groups:
  assumes "groups_ok c gs" "\<forall>(i, cr, rows) \<in> set gs. try_from (loaded_entity c i cr rows) = Inr (x (i, cr, rows))"
    "try_from cur = Inr x0" "\<forall>g \<in> set gs. entity_id cur \<noteq> fst g" "length ret < n"
  shows "load_n_loop c try_from n (group_events gs) (Some cur) ret =
    Inr (ret @ take (n - length ret) (x0 # map x gs), n - length ret < Suc (length gs))"
  using assms
proof (induction gs arbitrary: cur x0 ret)
  case Nil
  then show ?case
    by (cases "n - length ret") (auto simp: group_events_def)
next
  case (Cons g gs)
  obtain i cr rows where g: "g = (i, cr, rows)"
    by (cases g) auto
  have rows: "rows \<noteq> []" "decodable c rows" "\<forall>r \<in> set rows. er_id r = i"
    and gs: "groups_ok c gs" "\<forall>g \<in> set gs. i \<noteq> fst g"
    using Cons.prems(1) by (auto simp: groups_ok_def g image_iff)
  obtain r rs where r: "rows = r # rs" "er_id r = i"
    "start_entity (generic cr r) = loaded_entity c i cr []"
    "load_event c (loaded_entity c i cr []) (generic cr r) = Inr (loaded_entity c i cr [r])"
    "load_n_loop c try_from n (map (generic cr) rs @ group_events gs)
       (Some (loaded_entity c i cr [r])) (ret @ [x0]) =
     load_n_loop c try_from n (group_events gs) (Some (loaded_entity c i cr rows)) (ret @ [x0])"
    by (rule load_n_start [OF rows])
  have ev: "group_events (g # gs) = generic cr r # map (generic cr) rs @ group_events gs"
    by (simp add: group_events_def g r(1))
  have ne: "entity_id cur \<noteq> ge_id (generic cr r)"
    using Cons.prems(4) r(2) by (simp add: g generic_def)
  show ?case
  proof (cases "Suc (length ret) = n")
    case True
    then show ?thesis
      using Cons.prems(3) ne by (simp add: ev) auto
  next
    case False
    then have "n - length ret = Suc (n - length (ret @ [x0]))"
      using Cons.prems(5) by simp
    then show ?thesis
      using Cons.IH [of "loaded_entity c i cr rows" "x g" "ret @ [x0]"] Cons.prems False ne r gs
      unfolding ev by (simp add: g)
  qed
qed

lemma load_n_groups:
  assumes "groups_ok c gs" "0 < n"
    "\<forall>(i, cr, rows) \<in> set gs. try_from (loaded_entity c i cr rows) = Inr (x (i, cr, rows))"
  shows "load_n c try_from (group_events gs) n = Inr (take n (map x gs), n < length gs)"
proof (cases gs)
  case Nil
  then show ?thesis
    by (simp add: load_n_def group_events_def)
next
  case (Cons g gs')
  obtain i cr rows where g: "g = (i, cr, rows)"
    by (cases g) auto
  have rows: "rows \<noteq> []" "decodable c rows" "\<forall>r \<in> set rows. er_id r = i"
    and gs: "groups_ok c gs'" "\<forall>g \<in> set gs'. i \<noteq> fst g"
    using assms(1) by (auto simp: groups_ok_def g Cons image_iff)
  obtain r rs where r: "rows = r # rs" "er_id r = i"
    "start_entity (generic cr r) = loaded_entity c i cr []"
    "load_event c (loaded_entity c i cr []) (generic cr r) = Inr (loaded_entity c i cr [r])"
    "load_n_loop c try_from n (map (generic cr) rs @ group_events gs')
       (Some (loaded_entity c i cr [r])) [] =
     load_n_loop c try_from n (group_events gs') (Some (loaded_entity c i cr rows)) []"
    by (rule load_n_start [OF rows])
  have ev: "group_events gs = generic cr r # map (generic cr) rs @ group_events gs'"
    by (simp add: group_events_def g r(1) Cons)
  show ?thesis
    using load_n_loop_groups [OF gs(1), of try_from x "loaded_entity c i cr rows" "x g" "[]" n] assms gs r
    unfolding load_n_def ev by (simp add: Cons g)
qed

subsection \<open>A concrete codec\<close>

text \<open>Events stored as they are.\<close>

definition id_codec :: "('e, 'e) event_codec" where
  "id_codec = \<lparr> to_value = id, from_value = Some, value_type = \<lambda>_. Some ''event'' \<rparr>"

lemma id_codec_ok: "serde_ok id_codec"
  by (simp add: serde_ok_def id_codec_def)

end
