(* ===== verification/Notification_Settings.thy ===== *)
theory Notification_Settings
  imports Entity_Events
begin

text \<open>
  The notification settings of a user (\<open>core/notifications/src/user_notification_settings\<close>, with
  the handlers of \<open>core/notifications/src/app/mod.rs\<close> that change them): the event sourced
  entity, its repository over the two settings tables, and the handlers. The specification is a
  plain record of settings per user.
\<close>

subsection \<open>The entity\<close>

datatype UserNotificationChannel = Push

datatype UserNotificationCategory =
  Circles | Payments | AdminNotification | Marketing | Price | Security

type_synonym GaloyUserId = string
type_synonym GaloyLocale = string
type_synonym PushDeviceToken = string
type_synonym GaloyEmailAddress = string

definition search_begin :: GaloyUserId where
  "search_begin = ''''"

definition GaloyLocale_default :: GaloyLocale where
  "GaloyLocale_default = ''en''"

datatype UserNotificationSettingsEvent =
    Initialized uuid GaloyUserId
  | ChannelDisabled UserNotificationChannel
  | ChannelEnabled UserNotificationChannel
  | CategoryDisabled UserNotificationChannel UserNotificationCategory
  | CategoryEnabled UserNotificationChannel UserNotificationCategory
  | LocaleUpdated GaloyLocale
  | LocaleSetToDefault
  | PushDeviceTokenAdded PushDeviceToken
  | PushDeviceTokenRemoved PushDeviceToken
  | EmailAddressAdded GaloyEmailAddress
  | EmailAddressRemoved GaloyEmailAddress

record UserNotificationSettings =
  settings_id :: uuid
  galoy_user_id :: GaloyUserId
  events :: "UserNotificationSettingsEvent EntityEvents"

definition UserNotificationSettings_try_from ::
  "UserNotificationSettingsEvent EntityEvents \<Rightarrow> rust_error + UserNotificationSettings" where
  "UserNotificationSettings_try_from evs =
     (case fold (\<lambda>e builder. case e of Initialized i u \<Rightarrow> Some (i, u) | _ \<Rightarrow> builder) (iter evs) None of
        None \<Rightarrow> Inl (UninitializedFieldError ''id'')
      | Some (i, u) \<Rightarrow> Inr \<lparr> settings_id = i, galoy_user_id = u, events = evs \<rparr>)"

definition UserNotificationSettings_new ::
  "uuid \<Rightarrow> GaloyUserId \<Rightarrow> rust_error + UserNotificationSettings" where
  "UserNotificationSettings_new i u =
     (case UserNotificationSettings_try_from (EntityEvents_init i [Initialized i u]) of
        Inl _ \<Rightarrow> Inl (Panic ''Could not create default'') | Inr s \<Rightarrow> Inr s)"

definition created_at :: "UserNotificationSettings \<Rightarrow> timestamp option" where
  "created_at self = entity_first_persisted_at (events self)"

definition is_new :: "UserNotificationSettings \<Rightarrow> bool" where
  "is_new self \<longleftrightarrow> created_at self = None"

definition push_event :: "UserNotificationSettingsEvent \<Rightarrow> UserNotificationSettings \<Rightarrow> UserNotificationSettings" where
  "push_event e self = self\<lparr> events := push e (events self) \<rparr>"

definition locale_of :: "UserNotificationSettings \<Rightarrow> GaloyLocale option" where
  "locale_of self = fold (\<lambda>e ret. case e of
       LocaleUpdated l \<Rightarrow> Some l
     | LocaleSetToDefault \<Rightarrow> None
     | _ \<Rightarrow> ret) (iter (events self)) None"

definition update_locale :: "GaloyLocale \<Rightarrow> UserNotificationSettings \<Rightarrow> UserNotificationSettings" where
  "update_locale l self =
     (if locale_of self \<noteq> Some l then push_event (LocaleUpdated l) self else self)"

definition set_locale_to_default :: "UserNotificationSettings \<Rightarrow> UserNotificationSettings" where
  "set_locale_to_default self =
     (if locale_of self \<noteq> None then push_event LocaleSetToDefault self else self)"

definition is_channel_enabled :: "UserNotificationChannel \<Rightarrow> UserNotificationSettings \<Rightarrow> bool" where
  "is_channel_enabled channel self = fold (\<lambda>e acc. case e of
       ChannelDisabled c \<Rightarrow> if c = channel then False else acc
     | ChannelEnabled c \<Rightarrow> if c = channel then True else acc
     | _ \<Rightarrow> acc) (iter (events self)) True"

definition disable_channel :: "UserNotificationChannel \<Rightarrow> UserNotificationSettings \<Rightarrow> UserNotificationSettings" where
  "disable_channel channel self =
     (if \<not> is_channel_enabled channel self then self else push_event (ChannelDisabled channel) self)"

definition enable_channel :: "UserNotificationChannel \<Rightarrow> UserNotificationSettings \<Rightarrow> UserNotificationSettings" where
  "enable_channel channel self =
     (if is_channel_enabled channel self then self else push_event (ChannelEnabled channel) self)"

definition disabled_categories_for ::
  "UserNotificationChannel \<Rightarrow> UserNotificationSettings \<Rightarrow> UserNotificationCategory set" where
  "disabled_categories_for channel self = fold (\<lambda>e acc. case e of
       CategoryDisabled c category \<Rightarrow> if c = channel then insert category acc else acc
     | CategoryEnabled c category \<Rightarrow> if c = channel then acc - {category} else acc
     | _ \<Rightarrow> acc) (iter (events self)) {}"

definition disable_category ::
  "UserNotificationChannel \<Rightarrow> UserNotificationCategory \<Rightarrow> UserNotificationSettings \<Rightarrow>
   UserNotificationSettings" where
  "disable_category channel category self =
     (if category \<in> disabled_categories_for channel self then self
      else push_event (CategoryDisabled channel category) self)"

definition enable_category ::
  "UserNotificationChannel \<Rightarrow> UserNotificationCategory \<Rightarrow> UserNotificationSettings \<Rightarrow>
   UserNotificationSettings" where
  "enable_category channel category self =
     (if category \<notin> disabled_categories_for channel self then self
      else push_event (CategoryEnabled channel category) self)"

definition should_send_notification ::
  "UserNotificationChannel \<Rightarrow> UserNotificationCategory \<Rightarrow> UserNotificationSettings \<Rightarrow> bool" where
  "should_send_notification channel category self \<longleftrightarrow>
     is_channel_enabled channel self \<and> category \<notin> disabled_categories_for channel self"

definition push_device_tokens :: "UserNotificationSettings \<Rightarrow> PushDeviceToken set" where
  "push_device_tokens self = fold (\<lambda>e acc. case e of
       PushDeviceTokenAdded token \<Rightarrow> insert token acc
     | PushDeviceTokenRemoved token \<Rightarrow> acc - {token}
     | _ \<Rightarrow> acc) (iter (events self)) {}"

definition settings_add_push_device_token ::
  "PushDeviceToken \<Rightarrow> UserNotificationSettings \<Rightarrow> UserNotificationSettings" where
  "settings_add_push_device_token token self =
     (if token \<in> push_device_tokens self then self
      else push_event (PushDeviceTokenAdded token) self)"

definition settings_remove_push_device_token ::
  "PushDeviceToken \<Rightarrow> UserNotificationSettings \<Rightarrow> UserNotificationSettings" where
  "settings_remove_push_device_token token self =
     (if token \<notin> push_device_tokens self then self
      else push_event (PushDeviceTokenRemoved token) self)"

definition email_address :: "UserNotificationSettings \<Rightarrow> GaloyEmailAddress option" where
  "email_address self = fold (\<lambda>e acc. case e of
       EmailAddressAdded addr \<Rightarrow> Some addr
     | EmailAddressRemoved _ \<Rightarrow> None
     | _ \<Rightarrow> acc) (iter (events self)) None"

definition settings_update_email_address ::
  "GaloyEmailAddress \<Rightarrow> UserNotificationSettings \<Rightarrow> UserNotificationSettings" where
  "settings_update_email_address addr self =
     (case email_address self of
        None \<Rightarrow> push_event (EmailAddressAdded addr) self
      | Some existing \<Rightarrow>
          if existing = addr then self
          else push_event (EmailAddressAdded addr) (push_event (EmailAddressRemoved existing) self))"

definition settings_remove_email_address :: "UserNotificationSettings \<Rightarrow> UserNotificationSettings" where
  "settings_remove_email_address self =
     (case email_address self of
        None \<Rightarrow> self | Some addr \<Rightarrow> push_event (EmailAddressRemoved addr) self)"

subsection \<open>The repository\<close>

text \<open>
  The two tables of the settings. The repository is used with two pools; \<open>pool\<close> below selects the
  database a query reads. \<open>collate\<close> is the sort key of the database's collation of user ids.
\<close>

record settings_row =
  sr_id :: uuid
  sr_user :: GaloyUserId
  sr_created_at :: timestamp

record 'j settings_tables =
  user_notification_settings :: "settings_row list"
  user_notification_settings_events :: "'j event_row list"

type_synonym 'j settings_codec = "(UserNotificationSettingsEvent, 'j) event_codec"

definition PAGINATION_BATCH_SIZE :: nat where
  "PAGINATION_BATCH_SIZE = 1000"

text \<open>The join of the settings selected by \<open>P\<close> with their events.\<close>

definition settings_join ::
  "(settings_row \<Rightarrow> bool) \<Rightarrow> ('j, 'z) settings_tables_scheme \<Rightarrow> (settings_row \<times> 'j event_row) list" where
  "settings_join P d =
     concat (map (\<lambda>a. map (Pair a) (rows_of (user_notification_settings_events d) (sr_id a)))
       (filter P (user_notification_settings d)))"

definition settings_generic :: "settings_row \<times> 'j event_row \<Rightarrow> 'j GenericEvent" where
  "settings_generic = (\<lambda>(a, e). generic (sr_created_at a) e)"

definition find_for_user_id_inner ::
  "'j settings_codec \<Rightarrow> GaloyUserId \<Rightarrow>
   (('j, 'z) settings_tables_scheme pg \<Rightarrow> ('j, 'z) settings_tables_scheme) \<Rightarrow>
   (('j, 'z) settings_tables_scheme pg, rust_error, UserNotificationSettings) rust" where
  "find_for_user_id_inner c user_id pool =
     rs_bind (rs_map_err Sqlx (pg_select (\<lambda>db.
       map settings_generic
         (sort_key (\<lambda>(a, e). er_sequence e)
           (settings_join (\<lambda>a. sr_user a = user_id) (pool db)))))) (\<lambda>rows.
     let res = load_first c UserNotificationSettings_try_from rows
     in if res = Inl NoEntityEventsPresent
        then rs_bind new_uuid (\<lambda>i db. (UserNotificationSettings_new i user_id, db))
        else (\<lambda>db. (res, db)))"

definition find_for_user_id_for_mut where
  "find_for_user_id_for_mut c user_id = find_for_user_id_inner c user_id primary"

definition find_for_user_id where
  "find_for_user_id c user_id = find_for_user_id_inner c user_id replica"

text \<open>
  \<open>find_for_user_ids\<close>: the loaded settings in a hash map, from which each id takes its entry;
  ids without one get new settings.
\<close>

fun take_or_new ::
  "GaloyUserId list \<Rightarrow> (GaloyUserId \<rightharpoonup> UserNotificationSettings) \<Rightarrow>
   ('d pg, rust_error, UserNotificationSettings list) rust" where
  "take_or_new [] existing = rs_ok []"
| "take_or_new (u # us) existing =
     rs_bind
       (case existing u of
          Some s \<Rightarrow> rs_ok s
        | None \<Rightarrow> rs_bind new_uuid (\<lambda>i db. (UserNotificationSettings_new i u, db))) (\<lambda>s.
     rs_bind (take_or_new us (existing(u := None))) (\<lambda>ss. rs_ok (s # ss)))"

definition find_for_user_ids ::
  "'j settings_codec \<Rightarrow> (GaloyUserId \<Rightarrow> 'k::linorder) \<Rightarrow> GaloyUserId list \<Rightarrow>
   (('j, 'z) settings_tables_scheme pg, rust_error, UserNotificationSettings list) rust" where
  "find_for_user_ids c collate user_ids =
     rs_bind (rs_map_err Sqlx (pg_select (\<lambda>db.
       map settings_generic
         (sort_key (\<lambda>(a, e). collate (sr_user a))
           (sort_key (\<lambda>(a, e). er_sequence e)
             (settings_join (\<lambda>a. sr_user a \<in> set user_ids) (primary db))))))) (\<lambda>rows.
     case load_n c UserNotificationSettings_try_from rows (length user_ids) of
       Inl e \<Rightarrow> rs_err e
     | Inr (existing, _) \<Rightarrow>
         take_or_new user_ids (fold (\<lambda>s m. m(galoy_user_id s \<mapsto> s)) existing Map.empty))"

definition list_after_id ::
  "'j settings_codec \<Rightarrow> (GaloyUserId \<Rightarrow> 'k::linorder) \<Rightarrow> GaloyUserId \<Rightarrow>
   (('j, 'z) settings_tables_scheme pg, rust_error, UserNotificationSettings list \<times> bool) rust" where
  "list_after_id c collate i =
     rs_bind (rs_map_err Sqlx (pg_select (\<lambda>db.
       map settings_generic
         (take (PAGINATION_BATCH_SIZE + 1)
           (sort_key (\<lambda>(a, e). collate (sr_user a))
             (sort_key (\<lambda>(a, e). er_sequence e)
               (settings_join (\<lambda>a. collate (sr_user a) > collate i) (primary db)))))))) (\<lambda>rows.
     \<lambda>db. (load_n c UserNotificationSettings_try_from rows PAGINATION_BATCH_SIZE, db))"

text \<open>\<open>INSERT INTO user_notification_settings ... ON CONFLICT DO NOTHING\<close>\<close>

definition insert_settings ::
  "uuid \<Rightarrow> GaloyUserId \<Rightarrow> timestamp \<Rightarrow> ('j, 'z) settings_tables_scheme \<Rightarrow>
   sqlx_error + unit \<times> ('j, 'z) settings_tables_scheme" where
  "insert_settings i u t d =
     (if \<exists>r \<in> set (user_notification_settings d). sr_id r = i \<or> sr_user r = u then Inr ((), d)
      else Inr ((), d\<lparr> user_notification_settings := user_notification_settings d @
                  [\<lparr> sr_id = i, sr_user = u, sr_created_at = t \<rparr>] \<rparr>))"

definition insert_settings_events ::
  "'j event_values list \<Rightarrow> (('j, 'z) settings_tables_scheme pg, sqlx_error, timestamp list) rust" where
  "insert_settings_events vs = pg_stmt (\<lambda>t d.
     case insert_events (map sr_id (user_notification_settings d)) t vs
            (user_notification_settings_events d) of
       Inl e \<Rightarrow> Inl e
     | Inr tab \<Rightarrow>
         Inr (replicate (length vs) t, d\<lparr> user_notification_settings_events := tab \<rparr>))"

definition settings_persist_in_tx ::
  "'j settings_codec \<Rightarrow> UserNotificationSettings \<Rightarrow>
   (('j, 'z) settings_tables_scheme pg, rust_error, UserNotificationSettings) rust" where
  "settings_persist_in_tx c settings =
     rs_bind (rs_map_err Sqlx
       (pg_stmt (insert_settings (settings_id settings) (galoy_user_id settings)))) (\<lambda>_ db.
     case persist c insert_settings_events (events settings) db of
       ((Inl e, _), db') \<Rightarrow> (Inl e, db')
     | ((Inr _, evs), db') \<Rightarrow> (Inr (settings\<lparr> events := evs \<rparr>), db'))"

definition settings_persist ::
  "'j settings_codec \<Rightarrow> UserNotificationSettings \<Rightarrow>
   (('j, 'z) settings_tables_scheme pg, rust_error, UserNotificationSettings) rust" where
  "settings_persist c settings = in_tx Sqlx (settings_persist_in_tx c settings)"

definition list_ids_after ::
  "(GaloyUserId \<Rightarrow> 'k::linorder) \<Rightarrow> GaloyUserId \<Rightarrow>
   (('j, 'z) settings_tables_scheme pg, rust_error, GaloyUserId list \<times> bool) rust" where
  "list_ids_after collate i =
     rs_bind (rs_map_err Sqlx (pg_select (\<lambda>db.
       take (PAGINATION_BATCH_SIZE + 1)
         (sort_key collate
           (filter (\<lambda>u. collate u > collate i)
             (map sr_user (user_notification_settings (primary db)))))))) (\<lambda>rows.
     rs_ok (take PAGINATION_BATCH_SIZE rows, length rows > PAGINATION_BATCH_SIZE))"

end
