(* ===== verification/Email_Reminders.thy ===== *)
theory Email_Reminders
  imports Notification_Settings "HOL-Library.List_Lexorder" "HOL-Library.Char_ord" "HOL-Library.Multiset"
begin

text \<open>
  The projection behind the reminders to link an email address
  (\<open>core/notifications/src/email_reminder_projection\<close>): which users transact without an address,
  and the query that picks a page of them and marks them as notified in one statement.
\<close>

subsection \<open>The projection\<close>

record reminder_row =
  rr_user :: GaloyUserId
  user_first_seen_at :: timestamp
  last_transaction_at :: "timestamp option"
  last_notified_at :: "timestamp option"

record 'j reminder_tables = "'j settings_tables" +
  email_reminder_projection :: "reminder_row list"

record EmailReminderProjectionConfig =
  account_liveness_threshold_minutes :: int
  account_age_threshold_minutes :: int
  notification_cool_off_threshold_minutes :: int

definition EmailReminderProjectionConfig_default :: EmailReminderProjectionConfig where
  "EmailReminderProjectionConfig_default =
     \<lparr> account_liveness_threshold_minutes = 21 * 24 * 60,
       account_age_threshold_minutes = 21 * 24 * 60,
       notification_cool_off_threshold_minutes = 90 * 24 * 60 \<rparr>"

text \<open>\<open>make_interval(mins => n)\<close> on timestamps in microseconds.\<close>

definition mins :: "int \<Rightarrow> int" where
  "mins n = n * 60 * 1000000"

definition transaction_occurred_for_user_without_email ::
  "GaloyUserId \<Rightarrow> (('j, 'z) reminder_tables_scheme pg, rust_error, unit) rust" where
  "transaction_occurred_for_user_without_email u = rs_map_err Sqlx (pg_stmt (\<lambda>t d.
     Inr ((), d\<lparr> email_reminder_projection :=
       (if \<exists>r \<in> set (email_reminder_projection d). rr_user r = u
        then map (\<lambda>r. if rr_user r = u then r\<lparr> last_transaction_at := Some t \<rparr> else r)
               (email_reminder_projection d)
        else email_reminder_projection d @
               [\<lparr> rr_user = u, user_first_seen_at = t, last_transaction_at = Some t,
                  last_notified_at = None \<rparr>]) \<rparr>)))"

definition user_added_email ::
  "GaloyUserId \<Rightarrow> (('j, 'z) reminder_tables_scheme pg, rust_error, unit) rust" where
  "user_added_email u = rs_map_err Sqlx (pg_stmt (\<lambda>t d.
     Inr ((), d\<lparr> email_reminder_projection :=
       filter (\<lambda>r. rr_user r \<noteq> u) (email_reminder_projection d) \<rparr>)))"

text \<open>The condition of the query, except for the page.\<close>

definition to_notify :: "EmailReminderProjectionConfig \<Rightarrow> timestamp \<Rightarrow> reminder_row \<Rightarrow> bool" where
  "to_notify config t r \<longleftrightarrow>
     (case last_transaction_at r of
        None \<Rightarrow> False
      | Some tx_at \<Rightarrow> tx_at > t - mins (account_liveness_threshold_minutes config)) \<and>
     user_first_seen_at r < t - mins (account_age_threshold_minutes config) \<and>
     (case last_notified_at r of
        None \<Rightarrow> True
      | Some notified \<Rightarrow> notified < t - mins (notification_cool_off_threshold_minutes config))"

text \<open>
  \<open>selected_rows\<close> is the page, with one row more than its size; \<open>updated\<close> marks all of it and
  returns the ids in the order the update visits them, which the statement leaves open
  (\<open>returning\<close>).
\<close>

definition selected_rows ::
  "EmailReminderProjectionConfig \<Rightarrow> (GaloyUserId \<Rightarrow> 'k::linorder) \<Rightarrow> timestamp \<Rightarrow> GaloyUserId \<Rightarrow>
   reminder_row list \<Rightarrow> GaloyUserId list" where
  "selected_rows config collate t search_id tab =
     take (PAGINATION_BATCH_SIZE + 1)
       (sort_key collate
         (map rr_user
           (filter (\<lambda>r. collate (rr_user r) > collate search_id \<and> to_notify config t r) tab)))"

definition list_ids_to_notify_after ::
  "EmailReminderProjectionConfig \<Rightarrow> (GaloyUserId \<Rightarrow> 'k::linorder) \<Rightarrow>
   (GaloyUserId list \<Rightarrow> GaloyUserId list) \<Rightarrow> GaloyUserId \<Rightarrow>
   (('j, 'z) reminder_tables_scheme pg, rust_error, GaloyUserId list \<times> bool) rust" where
  "list_ids_to_notify_after config collate returning search_id =
     rs_bind (rs_map_err Sqlx (pg_stmt (\<lambda>t d.
       let selected = selected_rows config collate t search_id (email_reminder_projection d)
       in Inr (returning selected,
               d\<lparr> email_reminder_projection :=
                    map (\<lambda>r. if rr_user r \<in> set selected then r\<lparr> last_notified_at := Some t \<rparr> else r)
                      (email_reminder_projection d) \<rparr>)))) (\<lambda>rows.
     let more_rows = length rows > PAGINATION_BATCH_SIZE
     in rs_ok (take PAGINATION_BATCH_SIZE rows, more_rows))"

subsection \<open>A page of reminders\<close>

lemma selected_rows_subset:
  "u \<in> set (selected_rows config collate t i tab) \<Longrightarrow>
   \<exists>r \<in> set tab. rr_user r = u \<and> collate u > collate i \<and> to_notify config t r"
  unfolding selected_rows_def by (drule in_set_takeD) auto

lemma selected_rows_distinct:
  "distinct (map rr_user tab) \<Longrightarrow> distinct (selected_rows config collate t i tab)"
  unfolding selected_rows_def by (simp add: distinct_map_filter)

lemma selected_rows_length:
  "length (selected_rows config collate t i tab) =
     min (PAGINATION_BATCH_SIZE + 1)
       (length (filter (\<lambda>r. collate (rr_user r) > collate i \<and> to_notify config t r) tab))"
  by (simp add: selected_rows_def)

definition mark_notified :: "timestamp \<Rightarrow> GaloyUserId set \<Rightarrow> reminder_row list \<Rightarrow> reminder_row list" where
  "mark_notified t us tab =
     map (\<lambda>r. if rr_user r \<in> us then r\<lparr> last_notified_at := Some t \<rparr> else r) tab"

lemma list_ids_to_notify_run:
  assumes "faultless db"
  shows "list_ids_to_notify_after config collate returning i db =
    (let selected = selected_rows config collate (tx_now db) i (email_reminder_projection (primary db));
         rows = returning selected
     in (Inr (take PAGINATION_BATCH_SIZE rows, length rows > PAGINATION_BATCH_SIZE),
         db\<lparr> primary := (primary db)\<lparr> email_reminder_projection :=
           mark_notified (tx_now db) (set selected) (email_reminder_projection (primary db)) \<rparr> \<rparr>))"
  using assms
  by (simp add: list_ids_to_notify_after_def pg_stmt_run rs_bind_def rs_map_err_def rs_ok_def Let_def
      mark_notified_def)

text \<open>A user who has been marked is not picked again before the cool-off time is over.\<close>

lemma marked_not_selected:
  assumes "u \<in> us" "t' \<le> t + mins (notification_cool_off_threshold_minutes config)"
  shows "u \<notin> set (selected_rows config collate t' i (mark_notified t us tab))"
proof
  assume "u \<in> set (selected_rows config collate t' i (mark_notified t us tab))"
  then obtain r where "r \<in> set (mark_notified t us tab)" "rr_user r = u" "to_notify config t' r"
    by (blast dest: selected_rows_subset)
  then have "last_notified_at r = Some t"
    using assms(1) by (auto simp: mark_notified_def split: if_splits)
  then show False
    using \<open>to_notify config t' r\<close> assms(2) by (simp add: to_notify_def)
qed

text \<open>C40: When more users are due than fit on a page, one of them gets no reminder. The query marks one
  row more than the size of the page as notified, to learn whether there is a next page, and the
  page leaves that user out; the next page does not find the user either, nor does any page until
  the cool-off time is over, whatever the order in which the update returns the rows.
\<close>

theorem reminder_page_skips_user:
  assumes "faultless db" "\<forall>us. mset (returning us) = mset us"
    "distinct (map rr_user (email_reminder_projection (primary db)))"
    "PAGINATION_BATCH_SIZE < length (filter (\<lambda>r. collate (rr_user r) > collate i \<and>
       to_notify config (tx_now db) r) (email_reminder_projection (primary db)))"
    "list_ids_to_notify_after config collate returning i db = (res, db')"
  shows "\<exists>ids u. res = Inr (ids, True) \<and>
    (\<exists>r \<in> set (email_reminder_projection (primary db)).
       rr_user r = u \<and> collate u > collate i \<and> to_notify config (tx_now db) r) \<and>
    u \<notin> set ids \<and>
    (\<forall>t j. t \<le> tx_now db + mins (notification_cool_off_threshold_minutes config) \<longrightarrow>
       u \<notin> set (selected_rows config collate t j (email_reminder_projection (primary db'))))"
proof -
  let ?tab = "email_reminder_projection (primary db)"
  define sel where "sel = selected_rows config collate (tx_now db) i ?tab"
  define rows where "rows = returning sel"
  have m: "mset rows = mset sel"
    using assms(2) by (simp add: rows_def)
  have d: "distinct rows"
    using selected_rows_distinct [OF assms(3)] mset_eq_imp_distinct_iff [OF m] by (simp add: sel_def)
  have len: "length rows = PAGINATION_BATCH_SIZE + 1"
    using assms(4) mset_eq_length [OF m] selected_rows_length [of config collate "tx_now db" i ?tab]
    by (simp add: sel_def)
  have run: "res = Inr (take PAGINATION_BATCH_SIZE rows, True)"
    "email_reminder_projection (primary db') = mark_notified (tx_now db) (set sel) ?tab"
    using list_ids_to_notify_run [OF assms(1), of config collate returning i] assms(5) len
    by (auto simp: Let_def sel_def rows_def)
  let ?u = "rows ! PAGINATION_BATCH_SIZE"
  have u: "?u \<in> set sel"
    using len mset_eq_setD [OF m] nth_mem [of PAGINATION_BATCH_SIZE rows] by simp
  have "?u \<notin> set (take PAGINATION_BATCH_SIZE rows)"
    using d len by (auto simp: in_set_conv_nth nth_eq_iff_index_eq)
  moreover have "?u \<notin> set (selected_rows config collate t j (email_reminder_projection (primary db')))"
    if "t \<le> tx_now db + mins (notification_cool_off_threshold_minutes config)" for t j
    using marked_not_selected [OF u that] by (simp add: run)
  ultimately show ?thesis
    using run(1) selected_rows_subset [OF u [unfolded sel_def]] by blast
qed

text \<open>A thousand and one users who are due.\<close>

definition example_reminders :: "reminder_row list" where
  "example_reminders = map (\<lambda>n.
     \<lparr> rr_user = replicate (Suc n) (CHR ''u''), user_first_seen_at = - mins 40000,
       last_transaction_at = Some 0, last_notified_at = None \<rparr>) [0..<1001]"

definition reminder_db :: "unit reminder_tables pg" where
  "reminder_db = fresh_pg
     \<lparr> user_notification_settings = [], user_notification_settings_events = [],
       email_reminder_projection = example_reminders \<rparr>"

theorem reminder_page_skips_user_witness:
  "\<exists>ids u. fst (list_ids_to_notify_after EmailReminderProjectionConfig_default length id search_begin reminder_db) =
       Inr (ids, True) \<and>
     (\<exists>r \<in> set example_reminders. rr_user r = u) \<and> u \<notin> set ids"
proof -
  let ?c = EmailReminderProjectionConfig_default
  have p: "email_reminder_projection (primary reminder_db) = example_reminders" "tx_now reminder_db = 0"
    "faultless reminder_db"
    by (simp_all add: reminder_db_def)
  have "inj_on (\<lambda>n. replicate (Suc n) (CHR ''u'')) A" for A
    by (auto simp: inj_on_def dest: replicate_eq_replicate [THEN iffD1])
  then have d: "distinct (map rr_user example_reminders)"
    by (simp add: example_reminders_def comp_def distinct_map del: replicate.simps)
  have "filter (\<lambda>r. length (rr_user r) > length search_begin \<and> to_notify ?c 0 r) example_reminders = example_reminders"
    by (simp add: filter_id_conv example_reminders_def to_notify_def search_begin_def mins_def
        EmailReminderProjectionConfig_default_def)
  moreover have "PAGINATION_BATCH_SIZE < length example_reminders"
    by (simp add: example_reminders_def PAGINATION_BATCH_SIZE_def)
  ultimately show ?thesis
    using reminder_page_skips_user [of reminder_db id length search_begin ?c
        "fst (list_ids_to_notify_after ?c length id search_begin reminder_db)"
        "snd (list_ids_to_notify_after ?c length id search_begin reminder_db)"] d p
    by auto
qed

end
