(* ===== verification/Settings_Service.thy ===== *)
theory Settings_Service
  imports Email_Reminders
begin

text \<open>
  The handlers of \<open>core/notifications/src/app/mod.rs\<close> that read and change the settings of a user,
  and what the service promises: it behaves like a map from users to plain settings, a handler
  that returns an error changes nothing, and of two overlapping changes of the same settings the
  later one is refused.
\<close>

subsection \<open>Handlers\<close>

definition notification_settings_for_user where
  "notification_settings_for_user c user_id = find_for_user_id c user_id"

definition disable_channel_on_user where
  "disable_channel_on_user c user_id channel =
     rs_bind (find_for_user_id_for_mut c user_id) (\<lambda>user_settings.
     settings_persist c (disable_channel channel user_settings))"

definition enable_channel_on_user where
  "enable_channel_on_user c user_id channel =
     rs_bind (find_for_user_id_for_mut c user_id) (\<lambda>user_settings.
     settings_persist c (enable_channel channel user_settings))"

definition disable_category_on_user where
  "disable_category_on_user c user_id channel category =
     rs_bind (find_for_user_id_for_mut c user_id) (\<lambda>user_settings.
     settings_persist c (disable_category channel category user_settings))"

definition enable_category_on_user where
  "enable_category_on_user c user_id channel category =
     rs_bind (find_for_user_id_for_mut c user_id) (\<lambda>user_settings.
     settings_persist c (enable_category channel category user_settings))"

definition update_locale_on_user where
  "update_locale_on_user c user_id l =
     rs_bind (find_for_user_id_for_mut c user_id) (\<lambda>user_settings.
     settings_persist c
       (if l = [] then set_locale_to_default user_settings else update_locale l user_settings))"

definition add_push_device_token where
  "add_push_device_token c user_id device_token =
     rs_bind (find_for_user_id_for_mut c user_id) (\<lambda>user_settings.
     settings_persist c (settings_add_push_device_token device_token user_settings))"

definition remove_push_device_token where
  "remove_push_device_token c user_id device_token =
     rs_bind (find_for_user_id_for_mut c user_id) (\<lambda>user_settings.
     settings_persist c (settings_remove_push_device_token device_token user_settings))"

definition update_email_address ::
  "'j settings_codec \<Rightarrow> GaloyUserId \<Rightarrow> GaloyEmailAddress \<Rightarrow>
   (('j, 'z) reminder_tables_scheme pg, rust_error, unit) rust" where
  "update_email_address c user_id addr =
     rs_bind (find_for_user_id_for_mut c user_id) (\<lambda>user_settings.
     in_tx Sqlx
       (rs_bind (settings_persist_in_tx c (settings_update_email_address addr user_settings)) (\<lambda>_.
        user_added_email user_id)))"

definition remove_email_address where
  "remove_email_address c user_id =
     rs_bind (find_for_user_id_for_mut c user_id) (\<lambda>user_settings.
     rs_bind (settings_persist c (settings_remove_email_address user_settings)) (\<lambda>_. rs_ok ()))"

subsection \<open>Specification: plain settings\<close>

record settings_view =
  view_locale :: "GaloyLocale option"
  view_disabled_channels :: "UserNotificationChannel set"
  view_disabled_categories :: "(UserNotificationChannel \<times> UserNotificationCategory) set"
  view_tokens :: "PushDeviceToken set"
  view_email :: "GaloyEmailAddress option"

definition default_view :: settings_view where
  "default_view =
     \<lparr> view_locale = None, view_disabled_channels = {}, view_disabled_categories = {},
       view_tokens = {}, view_email = None \<rparr>"

definition view_of :: "UserNotificationSettings \<Rightarrow> settings_view" where
  "view_of s =
     \<lparr> view_locale = locale_of s,
       view_disabled_channels = {c. \<not> is_channel_enabled c s},
       view_disabled_categories = {(c, k). k \<in> disabled_categories_for c s},
       view_tokens = push_device_tokens s,
       view_email = email_address s \<rparr>"

datatype settings_command =
    DisableChannel UserNotificationChannel
  | EnableChannel UserNotificationChannel
  | DisableCategory UserNotificationChannel UserNotificationCategory
  | EnableCategory UserNotificationChannel UserNotificationCategory
  | UpdateLocale GaloyLocale
  | AddPushDeviceToken PushDeviceToken
  | RemovePushDeviceToken PushDeviceToken
  | UpdateEmailAddress GaloyEmailAddress
  | RemoveEmailAddress

fun spec_command :: "settings_command \<Rightarrow> settings_view \<Rightarrow> settings_view" where
  "spec_command (DisableChannel c) v =
     v\<lparr> view_disabled_channels := insert c (view_disabled_channels v) \<rparr>"
| "spec_command (EnableChannel c) v =
     v\<lparr> view_disabled_channels := view_disabled_channels v - {c} \<rparr>"
| "spec_command (DisableCategory c k) v =
     v\<lparr> view_disabled_categories := insert (c, k) (view_disabled_categories v) \<rparr>"
| "spec_command (EnableCategory c k) v =
     v\<lparr> view_disabled_categories := view_disabled_categories v - {(c, k)} \<rparr>"
| "spec_command (UpdateLocale l) v = v\<lparr> view_locale := (if l = [] then None else Some l) \<rparr>"
| "spec_command (AddPushDeviceToken t) v = v\<lparr> view_tokens := insert t (view_tokens v) \<rparr>"
| "spec_command (RemovePushDeviceToken t) v = v\<lparr> view_tokens := view_tokens v - {t} \<rparr>"
| "spec_command (UpdateEmailAddress a) v = v\<lparr> view_email := Some a \<rparr>"
| "spec_command RemoveEmailAddress v = v\<lparr> view_email := None \<rparr>"

text \<open>The change a command makes to the entity, and the handler it calls.\<close>

fun entity_command :: "settings_command \<Rightarrow> UserNotificationSettings \<Rightarrow> UserNotificationSettings" where
  "entity_command (DisableChannel c) = disable_channel c"
| "entity_command (EnableChannel c) = enable_channel c"
| "entity_command (DisableCategory c k) = disable_category c k"
| "entity_command (EnableCategory c k) = enable_category c k"
| "entity_command (UpdateLocale l) = (if l = [] then set_locale_to_default else update_locale l)"
| "entity_command (AddPushDeviceToken t) = settings_add_push_device_token t"
| "entity_command (RemovePushDeviceToken t) = settings_remove_push_device_token t"
| "entity_command (UpdateEmailAddress a) = settings_update_email_address a"
| "entity_command RemoveEmailAddress = settings_remove_email_address"

fun handle_command ::
  "'j settings_codec \<Rightarrow> GaloyUserId \<Rightarrow> settings_command \<Rightarrow>
   (('j, 'z) reminder_tables_scheme pg, rust_error, unit) rust" where
  "handle_command c u (DisableChannel ch) = rs_bind (disable_channel_on_user c u ch) (\<lambda>_. rs_ok ())"
| "handle_command c u (EnableChannel ch) = rs_bind (enable_channel_on_user c u ch) (\<lambda>_. rs_ok ())"
| "handle_command c u (DisableCategory ch k) =
     rs_bind (disable_category_on_user c u ch k) (\<lambda>_. rs_ok ())"
| "handle_command c u (EnableCategory ch k) =
     rs_bind (enable_category_on_user c u ch k) (\<lambda>_. rs_ok ())"
| "handle_command c u (UpdateLocale l) = rs_bind (update_locale_on_user c u l) (\<lambda>_. rs_ok ())"
| "handle_command c u (AddPushDeviceToken t) = rs_bind (add_push_device_token c u t) (\<lambda>_. rs_ok ())"
| "handle_command c u (RemovePushDeviceToken t) =
     rs_bind (remove_push_device_token c u t) (\<lambda>_. rs_ok ())"
| "handle_command c u (UpdateEmailAddress a) = update_email_address c u a"
| "handle_command c u RemoveEmailAddress = remove_email_address c u"

text \<open>A sequence of requests, with their outcomes.\<close>

fun handle_commands ::
  "'j settings_codec \<Rightarrow> (GaloyUserId \<times> settings_command) list \<Rightarrow>
   ('j, 'z) reminder_tables_scheme pg \<Rightarrow>
   (rust_error + unit) list \<times> ('j, 'z) reminder_tables_scheme pg" where
  "handle_commands c [] db = ([], db)"
| "handle_commands c ((u, cmd) # cmds) db =
     (let (r, db) = handle_command c u cmd db; (rs, db) = handle_commands c cmds db
      in (r # rs, db))"

definition spec_commands ::
  "(GaloyUserId \<times> settings_command) list \<Rightarrow> (GaloyUserId \<Rightarrow> settings_view) \<Rightarrow> GaloyUserId \<Rightarrow> settings_view" where
  "spec_commands cmds m = fold (\<lambda>(u, cmd) m. m(u := spec_command cmd (m u))) cmds m"

subsection \<open>The entity implements the specification\<close>

lemmas entity_ops =
  disable_channel_def enable_channel_def disable_category_def enable_category_def
  set_locale_to_default_def update_locale_def settings_add_push_device_token_def
  settings_remove_push_device_token_def settings_update_email_address_def
  settings_remove_email_address_def

lemmas entity_reads =
  locale_of_def is_channel_enabled_def disabled_categories_for_def push_device_tokens_def
  email_address_def

lemma iter_push_event [simp]: "iter (events (push_event e s)) = iter (events s) @ [e]"
  by (simp add: push_event_def push_def iter_def)

lemma push_event_simps [simp]:
  "settings_id (push_event e s) = settings_id s"
  "galoy_user_id (push_event e s) = galoy_user_id s"
  "persisted_events (events (push_event e s)) = persisted_events (events s)"
  "new_events (events (push_event e s)) = new_events (events s) @ [e]"
  "entity_id (events (push_event e s)) = entity_id (events s)"
  "entity_first_persisted_at (events (push_event e s)) = entity_first_persisted_at (events s)"
  by (simp_all add: push_event_def push_def)

lemma view_push_event:
  "view_of (push_event e s) = (case e of
     ChannelDisabled c \<Rightarrow> (view_of s)\<lparr> view_disabled_channels := insert c (view_disabled_channels (view_of s)) \<rparr>
   | ChannelEnabled c \<Rightarrow> (view_of s)\<lparr> view_disabled_channels := view_disabled_channels (view_of s) - {c} \<rparr>
   | CategoryDisabled c k \<Rightarrow>
       (view_of s)\<lparr> view_disabled_categories := insert (c, k) (view_disabled_categories (view_of s)) \<rparr>
   | CategoryEnabled c k \<Rightarrow>
       (view_of s)\<lparr> view_disabled_categories := view_disabled_categories (view_of s) - {(c, k)} \<rparr>
   | LocaleUpdated l \<Rightarrow> (view_of s)\<lparr> view_locale := Some l \<rparr>
   | LocaleSetToDefault \<Rightarrow> (view_of s)\<lparr> view_locale := None \<rparr>
   | PushDeviceTokenAdded t \<Rightarrow> (view_of s)\<lparr> view_tokens := insert t (view_tokens (view_of s)) \<rparr>
   | PushDeviceTokenRemoved t \<Rightarrow> (view_of s)\<lparr> view_tokens := view_tokens (view_of s) - {t} \<rparr>
   | EmailAddressAdded a \<Rightarrow> (view_of s)\<lparr> view_email := Some a \<rparr>
   | EmailAddressRemoved a \<Rightarrow> (view_of s)\<lparr> view_email := None \<rparr>
   | _ \<Rightarrow> view_of s)"
  by (cases e) (auto simp: view_of_def entity_reads split: if_splits)

lemma view_eqI:
  "view_locale v = view_locale w \<Longrightarrow> view_disabled_channels v = view_disabled_channels w \<Longrightarrow>
   view_disabled_categories v = view_disabled_categories w \<Longrightarrow> view_tokens v = view_tokens w \<Longrightarrow>
   view_email v = view_email w \<Longrightarrow> v = (w :: settings_view)"
  by (cases v; cases w) simp

lemma reads_view:
  "locale_of s = view_locale (view_of s)"
  "is_channel_enabled c s \<longleftrightarrow> c \<notin> view_disabled_channels (view_of s)"
  "k \<in> disabled_categories_for c s \<longleftrightarrow> (c, k) \<in> view_disabled_categories (view_of s)"
  "push_device_tokens s = view_tokens (view_of s)"
  "email_address s = view_email (view_of s)"
  by (simp_all add: view_of_def)

text \<open>Every operation of the entity acts on the plain settings as its specification says.\<close>

lemma entity_command_view: "view_of (entity_command cmd s) = spec_command cmd (view_of s)"
  by (cases cmd)
    (auto simp: entity_ops view_push_event reads_view intro!: view_eqI split: option.splits)

text \<open>A command adds at most two events, none of which initialises the entity again.\<close>

fun is_init :: "UserNotificationSettingsEvent \<Rightarrow> bool" where
  "is_init (Initialized _ _) = True"
| "is_init _ = False"

lemma entity_command_shape:
  obtains es where "length es \<le> 2" "\<forall>e \<in> set es. \<not> is_init e"
    "entity_command cmd s = fold push_event es s"
proof -
  have "\<exists>es. length es \<le> 2 \<and> (\<forall>e \<in> set es. \<not> is_init e) \<and>
      entity_command cmd s = fold push_event es s"
    if "entity_command cmd s = s \<or> (\<exists>e. \<not> is_init e \<and> entity_command cmd s = push_event e s)
      \<or> (\<exists>e f. \<not> is_init e \<and> \<not> is_init f \<and> entity_command cmd s = push_event f (push_event e s))"
  proof -
    from that consider "entity_command cmd s = s"
      | e where "\<not> is_init e" "entity_command cmd s = push_event e s"
      | e f where "\<not> is_init e" "\<not> is_init f" "entity_command cmd s = push_event f (push_event e s)"
      by blast
    then show ?thesis
    proof cases
      case 1
      then show ?thesis by (intro exI [of _ "[]"]) simp
    next
      case (2 e)
      then show ?thesis by (intro exI [of _ "[e]"]) simp
    next
      case (3 e f)
      then show ?thesis by (intro exI [of _ "[e, f]"]) simp
    qed
  qed
  moreover have "entity_command cmd s = s \<or> (\<exists>e. \<not> is_init e \<and> entity_command cmd s = push_event e s)
      \<or> (\<exists>e f. \<not> is_init e \<and> \<not> is_init f \<and> entity_command cmd s = push_event f (push_event e s))"
    by (cases cmd) (simp_all add: entity_ops split: option.split; metis is_init.simps)+
  ultimately show thesis
    using that by blast
qed

lemma fold_push_event [simp]:
  "settings_id (fold push_event es s) = settings_id s"
  "galoy_user_id (fold push_event es s) = galoy_user_id s"
  "persisted_events (events (fold push_event es s)) = persisted_events (events s)"
  "new_events (events (fold push_event es s)) = new_events (events s) @ es"
  "entity_id (events (fold push_event es s)) = entity_id (events s)"
  by (induction es arbitrary: s) simp_all

subsection \<open>The stored settings\<close>

text \<open>
  The invariant of the two tables: one row per user, every stored event belongs to a row, and
  the events of a row start with its initialisation. The settings the tables stand for.
\<close>

abbreviation (input) evs_of where "evs_of d \<equiv> user_notification_settings_events d"
abbreviation (input) rows_in where "rows_in d \<equiv> user_notification_settings d"

definition settings_ok :: "'j settings_codec \<Rightarrow> ('j, 'z) settings_tables_scheme \<Rightarrow> bool" where
  "settings_ok c d \<longleftrightarrow>
     table_ok c (evs_of d) \<and> distinct (map sr_id (rows_in d)) \<and> distinct (map sr_user (rows_in d)) \<and>
     (\<forall>r \<in> set (evs_of d). er_id r \<in> sr_id ` set (rows_in d)) \<and>
     (\<forall>a \<in> set (rows_in d). \<exists>es. (\<forall>e \<in> set es. \<not> is_init e) \<and>
        stored c (evs_of d) (sr_id a) = Initialized (sr_id a) (sr_user a) # es)"

definition row_for :: "('j, 'z) settings_tables_scheme \<Rightarrow> GaloyUserId \<Rightarrow> settings_row option" where
  "row_for d u = List.find (\<lambda>a. sr_user a = u) (rows_in d)"

definition view_events :: "UserNotificationSettingsEvent list \<Rightarrow> settings_view" where
  "view_events es = view_of
     \<lparr> settings_id = '''', galoy_user_id = '''', events = EntityEvents_init '''' es \<rparr>"

definition user_view :: "'j settings_codec \<Rightarrow> ('j, 'z) settings_tables_scheme \<Rightarrow> GaloyUserId \<Rightarrow> settings_view" where
  "user_view c d u =
     (case row_for d u of
        None \<Rightarrow> default_view | Some a \<Rightarrow> view_events (stored c (evs_of d) (sr_id a)))"

lemma view_of_events: "view_of s = view_events (iter (events s))"
  by (simp add: view_events_def view_of_def entity_reads) (simp add: EntityEvents_init_def iter_def)

lemma view_events_init: "view_events [Initialized i u] = default_view"
  by (simp add: view_events_def view_of_def entity_reads default_view_def EntityEvents_init_def iter_def)

lemma settings_ok_row:
  assumes "settings_ok c d" "a \<in> set (rows_in d)"
  obtains es where "\<forall>e \<in> set es. \<not> is_init e"
    "stored c (evs_of d) (sr_id a) = Initialized (sr_id a) (sr_user a) # es"
  using assms unfolding settings_ok_def by blast

lemma row_for_Some: "row_for d u = Some a \<Longrightarrow> a \<in> set (rows_in d) \<and> sr_user a = u"
  unfolding row_for_def by (metis (mono_tags, lifting) find_Some_iff nth_mem)

lemma row_for_None: "row_for d u = None \<longleftrightarrow> u \<notin> sr_user ` set (rows_in d)"
  by (auto simp: row_for_def find_None_iff)

lemma row_for_unique:
  "distinct (map sr_user (rows_in d)) \<Longrightarrow> a \<in> set (rows_in d) \<Longrightarrow> row_for d (sr_user a) = Some a"
  by (metis (no_types, lifting) distinct_map image_eqI inj_onD not_Some_eq row_for_None row_for_Some)

text \<open>What a session holds after it looked up the settings of a user.\<close>

definition session_of ::
  "'j settings_codec \<Rightarrow> ('j, 'z) settings_tables_scheme \<Rightarrow> GaloyUserId \<Rightarrow> UserNotificationSettings \<Rightarrow> bool" where
  "session_of c d u s \<longleftrightarrow>
     galoy_user_id s = u \<and> entity_id (events s) = settings_id s \<and>
     (case row_for d u of
        Some a \<Rightarrow>
          settings_id s = sr_id a \<and> new_events (events s) = [] \<and>
          persisted_events (events s) = stored c (evs_of d) (sr_id a)
      | None \<Rightarrow>
          persisted_events (events s) = [] \<and> new_events (events s) = [Initialized (settings_id s) u] \<and>
          settings_id s \<notin> sr_id ` set (rows_in d))"

lemma session_view: "session_of c d u s \<Longrightarrow> view_of s = user_view c d u"
  by (auto simp: session_of_def user_view_def view_of_events iter_def view_events_init split: option.splits)

subsection \<open>Looking settings up\<close>

lemma settings_join_user:
  assumes "distinct (map sr_user (rows_in d))"
  shows "settings_join (\<lambda>a. sr_user a = u) d =
    (case row_for d u of None \<Rightarrow> [] | Some a \<Rightarrow> map (Pair a) (rows_of (evs_of d) (sr_id a)))"
proof -
  have "filter (\<lambda>a. sr_user a = u) xs =
      (case List.find (\<lambda>a. sr_user a = u) xs of None \<Rightarrow> [] | Some a \<Rightarrow> [a])"
    if "distinct (map sr_user xs)" for xs
    using that
    by (induction xs) (auto simp: filter_empty_conv image_iff find_Some_iff split: option.splits)
  from this [OF assms] show ?thesis
    by (simp add: settings_join_def row_for_def split: option.split)
qed

lemma no_init_fold:
  "\<forall>e \<in> set es. \<not> is_init e \<Longrightarrow>
   fold (\<lambda>e builder. case e of Initialized i u \<Rightarrow> Some (i, u) | _ \<Rightarrow> builder) es b = b"
proof (induction es arbitrary: b)
  case (Cons e es)
  then show ?case
    by (cases e) simp_all
qed simp

lemma try_from_ok:
  "iter evs = Initialized i u # es \<Longrightarrow> \<forall>e \<in> set es. \<not> is_init e \<Longrightarrow>
   UserNotificationSettings_try_from evs = Inr \<lparr> settings_id = i, galoy_user_id = u, events = evs \<rparr>"
  by (simp add: UserNotificationSettings_try_from_def no_init_fold)

lemma settings_new_ok:
  "UserNotificationSettings_new i u =
     Inr \<lparr> settings_id = i, galoy_user_id = u, events = EntityEvents_init i [Initialized i u] \<rparr>"
  using try_from_ok [of "EntityEvents_init i [Initialized i u]" i u "[]"]
  by (simp add: UserNotificationSettings_new_def EntityEvents_init_def iter_def)

lemma decodable_rows: "serde_ok c \<Longrightarrow> table_ok c tab \<Longrightarrow> decodable c (rows_of tab i)"
  by (auto simp: table_ok_def serde_ok_def rows_of_def)

lemma load_settings:
  assumes c: "serde_ok c" and ok: "settings_ok c d" and a: "row_for d u = Some a"
  shows "load_first c UserNotificationSettings_try_from
      (map settings_generic (sort_key (\<lambda>(a, e). er_sequence e)
        (settings_join (\<lambda>a. sr_user a = u) d))) =
    Inr \<lparr> settings_id = sr_id a, galoy_user_id = u,
          events = loaded_entity c (sr_id a) (sr_created_at a) (rows_of (evs_of d) (sr_id a)) \<rparr>"
proof -
  let ?rows = "rows_of (evs_of d) (sr_id a)"
  have tab: "table_ok c (evs_of d)" and u: "distinct (map sr_user (rows_in d))"
    using ok by (auto simp: settings_ok_def)
  obtain es where es: "stored c (evs_of d) (sr_id a) = Initialized (sr_id a) u # es"
    "\<forall>e \<in> set es. \<not> is_init e"
    using ok row_for_Some [OF a] by (auto simp: settings_ok_def)
  have "sorted (map (\<lambda>(a, e). er_sequence e) (map (Pair a) ?rows))"
    using rows_of_sorted [OF tab, of "sr_id a"] sorted_sort_key [of er_sequence ?rows]
    by (simp add: comp_def)
  then have "sort_key (\<lambda>(a, e). er_sequence e) (map (Pair a) ?rows) = map (Pair a) ?rows"
    by (rule sort_key_id_if_sorted)
  then have "map settings_generic (sort_key (\<lambda>(a, e). er_sequence e)
      (settings_join (\<lambda>a. sr_user a = u) d)) = map (generic (sr_created_at a)) ?rows"
    by (simp add: settings_join_user [OF u] a settings_generic_def comp_def)
  moreover have "?rows \<noteq> []"
    using es(1) by (auto simp: stored_def)
  moreover have "\<forall>r \<in> set ?rows. er_id r = sr_id a"
    by (simp add: rows_of_def)
  ultimately have "load_first c UserNotificationSettings_try_from
      (map settings_generic (sort_key (\<lambda>(a, e). er_sequence e)
        (settings_join (\<lambda>a. sr_user a = u) d))) =
      UserNotificationSettings_try_from (loaded_entity c (sr_id a) (sr_created_at a) ?rows)"
    using load_first_rows decodable_rows [OF c tab] by metis
  also have "\<dots> = Inr \<lparr> settings_id = sr_id a, galoy_user_id = u,
      events = loaded_entity c (sr_id a) (sr_created_at a) ?rows \<rparr>"
    using es by (intro try_from_ok [of _ _ _ es]) (simp_all add: iter_def stored_def)
  finally show ?thesis .
qed

text \<open>The next identifier to be drawn is not in use.\<close>

definition fresh_uuids :: "('j, 'z) settings_tables_scheme pg \<Rightarrow> bool" where
  "fresh_uuids db \<longleftrightarrow>
     inj (uuids db) \<and> (\<forall>k \<ge> drawn db. uuids db k \<notin> sr_id ` set (rows_in (primary db)))"

lemma find_cases:
  assumes run: "find_for_user_id_for_mut c u db = (r, db')"
    and c: "serde_ok c" and ok: "settings_ok c (primary db)" and new: "fresh_uuids db"
  obtains (fault) "r = Inl (Sqlx ConnectionFailed)" "\<not> faultless db" "primary db' = primary db"
      "same_session db db'" "fresh_uuids db'"
    | (found) s where "r = Inr s" "session_of c (primary db) u s" "primary db' = primary db"
      "same_session db db'" "fresh_uuids db'"
      "\<forall>k \<ge> drawn db'. uuids db k \<noteq> settings_id s"
      "row_for (primary db) u = None \<longrightarrow> (\<exists>k \<ge> drawn db. settings_id s = uuids db k)"
proof -
  let ?sel = "\<lambda>db. map settings_generic (sort_key (\<lambda>(a, e). er_sequence e)
      (settings_join (\<lambda>a. sr_user a = u) (primary db)))"
  obtain x s1 where sel: "pg_select ?sel db = (x, s1)"
    by (cases "pg_select ?sel db")
  note defs = find_for_user_id_for_mut_def find_for_user_id_inner_def
  from sel show thesis
  proof (cases rule: pg_select_cases)
    case fault
    then have "r = Inl (Sqlx ConnectionFailed)" "db' = s1"
      using run sel by (simp_all add: defs rs_bind_def rs_map_err_def)
    moreover have "fresh_uuids s1"
      using new fault by (simp add: fresh_uuids_def same_session_def)
    ultimately show ?thesis
      using fault that(1) by simp
  next
    case s1: ok
    have new1: "fresh_uuids s1"
      using new s1 by (simp add: fresh_uuids_def same_session_def)
    show ?thesis
    proof (cases "row_for (primary db) u")
      case None
      then have "?sel db = []"
        using ok by (simp add: settings_join_user settings_ok_def)
      then have "x = Inr []"
        using s1(1) by simp
      then have r: "r = Inr \<lparr> settings_id = uuids s1 (drawn s1), galoy_user_id = u,
            events = EntityEvents_init (uuids s1 (drawn s1)) [Initialized (uuids s1 (drawn s1)) u] \<rparr>"
        and db': "db' = s1\<lparr> drawn := Suc (drawn s1) \<rparr>"
        using run sel
        by (simp_all add: defs rs_bind_def rs_map_err_def load_first_def new_uuid_def settings_new_ok)
      have "uuids s1 (drawn s1) \<notin> sr_id ` set (rows_in (primary db))"
        using new1 s1 by (simp add: fresh_uuids_def)
      then have "session_of c (primary db) u (projr r)"
        by (simp add: r session_of_def None EntityEvents_init_def)
      moreover have "fresh_uuids db'"
        using new1 by (simp add: db' fresh_uuids_def)
      moreover have "\<forall>k \<ge> drawn db'. uuids db k \<noteq> uuids s1 (drawn s1)"
        using new s1(3) by (auto simp: db' fresh_uuids_def same_session_def inj_eq)
      moreover have "same_session db db'" "\<exists>k \<ge> drawn db. uuids s1 (drawn s1) = uuids db k"
        using s1 by (auto simp: db' same_session_def)
      ultimately show ?thesis
        using that(2) [of "projr r"] s1 r by (simp add: db')
    next
      case (Some a)
      note ld = load_settings [OF c ok Some]
      have "r = Inr \<lparr> settings_id = sr_id a, galoy_user_id = u,
          events = loaded_entity c (sr_id a) (sr_created_at a)
            (rows_of (evs_of (primary db)) (sr_id a)) \<rparr>" and db': "db' = s1"
        using run sel s1(1) ld by (simp_all add: defs rs_bind_def rs_map_err_def)
      moreover have "\<forall>k \<ge> drawn db. uuids db k \<noteq> sr_id a"
        using new row_for_Some [OF Some] by (auto simp: fresh_uuids_def)
      ultimately show ?thesis
        using that(2) [of "projr r"] s1 new1 row_for_Some [OF Some]
        by (simp add: session_of_def Some stored_def)
    qed
  qed
qed

subsection \<open>Saving settings\<close>

text \<open>The row a session writes, unless its user already has one.\<close>

definition row_added :: "('j, 'z) settings_tables_scheme \<Rightarrow> uuid \<Rightarrow> GaloyUserId \<Rightarrow> timestamp \<Rightarrow> settings_row list" where
  "row_added d i u t =
     (if row_for d u = None then rows_in d @ [\<lparr> sr_id = i, sr_user = u, sr_created_at = t \<rparr>]
      else rows_in d)"

lemma session_row:
  assumes "session_of c d u s"
  shows "insert_settings (settings_id s) u t d =
    Inr ((), d\<lparr> user_notification_settings := row_added d (settings_id s) u t \<rparr>)"
proof (cases "row_for d u")
  case None
  then have "settings_id s \<notin> sr_id ` set (rows_in d)" "u \<notin> sr_user ` set (rows_in d)"
    using assms row_for_None [of d u] by (simp_all add: session_of_def)
  then have "\<not> (\<exists>r \<in> set (rows_in d). sr_id r = settings_id s \<or> sr_user r = u)"
    by force
  then show ?thesis
    using None by (simp add: insert_settings_def row_added_def)
next
  case (Some a)
  then show ?thesis
    using row_for_Some [OF Some] by (auto simp: insert_settings_def row_added_def)
qed

lemma session_id_row: "session_of c d u s \<Longrightarrow> settings_id s \<in> sr_id ` set (row_added d (settings_id s) u t)"
  by (auto simp: session_of_def row_added_def split: option.splits dest: row_for_Some)

lemma session_no_rows:
  assumes "settings_ok c d" "session_of c d u s" "row_for d u = None"
  shows "rows_of (evs_of d) (settings_id s) = []"
proof -
  have "\<forall>r \<in> set (evs_of d). er_id r \<in> sr_id ` set (rows_in d)"
    using assms(1) by (simp add: settings_ok_def)
  moreover have "settings_id s \<notin> sr_id ` set (rows_in d)"
    using assms(2,3) by (simp add: session_of_def)
  ultimately show ?thesis
    unfolding rows_of_def filter_empty_conv by metis
qed

lemma session_length:
  assumes "settings_ok c d" "session_of c d u s"
  shows "length (persisted_events (events s)) = length (rows_of (evs_of d) (settings_id s))"
proof (cases "row_for d u")
  case None
  then have "rows_of (evs_of d) (settings_id s) = []"
    using assms by (intro session_no_rows)
  then show ?thesis
    using assms(2) None by (simp add: session_of_def)
next
  case (Some a)
  then show ?thesis
    using assms(2) by (simp add: session_of_def)
qed

text \<open>
  \<open>saves c d u s d'\<close>: the session of \<open>u\<close> over the tables \<open>d\<close> has reached \<open>s\<close> by adding events,
  and \<open>d'\<close> holds its row and its new events.
\<close>

definition saves ::
  "'j settings_codec \<Rightarrow> ('j, 'z) settings_tables_scheme \<Rightarrow> GaloyUserId \<Rightarrow> UserNotificationSettings \<Rightarrow>
   ('j, 'z) settings_tables_scheme \<Rightarrow> bool" where
  "saves c d u s d' \<longleftrightarrow>
     settings_ok c d \<and>
     (\<exists>s0 es t. session_of c d u s0 \<and> s = fold push_event es s0 \<and> (\<forall>e \<in> set es. \<not> is_init e) \<and>
        rows_in d' = row_added d (settings_id s) u t) \<and>
     next_events c (settings_id s) (new_events (events s)) (evs_of d) (evs_of d')"

lemma savesE:
  assumes "saves c d u s d'"
  obtains s0 es t where "settings_ok c d" "session_of c d u s0" "s = fold push_event es s0"
    "\<forall>e \<in> set es. \<not> is_init e" "settings_id s = settings_id s0"
    "rows_in d' = row_added d (settings_id s) u t"
    "stored c (evs_of d') (settings_id s) = stored c (evs_of d) (settings_id s) @ new_events (events s)"
    "\<And>j. j \<noteq> settings_id s \<Longrightarrow> rows_of (evs_of d') j = rows_of (evs_of d) j"
    "table_ok c (evs_of d')"
  using assms by (auto simp: saves_def next_events_def)

lemma saves_iter: "saves c d u s d' \<Longrightarrow> stored c (evs_of d') (settings_id s) = iter (events s)"
proof (erule savesE)
  fix s0 es t
  assume ok: "settings_ok c d" and s0: "session_of c d u s0" and s: "s = fold push_event es s0"
    and i0: "settings_id s = settings_id s0"
    and st: "stored c (evs_of d') (settings_id s) =
      stored c (evs_of d) (settings_id s) @ new_events (events s)"
  show ?thesis
  proof (cases "row_for d u")
    case None
    then have "stored c (evs_of d) (settings_id s) = []"
      using session_no_rows [OF ok s0] by (simp add: i0 stored_def)
    then show ?thesis
      using s0 None unfolding st by (simp add: iter_def session_of_def s)
  next
    case (Some a)
    then show ?thesis
      using s0 unfolding st by (simp add: iter_def session_of_def s)
  qed
qed

lemma saves_row:
  assumes "saves c d u s d'"
  obtains a where "row_for d' u = Some a" "sr_id a = settings_id s" "sr_user a = u"
  using assms
proof (rule savesE)
  fix s0 es t
  assume s0: "session_of c d u s0" and i0: "settings_id s = settings_id s0"
    and rows: "rows_in d' = row_added d (settings_id s) u t"
  show thesis
  proof (cases "row_for d u")
    case None
    then have "row_for d' u = Some \<lparr> sr_id = settings_id s, sr_user = u, sr_created_at = t \<rparr>"
      using rows by (simp add: row_added_def row_for_def find_append)
    then show ?thesis
      using that by simp
  next
    case (Some a)
    then show ?thesis
      using s0 rows that [of a] row_for_Some [OF Some]
      by (simp add: row_for_def row_added_def session_of_def i0)
  qed
qed

lemma saves_other_row: "saves c d u s d' \<Longrightarrow> v \<noteq> u \<Longrightarrow> row_for d' v = row_for d v"
  by (erule savesE) (simp add: row_for_def row_added_def find_append split: option.split)

lemma saves_other_id:
  assumes "saves c d u s d'" "a \<in> set (rows_in d)" "sr_user a \<noteq> u"
  shows "sr_id a \<noteq> settings_id s"
  using assms(1)
proof (rule savesE)
  fix s0 es t
  assume ok: "settings_ok c d" and s0: "session_of c d u s0"
    and i0: "settings_id s = settings_id s0"
  show ?thesis
  proof (cases "row_for d u")
    case None
    then have "settings_id s \<notin> sr_id ` set (rows_in d)"
      using s0 by (simp add: session_of_def i0)
    then show ?thesis
      using assms(2) by (metis imageI)
  next
    case (Some b)
    then have "sr_id b = settings_id s" "b \<in> set (rows_in d)" "sr_user b = u"
      using s0 row_for_Some [OF Some] by (simp_all add: session_of_def i0)
    moreover have "inj_on sr_id (set (rows_in d))"
      using ok by (simp add: settings_ok_def distinct_map)
    ultimately show ?thesis
      using assms(2,3) by (metis inj_onD)
  qed
qed

lemma saves_other_stored:
  assumes "saves c d u s d'" "a \<in> set (rows_in d)" "sr_user a \<noteq> u"
  shows "stored c (evs_of d') (sr_id a) = stored c (evs_of d) (sr_id a)"
  using assms(1) by (rule savesE) (use saves_other_id [OF assms] in \<open>simp add: stored_def\<close>)

text \<open>Only the settings of the user change.\<close>

lemma saves_view:
  assumes "saves c d u s d'"
  shows "user_view c d' = (user_view c d)(u := view_of s)"
proof
  fix v
  show "user_view c d' v = ((user_view c d)(u := view_of s)) v"
  proof (cases "v = u")
    case True
    obtain a where "row_for d' u = Some a" "sr_id a = settings_id s"
      using saves_row [OF assms] .
    then show ?thesis
      using True saves_iter [OF assms] view_of_events [of s] by (simp add: user_view_def)
  next
    case False
    then show ?thesis
      using saves_other_row [OF assms False] saves_other_stored [OF assms] row_for_Some [of d v]
      by (auto simp: user_view_def split: option.split)
  qed
qed

text \<open>The tables stay well formed.\<close>

lemma saves_distinct:
  assumes "saves c d u s d'"
  shows "distinct (map sr_id (rows_in d')) \<and> distinct (map sr_user (rows_in d'))"
  using assms
proof (rule savesE)
  fix s0 es t
  assume ok: "settings_ok c d" and s0: "session_of c d u s0"
    and i0: "settings_id s = settings_id s0"
    and rows: "rows_in d' = row_added d (settings_id s) u t"
  show ?thesis
    using ok s0 row_for_None [of d u]
    by (auto simp: rows row_added_def session_of_def i0 settings_ok_def split: option.splits)
qed

lemma saves_foreign_key:
  assumes "saves c d u s d'" "r \<in> set (evs_of d')"
  shows "er_id r \<in> sr_id ` set (rows_in d')"
  using assms(1)
proof (rule savesE)
  fix s0 es t
  assume ok: "settings_ok c d" and s0: "session_of c d u s0"
    and i0: "settings_id s = settings_id s0"
    and rows: "rows_in d' = row_added d (settings_id s) u t"
    and other: "\<And>j. j \<noteq> settings_id s \<Longrightarrow> rows_of (evs_of d') j = rows_of (evs_of d) j"
  show ?thesis
  proof (cases "er_id r = settings_id s")
    case True
    then show ?thesis
      using session_id_row [OF s0, of t] rows i0 by simp
  next
    case False
    then have "r \<in> set (rows_of (evs_of d) (er_id r))"
      using other [OF False] assms(2) by (metis (mono_tags, lifting) mem_Collect_eq rows_of_def set_filter)
    then have "er_id r \<in> sr_id ` set (rows_in d)"
      using ok by (simp add: rows_of_def settings_ok_def)
    then show ?thesis
      using rows by (auto simp: row_added_def)
  qed
qed

lemma saves_init:
  assumes "saves c d u s d'"
  shows "\<exists>es. (\<forall>e \<in> set es. \<not> is_init e) \<and>
    stored c (evs_of d') (settings_id s) = Initialized (settings_id s) u # es"
  using assms
proof (rule savesE)
  fix s0 es t
  assume ok: "settings_ok c d" and s0: "session_of c d u s0" and s: "s = fold push_event es s0"
    and es: "\<forall>e \<in> set es. \<not> is_init e" and i0: "settings_id s = settings_id s0"
  show ?thesis
  proof (cases "row_for d u")
    case None
    have "iter (events s) = Initialized (settings_id s) u # es"
      using s0 None by (simp add: iter_def session_of_def s)
    then show ?thesis
      using es saves_iter [OF assms] by simp
  next
    case (Some a)
    then obtain es0 where "\<forall>e \<in> set es0. \<not> is_init e"
      "stored c (evs_of d) (sr_id a) = Initialized (sr_id a) u # es0"
      using settings_ok_row [OF ok] row_for_Some [OF Some] by metis
    moreover have "settings_id s = sr_id a" "iter (events s) = stored c (evs_of d) (sr_id a) @ es"
      using s0 Some by (simp_all add: session_of_def i0 s iter_def)
    ultimately show ?thesis
      using es saves_iter [OF assms] by (intro exI [of _ "es0 @ es"]) auto
  qed
qed

lemma saves_ok:
  assumes "saves c d u s d'"
  shows "settings_ok c d'"
proof -
  have "\<exists>es. (\<forall>e \<in> set es. \<not> is_init e) \<and>
      stored c (evs_of d') (sr_id a) = Initialized (sr_id a) (sr_user a) # es"
    if a: "a \<in> set (rows_in d')" for a
  proof (cases "sr_user a = u")
    case True
    have "row_for d' (sr_user a) = Some a"
      using saves_distinct [OF assms] a by (blast intro: row_for_unique)
    then have "sr_id a = settings_id s"
      using saves_row [OF assms] True by (metis option.inject)
    then show ?thesis
      using saves_init [OF assms] True by simp
  next
    case False
    then have "a \<in> set (rows_in d)"
      using a assms by (elim savesE) (auto simp: row_added_def split: if_splits)
    then show ?thesis
      using False assms saves_other_stored [OF assms] settings_ok_row by (metis saves_def)
  qed
  moreover have "table_ok c (evs_of d')"
    using assms by (rule savesE)
  ultimately show ?thesis
    using saves_distinct [OF assms] saves_foreign_key [OF assms] by (simp add: settings_ok_def)
qed

lemma next_events_nil: "table_ok c tab \<Longrightarrow> next_events c i [] tab tab"
  by (simp add: next_events_def)

lemma rows_of_length: "length (rows_of tab i) \<le> length tab"
  by (simp add: rows_of_def)

lemma session_new_events:
  "session_of c d u s0 \<Longrightarrow> s = fold push_event es s0 \<Longrightarrow> length (new_events (events s)) \<le> Suc (length es)"
  by (auto simp: session_of_def split: option.splits)

text \<open>The insert of the new events succeeds over the tables the session was read from.\<close>

lemma insert_session_events:
  assumes c: "serde_ok c" and ok: "settings_ok c d" and s0: "session_of c d u s0"
    and s: "s = fold push_event es s0" "\<forall>e \<in> set es. \<not> is_init e"
    and bound: "length (evs_of d) + length es + 1 < 2 ^ 31"
    and d': "rows_in d' = row_added d (settings_id s) u t" "evs_of d' = evs_of d"
    and vs: "bind_events c (settings_id s) (Suc (length (persisted_events (events s))))
      (new_events (events s)) = Some vs"
  shows "\<exists>tab. insert_events (map sr_id (rows_in d')) t' vs (evs_of d') = Inr tab \<and>
    next_events c (settings_id s) (new_events (events s)) (evs_of d) tab \<and>
    length tab \<le> length (evs_of d) + length es + 1"
proof -
  have len: "length (persisted_events (events s)) = length (rows_of (evs_of d) (settings_id s))"
    using session_length [OF ok s0] by (simp add: s)
  have n: "length (new_events (events s)) \<le> Suc (length es)"
    using session_new_events [OF s0 s(1)] .
  have "settings_id s \<in> set (map sr_id (rows_in d'))"
    using session_id_row [OF s0, of t] by (simp add: d' s)
  moreover have "length (rows_of (evs_of d) (settings_id s)) + length (new_events (events s)) < 2 ^ 31"
    using bound n rows_of_length [of "evs_of d" "settings_id s"] by linarith
  moreover have "table_ok c (evs_of d)"
    using ok by (simp add: settings_ok_def)
  moreover have "length vs = length (new_events (events s))"
    using vs by (rule length_bind_events)
  ultimately show ?thesis
    using insert_next_events [OF c, of "evs_of d" "settings_id s" "map sr_id (rows_in d')"
        "new_events (events s)" vs] vs n
    unfolding len d'(2) by simp
qed

lemma persist_in_tx_cases:
  assumes run: "settings_persist_in_tx c s db = (r, db')"
    and c: "serde_ok c" and ok: "settings_ok c (primary db)"
    and s0: "session_of c (primary db) u s0"
    and s: "s = fold push_event es s0" "\<forall>e \<in> set es. \<not> is_init e"
    and bound: "length (evs_of (primary db)) + length es + 1 < 2 ^ 31"
  obtains (fault) "r = Inl (Sqlx ConnectionFailed)" "\<not> faultless db" "same_session db db'"
    | (saved) s' where "r = Inr s'" "saves c (primary db) u s (primary db')" "same_session db db'"
      "drawn db' = drawn db"
      "length (evs_of (primary db')) \<le> length (evs_of (primary db)) + length es + 1"
proof -
  let ?i = "settings_id s" and ?d = "primary db"
  have u: "galoy_user_id s = u" "entity_id (events s) = ?i"
    using s0 by (simp_all add: session_of_def s)
  have row: "insert_settings ?i u t ?d =
      Inr ((), ?d\<lparr> user_notification_settings := row_added ?d ?i u t \<rparr>)" for t
    using session_row [OF s0] by (simp add: s)
  obtain x s1 where ins: "pg_stmt (insert_settings ?i u) db = (x, s1)"
    by (cases "pg_stmt (insert_settings ?i u) db")
  from ins show thesis
  proof (cases rule: pg_stmt_cases)
    case fault
    then show ?thesis
      using run ins u that(1) by (auto simp: settings_persist_in_tx_def rs_bind_def rs_map_err_def)
  next
    case (error e)
    then show ?thesis
      by (simp add: row)
  next
    case (ok y d1)
    have d1: "d1 = ?d\<lparr> user_notification_settings := row_added ?d ?i u (tx_now db) \<rparr>"
      using ok(1) by (simp add: row)
    have rest: "(r, db') = (case persist c insert_settings_events (events s) s1 of
        ((Inl e, _), db') \<Rightarrow> (Inl e, db') | ((Inr _, evs), db') \<Rightarrow> (Inr (s\<lparr> events := evs \<rparr>), db'))"
      using run ins ok(2) u by (simp add: settings_persist_in_tx_def rs_bind_def rs_map_err_def)
    have saves: "saves c ?d u s d'"
      if "rows_in d' = row_added ?d ?i u (tx_now db)"
        "next_events c ?i (new_events (events s)) (evs_of ?d) (evs_of d')" for d'
      using that s0 s assms(3) unfolding saves_def by blast
    show ?thesis
    proof (cases "new_events (events s) = []")
      case True
      have "table_ok c (evs_of ?d)"
        using assms(3) by (simp add: settings_ok_def)
      then have "saves c ?d u s (primary s1)"
        using saves [of "primary s1"] ok(3) True by (simp add: d1 next_events_nil)
      then show ?thesis
        using rest True ok that(2) by (auto simp: persist_def Let_def d1)
    next
      case False
      obtain vs where vs: "bind_events c ?i (Suc (length (persisted_events (events s))))
          (new_events (events s)) = Some vs"
        using bind_events_ok [OF c] .
      have "rows_in d1 = row_added ?d ?i u (tx_now db)" "evs_of d1 = evs_of ?d"
        by (simp_all add: d1)
      then obtain tab where tab: "insert_events (map sr_id (rows_in d1)) (tx_now s1) vs (evs_of d1) = Inr tab"
        "next_events c ?i (new_events (events s)) (evs_of ?d) tab"
        "length tab \<le> length (evs_of ?d) + length es + 1"
        using insert_session_events [OF c assms(3) s0 s bound _ _ vs] by metis
      obtain z s2 where z: "insert_settings_events vs s1 = (z, s2)"
        by (cases "insert_settings_events vs s1")
      have ne: "vs \<noteq> []"
        using length_bind_events [OF vs] False by auto
      from z [unfolded insert_settings_events_def] show ?thesis
      proof (cases rule: pg_stmt_cases)
        case fault
        have "same_session db s2"
          using ok(4) fault(4) same_session_trans by blast
        moreover have "\<not> faultless db"
          using fault(2) ok(4) by (auto simp: same_session_def)
        ultimately show ?thesis
          using that(1) rest False vs z fault by (auto simp: persist_def Let_def u)
      next
        case (error e)
        then show ?thesis
          using tab(1) ok(3) by simp
      next
        case ok2: (ok y2 d2)
        have d2: "d2 = d1\<lparr> user_notification_settings_events := tab \<rparr>" "y2 = replicate (length vs) (tx_now s1)"
          using ok2(1) tab(1) ok(3) by simp_all
        have "saves c ?d u s (primary s2)"
          using saves [of "primary s2"] ok2(3) tab(2) by (simp add: d2 d1)
        moreover have "same_session db s2"
          using ok(4) ok2(4) same_session_trans by blast
        moreover obtain s' where "r = Inr s'" "db' = s2"
          using rest False vs z ok2(2) ne by (auto simp: persist_def Let_def u d2)
        ultimately show ?thesis
          using that(2) [of s'] tab(3) ok(5) ok2(3,5) by (simp add: d2)
      qed
    qed
  qed
qed

subsection \<open>The outcome of a handler\<close>

definition after_command ::
  "settings_command \<Rightarrow> GaloyUserId \<Rightarrow> (('j, 'z) reminder_tables_scheme pg, rust_error, unit) rust" where
  "after_command cmd u =
     (case cmd of UpdateEmailAddress _ \<Rightarrow> user_added_email u | _ \<Rightarrow> rs_ok ())"

lemma bind_in_tx_unit: "rs_bind (in_tx w m) (\<lambda>_. rs_ok ()) = in_tx w (rs_bind m (\<lambda>_. rs_ok ()))"
  by (rule ext) (auto simp: in_tx_def rs_bind_def rs_ok_def rs_map_err_def split: prod.splits sum.splits)

lemma rs_bind_assoc: "rs_bind (rs_bind m f) g = rs_bind m (\<lambda>a. rs_bind (f a) g)"
  by (rule ext) (auto simp: rs_bind_def split: prod.splits sum.splits)

text \<open>All handlers have one shape.\<close>

lemma handle_command_eq:
  "handle_command c u cmd =
     rs_bind (find_for_user_id_for_mut c u) (\<lambda>s.
     in_tx Sqlx (rs_bind (settings_persist_in_tx c (entity_command cmd s)) (\<lambda>_. after_command cmd u)))"
  by (cases cmd)
    (simp_all add: disable_channel_on_user_def enable_channel_on_user_def disable_category_on_user_def
      enable_category_on_user_def update_locale_on_user_def add_push_device_token_def
      remove_push_device_token_def update_email_address_def remove_email_address_def
      settings_persist_def rs_bind_assoc bind_in_tx_unit after_command_def if_distrib [of "\<lambda>f. f _"])

lemma after_command_cases:
  assumes "after_command cmd u db = (r, db')"
  obtains (fault) "r = Inl (Sqlx ConnectionFailed)" "\<not> faultless db" "same_session db db'"
    | (ok) "r = Inr ()" "same_session db db'" "drawn db' = drawn db"
      "rows_in (primary db') = rows_in (primary db)" "evs_of (primary db') = evs_of (primary db)"
proof (cases "\<exists>a. cmd = UpdateEmailAddress a")
  case True
  then obtain x s1 where s1: "pg_stmt (\<lambda>t d. Inr ((), d\<lparr> email_reminder_projection :=
      filter (\<lambda>r. rr_user r \<noteq> u) (email_reminder_projection d) \<rparr>)) db = (x, s1)"
    by (meson surj_pair)
  then have "after_command cmd u db = (case x of Inl e \<Rightarrow> (Inl (Sqlx e), s1) | Inr a \<Rightarrow> (Inr a, s1))"
    using True by (auto simp: after_command_def user_added_email_def rs_map_err_def)
  moreover from s1 have "x = Inl ConnectionFailed \<and> \<not> faultless db \<and> same_session db s1 \<or>
      x = Inr () \<and> same_session db s1 \<and> drawn s1 = drawn db \<and>
      rows_in (primary s1) = rows_in (primary db) \<and> evs_of (primary s1) = evs_of (primary db)"
    by (cases rule: pg_stmt_cases) auto
  ultimately show ?thesis
    using assms that by auto
next
  case False
  then have "after_command cmd u db = rs_ok () db"
    by (auto simp: after_command_def split: settings_command.split)
  then show ?thesis
    using assms that(2) by (auto simp: rs_ok_def)
qed

lemma saves_fresh:
  assumes "saves c (primary db) u s (primary db')" "fresh_uuids db" "same_session db db'"
    "\<forall>k \<ge> drawn db. uuids db k \<noteq> settings_id s"
  shows "fresh_uuids db'"
proof -
  have "sr_id ` set (rows_in (primary db')) \<subseteq> insert (settings_id s) (sr_id ` set (rows_in (primary db)))"
    using assms(1) by (rule savesE) (auto simp: row_added_def)
  then show ?thesis
    using assms(2-4) unfolding fresh_uuids_def same_session_def by (metis (no_types) insertE le_trans subsetD)
qed

lemma settings_tables_cong:
  assumes "rows_in d' = rows_in d" "evs_of d' = evs_of d"
  shows "settings_ok c d' = settings_ok c d" "user_view c d' = user_view c d" "saves c e u s d' = saves c e u s d"
  using assms
  by (simp_all add: settings_ok_def user_view_def [abs_def] row_for_def saves_def cong: option.case_cong)

text \<open>The transaction of a handler.\<close>

lemma command_body:
  assumes run: "rs_bind (settings_persist_in_tx c s) (\<lambda>_. after_command cmd u) a = (y, b)"
    and c: "serde_ok c" and ok: "settings_ok c (primary a)"
    and s0: "session_of c (primary a) u s0"
    and s: "s = fold push_event es s0" "\<forall>e \<in> set es. \<not> is_init e" "length es \<le> 2"
    and bound: "length (evs_of (primary a)) + 3 < 2 ^ 31"
  shows "y = Inl (Sqlx ConnectionFailed) \<and> \<not> faultless a \<and> same_session a b \<or>
    y = Inr () \<and> saves c (primary a) u s (primary b) \<and> same_session a b \<and>
    length (evs_of (primary b)) \<le> length (evs_of (primary a)) + 3"
proof -
  obtain z m where m: "settings_persist_in_tx c s a = (z, m)"
    by (meson surj_pair)
  have "length (evs_of (primary a)) + length es + 1 < 2 ^ 31"
    using bound s(3) by simp
  from m c ok s0 s(1,2) this show ?thesis
  proof (cases rule: persist_in_tx_cases)
    case fault
    then show ?thesis
      using run m by (auto simp: rs_bind_def)
  next
    case (saved s')
    then have "after_command cmd u m = (y, b)"
      using run m by (simp add: rs_bind_def)
    then show ?thesis
    proof (cases rule: after_command_cases)
      case fault
      moreover have "same_session a b"
        using saved(3) fault(3) by (rule same_session_trans)
      ultimately show ?thesis
        using saved(3) by (auto simp: same_session_def)
    next
      case ok
      have "same_session a b"
        using saved(3) ok(2) by (rule same_session_trans)
      then show ?thesis
        using saved s(3) ok settings_tables_cong(3) [OF ok(4,5)] by simp
    qed
  qed
qed

lemma fresh_mono:
  "fresh_uuids db \<Longrightarrow> primary db' = primary db \<Longrightarrow> same_session db db' \<Longrightarrow> fresh_uuids db'"
  by (auto simp: fresh_uuids_def same_session_def)

lemma handle_command_cases:
  assumes run: "handle_command c u cmd db = (r, db')"
    and c: "serde_ok c" and ok: "settings_ok c (primary db)" and new: "fresh_uuids db"
    and bound: "length (evs_of (primary db)) + 3 < 2 ^ 31"
  obtains (failed) "r = Inl (Sqlx ConnectionFailed)" "\<not> faultless db" "primary db' = primary db"
      "same_session db db'" "fresh_uuids db'"
    | (handled) "r = Inr ()" "settings_ok c (primary db')" "same_session db db'" "fresh_uuids db'"
      "user_view c (primary db') =
         (user_view c (primary db))(u := spec_command cmd (user_view c (primary db) u))"
      "length (evs_of (primary db')) \<le> length (evs_of (primary db)) + 3"
proof -
  obtain x s1 where find: "find_for_user_id_for_mut c u db = (x, s1)"
    by (meson surj_pair)
  from find c ok new show thesis
  proof (cases rule: find_cases)
    case fault
    then show ?thesis
      using run find that(1) by (auto simp: handle_command_eq rs_bind_def)
  next
    case (found s)
    obtain es where es: "length es \<le> 2" "\<forall>e \<in> set es. \<not> is_init e"
      "entity_command cmd s = fold push_event es s"
      by (rule entity_command_shape)
    let ?s = "entity_command cmd s"
    let ?body = "rs_bind (settings_persist_in_tx c ?s) (\<lambda>_. after_command cmd u)"
    have tx: "in_tx Sqlx ?body s1 = (r, db')"
      using run find found(1) by (simp add: handle_command_eq rs_bind_def)
    have body: "y = Inl (Sqlx ConnectionFailed) \<and> \<not> faultless a \<and> same_session a b \<or>
        y = Inr () \<and> saves c (primary db) u ?s (primary b) \<and> same_session a b \<and>
        length (evs_of (primary b)) \<le> length (evs_of (primary db)) + 3"
      if "?body a = (y, b)" "primary a = primary db" for a b y
      using command_body [OF that(1) c _ _ es(3,2,1)] ok found(2) that(2) bound by simp
    have keep: "\<forall>a b y. ?body a = (y, b) \<longrightarrow> primary a = primary s1 \<longrightarrow> same_session s1 a \<longrightarrow> same_session a b"
      using body found(3) by metis
    have trans: "same_session db db'" if "same_session s1 db'"
      using found(4) that by (rule same_session_trans)
    have nf: "\<not> faultless db" if "\<not> faultless a" "same_session s1 a" for a
      using that found(4) by (auto simp: same_session_def)
    from tx keep show ?thesis
    proof (cases rule: in_tx_cases)
      case fault
      then show ?thesis
        using that(1) trans nf [of s1] found fresh_mono [of s1 db'] by simp
    next
      case (error e a b)
      then show ?thesis
        using that(1) trans nf [of a] body [OF error(1)] found fresh_mono [of s1 db'] by simp
    next
      case (ok y a b)
      have y: "y = ()" "saves c (primary db) u ?s (primary db')"
        "length (evs_of (primary db')) \<le> length (evs_of (primary db)) + 3"
        using body [OF ok(1)] ok(2,6) found(3) by simp_all
      have "view_of ?s = spec_command cmd (user_view c (primary db) u)"
        using session_view [OF found(2)] by (simp add: entity_command_view)
      moreover have "fresh_uuids db'"
        using saves_fresh [of c s1 u ?s db'] y(2) found ok(7) es(3) by (auto simp: same_session_def)
      ultimately show ?thesis
        using that(2) y saves_ok [OF y(2)] saves_view [OF y(2)] ok(5,7) trans by simp
    qed
  qed
qed

lemma handle_commands_view:
  assumes "handle_commands c cmds db = (rs, db')" "serde_ok c" "settings_ok c (primary db)"
    "fresh_uuids db" "length (evs_of (primary db)) + 3 * length cmds < 2 ^ 31"
  shows "settings_ok c (primary db') \<and> fresh_uuids db' \<and> same_session db db' \<and>
    length rs = length cmds \<and>
    user_view c (primary db') =
      spec_commands (map fst (filter (\<lambda>(cmd, r). r = Inr ()) (zip cmds rs))) (user_view c (primary db)) \<and>
    (\<forall>r \<in> set rs. r = Inr () \<or> r = Inl (Sqlx ConnectionFailed) \<and> \<not> faultless db)"
  using assms
proof (induction cmds arbitrary: db rs)
  case Nil
  then show ?case
    by (simp add: spec_commands_def)
next
  case (Cons ucmd cmds)
  obtain u cmd where ucmd: "ucmd = (u, cmd)"
    by (cases ucmd) auto
  obtain r db1 rs' where r: "handle_command c u cmd db = (r, db1)"
    and rs': "handle_commands c cmds db1 = (rs', db')" and rs: "rs = r # rs'"
    using Cons.prems(1) by (auto simp: ucmd Let_def split: prod.splits)
  have b: "length (evs_of (primary db)) + 3 < 2 ^ 31"
    using Cons.prems(5) by simp
  from r Cons.prems(2-4) b show ?case
  proof (cases rule: handle_command_cases)
    case failed
    then show ?thesis
      using Cons.IH [OF rs'] Cons.prems rs ucmd same_session_trans [of db db1 db'] by auto
  next
    case handled
    have "faults db1 = []" if "faultless db"
      using that handled(3) by (simp add: same_session_def)
    moreover have "spec_commands ((u, cmd) # xs) m = spec_commands xs (m(u := spec_command cmd (m u)))" for xs m
      by (simp add: spec_commands_def)
    ultimately show ?thesis
      using Cons.IH [OF rs'] Cons.prems rs ucmd handled same_session_trans [of db db1 db']
      by (auto simp: fun_upd_def)
  qed
qed

text \<open>C27: The settings service is equivalent to a map from users to plain settings. For every sequence
  of requests, and wherever the connection to the database fails, the stored settings afterwards
  are the ones obtained by applying the requests that were answered with success, in order, to
  the plain settings (and no request of a user touches the settings of another); a request fails
  only when the connection does, and then changes nothing; and what is read for a user afterwards
  shows these settings. The event tables stay well formed.
\<close>

theorem settings_service_equivalence:
  assumes "handle_commands c cmds db = (rs, db')" "serde_ok c" "settings_ok c (primary db)"
    "fresh_uuids db" "length (evs_of (primary db)) + 3 * length cmds < 2 ^ 31"
  shows "user_view c (primary db') =
      spec_commands (map fst (filter (\<lambda>(cmd, r). r = Inr ()) (zip cmds rs))) (user_view c (primary db)) \<and>
    (\<forall>r \<in> set rs. r = Inr () \<or> r = Inl (Sqlx ConnectionFailed) \<and> \<not> faultless db) \<and>
    (\<forall>u s db''. find_for_user_id_for_mut c u db' = (Inr s, db'') \<longrightarrow>
       view_of s = user_view c (primary db') u) \<and>
    settings_ok c (primary db')"
proof -
  note all = handle_commands_view [OF assms]
  have "view_of s = user_view c (primary db') u" if "find_for_user_id_for_mut c u db' = (Inr s, db'')"
    for u s db''
    using find_cases [OF that assms(2), of "view_of s = user_view c (primary db') u"] all
    by (auto simp: session_view)
  then show ?thesis
    using all by blast
qed

text \<open>A database without users.\<close>

definition no_settings :: "'j reminder_tables" where
  "no_settings =
     \<lparr> user_notification_settings = [], user_notification_settings_events = [],
       email_reminder_projection = [] \<rparr>"

lemma no_settings_ok: "settings_ok c no_settings"
  by (simp add: settings_ok_def no_settings_def table_ok_def rows_of_def)

lemma fresh_pg_ok: "rows_in d = [] \<Longrightarrow> fresh_uuids (fresh_pg d)"
  by (auto simp: fresh_uuids_def fresh_pg_def inj_def)

lemma handle_commands_length: "handle_commands c cmds db = (rs, db') \<Longrightarrow> length rs = length cmds"
  by (induction cmds arbitrary: db rs) (auto simp: Let_def split: prod.splits)

theorem settings_service_equivalence_witness:
  "let (rs, db') = handle_commands id_codec
      [(''alice'', DisableChannel Push), (''bob'', UpdateLocale ''es''),
       (''alice'', UpdateEmailAddress ''alice@bank'')] (fresh_pg no_settings)
   in user_view id_codec (primary db') ''alice'' =
        default_view\<lparr> view_disabled_channels := {Push}, view_email := Some ''alice@bank'' \<rparr> \<and>
      user_view id_codec (primary db') ''bob'' = default_view\<lparr> view_locale := Some ''es'' \<rparr>"
proof -
  let ?cmds = "[(''alice'', DisableChannel Push), (''bob'', UpdateLocale ''es''),
    (''alice'', UpdateEmailAddress ''alice@bank'')]"
  obtain rs db' where run: "handle_commands id_codec ?cmds (fresh_pg no_settings) = (rs, db')"
    by (meson surj_pair)
  let ?d = "no_settings :: UserNotificationSettingsEvent reminder_tables"
  have p: "primary (fresh_pg ?d) = ?d" "faultless (fresh_pg ?d)" "evs_of ?d = []"
    by (simp_all add: fresh_pg_def no_settings_def)
  have "fresh_uuids (fresh_pg ?d)"
    by (simp add: fresh_pg_ok no_settings_def)
  then have "user_view id_codec (primary db') =
      spec_commands (map fst (filter (\<lambda>(cmd, r). r = Inr ()) (zip ?cmds rs))) (user_view id_codec no_settings)"
    and "\<forall>r \<in> set rs. r = Inr ()"
    using settings_service_equivalence [OF run id_codec_ok] no_settings_ok [of id_codec]
    by (simp_all add: p)
  moreover obtain r1 r2 r3 where "rs = [r1, r2, r3]"
    using handle_commands_length [OF run] by (auto simp: length_Suc_conv)
  moreover have "user_view id_codec no_settings u = default_view" for u
    by (simp add: user_view_def row_for_def no_settings_def)
  ultimately show ?thesis
    unfolding run by (simp add: spec_commands_def) (simp add: default_view_def)
qed

subsection \<open>Overlapping changes\<close>

text \<open>Saving when the user has a row and the insert of the events is refused.\<close>

lemma settings_persist_refused:
  assumes c: "serde_ok c" and nf: "faultless db"
    and row: "galoy_user_id s \<in> sr_user ` set (rows_in (primary db))"
    and new: "new_events (events s) \<noteq> []"
    and ins: "\<And>vs. bind_events c (entity_id (events s)) (Suc (length (persisted_events (events s))))
        (new_events (events s)) = Some vs \<Longrightarrow>
      insert_events (map sr_id (rows_in (primary db))) (tx_now db) vs (evs_of (primary db)) = Inl e"
  shows "settings_persist c s db = (Inl (Sqlx e), db)"
proof -
  obtain vs where vs: "bind_events c (entity_id (events s)) (Suc (length (persisted_events (events s))))
      (new_events (events s)) = Some vs"
    using bind_events_ok [OF c] .
  have "insert_settings (settings_id s) (galoy_user_id s) t (primary db) = Inr ((), primary db)" for t
    using row by (auto simp: insert_settings_def)
  then have "settings_persist_in_tx c s db = (Inl (Sqlx e), db)"
    using new nf vs ins [OF vs]
    by (simp add: settings_persist_in_tx_def pg_stmt_run rs_bind_def rs_map_err_def persist_def Let_def
        insert_settings_events_def)
  then show ?thesis
    using nf by (simp add: settings_persist_def in_tx_run)
qed

lemma settings_persist_saves:
  assumes "settings_persist c s db = (Inr s', db')" "serde_ok c" "settings_ok c (primary db)"
    "session_of c (primary db) u s0" "s = fold push_event es s0" "\<forall>e \<in> set es. \<not> is_init e" "length es \<le> 2"
    "length (evs_of (primary db)) + 3 < 2 ^ 31"
  shows "saves c (primary db) u s (primary db') \<and> same_session db db' \<and>
    length (evs_of (primary db')) \<le> length (evs_of (primary db)) + 3"
proof -
  have body: "y = Inl (Sqlx ConnectionFailed) \<and> same_session a b \<or>
      (\<exists>z. y = Inr z) \<and> saves c (primary db) u s (primary b) \<and> same_session a b \<and>
      length (evs_of (primary b)) \<le> length (evs_of (primary db)) + 3"
    if "settings_persist_in_tx c s a = (y, b)" "primary a = primary db" for a b y
  proof -
    have "settings_ok c (primary a)" "session_of c (primary a) u s0"
      "length (evs_of (primary a)) + length es + 1 < 2 ^ 31"
      using assms(3,4,7,8) that(2) by simp_all
    from that(1) assms(2) this(1,2) assms(5,6) this(3) show ?thesis
      by (cases rule: persist_in_tx_cases) (use that(2) assms(7) in auto)
  qed
  then have "\<forall>a b y. settings_persist_in_tx c s a = (y, b) \<longrightarrow> primary a = primary db \<longrightarrow>
      same_session db a \<longrightarrow> same_session a b"
    by blast
  from assms(1) [unfolded settings_persist_def] this show ?thesis
  proof (cases rule: in_tx_cases)
    case (ok y a b)
    then show ?thesis
      using body [OF ok(1,2)] by auto
  qed auto
qed

lemma insert_unknown_entity:
  assumes "bind_events c i sq es = Some vs" "es \<noteq> []" "i \<notin> set ids"
  shows "\<exists>e \<in> {UniqueViolation, ForeignKeyViolation}. insert_events ids t vs tab = Inl e"
proof -
  have "event_rows_of t vs \<noteq> []"
    using length_bind_events [OF assms(1)] assms(2) by (metis length_0_conv length_event_rows_of)
  moreover have "\<forall>r \<in> set (event_rows_of t vs). er_id r = i"
    using rows_of_bind [OF assms(1), of t i] by (simp add: rows_of_def filter_id_conv)
  ultimately have "\<exists>r \<in> set (event_rows_of t vs). er_id r \<notin> set ids"
    using assms(3) by (metis hd_in_set)
  then show ?thesis
    unfolding insert_events_def Let_def event_rows_of_def [symmetric] by simp
qed

lemma stale_session_refused:
  assumes c: "serde_ok c" and nf: "faultless db" and new: "new_events (events s2) \<noteq> []"
    and sv: "saves c d u s1 (primary db)" "new_events (events s1) \<noteq> []"
    and s2: "session_of c d u s" "s2 = fold push_event es s"
    and ne: "row_for d u = None \<longrightarrow> settings_id s2 \<noteq> settings_id s1"
    and bound: "length (evs_of (primary db)) < 2 ^ 31"
  shows "\<exists>e \<in> {UniqueViolation, ForeignKeyViolation}. settings_persist c s2 db = (Inl (Sqlx e), db)"
proof -
  let ?d' = "primary db" and ?i = "settings_id s2"
  have ok: "settings_ok c d" and i: "?i = settings_id s" "entity_id (events s2) = ?i"
    and u: "galoy_user_id s2 = u" and len: "length (persisted_events (events s2)) = length (rows_of (evs_of d) ?i)"
    using sv(1) s2 session_length [of c d u s] by (auto simp: saves_def session_of_def)
  obtain a where a: "row_for ?d' u = Some a" "sr_id a = settings_id s1" "sr_user a = u"
    using saves_row [OF sv(1)] .
  have row: "galoy_user_id s2 \<in> sr_user ` set (rows_in ?d')"
    using row_for_Some [OF a(1)] u by (metis imageI)
  have tab': "table_ok c (evs_of ?d')"
    using sv(1) by (rule savesE)
  obtain vs where vs: "bind_events c ?i (Suc (length (persisted_events (events s2))))
      (new_events (events s2)) = Some vs"
    using bind_events_ok [OF c] .
  have "\<exists>e \<in> {UniqueViolation, ForeignKeyViolation}.
      insert_events (map sr_id (rows_in ?d')) (tx_now db) vs (evs_of ?d') = Inl e"
  proof (cases "row_for d u")
    case None
    have "?i \<notin> sr_id ` set (rows_in d)"
      using s2(1) None by (simp add: session_of_def i)
    then have "?i \<notin> sr_id ` set (rows_in ?d')"
      using sv(1) ne None by (elim savesE) (auto simp: row_added_def)
    then show ?thesis
      using insert_unknown_entity [OF vs new] by simp
  next
    case (Some b)
    have "settings_id s1 = ?i"
      using sv(1) s2(1) Some by (elim savesE) (simp add: session_of_def i)
    then have "length (stored c (evs_of ?d') ?i) = length (stored c (evs_of d) ?i @ new_events (events s1))"
      using sv(1) by (elim savesE) simp
    then have "length (persisted_events (events s2)) < length (rows_of (evs_of ?d') ?i)"
      using sv(2) len by simp
    moreover have "length (rows_of (evs_of ?d') ?i) < 2 ^ 31"
      using bound rows_of_length [of "evs_of ?d'" ?i] by linarith
    ultimately show ?thesis
      using insert_stale_events [OF tab' _ _ vs new] by blast
  qed
  then obtain e where e: "e \<in> {UniqueViolation, ForeignKeyViolation}"
    "insert_events (map sr_id (rows_in ?d')) (tx_now db) vs (evs_of ?d') = Inl e" ..
  then have "settings_persist c s2 db = (Inl (Sqlx e), db)"
    using vs i(2) by (intro settings_persist_refused [OF c nf row new]) auto
  then show ?thesis
    using e(1) by blast
qed

text \<open>C28: Of two overlapping changes of the settings of a user the later one is refused. Two requests
  look the settings up, the first saves a change; when the second then saves its own change, the
  database refuses it, because the sequence numbers of its events are taken or, for a user who had
  no settings, because the row of the first one is in the way, and the stored settings are the
  ones of the first request. No update is lost silently.
\<close>

theorem stale_settings_refused:
  assumes "serde_ok c" "settings_ok c (primary db)" "fresh_uuids db" "faultless db"
    "length (evs_of (primary db)) + 3 < 2 ^ 31"
    "find_for_user_id_for_mut c u db = (Inr s1, db1)"
    "find_for_user_id_for_mut c u db1 = (Inr s2, db2)"
    "settings_persist c (entity_command cmd1 s1) db2 = (Inr s1', db3)"
    "new_events (events (entity_command cmd1 s1)) \<noteq> []"
    "new_events (events (entity_command cmd2 s2)) \<noteq> []"
  shows "\<exists>e \<in> {UniqueViolation, ForeignKeyViolation}.
    settings_persist c (entity_command cmd2 s2) db3 = (Inl (Sqlx e), db3)"
proof -
  have f1: "session_of c (primary db) u s1 \<and> primary db1 = primary db \<and> same_session db db1 \<and>
      fresh_uuids db1 \<and> (\<forall>k \<ge> drawn db1. uuids db k \<noteq> settings_id s1)"
    using find_cases [OF assms(6,1,2,3)] by (metis sum.inject(2) sum.distinct(1))
  have ok1: "settings_ok c (primary db1)"
    using f1 assms(2) by simp
  have f2: "session_of c (primary db1) u s2 \<and> primary db2 = primary db1 \<and> same_session db1 db2 \<and>
      (row_for (primary db1) u = None \<longrightarrow> (\<exists>k \<ge> drawn db1. settings_id s2 = uuids db1 k))"
    using find_cases [OF assms(7,1) ok1] f1 by (metis sum.inject(2) sum.distinct(1))
  obtain es1 where es1: "length es1 \<le> 2" "\<forall>e \<in> set es1. \<not> is_init e"
    "entity_command cmd1 s1 = fold push_event es1 s1"
    by (rule entity_command_shape)
  obtain es2 where es2: "entity_command cmd2 s2 = fold push_event es2 s2"
    by (rule entity_command_shape)
  have sv: "saves c (primary db) u (entity_command cmd1 s1) (primary db3)" "same_session db2 db3"
    "length (evs_of (primary db3)) < 2 ^ 31"
    using settings_persist_saves [OF assms(8,1) _ _ es1(3,2,1), of u] f1 f2 assms(2,5) by simp_all
  have "faultless db3"
    using assms(4) f1 f2 sv(2) by (auto simp: same_session_def)
  moreover have "settings_id s2 \<noteq> settings_id s1" if "row_for (primary db) u = None"
    using that f1 f2 by (auto simp: same_session_def)
  ultimately show ?thesis
    using stale_session_refused [OF assms(1) _ assms(10) sv(1) assms(9) _ es2] f1 f2 sv(3) es1(3) es2
    by simp
qed

text \<open>Two sessions of a user without settings.\<close>

definition example_session :: "nat \<Rightarrow> UserNotificationSettings" where
  "example_session k =
     (let i = replicate k (CHR ''x'')
      in \<lparr> settings_id = i, galoy_user_id = ''alice'', events = EntityEvents_init i [Initialized i ''alice''] \<rparr>)"

definition example_pg :: "nat \<Rightarrow> UserNotificationSettingsEvent reminder_tables pg" where
  "example_pg k = (fresh_pg no_settings)\<lparr> drawn := k \<rparr>"

lemma example_find:
  "find_for_user_id_for_mut id_codec ''alice'' (example_pg k) = (Inr (example_session k), example_pg (Suc k))"
  by (simp add: find_for_user_id_for_mut_def find_for_user_id_inner_def rs_bind_def rs_map_err_def
      pg_select_def example_pg_def fresh_pg_def no_settings_def settings_join_def load_first_def
      new_uuid_def settings_new_ok example_session_def Let_def)

lemma example_persist:
  "\<not> isl (fst (settings_persist id_codec (entity_command (DisableChannel Push) (example_session 0)) (example_pg 2)))"
  by code_simp

theorem stale_settings_refused_witness:
  "\<exists>e \<in> {UniqueViolation, ForeignKeyViolation}.
     let db = snd (settings_persist id_codec (entity_command (DisableChannel Push) (example_session 0))
                (example_pg 2))
     in settings_persist id_codec (entity_command (UpdateLocale ''es'') (example_session 1)) db =
          (Inl (Sqlx e), db)"
proof -
  obtain s db where run: "settings_persist id_codec (entity_command (DisableChannel Push) (example_session 0))
      (example_pg 2) = (Inr s, db)"
    using example_persist by (metis prod.collapse sum.collapse(2))
  have ok: "settings_ok id_codec (primary (example_pg 0))" "fresh_uuids (example_pg 0)"
    "faultless (example_pg 0)" "length (evs_of (primary (example_pg 0))) + 3 < 2 ^ 31"
    using no_settings_ok [of id_codec] fresh_pg_ok [of no_settings]
    by (simp_all add: example_pg_def fresh_pg_def fresh_uuids_def) (simp_all add: no_settings_def)
  have new: "new_events (events (entity_command (DisableChannel Push) (example_session 0))) \<noteq> []"
    "new_events (events (entity_command (UpdateLocale ''es'') (example_session 1))) \<noteq> []"
    by code_simp+
  have "find_for_user_id_for_mut id_codec ''alice'' (example_pg 1) = (Inr (example_session 1), example_pg 2)"
    using example_find [of 1] by (simp add: numeral_2_eq_2)
  from stale_settings_refused [OF id_codec_ok ok example_find [of 0, folded One_nat_def] this run new]
  show ?thesis
    unfolding run Let_def snd_conv .
qed

end
