(* ===== verification/Notification_Events.thy ===== *)
theory Notification_Events
  imports Notification_Settings Js_Number
begin

text \<open>
  The notifications the service knows (\<open>core/notifications/src/notification_event\<close>): their data, the
  channels each of them uses, its texts, and the links it opens. Translations (\<open>t!\<close>), the
  formatting of money and numbers and the email template are third party code and are parameters.
  A method a notification does not implement panics when called.
\<close>

subsection \<open>Data\<close>

datatype CircleType = Inner | Outer
datatype CircleTimeFrame = Month | AllTime

datatype IdentityVerificationDeclinedReason =
    DocumentsNotClear | SelfieNotClear | DocumentsNotSupported | DocumentsExpired
  | DocumentsDoNotMatch | Other

datatype TransactionType =
    IntraLedgerReceipt | IntraLedgerPayment | OnchainReceipt | OnchainReceiptPending
  | OnchainPayment | LightningReceipt | LightningPayment

datatype Currency = Iso string | Crypto string

fun Currency_code :: "Currency \<Rightarrow> string" where
  "Currency_code (Iso c) = c"
| "Currency_code (Crypto c) = c"

text \<open>\<open>PartialEq\<close> compares the codes.\<close>

definition Currency_eq :: "Currency \<Rightarrow> Currency \<Rightarrow> bool" where
  "Currency_eq a b \<longleftrightarrow> Currency_code a = Currency_code b"

record TransactionAmount =
  amount_minor_units :: nat
  amount_currency :: Currency

datatype PriceChangeDirection = Up | Down

record PriceOfOneBitcoin =
  price_minor_units :: nat
  price_currency :: Currency

text \<open>The percentage is an \<open>f64\<close>, which may be NaN or infinite.\<close>

record PriceChanged =
  pc_price :: PriceOfOneBitcoin
  pc_direction :: PriceChangeDirection
  pc_change_percent :: jsnum

record LocalizedPushMessage =
  push_title :: string
  push_body :: string

record LocalizedEmail =
  email_subject :: string
  email_body :: string

record LocalizedStatefulMessage =
  msg_locale :: GaloyLocale
  msg_title :: string
  msg_body :: string

datatype DeepLinkScreen =
    Screen_Circles | Screen_Price | Screen_Earn | Screen_Map | Screen_People | Screen_Home
  | Screen_Receive | Screen_Convert | Screen_ScanQR | Screen_Chat | Screen_Settings
  | Screen_Settings2FA | Screen_SettingsDisplayCurrency | Screen_SettingsDefaultAccount
  | Screen_SettingsLanguage | Screen_SettingsTheme | Screen_SettingsSecurity
  | Screen_SettingsAccount | Screen_SettingsTxLimits | Screen_SettingsNotifications
  | Screen_SettingsEmail

datatype DeepLinkAction = SetLnAddressModal | SetDefaultAccountModal | UpgradeAccountModal

record DeepLink =
  link_screen :: "DeepLinkScreen option"
  link_action :: "DeepLinkAction option"

datatype Action = OpenDeepLink DeepLink | OpenExternalUrl string

datatype Icon =
    Icon_ArrowRight | Icon_ArrowLeft | Icon_BackSpace | Icon_Bank | Icon_Bitcoin | Icon_Book
  | Icon_BtcBook | Icon_CaretDown | Icon_CaretLeft | Icon_CaretRight | Icon_CaretUp | Icon_CheckCircle
  | Icon_Check | Icon_Close | Icon_CloseCrossWithBackground | Icon_Coins | Icon_People | Icon_CopyPaste
  | Icon_Dollar | Icon_EyeSlash | Icon_Eye | Icon_Filter | Icon_Globe | Icon_Graph | Icon_Image
  | Icon_Info | Icon_Lightning | Icon_Link | Icon_Loading | Icon_MagnifyingGlass | Icon_Map | Icon_Menu
  | Icon_Pencil | Icon_Note | Icon_Rank | Icon_QrCode | Icon_Question | Icon_Receive | Icon_Send
  | Icon_Settings | Icon_Share | Icon_Transfer | Icon_User | Icon_Video | Icon_Warning
  | Icon_WarningWithBackground | Icon_PaymentSuccess | Icon_PaymentPending | Icon_PaymentError
  | Icon_Bell | Icon_Refresh

text \<open>The texts of a marketing notification: a hash map from locales, by its entries.\<close>

record MarketingNotificationTriggered =
  mk_content :: "(GaloyLocale \<times> LocalizedStatefulMessage) list"
  mk_default_content :: LocalizedStatefulMessage
  mk_should_send_push :: bool
  mk_should_add_to_history :: bool
  mk_should_add_to_bulletin :: bool
  mk_action :: "Action option"
  mk_icon :: "Icon option"

datatype NotificationEventPayload =
    CircleGrew CircleType nat nat
  | CircleThresholdReached CircleType CircleTimeFrame nat
  | IdentityVerificationApproved
  | IdentityVerificationDeclined IdentityVerificationDeclinedReason
  | IdentityVerificationReviewStarted
  | TransactionOccurred TransactionType TransactionAmount "TransactionAmount option"
  | PriceChangedEvent PriceChanged
  | MarketingTriggered MarketingNotificationTriggered
  | LinkEmailReminder

subsection \<open>Links\<close>

fun screen_path :: "DeepLinkScreen \<Rightarrow> string" where
  "screen_path Screen_Circles = ''people/circles''"
| "screen_path Screen_Price = ''price''"
| "screen_path Screen_Earn = ''earn''"
| "screen_path Screen_Map = ''map''"
| "screen_path Screen_People = ''people''"
| "screen_path Screen_Home = ''home''"
| "screen_path Screen_Receive = ''receive''"
| "screen_path Screen_Convert = ''convert''"
| "screen_path Screen_ScanQR = ''scan-qr''"
| "screen_path Screen_Chat = ''chat''"
| "screen_path Screen_Settings = ''settings''"
| "screen_path Screen_Settings2FA = ''settings/2fa''"
| "screen_path Screen_SettingsDisplayCurrency = ''settings/display-currency''"
| "screen_path Screen_SettingsDefaultAccount = ''settings/default-account''"
| "screen_path Screen_SettingsLanguage = ''settings/language''"
| "screen_path Screen_SettingsTheme = ''settings/theme''"
| "screen_path Screen_SettingsSecurity = ''settings/security''"
| "screen_path Screen_SettingsAccount = ''settings/account''"
| "screen_path Screen_SettingsTxLimits = ''settings/tx-limits''"
| "screen_path Screen_SettingsNotifications = ''settings/notifications''"
| "screen_path Screen_SettingsEmail = ''settings/email''"

fun action_name :: "DeepLinkAction \<Rightarrow> string" where
  "action_name SetLnAddressModal = ''set-ln-address''"
| "action_name SetDefaultAccountModal = ''set-default-account''"
| "action_name UpgradeAccountModal = ''upgrade-account''"

definition to_link_string :: "DeepLink \<Rightarrow> string" where
  "to_link_string l =
     ''/'' @ (case link_screen l of None \<Rightarrow> '''' | Some s \<Rightarrow> screen_path s) @
     (case link_action l of None \<Rightarrow> '''' | Some a \<Rightarrow> ''?action='' @ action_name a)"

subsection \<open>Texts\<close>

record i18n =
  tr :: "string \<Rightarrow> GaloyLocale \<Rightarrow> (string \<times> string) list \<Rightarrow> string"
  iso_money :: "string \<Rightarrow> nat \<Rightarrow> bool \<Rightarrow> string"
  f64_display :: "jsnum \<Rightarrow> string"
  f64_one_digit :: "jsnum \<Rightarrow> string"
  general_template :: "string \<Rightarrow> string \<Rightarrow> string"

text \<open>\<open>None\<close> is the panic of \<open>unimplemented!\<close>.\<close>

definition format_minor_units :: "i18n \<Rightarrow> Currency \<Rightarrow> nat \<Rightarrow> bool \<Rightarrow> string option" where
  "format_minor_units x c minor_units round_to_major =
     (case c of
        Iso code \<Rightarrow> Some (iso_money x code minor_units round_to_major)
      | Crypto code \<Rightarrow>
          if code = ''BTC'' then Some (f64_display x (round_double (of_nat minor_units)) @ '' sats'')
          else None)"

definition TransactionAmount_display :: "i18n \<Rightarrow> TransactionAmount \<Rightarrow> string option" where
  "TransactionAmount_display x a = format_minor_units x (amount_currency a) (amount_minor_units a) False"

definition PriceOfOneBitcoin_display :: "i18n \<Rightarrow> PriceOfOneBitcoin \<Rightarrow> string option" where
  "PriceOfOneBitcoin_display x p = format_minor_units x (price_currency p) (price_minor_units p) True"

fun declined_reason_key :: "IdentityVerificationDeclinedReason \<Rightarrow> string" where
  "declined_reason_key DocumentsNotClear = ''identity_verification_declined.reason.documents_not_clear''"
| "declined_reason_key SelfieNotClear = ''identity_verification_declined.reason.photo_not_clear''"
| "declined_reason_key DocumentsNotSupported =
     ''identity_verification_declined.reason.documents_not_supported''"
| "declined_reason_key DocumentsExpired = ''identity_verification_declined.reason.documents_expired''"
| "declined_reason_key DocumentsDoNotMatch =
     ''identity_verification_declined.reason.documents_do_not_match''"
| "declined_reason_key Other = ''identity_verification_declined.reason.other''"

fun transaction_key :: "TransactionType \<Rightarrow> string" where
  "transaction_key IntraLedgerPayment = ''transaction.intra_ledger_payment''"
| "transaction_key IntraLedgerReceipt = ''transaction.intra_ledger_receipt''"
| "transaction_key OnchainPayment = ''transaction.onchain_payment''"
| "transaction_key OnchainReceipt = ''transaction.onchain_receipt''"
| "transaction_key OnchainReceiptPending = ''transaction.onchain_receipt_pending''"
| "transaction_key LightningPayment = ''transaction.lightning_payment''"
| "transaction_key LightningReceipt = ''transaction.lightning_receipt''"

definition localized_declined_reason :: "i18n \<Rightarrow> IdentityVerificationDeclinedReason \<Rightarrow> GaloyLocale \<Rightarrow> string" where
  "localized_declined_reason x r l = tr x (declined_reason_key r) l []"

definition transaction_push_msg ::
  "i18n \<Rightarrow> TransactionType \<Rightarrow> TransactionAmount \<Rightarrow> TransactionAmount option \<Rightarrow> GaloyLocale \<Rightarrow>
   LocalizedPushMessage option" where
  "transaction_push_msg x ty settlement display l =
     (let txn_type = transaction_key ty;
          title = tr x (txn_type @ ''.title'') l
            [(''walletCurrency'', Currency_code (amount_currency settlement))]
      in case display of
           Some d \<Rightarrow>
             if \<not> Currency_eq (amount_currency d) (amount_currency settlement) then
               (case (TransactionAmount_display x settlement, TransactionAmount_display x d) of
                  (Some sa, Some da) \<Rightarrow>
                    Some \<lparr> push_title = title,
                           push_body = tr x (txn_type @ ''.body_display_currency'') l
                             [(''formattedCurrencyAmount'', sa), (''displayCurrencyAmount'', da)] \<rparr>
                | _ \<Rightarrow> None)
             else
               map_option (\<lambda>sa. \<lparr> push_title = title,
                 push_body = tr x (txn_type @ ''.body'') l [(''formattedCurrencyAmount'', sa)] \<rparr>)
                 (TransactionAmount_display x settlement)
         | None \<Rightarrow>
             map_option (\<lambda>sa. \<lparr> push_title = title,
               push_body = tr x (txn_type @ ''.body'') l [(''formattedCurrencyAmount'', sa)] \<rparr>)
               (TransactionAmount_display x settlement))"

definition circle_type_key :: "CircleType \<Rightarrow> string" where
  "circle_type_key c = (case c of Inner \<Rightarrow> ''circle_type.inner'' | Outer \<Rightarrow> ''circle_type.outer'')"

subsection \<open>The events\<close>

text \<open>
  The methods of an event (the trait \<open>NotificationEvent\<close>); a message is missing where the method is
  not implemented, which panics. The constant below has the default methods of the trait.
\<close>

record notification_event =
  ev_category :: UserNotificationCategory
  ev_should_send_push :: bool
  ev_push_msg :: "i18n \<Rightarrow> GaloyLocale \<Rightarrow> LocalizedPushMessage option"
  ev_should_send_email :: bool
  ev_email :: "i18n \<Rightarrow> GaloyLocale \<Rightarrow> LocalizedEmail option"
  ev_should_be_added_to_history :: bool
  ev_should_be_added_to_bulletin :: bool
  ev_persistent_message :: "i18n \<Rightarrow> GaloyLocale \<Rightarrow> LocalizedStatefulMessage option"
  ev_action :: "Action option"
  ev_icon :: "Icon option"

definition NotificationEvent :: "UserNotificationCategory \<Rightarrow> notification_event" where
  "NotificationEvent c =
     \<lparr> ev_category = c, ev_should_send_push = False, ev_push_msg = \<lambda>x l. None,
       ev_should_send_email = False, ev_email = \<lambda>x l. None,
       ev_should_be_added_to_history = False, ev_should_be_added_to_bulletin = False,
       ev_persistent_message = \<lambda>x l. None, ev_action = None, ev_icon = None \<rparr>"

text \<open>The message of the history that repeats the push message.\<close>

definition push_as_persistent ::
  "(i18n \<Rightarrow> GaloyLocale \<Rightarrow> LocalizedPushMessage option) \<Rightarrow> i18n \<Rightarrow> GaloyLocale \<Rightarrow>
   LocalizedStatefulMessage option" where
  "push_as_persistent push_msg x l =
     map_option (\<lambda>m. \<lparr> msg_locale = l, msg_title = push_title m, msg_body = push_body m \<rparr>) (push_msg x l)"

definition CircleGrew_push_msg :: "CircleType \<Rightarrow> i18n \<Rightarrow> GaloyLocale \<Rightarrow> LocalizedPushMessage option" where
  "CircleGrew_push_msg c x l =
     Some \<lparr> push_title = tr x ''circle_grew.title'' l [],
            push_body = tr x ''circle_grew.body'' l [(''circle_type'', tr x (circle_type_key c) l [])] \<rparr>"

definition CircleGrew_event :: "CircleType \<Rightarrow> notification_event" where
  "CircleGrew_event c = (NotificationEvent Circles)
     \<lparr> ev_action := Some (OpenDeepLink \<lparr> link_screen = Some Screen_Circles, link_action = None \<rparr>),
       ev_should_send_push := True, ev_push_msg := CircleGrew_push_msg c,
       ev_should_be_added_to_history := True,
       ev_persistent_message := push_as_persistent (CircleGrew_push_msg c) \<rparr>"

definition CircleThresholdReached_push_msg ::
  "CircleType \<Rightarrow> CircleTimeFrame \<Rightarrow> nat \<Rightarrow> i18n \<Rightarrow> GaloyLocale \<Rightarrow> LocalizedPushMessage option" where
  "CircleThresholdReached_push_msg c f n x l =
     (let key = (case c of Inner \<Rightarrow> ''circle_threshold_reached.inner''
                         | Outer \<Rightarrow> ''circle_threshold_reached.outer'');
          time_frame = tr x (case f of Month \<Rightarrow> ''circle_time_frame.month''
                                     | AllTime \<Rightarrow> ''circle_time_frame.all_time'') l []
      in Some \<lparr> push_title = tr x (key @ ''.title'') l [],
                push_body = tr x (key @ ''.body'') l
                  [(''threshold'', nat_to_string n), (''time_frame'', time_frame)] \<rparr>)"

definition CircleThresholdReached_event ::
  "CircleType \<Rightarrow> CircleTimeFrame \<Rightarrow> nat \<Rightarrow> notification_event" where
  "CircleThresholdReached_event c f n = (NotificationEvent Circles)
     \<lparr> ev_action := Some (OpenDeepLink \<lparr> link_screen = Some Screen_Circles, link_action = None \<rparr>),
       ev_should_send_push := True, ev_push_msg := CircleThresholdReached_push_msg c f n,
       ev_should_be_added_to_history := True,
       ev_persistent_message := push_as_persistent (CircleThresholdReached_push_msg c f n) \<rparr>"

definition IdentityVerificationApproved_push_msg :: "i18n \<Rightarrow> GaloyLocale \<Rightarrow> LocalizedPushMessage option" where
  "IdentityVerificationApproved_push_msg x l =
     Some \<lparr> push_title = tr x ''identity_verification_approved.title'' l [],
            push_body = tr x ''identity_verification_approved.body'' l [] \<rparr>"

definition IdentityVerificationApproved_email :: "i18n \<Rightarrow> GaloyLocale \<Rightarrow> LocalizedEmail option" where
  "IdentityVerificationApproved_email x l =
     (let title = tr x ''identity_verification_approved.title'' l [];
          body = tr x ''identity_verification_approved.body'' l []
      in Some \<lparr> email_subject = title, email_body = general_template x title body \<rparr>)"

definition IdentityVerificationApproved_event :: notification_event where
  "IdentityVerificationApproved_event = (NotificationEvent AdminNotification)
     \<lparr> ev_should_send_push := True, ev_push_msg := IdentityVerificationApproved_push_msg,
       ev_should_send_email := True, ev_email := IdentityVerificationApproved_email,
       ev_should_be_added_to_history := True,
       ev_persistent_message := push_as_persistent IdentityVerificationApproved_push_msg \<rparr>"

definition IdentityVerificationDeclined_push_msg ::
  "IdentityVerificationDeclinedReason \<Rightarrow> i18n \<Rightarrow> GaloyLocale \<Rightarrow> LocalizedPushMessage option" where
  "IdentityVerificationDeclined_push_msg r x l =
     Some \<lparr> push_title = tr x ''identity_verification_declined.title'' l [],
            push_body = tr x ''identity_verification_declined.body'' l
              [(''reason'', localized_declined_reason x r l)] \<rparr>"

definition IdentityVerificationDeclined_email ::
  "IdentityVerificationDeclinedReason \<Rightarrow> i18n \<Rightarrow> GaloyLocale \<Rightarrow> LocalizedEmail option" where
  "IdentityVerificationDeclined_email r x l =
     (let title = tr x ''identity_verification_declined.title'' l [];
          body = tr x ''identity_verification_declined.body'' l
            [(''reason'', localized_declined_reason x r l)]
      in Some \<lparr> email_subject = title, email_body = general_template x title body \<rparr>)"

definition IdentityVerificationDeclined_event :: "IdentityVerificationDeclinedReason \<Rightarrow> notification_event" where
  "IdentityVerificationDeclined_event r = (NotificationEvent AdminNotification)
     \<lparr> ev_should_send_push := True, ev_push_msg := IdentityVerificationDeclined_push_msg r,
       ev_should_send_email := True, ev_email := IdentityVerificationDeclined_email r,
       ev_should_be_added_to_history := True,
       ev_persistent_message := push_as_persistent (IdentityVerificationDeclined_push_msg r) \<rparr>"

definition IdentityVerificationReviewStarted_push_msg :: "i18n \<Rightarrow> GaloyLocale \<Rightarrow> LocalizedPushMessage option" where
  "IdentityVerificationReviewStarted_push_msg x l =
     Some \<lparr> push_title = tr x ''identity_verification_review_started.title'' l [],
            push_body = tr x ''identity_verification_review_started.body'' l [] \<rparr>"

definition IdentityVerificationReviewStarted_email :: "i18n \<Rightarrow> GaloyLocale \<Rightarrow> LocalizedEmail option" where
  "IdentityVerificationReviewStarted_email x l =
     (let title = tr x ''identity_verification_review_started.title'' l [];
          body = tr x ''identity_verification_review_started.body'' l []
      in Some \<lparr> email_subject = title, email_body = general_template x title body \<rparr>)"

definition IdentityVerificationReviewStarted_event :: notification_event where
  "IdentityVerificationReviewStarted_event = (NotificationEvent AdminNotification)
     \<lparr> ev_should_send_push := True, ev_push_msg := IdentityVerificationReviewStarted_push_msg,
       ev_should_send_email := True, ev_email := IdentityVerificationReviewStarted_email,
       ev_should_be_added_to_history := True,
       ev_persistent_message := push_as_persistent IdentityVerificationReviewStarted_push_msg \<rparr>"

definition TransactionOccurred_event ::
  "TransactionType \<Rightarrow> TransactionAmount \<Rightarrow> TransactionAmount option \<Rightarrow> notification_event" where
  "TransactionOccurred_event ty a d = (NotificationEvent Payments)
     \<lparr> ev_should_send_push := True, ev_push_msg := \<lambda>x. transaction_push_msg x ty a d \<rparr>"

definition PriceChanged_push_msg :: "PriceChanged \<Rightarrow> i18n \<Rightarrow> GaloyLocale \<Rightarrow> LocalizedPushMessage option" where
  "PriceChanged_push_msg p x l =
     (let key = (case pc_direction p of Up \<Rightarrow> ''price_changed.up'' | Down \<Rightarrow> ''price_changed.down'')
      in map_option (\<lambda>price.
           \<lparr> push_title = tr x (key @ ''.title'') l [],
             push_body = tr x (key @ ''.body'') l
               [(''change_percent'', f64_one_digit x (pc_change_percent p)), (''price'', price)] \<rparr>)
           (PriceOfOneBitcoin_display x (pc_price p)))"

definition PriceChanged_event :: "PriceChanged \<Rightarrow> notification_event" where
  "PriceChanged_event p = (NotificationEvent Price)
     \<lparr> ev_should_send_push := True, ev_push_msg := PriceChanged_push_msg p \<rparr>"

definition marketing_content :: "MarketingNotificationTriggered \<Rightarrow> GaloyLocale \<Rightarrow> LocalizedStatefulMessage" where
  "marketing_content m l = (case map_of (mk_content m) l of None \<Rightarrow> mk_default_content m | Some msg \<Rightarrow> msg)"

definition MarketingNotificationTriggered_event :: "MarketingNotificationTriggered \<Rightarrow> notification_event" where
  "MarketingNotificationTriggered_event m = (NotificationEvent Marketing)
     \<lparr> ev_action := mk_action m, ev_should_send_push := mk_should_send_push m,
       ev_push_msg := \<lambda>x l.
         (let msg = marketing_content m l in Some \<lparr> push_title = msg_title msg, push_body = msg_body msg \<rparr>),
       ev_should_be_added_to_history := mk_should_add_to_history m,
       ev_should_be_added_to_bulletin := mk_should_add_to_bulletin m,
       ev_persistent_message := \<lambda>x l. Some (marketing_content m l),
       ev_icon := mk_icon m \<rparr>"

definition LinkEmailReminder_push_msg :: "i18n \<Rightarrow> GaloyLocale \<Rightarrow> LocalizedPushMessage option" where
  "LinkEmailReminder_push_msg x l =
     Some \<lparr> push_title = tr x ''security.link_email_reminder.title'' l [],
            push_body = tr x ''security.link_email_reminder.body'' l [] \<rparr>"

definition LinkEmailReminder_event :: notification_event where
  "LinkEmailReminder_event = (NotificationEvent Security)
     \<lparr> ev_should_send_push := True, ev_push_msg := LinkEmailReminder_push_msg,
       ev_should_be_added_to_history := True,
       ev_persistent_message := push_as_persistent LinkEmailReminder_push_msg \<rparr>"

text \<open>The event of a payload (\<open>as_ref\<close>), and its methods on the payload itself (\<open>deref\<close>).\<close>

fun payload_as_ref :: "NotificationEventPayload \<Rightarrow> notification_event" where
  "payload_as_ref (CircleGrew c _ _) = CircleGrew_event c"
| "payload_as_ref (CircleThresholdReached c f n) = CircleThresholdReached_event c f n"
| "payload_as_ref IdentityVerificationApproved = IdentityVerificationApproved_event"
| "payload_as_ref (IdentityVerificationDeclined r) = IdentityVerificationDeclined_event r"
| "payload_as_ref IdentityVerificationReviewStarted = IdentityVerificationReviewStarted_event"
| "payload_as_ref (TransactionOccurred ty a d) = TransactionOccurred_event ty a d"
| "payload_as_ref (PriceChangedEvent p) = PriceChanged_event p"
| "payload_as_ref (MarketingTriggered m) = MarketingNotificationTriggered_event m"
| "payload_as_ref LinkEmailReminder = LinkEmailReminder_event"

definition category :: "NotificationEventPayload \<Rightarrow> UserNotificationCategory" where
  "category p = ev_category (payload_as_ref p)"

definition should_send_push :: "NotificationEventPayload \<Rightarrow> bool" where
  "should_send_push p = ev_should_send_push (payload_as_ref p)"

definition should_send_email :: "NotificationEventPayload \<Rightarrow> bool" where
  "should_send_email p = ev_should_send_email (payload_as_ref p)"

definition should_be_added_to_history :: "NotificationEventPayload \<Rightarrow> bool" where
  "should_be_added_to_history p = ev_should_be_added_to_history (payload_as_ref p)"

definition should_be_added_to_bulletin :: "NotificationEventPayload \<Rightarrow> bool" where
  "should_be_added_to_bulletin p = ev_should_be_added_to_bulletin (payload_as_ref p)"

definition notification_action :: "NotificationEventPayload \<Rightarrow> Action option" where
  "notification_action p = ev_action (payload_as_ref p)"

definition notification_icon :: "NotificationEventPayload \<Rightarrow> Icon option" where
  "notification_icon p = ev_icon (payload_as_ref p)"

definition to_localized_push_msg ::
  "i18n \<Rightarrow> NotificationEventPayload \<Rightarrow> GaloyLocale \<Rightarrow> LocalizedPushMessage option" where
  "to_localized_push_msg x p l = ev_push_msg (payload_as_ref p) x l"

definition to_localized_email :: "i18n \<Rightarrow> NotificationEventPayload \<Rightarrow> GaloyLocale \<Rightarrow> LocalizedEmail option" where
  "to_localized_email x p l = ev_email (payload_as_ref p) x l"

definition to_localized_persistent_message ::
  "i18n \<Rightarrow> NotificationEventPayload \<Rightarrow> GaloyLocale \<Rightarrow> LocalizedStatefulMessage option" where
  "to_localized_persistent_message x p l = ev_persistent_message (payload_as_ref p) x l"

lemmas event_defs =
  NotificationEvent_def CircleGrew_event_def CircleThresholdReached_event_def
  IdentityVerificationApproved_event_def IdentityVerificationDeclined_event_def
  IdentityVerificationReviewStarted_event_def TransactionOccurred_event_def PriceChanged_event_def
  MarketingNotificationTriggered_event_def LinkEmailReminder_event_def

lemmas message_defs =
  CircleGrew_push_msg_def CircleThresholdReached_push_msg_def IdentityVerificationApproved_push_msg_def
  IdentityVerificationDeclined_push_msg_def IdentityVerificationReviewStarted_push_msg_def
  PriceChanged_push_msg_def LinkEmailReminder_push_msg_def IdentityVerificationApproved_email_def
  IdentityVerificationDeclined_email_def IdentityVerificationReviewStarted_email_def
  to_localized_push_msg_def to_localized_email_def to_localized_persistent_message_def
  push_as_persistent_def marketing_content_def Let_def

lemma category_simps [simp]:
  "category (CircleGrew a b c) = Circles" "category (CircleThresholdReached a f n) = Circles"
  "category IdentityVerificationApproved = AdminNotification"
  "category (IdentityVerificationDeclined r) = AdminNotification"
  "category IdentityVerificationReviewStarted = AdminNotification"
  "category (TransactionOccurred t u v) = Payments" "category (PriceChangedEvent q) = Price"
  "category (MarketingTriggered m) = Marketing" "category LinkEmailReminder = Security"
  by (simp_all add: category_def event_defs)

lemma should_send_push_simps [simp]:
  "should_send_push (CircleGrew a b c)" "should_send_push (CircleThresholdReached a f n)"
  "should_send_push IdentityVerificationApproved" "should_send_push (IdentityVerificationDeclined r)"
  "should_send_push IdentityVerificationReviewStarted" "should_send_push (TransactionOccurred t u v)"
  "should_send_push (PriceChangedEvent q)" "should_send_push (MarketingTriggered m) = mk_should_send_push m"
  "should_send_push LinkEmailReminder"
  by (simp_all add: should_send_push_def event_defs)

lemma should_send_email_simps [simp]:
  "\<not> should_send_email (CircleGrew a b c)" "\<not> should_send_email (CircleThresholdReached a f n)"
  "should_send_email IdentityVerificationApproved" "should_send_email (IdentityVerificationDeclined r)"
  "should_send_email IdentityVerificationReviewStarted"
  "\<not> should_send_email (TransactionOccurred t u v)" "\<not> should_send_email (PriceChangedEvent q)"
  "\<not> should_send_email (MarketingTriggered m)" "\<not> should_send_email LinkEmailReminder"
  by (simp_all add: should_send_email_def event_defs)

lemma should_be_added_to_history_simps [simp]:
  "should_be_added_to_history (CircleGrew a b c)" "should_be_added_to_history (CircleThresholdReached a f n)"
  "should_be_added_to_history IdentityVerificationApproved"
  "should_be_added_to_history (IdentityVerificationDeclined r)"
  "should_be_added_to_history IdentityVerificationReviewStarted"
  "\<not> should_be_added_to_history (TransactionOccurred t u v)"
  "\<not> should_be_added_to_history (PriceChangedEvent q)"
  "should_be_added_to_history (MarketingTriggered m) = mk_should_add_to_history m"
  "should_be_added_to_history LinkEmailReminder"
  by (simp_all add: should_be_added_to_history_def event_defs)

lemma should_be_added_to_bulletin_simps [simp]:
  "\<not> should_be_added_to_bulletin (CircleGrew a b c)"
  "\<not> should_be_added_to_bulletin (CircleThresholdReached a f n)"
  "\<not> should_be_added_to_bulletin IdentityVerificationApproved"
  "\<not> should_be_added_to_bulletin (IdentityVerificationDeclined r)"
  "\<not> should_be_added_to_bulletin IdentityVerificationReviewStarted"
  "\<not> should_be_added_to_bulletin (TransactionOccurred t u v)"
  "\<not> should_be_added_to_bulletin (PriceChangedEvent q)"
  "should_be_added_to_bulletin (MarketingTriggered m) = mk_should_add_to_bulletin m"
  "\<not> should_be_added_to_bulletin LinkEmailReminder"
  by (simp_all add: should_be_added_to_bulletin_def event_defs)

subsection \<open>The catalogue of texts\<close>

text \<open>The keys of \<open>locales/en.yml\<close>, the catalogue of the default language.\<close>

definition en_keys :: "string list" where
  "en_keys =
     [''circle_time_frame.month'',
      ''circle_time_frame.all_time'',
      ''circle_type.inner'',
      ''circle_type.outer'',
      ''circle_grew.title'',
      ''circle_grew.body'',
      ''circle_threshold_reached.inner.title'',
      ''circle_threshold_reached.inner.body'',
      ''circle_threshold_reached.outer.title'',
      ''circle_threshold_reached.outer.body'',
      ''identity_verification_approved.title'',
      ''identity_verification_approved.body'',
      ''identity_verification_declined.reason.documents_not_clear'',
      ''identity_verification_declined.reason.photo_not_clear'',
      ''identity_verification_declined.reason.documents_do_not_match'',
      ''identity_verification_declined.reason.documents_expired'',
      ''identity_verification_declined.reason.documents_not_supported'',
      ''identity_verification_declined.reason.other'',
      ''identity_verification_declined.title'',
      ''identity_verification_declined.body'',
      ''identity_verification_review_started.title'',
      ''identity_verification_review_started.body'',
      ''transaction.intra_ledger_payment.title'',
      ''transaction.intra_ledger_payment.body'',
      ''transaction.intra_ledger_payment.body_display_currency'',
      ''transaction.intra_ledger_receipt.title'',
      ''transaction.intra_ledger_receipt.body'',
      ''transaction.intra_ledger_receipt.body_display_currency'',
      ''transaction.onchain_payment.title'',
      ''transaction.onchain_payment.body_display_currency'',
      ''transaction.onchain_payment.body'',
      ''transaction.onchain_receipt.title'',
      ''transaction.onchain_receipt.body_display_currency'',
      ''transaction.onchain_receipt.body'',
      ''transaction.lightning_receipt.title'',
      ''transaction.lightning_receipt.body_display_currency'',
      ''transaction.lightning_receipt.body'',
      ''transaction.onchain_receipt_pending.title'',
      ''transaction.onchain_receipt_pending.body_display_currency'',
      ''transaction.onchain_receipt_pending.body'',
      ''transaction.paid_invoice.title'',
      ''transaction.paid_invoice.body'',
      ''transaction.paid_invoice.body_display_currency'',
      ''price_changed.up.title'',
      ''price_changed.up.body'',
      ''price_changed.down.title'',
      ''price_changed.down.body'',
      ''security.link_email_reminder.title'',
      ''security.link_email_reminder.body'']"

text \<open>Two sets of translations that agree on these keys.\<close>

definition same_catalogue :: "i18n \<Rightarrow> i18n \<Rightarrow> bool" where
  "same_catalogue x y \<longleftrightarrow>
     (\<forall>k \<in> set en_keys. tr x k = tr y k) \<and> iso_money x = iso_money y \<and>
     f64_display x = f64_display y \<and> f64_one_digit x = f64_one_digit y \<and>
     general_template x = general_template y"

definition printable :: "Currency \<Rightarrow> bool" where
  "printable c = (case c of Iso _ \<Rightarrow> True | Crypto code \<Rightarrow> code = ''BTC'')"

fun amounts_printable :: "NotificationEventPayload \<Rightarrow> bool" where
  "amounts_printable (TransactionOccurred _ a d) \<longleftrightarrow>
     printable (amount_currency a) \<and> (case d of None \<Rightarrow> True | Some d \<Rightarrow> printable (amount_currency d))"
| "amounts_printable (PriceChangedEvent p) \<longleftrightarrow> printable (price_currency (pc_price p))"
| "amounts_printable _ \<longleftrightarrow> True"

fun is_lightning_payment :: "NotificationEventPayload \<Rightarrow> bool" where
  "is_lightning_payment (TransactionOccurred LightningPayment _ _) = True"
| "is_lightning_payment _ = False"

lemma same_catalogue_simps:
  assumes "same_catalogue x y"
  shows "k \<in> set en_keys \<Longrightarrow> tr x k = tr y k" "iso_money x = iso_money y"
    "f64_display x = f64_display y" "f64_one_digit x = f64_one_digit y"
    "general_template x = general_template y"
  using assms by (simp_all add: same_catalogue_def)

text \<open>The keys the notifications other than transactions use are in the catalogue.\<close>

lemma circle_type_keys: "circle_type_key c \<in> set en_keys"
  by (induct c) code_simp+

lemma declined_reason_keys: "declined_reason_key r \<in> set en_keys"
  by (induct r) code_simp+

lemma used_keys:
  "''circle_grew.title'' \<in> set en_keys"
  "''circle_grew.body'' \<in> set en_keys"
  "''circle_threshold_reached.inner.title'' \<in> set en_keys"
  "''circle_threshold_reached.inner.body'' \<in> set en_keys"
  "''circle_threshold_reached.outer.title'' \<in> set en_keys"
  "''circle_threshold_reached.outer.body'' \<in> set en_keys"
  "''circle_time_frame.month'' \<in> set en_keys"
  "''circle_time_frame.all_time'' \<in> set en_keys"
  "''identity_verification_approved.title'' \<in> set en_keys"
  "''identity_verification_approved.body'' \<in> set en_keys"
  "''identity_verification_declined.title'' \<in> set en_keys"
  "''identity_verification_declined.body'' \<in> set en_keys"
  "''identity_verification_review_started.title'' \<in> set en_keys"
  "''identity_verification_review_started.body'' \<in> set en_keys"
  "''price_changed.up.title'' \<in> set en_keys"
  "''price_changed.up.body'' \<in> set en_keys"
  "''price_changed.down.title'' \<in> set en_keys"
  "''price_changed.down.body'' \<in> set en_keys"
  "''security.link_email_reminder.title'' \<in> set en_keys"
  "''security.link_email_reminder.body'' \<in> set en_keys"
  by code_simp+

lemmas same_texts = circle_type_keys [THEN same_catalogue_simps(1) [rotated]]
  declined_reason_keys [THEN same_catalogue_simps(1) [rotated]] used_keys [THEN same_catalogue_simps(1) [rotated]] same_catalogue_simps(2-5)

lemma same_format:
  "same_catalogue x y \<Longrightarrow> format_minor_units x = format_minor_units y"
  by (auto simp: format_minor_units_def fun_eq_iff same_catalogue_simps split: Currency.split)

lemma printable_format: "printable c \<Longrightarrow> \<exists>s. format_minor_units x c n b = Some s"
  by (auto simp: printable_def format_minor_units_def split: Currency.splits)

lemma transaction_keys:
  "ty = LightningPayment \<or>
   list_all (\<lambda>k. transaction_key ty @ k \<in> set en_keys) [''.title'', ''.body'', ''.body_display_currency'']"
  by (induct ty) code_simp+

lemma same_transaction_msg:
  assumes "same_catalogue x y" "ty \<noteq> LightningPayment"
  shows "transaction_push_msg x ty a d l = transaction_push_msg y ty a d l"
proof -
  have "tr x (transaction_key ty @ k) = tr y (transaction_key ty @ k)"
    if "k \<in> set [''.title'', ''.body'', ''.body_display_currency'']" for k
    using that assms transaction_keys [of ty] by (auto simp: same_catalogue_def list_all_iff)
  then show ?thesis
    using same_format [OF assms(1)]
    by (simp add: transaction_push_msg_def TransactionAmount_display_def Let_def split: option.split)
qed

lemma amount_display_exists: "printable (amount_currency a) \<Longrightarrow> TransactionAmount_display x a \<noteq> None"
  using printable_format [of "amount_currency a" x] by (auto simp: TransactionAmount_display_def)

lemma transaction_msg_exists:
  assumes "amounts_printable (TransactionOccurred ty a d)"
  shows "transaction_push_msg x ty a d l \<noteq> None"
proof (cases d)
  case None
  then show ?thesis
    using assms amount_display_exists [of a x] by (simp add: transaction_push_msg_def Let_def)
next
  case (Some b)
  then show ?thesis
    using assms amount_display_exists [of a x] amount_display_exists [of b x]
    by (auto simp: transaction_push_msg_def Let_def)
qed

lemma push_msg_exists:
  assumes "amounts_printable p"
  shows "\<exists>m. to_localized_push_msg x p l = Some m"
proof (cases p)
  case (TransactionOccurred ty a d)
  then show ?thesis
    using assms transaction_msg_exists [of ty a d x l] by (simp add: event_defs to_localized_push_msg_def)
next
  case (PriceChangedEvent q)
  then show ?thesis
    using assms printable_format [of "price_currency (pc_price q)" x]
    by (auto simp: event_defs message_defs PriceOfOneBitcoin_display_def)
qed (simp_all add: event_defs message_defs)

lemma email_exists: "should_send_email p \<Longrightarrow> \<exists>m. to_localized_email x p l = Some m"
  by (cases p) (simp_all add: event_defs message_defs)

lemma persistent_exists:
  "should_be_added_to_history p \<Longrightarrow> \<exists>m. to_localized_persistent_message x p l = Some m"
  by (cases p) (simp_all add: event_defs message_defs)

lemma same_push_msg:
  assumes "same_catalogue x y" "\<not> is_lightning_payment p"
  shows "to_localized_push_msg x p l = to_localized_push_msg y p l"
proof (cases p)
  case (TransactionOccurred ty a d)
  then show ?thesis
    using assms by (cases ty) (simp_all add: event_defs to_localized_push_msg_def same_transaction_msg)
next
  case (PriceChangedEvent q)
  then show ?thesis
    using same_format [OF assms(1)]
    by (cases "pc_direction q") (simp_all add: event_defs message_defs PriceOfOneBitcoin_display_def same_texts [OF assms(1)])
next
  case (CircleThresholdReached c f n)
  then show ?thesis
    by (cases c; cases f) (simp_all add: event_defs message_defs same_texts [OF assms(1)])
qed (simp_all add: event_defs message_defs same_texts [OF assms(1)] localized_declined_reason_def)

lemma same_email:
  assumes "same_catalogue x y"
  shows "to_localized_email x p l = to_localized_email y p l"
  by (cases p) (simp_all add: event_defs message_defs same_texts [OF assms] localized_declined_reason_def)

lemma same_persistent:
  assumes "same_catalogue x y" "\<not> is_lightning_payment p"
  shows "to_localized_persistent_message x p l = to_localized_persistent_message y p l"
  using same_push_msg [OF assms]
  by (cases p) (simp_all add: event_defs to_localized_persistent_message_def to_localized_push_msg_def push_as_persistent_def)

lemma lightning_keys_missing:
  "set (map (\<lambda>k. transaction_key LightningPayment @ k) [''.title'', ''.body'', ''.body_display_currency''])
     \<inter> set en_keys = {}"
  by code_simp

text \<open>C38: A notification has the texts of every channel it asks for. When its amounts are in a national
  currency or in bitcoin, a notification that is to be pushed has a push message, one that is to
  be mailed has an email, and one that is kept in the history has a stored message, so no call
  reaches a method the notification does not implement; and all texts come from the catalogue of the
  default language: they are the same for any two sets of translations that agree on its keys.
  The exception are lightning payments, none of whose three keys is in the catalogue.
\<close>

theorem notification_texts:
  assumes "amounts_printable p" "same_catalogue x y" "\<not> is_lightning_payment p"
  shows "(should_send_push p \<longrightarrow>
      (\<exists>m. to_localized_push_msg x p l = Some m \<and> to_localized_push_msg y p l = Some m)) \<and>
    (should_send_email p \<longrightarrow> (\<exists>m. to_localized_email x p l = Some m \<and> to_localized_email y p l = Some m)) \<and>
    (should_be_added_to_history p \<longrightarrow> (\<exists>m. to_localized_persistent_message x p l = Some m \<and>
       to_localized_persistent_message y p l = Some m)) \<and>
    set (map (\<lambda>k. transaction_key LightningPayment @ k) [''.title'', ''.body'', ''.body_display_currency''])
      \<inter> set en_keys = {}"
  using push_msg_exists [OF assms(1)] email_exists [of p] persistent_exists [of p] lightning_keys_missing
    same_push_msg [OF assms(2,3)] same_email [OF assms(2)] same_persistent [OF assms(2,3)]
  by metis

definition plain_i18n :: i18n where
  "plain_i18n =
     \<lparr> tr = \<lambda>k l as. k, iso_money = \<lambda>c n b. nat_to_string n, f64_display = \<lambda>_. ''1'',
       f64_one_digit = \<lambda>_. ''5.1'', general_template = \<lambda>s b. b \<rparr>"

definition fallback_i18n :: i18n where
  "fallback_i18n = plain_i18n\<lparr> tr := \<lambda>k l as. if k \<in> set en_keys then k else ''?'' \<rparr>"

theorem notification_texts_witness:
  "let p = TransactionOccurred LightningReceipt
         \<lparr> amount_minor_units = 1, amount_currency = Crypto ''BTC'' \<rparr>
         (Some \<lparr> amount_minor_units = 4, amount_currency = Iso ''USD'' \<rparr>)
   in \<exists>m. to_localized_push_msg plain_i18n p ''es'' = Some m \<and>
          to_localized_push_msg fallback_i18n p ''es'' = Some m"
proof -
  let ?p = "TransactionOccurred LightningReceipt
      \<lparr> amount_minor_units = 1, amount_currency = Crypto ''BTC'' \<rparr>
      (Some \<lparr> amount_minor_units = 4, amount_currency = Iso ''USD'' \<rparr>)"
  have "amounts_printable ?p" "\<not> is_lightning_payment ?p" "should_send_push ?p"
    by (simp_all add: printable_def)
  moreover have "same_catalogue plain_i18n fallback_i18n"
    by (simp add: same_catalogue_def plain_i18n_def fallback_i18n_def)
  ultimately show ?thesis
    unfolding Let_def using notification_texts [of ?p plain_i18n fallback_i18n "''es''"] by blast
qed

end
