(* ===== verification/Notification_History.thy ===== *)
theory Notification_History
  imports Settings_Service Notification_Events
begin

text \<open>
  The notifications a user can read later (\<open>core/notifications/src/history\<close>): the event sourced
  entity, its repository with the three paged lists, and the history service.
\<close>

subsection \<open>The entity\<close>

datatype StatefulNotificationEvent =
    SN_Initialized uuid GaloyUserId LocalizedStatefulMessage NotificationEventPayload
  | SN_Acknowledged timestamp

record StatefulNotification =
  notification_id :: uuid
  notification_user :: GaloyUserId
  notification_message :: LocalizedStatefulMessage
  notification_payload :: NotificationEventPayload
  notification_events :: "StatefulNotificationEvent EntityEvents"

definition deep_link :: "StatefulNotification \<Rightarrow> DeepLink option" where
  "deep_link self =
     (case notification_action (notification_payload self) of
        Some (OpenDeepLink l) \<Rightarrow> Some l | _ \<Rightarrow> None)"

fun first_acknowledged :: "StatefulNotificationEvent list \<Rightarrow> timestamp option" where
  "first_acknowledged [] = None"
| "first_acknowledged (SN_Acknowledged t # _) = Some t"
| "first_acknowledged (SN_Initialized _ _ _ _ # es) = first_acknowledged es"

definition acknowledged_at :: "StatefulNotification \<Rightarrow> timestamp option" where
  "acknowledged_at self = first_acknowledged (iter (notification_events self))"

definition is_acknowledged :: "StatefulNotification \<Rightarrow> bool" where
  "is_acknowledged self \<longleftrightarrow> acknowledged_at self \<noteq> None"

text \<open>The clock of the program is an argument.\<close>

definition acknowledge :: "timestamp \<Rightarrow> StatefulNotification \<Rightarrow> StatefulNotification" where
  "acknowledge utc_now self =
     (if acknowledged_at self = None
      then self\<lparr> notification_events := push (SN_Acknowledged utc_now) (notification_events self) \<rparr>
      else self)"

definition notification_created_at :: "StatefulNotification \<Rightarrow> rust_error + timestamp" where
  "notification_created_at self =
     (case entity_first_persisted_at (notification_events self) of
        None \<Rightarrow> Inl (Panic ''entity_first_persisted_at is set at time on entity creation'')
      | Some t \<Rightarrow> Inr t)"

definition add_to_bulletin :: "StatefulNotification \<Rightarrow> bool" where
  "add_to_bulletin self = should_be_added_to_bulletin (notification_payload self)"

record NewStatefulNotification =
  nsn_id :: uuid
  nsn_user_id :: GaloyUserId
  nsn_message :: LocalizedStatefulMessage
  nsn_payload :: NotificationEventPayload

definition initial_events :: "NewStatefulNotification \<Rightarrow> StatefulNotificationEvent EntityEvents" where
  "initial_events self =
     EntityEvents_init (nsn_id self)
       [SN_Initialized (nsn_id self) (nsn_user_id self) (nsn_message self) (nsn_payload self)]"

definition StatefulNotification_try_from ::
  "StatefulNotificationEvent EntityEvents \<Rightarrow> rust_error + StatefulNotification" where
  "StatefulNotification_try_from evs =
     (case fold (\<lambda>e builder. case e of
          SN_Initialized i u m p \<Rightarrow> Some (i, u, m, p) | SN_Acknowledged _ \<Rightarrow> builder) (iter evs) None of
        None \<Rightarrow> Inl (UninitializedFieldError ''id'')
      | Some (i, u, m, p) \<Rightarrow>
          Inr \<lparr> notification_id = i, notification_user = u, notification_message = m,
                notification_payload = p, notification_events = evs \<rparr>)"

subsection \<open>The repository\<close>

record notification_row =
  sn_id :: uuid
  sn_user :: GaloyUserId
  sn_created_at :: timestamp
  sn_acknowledged :: bool
  sn_bulletin_enabled :: bool

record 'j notification_tables = "'j reminder_tables" +
  stateful_notifications :: "notification_row list"
  stateful_notification_events :: "'j event_row list"

type_synonym 'j notification_codec = "(StatefulNotificationEvent, 'j) event_codec"

text \<open>Inserts into the two tables; an id is unique.\<close>

definition insert_notifications ::
  "(uuid \<times> GaloyUserId \<times> bool) list \<Rightarrow> (('j, 'z) notification_tables_scheme pg, sqlx_error, unit) rust" where
  "insert_notifications vs = pg_stmt (\<lambda>t d.
     if \<not> distinct (map fst vs) \<or> set (map fst vs) \<inter> set (map sn_id (stateful_notifications d)) \<noteq> {}
     then Inl UniqueViolation
     else Inr ((), d\<lparr> stateful_notifications := stateful_notifications d @
       map (\<lambda>(i, u, b). \<lparr> sn_id = i, sn_user = u, sn_created_at = t, sn_acknowledged = False,
         sn_bulletin_enabled = b \<rparr>) vs \<rparr>))"

definition insert_notification_events ::
  "'j event_values list \<Rightarrow> (('j, 'z) notification_tables_scheme pg, sqlx_error, timestamp list) rust" where
  "insert_notification_events vs = pg_stmt (\<lambda>t d.
     case insert_events (map sn_id (stateful_notifications d)) t vs (stateful_notification_events d) of
       Inl e \<Rightarrow> Inl e
     | Inr tab \<Rightarrow> Inr (replicate (length vs) t, d\<lparr> stateful_notification_events := tab \<rparr>))"

definition create_in_tx ::
  "'j notification_codec \<Rightarrow> NewStatefulNotification \<Rightarrow>
   (('j, 'z) notification_tables_scheme pg, rust_error, unit) rust" where
  "create_in_tx c n =
     rs_bind (rs_map_err Sqlx (insert_notifications
       [(nsn_id n, nsn_user_id n, should_be_added_to_bulletin (nsn_payload n))])) (\<lambda>_ db.
     case persist c insert_notification_events (initial_events n) db of
       ((Inl e, _), db') \<Rightarrow> (Inl e, db') | ((Inr _, _), db') \<Rightarrow> (Inr (), db'))"

definition create_new_batch ::
  "'j notification_codec \<Rightarrow> NewStatefulNotification list \<Rightarrow>
   (('j, 'z) notification_tables_scheme pg, rust_error, unit) rust" where
  "create_new_batch c ns =
     rs_bind (rs_map_err Sqlx (insert_notifications
       (map (\<lambda>n. (nsn_id n, nsn_user_id n, should_be_added_to_bulletin (nsn_payload n))) ns))) (\<lambda>_.
     batch_persist c insert_notification_events (map initial_events ns))"

definition repo_update ::
  "'j notification_codec \<Rightarrow> StatefulNotification \<Rightarrow>
   (('j, 'z) notification_tables_scheme pg, rust_error, StatefulNotification) rust" where
  "repo_update c n = in_tx Sqlx
     (rs_bind (rs_map_err Sqlx (pg_stmt (\<lambda>t d.
        Inr ((), d\<lparr> stateful_notifications := map (\<lambda>r.
          if sn_id r = notification_id n \<and> sn_user r = notification_user n
          then r\<lparr> sn_acknowledged := is_acknowledged n \<rparr> else r) (stateful_notifications d) \<rparr>)))) (\<lambda>_ db.
      case persist c insert_notification_events (notification_events n) db of
        ((Inl e, _), db') \<Rightarrow> (Inl e, db')
      | ((Inr _, evs), db') \<Rightarrow> (Inr (n\<lparr> notification_events := evs \<rparr>), db')))"

definition count_unacknowledged_non_bulletins_for_user ::
  "GaloyUserId \<Rightarrow> (('j, 'z) notification_tables_scheme pg, rust_error, nat) rust" where
  "count_unacknowledged_non_bulletins_for_user u = rs_map_err Sqlx (pg_select (\<lambda>db.
     length (filter (\<lambda>r. sn_user r = u \<and> \<not> sn_acknowledged r \<and> \<not> sn_bulletin_enabled r)
       (stateful_notifications (replica db)))))"

definition notification_join ::
  "(notification_row \<Rightarrow> bool) \<Rightarrow> ('j, 'z) notification_tables_scheme \<Rightarrow>
   (notification_row \<times> 'j event_row) list" where
  "notification_join P d =
     concat (map (\<lambda>a. map (Pair a) (rows_of (stateful_notification_events d) (sn_id a)))
       (filter P (stateful_notifications d)))"

definition notification_generic :: "notification_row \<times> 'j event_row \<Rightarrow> 'j GenericEvent" where
  "notification_generic = (\<lambda>(a, e). generic (sn_created_at a) e)"

definition find_by_id ::
  "'j notification_codec \<Rightarrow> GaloyUserId \<Rightarrow> uuid \<Rightarrow>
   (('j, 'z) notification_tables_scheme pg, rust_error, StatefulNotification) rust" where
  "find_by_id c u i =
     rs_bind (rs_map_err Sqlx (pg_select (\<lambda>db.
       map notification_generic
         (sort_key (\<lambda>(a, e). er_sequence e)
           (notification_join (\<lambda>a. sn_user a = u \<and> sn_id a = i) (primary db)))))) (\<lambda>rows db.
     (load_first c StatefulNotification_try_from rows, db))"

text \<open>
  The three lists differ in the condition \<open>Q\<close> on the rows, which the anchor has to meet as well.
  All of them limit the number of rows of the join. The first list puts no condition on the anchor.
\<close>

definition anchor_of :: "(notification_row \<Rightarrow> bool) \<Rightarrow> uuid \<Rightarrow> notification_row list \<Rightarrow> timestamp option" where
  "anchor_of Q i rows = map_option sn_created_at (List.find (\<lambda>r. sn_id r = i \<and> Q r) rows)"

definition notification_page ::
  "(notification_row \<Rightarrow> bool) \<Rightarrow> GaloyUserId \<Rightarrow> nat \<Rightarrow> uuid option \<Rightarrow>
   ('j, 'z) notification_tables_scheme \<Rightarrow> 'j GenericEvent list" where
  "notification_page Q u n after d =
     map notification_generic
       (take (n + 1)
         (sort_key (\<lambda>(a, e). - sn_created_at a)
           (sort_key (\<lambda>(a, e). sn_id a)
             (sort_key (\<lambda>(a, e). er_sequence e)
               (notification_join (\<lambda>a. sn_user a = u \<and> Q a \<and>
                  (case after of
                     None \<Rightarrow> True
                   | Some i \<Rightarrow>
                       (case anchor_of Q i (stateful_notifications d) of
                          None \<Rightarrow> False | Some t \<Rightarrow> sn_created_at a < t))) d)))))"

definition list_page ::
  "(notification_row \<Rightarrow> bool) \<Rightarrow> 'j notification_codec \<Rightarrow> GaloyUserId \<Rightarrow> nat \<Rightarrow> uuid option \<Rightarrow>
   (('j, 'z) notification_tables_scheme pg, rust_error, StatefulNotification list \<times> bool) rust" where
  "list_page Q c u n after =
     rs_bind (rs_map_err Sqlx (pg_select (\<lambda>db. notification_page Q u n after (replica db)))) (\<lambda>rows db.
     (load_n c StatefulNotification_try_from rows n, db))"

definition list_for_user where
  "list_for_user = list_page (\<lambda>_. True)"

definition list_for_user_without_bulletin_enabled where
  "list_for_user_without_bulletin_enabled = list_page (\<lambda>a. \<not> sn_bulletin_enabled a)"

definition list_unacknowledged_bulletins_for_user where
  "list_unacknowledged_bulletins_for_user =
     list_page (\<lambda>a. sn_bulletin_enabled a \<and> \<not> sn_acknowledged a)"

subsection \<open>The history service\<close>

definition add_event ::
  "i18n \<Rightarrow> 'j settings_codec \<Rightarrow> 'j notification_codec \<Rightarrow> GaloyUserId \<Rightarrow> NotificationEventPayload \<Rightarrow>
   (('j, 'z) notification_tables_scheme pg, rust_error, unit) rust" where
  "add_event x sc nc u payload =
     (if \<not> should_be_added_to_history payload then rs_ok ()
      else
        rs_bind (find_for_user_id sc u) (\<lambda>user_settings.
        let l = (case locale_of user_settings of None \<Rightarrow> GaloyLocale_default | Some l \<Rightarrow> l)
        in case to_localized_persistent_message x payload l of
             None \<Rightarrow> rs_err (Panic ''not implemented'')
           | Some msg \<Rightarrow>
               rs_bind new_uuid (\<lambda>i.
               create_in_tx nc
                 \<lparr> nsn_id = i, nsn_user_id = u, nsn_message = msg, nsn_payload = payload \<rparr>)))"

fun new_notifications ::
  "i18n \<Rightarrow> NotificationEventPayload \<Rightarrow> UserNotificationSettings list \<Rightarrow>
   ('d pg, rust_error, NewStatefulNotification list) rust" where
  "new_notifications x payload [] = rs_ok []"
| "new_notifications x payload (s # ss) =
     (let l = (case locale_of s of None \<Rightarrow> GaloyLocale_default | Some l \<Rightarrow> l)
      in case to_localized_persistent_message x payload l of
           None \<Rightarrow> rs_err (Panic ''not implemented'')
         | Some msg \<Rightarrow>
             rs_bind new_uuid (\<lambda>i.
             rs_bind (new_notifications x payload ss) (\<lambda>ns.
             rs_ok (\<lparr> nsn_id = i, nsn_user_id = galoy_user_id s, nsn_message = msg,
                      nsn_payload = payload \<rparr> # ns))))"

definition add_events ::
  "i18n \<Rightarrow> 'j settings_codec \<Rightarrow> 'j notification_codec \<Rightarrow> (GaloyUserId \<Rightarrow> 'k::linorder) \<Rightarrow>
   GaloyUserId list \<Rightarrow> NotificationEventPayload \<Rightarrow>
   (('j, 'z) notification_tables_scheme pg, rust_error, unit) rust" where
  "add_events x sc nc collate user_ids payload =
     (if \<not> should_be_added_to_history payload then rs_ok ()
      else
        rs_bind (find_for_user_ids sc collate user_ids) (\<lambda>ss.
        rs_bind (new_notifications x payload ss) (\<lambda>ns.
        if ns \<noteq> [] then create_new_batch nc ns else rs_ok ())))"

definition acknowledge_notification_for_user ::
  "'j notification_codec \<Rightarrow> timestamp \<Rightarrow> GaloyUserId \<Rightarrow> uuid \<Rightarrow>
   (('j, 'z) notification_tables_scheme pg, rust_error, StatefulNotification) rust" where
  "acknowledge_notification_for_user c utc_now u i =
     rs_bind (find_by_id c u i) (\<lambda>notification.
     repo_update c (acknowledge utc_now notification))"

subsection \<open>Sorting the rows of a join\<close>

text \<open>A stable sort by a key of the group keeps the groups together.\<close>

lemma sort_groups:
  assumes "\<forall>a \<in> set as. \<forall>x \<in> set (g a). k x = h a"
  shows "sort_key k (concat (map g as)) = concat (map g (sort_key h as))"
proof (rule properties_for_sort_key)
  have "mset (concat (map g bs)) = sum_mset (image_mset (mset \<circ> g) (mset bs))" for bs
    by (induction bs) simp_all
  then show "mset (concat (map g (sort_key h as))) = mset (concat (map g as))"
    by simp
  fix x
  assume "x \<in> set (concat (map g (sort_key h as)))"
  have f: "filter (\<lambda>y. k x = k y) (concat (map g bs)) = concat (map g (filter (\<lambda>b. k x = h b) bs))"
    if "set bs \<subseteq> set as" for bs
    using that
  proof (induction bs)
    case (Cons b bs)
    then have "\<forall>y \<in> set (g b). k y = h b"
      using assms by auto
    then have "filter (\<lambda>y. k x = k y) (g b) = (if k x = h b then g b else [])"
      by (auto simp: filter_id_conv filter_empty_conv)
    then show ?case
      using Cons by simp
  qed simp
  have "filter (\<lambda>b. k x = h b) (sort_key h as) = filter (\<lambda>b. k x = h b) as"
    using sort_key_stable [of h "k x" as] by (simp add: eq_commute [of "k x"])
  then show "filter (\<lambda>y. k x = k y) (concat (map g (sort_key h as))) = filter (\<lambda>y. k x = k y) (concat (map g as))"
    by (simp add: f)
next
  have "sorted (map k (concat (map g bs)))" if "sorted (map h bs)" "set bs \<subseteq> set as" for bs
    using that
  proof (induction bs)
    case (Cons b bs)
    have b: "\<forall>y \<in> set (g b). k y = h b"
      using Cons.prems(2) assms by simp
    then have "map k (g b) = replicate (length (g b)) (h b)"
      by (simp add: map_idI list_eq_iff_nth_eq)
    moreover have "h b \<le> k y" if y: "y \<in> set (concat (map g bs))" for y
    proof -
      obtain b' where "b' \<in> set bs" "y \<in> set (g b')"
        using y by auto
      then show ?thesis
        using Cons.prems assms by auto
    qed
    ultimately show ?case
      using Cons b by (auto simp: sorted_append)
  qed simp
  then show "sorted (map k (concat (map g (sort_key h as))))"
    by (simp add: sorted_sort_key)
qed

lemma filter_group:
  assumes "\<forall>a \<in> set as. \<forall>x \<in> set (g a). k x = h a" "inj_on h (set as)" "distinct as" "a \<in> set as"
  shows "filter (\<lambda>y. h a = k y) (concat (map g as)) = g a"
  using assms
proof (induction as)
  case (Cons b bs)
  have "filter (\<lambda>y. h a = k y) (g b) = (if h a = h b then g b else [])"
    using Cons.prems(1) by (auto simp: filter_id_conv filter_empty_conv)
  moreover have ne: "h a \<noteq> h b'" if "a \<noteq> b'" "b' \<in> set (b # bs)" for b'
    using Cons.prems(2,4) that by (metis inj_onD)
  moreover have "filter (\<lambda>y. h a = k y) (concat (map g bs)) = []" if "a = b"
  proof -
    have "h a \<noteq> k y" if "b' \<in> set bs" "y \<in> set (g b')" for y b'
      using that Cons.prems(1,3) ne [of b'] \<open>a = b\<close> by auto
    then show ?thesis
      by (auto simp: filter_empty_conv)
  qed
  ultimately show ?case
    using Cons by (cases "a = b") auto
qed simp

lemma sort_groups_inside:
  assumes "\<forall>a \<in> set as. \<forall>x \<in> set (g a). k x = h a" "inj_on h (set as)" "distinct as"
    "\<forall>a \<in> set as. sorted (map q (g a))"
  shows "sort_key k (sort_key q (concat (map g as))) = concat (map g (sort_key h as))"
  unfolding sort_groups [OF assms(1), symmetric]
proof (rule properties_for_sort_key)
  fix x
  assume "x \<in> set (sort_key k (concat (map g as)))"
  then obtain a where a: "a \<in> set as" "x \<in> set (g a)"
    by auto
  then have x: "k x = h a"
    using assms(1) by blast
  have f: "filter (\<lambda>y. k x = k y) (concat (map g as)) = g a"
    unfolding x by (rule filter_group [OF assms(1-3) a(1)])
  have "filter (\<lambda>y. k x = k y) (sort_key k (concat (map g as))) = g a"
    using f sort_key_stable [of k "k x" "concat (map g as)"] by (simp add: eq_commute [of "k x"])
  moreover have "filter (\<lambda>y. k x = k y) (sort_key q (concat (map g as))) = g a"
    using f assms(4) a(1) by (simp add: filter_sort sort_key_id_if_sorted)
  ultimately show "filter (\<lambda>y. k x = k y) (sort_key k (concat (map g as))) =
      filter (\<lambda>y. k x = k y) (sort_key q (concat (map g as)))"
    by simp
qed (simp_all add: sorted_sort_key)

subsection \<open>Pages\<close>

text \<open>
  The invariant of the notification tables: the events of a notification are its
  initialisation, followed by its acknowledgement when the row is marked as acknowledged.
\<close>

abbreviation (input) nevs_of where "nevs_of d \<equiv> stateful_notification_events d"

definition notifications_ok :: "'j notification_codec \<Rightarrow> ('j, 'z) notification_tables_scheme \<Rightarrow> bool" where
  "notifications_ok c d \<longleftrightarrow>
     table_ok c (nevs_of d) \<and> distinct (map sn_id (stateful_notifications d)) \<and>
     (\<forall>r \<in> set (nevs_of d). er_id r \<in> sn_id ` set (stateful_notifications d)) \<and>
     (\<forall>a \<in> set (stateful_notifications d). \<exists>m p t.
        stored c (nevs_of d) (sn_id a) =
          SN_Initialized (sn_id a) (sn_user a) m p # (if sn_acknowledged a then [SN_Acknowledged t] else []))"

text \<open>The notifications a list shows, in its order.\<close>

definition listed ::
  "(notification_row \<Rightarrow> bool) \<Rightarrow> GaloyUserId \<Rightarrow> uuid option \<Rightarrow> ('j, 'z) notification_tables_scheme \<Rightarrow>
   notification_row list" where
  "listed Q u after d =
     sort_key (\<lambda>a. - sn_created_at a) (sort_key sn_id
       (filter (\<lambda>a. sn_user a = u \<and> Q a \<and>
          (case after of
             None \<Rightarrow> True
           | Some i \<Rightarrow> (case anchor_of Q i (stateful_notifications d) of
                None \<Rightarrow> False | Some t \<Rightarrow> sn_created_at a < t))) (stateful_notifications d)))"

lemma listed_rows: "set (listed Q u after d) \<subseteq> set (stateful_notifications d)"
  by (auto simp: listed_def)

lemma listed_distinct:
  "notifications_ok c d \<Longrightarrow> distinct (map sn_id (listed Q u after d))"
proof -
  assume "notifications_ok c d"
  then have "distinct (map sn_id (stateful_notifications d))"
    by (simp add: notifications_ok_def)
  then have "distinct (listed Q u after d)" "inj_on sn_id (set (stateful_notifications d))"
    by (auto simp: listed_def distinct_map)
  then show ?thesis
    using listed_rows by (metis distinct_map inj_on_subset)
qed

definition row_group :: "('j, 'z) notification_tables_scheme \<Rightarrow> notification_row \<Rightarrow> (notification_row \<times> 'j event_row) list" where
  "row_group d a = map (Pair a) (rows_of (nevs_of d) (sn_id a))"

lemma notification_page_eq:
  assumes "notifications_ok c d"
  shows "notification_page Q u n after d =
    map notification_generic (take (n + 1) (concat (map (row_group d) (listed Q u after d))))"
proof -
  define as where "as = filter (\<lambda>a. sn_user a = u \<and> Q a \<and>
      (case after of
         None \<Rightarrow> True
       | Some i \<Rightarrow> (case anchor_of Q i (stateful_notifications d) of
            None \<Rightarrow> False | Some t \<Rightarrow> sn_created_at a < t))) (stateful_notifications d)"
  have tab: "table_ok c (nevs_of d)" and d: "distinct (map sn_id (stateful_notifications d))"
    using assms by (auto simp: notifications_ok_def)
  have "distinct as" "inj_on sn_id (set as)"
    using d by (auto simp: as_def distinct_map inj_on_def)
  moreover have "\<forall>a \<in> set as. sorted (map (\<lambda>(a, e). er_sequence e) (row_group d a))"
  proof
    fix a :: notification_row
    have "sorted (map er_sequence (rows_of (nevs_of d) (sn_id a)))"
      using sorted_sort_key [of er_sequence "rows_of (nevs_of d) (sn_id a)"] rows_of_sorted [OF tab] by simp
    then show "sorted (map (\<lambda>(a, e). er_sequence e) (row_group d a))"
      by (simp add: row_group_def comp_def)
  qed
  ultimately have "sort_key (\<lambda>(a, e). sn_id a) (sort_key (\<lambda>(a, e). er_sequence e)
      (concat (map (row_group d) as))) = concat (map (row_group d) (sort_key sn_id as))"
    by (intro sort_groups_inside) (auto simp: row_group_def)
  moreover have "sort_key (\<lambda>(a, e). - sn_created_at a) (concat (map (row_group d) (sort_key sn_id as))) =
      concat (map (row_group d) (sort_key (\<lambda>a. - sn_created_at a) (sort_key sn_id as)))"
    by (rule sort_groups) (auto simp: row_group_def)
  ultimately show ?thesis
    unfolding notification_page_def notification_join_def listed_def as_def row_group_def by simp
qed

definition page_group :: "('j, 'z) notification_tables_scheme \<Rightarrow> nat \<Rightarrow> notification_row \<Rightarrow> 'j entity_group" where
  "page_group d k a = (sn_id a, sn_created_at a, take k (rows_of (nevs_of d) (sn_id a)))"

lemma group_events_append: "group_events (xs @ ys) = group_events xs @ group_events ys"
  by (simp add: group_events_def)

lemma group_events_rows:
  assumes "\<forall>a \<in> set as. length (row_group d a) \<le> k"
  shows "group_events (map (page_group d k) as) = map notification_generic (concat (map (row_group d) as))"
  using assms
  by (induction as)
    (simp_all add: group_events_def page_group_def row_group_def notification_generic_def comp_def)

lemma try_from_notification:
  "iter evs = SN_Initialized i u m p # map SN_Acknowledged ts \<Longrightarrow>
   StatefulNotification_try_from evs =
     Inr \<lparr> notification_id = i, notification_user = u, notification_message = m,
           notification_payload = p, notification_events = evs \<rparr>"
proof -
  have "fold (\<lambda>e builder. case e of
      SN_Initialized i u m p \<Rightarrow> Some (i, u, m, p) | SN_Acknowledged _ \<Rightarrow> builder) (map SN_Acknowledged ts) b = b" for b
    by (induction ts) simp_all
  then show "iter evs = SN_Initialized i u m p # map SN_Acknowledged ts \<Longrightarrow> ?thesis"
    by (simp add: StatefulNotification_try_from_def)
qed

text \<open>What a row of a list becomes when the first \<open>k\<close> of its events are read.\<close>

lemma loaded_notification:
  assumes c: "serde_ok c" and ok: "notifications_ok c d" and a: "a \<in> set (stateful_notifications d)" and k: "0 < k"
  obtains x where
    "StatefulNotification_try_from (loaded_entity c (sn_id a) (sn_created_at a)
       (take k (rows_of (nevs_of d) (sn_id a)))) = Inr x"
    "notification_id x = sn_id a" "is_acknowledged x \<longleftrightarrow> sn_acknowledged a \<and> 2 \<le> k"
    "length (rows_of (nevs_of d) (sn_id a)) = (if sn_acknowledged a then 2 else 1)"
proof -
  let ?rows = "rows_of (nevs_of d) (sn_id a)"
  obtain m p t where st: "stored c (nevs_of d) (sn_id a) =
      SN_Initialized (sn_id a) (sn_user a) m p # (if sn_acknowledged a then [SN_Acknowledged t] else [])"
    using ok a by (auto simp: notifications_ok_def)
  let ?evs = "loaded_entity c (sn_id a) (sn_created_at a) (take k ?rows)"
  have "iter ?evs = take k (stored c (nevs_of d) (sn_id a))"
    by (simp add: iter_def stored_def take_map)
  also have "\<dots> = SN_Initialized (sn_id a) (sn_user a) m p #
      map SN_Acknowledged (if sn_acknowledged a \<and> 2 \<le> k then [t] else [])"
    using k by (cases k) (auto simp: st take_Cons' numeral_2_eq_2)
  finally have it: "iter ?evs = SN_Initialized (sn_id a) (sn_user a) m p #
      map SN_Acknowledged (if sn_acknowledged a \<and> 2 \<le> k then [t] else [])" .
  have "length ?rows = length (stored c (nevs_of d) (sn_id a))"
    by simp
  then have "length ?rows = (if sn_acknowledged a then 2 else 1)"
    unfolding st by simp
  then show thesis
    using that [OF try_from_notification [OF it]] it
    by (simp add: is_acknowledged_def acknowledged_at_def)
qed

lemma row_group_length:
  assumes "serde_ok c" "notifications_ok c d" "a \<in> set (stateful_notifications d)"
  shows "length (row_group d a) = (if sn_acknowledged a then 2 else 1)"
proof -
  obtain x where "length (rows_of (nevs_of d) (sn_id a)) = (if sn_acknowledged a then 2 else 1)"
    using loaded_notification [OF assms zero_less_one] .
  then show ?thesis
    by (simp add: row_group_def)
qed

lemma page_groups_ok:
  assumes "serde_ok c" "notifications_ok c d" "set as \<subseteq> set (stateful_notifications d)"
    "distinct (map sn_id as)" "\<forall>a \<in> set as. 0 < f a"
  shows "groups_ok c (map (\<lambda>a. page_group d (f a) a) as)"
proof -
  have tab: "table_ok c (nevs_of d)"
    using assms(2) by (simp add: notifications_ok_def)
  have "rows_of (nevs_of d) (sn_id a) \<noteq> []" if "a \<in> set as" for a
    using loaded_notification [OF assms(1,2), of a 1] that assms(3) by (metis (no_types) length_0_conv one_neq_zero
      subsetD zero_neq_numeral less_one)
  moreover have "decodable c (take k (rows_of (nevs_of d) i))" for k i
    using decodable_rows [OF assms(1) tab] by (meson in_set_takeD)
  moreover have "er_id r = i" if "r \<in> set (take k (rows_of (nevs_of d) i))" for r k i
    using in_set_takeD [OF that] by (simp add: rows_of_def)
  ultimately show ?thesis
    using assms(4,5) by (auto simp: groups_ok_def page_group_def comp_def)
qed

lemma load_page:
  assumes "serde_ok c" "notifications_ok c d" "set as \<subseteq> set (stateful_notifications d)"
    "distinct (map sn_id as)" "\<forall>a \<in> set as. 0 < f a" "0 < n"
  obtains ns where
    "load_n c StatefulNotification_try_from (group_events (map (\<lambda>a. page_group d (f a) a) as)) n =
       Inr (ns, n < length as)"
    "map notification_id ns = map sn_id (take n as)"
    "map is_acknowledged ns = map (\<lambda>a. sn_acknowledged a \<and> 2 \<le> f a) (take n as)"
proof -
  define x where "x = (\<lambda>(i, cr, rows). projr (StatefulNotification_try_from (loaded_entity c i cr rows)))"
  let ?gs = "map (\<lambda>a. page_group d (f a) a) as"
  have x: "StatefulNotification_try_from (loaded_entity c i cr rows) = Inr (x (i, cr, rows)) \<and>
      notification_id (x (i, cr, rows)) = sn_id a \<and>
      (is_acknowledged (x (i, cr, rows)) \<longleftrightarrow> sn_acknowledged a \<and> 2 \<le> f a)"
    if "a \<in> set as" "page_group d (f a) a = (i, cr, rows)" for a i cr rows
    using loaded_notification [OF assms(1,2), of a "f a"] that assms(3,5)
    unfolding page_group_def x_def by (metis (no_types, lifting) Pair_inject case_prod_conv subsetD sum.sel(2))
  then have "\<forall>(i, cr, rows) \<in> set ?gs. StatefulNotification_try_from (loaded_entity c i cr rows) = Inr (x (i, cr, rows))"
    by (auto simp: page_group_def)
  from load_n_groups [OF page_groups_ok [OF assms(1-5)] assms(6) this]
  have "load_n c StatefulNotification_try_from (group_events ?gs) n =
      Inr (take n (map (\<lambda>a. x (page_group d (f a) a)) as), n < length as)"
    by (simp add: comp_def)
  moreover have "notification_id (x (page_group d (f a) a)) = sn_id a"
    "is_acknowledged (x (page_group d (f a) a)) \<longleftrightarrow> sn_acknowledged a \<and> 2 \<le> f a" if "a \<in> set as" for a
    using x [OF that] by (metis surj_pair)+
  ultimately show thesis
    using that [of "take n (map (\<lambda>a. x (page_group d (f a) a)) as)"]
    by (auto simp: take_map comp_def dest: in_set_takeD)
qed

lemma take_pairs:
  assumes "\<forall>a \<in> set as. length (g a) = 2"
  shows "take (2 * m) (concat (map g as)) = concat (map g (take m as))"
  using assms
proof (induction as arbitrary: m)
  case (Cons a as)
  then obtain y z where "g a = [y, z]"
    by (auto simp: length_Suc_conv numeral_2_eq_2)
  then show ?case
    using Cons by (cases m) simp_all
qed simp

lemma take_pairs_odd:
  assumes "\<forall>a \<in> set as. length (g a) = 2" "m < length as"
  shows "take (2 * m + 1) (concat (map g as)) = concat (map g (take m as)) @ [hd (g (as ! m))]"
  using assms
proof (induction as arbitrary: m)
  case (Cons a as)
  then obtain y z where "g a = [y, z]"
    by (auto simp: length_Suc_conv numeral_2_eq_2)
  then show ?case
    using Cons by (cases m) simp_all
qed simp

lemma take_singletons:
  assumes "\<forall>a \<in> set as. length (g a) = 1"
  shows "take m (concat (map g as)) = concat (map g (take m as))"
  using assms
proof (induction as arbitrary: m)
  case (Cons a as)
  then obtain y where "g a = [y]"
    by (auto simp: length_Suc_conv)
  then show ?case
    using Cons by (cases m) simp_all
qed simp

lemma list_page_run:
  assumes "faultless db"
  shows "list_page Q c u n after db =
    (load_n c StatefulNotification_try_from (notification_page Q u n after (replica db)) n, db)"
  using assms by (simp add: list_page_def rs_bind_def rs_map_err_def)

lemma unread_page:
  assumes c: "serde_ok c" and ok: "notifications_ok c d" and n: "0 < n"
    and as: "\<forall>a \<in> set (listed Q u after d). \<not> sn_acknowledged a"
  obtains ns where
    "load_n c StatefulNotification_try_from (notification_page Q u n after d) n =
       Inr (ns, n < length (listed Q u after d))"
    "map notification_id ns = map sn_id (take n (listed Q u after d))"
proof -
  let ?as = "listed Q u after d" and ?bs = "take (n + 1) (listed Q u after d)"
  have rows: "a \<in> set (stateful_notifications d)" if "a \<in> set ?as" for a
    using that listed_rows by blast
  have one: "length (row_group d a) = 1" if "a \<in> set ?as" for a
    using row_group_length [OF c ok rows [OF that]] as that by simp
  then have "take (n + 1) (concat (map (row_group d) ?as)) = concat (map (row_group d) ?bs)"
    by (intro take_singletons) simp
  moreover have "\<forall>a \<in> set ?bs. length (row_group d a) \<le> 1"
    using one by (auto dest: in_set_takeD)
  ultimately have page: "notification_page Q u n after d = group_events (map (page_group d 1) ?bs)"
    by (simp only: notification_page_eq [OF ok] group_events_rows)
  have "set ?bs \<subseteq> set (stateful_notifications d)"
    using rows by (auto dest: in_set_takeD)
  moreover have "distinct (map sn_id ?bs)"
    using listed_distinct [OF ok, of Q u after] by (simp add: take_map [symmetric])
  ultimately obtain ns where
    "load_n c StatefulNotification_try_from (group_events (map (page_group d 1) ?bs)) n = Inr (ns, n < length ?bs)"
    "map notification_id ns = map sn_id (take n ?bs)"
    using load_page [OF c ok, of ?bs "\<lambda>_. 1" n] n by auto
  then show thesis
    using that by (simp add: page min_def)
qed

text \<open>The events on a page of acknowledged notifications: the last one is cut when \<open>n\<close> is even.\<close>

lemma read_page_groups:
  fixes n :: nat and as :: "notification_row list"
  defines "f \<equiv> \<lambda>a. if even n \<and> a = as ! (n div 2) then (1::nat) else 2"
  assumes two: "\<forall>a \<in> set as. length (row_group d a) = 2" and len: "n div 2 < length as" and d: "distinct as"
  shows "map notification_generic (take (n + 1) (concat (map (row_group d) as))) =
    group_events (map (\<lambda>a. page_group d (f a) a) (take (n div 2 + 1) as))"
proof (cases "even n")
  case False
  then have "n + 1 = 2 * (n div 2 + 1)"
    by presburger
  then have "take (n + 1) (concat (map (row_group d) as)) = concat (map (row_group d) (take (n div 2 + 1) as))"
    using take_pairs [OF two, of "n div 2 + 1"] by metis
  moreover have "\<forall>a \<in> set (take (n div 2 + 1) as). length (row_group d a) \<le> 2"
    using two by (auto dest: in_set_takeD)
  ultimately show ?thesis
    using False group_events_rows [of "take (n div 2 + 1) as" d 2] by (simp add: f_def)
next
  case True
  let ?m = "n div 2"
  let ?a = "as ! ?m"
  have "n + 1 = 2 * ?m + 1"
    using True by simp
  then have ev: "take (n + 1) (concat (map (row_group d) as)) =
      concat (map (row_group d) (take ?m as)) @ [hd (row_group d ?a)]"
    using take_pairs_odd [OF two len] by metis
  have "row_group d ?a \<noteq> []"
    using two len by (metis length_0_conv nth_mem zero_neq_numeral)
  then have "group_events [page_group d 1 ?a] = [notification_generic (hd (row_group d ?a))]"
    by (simp add: group_events_def page_group_def row_group_def notification_generic_def take_Suc hd_map)
  moreover have "group_events (map (page_group d 2) (take ?m as)) =
      map notification_generic (concat (map (row_group d) (take ?m as)))"
    using two by (intro group_events_rows) (auto dest: in_set_takeD)
  moreover have "a \<noteq> ?a" if "a \<in> set (take ?m as)" for a
    using that d len by (auto simp: in_set_conv_nth nth_eq_iff_index_eq)
  then have "map (\<lambda>a. page_group d (f a) a) (take (?m + 1) as) =
      map (page_group d 2) (take ?m as) @ [page_group d 1 ?a]"
    using len True by (simp add: take_Suc_conv_app_nth f_def)
  ultimately show ?thesis
    unfolding ev by (simp add: group_events_append)
qed

lemma read_page:
  assumes c: "serde_ok c" and ok: "notifications_ok c d" and n: "0 < n"
    and as: "\<forall>a \<in> set (listed Q u after d). sn_acknowledged a" "n div 2 < length (listed Q u after d)"
  obtains ns where
    "load_n c StatefulNotification_try_from (notification_page Q u n after d) n = Inr (ns, False)"
    "map notification_id ns = map sn_id (take (n div 2 + 1) (listed Q u after d))"
    "even n \<longrightarrow> \<not> is_acknowledged (last ns)"
proof -
  let ?as = "listed Q u after d" and ?bs = "take (n div 2 + 1) (listed Q u after d)"
  define f where "f = (\<lambda>a. if even n \<and> a = ?as ! (n div 2) then (1::nat) else 2)"
  have rows: "a \<in> set (stateful_notifications d)" if "a \<in> set ?as" for a
    using that listed_rows by blast
  have two: "\<forall>a \<in> set ?as. length (row_group d a) = 2"
    using row_group_length [OF c ok rows] as(1) by simp
  have dist: "distinct (map sn_id ?as)"
    by (rule listed_distinct [OF ok])
  have page: "notification_page Q u n after d = group_events (map (\<lambda>a. page_group d (f a) a) ?bs)"
    using read_page_groups [OF two as(2)] dist
    by (simp add: notification_page_eq [OF ok] distinct_map f_def)
  have "set ?bs \<subseteq> set (stateful_notifications d)"
    using rows by (auto dest: in_set_takeD)
  moreover have "distinct (map sn_id ?bs)"
    using dist by (simp add: take_map [symmetric])
  moreover have "\<forall>a \<in> set ?bs. 0 < f a"
    by (simp add: f_def)
  ultimately obtain ns where ns:
    "load_n c StatefulNotification_try_from (group_events (map (\<lambda>a. page_group d (f a) a) ?bs)) n =
       Inr (ns, n < length ?bs)"
    "map notification_id ns = map sn_id (take n ?bs)"
    "map is_acknowledged ns = map (\<lambda>a. sn_acknowledged a \<and> 2 \<le> f a) (take n ?bs)"
    by (rule load_page [OF c ok _ _ _ n])
  have le: "n div 2 + 1 \<le> n"
    using n by presburger
  then have bs: "take n ?bs = ?bs" "\<not> n < length ?bs"
    by simp_all
  have "\<not> is_acknowledged (last ns)" if "even n"
  proof -
    have bs': "?bs \<noteq> []" "last ?bs = ?as ! (n div 2)"
      using as(2) by (auto simp: take_Suc_conv_app_nth)
    have ne: "ns \<noteq> []"
      using ns(2) bs(1) bs'(1) by (metis list.map_disc_iff)
    have "is_acknowledged (last ns) = last (map is_acknowledged ns)"
      using ne by (simp add: last_map)
    also have "\<dots> = last (map (\<lambda>a. sn_acknowledged a \<and> 2 \<le> f a) ?bs)"
      using ns(3) bs(1) by simp
    also have "\<dots> = (sn_acknowledged (last ?bs) \<and> 2 \<le> f (last ?bs))"
      using bs'(1) by (simp add: last_map)
    finally show ?thesis
      using that unfolding bs'(2) f_def by simp
  qed
  then show thesis
    using that ns bs by (simp add: page)
qed

text \<open>C39: The pages of notifications are cut by events, not by notifications. As long as none of the
  listed notifications is acknowledged a page holds the next \<open>n\<close> of them, newest first, and tells
  rightly whether there are more. When they are all acknowledged, so that each has two events, a
  page of \<open>n\<close> holds only about half as many, claims that there are no more whatever follows, and when
  \<open>n\<close> is even its last notification is shown as not acknowledged.
\<close>

theorem notification_pages:
  assumes "serde_ok c" "faultless db" "notifications_ok c (replica db)" "0 < n"
  shows "((\<forall>a \<in> set (listed Q u after (replica db)). \<not> sn_acknowledged a) \<longrightarrow>
      (\<exists>ns. list_page Q c u n after db = (Inr (ns, n < length (listed Q u after (replica db))), db) \<and>
         map notification_id ns = map sn_id (take n (listed Q u after (replica db))))) \<and>
    ((\<forall>a \<in> set (listed Q u after (replica db)). sn_acknowledged a) \<and>
     n div 2 < length (listed Q u after (replica db)) \<longrightarrow>
      (\<exists>ns. list_page Q c u n after db = (Inr (ns, False), db) \<and>
         map notification_id ns = map sn_id (take (n div 2 + 1) (listed Q u after (replica db))) \<and>
         (even n \<longrightarrow> \<not> is_acknowledged (last ns))))"
proof (intro conjI impI)
  assume "\<forall>a \<in> set (listed Q u after (replica db)). \<not> sn_acknowledged a"
  then show "\<exists>ns. list_page Q c u n after db = (Inr (ns, n < length (listed Q u after (replica db))), db) \<and>
      map notification_id ns = map sn_id (take n (listed Q u after (replica db)))"
    unfolding list_page_run [OF assms(2)] using unread_page [OF assms(1,3,4)] by metis
next
  assume "(\<forall>a \<in> set (listed Q u after (replica db)). sn_acknowledged a) \<and>
    n div 2 < length (listed Q u after (replica db))"
  then show "\<exists>ns. list_page Q c u n after db = (Inr (ns, False), db) \<and>
      map notification_id ns = map sn_id (take (n div 2 + 1) (listed Q u after (replica db))) \<and>
      (even n \<longrightarrow> \<not> is_acknowledged (last ns))"
    unfolding list_page_run [OF assms(2)] using read_page [OF assms(1,3,4)] by metis
qed

text \<open>A user with three acknowledged notifications.\<close>

definition example_event_row :: "uuid \<Rightarrow> int \<Rightarrow> StatefulNotificationEvent \<Rightarrow> StatefulNotificationEvent event_row" where
  "example_event_row i sq e =
     \<lparr> er_id = i, er_sequence = sq, er_event_type = ''event'', er_event = e, er_recorded_at = 0 \<rparr>"

definition example_initialized :: "uuid \<Rightarrow> StatefulNotificationEvent" where
  "example_initialized i = SN_Initialized i ''alice''
     \<lparr> msg_locale = ''en'', msg_title = ''t'', msg_body = ''b'' \<rparr> LinkEmailReminder"

definition example_history :: "StatefulNotificationEvent notification_tables" where
  "example_history =
     \<lparr> user_notification_settings = [], user_notification_settings_events = [],
       email_reminder_projection = [],
       stateful_notifications = map (\<lambda>(i, t).
         \<lparr> sn_id = i, sn_user = ''alice'', sn_created_at = t, sn_acknowledged = True,
           sn_bulletin_enabled = False \<rparr>) [(''a'', 1), (''b'', 2), (''c'', 3)],
       stateful_notification_events =
         map (\<lambda>i. example_event_row i 1 (example_initialized i)) [''a'', ''b'', ''c''] @
         map (\<lambda>i. example_event_row i 2 (SN_Acknowledged 9)) [''a'', ''b'', ''c''] \<rparr>"

lemma example_history_ok: "notifications_ok id_codec example_history"
proof -
  have "map er_sequence (rows_of (nevs_of example_history) i) =
      map (\<lambda>k. int (Suc k)) [0..<length (rows_of (nevs_of example_history) i)]" for i
    by (auto simp: example_history_def rows_of_def example_event_row_def)
  then show ?thesis
    by (auto simp: notifications_ok_def table_ok_def)
      (auto simp: example_history_def example_event_row_def id_codec_def stored_def rows_of_def
        example_initialized_def)
qed

theorem notification_pages_witness:
  "\<exists>ns. list_for_user id_codec ''alice'' 2 None (fresh_pg example_history) =
       (Inr (ns, False), fresh_pg example_history) \<and>
     map notification_id ns = [''c'', ''b''] \<and> \<not> is_acknowledged (last ns)"
proof -
  let ?as = "listed (\<lambda>_. True) ''alice'' None example_history"
  have "map sn_id ?as = [''c'', ''b'', ''a'']" "list_all sn_acknowledged ?as"
    by code_simp+
  then have "\<forall>a \<in> set ?as. sn_acknowledged a" "length ?as = 3" "map sn_id (take 2 ?as) = [''c'', ''b'']"
    by (simp_all add: list_all_iff take_map [symmetric]) (metis length_map length_Cons list.size(3) numeral_3_eq_3)
  then show ?thesis
    using notification_pages [OF id_codec_ok, of "fresh_pg example_history" 2 "\<lambda>_. True" "''alice''" None]
      example_history_ok by (simp add: list_for_user_def numeral_2_eq_2)
qed

end
