(* ===== verification/Notification_Jobs.thy ===== *)
theory Notification_Jobs
  imports Notification_History
begin

text \<open>
  Sending notifications (\<open>core/notifications/src/job\<close>, \<open>push_executor\<close>, \<open>email_executor\<close>,
  \<open>notification_cool_off_tracker\<close> and the event handlers of \<open>app/mod.rs\<close>): an event is turned into
  jobs in a queue in the same transaction that records it; jobs for all users work through the
  users page by page. A job that succeeds commits its work and leaves the queue; the retries of a
  job that fails are in \<open>Job_Executor\<close>.
\<close>

subsection \<open>Jobs\<close>

datatype notification_job =
    AllUserEventDispatch GaloyUserId NotificationEventPayload
  | MultiUserEventDispatch "GaloyUserId list" NotificationEventPayload
  | SendPushNotification GaloyUserId NotificationEventPayload
  | SendEmailNotification GaloyUserId NotificationEventPayload
  | LinkEmailReminderJob GaloyUserId
  | KickoffLinkEmailReminder

record 'j job_tables = "'j notification_tables" +
  notification_cool_off_tracker :: "(string \<times> timestamp option) list"
  mq_jobs :: "notification_job list"

type_synonym ('j, 'z, 'a) notification_op = "(('j, 'z) job_tables_scheme pg, rust_error, 'a) rust"

definition spawn_job :: "notification_job \<Rightarrow> ('j, 'z, unit) notification_op" where
  "spawn_job j = rs_map_err Sqlx (pg_stmt (\<lambda>t d. Inr ((), d\<lparr> mq_jobs := mq_jobs d @ [j] \<rparr>)))"

definition spawn_send_push_notification where
  "spawn_send_push_notification u p = spawn_job (SendPushNotification u p)"

definition spawn_send_email_notification where
  "spawn_send_email_notification u p = spawn_job (SendEmailNotification u p)"

definition spawn_all_user_event_dispatch where
  "spawn_all_user_event_dispatch u p = spawn_job (AllUserEventDispatch u p)"

definition spawn_multi_user_event_dispatch where
  "spawn_multi_user_event_dispatch us p = spawn_job (MultiUserEventDispatch us p)"

definition spawn_link_email_reminder where
  "spawn_link_email_reminder u = spawn_job (LinkEmailReminderJob u)"

text \<open>The kick-off job has a fixed id: a second one is a duplicate key, which is not an error.\<close>

definition spawn_kickoff_link_email_reminder :: "('j, 'z, unit) notification_op" where
  "spawn_kickoff_link_email_reminder = rs_map_err Sqlx (pg_stmt (\<lambda>t d.
     if KickoffLinkEmailReminder \<in> set (mq_jobs d) then Inr ((), d)
     else Inr ((), d\<lparr> mq_jobs := mq_jobs d @ [KickoffLinkEmailReminder] \<rparr>)))"

text \<open>Completing a job takes it off the queue, in the transaction of its work.\<close>

definition complete_job :: "notification_job \<Rightarrow> ('j, 'z, unit) notification_op" where
  "complete_job j = rs_map_err Sqlx (pg_stmt (\<lambda>t d. Inr ((), d\<lparr> mq_jobs := remove1 j (mq_jobs d) \<rparr>)))"

text \<open>The parameters of the service.\<close>

record ('j, 'k) notifier =
  nf_i18n :: i18n
  nf_settings_codec :: "'j settings_codec"
  nf_codec :: "'j notification_codec"
  nf_collate :: "GaloyUserId \<Rightarrow> 'k"
  nf_returning :: "GaloyUserId list \<Rightarrow> GaloyUserId list"
  nf_reminders :: EmailReminderProjectionConfig

definition spawn_for_user :: "NotificationEventPayload \<Rightarrow> GaloyUserId \<Rightarrow> ('j, 'z, unit) notification_op" where
  "spawn_for_user payload u =
     rs_bind (rs_when (should_send_email payload) (spawn_send_email_notification u payload)) (\<lambda>_.
     rs_when (should_send_push payload) (spawn_send_push_notification u payload))"

definition all_user_event_dispatch ::
  "('j, 'k::linorder) notifier \<Rightarrow> GaloyUserId \<Rightarrow> NotificationEventPayload \<Rightarrow> ('j, 'z, unit) notification_op" where
  "all_user_event_dispatch nf search_id payload =
     rs_bind (list_ids_after (nf_collate nf) search_id) (\<lambda>(ids, more_ids).
     in_tx Sqlx
       (rs_bind (rs_when more_ids (spawn_all_user_event_dispatch (last ids) payload)) (\<lambda>_.
        rs_bind (add_events (nf_i18n nf) (nf_settings_codec nf) (nf_codec nf) (nf_collate nf) ids payload) (\<lambda>_.
        rs_bind (rs_for ids (spawn_for_user payload)) (\<lambda>_.
        complete_job (AllUserEventDispatch search_id payload))))))"

definition link_email_reminder ::
  "('j, 'k::linorder) notifier \<Rightarrow> GaloyUserId \<Rightarrow> ('j, 'z, unit) notification_op" where
  "link_email_reminder nf search_id =
     in_tx Sqlx
       (rs_bind (list_ids_to_notify_after (nf_reminders nf) (nf_collate nf) (nf_returning nf) search_id)
          (\<lambda>(ids, more_ids).
        rs_bind (rs_when more_ids (spawn_link_email_reminder (last ids))) (\<lambda>_.
        rs_bind (add_events (nf_i18n nf) (nf_settings_codec nf) (nf_codec nf) (nf_collate nf) ids
          LinkEmailReminder) (\<lambda>_.
        rs_bind (rs_for ids (\<lambda>u. rs_when (should_send_push LinkEmailReminder)
          (spawn_send_push_notification u LinkEmailReminder))) (\<lambda>_.
        complete_job (LinkEmailReminderJob search_id))))))"

definition kickoff_link_email_reminder :: "('j, 'z, unit) notification_op" where
  "kickoff_link_email_reminder =
     rs_bind (in_tx Sqlx
       (rs_bind (spawn_link_email_reminder search_begin) (\<lambda>_.
        complete_job KickoffLinkEmailReminder))) (\<lambda>_.
     spawn_kickoff_link_email_reminder)"

definition batch_limit :: nat where
  "batch_limit = 1000"

definition multi_user_event_dispatch ::
  "('j, 'k::linorder) notifier \<Rightarrow> GaloyUserId list \<Rightarrow> NotificationEventPayload \<Rightarrow> ('j, 'z, unit) notification_op" where
  "multi_user_event_dispatch nf user_ids payload =
     (let k = min (length user_ids) batch_limit;
          ids = take k user_ids;
          next_user_ids = drop k user_ids
      in in_tx Sqlx
           (rs_bind (rs_when (next_user_ids \<noteq> []) (spawn_multi_user_event_dispatch next_user_ids payload)) (\<lambda>_.
            rs_bind (add_events (nf_i18n nf) (nf_settings_codec nf) (nf_codec nf) (nf_collate nf) ids payload) (\<lambda>_.
            rs_bind (rs_for ids (spawn_for_user payload)) (\<lambda>_.
            complete_job (MultiUserEventDispatch user_ids payload))))))"

subsection \<open>Executors\<close>

text \<open>The answers of the push service for a device.\<close>

datatype fcm_result = Delivered | StaleDeviceToken | FcmFailed

fun send_to_devices ::
  "(PushDeviceToken \<Rightarrow> fcm_result) \<Rightarrow> PushDeviceToken list \<Rightarrow>
   UserNotificationSettings \<times> bool \<times> bool \<times> nat \<Rightarrow> UserNotificationSettings \<times> bool \<times> bool \<times> nat" where
  "send_to_devices send [] acc = acc"
| "send_to_devices send (t # ts) (settings, should_persist, failed, n_deliveries) =
     send_to_devices send ts
       (case send t of
          StaleDeviceToken \<Rightarrow> (settings_remove_push_device_token t settings, True, failed, n_deliveries)
        | FcmFailed \<Rightarrow> (settings, should_persist, True, n_deliveries)
        | Delivered \<Rightarrow> (settings, should_persist, failed, n_deliveries + 1))"

text \<open>
  \<open>PushExecutor::notify\<close>; \<open>order\<close> is the iteration order of the set of devices. The result of saving
  the settings is ignored.
\<close>

definition push_notify ::
  "('j, 'k) notifier \<Rightarrow> (PushDeviceToken \<Rightarrow> fcm_result) \<Rightarrow> (PushDeviceToken set \<Rightarrow> PushDeviceToken list) \<Rightarrow>
   GaloyUserId \<Rightarrow> NotificationEventPayload \<Rightarrow> ('j, 'z, unit) notification_op" where
  "push_notify nf send order u payload =
     rs_bind (find_for_user_id (nf_settings_codec nf) u) (\<lambda>settings.
     if \<not> should_send_notification Push (category payload) settings then rs_ok ()
     else
       case to_localized_push_msg (nf_i18n nf) payload
              (case locale_of settings of None \<Rightarrow> GaloyLocale_default | Some l \<Rightarrow> l) of
         None \<Rightarrow> rs_err (Panic ''not implemented'')
       | Some msg \<Rightarrow>
           (let (settings', should_persist, failed, n_deliveries) =
                  send_to_devices send (order (push_device_tokens settings)) (settings, False, False, 0)
            in (\<lambda>db.
              let db' = (if should_persist
                         then snd (settings_persist (nf_settings_codec nf) settings' db) else db)
              in (if failed \<and> n_deliveries = 0 then Inl (External ''Fcm'') else Inr (), db'))))"

definition execute_send_push_notification where
  "execute_send_push_notification nf send order u payload =
     rs_bind (push_notify nf send order u payload) (\<lambda>_.
     complete_job (SendPushNotification u payload))"

text \<open>\<open>EmailExecutor::notify\<close>: the address and the mail that is sent, if any.\<close>

definition email_notify ::
  "('j, 'k) notifier \<Rightarrow> bool \<Rightarrow> (LocalizedEmail \<Rightarrow> GaloyEmailAddress \<Rightarrow> bool) \<Rightarrow> GaloyUserId \<Rightarrow>
   NotificationEventPayload \<Rightarrow> ('j, 'z, unit) notification_op" where
  "email_notify nf enabled smtp u payload =
     (if \<not> enabled then rs_ok ()
      else (\<lambda>db.
        case find_for_user_id (nf_settings_codec nf) u db of
          (Inl _, db') \<Rightarrow> (Inr (), db')
        | (Inr settings, db') \<Rightarrow>
            (case email_address settings of
               None \<Rightarrow> (Inr (), db')
             | Some addr \<Rightarrow>
                 (case to_localized_email (nf_i18n nf) payload
                         (case locale_of settings of None \<Rightarrow> GaloyLocale_default | Some l \<Rightarrow> l) of
                    None \<Rightarrow> (Inl (Panic ''not implemented''), db')
                  | Some msg \<Rightarrow>
                      if smtp msg addr then (Inr (), db') else (Inl (External ''Smtp''), db')))))"

definition execute_send_email_notification where
  "execute_send_email_notification nf enabled smtp u payload =
     rs_bind (email_notify nf enabled smtp u payload) (\<lambda>_.
     complete_job (SendEmailNotification u payload))"

subsection \<open>Event handlers\<close>

definition handle_single_user_event ::
  "('j, 'k) notifier \<Rightarrow> GaloyUserId \<Rightarrow> NotificationEventPayload \<Rightarrow> ('j, 'z, unit) notification_op" where
  "handle_single_user_event nf u payload =
     in_tx Sqlx
       (rs_bind (rs_when (should_send_email payload) (spawn_send_email_notification u payload)) (\<lambda>_.
        rs_bind (add_event (nf_i18n nf) (nf_settings_codec nf) (nf_codec nf) u payload) (\<lambda>_.
        rs_when (should_send_push payload) (spawn_send_push_notification u payload))))"

definition handle_transaction_occurred_event where
  "handle_transaction_occurred_event nf u ty a d =
     rs_bind (find_for_user_id (nf_settings_codec nf) u) (\<lambda>user_settings.
     rs_bind (rs_when (email_address user_settings = None) (transaction_occurred_for_user_without_email u)) (\<lambda>_.
     handle_single_user_event nf u (TransactionOccurred ty a d)))"

definition NOTIFICATION_THRESHOLD :: jsnum where
  "NOTIFICATION_THRESHOLD = Fin 5"

definition COOL_OFF_PERIOD :: int where
  "COOL_OFF_PERIOD = mins (2 * 24 * 60)"

definition should_notify :: "PriceChanged \<Rightarrow> timestamp \<Rightarrow> timestamp option \<Rightarrow> bool" where
  "should_notify self utc_now last_trigger =
     (if js_le NOTIFICATION_THRESHOLD (pc_change_percent self)
      then case last_trigger of
             Some last_trigger_time \<Rightarrow> utc_now - last_trigger_time > COOL_OFF_PERIOD
           | None \<Rightarrow> True
      else False)"

definition bump_price_trigger ::
  "timestamp \<Rightarrow> ('j, 'z) job_tables_scheme \<Rightarrow> sqlx_error + timestamp option \<times> ('j, 'z) job_tables_scheme" where
  "bump_price_trigger t d =
     (case map_of (notification_cool_off_tracker d) ''price_changed'' of
        None \<Rightarrow> Inl RowNotFound
      | Some last_triggered_at \<Rightarrow>
          Inr (last_triggered_at, d\<lparr> notification_cool_off_tracker :=
            map (\<lambda>(k, v). if k = ''price_changed'' then (k, Some t) else (k, v))
              (notification_cool_off_tracker d) \<rparr>))"

definition update_price_changed_trigger :: "('j, 'z, timestamp option) notification_op" where
  "update_price_changed_trigger = rs_map_err Sqlx (pg_stmt bump_price_trigger)"

text \<open>The transaction is committed only when everybody is notified, and dropped otherwise.\<close>

definition handle_price_changed_event ::
  "timestamp \<Rightarrow> PriceChanged \<Rightarrow> ('j, 'z, unit) notification_op" where
  "handle_price_changed_event utc_now price_changed = (\<lambda>db.
     case rs_bind (rs_map_err Sqlx (pg_select (\<lambda>_. ()))) (\<lambda>_.
          rs_bind update_price_changed_trigger (\<lambda>last_trigger.
          if should_notify price_changed utc_now last_trigger
          then rs_bind (spawn_all_user_event_dispatch search_begin (PriceChangedEvent price_changed)) (\<lambda>_.
               rs_bind (rs_map_err Sqlx (pg_select (\<lambda>_. ()))) (\<lambda>_. rs_ok True))
          else rs_ok False)) db of
       (Inl e, db') \<Rightarrow> (Inl e, db'\<lparr> primary := primary db \<rparr>)
     | (Inr committed, db') \<Rightarrow> (Inr (), if committed then db' else db'\<lparr> primary := primary db \<rparr>))"

definition handle_marketing_notification_triggered_event ::
  "GaloyUserId list \<Rightarrow> MarketingNotificationTriggered \<Rightarrow> ('j, 'z, unit) notification_op" where
  "handle_marketing_notification_triggered_event user_ids marketing_notification =
     in_tx Sqlx (spawn_multi_user_event_dispatch user_ids (MarketingTriggered marketing_notification))"

subsection \<open>Price notifications keep their distance\<close>

text \<open>The time of the last price notification.\<close>

definition last_price_trigger :: "('j, 'z) job_tables_scheme \<Rightarrow> timestamp option option" where
  "last_price_trigger d = map_of (notification_cool_off_tracker d) ''price_changed''"

lemma bump_price_trigger_cases:
  assumes "bump_price_trigger t d = Inr (v, d')"
  shows "last_price_trigger d = Some v \<and> last_price_trigger d' = Some (Some t) \<and> mq_jobs d' = mq_jobs d"
proof -
  have "map_of (map (\<lambda>(k, v). if k = ''price_changed'' then (k, Some t) else (k, v)) xs) ''price_changed'' =
      map_option (\<lambda>_. Some t) (map_of xs ''price_changed'')" for xs :: "(string \<times> timestamp option) list"
    by (induction xs) auto
  then show ?thesis
    using assms by (auto simp: bump_price_trigger_def last_price_trigger_def split: option.splits)
qed

lemma spawn_job_cases:
  assumes "spawn_job j db = (r, db')"
  obtains (fault) "r = Inl (Sqlx ConnectionFailed)" "\<not> faultless db" "primary db' = primary db" "same_session db db'"
    | (ok) "r = Inr ()" "primary db' = (primary db)\<lparr> mq_jobs := mq_jobs (primary db) @ [j] \<rparr>" "same_session db db'"
proof -
  obtain x s where s: "pg_stmt (\<lambda>t d. Inr ((), d\<lparr> mq_jobs := mq_jobs d @ [j] \<rparr>)) db = (x, s)"
    by (meson surj_pair)
  have r: "(r, db') = (case x of Inl e \<Rightarrow> (Inl (Sqlx e), s) | Inr v \<Rightarrow> (Inr v, s))"
    using assms s by (auto simp: spawn_job_def rs_map_err_def split: sum.split)
  from s show thesis
    by (cases rule: pg_stmt_cases) (use r that in auto)
qed

lemma handle_price_changed_cases:
  assumes "handle_price_changed_event utc p db = (r, db')"
  obtains (silent) "primary db' = primary db"
    | (notified) v where "should_notify p utc v" "last_price_trigger (primary db) = Some v"
      "last_price_trigger (primary db') = Some (Some (tx_now db))"
      "mq_jobs (primary db') = mq_jobs (primary db) @ [AllUserEventDispatch search_begin (PriceChangedEvent p)]"
proof -
  let ?commit = "rs_map_err Sqlx (pg_select (\<lambda>_. ()))"
  let ?spawn = "spawn_job (AllUserEventDispatch search_begin (PriceChangedEvent p))"
  let ?body = "rs_bind update_price_changed_trigger (\<lambda>last_trigger.
      if should_notify p utc last_trigger
      then rs_bind ?spawn (\<lambda>_. rs_bind ?commit (\<lambda>_. rs_ok True)) else rs_ok False)"
  obtain x s0 where s0: "pg_select (\<lambda>_. ()) db = (x, s0)"
    by (meson surj_pair)
  obtain y s1 where s1: "pg_stmt bump_price_trigger s0 = (y, s1)"
    by (meson surj_pair)
  obtain z s2 where s2: "?spawn s1 = (z, s2)"
    by (meson surj_pair)
  obtain w s3 where s3: "pg_select (\<lambda>_. ()) s2 = (w, s3)"
    by (meson surj_pair)
  note run = assms [unfolded handle_price_changed_event_def spawn_all_user_event_dispatch_def
      update_price_changed_trigger_def]
  show thesis
  proof (cases "isl x \<or> isl y \<or> \<not> should_notify p utc (projr y) \<or> isl z \<or> isl w")
    case True
    then have "primary db' = primary db"
      using run s0 s1 s2 s3
      by (cases x; cases y; cases z; cases w)
        (auto simp: rs_bind_def rs_map_err_def rs_ok_def split: if_splits)
    then show ?thesis
      by (rule that(1))
  next
    case False
    then obtain v where v: "x = Inr ()" "y = Inr v" "z = Inr ()" "w = Inr ()" "should_notify p utc v"
      by (cases x; cases y; cases z; cases w) auto
    have "db' = s3"
      using run s0 s1 s2 s3 v by (simp add: rs_bind_def rs_map_err_def rs_ok_def)
    moreover have "primary s0 = primary db" "tx_now s0 = tx_now db"
      using s0 v(1) by (auto simp: pg_select_def Let_def split: if_splits)
    moreover have "bump_price_trigger (tx_now s0) (primary s0) = Inr (v, primary s1)"
      using s1 v(2) by (auto simp: pg_stmt_def Let_def split: if_splits sum.splits)
    moreover have "primary s2 = (primary s1)\<lparr> mq_jobs := mq_jobs (primary s1) @
        [AllUserEventDispatch search_begin (PriceChangedEvent p)] \<rparr>"
      using s2 v(3) by (cases rule: spawn_job_cases) auto
    moreover have "primary s3 = primary s2"
      using s3 by (cases rule: pg_select_cases) auto
    ultimately show ?thesis
      using that(2) [OF v(5)] bump_price_trigger_cases [of "tx_now s0" "primary s0" v "primary s1"]
      by (simp add: last_price_trigger_def)
  qed
qed

text \<open>
  The price changes that arrive, each with the time of the database and of the program, and the
  times at which all users were notified.
\<close>

fun price_dispatches ::
  "(timestamp \<times> timestamp \<times> PriceChanged) list \<Rightarrow> ('j, 'z) job_tables_scheme pg \<Rightarrow>
   (timestamp \<times> timestamp) list" where
  "price_dispatches [] db = []"
| "price_dispatches ((t, utc, p) # es) db =
     (let (r, db') = handle_price_changed_event utc p (db\<lparr> tx_now := t \<rparr>)
      in (if mq_jobs (primary db') = mq_jobs (primary db) then [] else [(t, utc)]) @ price_dispatches es db')"

lemma price_dispatches_spaced:
  assumes "last_price_trigger (primary db) = Some v"
  shows "successively (\<lambda>d d'. snd d' - fst d > COOL_OFF_PERIOD) (price_dispatches es db) \<and>
    (\<forall>t d ds. v = Some t \<longrightarrow> price_dispatches es db = d # ds \<longrightarrow> snd d - t > COOL_OFF_PERIOD)"
  using assms
proof (induction es arbitrary: db v)
  case (Cons e es)
  obtain t utc p where e: "e = (t, utc, p)"
    by (cases e) auto
  obtain r db' where h: "handle_price_changed_event utc p (db\<lparr> tx_now := t \<rparr>) = (r, db')"
    by (meson surj_pair)
  from h show ?case
  proof (cases rule: handle_price_changed_cases)
    case silent
    then show ?thesis
      using Cons.IH [of db' v] Cons.prems h by (simp add: e)
  next
    case (notified v')
    then have "price_dispatches (e # es) db = (t, utc) # price_dispatches es db'" "v' = v"
      using h Cons.prems by (auto simp: e)
    moreover have "utc - t' > COOL_OFF_PERIOD" if "v = Some t'" for t'
      using notified(1) that \<open>v' = v\<close> by (simp add: should_notify_def split: if_splits)
    ultimately show ?thesis
      using Cons.IH [of db' "Some t"] notified(3)
      by (cases "price_dispatches es db'") auto
  qed
qed simp

text \<open>C30: Everybody is notified of a price change at most once in two days. In any sequence of price
  changes, with any faults of the database, more than the cool-off time lies between the time
  recorded with one notification of all users and the next one, and also between a notification
  recorded earlier and the first of them. A change below the threshold notifies nobody.
\<close>

theorem price_notifications_spaced:
  assumes "last_price_trigger (primary db) = Some v"
  shows "successively (\<lambda>d d'. snd d' - fst d > COOL_OFF_PERIOD) (price_dispatches es db) \<and>
    (\<forall>t d ds. v = Some t \<longrightarrow> price_dispatches es db = d # ds \<longrightarrow> snd d - t > COOL_OFF_PERIOD) \<and>
    (\<forall>utc p r db'. handle_price_changed_event utc p db = (r, db') \<longrightarrow>
       \<not> js_le NOTIFICATION_THRESHOLD (pc_change_percent p) \<longrightarrow> primary db' = primary db)"
proof -
  have "primary db' = primary db" if "handle_price_changed_event utc p db = (r, db')"
    "\<not> js_le NOTIFICATION_THRESHOLD (pc_change_percent p)" for utc p r db'
    using that by (cases rule: handle_price_changed_cases) (auto simp: should_notify_def)
  then show ?thesis
    using price_dispatches_spaced [OF assms] by blast
qed

definition example_jobs :: "notification_job list \<Rightarrow> (unit) job_tables" where
  "example_jobs js =
     \<lparr> user_notification_settings = [], user_notification_settings_events = [],
       email_reminder_projection = [], stateful_notifications = [], stateful_notification_events = [],
       notification_cool_off_tracker = [(''price_changed'', None)], mq_jobs = js \<rparr>"

definition example_price_change :: PriceChanged where
  "example_price_change =
     \<lparr> pc_price = \<lparr> price_minor_units = 100000, price_currency = Iso ''USD'' \<rparr>, pc_direction = Up,
       pc_change_percent = Fin (51 / 10) \<rparr>"

lemma handle_price_run:
  assumes "faultless db" "bump_price_trigger (tx_now db) (primary db) = Inr (v, d)"
  shows "handle_price_changed_event utc p db =
    (Inr (), if should_notify p utc v
             then db\<lparr> primary := d\<lparr> mq_jobs := mq_jobs d @
                    [AllUserEventDispatch search_begin (PriceChangedEvent p)] \<rparr> \<rparr>
             else db)"
  using assms
  by (simp add: handle_price_changed_event_def update_price_changed_trigger_def rs_bind_def rs_map_err_def
      rs_ok_def spawn_all_user_event_dispatch_def spawn_job_def pg_stmt_run)

theorem price_notifications_spaced_witness:
  "let ds = price_dispatches
         [(mins 0, mins 0, example_price_change), (mins 1440, mins 1440, example_price_change),
          (mins 2881, mins 2881, example_price_change)] (fresh_pg (example_jobs []))
   in ds = [(mins 0, mins 0), (mins 2881, mins 2881)] \<and>
      successively (\<lambda>d d'. snd d' - fst d > COOL_OFF_PERIOD) ds"
proof -
  have "last_price_trigger (primary (fresh_pg (example_jobs []))) = Some None"
    by (simp add: last_price_trigger_def example_jobs_def)
  moreover have "price_dispatches
      [(mins 0, mins 0, example_price_change), (mins 1440, mins 1440, example_price_change),
       (mins 2881, mins 2881, example_price_change)] (fresh_pg (example_jobs [])) =
      [(mins 0, mins 0), (mins 2881, mins 2881)]"
    by (simp add: handle_price_run bump_price_trigger_def example_jobs_def should_notify_def
        example_price_change_def NOTIFICATION_THRESHOLD_def js_le_def js_lt_def COOL_OFF_PERIOD_def mins_def)
  ultimately show ?thesis
    unfolding Let_def using price_notifications_spaced by metis
qed

subsection \<open>A notification of all users reaches each of them once\<close>

definition user_jobs :: "NotificationEventPayload \<Rightarrow> GaloyUserId \<Rightarrow> notification_job list" where
  "user_jobs p u =
     (if should_send_email p then [SendEmailNotification u p] else []) @
     (if should_send_push p then [SendPushNotification u p] else [])"

definition with_jobs :: "notification_job list \<Rightarrow> ('j, 'z) job_tables_scheme pg \<Rightarrow> ('j, 'z) job_tables_scheme pg" where
  "with_jobs js db = db\<lparr> primary := (primary db)\<lparr> mq_jobs := js \<rparr> \<rparr>"

lemma with_jobs_simps [simp]:
  "faults (with_jobs js db) = faults db" "mq_jobs (primary (with_jobs js db)) = js"
  "with_jobs ks (with_jobs js db) = with_jobs ks db"
  "user_notification_settings (primary (with_jobs js db)) = user_notification_settings (primary db)"
  by (simp_all add: with_jobs_def)

lemma with_jobs_same [simp]: "with_jobs (mq_jobs (primary db)) db = db"
  by (simp add: with_jobs_def)

lemma spawn_job_run: "faultless db \<Longrightarrow> spawn_job j db = (Inr (), with_jobs (mq_jobs (primary db) @ [j]) db)"
  by (simp add: spawn_job_def pg_stmt_run rs_map_err_def with_jobs_def)

lemma complete_job_run:
  "faultless db \<Longrightarrow> complete_job j db = (Inr (), with_jobs (remove1 j (mq_jobs (primary db))) db)"
  by (simp add: complete_job_def pg_stmt_run rs_map_err_def with_jobs_def)

lemma spawn_for_user_run:
  "faultless db \<Longrightarrow> spawn_for_user p u db = (Inr (), with_jobs (mq_jobs (primary db) @ user_jobs p u) db)"
  by (simp add: spawn_for_user_def rs_bind_def rs_when_def rs_ok_def user_jobs_def spawn_job_run
      spawn_send_email_notification_def spawn_send_push_notification_def)

lemma spawn_for_users_run:
  "faultless db \<Longrightarrow>
   rs_for us (spawn_for_user p) db = (Inr (), with_jobs (mq_jobs (primary db) @ concat (map (user_jobs p) us)) db)"
proof (induction us arbitrary: db)
  case (Cons u us)
  then show ?case
    by (simp add: rs_bind_def spawn_for_user_run)
qed (simp add: rs_ok_def)

text \<open>The users after \<open>i\<close>, in the order of the pages.\<close>

definition users_after :: "(GaloyUserId \<Rightarrow> 'k::linorder) \<Rightarrow> GaloyUserId \<Rightarrow> ('j, 'z) settings_tables_scheme \<Rightarrow> GaloyUserId list" where
  "users_after collate i d =
     sort_key collate (filter (\<lambda>u. collate u > collate i) (map sr_user (user_notification_settings d)))"

lemma list_ids_after_run:
  assumes "faultless db"
  shows "list_ids_after collate i db =
    (Inr (take PAGINATION_BATCH_SIZE (users_after collate i (primary db)),
          length (users_after collate i (primary db)) > PAGINATION_BATCH_SIZE), db)"
  using assms
  by (simp add: list_ids_after_def rs_bind_def rs_map_err_def rs_ok_def users_after_def min_def)

lemma all_user_dispatch_run:
  assumes "faultless db" "\<not> should_be_added_to_history p"
    and us: "us = users_after (nf_collate nf) i (primary db)"
  shows "all_user_event_dispatch nf i p db =
    (Inr (), with_jobs (remove1 (AllUserEventDispatch i p) (mq_jobs (primary db) @
       (if length us > PAGINATION_BATCH_SIZE
        then [AllUserEventDispatch (last (take PAGINATION_BATCH_SIZE us)) p] else []) @
       concat (map (user_jobs p) (take PAGINATION_BATCH_SIZE us)))) db)"
  using assms
  by (simp add: all_user_event_dispatch_def rs_bind_def list_ids_after_run in_tx_run rs_when_def rs_ok_def
      spawn_all_user_event_dispatch_def spawn_job_run add_events_def spawn_for_users_run complete_job_run)

lemma filter_above_last:
  fixes f :: "'a \<Rightarrow> 'k::linorder"
  assumes "sorted_wrt (\<lambda>a b. f a < f b) xs" "0 < n" "n < length xs"
  shows "filter (\<lambda>u. f (last (take n xs)) < f u) xs = drop n xs"
proof -
  let ?l = "last (take n xs)"
  have split: "sorted_wrt (\<lambda>a b. f a < f b) (take n xs @ drop n xs)"
    using assms(1) by simp
  have l: "take n xs = butlast (take n xs) @ [?l]"
    using assms(2,3) by (intro append_butlast_last_id [symmetric]) auto
  have low: "f u \<le> f ?l" if "u \<in> set (take n xs)" for u
  proof -
    have "sorted_wrt (\<lambda>a b. f a < f b) (butlast (take n xs) @ [?l])"
      using assms(1) l by (metis sorted_wrt_take)
    moreover have "u \<in> set (butlast (take n xs)) \<or> u = ?l"
      using that l by (metis Un_iff empty_iff empty_set list.set_intros(1) set_ConsD set_append)
    ultimately show ?thesis
      by (auto simp: sorted_wrt_append)
  qed
  have "?l \<in> set (take n xs)"
    using assms(2,3) by (intro last_in_set) auto
  then have high: "f ?l < f u" if "u \<in> set (drop n xs)" for u
    using split that unfolding sorted_wrt_append by blast
  have "filter (\<lambda>u. f ?l < f u) (take n xs) = []" "filter (\<lambda>u. f ?l < f u) (drop n xs) = drop n xs"
    using low high by (auto simp: filter_empty_conv filter_id_conv leD)
  then show ?thesis
    by (metis append_Nil append_take_drop_id filter_append)
qed

lemma users_after_strict:
  assumes "distinct (map sr_user (user_notification_settings d))"
    and "inj_on collate (set (map sr_user (user_notification_settings d)))"
  shows "sorted_wrt (\<lambda>a b. collate a < collate b) (users_after collate i d)"
proof -
  let ?us = "users_after collate i d"
  have "set ?us \<subseteq> set (map sr_user (user_notification_settings d))"
    by (auto simp: users_after_def)
  then have "distinct (map collate ?us)"
    using assms by (simp add: distinct_map inj_on_subset users_after_def)
  then have "sorted_wrt (<) (map collate ?us)"
    by (simp add: strict_sorted_iff users_after_def)
  then show ?thesis
    by (simp add: sorted_wrt_map)
qed

lemma users_after_page:
  assumes "distinct (map sr_user (user_notification_settings d))"
    and "inj_on collate (set (map sr_user (user_notification_settings d)))"
    and "0 < n" "n < length (users_after collate i d)"
  shows "users_after collate (last (take n (users_after collate i d))) d = drop n (users_after collate i d)"
proof -
  let ?us = "users_after collate i d" and ?rows = "map sr_user (user_notification_settings d)"
  let ?l = "last (take n ?us)"
  have "?l \<in> set (take n ?us)"
    using assms(3,4) by (intro last_in_set) auto
  then have "collate i < collate ?l"
    by (auto dest: in_set_takeD simp: users_after_def)
  then have "filter (\<lambda>u. collate ?l < collate u) ?rows =
      filter (\<lambda>u. collate ?l < collate u) (filter (\<lambda>u. collate i < collate u) ?rows)"
    by (auto intro!: filter_cong)
  then have "users_after collate ?l d = filter (\<lambda>u. collate ?l < collate u) ?us"
    by (simp add: users_after_def filter_sort)
  then show ?thesis
    using filter_above_last [OF users_after_strict [OF assms(1,2)] assms(3,4)] by simp
qed

text \<open>
  The runner works through the dispatch jobs of the queue: the number of jobs it ran, or nothing
  when \<open>fuel\<close> of them are not enough.
\<close>

fun run_dispatches ::
  "('j, 'k::linorder) notifier \<Rightarrow> nat \<Rightarrow> ('j, 'z) job_tables_scheme pg \<Rightarrow> (nat \<times> ('j, 'z) job_tables_scheme pg) option" where
  "run_dispatches nf fuel db =
     (case find (\<lambda>j. case j of AllUserEventDispatch _ _ \<Rightarrow> True | _ \<Rightarrow> False) (mq_jobs (primary db)) of
        Some (AllUserEventDispatch i p) \<Rightarrow>
          (case fuel of
             0 \<Rightarrow> None
           | Suc k \<Rightarrow> map_option (\<lambda>(n, db'). (Suc n, db'))
               (run_dispatches nf k (snd (all_user_event_dispatch nf i p db))))
      | _ \<Rightarrow> Some (0, db))"

declare run_dispatches.simps [simp del]

abbreviation no_dispatch :: "notification_job list \<Rightarrow> bool" where
  "no_dispatch js \<equiv> \<forall>i p. AllUserEventDispatch i p \<notin> set js"

lemma find_dispatch:
  "no_dispatch pre \<Longrightarrow>
   find (\<lambda>j. case j of AllUserEventDispatch _ _ \<Rightarrow> True | _ \<Rightarrow> False) (pre @ AllUserEventDispatch i p # post) =
   Some (AllUserEventDispatch i p)"
  by (induction pre) (auto split: notification_job.splits)

lemma find_no_dispatch:
  "no_dispatch js \<Longrightarrow> find (\<lambda>j. case j of AllUserEventDispatch _ _ \<Rightarrow> True | _ \<Rightarrow> False) js = None"
  by (auto simp: find_None_iff split: notification_job.splits)

lemma no_dispatch_user_jobs: "no_dispatch (concat (map (user_jobs p) us))"
  by (auto simp: user_jobs_def)

lemma run_dispatches_all:
  fixes db :: "('j, 'z) job_tables_scheme pg"
  assumes "faultless db" "\<not> should_be_added_to_history p"
    and "distinct (map sr_user (user_notification_settings (primary db)))"
    and "inj_on (nf_collate nf) (set (map sr_user (user_notification_settings (primary db))))"
    and "mq_jobs (primary db) = pre @ AllUserEventDispatch i p # post" "no_dispatch pre" "no_dispatch post"
    and "length (users_after (nf_collate nf) i (primary db)) \<le> PAGINATION_BATCH_SIZE * Suc k"
  shows "\<exists>n \<le> Suc k. run_dispatches nf (Suc k) db =
    Some (n, with_jobs (pre @ post @ concat (map (user_jobs p) (users_after (nf_collate nf) i (primary db)))) db)"
  using assms
proof (induction k arbitrary: db i pre post)
  case 0
  let ?us = "users_after (nf_collate nf) i (primary db)"
  have "snd (all_user_event_dispatch nf i p db) =
      with_jobs (pre @ post @ concat (map (user_jobs p) ?us)) db"
    using 0 by (simp add: all_user_dispatch_run remove1_append)
  moreover have "no_dispatch (pre @ post @ concat (map (user_jobs p) ?us))"
    using 0(6,7) no_dispatch_user_jobs [of p ?us] by auto
  ultimately show ?case
    using 0(5,6)
    by (subst run_dispatches.simps) (simp add: find_dispatch run_dispatches.simps [of nf 0] find_no_dispatch)
next
  case (Suc k)
  let ?c = "nf_collate nf" and ?B = PAGINATION_BATCH_SIZE
  let ?us = "users_after ?c i (primary db)"
  show ?case
  proof (cases "length ?us > ?B")
    case False
    have "snd (all_user_event_dispatch nf i p db) =
        with_jobs (pre @ post @ concat (map (user_jobs p) ?us)) db"
      using Suc.prems False by (simp add: all_user_dispatch_run remove1_append)
    moreover have "no_dispatch (pre @ post @ concat (map (user_jobs p) ?us))"
      using Suc.prems(6,7) no_dispatch_user_jobs [of p ?us] by auto
    ultimately show ?thesis
      using Suc.prems(5,6)
      by (subst run_dispatches.simps) (simp add: find_dispatch run_dispatches.simps [of nf "Suc k"] find_no_dispatch)
  next
    case True
    let ?l = "last (take ?B ?us)" and ?js = "concat (map (user_jobs p) (take ?B ?us))"
    let ?db = "with_jobs ((pre @ post) @ AllUserEventDispatch ?l p # ?js) db"
    have step: "snd (all_user_event_dispatch nf i p db) = ?db"
      using Suc.prems True by (simp add: all_user_dispatch_run remove1_append)
    have next_us: "users_after ?c ?l (primary ?db) = drop ?B ?us"
      using users_after_page [OF Suc.prems(3,4) _ True]
      by (simp add: users_after_def PAGINATION_BATCH_SIZE_def)
    have len: "length (users_after ?c ?l (primary ?db)) \<le> ?B * Suc k"
      using Suc.prems(8) next_us by simp
    have "\<exists>n\<le>Suc k. run_dispatches nf (Suc k) ?db =
        Some (n, with_jobs ((pre @ post) @ ?js @ concat (map (user_jobs p) (drop ?B ?us))) ?db)"
      unfolding next_us [symmetric]
      using Suc.prems len no_dispatch_user_jobs [of p "take ?B ?us"]
      by (intro Suc.IH) auto
    then show ?thesis
      using Suc.prems(5,6) step
      by (subst run_dispatches.simps)
        (auto simp: find_dispatch simp flip: concat_append map_append)
  qed
qed

lemma bump_price_trigger_tables:
  "bump_price_trigger t d = Inr (v, d') \<Longrightarrow>
   mq_jobs d' = mq_jobs d \<and> user_notification_settings d' = user_notification_settings d"
  by (auto simp: bump_price_trigger_def split: option.splits)

text \<open>C29: a price change that is notified reaches every user, and the chain of jobs that works through
  them ends. With \<open>N\<close> users, the runner empties the queue of dispatch jobs in at most \<open>N div 1000 + 1\<close>
  runs; then the queue has one push job for each user, in the order of the user ids, and nothing
  else has been added. The users have distinct ids (the primary key), the order of the ids tells
  them apart and puts all of them after the start of the search, and no other dispatch is pending.
\<close>

theorem price_change_reaches_everybody:
  assumes "faultless db" "no_dispatch (mq_jobs (primary db))"
    and "last_price_trigger (primary db) = Some v" "should_notify pc utc v"
    and "distinct (map sr_user (user_notification_settings (primary db)))"
    and "inj_on (nf_collate nf) (set (map sr_user (user_notification_settings (primary db))))"
    and "\<forall>u \<in> set (map sr_user (user_notification_settings (primary db))).
      nf_collate nf search_begin < nf_collate nf u"
  shows "\<exists>n db'. n \<le> length (user_notification_settings (primary db)) div 1000 + 1 \<and>
    run_dispatches nf (length (user_notification_settings (primary db)) div 1000 + 1)
      (snd (handle_price_changed_event utc pc db)) = Some (n, db') \<and>
    mq_jobs (primary db') = mq_jobs (primary db) @
      map (\<lambda>u. SendPushNotification u (PriceChangedEvent pc))
        (sort_key (nf_collate nf) (map sr_user (user_notification_settings (primary db))))"
proof -
  let ?p = "PriceChangedEvent pc" and ?c = "nf_collate nf"
  let ?rows = "map sr_user (user_notification_settings (primary db))"
  obtain d where d: "bump_price_trigger (tx_now db) (primary db) = Inr (v, d)"
    using assms(3) by (auto simp: bump_price_trigger_def last_price_trigger_def)
  note t = bump_price_trigger_tables [OF d]
  let ?db = "snd (handle_price_changed_event utc pc db)"
  have db: "?db = db\<lparr> primary := d\<lparr> mq_jobs := mq_jobs d @ [AllUserEventDispatch search_begin ?p] \<rparr> \<rparr>"
    using handle_price_run [OF assms(1) d] assms(4) by simp
  have us: "users_after ?c search_begin (primary ?db) = sort_key ?c ?rows"
    using assms(7) t by (simp add: db users_after_def filter_id_conv)
  have "\<exists>n \<le> Suc (length ?rows div 1000). run_dispatches nf (Suc (length ?rows div 1000)) ?db =
      Some (n, with_jobs (mq_jobs d @ [] @ concat (map (user_jobs ?p) (users_after ?c search_begin (primary ?db)))) ?db)"
    using assms t us by (intro run_dispatches_all) (auto simp: db PAGINATION_BATCH_SIZE_def)
  moreover have "concat (map (user_jobs ?p) us) = map (\<lambda>u. SendPushNotification u ?p) us" for us
    by (induction us) (simp_all add: user_jobs_def)
  ultimately show ?thesis
    unfolding us using t by auto
qed

text \<open>Twenty-five hundred users, and a store that keeps the events of both kinds as they are.\<close>

definition example_notifier :: "(UserNotificationSettingsEvent + StatefulNotificationEvent, nat) notifier" where
  "example_notifier =
     \<lparr> nf_i18n = plain_i18n,
       nf_settings_codec = \<lparr> to_value = Inl, from_value = case_sum Some (\<lambda>_. None), value_type = \<lambda>_. Some ''event'' \<rparr>,
       nf_codec = \<lparr> to_value = Inr, from_value = case_sum (\<lambda>_. None) Some, value_type = \<lambda>_. Some ''event'' \<rparr>,
       nf_collate = length, nf_returning = id, nf_reminders = EmailReminderProjectionConfig_default \<rparr>"

definition example_users :: "nat \<Rightarrow> settings_row list" where
  "example_users k = map (\<lambda>n.
     \<lparr> sr_id = replicate n (CHR ''i''), sr_user = replicate (Suc n) (CHR ''u''), sr_created_at = 0 \<rparr>) [0..<k]"

definition example_dispatch_db :: "(UserNotificationSettingsEvent + StatefulNotificationEvent) job_tables pg" where
  "example_dispatch_db = fresh_pg
     \<lparr> user_notification_settings = example_users 2500, user_notification_settings_events = [],
       email_reminder_projection = [], stateful_notifications = [], stateful_notification_events = [],
       notification_cool_off_tracker = [(''price_changed'', None)], mq_jobs = [KickoffLinkEmailReminder] \<rparr>"

theorem price_change_reaches_everybody_witness:
  "\<exists>n db'. n \<le> 3 \<and>
     run_dispatches example_notifier 3 (snd (handle_price_changed_event 0 example_price_change example_dispatch_db)) =
       Some (n, db') \<and>
     mq_jobs (primary db') = KickoffLinkEmailReminder #
       map (\<lambda>u. SendPushNotification u (PriceChangedEvent example_price_change))
         (sort_key length (map sr_user (example_users 2500)))"
proof -
  have "inj_on (\<lambda>n. replicate (Suc n) (CHR ''u'')) A" for A
    by (auto simp: inj_on_def dest: replicate_eq_replicate [THEN iffD1])
  then have "distinct (map sr_user (example_users 2500))"
    by (simp add: example_users_def comp_def distinct_map del: replicate.simps)
  moreover have "inj_on length (set (map sr_user (example_users 2500)))"
    by (auto simp: example_users_def inj_on_def)
  moreover have "should_notify example_price_change 0 None"
    by (simp add: should_notify_def example_price_change_def NOTIFICATION_THRESHOLD_def js_le_def js_lt_def)
  moreover have "length (example_users 2500) = 2500"
    by (simp add: example_users_def)
  moreover have "\<forall>u \<in> set (map sr_user (example_users 2500)). length search_begin < length u"
    by (auto simp: example_users_def search_begin_def)
  ultimately show ?thesis
    using price_change_reaches_everybody [of example_dispatch_db None example_price_change 0 example_notifier]
    by (simp add: example_dispatch_db_def example_notifier_def last_price_trigger_def)
qed

end
