(* ===== verification/Job_Executor.thy ===== *)
theory Job_Executor
  imports Rust_Base
begin

text \<open>
  The job queue of the notification service: the functions of the queue in the database
  (\<open>src/core/notifications/migrations\<close>) and the executor that runs a job and decides about its
  retries (\<open>src/lib/job-executor-rs\<close>). The client of the queue (sqlxmq) calls these functions.
  Times are in microseconds.
\<close>

subsection \<open>The queue\<close>

record mq_msg =
  mq_id :: uuid
  mq_created_at :: timestamp
  mq_attempt_at :: "timestamp option"
  mq_attempts :: int
  mq_retry_backoff :: int
  mq_channel_name :: string
  mq_channel_args :: string
  mq_commit_interval :: "int option"
  mq_after :: "uuid option"

record 'j mq_payload =
  pl_id :: uuid
  pl_name :: string
  pl_json :: "'j option"

record 'j mq_tables =
  mq_msgs :: "mq_msg list"
  mq_payloads :: "'j mq_payload list"

definition uuid_nil :: uuid where
  "uuid_nil = ''00000000-0000-0000-0000-000000000000''"

definition mq_uuid_exists :: "uuid option \<Rightarrow> bool" where
  "mq_uuid_exists i \<longleftrightarrow> i \<noteq> None \<and> i \<noteq> Some uuid_nil"

definition mq_latest_message :: "string \<Rightarrow> string \<Rightarrow> mq_msg list \<Rightarrow> uuid" where
  "mq_latest_message name args msgs =
     (case rev (sort_key mq_created_at (filter (\<lambda>r.
        mq_channel_name r = name \<and> mq_channel_args r = args \<and> mq_after r \<noteq> None \<and> mq_id r \<noteq> uuid_nil \<and>
        (\<forall>r' \<in> set msgs. mq_after r' \<noteq> Some (mq_id r))) msgs)) of
        [] \<Rightarrow> uuid_nil
      | r # _ \<Rightarrow> mq_id r)"

record 'j mq_new =
  new_id :: uuid
  new_delay :: int
  new_retries :: int
  new_retry_backoff :: int
  new_channel_name :: string
  new_channel_args :: string
  new_commit_interval :: "int option"
  new_ordered :: bool
  new_name :: string
  new_json :: "'j option"

text \<open>Queueing one message; two ordered messages of a channel cannot follow the same one.\<close>

definition mq_insert ::
  "'j mq_new \<Rightarrow> timestamp \<Rightarrow> ('j, 'z) mq_tables_scheme \<Rightarrow> sqlx_error + unit \<times> ('j, 'z) mq_tables_scheme" where
  "mq_insert m t d =
     (let after = (if new_ordered m
                   then Some (mq_latest_message (new_channel_name m) (new_channel_args m) (mq_msgs d)) else None)
      in if new_id m \<in> pl_id ` set (mq_payloads d) \<or> new_id m \<in> mq_id ` set (mq_msgs d) \<or>
            (after \<noteq> None \<and> (\<exists>r \<in> set (mq_msgs d). mq_channel_name r = new_channel_name m \<and>
               mq_channel_args r = new_channel_args m \<and> mq_after r = after))
         then Inl UniqueViolation
         else Inr ((), d\<lparr>
           mq_payloads := mq_payloads d @ [\<lparr> pl_id = new_id m, pl_name = new_name m, pl_json = new_json m \<rparr>],
           mq_msgs := mq_msgs d @
             [\<lparr> mq_id = new_id m, mq_created_at = t,
                mq_attempt_at = Some (t + new_delay m + (case new_commit_interval m of None \<Rightarrow> 0 | Some c \<Rightarrow> c)),
                mq_attempts = new_retries m + 1, mq_retry_backoff = new_retry_backoff m,
                mq_channel_name = new_channel_name m, mq_channel_args = new_channel_args m,
                mq_commit_interval = new_commit_interval m, mq_after = after \<rparr>] \<rparr>))"

definition mq_due :: "string list option \<Rightarrow> timestamp \<Rightarrow> mq_msg \<Rightarrow> bool" where
  "mq_due channel_names t r \<longleftrightarrow>
     mq_id r \<noteq> uuid_nil \<and> (case mq_attempt_at r of None \<Rightarrow> False | Some a \<Rightarrow> a \<le> t) \<and>
     (case channel_names of None \<Rightarrow> True | Some ns \<Rightarrow> mq_channel_name r \<in> set ns) \<and>
     \<not> mq_uuid_exists (mq_after r)"

record 'j mq_polled =
  pd_id :: uuid
  pd_is_committed :: bool
  pd_name :: "string option"
  pd_json :: "'j option"
  pd_retry_backoff :: int

definition mq_taken :: "timestamp \<Rightarrow> mq_msg \<Rightarrow> mq_msg" where
  "mq_taken t r = r\<lparr> mq_attempt_at := (if mq_attempts r = 1 then None else Some (t + mq_retry_backoff r)),
     mq_attempts := mq_attempts r - 1, mq_retry_backoff := mq_retry_backoff r * 2 \<rparr>"

text \<open>
  Polling: which of the messages that are due are taken depends on a random order of the
  channels, the batch size and the rows other runners have locked, and is given by \<open>pick\<close>.
\<close>

definition mq_poll ::
  "(uuid list \<Rightarrow> uuid list) \<Rightarrow> string list option \<Rightarrow> timestamp \<Rightarrow> ('j, 'z) mq_tables_scheme \<Rightarrow>
   sqlx_error + 'j mq_polled list \<times> ('j, 'z) mq_tables_scheme" where
  "mq_poll pick channel_names t d =
     (let ids = pick (map mq_id (filter (mq_due channel_names t) (mq_msgs d)));
          hit = (\<lambda>r. mq_id r \<in> set ids \<and> mq_due channel_names t r)
      in Inr (map (\<lambda>r.
            let p = find (\<lambda>p. pl_id p = mq_id r) (mq_payloads d) in
            \<lparr> pd_id = mq_id r, pd_is_committed = (mq_commit_interval r = None), pd_name = map_option pl_name p,
              pd_json = Option.bind p pl_json, pd_retry_backoff = mq_retry_backoff r \<rparr>)
            (filter hit (mq_msgs d)),
          d\<lparr> mq_msgs := map (\<lambda>r. if hit r then mq_taken t r else r) (mq_msgs d) \<rparr>))"

text \<open>
  Deleting a message; one that was to follow it follows nothing now. The unique index on what a
  message follows concerns ordered messages only and is not checked here: the jobs of the service
  are not ordered.
\<close>

definition unfollowed :: "uuid list \<Rightarrow> mq_msg \<Rightarrow> mq_msg" where
  "unfollowed ids r =
     (case mq_after r of
        Some a \<Rightarrow> if a \<in> set ids then r\<lparr> mq_after := Some uuid_nil \<rparr> else r
      | None \<Rightarrow> r)"

definition mq_delete ::
  "uuid list \<Rightarrow> timestamp \<Rightarrow> ('j, 'z) mq_tables_scheme \<Rightarrow> sqlx_error + unit \<times> ('j, 'z) mq_tables_scheme" where
  "mq_delete ids t d =
     Inr ((), d\<lparr>
       mq_msgs := map (unfollowed ids) (filter (\<lambda>r. mq_id r \<notin> set ids) (mq_msgs d)),
       mq_payloads := filter (\<lambda>p. pl_id p \<notin> set ids) (mq_payloads d) \<rparr>)"

definition prolonged :: "int \<Rightarrow> timestamp \<Rightarrow> mq_msg \<Rightarrow> mq_msg" where
  "prolonged duration t r =
     (case mq_attempt_at r of
        Some a \<Rightarrow>
          if a < t + duration
          then r\<lparr> mq_attempt_at := Some (t + duration),
                  mq_commit_interval := map_option (\<lambda>c. c + ((t + duration) - a)) (mq_commit_interval r) \<rparr>
          else r
      | None \<Rightarrow> r)"

definition mq_keep_alive ::
  "uuid list \<Rightarrow> int \<Rightarrow> timestamp \<Rightarrow> ('j, 'z) mq_tables_scheme \<Rightarrow> sqlx_error + unit \<times> ('j, 'z) mq_tables_scheme" where
  "mq_keep_alive ids duration t d =
     Inr ((), d\<lparr> mq_msgs := map (\<lambda>r. if mq_id r \<in> set ids then prolonged duration t r else r) (mq_msgs d) \<rparr>)"

text \<open>\<open>GREATEST\<close> ignores a missing value.\<close>

definition checkpointed :: "int \<Rightarrow> int \<Rightarrow> timestamp \<Rightarrow> mq_msg \<Rightarrow> mq_msg" where
  "checkpointed duration extra_retries t r =
     r\<lparr> mq_attempt_at := Some (case mq_attempt_at r of None \<Rightarrow> t + duration | Some a \<Rightarrow> max a (t + duration)),
        mq_attempts := mq_attempts r + extra_retries \<rparr>"

definition mq_checkpoint ::
  "uuid \<Rightarrow> int \<Rightarrow> 'j option \<Rightarrow> int \<Rightarrow> timestamp \<Rightarrow> ('j, 'z) mq_tables_scheme \<Rightarrow>
   sqlx_error + unit \<times> ('j, 'z) mq_tables_scheme" where
  "mq_checkpoint i duration new_payload_json extra_retries t d =
     Inr ((), d\<lparr>
       mq_msgs := map (\<lambda>r. if mq_id r = i then checkpointed duration extra_retries t r else r) (mq_msgs d),
       mq_payloads := map (\<lambda>p. if pl_id p = i
         then p\<lparr> pl_json := (case new_payload_json of None \<Rightarrow> pl_json p | Some j \<Rightarrow> Some j) \<rparr>
         else p) (mq_payloads d) \<rparr>)"

lemma mq_id_simps [simp]:
  "mq_id (prolonged duration t r) = mq_id r" "mq_id (checkpointed duration extra t r) = mq_id r"
  "mq_id (mq_taken t r) = mq_id r" "mq_id (unfollowed ids r) = mq_id r"
  by (simp_all add: prolonged_def checkpointed_def mq_taken_def unfollowed_def split: option.split)

subsection \<open>The executor\<close>

record JobMeta =
  meta_attempts :: nat
  wait_till_next_attempt :: int

record 't JobData =
  job_meta :: JobMeta
  job_data :: "'t option"

definition secs :: "int \<Rightarrow> int" where
  "secs n = n * 1000000"

definition JobMeta_default :: JobMeta where
  "JobMeta_default = \<lparr> meta_attempts = 0, wait_till_next_attempt = secs 1 \<rparr>"

text \<open>
  Reading and writing the payload as JSON is a parameter; what is written is read back, the wait
  in whole seconds. What the payload carries for tracing only is left out.
\<close>

record ('t, 'j) job_codec =
  job_from_json :: "'j \<Rightarrow> 't JobData option"
  job_to_json :: "'t JobData \<Rightarrow> 'j"

definition job_codec_ok :: "('t, 'j) job_codec \<Rightarrow> bool" where
  "job_codec_ok c \<longleftrightarrow> (\<forall>x. \<exists>w. job_from_json c (job_to_json c x) =
     Some (x\<lparr> job_meta := (job_meta x)\<lparr> wait_till_next_attempt := w \<rparr> \<rparr>) \<and>
     \<bar>w - wait_till_next_attempt (job_meta x)\<bar> < secs 1)"

definition from_raw_payload :: "('t, 'j) job_codec \<Rightarrow> 'j option \<Rightarrow> 't JobData option" where
  "from_raw_payload c payload =
     (case payload of
        Some p \<Rightarrow> job_from_json c p
      | None \<Rightarrow> Some \<lparr> job_meta = JobMeta_default, job_data = None \<rparr>)"

record job_executor =
  max_attempts :: nat
  initial_retry_delay :: int
  max_retry_delay :: int

definition JobExecutor_default :: job_executor where
  "JobExecutor_default = \<lparr> max_attempts = 5, initial_retry_delay = secs 4, max_retry_delay = secs 60 \<rparr>"

datatype executor_error = ExecutorSqlx sqlx_error | JobFailed | ExecutorPanic string

type_synonym ('j, 'z, 'a) executor_op = "(('j, 'z) mq_tables_scheme pg, executor_error, 'a) rust"

text \<open>The data of the attempt that begins, and the wait until the one after it.\<close>

definition next_attempt :: "job_executor \<Rightarrow> 't JobData \<Rightarrow> 't JobData \<times> int" where
  "next_attempt self data =
     (let meta = job_meta data;
          wait = (if meta_attempts meta = 0 then initial_retry_delay self else wait_till_next_attempt meta)
      in (data\<lparr> job_meta := \<lparr> meta_attempts = meta_attempts meta + 1,
                 wait_till_next_attempt = min (max_retry_delay self) (wait * 2) \<rparr> \<rparr>, wait))"

definition set_backoff ::
  "uuid \<Rightarrow> int \<Rightarrow> timestamp \<Rightarrow> ('j, 'z) mq_tables_scheme \<Rightarrow> sqlx_error + unit \<times> ('j, 'z) mq_tables_scheme" where
  "set_backoff i interval t d =
     Inr ((), d\<lparr> mq_msgs := map (\<lambda>r. if mq_id r = i then r\<lparr> mq_retry_backoff := interval \<rparr> else r) (mq_msgs d) \<rparr>)"

definition job_complete :: "uuid \<Rightarrow> ('j, 'z, unit) executor_op" where
  "job_complete i = rs_map_err ExecutorSqlx (pg_stmt (mq_delete [i]))"

definition checkpoint_attempt ::
  "job_executor \<Rightarrow> ('t, 'j) job_codec \<Rightarrow> uuid \<Rightarrow> 't JobData \<Rightarrow> ('j, 'z, 't JobData \<times> bool) executor_op" where
  "checkpoint_attempt self codec i data =
     (let (data', wait) = next_attempt self data;
          meta = job_meta data';
          extra_retries = (if meta_attempts meta < max_attempts self then 1 else 0)
      in rs_bind (in_tx ExecutorSqlx
           (rs_bind (rs_map_err ExecutorSqlx (pg_stmt (set_backoff i (wait_till_next_attempt meta)))) (\<lambda>_.
            rs_map_err ExecutorSqlx (pg_stmt (mq_checkpoint i wait (Some (job_to_json codec data')) extra_retries))))) (\<lambda>_.
         if meta_attempts meta \<ge> max_attempts self
         then rs_bind (job_complete i) (\<lambda>_. rs_ok (data', True))
         else rs_ok (data', False)))"

text \<open>
  A job: a function that commits what it does itself (\<open>Complete\<close>), or one that leaves its
  transaction to the executor (\<open>CompleteWithTx\<close>).
\<close>

datatype ('j, 'z, 't) job_function =
    PlainJob "'t option \<Rightarrow> ('j, 'z, unit) executor_op"
  | TxJob "'t option \<Rightarrow> ('j, 'z, unit) executor_op"

definition finish_job :: "uuid \<Rightarrow> bool \<Rightarrow> ('j, 'z, 't) job_function \<Rightarrow> 't option \<Rightarrow> ('j, 'z, unit) executor_op" where
  "finish_job i completed func x =
     (case func of
        PlainJob f \<Rightarrow> rs_bind (f x) (\<lambda>_. if completed then rs_ok () else job_complete i)
      | TxJob f \<Rightarrow> in_tx ExecutorSqlx (rs_bind (f x) (\<lambda>_. if completed then rs_ok () else job_complete i)))"

text \<open>
  The keep-alive task, which prolongs the attempt in the background while the function runs:
  \<open>beats\<close> are the times at which it gets to do so. It ends when a statement fails. The beats stand
  after the checkpoint here: an earlier one commutes with the checkpoint, unless the message has no
  time of the next attempt, when it does nothing.
\<close>

fun keep_alive ::
  "job_executor \<Rightarrow> uuid \<Rightarrow> int \<Rightarrow> timestamp list \<Rightarrow> ('j, 'z) mq_tables_scheme pg \<Rightarrow> ('j, 'z) mq_tables_scheme pg" where
  "keep_alive self i interval [] db = db"
| "keep_alive self i interval (b # bs) db =
     (case pg_stmt (\<lambda>_. mq_keep_alive [i] interval b) db of
        (Inl _, db') \<Rightarrow> db'
      | (Inr _, db') \<Rightarrow> keep_alive self i (min (max_retry_delay self) (interval * 2)) bs db')"

text \<open>Executing a polled job; the flag tells whether its function was called, and with what result.\<close>

definition execute ::
  "job_executor \<Rightarrow> ('t, 'j) job_codec \<Rightarrow> ('j, 'z, 't) job_function \<Rightarrow> timestamp list \<Rightarrow> uuid \<Rightarrow> 'j option \<Rightarrow>
   ('j, 'z) mq_tables_scheme pg \<Rightarrow> bool option \<times> ('j, 'z) mq_tables_scheme pg" where
  "execute self codec func beats i raw_json db =
     (case from_raw_payload codec raw_json of
        None \<Rightarrow> (None, db)
      | Some data \<Rightarrow>
          (case checkpoint_attempt self codec i data db of
             (Inl _, db') \<Rightarrow> (None, db')
           | (Inr (data', completed), db') \<Rightarrow>
               (case finish_job i completed func (job_data data')
                       (keep_alive self i (wait_till_next_attempt (job_meta data)) beats db') of
                  (r, db'') \<Rightarrow> (Some (\<not> isl r), db''))))"

subsection \<open>The rows of a job\<close>

definition job_rows :: "uuid \<Rightarrow> ('j, 'z) mq_tables_scheme \<Rightarrow> mq_msg list \<times> 'j mq_payload list" where
  "job_rows i d = (filter (\<lambda>r. mq_id r = i) (mq_msgs d), filter (\<lambda>p. pl_id p = i) (mq_payloads d))"

lemma filter_map_id:
  "(\<And>x. P (g x) = P x) \<Longrightarrow> filter P (map g xs) = map g (filter P xs)"
  by (induction xs) auto

text \<open>What the functions of the queue do to them.\<close>

lemma rows_set_backoff:
  "set_backoff i b t d = Inr ((), d') \<Longrightarrow>
   job_rows i d' = (map (\<lambda>r. r\<lparr> mq_retry_backoff := b \<rparr>) (fst (job_rows i d)), snd (job_rows i d))"
  by (auto simp: set_backoff_def job_rows_def filter_map_id)

lemma rows_checkpoint:
  "mq_checkpoint i duration (Some j) extra t d = Inr ((), d') \<Longrightarrow>
   job_rows i d' = (map (checkpointed duration extra t) (fst (job_rows i d)),
     map (\<lambda>p. p\<lparr> pl_json := Some j \<rparr>) (snd (job_rows i d)))"
  by (auto simp: mq_checkpoint_def job_rows_def filter_map_id)

lemma rows_keep_alive:
  "mq_keep_alive [i] duration t d = Inr ((), d') \<Longrightarrow>
   job_rows i d' = (map (prolonged duration t) (fst (job_rows i d)), snd (job_rows i d))"
  by (auto simp: mq_keep_alive_def job_rows_def filter_map_id)

lemma rows_delete: "mq_delete [i] t d = Inr ((), d') \<Longrightarrow> job_rows i d' = ([], [])"
  by (auto simp: mq_delete_def job_rows_def filter_map_id)

lemma rows_poll:
  assumes "mq_poll pick ch t d = Inr (polled, d')" "job_rows i d = (rs, ps)"
  shows "snd (job_rows i d') = ps"
    and "fst (job_rows i d') =
      map (\<lambda>r. if i \<in> set (pick (map mq_id (filter (mq_due ch t) (mq_msgs d)))) \<and> mq_due ch t r
               then mq_taken t r else r) rs"
    and "find (\<lambda>p. pd_id p = i) polled = Some x \<Longrightarrow> pd_json x = (case ps of [] \<Rightarrow> None | p # _ \<Rightarrow> pl_json p) \<and> rs \<noteq> []"
    and "i \<in> set (pick (map mq_id (filter (mq_due ch t) (mq_msgs d)))) \<Longrightarrow> r \<in> set rs \<Longrightarrow> mq_due ch t r \<Longrightarrow>
      find (\<lambda>p. pd_id p = i) polled \<noteq> None"
proof -
  let ?ids = "pick (map mq_id (filter (mq_due ch t) (mq_msgs d)))"
  let ?hit = "\<lambda>r. mq_id r \<in> set ?ids \<and> mq_due ch t r"
  let ?g = "\<lambda>r. if ?hit r then mq_taken t r else r"
  have d': "d' = d\<lparr> mq_msgs := map ?g (mq_msgs d) \<rparr>"
    and polled: "polled = map (\<lambda>r. let p = find (\<lambda>p. pl_id p = mq_id r) (mq_payloads d) in
            \<lparr> pd_id = mq_id r, pd_is_committed = (mq_commit_interval r = None), pd_name = map_option pl_name p,
              pd_json = Option.bind p pl_json, pd_retry_backoff = mq_retry_backoff r \<rparr>) (filter ?hit (mq_msgs d))"
    using assms(1) by (simp_all add: mq_poll_def Let_def)
  have rs: "rs = filter (\<lambda>r. mq_id r = i) (mq_msgs d)" and ps: "ps = filter (\<lambda>p. pl_id p = i) (mq_payloads d)"
    using assms(2) by (auto simp: job_rows_def)
  show "snd (job_rows i d') = ps"
    by (simp add: d' ps job_rows_def)
  have "filter (\<lambda>r. mq_id r = i) (map ?g (mq_msgs d)) = map ?g rs"
    unfolding rs by (rule filter_map_id) simp
  then show "fst (job_rows i d') = map (\<lambda>r. if i \<in> set ?ids \<and> mq_due ch t r then mq_taken t r else r) rs"
    unfolding d' rs by (auto simp: job_rows_def)
  show "pd_json x = (case ps of [] \<Rightarrow> None | p # _ \<Rightarrow> pl_json p) \<and> rs \<noteq> []"
    if "find (\<lambda>p. pd_id p = i) polled = Some x"
  proof -
    have "x \<in> set polled" "pd_id x = i"
      using find_SomeD [OF that] by blast+
    then obtain r where "r \<in> set rs" "pd_json x = Option.bind (find (\<lambda>p. pl_id p = i) (mq_payloads d)) pl_json"
      unfolding polled rs by (auto simp: Let_def)
    moreover have "find Q xs = (case filter Q xs of [] \<Rightarrow> None | y # _ \<Rightarrow> Some y)" for Q and xs :: "'a mq_payload list"
      by (induction xs) auto
    ultimately show ?thesis
      unfolding ps by (auto split: list.split)
  qed
  show "find (\<lambda>p. pd_id p = i) polled \<noteq> None" if "i \<in> set ?ids" "r \<in> set rs" "mq_due ch t r"
    unfolding find_None_iff polled using that rs by (auto simp: Let_def)
qed

subsection \<open>Attempts of a job\<close>

text \<open>
  A round of the runner at a time \<open>rd_now\<close>, after other jobs and requests have changed the
  database (\<open>rd_others\<close>): it polls, and executes the job when it is among those it got.
\<close>

record ('j, 'z) round =
  rd_others :: "('j, 'z) mq_tables_scheme \<Rightarrow> ('j, 'z) mq_tables_scheme"
  rd_now :: timestamp
  rd_faults :: "bool list"
  rd_pick :: "uuid list \<Rightarrow> uuid list"
  rd_channels :: "string list option"
  rd_beats :: "timestamp list"

definition job_round ::
  "job_executor \<Rightarrow> ('t, 'j) job_codec \<Rightarrow> ('j, 'z, 't) job_function \<Rightarrow> uuid \<Rightarrow> ('j, 'z) round \<Rightarrow>
   ('j, 'z) mq_tables_scheme pg \<Rightarrow> bool option \<times> ('j, 'z) mq_tables_scheme pg" where
  "job_round self codec func i rd db =
     (case pg_stmt (mq_poll (rd_pick rd) (rd_channels rd))
             (db\<lparr> primary := rd_others rd (primary db), tx_now := rd_now rd, faults := rd_faults rd \<rparr>) of
        (Inl _, db') \<Rightarrow> (None, db')
      | (Inr polled, db') \<Rightarrow>
          (case find (\<lambda>p. pd_id p = i) polled of
             None \<Rightarrow> (None, db')
           | Some p \<Rightarrow> execute self codec func (rd_beats rd) i (pd_json p) db'))"

text \<open>The results of the calls of the job's function over a sequence of rounds.\<close>

fun job_rounds ::
  "job_executor \<Rightarrow> ('t, 'j) job_codec \<Rightarrow> ('j, 'z, 't) job_function \<Rightarrow> uuid \<Rightarrow> ('j, 'z) round list \<Rightarrow>
   ('j, 'z) mq_tables_scheme pg \<Rightarrow> bool list \<times> ('j, 'z) mq_tables_scheme pg" where
  "job_rounds self codec func i [] db = ([], db)"
| "job_rounds self codec func i (rd # rds) db =
     (let (call, db') = job_round self codec func i rd db;
          (calls, db'') = job_rounds self codec func i rds db'
      in ((case call of None \<Rightarrow> calls | Some ok \<Rightarrow> ok # calls), db''))"

text \<open>A function that leaves the rows of its own job to the executor.\<close>

fun function_of :: "('j, 'z, 't) job_function \<Rightarrow> 't option \<Rightarrow> ('j, 'z, unit) executor_op" where
  "function_of (PlainJob f) = f"
| "function_of (TxJob f) = f"

definition job_ok :: "uuid \<Rightarrow> ('j, 'z, 't) job_function \<Rightarrow> bool" where
  "job_ok i func \<longleftrightarrow> (\<forall>x db. job_rows i (primary (snd (function_of func x db))) = job_rows i (primary db))"

definition others_ok :: "uuid \<Rightarrow> ('j, 'z) round list \<Rightarrow> bool" where
  "others_ok i rds \<longleftrightarrow> (\<forall>rd \<in> set rds. \<forall>d. job_rows i (rd_others rd d) = job_rows i d)"

lemma job_complete_cases:
  assumes "job_complete i db = (r, db')"
  obtains (failed) e where "r = Inl e" "job_rows i (primary db') = job_rows i (primary db)"
    | (gone) "r = Inr ()" "job_rows i (primary db') = ([], [])"
proof -
  obtain x s where run: "pg_stmt (mq_delete [i]) db = (x, s)"
    by (cases "pg_stmt (mq_delete [i]) db")
  have r: "r = (case x of Inl e \<Rightarrow> Inl (ExecutorSqlx e) | Inr u \<Rightarrow> Inr u)" "db' = s"
    using assms run by (auto simp: job_complete_def rs_map_err_def split: sum.splits)
  from run show thesis
  proof (cases rule: pg_stmt_cases)
    case fault
    then show ?thesis
      using r that(1) by simp
  next
    case (error e)
    then show ?thesis
      using r that(1) by simp
  next
    case (ok u d)
    then show ?thesis
      using r that(2) rows_delete [of i "tx_now db" "primary db" d] by simp
  qed
qed

lemma checkpoint_tx:
  assumes "in_tx ExecutorSqlx
      (rs_bind (rs_map_err ExecutorSqlx (pg_stmt (set_backoff i b))) (\<lambda>_.
       rs_map_err ExecutorSqlx (pg_stmt (mq_checkpoint i w (Some j) e)))) db = (Inr u, db')"
  shows "\<exists>t. job_rows i (primary db') =
    (map (\<lambda>r. checkpointed w e t (r\<lparr> mq_retry_backoff := b \<rparr>)) (fst (job_rows i (primary db))),
     map (\<lambda>p. p\<lparr> pl_json := Some j \<rparr>) (snd (job_rows i (primary db))))"
proof -
  obtain s t where "primary s = primary db" "primary db' = primary t"
    and body: "rs_bind (rs_map_err ExecutorSqlx (pg_stmt (set_backoff i b))) (\<lambda>_.
       rs_map_err ExecutorSqlx (pg_stmt (mq_checkpoint i w (Some j) e))) s = (Inr u, t)"
    using assms by (rule in_tx_Inr)
  then obtain s1 where one: "pg_stmt (set_backoff i b) s = (Inr (), s1)"
    and two: "pg_stmt (mq_checkpoint i w (Some j) e) s1 = (Inr (), t)"
    by (auto simp: rs_bind_eq_Inr_iff rs_map_err_eq_Inr_iff)
  from one have "set_backoff i b (tx_now s) (primary s) = Inr ((), primary s1)"
    by (cases rule: pg_stmt_cases) simp_all
  note r1 = rows_set_backoff [OF this]
  from two have "mq_checkpoint i w (Some j) e (tx_now s1) (primary s1) = Inr ((), primary t)"
    by (cases rule: pg_stmt_cases) simp_all
  note r2 = rows_checkpoint [OF this]
  show ?thesis
    using r1 r2 \<open>primary s = primary db\<close> \<open>primary db' = primary t\<close> by (auto simp: comp_def)
qed

lemma keep_alive_rows:
  "snd (job_rows i (primary (keep_alive self i v bs db))) = snd (job_rows i (primary db)) \<and>
   length (fst (job_rows i (primary (keep_alive self i v bs db)))) = length (fst (job_rows i (primary db)))"
proof (induction self i v bs db rule: keep_alive.induct)
  case (2 self i v b bs db)
  obtain x s where run: "pg_stmt (\<lambda>_. mq_keep_alive [i] v b) db = (x, s)"
    by (cases "pg_stmt (\<lambda>_. mq_keep_alive [i] v b) db")
  then show ?case
  proof (cases rule: pg_stmt_cases)
    case fault
    then show ?thesis
      by (simp add: run)
  next
    case (error e)
    then show ?thesis
      by (simp add: mq_keep_alive_def)
  next
    case (ok u d)
    then show ?thesis
      using 2 [OF run [symmetric], of u] rows_keep_alive [of i v b "primary db" d] run by simp
  qed
qed simp

text \<open>The outcomes of a checkpoint.\<close>

lemma checkpoint_cases:
  assumes "checkpoint_attempt self codec i data db = (res, db')" "job_rows i (primary db) = ([r], [p])"
    and next_data: "next_attempt self data = (data', w)"
  obtains (failed) e where "res = Inl e" "job_rows i (primary db') = ([r], [p])"
    | (stuck) e r' where "res = Inl e" "max_attempts self \<le> meta_attempts (job_meta data')"
        "job_rows i (primary db') = ([r'], [p\<lparr> pl_json := Some (job_to_json codec data') \<rparr>])"
    | (final) "res = Inr (data', True)" "max_attempts self \<le> meta_attempts (job_meta data')"
        "job_rows i (primary db') = ([], [])"
    | (retry) r' where "res = Inr (data', False)" "meta_attempts (job_meta data') < max_attempts self"
        "job_rows i (primary db') = ([r'], [p\<lparr> pl_json := Some (job_to_json codec data') \<rparr>])"
proof -
  let ?m = "meta_attempts (job_meta data')"
  let ?tx = "in_tx ExecutorSqlx
      (rs_bind (rs_map_err ExecutorSqlx (pg_stmt (set_backoff i (wait_till_next_attempt (job_meta data'))))) (\<lambda>_.
       rs_map_err ExecutorSqlx (pg_stmt (mq_checkpoint i w (Some (job_to_json codec data'))
         (if ?m < max_attempts self then 1 else 0)))))"
  have eq: "checkpoint_attempt self codec i data = rs_bind ?tx (\<lambda>_.
      if ?m \<ge> max_attempts self then rs_bind (job_complete i) (\<lambda>_. rs_ok (data', True)) else rs_ok (data', False))"
    by (simp add: checkpoint_attempt_def next_data Let_def)
  obtain x s where tx: "?tx db = (x, s)"
    by (cases "?tx db")
  show thesis
  proof (cases x)
    case (Inl e)
    then have "res = Inl e" "db' = s" "primary s = primary db"
      using assms(1) tx in_tx_error [of ExecutorSqlx _ db e s] by (simp_all add: eq rs_bind_def)
    then show thesis
      using failed assms(2) by simp
  next
    case (Inr u)
    then obtain r' where rows: "job_rows i (primary s) = ([r'], [p\<lparr> pl_json := Some (job_to_json codec data') \<rparr>])"
      using checkpoint_tx tx assms(2) by fastforce
    show thesis
    proof (cases "?m < max_attempts self")
      case True
      then show thesis
        using assms(1) tx Inr rows retry by (simp add: eq rs_bind_def rs_ok_def)
    next
      case False
      obtain y t where complete: "job_complete i s = (y, t)"
        by (cases "job_complete i s")
      then show thesis
      proof (cases rule: job_complete_cases)
        case (failed e)
        then show thesis
          using assms(1) tx Inr False complete rows stuck [of e r'] by (auto simp add: eq rs_bind_def)
      next
        case gone
        then show thesis
          using assms(1) tx Inr False complete final by (simp add: eq rs_bind_def rs_ok_def)
      qed
    qed
  qed
qed

text \<open>A job that has been deleted is never executed again.\<close>

lemma round_deleted:
  assumes "job_rows i (rd_others rd (primary db)) = job_rows i (primary db)" "job_rows i (primary db) = ([], [])"
    and round: "job_round self codec func i rd db = (call, db')"
  shows "call = None \<and> job_rows i (primary db') = ([], [])"
proof -
  let ?db = "db\<lparr> primary := rd_others rd (primary db), tx_now := rd_now rd, faults := rd_faults rd \<rparr>"
  obtain x s where run: "pg_stmt (mq_poll (rd_pick rd) (rd_channels rd)) ?db = (x, s)"
    by (cases "pg_stmt (mq_poll (rd_pick rd) (rd_channels rd)) ?db")
  then show ?thesis
  proof (cases rule: pg_stmt_cases)
    case fault
    then show ?thesis
      using assms run by (simp add: job_round_def)
  next
    case (error e)
    then show ?thesis
      using assms run by (simp add: mq_poll_def Let_def)
  next
    case (ok polled d)
    then have poll: "mq_poll (rd_pick rd) (rd_channels rd) (rd_now rd) (rd_others rd (primary db)) = Inr (polled, d)"
      by simp
    have rows: "job_rows i (rd_others rd (primary db)) = ([], [])"
      using assms by simp
    have "find (\<lambda>p. pd_id p = i) polled = None"
      using rows_poll(3) [OF poll rows] by (cases "find (\<lambda>p. pd_id p = i) polled") auto
    moreover have "job_rows i d = ([], [])"
      using rows_poll(1,2) [OF poll rows] by (simp add: prod_eq_iff)
    ultimately show ?thesis
      using assms run ok by (simp add: job_round_def)
  qed
qed

lemma rounds_deleted:
  assumes "others_ok i rds" "job_rows i (primary db) = ([], [])"
    and "job_rounds self codec func i rds db = (calls, db')"
  shows "calls = [] \<and> job_rows i (primary db') = ([], [])"
  using assms
proof (induction rds arbitrary: db calls)
  case (Cons rd rds)
  obtain call s where round: "job_round self codec func i rd db = (call, s)"
    by (cases "job_round self codec func i rd db")
  have "job_rows i (rd_others rd (primary db)) = job_rows i (primary db)" "others_ok i rds"
    using Cons.prems(1) by (auto simp: others_ok_def)
  note gone = round_deleted [OF this(1) Cons.prems(2) round] \<open>others_ok i rds\<close>
  obtain calls' where rest: "job_rounds self codec func i rds s = (calls', db')" "calls = calls'"
    using Cons.prems(3) gone round by (auto simp: Let_def split: prod.splits)
  then show ?case
    using Cons.IH [OF _ _ rest(1)] gone by simp
qed simp

text \<open>Calling the function, which leaves the rows of its job alone, and finishing the job.\<close>

definition finishes :: "bool \<Rightarrow> executor_error + unit \<Rightarrow> mq_msg list \<times> 'j mq_payload list \<Rightarrow> mq_msg list \<times> 'j mq_payload list \<Rightarrow> bool" where
  "finishes completed res before after \<longleftrightarrow>
     after = (if isl res \<or> completed then before else ([], []))"

lemma call_then_complete:
  assumes "rs_bind (function_of func x) (\<lambda>_. if completed then rs_ok () else job_complete i) db = (res, db')"
    and "job_ok i func"
  shows "finishes completed res (job_rows i (primary db)) (job_rows i (primary db'))"
proof -
  obtain z s where call: "function_of func x db = (z, s)"
    by (cases "function_of func x db")
  then have kept: "job_rows i (primary s) = job_rows i (primary db)"
    using assms(2) by (metis job_ok_def snd_conv)
  show ?thesis
  proof (cases "isl z \<or> completed")
    case True
    then show ?thesis
      using assms(1) call kept by (cases z) (auto simp: rs_bind_def rs_ok_def finishes_def)
  next
    case False
    then have "job_complete i s = (res, db')"
      using assms(1) call by (cases z) (simp_all add: rs_bind_def)
    then show ?thesis
      by (cases rule: job_complete_cases) (use kept False in \<open>simp_all add: finishes_def\<close>)
  qed
qed

lemma finish_job_finishes:
  assumes "finish_job i completed func x db = (res, db')" "job_ok i func"
  shows "finishes completed res (job_rows i (primary db)) (job_rows i (primary db'))"
proof (cases func)
  case (PlainJob f)
  then show ?thesis
    using call_then_complete [of func x completed i db res db'] assms by (simp add: finish_job_def)
next
  case (TxJob f)
  let ?body = "rs_bind (function_of func x) (\<lambda>_. if completed then rs_ok () else job_complete i)"
  have tx: "in_tx ExecutorSqlx ?body db = (res, db')"
    using TxJob assms(1) by (simp add: finish_job_def)
  show ?thesis
  proof (cases res)
    case (Inl e)
    then show ?thesis
      using tx in_tx_error [of ExecutorSqlx ?body db e db'] by (simp add: finishes_def)
  next
    case (Inr u)
    have tx': "in_tx ExecutorSqlx ?body db = (Inr u, db')"
      using tx Inr by simp
    obtain s t where "primary s = primary db" "primary db' = primary t" "?body s = (Inr u, t)"
      using tx' by (rule in_tx_Inr)
    then show ?thesis
      using call_then_complete [of func x completed i s "Inr u" t] assms(2) Inr by simp
  qed
qed

text \<open>A job in the queue that has made \<open>n\<close> attempts.\<close>

definition queued :: "('t, 'j) job_codec \<Rightarrow> uuid \<Rightarrow> nat \<Rightarrow> ('j, 'z) mq_tables_scheme \<Rightarrow> bool" where
  "queued codec i n d \<longleftrightarrow> (\<exists>r p data. job_rows i d = ([r], [p]) \<and>
     from_raw_payload codec (pl_json p) = Some data \<and> meta_attempts (job_meta data) = n)"

definition dequeued :: "uuid \<Rightarrow> ('j, 'z) mq_tables_scheme \<Rightarrow> bool" where
  "dequeued i d \<longleftrightarrow> job_rows i d = ([], [])"

lemma queued_written:
  assumes "job_codec_ok codec" "job_rows i d = ([r], [p\<lparr> pl_json := Some (job_to_json codec data) \<rparr>])"
  shows "queued codec i (meta_attempts (job_meta data)) d"
proof -
  obtain w where "job_from_json codec (job_to_json codec data) =
      Some (data\<lparr> job_meta := (job_meta data)\<lparr> wait_till_next_attempt := w \<rparr> \<rparr>)"
    using assms(1) unfolding job_codec_ok_def by blast
  then show ?thesis
    using assms(2) by (auto simp: queued_def from_raw_payload_def)
qed

lemma next_attempt_attempts: "next_attempt self data = (data', w) \<Longrightarrow> meta_attempts (job_meta data') = meta_attempts (job_meta data) + 1"
  by (auto simp: next_attempt_def Let_def)

lemma queued_rows_cong:
  "snd (job_rows i d') = snd (job_rows i d) \<Longrightarrow> length (fst (job_rows i d')) = length (fst (job_rows i d)) \<Longrightarrow>
   queued codec i n d' = queued codec i n d"
  by (cases "job_rows i d'"; cases "job_rows i d") (auto simp: queued_def length_Suc_conv Suc_length_conv)

text \<open>One execution: the attempt is counted before the function is called, and the last one is dequeued before.\<close>

lemma execute_outcome:
  assumes "execute self codec func beats i raw db = (call, db')" "job_rows i (primary db) = ([r], [p])"
    and "raw = pl_json p" "from_raw_payload codec raw = Some data" "job_codec_ok codec" "job_ok i func"
  obtains (uncalled) m where "call = None" "meta_attempts (job_meta data) \<le> m" "queued codec i m (primary db')"
    | (success) "call = Some True" "dequeued i (primary db')"
    | (failure) "call = Some False" "meta_attempts (job_meta data) + 1 < max_attempts self"
        "queued codec i (meta_attempts (job_meta data) + 1) (primary db')"
    | (last) "call = Some False" "max_attempts self \<le> meta_attempts (job_meta data) + 1" "dequeued i (primary db')"
proof -
  obtain data' w where nxt: "next_attempt self data = (data', w)"
    by (cases "next_attempt self data")
  note count = next_attempt_attempts [OF nxt]
  obtain cp s where cp: "checkpoint_attempt self codec i data db = (cp, s)"
    by (cases "checkpoint_attempt self codec i data db")
  let ?alive = "keep_alive self i (wait_till_next_attempt (job_meta data)) beats s"
  show thesis
    using cp assms(2) nxt
  proof (cases rule: checkpoint_cases)
    case (failed e)
    then show thesis
      using assms cp uncalled [of "meta_attempts (job_meta data)"] by (auto simp: execute_def queued_def)
  next
    case (stuck e r')
    then show thesis
      using assms(1,4) cp count uncalled [of "meta_attempts (job_meta data')"]
        queued_written [OF assms(5) stuck(3)] by (simp add: execute_def)
  next
    case final
    have alive: "job_rows i (primary ?alive) = ([], [])"
      using keep_alive_rows [of i self _ beats s] final by (simp add: prod_eq_iff)
    obtain res t where fin: "finish_job i True func (job_data data') ?alive = (res, t)"
      by (cases "finish_job i True func (job_data data') ?alive")
    have "dequeued i (primary t)"
      using finish_job_finishes [OF fin assms(6)] alive by (simp add: finishes_def dequeued_def)
    moreover have "call = Some (\<not> isl res)" "db' = t"
      using assms(1,4) cp final fin by (simp_all add: execute_def)
    ultimately show thesis
      using success last final(2) count by (cases "isl res") simp_all
  next
    case (retry r')
    have alive: "queued codec i (meta_attempts (job_meta data')) (primary ?alive)"
      using queued_written [OF assms(5) retry(3)] keep_alive_rows [of i self _ beats s]
      by (subst queued_rows_cong) simp_all
    obtain res t where fin: "finish_job i False func (job_data data') ?alive = (res, t)"
      by (cases "finish_job i False func (job_data data') ?alive")
    note rows = finish_job_finishes [OF fin assms(6)]
    have "call = Some (\<not> isl res)" "db' = t"
      using assms(1,4) cp retry fin by (simp_all add: execute_def)
    then show thesis
      using success failure retry(2) count alive rows
      by (cases "isl res") (simp_all add: finishes_def dequeued_def queued_def)
  qed
qed

text \<open>One round, for a job in the queue.\<close>

lemma round_outcome:
  assumes round: "job_round self codec func i rd db = (call, db')"
    and others: "job_rows i (rd_others rd (primary db)) = job_rows i (primary db)"
    and queued: "queued codec i n (primary db)" and "job_codec_ok codec" "job_ok i func"
  obtains (uncalled) m where "call = None" "n \<le> m" "queued codec i m (primary db')"
    | (success) "call = Some True" "dequeued i (primary db')"
    | (failure) "call = Some False" "n + 1 < max_attempts self" "queued codec i (n + 1) (primary db')"
    | (last) "call = Some False" "max_attempts self \<le> n + 1" "dequeued i (primary db')"
proof -
  let ?db = "db\<lparr> primary := rd_others rd (primary db), tx_now := rd_now rd, faults := rd_faults rd \<rparr>"
  obtain r p data where rows: "job_rows i (rd_others rd (primary db)) = ([r], [p])"
    and data: "from_raw_payload codec (pl_json p) = Some data" "meta_attempts (job_meta data) = n"
    using queued others unfolding queued_def by auto
  obtain x s where run: "pg_stmt (mq_poll (rd_pick rd) (rd_channels rd)) ?db = (x, s)"
    by (cases "pg_stmt (mq_poll (rd_pick rd) (rd_channels rd)) ?db")
  then show thesis
  proof (cases rule: pg_stmt_cases)
    case fault
    then have "call = None" "primary db' = rd_others rd (primary db)"
      using round run by (simp_all add: job_round_def)
    then show thesis
      using uncalled [of n] rows data by (auto simp: queued_def)
  next
    case (error e)
    then show thesis
      by (simp add: mq_poll_def Let_def)
  next
    case (ok polled d)
    then have poll: "mq_poll (rd_pick rd) (rd_channels rd) (rd_now rd) (rd_others rd (primary db)) = Inr (polled, d)"
      by simp
    obtain r' where rows': "job_rows i d = ([r'], [p])"
      using rows_poll(1,2) [OF poll rows] by (simp add: prod_eq_iff)
    show thesis
    proof (cases "find (\<lambda>p. pd_id p = i) polled")
      case None
      then have "call = None" "primary db' = d"
        using round run ok by (simp_all add: job_round_def)
      then show thesis
        using uncalled [of n] rows' data by (auto simp: queued_def)
    next
      case (Some q)
      then have json: "pd_json q = pl_json p"
        using rows_poll(3) [OF poll rows Some] by simp
      have "execute self codec func (rd_beats rd) i (pl_json p) s = (call, db')" "job_rows i (primary s) = ([r'], [p])"
        using round run ok Some json rows' by (simp_all add: job_round_def)
      then show thesis
        by (cases rule: execute_outcome [OF _ _ refl data(1) assms(4,5)])
          (use data(2) uncalled success failure last in simp_all)
    qed
  qed
qed

lemma rounds_bounded:
  assumes "others_ok i rds" "job_codec_ok codec" "job_ok i func" "queued codec i n (primary db)" "c \<le> n" "c < max_attempts self"
    and "job_rounds self codec func i rds db = (calls, db')"
  shows "c + length calls \<le> max_attempts self \<and> True \<notin> set (butlast calls)"
  using assms
proof (induction rds arbitrary: db calls n c)
  case (Cons rd rds)
  obtain call s where round: "job_round self codec func i rd db = (call, s)"
    by (cases "job_round self codec func i rd db")
  obtain calls' where rest: "job_rounds self codec func i rds s = (calls', db')"
    and calls: "calls = (case call of None \<Rightarrow> calls' | Some ok \<Rightarrow> ok # calls')"
    using Cons.prems(7) round by (auto simp: Let_def split: prod.splits)
  have others: "others_ok i rds" and own: "job_rows i (rd_others rd (primary db)) = job_rows i (primary db)"
    using Cons.prems(1) by (auto simp: others_ok_def)
  from round own Cons.prems(4,2,3) show ?case
  proof (cases rule: round_outcome)
    case (uncalled m)
    then show ?thesis
      using Cons.IH [OF others Cons.prems(2,3) uncalled(3), of c calls'] Cons.prems rest calls by simp
  next
    case success
    then show ?thesis
      using rounds_deleted [OF others _ rest] Cons.prems calls by (simp add: dequeued_def)
  next
    case failure
    then show ?thesis
      using Cons.IH [OF others Cons.prems(2,3) failure(3), of "c + 1" calls'] Cons.prems rest calls by simp
  next
    case last
    then show ?thesis
      using rounds_deleted [OF others _ rest] Cons.prems calls by (simp add: dequeued_def)
  qed
qed simp

subsection \<open>Rounds in time\<close>

text \<open>
  A message that follows no other one and is due at \<open>t\<close>, its backoff at most \<open>D\<close>, and the rounds
  of a runner that serves its channel without faults, picks the job when it is due, and lets
  \<open>D\<close> pass between the last sign of life of a round and the next round.
\<close>

definition waits :: "int \<Rightarrow> timestamp \<Rightarrow> string \<Rightarrow> mq_msg \<Rightarrow> bool" where
  "waits D t ch r \<longleftrightarrow> mq_channel_name r = ch \<and> \<not> mq_uuid_exists (mq_after r) \<and> mq_retry_backoff r \<le> D \<and>
     (case mq_attempt_at r of None \<Rightarrow> False | Some a \<Rightarrow> a \<le> t)"

fun in_time :: "int \<Rightarrow> uuid \<Rightarrow> string \<Rightarrow> timestamp \<Rightarrow> ('j, 'z) round list \<Rightarrow> bool" where
  "in_time D i ch t [] \<longleftrightarrow> True"
| "in_time D i ch t (rd # rds) \<longleftrightarrow>
     t \<le> rd_now rd \<and> rd_faults rd = [] \<and> (\<forall>ids. i \<in> set ids \<longrightarrow> i \<in> set (rd_pick rd ids)) \<and>
     (case rd_channels rd of None \<Rightarrow> True | Some ns \<Rightarrow> ch \<in> set ns) \<and>
     in_time D i ch (foldr max (rd_beats rd) (rd_now rd) + D) rds"

definition ready :: "('t, 'j) job_codec \<Rightarrow> int \<Rightarrow> timestamp \<Rightarrow> string \<Rightarrow> uuid \<Rightarrow> nat \<Rightarrow> ('j, 'z) mq_tables_scheme \<Rightarrow> bool" where
  "ready codec D t ch i n d \<longleftrightarrow> (\<exists>r p data. job_rows i d = ([r], [p]) \<and> waits D t ch r \<and>
     from_raw_payload codec (pl_json p) = Some data \<and> meta_attempts (job_meta data) = n \<and>
     wait_till_next_attempt (job_meta data) \<le> D)"

lemma waits_mono: "waits D t ch r \<Longrightarrow> t \<le> t' \<Longrightarrow> waits D t' ch r"
  by (auto simp: waits_def split: option.splits)

lemma waits_prolonged: "waits D t ch r \<Longrightarrow> b + v \<le> t \<Longrightarrow> waits D t ch (prolonged v b r)"
  by (auto simp: waits_def prolonged_def split: option.splits)

lemma waits_checkpointed:
  "waits D t ch r \<Longrightarrow> w \<le> D \<Longrightarrow> v \<le> D \<Longrightarrow> waits D (t' + D) ch (checkpointed w e t' (mq_taken t' r\<lparr> mq_retry_backoff := v \<rparr>))"
  by (auto simp: waits_def checkpointed_def mq_taken_def split: option.splits)

lemma keep_alive_waits:
  assumes "faultless db" "\<forall>r \<in> set (fst (job_rows i (primary db))). waits D t ch r"
    and "v \<le> D" "max_retry_delay self \<le> D" "\<forall>b \<in> set bs. b + D \<le> t"
  shows "\<forall>r \<in> set (fst (job_rows i (primary (keep_alive self i v bs db)))). waits D t ch r"
  using assms
proof (induction bs arbitrary: v db)
  case (Cons b bs)
  obtain d where d: "mq_keep_alive [i] v b (primary db) = Inr ((), d)"
    by (simp add: mq_keep_alive_def)
  have "b + v \<le> t"
    using Cons.prems by force
  then have "\<forall>r \<in> set (fst (job_rows i d)). waits D t ch r"
    using rows_keep_alive [OF d] Cons.prems(2) by (auto intro: waits_prolonged)
  then show ?case
    using Cons.IH [of "db\<lparr> primary := d \<rparr>" "min (max_retry_delay self) (v * 2)"] Cons.prems d
    by (simp add: pg_stmt_run)
qed simp

lemma checkpoint_run:
  assumes "faultless db" "job_rows i (primary db) = ([r], [p])" "next_attempt self data = (data', w)"
  obtains d e where "checkpoint_attempt self codec i data db =
      (Inr (data', max_attempts self \<le> meta_attempts (job_meta data')), db\<lparr> primary := d \<rparr>)"
    "job_rows i d = (if max_attempts self \<le> meta_attempts (job_meta data') then ([], [])
       else ([checkpointed w e (tx_now db) (r\<lparr> mq_retry_backoff := wait_till_next_attempt (job_meta data') \<rparr>)],
             [p\<lparr> pl_json := Some (job_to_json codec data') \<rparr>]))"
proof -
  define e :: int where "e = (if meta_attempts (job_meta data') < max_attempts self then 1 else 0)"
  obtain d1 where d1: "set_backoff i (wait_till_next_attempt (job_meta data')) (tx_now db) (primary db) = Inr ((), d1)"
    by (simp add: set_backoff_def)
  obtain d2 where d2: "mq_checkpoint i w (Some (job_to_json codec data')) e (tx_now db) d1 = Inr ((), d2)"
    by (simp add: mq_checkpoint_def)
  obtain d3 where d3: "mq_delete [i] (tx_now db) d2 = Inr ((), d3)"
    by (simp add: mq_delete_def)
  let ?tx = "rs_bind (rs_map_err ExecutorSqlx (pg_stmt (set_backoff i (wait_till_next_attempt (job_meta data'))))) (\<lambda>_.
       rs_map_err ExecutorSqlx (pg_stmt (mq_checkpoint i w (Some (job_to_json codec data')) e)))"
  have "?tx db = (Inr (), db\<lparr> primary := d2 \<rparr>)"
    using assms(1) d1 d2 by (simp add: rs_bind_def pg_stmt_run rs_map_err_def)
  then have tx: "in_tx ExecutorSqlx ?tx db = (Inr (), db\<lparr> primary := d2 \<rparr>)"
    using in_tx_run [OF assms(1), of ?tx "Inr ()" _ ExecutorSqlx] assms(1) by simp
  have complete: "rs_bind (job_complete i) (\<lambda>_. rs_ok (data', True)) (db\<lparr> primary := d2 \<rparr>) =
      (Inr (data', True), db\<lparr> primary := d3 \<rparr>)"
    using assms(1) d3 by (simp add: job_complete_def pg_stmt_run rs_bind_def rs_map_err_def rs_ok_def)
  have eq: "checkpoint_attempt self codec i data = rs_bind (in_tx ExecutorSqlx ?tx) (\<lambda>_.
      if meta_attempts (job_meta data') \<ge> max_attempts self
      then rs_bind (job_complete i) (\<lambda>_. rs_ok (data', True)) else rs_ok (data', False))"
    by (simp add: checkpoint_attempt_def assms(3) Let_def e_def)
  have "checkpoint_attempt self codec i data db =
      (Inr (data', max_attempts self \<le> meta_attempts (job_meta data')),
       db\<lparr> primary := if max_attempts self \<le> meta_attempts (job_meta data') then d3 else d2 \<rparr>)"
    unfolding eq using rs_bind_run(1) [of "in_tx ExecutorSqlx ?tx" db "()"] tx complete by (simp add: rs_ok_def)
  then show thesis
    using rows_delete [OF d3] rows_set_backoff [OF d1] rows_checkpoint [OF d2] assms(2)
    by (intro that [of _ e]) (auto split: if_split)
qed

lemma next_attempt_bounds:
  assumes "next_attempt self data = (data', w)" "wait_till_next_attempt (job_meta data) \<le> D"
    and "initial_retry_delay self \<le> D" "max_retry_delay self + secs 1 \<le> D"
  shows "w \<le> D" "wait_till_next_attempt (job_meta data') + secs 1 \<le> D"
  using assms by (auto simp: next_attempt_def Let_def secs_def split: if_splits)

lemma ready_written:
  assumes "job_codec_ok codec" "job_rows i d = ([r], [p\<lparr> pl_json := Some (job_to_json codec data) \<rparr>])"
    and "waits D t ch r" "wait_till_next_attempt (job_meta data) + secs 1 \<le> D"
  shows "ready codec D t ch i (meta_attempts (job_meta data)) d"
proof -
  obtain w where "job_from_json codec (job_to_json codec data) =
      Some (data\<lparr> job_meta := (job_meta data)\<lparr> wait_till_next_attempt := w \<rparr> \<rparr>)"
    "\<bar>w - wait_till_next_attempt (job_meta data)\<bar> < secs 1"
    using assms(1) unfolding job_codec_ok_def by blast
  then show ?thesis
    using assms(2-) by (auto simp: ready_def from_raw_payload_def)
qed

lemma execute_run:
  assumes "execute self codec func beats i (pl_json p) db = (call, db')" "faultless db"
    and rows: "job_rows i (primary db) = ([mq_taken (tx_now db) r], [p])" and "waits D t ch r"
    and data: "from_raw_payload codec (pl_json p) = Some data" "wait_till_next_attempt (job_meta data) \<le> D"
    and "job_codec_ok codec" "job_ok i func"
    and delays: "initial_retry_delay self \<le> D" "max_retry_delay self + secs 1 \<le> D"
    and later: "tx_now db + D \<le> t'" "\<forall>b \<in> set beats. b + D \<le> t'"
  shows "(\<exists>ok. call = Some ok \<and> dequeued i (primary db') \<and>
           (ok \<or> max_attempts self \<le> meta_attempts (job_meta data) + 1)) \<or>
         (call = Some False \<and> meta_attempts (job_meta data) + 1 < max_attempts self \<and>
           ready codec D t' ch i (meta_attempts (job_meta data) + 1) (primary db'))"
proof -
  let ?n = "meta_attempts (job_meta data) + 1"
  obtain data' w where nxt: "next_attempt self data = (data', w)"
    by (cases "next_attempt self data")
  note count = next_attempt_attempts [OF nxt] and bounds = next_attempt_bounds [OF nxt data(2) delays]
  obtain d e where cp: "checkpoint_attempt self codec i data db = (Inr (data', max_attempts self \<le> ?n), db\<lparr> primary := d \<rparr>)"
    and d: "job_rows i d = (if max_attempts self \<le> ?n then ([], [])
       else ([checkpointed w e (tx_now db) (mq_taken (tx_now db) r\<lparr> mq_retry_backoff := wait_till_next_attempt (job_meta data') \<rparr>)],
             [p\<lparr> pl_json := Some (job_to_json codec data') \<rparr>]))"
    using checkpoint_run [OF assms(2) rows nxt] count by metis
  let ?alive = "keep_alive self i (wait_till_next_attempt (job_meta data)) beats (db\<lparr> primary := d \<rparr>)"
  obtain res where fin: "finish_job i (max_attempts self \<le> ?n) func (job_data data') ?alive = (res, db')"
    and call: "call = Some (\<not> isl res)"
    using assms(1) data(1) cp by (auto simp: execute_def split: prod.splits)
  note rows' = finish_job_finishes [OF fin assms(8)] and kept = keep_alive_rows [of i self _ beats "db\<lparr> primary := d \<rparr>"]
  show ?thesis
  proof (cases "max_attempts self \<le> ?n \<or> \<not> isl res")
    case True
    have "dequeued i (primary db')"
      using rows' kept d True by (auto simp: finishes_def dequeued_def prod_eq_iff)
    then show ?thesis
      using call True by auto
  next
    case False
    have "wait_till_next_attempt (job_meta data') \<le> D"
      using bounds(2) by (simp add: secs_def)
    then have "waits D t' ch (checkpointed w e (tx_now db)
        (mq_taken (tx_now db) r\<lparr> mq_retry_backoff := wait_till_next_attempt (job_meta data') \<rparr>))"
      using waits_mono [OF waits_checkpointed [OF assms(4) bounds(1)] later(1)] by blast
    then have "\<forall>r \<in> set (fst (job_rows i (primary ?alive))). waits D t' ch r"
      using assms(2) data(2) delays later(2) d False by (intro keep_alive_waits) (simp_all add: secs_def)
    moreover have "job_rows i (primary db') = job_rows i (primary ?alive)"
      using rows' False by (simp add: finishes_def)
    moreover obtain r' where "job_rows i (primary ?alive) = ([r'], [p\<lparr> pl_json := Some (job_to_json codec data') \<rparr>])"
      using kept d False by (auto simp: prod_eq_iff length_Suc_conv)
    ultimately have "ready codec D t' ch i (meta_attempts (job_meta data')) (primary db')"
      using assms(7) bounds(2) by (intro ready_written) auto
    then show ?thesis
      using call count False by simp
  qed
qed

lemma round_run:
  assumes round: "job_round self codec func i rd db = (call, db')"
    and others: "job_rows i (rd_others rd (primary db)) = job_rows i (primary db)" and "i \<noteq> uuid_nil"
    and ready: "ready codec D t ch i n (primary db)" and "job_codec_ok codec" "job_ok i func"
    and delays: "initial_retry_delay self \<le> D" "max_retry_delay self + secs 1 \<le> D"
    and time: "t \<le> rd_now rd" "rd_faults rd = []" "\<forall>ids. i \<in> set ids \<longrightarrow> i \<in> set (rd_pick rd ids)"
      "case rd_channels rd of None \<Rightarrow> True | Some ns \<Rightarrow> ch \<in> set ns"
    and later: "rd_now rd + D \<le> t'" "\<forall>b \<in> set (rd_beats rd). b + D \<le> t'"
  shows "(\<exists>ok. call = Some ok \<and> dequeued i (primary db') \<and> (ok \<or> max_attempts self \<le> n + 1)) \<or>
         (call = Some False \<and> n + 1 < max_attempts self \<and> ready codec D t' ch i (n + 1) (primary db'))"
proof -
  let ?d = "rd_others rd (primary db)"
  obtain r p data where rows: "job_rows i ?d = ([r], [p])" and waits: "waits D t ch r"
    and data: "from_raw_payload codec (pl_json p) = Some data" "meta_attempts (job_meta data) = n"
      "wait_till_next_attempt (job_meta data) \<le> D"
    using ready others unfolding ready_def by auto
  have r: "r \<in> set (mq_msgs ?d)" "mq_id r = i"
    using rows by (auto simp: job_rows_def filter_eq_Cons_iff)
  have due: "mq_due (rd_channels rd) (rd_now rd) r"
    using waits r(2) assms(3) time by (auto simp: mq_due_def waits_def split: option.splits)
  have picked: "i \<in> set (rd_pick rd (map mq_id (filter (mq_due (rd_channels rd) (rd_now rd)) (mq_msgs ?d))))"
    using time(3) r due by force
  obtain polled d where poll: "mq_poll (rd_pick rd) (rd_channels rd) (rd_now rd) ?d = Inr (polled, d)"
    by (simp add: mq_poll_def Let_def)
  obtain q where q: "find (\<lambda>p. pd_id p = i) polled = Some q"
    using rows_poll(4) [OF poll rows picked _ due] by auto
  have "pd_json q = pl_json p"
    using rows_poll(3) [OF poll rows q] by simp
  moreover have "job_rows i d = ([mq_taken (rd_now rd) r], [p])"
    using rows_poll(1,2) [OF poll rows] picked due by (simp add: prod_eq_iff)
  moreover define s where "s = db\<lparr> tx_now := rd_now rd, faults := [], primary := d \<rparr>"
  ultimately have "execute self codec func (rd_beats rd) i (pl_json p) s = (call, db')"
    "job_rows i (primary s) = ([mq_taken (tx_now s) r], [p])"
    using round time(2) poll q by (simp_all add: job_round_def pg_stmt_run)
  from execute_run [OF this(1) _ this(2) waits data(1,3) assms(5,6) delays] show ?thesis
    using later data(2) by (simp add: s_def)
qed

lemma foldr_max: "x \<le> foldr max bs x \<and> (\<forall>b \<in> set bs. b \<le> foldr max bs (x :: int))"
  by (induction bs) auto

lemma rounds_run:
  assumes "others_ok i rds" "in_time D i ch t rds" "i \<noteq> uuid_nil" "job_codec_ok codec" "job_ok i func"
    and "initial_retry_delay self \<le> D" "max_retry_delay self + secs 1 \<le> D"
    and "ready codec D t ch i n (primary db)" "n < max_attempts self" "max_attempts self \<le> n + length rds"
    and "job_rounds self codec func i rds db = (calls, db')"
  shows "dequeued i (primary db') \<and> calls \<noteq> [] \<and> (List.last calls \<or> n + length calls = max_attempts self)"
  using assms
proof (induction rds arbitrary: db calls n t)
  case (Cons rd rds)
  let ?t' = "foldr max (rd_beats rd) (rd_now rd) + D"
  obtain call s where round: "job_round self codec func i rd db = (call, s)"
    by (cases "job_round self codec func i rd db")
  obtain calls' where rest: "job_rounds self codec func i rds s = (calls', db')"
    and calls: "calls = (case call of None \<Rightarrow> calls' | Some ok \<Rightarrow> ok # calls')"
    using Cons.prems(11) round by (auto simp: Let_def split: prod.splits)
  have others: "others_ok i rds" and own: "job_rows i (rd_others rd (primary db)) = job_rows i (primary db)"
    using Cons.prems(1) by (auto simp: others_ok_def)
  have time: "in_time D i ch ?t' rds" "t \<le> rd_now rd" "rd_faults rd = []"
      "\<forall>ids. i \<in> set ids \<longrightarrow> i \<in> set (rd_pick rd ids)"
      "case rd_channels rd of None \<Rightarrow> True | Some ns \<Rightarrow> ch \<in> set ns"
    using Cons.prems(2) by simp_all
  consider (over) ok where "call = Some ok" "dequeued i (primary s)" "ok \<or> max_attempts self \<le> n + 1"
    | (again) "call = Some False" "n + 1 < max_attempts self" "ready codec D ?t' ch i (n + 1) (primary s)"
    using round_run [OF round own Cons.prems(3,8,4,5,6,7) time(2-), of ?t'] foldr_max [of "rd_now rd" "rd_beats rd"] by auto
  then show ?case
  proof cases
    case (over ok)
    then show ?thesis
      using rounds_deleted [OF others _ rest] Cons.prems(9) calls by (auto simp: dequeued_def)
  next
    case again
    then have "dequeued i (primary db') \<and> calls' \<noteq> [] \<and> (List.last calls' \<or> n + 1 + length calls' = max_attempts self)"
      using Cons.prems(10) by (intro Cons.IH [OF others time(1) Cons.prems(3-7) _ _ _ rest]) simp_all
    then show ?thesis
      using calls again(1) by auto
  qed
qed simp

subsection \<open>The job from its insertion on\<close>

lemma inserted_rows:
  assumes "mq_insert m t d = Inr ((), d')"
  obtains r p where "job_rows (new_id m) d' = ([r], [p])" "pl_json p = new_json m" "mq_retry_backoff r = new_retry_backoff m"
    "mq_attempt_at r = Some (t + new_delay m + (case new_commit_interval m of None \<Rightarrow> 0 | Some c \<Rightarrow> c))"
    "mq_channel_name r = new_channel_name m" "\<not> new_ordered m \<Longrightarrow> mq_after r = None"
proof -
  have fresh: "new_id m \<notin> pl_id ` set (mq_payloads d)" "new_id m \<notin> mq_id ` set (mq_msgs d)"
    using assms by (auto simp: mq_insert_def Let_def split: if_splits)
  then have "filter (\<lambda>p. pl_id p = new_id m) (mq_payloads d) = []" "filter (\<lambda>r. mq_id r = new_id m) (mq_msgs d) = []"
    unfolding filter_empty_conv by force+
  then show thesis
    using assms that by (auto simp: mq_insert_def Let_def job_rows_def split: if_splits)
qed

definition example_codec :: "(nat, nat JobData) job_codec" where
  "example_codec = \<lparr> job_from_json = Some, job_to_json = (\<lambda>x. x) \<rparr>"

definition example_job :: "nat JobData mq_new" where
  "example_job = \<lparr> new_id = ''job'', new_delay = 0, new_retries = 0, new_retry_backoff = secs 1,
     new_channel_name = ''all_user_event_dispatch'', new_channel_args = '''', new_commit_interval = None,
     new_ordered = False, new_name = ''all_user_event_dispatch'', new_json = None \<rparr>"

definition empty_queue :: "nat JobData mq_tables" where
  "empty_queue = \<lparr> mq_msgs = [], mq_payloads = [] \<rparr>"

definition example_queue :: "nat JobData mq_tables" where
  "example_queue = (case mq_insert example_job 0 empty_queue of Inr (_, d) \<Rightarrow> d | Inl _ \<Rightarrow> empty_queue)"

definition failing_job :: "(nat JobData, unit, nat) job_function" where
  "failing_job = PlainJob (\<lambda>_. rs_err JobFailed)"

definition example_round :: "timestamp \<Rightarrow> (nat JobData, unit) round" where
  "example_round t = \<lparr> rd_others = (\<lambda>d. d), rd_now = t, rd_faults = [], rd_pick = (\<lambda>ids. ids),
     rd_channels = Some [''all_user_event_dispatch''], rd_beats = [t + secs 2] \<rparr>"

lemma example_codec_ok: "job_codec_ok example_codec"
  unfolding job_codec_ok_def
proof
  fix x :: "nat JobData"
  show "\<exists>w. job_from_json example_codec (job_to_json example_codec x) =
      Some (x\<lparr> job_meta := (job_meta x)\<lparr> wait_till_next_attempt := w \<rparr> \<rparr>) \<and>
      \<bar>w - wait_till_next_attempt (job_meta x)\<bar> < secs 1"
    by (rule exI [of _ "wait_till_next_attempt (job_meta x)"]) (simp add: example_codec_def secs_def)
qed

lemma example_facts:
  "job_ok i failing_job" "others_ok i (map example_round ts)"
  "mq_insert example_job 0 empty_queue = Inr ((), example_queue)"
  "from_raw_payload example_codec (new_json example_job) = Some \<lparr> job_meta = JobMeta_default, job_data = None \<rparr>"
  by (simp_all add: example_codec_def job_ok_def failing_job_def rs_err_def others_ok_def
      example_round_def example_queue_def mq_insert_def example_job_def empty_queue_def from_raw_payload_def)



text \<open>C37: A job that is not ordered after another one leaves the queue: with a runner that serves its
  channel and gets through to the database, whose rounds are farther apart than the longest wait,
  after \<open>max_attempts\<close> rounds its rows are gone and its function has been called, the last call
  having succeeded or been the last attempt. The wait between attempts never exceeds \<open>D\<close>.\<close>

theorem job_leaves_queue:
  assumes "mq_insert m t (primary db) = Inr ((), d)" "\<not> new_ordered m" "new_id m \<noteq> uuid_nil"
    and "from_raw_payload codec (new_json m) = Some data" "meta_attempts (job_meta data) = 0"
    and "0 < max_attempts self" "job_codec_ok codec" "job_ok (new_id m) func" "others_ok (new_id m) rds"
    and "initial_retry_delay self \<le> D" "max_retry_delay self + secs 1 \<le> D" "new_retry_backoff m \<le> D"
      "wait_till_next_attempt (job_meta data) \<le> D"
    and "in_time D (new_id m) (new_channel_name m)
      (t + new_delay m + (case new_commit_interval m of None \<Rightarrow> 0 | Some c \<Rightarrow> c)) rds"
    and "max_attempts self \<le> length rds"
    and "job_rounds self codec func (new_id m) rds (db\<lparr> primary := d \<rparr>) = (calls, db')"
  shows "job_rows (new_id m) (primary db') = ([], []) \<and> calls \<noteq> [] \<and>
    (List.last calls \<or> length calls = max_attempts self)"
proof -
  obtain r p where rows: "job_rows (new_id m) d = ([r], [p])" "pl_json p = new_json m" "mq_retry_backoff r = new_retry_backoff m"
    "mq_attempt_at r = Some (t + new_delay m + (case new_commit_interval m of None \<Rightarrow> 0 | Some c \<Rightarrow> c))"
    "mq_channel_name r = new_channel_name m" "mq_after r = None"
    using inserted_rows [OF assms(1)] assms(2) by metis
  then have "waits D (t + new_delay m + (case new_commit_interval m of None \<Rightarrow> 0 | Some c \<Rightarrow> c)) (new_channel_name m) r"
    using assms(12) by (simp add: waits_def mq_uuid_exists_def)
  then have "ready codec D (t + new_delay m + (case new_commit_interval m of None \<Rightarrow> 0 | Some c \<Rightarrow> c))
      (new_channel_name m) (new_id m) 0 d"
    using rows(1,2) assms(4,5,13) unfolding ready_def by auto
  then show ?thesis
    using rounds_run [OF assms(9,14,3,7,8,10,11) _ assms(6) _ assms(16)] assms(15) by (simp add: dequeued_def)
qed

theorem job_leaves_queue_witness:
  "job_rows ''job'' (primary (snd (job_rounds JobExecutor_default example_codec failing_job (new_id example_job)
     (map example_round [0, secs 70, secs 140, secs 210, secs 280])
     ((fresh_pg empty_queue)\<lparr> primary := example_queue \<rparr>)))) = ([], [])"
proof -
  have insert: "mq_insert example_job 0 (primary (fresh_pg empty_queue)) = Inr ((), example_queue)"
    using example_facts(3) by simp
  have time: "in_time (secs 61) (new_id example_job) (new_channel_name example_job) 0
      (map example_round [0, secs 70, secs 140, secs 210, secs 280])"
    by (simp add: example_round_def example_job_def secs_def)
  show ?thesis
    using job_leaves_queue [OF insert _ _ example_facts(4) _ _ example_codec_ok example_facts(1,2) _ _ _ _ _ _ surjective_pairing,
      of JobExecutor_default "secs 61" "[0, secs 70, secs 140, secs 210, secs 280]"] time
    by (simp add: example_job_def uuid_nil_def JobMeta_default_def JobExecutor_default_def secs_def)
qed

end
