(* ===== verification/Domain_Checks.thy ===== *)
theory Domain_Checks
  imports Account_Limits
begin

text \<open>
  The checks of what clients send: the regular expressions and \<open>checkedTo...\<close> functions of
  \<open>domain/shared/validation.ts\<close>, \<open>domain/accounts/index.ts\<close>, \<open>domain/users/index.ts\<close>,
  \<open>domain/wallets/validation.ts\<close>, and the validation of a payment request
  (\<open>domain/wallets/payment-input-validator.ts\<close>). Strings are over eight-bit characters.
\<close>

subsection \<open>Character classes\<close>

definition in_range :: "char \<Rightarrow> char \<Rightarrow> char \<Rightarrow> bool" where
  "in_range a b c \<longleftrightarrow> (of_char a :: nat) \<le> of_char c \<and> (of_char c :: nat) \<le> of_char b"

definition is_letter :: "char \<Rightarrow> bool" where
  "is_letter c \<longleftrightarrow> in_range (CHR ''a'') (CHR ''z'') c \<or> in_range (CHR ''A'') (CHR ''Z'') c"

definition is_hex :: "char \<Rightarrow> bool" where
  "is_hex c \<longleftrightarrow> is_digit c \<or> in_range (CHR ''a'') (CHR ''f'') c \<or> in_range (CHR ''A'') (CHR ''F'') c"

text \<open>\<open>\w\<close>\<close>

definition is_word :: "char \<Rightarrow> bool" where
  "is_word c \<longleftrightarrow> is_letter c \<or> is_digit c \<or> c = CHR ''_''"

text \<open>A regular expression that is a sequence of classes, from the first to the last character.\<close>

definition matches :: "(char \<Rightarrow> bool) list \<Rightarrow> string \<Rightarrow> bool" where
  "matches cs s \<longleftrightarrow> list_all2 (\<lambda>p c. p c) cs s"

subsection \<open>Ids\<close>

definition UuidRegex :: "(char \<Rightarrow> bool) list" where
  "UuidRegex =
     (let dash = (\<lambda>c. c = CHR ''-'')
      in replicate 8 is_hex @ [dash] @ replicate 4 is_hex @ [dash] @
         [in_range (CHR ''1'') (CHR ''5'')] @ replicate 3 is_hex @ [dash] @
         [\<lambda>c. c \<in> set ''89abAB''] @ replicate 3 is_hex @ [dash] @ replicate 12 is_hex)"

datatype check_error =
    InvalidUserId | InvalidAccountIdError | InvalidUsername | InvalidContactAlias | InvalidPhoneNumber
  | InvalidEmailAddress | InvalidDeviceTokenError | InvalidDeviceId | InvalidIdentityUsername
  | InvalidIdentityPassword | InvalidIdempotencyKeyError | InvalidCoordinatesError
  | InvalidBusinessTitleLengthError | InvalidAccountStatusError | InvalidAccountLevelError

definition checkedToUserId :: "string \<Rightarrow> check_error + string" where
  "checkedToUserId userId = (if matches UuidRegex userId then Inr userId else Inl InvalidUserId)"

definition checkedToAccountId :: "string \<Rightarrow> check_error + string" where
  "checkedToAccountId accountId = (if matches UuidRegex accountId then Inr accountId else Inl InvalidAccountIdError)"

definition checkedToIdentityUsername :: "string \<Rightarrow> check_error + string" where
  "checkedToIdentityUsername username =
     (if \<not> matches UuidRegex username then Inl InvalidIdentityUsername else Inr username)"

definition checkedToIdentityPassword :: "string \<Rightarrow> check_error + string" where
  "checkedToIdentityPassword password =
     (if \<not> matches UuidRegex password then Inl InvalidIdentityPassword else Inr password)"

definition checkedToIdempotencyKey :: "string \<Rightarrow> check_error + string" where
  "checkedToIdempotencyKey input = (if \<not> matches UuidRegex input then Inl InvalidIdempotencyKeyError else Inr input)"

definition checkedToWalletId :: "string \<Rightarrow> error + string" where
  "checkedToWalletId walletId = (if \<not> matches UuidRegex walletId then Inl InvalidWalletId else Inr walletId)"

subsection \<open>Accounts\<close>

text \<open>\<open>/^[0-9]+:[0-9]+:[a-z]+:[0-9a-z]+$/i\<close>\<close>

definition isDeviceId :: "string \<Rightarrow> bool" where
  "isDeviceId deviceId \<longleftrightarrow>
     (case str_split (CHR '':'') deviceId of
        [a, b, c, d] \<Rightarrow> a \<noteq> [] \<and> b \<noteq> [] \<and> c \<noteq> [] \<and> d \<noteq> [] \<and> list_all is_digit a \<and> list_all is_digit b \<and>
          list_all is_letter c \<and> list_all (\<lambda>x. is_digit x \<or> is_letter x) d
      | _ \<Rightarrow> False)"

definition checkedCoordinates :: "jsnum \<Rightarrow> jsnum \<Rightarrow> check_error + jsnum \<times> jsnum" where
  "checkedCoordinates latitude longitude =
     (if js_lt latitude (Fin (- 90)) \<or> js_lt (Fin 90) latitude \<or>
         js_lt longitude (Fin (- 180)) \<or> js_lt (Fin 180) longitude
      then Inl InvalidCoordinatesError else Inr (latitude, longitude))"

definition checkedMapTitle :: "string \<Rightarrow> check_error + string" where
  "checkedMapTitle title =
     (if length title < 3 \<or> length title > 100 then Inl InvalidBusinessTitleLengthError else Inr title)"

fun account_status_name :: "account_status \<Rightarrow> string" where
  "account_status_name AS_New = ''new''"
| "account_status_name AS_Pending = ''pending''"
| "account_status_name AS_Active = ''active''"
| "account_status_name AS_Locked = ''locked''"
| "account_status_name AS_Closed = ''closed''"

definition checkedAccountStatus :: "string \<Rightarrow> check_error + account_status" where
  "checkedAccountStatus status =
     (case find (\<lambda>st. account_status_name st = status) [AS_New, AS_Pending, AS_Active, AS_Locked, AS_Closed] of
        None \<Rightarrow> Inl InvalidAccountStatusError
      | Some st \<Rightarrow> Inr st)"

text \<open>\<open>/(?!^(1|3|bc1|lnbc1))^[0-9a-z_]{3,50}$/i\<close>\<close>

definition to_lower :: "char \<Rightarrow> char" where
  "to_lower c = (if in_range (CHR ''A'') (CHR ''Z'') c then char_of (of_char c + 32 :: nat) else c)"

definition starts_with :: "string \<Rightarrow> string \<Rightarrow> bool" where
  "starts_with p s \<longleftrightarrow> take (length p) s = p"

definition UsernameRegex :: "string \<Rightarrow> bool" where
  "UsernameRegex s \<longleftrightarrow>
     \<not> list_ex (\<lambda>p. starts_with p (map to_lower s)) [''1'', ''3'', ''bc1'', ''lnbc1''] \<and>
     list_all is_word s \<and> 3 \<le> length s \<and> length s \<le> 50"

definition checkedToUsername :: "string \<Rightarrow> check_error + string" where
  "checkedToUsername username = (if \<not> UsernameRegex username then Inl InvalidUsername else Inr username)"

definition ContactAliasRegex :: "string \<Rightarrow> bool" where
  "ContactAliasRegex s \<longleftrightarrow> list_all is_word s \<and> 3 \<le> length s \<and> length s \<le> 50"

definition checkedToContactAlias :: "string \<Rightarrow> check_error + string" where
  "checkedToContactAlias alias = (if \<not> ContactAliasRegex alias then Inl InvalidContactAlias else Inr alias)"

definition checkedToAccountLevel :: "jsnum \<Rightarrow> check_error + jsnum" where
  "checkedToAccountLevel level =
     (if list_ex (js_eq level) [Fin 0, Fin 1, Fin 2] then Inr level else Inl InvalidAccountLevelError)"

subsection \<open>Users\<close>

text \<open>\<open>/^\+\d{7,14}$/i\<close>\<close>

definition PhoneNumberRegex :: "string \<Rightarrow> bool" where
  "PhoneNumberRegex s \<longleftrightarrow>
     (case s of [] \<Rightarrow> False
      | c # ds \<Rightarrow> c = CHR ''+'' \<and> list_all is_digit ds \<and> 7 \<le> length ds \<and> length ds \<le> 14)"

definition checkedToPhoneNumber :: "string \<Rightarrow> check_error + string" where
  "checkedToPhoneNumber phoneNumber = (if \<not> PhoneNumberRegex phoneNumber then Inl InvalidPhoneNumber else Inr phoneNumber)"

text \<open>
  \<open>/^[\w-.+]+@([\w-]+\.)+[\w-]{2,4}$/i\<close>: neither side of the expression takes an \<open>@\<close>, and the labels
  take no dot.
\<close>

definition EmailAddressRegex :: "string \<Rightarrow> bool" where
  "EmailAddressRegex s \<longleftrightarrow>
     (case str_split (CHR ''@'') s of
        [local, domain] \<Rightarrow>
          (let labels = str_split (CHR ''.'') domain
           in local \<noteq> [] \<and> list_all (\<lambda>c. is_word c \<or> c \<in> set ''-.+'') local \<and>
              length labels \<ge> 2 \<and> list_all (\<lambda>l. l \<noteq> [] \<and> list_all (\<lambda>c. is_word c \<or> c = CHR ''-'') l) labels \<and>
              2 \<le> length (last labels) \<and> length (last labels) \<le> 4)
      | _ \<Rightarrow> False)"

definition checkedToEmailAddress :: "string \<Rightarrow> check_error + string" where
  "checkedToEmailAddress emailAddress =
     (if \<not> EmailAddressRegex emailAddress then Inl InvalidEmailAddress else Inr emailAddress)"

definition checkedToDeviceToken :: "string \<Rightarrow> check_error + string" where
  "checkedToDeviceToken token = (if length token \<noteq> 163 then Inl InvalidDeviceTokenError else Inr token)"

definition checkedToDeviceId :: "string option \<Rightarrow> check_error + string" where
  "checkedToDeviceId deviceId =
     (case deviceId of
        None \<Rightarrow> Inl InvalidDeviceId
      | Some i \<Rightarrow> if i = [] \<or> length i > 38 then Inl InvalidDeviceId else Inr i)"

subsection \<open>payment-input-validator.ts\<close>

text \<open>A request: the amount, its currency when it is not the wallet's, and the wallets.\<close>

record payment_input =
  in_amount :: "jsnum option"
  in_amountCurrency :: "wallet_currency option"
  in_senderWalletId :: string
  in_recipientWalletId :: "string option"

definition validatePaymentInput ::
  "(string \<Rightarrow> error + wallet_descriptor) \<Rightarrow> account_status \<Rightarrow> string \<Rightarrow> payment_input \<Rightarrow>
   error + payment_amount \<times> wallet_descriptor \<times> wallet_descriptor option" where
  "validatePaymentInput getWalletFn status accountId i =
     (if status \<noteq> AS_Active then Inl InactiveAccountError
      else rbind (checkedToWalletId (in_senderWalletId i)) (\<lambda>senderWalletId.
        rbind (getWalletFn senderWalletId) (\<lambda>senderWallet.
        if wallet_accountId senderWallet \<noteq> accountId then Inl InvalidWalletId
        else
          let amountCurrency = (case in_amountCurrency i of None \<Rightarrow> wallet_currency senderWallet | Some c \<Rightarrow> c)
          in rbind (if amountCurrency = Btc then checkedToBtcPaymentAmount (in_amount i)
                    else checkedToUsdPaymentAmount (in_amount i)) (\<lambda>validAmount.
             case in_recipientWalletId i of
               Some r \<Rightarrow>
                 if r = [] then Inr (validAmount, senderWallet, None)
                 else rbind (checkedToWalletId r) (\<lambda>recipientWalletId.
                      rbind (getWalletFn recipientWalletId) (\<lambda>recipientWallet.
                      if wallet_id recipientWallet = wallet_id senderWallet then Inl SelfPaymentError
                      else Inr (validAmount, senderWallet, Some recipientWallet)))
             | None \<Rightarrow> Inr (validAmount, senderWallet, None)))))"

subsection \<open>Facts\<close>

lemma matches_length: "matches cs s \<Longrightarrow> length s = length cs"
  by (simp add: matches_def list_all2_lengthD)

lemma uuid_length: "matches UuidRegex s \<Longrightarrow> length s = 36"
  using matches_length by (fastforce simp: UuidRegex_def Let_def)

text \<open>A user name is never taken for a payment request or an address on chain.\<close>

lemma username_no_address:
  assumes "checkedToUsername s = Inr u"
  shows "u = s" "\<not> starts_with ''lnbc1'' s" "\<not> starts_with ''bc1'' s" "hd s \<noteq> CHR ''1''" "hd s \<noteq> CHR ''3''"
proof -
  have s: "UsernameRegex s" "u = s"
    using assms by (auto simp: checkedToUsername_def split: if_splits)
  have low: "map to_lower (take n s) = take n (map to_lower s)" for n
    by (simp add: take_map)
  have keep: "to_lower c = c" if "c \<in> set ''lnbc13''" for c
    using that by (auto simp: to_lower_def in_range_def)
  have lift: "starts_with p (map to_lower s)" if "starts_with p s" "set p \<subseteq> set ''lnbc13''" for p
    using that low [of "length p"] by (auto simp: starts_with_def subset_iff keep map_idI)
  have not: "\<not> starts_with p s" if "p \<in> {''1'', ''3'', ''bc1'', ''lnbc1''}" for p
    using lift [of p] s(1) that by (auto simp: UsernameRegex_def)
  show "u = s" "\<not> starts_with ''lnbc1'' s" "\<not> starts_with ''bc1'' s"
    using s(2) not by simp_all
  have ne: "s \<noteq> []"
    using s(1) by (auto simp: UsernameRegex_def)
  then show "hd s \<noteq> CHR ''1''" "hd s \<noteq> CHR ''3''"
    using not [of "''1''"] not [of "''3''"] by (cases s; simp add: starts_with_def)+
qed

text \<open>What a valid payment request is.\<close>

lemma validatePaymentInput_valid:
  assumes "validatePaymentInput getW status acc i = Inr (a, sw, rw)"
  shows "status = AS_Active" "getW (in_senderWalletId i) = Inr sw" "wallet_accountId sw = acc"
    "amount a > 0"
    "\<And>w. rw = Some w \<Longrightarrow> wallet_id w \<noteq> wallet_id sw \<and> (\<exists>r. in_recipientWalletId i = Some r \<and> getW r = Inr w)"
proof -
  have chk: "checkedToWalletId x = Inr y \<Longrightarrow> y = x" for x y
    by (auto simp: checkedToWalletId_def split: if_splits)
  have "(checkedToBtcPaymentAmount (in_amount i) = Inr a \<or> checkedToUsdPaymentAmount (in_amount i) = Inr a) \<and>
    status = AS_Active \<and> getW (in_senderWalletId i) = Inr sw \<and> wallet_accountId sw = acc \<and>
    (\<forall>w. rw = Some w \<longrightarrow> wallet_id w \<noteq> wallet_id sw \<and> (\<exists>r. in_recipientWalletId i = Some r \<and> getW r = Inr w))"
    using assms
    by (auto simp: validatePaymentInput_def rbind_def Let_def dest!: chk split: if_splits sum.splits option.splits)
  then show "status = AS_Active" "getW (in_senderWalletId i) = Inr sw" "wallet_accountId sw = acc"
    "\<And>w. rw = Some w \<Longrightarrow> wallet_id w \<noteq> wallet_id sw \<and> (\<exists>r. in_recipientWalletId i = Some r \<and> getW r = Inr w)"
    "amount a > 0"
    by (auto simp: btc_check.check_Inr_iff usd_check.check_Inr_iff)
qed

end
