(* ===== verification/Api_Keys.thy ===== *)
theory Api_Keys
  imports Rust_Base
begin

text \<open>
  The service of API keys (\<open>src/core/api-keys\<close>): scopes, the keys of an identity and their life from
  creation to revocation, the check the gateway makes of a key, and the decoding of session
  tokens. The hash functions of the database, the source of random codes, the verification of
  tokens and the clock are parameters.
\<close>

subsection \<open>Scopes\<close>

datatype Scope = Read | Write | Receive

definition READ_SCOPE :: string where "READ_SCOPE = ''read''"
definition WRITE_SCOPE :: string where "WRITE_SCOPE = ''write''"
definition RECEIVE_SCOPE :: string where "RECEIVE_SCOPE = ''receive''"

fun Scope_to_string :: "Scope \<Rightarrow> string" where
  "Scope_to_string Read = READ_SCOPE"
| "Scope_to_string Write = WRITE_SCOPE"
| "Scope_to_string Receive = RECEIVE_SCOPE"

definition Scope_from_str :: "string \<Rightarrow> string + Scope" where
  "Scope_from_str s =
     (if s = READ_SCOPE then Inr Read
      else if s = WRITE_SCOPE then Inr Write
      else if s = RECEIVE_SCOPE then Inr Receive
      else Inl (''Invalid scope: '' @ s))"

definition is_read_only :: "Scope list \<Rightarrow> bool" where
  "is_read_only scope \<longleftrightarrow> length scope = 1 \<and> hd scope = Read"

definition can_write :: "string \<Rightarrow> bool" where
  "can_write scope \<longleftrightarrow> WRITE_SCOPE \<in> set (str_split (CHR '' '') scope) \<or> scope = []"

definition strip_prefix :: "string \<Rightarrow> string \<Rightarrow> string option" where
  "strip_prefix p s = (if take (length p) s = p then Some (drop (length p) s) else None)"

lemma Scope_round_trip [simp]: "Scope_from_str (Scope_to_string s) = Inr s"
  by (cases s) (simp_all add: Scope_from_str_def READ_SCOPE_def WRITE_SCOPE_def RECEIVE_SCOPE_def)

lemma Scope_from_str_iff: "Scope_from_str t = Inr s \<longleftrightarrow> t = Scope_to_string s"
  by (cases s)
    (auto simp: Scope_from_str_def READ_SCOPE_def WRITE_SCOPE_def RECEIVE_SCOPE_def split: if_splits)

lemma Scope_to_string_inject [simp]: "Scope_to_string s = Scope_to_string t \<longleftrightarrow> s = t"
  using Scope_round_trip by (metis sum.inject(2))

lemma Scope_no_space: "CHR '' '' \<notin> set (Scope_to_string s)"
  by (cases s) (simp_all add: READ_SCOPE_def WRITE_SCOPE_def RECEIVE_SCOPE_def)

lemma Scope_not_empty: "Scope_to_string s \<noteq> []"
  by (cases s) (simp_all add: READ_SCOPE_def WRITE_SCOPE_def RECEIVE_SCOPE_def)

text \<open>The string of scopes the check hands out tells exactly whether writing is allowed.\<close>

lemma can_write_iff:
  assumes "scopes \<noteq> []"
  shows "can_write (str_join '' '' (map Scope_to_string scopes)) \<longleftrightarrow> Write \<in> set scopes"
proof -
  have "str_split (CHR '' '') (str_join '' '' (map Scope_to_string scopes)) = map Scope_to_string scopes"
    using assms Scope_no_space by (intro str_split_join) auto
  moreover have "str_join '' '' (map Scope_to_string scopes) \<noteq> []"
    using assms Scope_not_empty by (cases scopes rule: remdups_adj.cases) auto
  moreover have "WRITE_SCOPE \<in> Scope_to_string ` A \<longleftrightarrow> Write \<in> A" for A
    using Scope_to_string_inject [of Write] by (auto simp: image_iff simp del: Scope_to_string_inject)
  ultimately show ?thesis
    by (simp add: can_write_def)
qed

subsection \<open>Keys\<close>

record IdentityApiKey =
  ak_name :: string
  ak_id :: uuid
  ak_identity_id :: uuid
  ak_created_at :: timestamp
  ak_expires_at :: "timestamp option"
  ak_last_used_at :: "timestamp option"
  ak_revoked :: bool
  ak_expired :: bool
  ak_scopes :: "Scope list"

datatype api_error =
    ApiSqlx sqlx_error
  | KeyNotFoundForRevoke
  | MismatchedPrefix
  | NoActiveKeyFound
  | MissingScopes
  | MissingApiKey
  | BadKeyFormat
  | ApiPanic string

text \<open>The tables of the service.\<close>

record identity_row =
  id_id :: uuid
  id_subject :: string
  id_created_at :: timestamp

record ('h, 'c) key_row =
  kr_id :: uuid
  kr_identity :: uuid
  kr_name :: string
  kr_last_used_at :: "timestamp option"
  kr_encrypted_key :: 'c
  kr_created_at :: timestamp
  kr_expires_at :: "timestamp option"
  kr_revoked :: bool
  kr_revoked_at :: "timestamp option"
  kr_scopes :: "string list"
  kr_hashed_key :: 'h

record ('h, 'c) api_tables =
  identities :: "identity_row list"
  identity_api_keys :: "('h, 'c) key_row list"

text \<open>
  Third-party code: \<open>digest(_, 'sha256')\<close>, \<open>crypt\<close> and \<open>gen_salt('bf')\<close> of the database, and the
  random alphanumeric codes; the draws are numbered.
\<close>

record ('h, 'c) key_crypto =
  digest :: "string \<Rightarrow> 'h"
  crypt :: "string \<Rightarrow> 'c \<Rightarrow> 'c"
  gen_salt :: "nat \<Rightarrow> 'c"
  sample_string :: "nat \<Rightarrow> string"
  key_prefix :: string

type_synonym ('h, 'c, 'a) api_op = "(('h, 'c) api_tables pg, api_error, 'a) rust"

definition upsert_identity ::
  "string \<Rightarrow> uuid \<Rightarrow> timestamp \<Rightarrow> ('h, 'c) api_tables \<Rightarrow> sqlx_error + uuid \<times> ('h, 'c) api_tables" where
  "upsert_identity subject u t d =
     (case find (\<lambda>r. id_subject r = subject) (identities d) of
        Some r \<Rightarrow> Inr (id_id r, d)
      | None \<Rightarrow>
          if u \<in> id_id ` set (identities d) then Inl UniqueViolation
          else Inr (u, d\<lparr> identities := identities d @
                 [\<lparr> id_id = u, id_subject = subject, id_created_at = t \<rparr>] \<rparr>))"

definition find_or_create_identity_for_subject_in_tx :: "string \<Rightarrow> ('h, 'c, uuid) api_op" where
  "find_or_create_identity_for_subject_in_tx subject =
     rs_bind new_uuid (\<lambda>u. rs_map_err ApiSqlx (pg_stmt (upsert_identity subject u)))"

definition insert_key ::
  "('h, 'c) key_row \<Rightarrow> timestamp \<Rightarrow> ('h, 'c) api_tables \<Rightarrow>
   sqlx_error + (uuid \<times> timestamp) \<times> ('h, 'c) api_tables" where
  "insert_key r t d =
     (if kr_id r \<in> kr_id ` set (identity_api_keys d) \<or>
         kr_hashed_key r \<in> kr_hashed_key ` set (identity_api_keys d) then Inl UniqueViolation
      else if kr_identity r \<notin> id_id ` set (identities d) then Inl ForeignKeyViolation
      else Inr ((kr_id r, t), d\<lparr> identity_api_keys := identity_api_keys d @ [r\<lparr> kr_created_at := t \<rparr>] \<rparr>))"

definition create_key_for_identity_in_tx ::
  "('h, 'c) key_crypto \<Rightarrow> uuid \<Rightarrow> string \<Rightarrow> timestamp option \<Rightarrow> Scope list \<Rightarrow>
   ('h, 'c, IdentityApiKey \<times> string) api_op" where
  "create_key_for_identity_in_tx cr identity_id name expires_at scopes =
     rs_bind (rs_get drawn) (\<lambda>n.
     rs_bind new_uuid (\<lambda>u.
     let code = sample_string cr n in
     rs_bind (rs_map_err ApiSqlx (pg_stmt (insert_key
       \<lparr> kr_id = u, kr_identity = identity_id, kr_name = name, kr_last_used_at = None,
         kr_encrypted_key = crypt cr code (gen_salt cr n), kr_created_at = 0,
         kr_expires_at = expires_at, kr_revoked = False, kr_revoked_at = None,
         kr_scopes = map Scope_to_string scopes, kr_hashed_key = digest cr code \<rparr>))) (\<lambda>(i, created).
     rs_ok
       (\<lparr> ak_name = name, ak_id = i, ak_identity_id = identity_id, ak_created_at = created,
          ak_expires_at = expires_at, ak_last_used_at = None, ak_revoked = False,
          ak_expired = False, ak_scopes = scopes \<rparr>,
        key_prefix cr @ code))))"

text \<open>\<open>expect("Invalid scope")\<close> on every scope of a row.\<close>

fun parse_scopes :: "string list \<Rightarrow> api_error + Scope list" where
  "parse_scopes [] = Inr []"
| "parse_scopes (s # ss) =
     (case Scope_from_str s of
        Inl _ \<Rightarrow> Inl (ApiPanic ''Invalid scope'')
      | Inr x \<Rightarrow> (case parse_scopes ss of Inl e \<Rightarrow> Inl e | Inr xs \<Rightarrow> Inr (x # xs)))"

definition key_active :: "timestamp \<Rightarrow> ('h, 'c) key_row \<Rightarrow> bool" where
  "key_active t k \<longleftrightarrow>
     \<not> kr_revoked k \<and> (case kr_expires_at k of None \<Rightarrow> True | Some e \<Rightarrow> e > t)"

definition subject_of :: "('h, 'c) api_tables \<Rightarrow> ('h, 'c) key_row \<Rightarrow> string option" where
  "subject_of d k = map_option id_subject (find (\<lambda>i. id_id i = kr_identity k) (identities d))"

text \<open>
  \<open>UPDATE ... WHERE p ... RETURNING\<close> on the keys joined with their identities; the first row
  returned is the one read.
\<close>

definition update_keys ::
  "(('h, 'c) key_row \<Rightarrow> bool) \<Rightarrow> (('h, 'c) key_row \<Rightarrow> ('h, 'c) key_row) \<Rightarrow> ('h, 'c) api_tables \<Rightarrow>
   (('h, 'c) key_row \<times> string) option \<times> ('h, 'c) api_tables" where
  "update_keys p f d =
     (let hit = (\<lambda>k. subject_of d k \<noteq> None \<and> p k)
      in (map_option (\<lambda>k. (f k, the (subject_of d k))) (find hit (identity_api_keys d)),
          d\<lparr> identity_api_keys := map (\<lambda>k. if hit k then f k else k) (identity_api_keys d) \<rparr>))"

text \<open>The hashes of the keys are unique, which an update that sets one has to respect.\<close>

definition unique_hashes ::
  "'r option \<times> ('h, 'c) api_tables \<Rightarrow> sqlx_error + 'r option \<times> ('h, 'c) api_tables" where
  "unique_hashes u =
     (if fst u \<noteq> None \<and> \<not> distinct (map kr_hashed_key (identity_api_keys (snd u))) then Inl UniqueViolation
      else Inr u)"

definition found_key :: "('h, 'c) key_row \<times> string \<Rightarrow> ('h, 'c, uuid \<times> string \<times> Scope list) api_op" where
  "found_key ks =
     (case parse_scopes (kr_scopes (fst ks)) of
        Inl e \<Rightarrow> rs_err e
      | Inr scopes \<Rightarrow> rs_ok (kr_id (fst ks), snd ks, scopes))"

definition find_subject_by_key ::
  "('h, 'c) key_crypto \<Rightarrow> string \<Rightarrow> ('h, 'c, uuid \<times> string \<times> Scope list) api_op" where
  "find_subject_by_key cr key =
     (case strip_prefix (key_prefix cr) key of
        None \<Rightarrow> rs_err MismatchedPrefix
      | Some code \<Rightarrow>
          rs_bind (rs_map_err ApiSqlx (pg_stmt (\<lambda>t d. Inr (update_keys
            (\<lambda>k. kr_hashed_key k = digest cr code \<and> key_active t k)
            (\<lambda>k. k\<lparr> kr_last_used_at := Some t \<rparr>) d)))) (\<lambda>r.
          case r of
            Some ks \<Rightarrow> found_key ks
          | None \<Rightarrow>
              rs_bind (rs_map_err ApiSqlx (pg_stmt (\<lambda>t d. unique_hashes (update_keys
                (\<lambda>k. kr_encrypted_key k = crypt cr code (kr_encrypted_key k) \<and> key_active t k)
                (\<lambda>k. k\<lparr> kr_last_used_at := Some t, kr_hashed_key := digest cr code \<rparr>) d)))) (\<lambda>r'.
              case r' of
                Some ks \<Rightarrow> found_key ks
              | None \<Rightarrow> rs_err NoActiveKeyFound)))"

text \<open>A row as the API shows it, at time \<open>t\<close>.\<close>

definition key_of_row :: "timestamp \<Rightarrow> ('h, 'c) key_row \<Rightarrow> api_error + IdentityApiKey" where
  "key_of_row t k =
     (case parse_scopes (kr_scopes k) of
        Inl e \<Rightarrow> Inl e
      | Inr scopes \<Rightarrow> Inr
          \<lparr> ak_name = kr_name k, ak_id = kr_id k, ak_identity_id = kr_identity k,
            ak_created_at = kr_created_at k, ak_expires_at = kr_expires_at k,
            ak_last_used_at = kr_last_used_at k, ak_revoked = kr_revoked k,
            ak_expired = (case kr_expires_at k of None \<Rightarrow> False | Some e \<Rightarrow> e < t),
            ak_scopes = scopes \<rparr>)"

fun keys_of_rows :: "timestamp \<Rightarrow> ('h, 'c) key_row list \<Rightarrow> api_error + IdentityApiKey list" where
  "keys_of_rows t [] = Inr []"
| "keys_of_rows t (k # ks) =
     (case key_of_row t k of
        Inl e \<Rightarrow> Inl e
      | Inr a \<Rightarrow> (case keys_of_rows t ks of Inl e \<Rightarrow> Inl e | Inr as \<Rightarrow> Inr (a # as)))"

definition list_keys_for_subject :: "string \<Rightarrow> ('h, 'c, IdentityApiKey list) api_op" where
  "list_keys_for_subject subject =
     rs_bind (rs_map_err ApiSqlx (pg_select (\<lambda>db.
       keys_of_rows (tx_now db) (filter (\<lambda>k. subject_of (primary db) k = Some subject)
         (identity_api_keys (primary db)))))) (\<lambda>r.
     case r of Inl e \<Rightarrow> rs_err e | Inr ks \<Rightarrow> rs_ok ks)"

definition revoke_api_key :: "string \<Rightarrow> uuid \<Rightarrow> ('h, 'c, IdentityApiKey) api_op" where
  "revoke_api_key subject key_id =
     rs_bind (rs_map_err ApiSqlx (pg_stmt (\<lambda>t d.
       case update_keys (\<lambda>k. subject_of d k = Some subject \<and> kr_id k = key_id)
              (\<lambda>k. k\<lparr> kr_revoked := True, kr_revoked_at := Some t \<rparr>) d of
         (r, d') \<Rightarrow> Inr (map_option (\<lambda>ks. key_of_row t (fst ks)) r, d')))) (\<lambda>r.
     case r of
       None \<Rightarrow> rs_err KeyNotFoundForRevoke
     | Some (Inl e) \<Rightarrow> rs_err e
     | Some (Inr a) \<Rightarrow> rs_ok a)"

subsection \<open>The application\<close>

definition lookup_authenticated_subject where
  "lookup_authenticated_subject cr key = find_subject_by_key cr key"

definition secs_per_day :: int where "secs_per_day = 24 * 60 * 60"

text \<open>Times are in microseconds, as the database stores them.\<close>

definition create_api_key_for_subject ::
  "('h, 'c) key_crypto \<Rightarrow> timestamp \<Rightarrow> string \<Rightarrow> string \<Rightarrow> nat option \<Rightarrow> Scope list \<Rightarrow>
   ('h, 'c, IdentityApiKey \<times> string) api_op" where
  "create_api_key_for_subject cr utc_now subject name expire_in_days scopes =
     (if scopes = [] then rs_err MissingScopes
      else in_tx ApiSqlx
        (rs_bind (find_or_create_identity_for_subject_in_tx subject) (\<lambda>i.
         let expiry = map_option (\<lambda>days. utc_now + int days * secs_per_day * 1000000) expire_in_days
         in create_key_for_identity_in_tx cr i name expiry scopes)))"

definition list_api_keys_for_subject where
  "list_api_keys_for_subject subject = list_keys_for_subject subject"

definition revoke_api_key_for_subject where
  "revoke_api_key_for_subject subject key_id = revoke_api_key subject key_id"

record CheckResponse =
  check_sub :: string
  check_scope :: string

text \<open>The header: absent, not a readable string, or the key.\<close>

datatype key_header = NoHeader | UnreadableHeader | KeyHeader string

definition check_handler :: "('h, 'c) key_crypto \<Rightarrow> key_header \<Rightarrow> ('h, 'c, CheckResponse) api_op" where
  "check_handler cr header =
     (case header of
        NoHeader \<Rightarrow> rs_err MissingApiKey
      | UnreadableHeader \<Rightarrow> rs_err BadKeyFormat
      | KeyHeader key \<Rightarrow>
          rs_bind (lookup_authenticated_subject cr key) (\<lambda>(i, sub, scopes).
          rs_ok \<lparr> check_sub = sub, check_scope = str_join '' '' (map Scope_to_string scopes) \<rparr>))"

subsection \<open>GraphQL\<close>

record AuthSubject =
  auth_id :: string
  auth_can_write :: bool

datatype graphql_error = PermissionDenied | InvalidKeyId | ApplicationError api_error

record JwtClaims =
  claims_sub :: string
  claims_scope :: string

definition graphql_handler :: "JwtClaims \<Rightarrow> AuthSubject" where
  "graphql_handler jwt_claims =
     \<lparr> auth_id = claims_sub jwt_claims, auth_can_write = can_write (claims_scope jwt_claims) \<rparr>"

text \<open>A key as the API shows it; its times are in whole seconds there.\<close>

record ApiKey =
  gk_id :: string
  gk_name :: string
  gk_created_at :: int
  gk_revoked :: bool
  gk_expired :: bool
  gk_last_used_at :: "int option"
  gk_expires_at :: "int option"
  gk_read_only :: bool
  gk_scopes :: "Scope list"

definition Timestamp_to_value :: "timestamp \<Rightarrow> int" where
  "Timestamp_to_value t = t div 1000000"

definition ApiKey_from :: "IdentityApiKey \<Rightarrow> ApiKey" where
  "ApiKey_from key =
     \<lparr> gk_id = ak_id key, gk_name = ak_name key, gk_created_at = Timestamp_to_value (ak_created_at key),
       gk_revoked = ak_revoked key, gk_expired = ak_expired key,
       gk_last_used_at = map_option Timestamp_to_value (ak_last_used_at key),
       gk_expires_at = map_option Timestamp_to_value (ak_expires_at key),
       gk_read_only = is_read_only (ak_scopes key), gk_scopes = ak_scopes key \<rparr>"

record ApiKeyCreatePayload =
  api_key :: ApiKey
  api_key_secret :: string

definition ApiKeyCreatePayload_from :: "IdentityApiKey \<times> string \<Rightarrow> ApiKeyCreatePayload" where
  "ApiKeyCreatePayload_from ks = \<lparr> api_key = ApiKey_from (fst ks), api_key_secret = snd ks \<rparr>"

definition default_scopes :: "Scope list" where
  "default_scopes = [Read, Write]"

definition api_key_create where
  "api_key_create cr utc_now subject name expire_in_days scopes =
     (if \<not> auth_can_write subject then rs_err PermissionDenied
      else rs_bind (rs_map_err ApplicationError
        (create_api_key_for_subject cr utc_now (auth_id subject) name expire_in_days
          (case scopes of None \<Rightarrow> default_scopes | Some ss \<Rightarrow> ss)))
        (\<lambda>key. rs_ok (ApiKeyCreatePayload_from key)))"

definition api_key_revoke where
  "api_key_revoke parse_uuid subject key_id =
     (case parse_uuid key_id of
        None \<Rightarrow> rs_err InvalidKeyId
      | Some i \<Rightarrow> rs_bind (rs_map_err ApplicationError (revoke_api_key_for_subject (auth_id subject) i))
          (\<lambda>key. rs_ok (ApiKey_from key)))"

definition user_api_keys where
  "user_api_keys subject =
     rs_bind (rs_map_err ApplicationError (list_api_keys_for_subject (auth_id subject)))
       (\<lambda>keys. rs_ok (map ApiKey_from keys))"

text \<open>The status of an error of the check.\<close>

fun error_status :: "api_error \<Rightarrow> nat" where
  "error_status NoActiveKeyFound = 401"
| "error_status MismatchedPrefix = 401"
| "error_status MissingApiKey = 400"
| "error_status BadKeyFormat = 400"
| "error_status _ = 500"

subsection \<open>Session tokens\<close>

datatype 'e jwks_error = NoKeyAvailable | Jwt 'e | Reqwest 'e

text \<open>The token library: the key id of a token, and the claims of a token a key verifies.\<close>

record ('t, 'k, 'e, 'c) jwt_lib =
  decode_header :: "'t \<Rightarrow> 'e + string option"
  decode_with :: "'t \<Rightarrow> 'k \<Rightarrow> 'e + 'c"

fun decode_any :: "('t \<Rightarrow> 'k \<Rightarrow> 'e + 'c) \<Rightarrow> 't \<Rightarrow> 'k list \<Rightarrow> 'e jwks_error \<Rightarrow> 'e jwks_error + 'c" where
  "decode_any dec token [] err = Inl err"
| "decode_any dec token (k # ks) err =
     (case dec token k of Inr claims \<Rightarrow> Inr claims | Inl e \<Rightarrow> decode_any dec token ks (Jwt e))"

definition RemoteJwksDecoder_decode ::
  "('t, 'k, 'e, 'c) jwt_lib \<Rightarrow> (string option \<times> 'k) list \<Rightarrow> 't \<Rightarrow> 'e jwks_error + 'c" where
  "RemoteJwksDecoder_decode lib keys_cache token =
     (case decode_header lib token of
        Inl e \<Rightarrow> Inl (Jwt e)
      | Inr target_kid \<Rightarrow>
          (case find (\<lambda>(kid, _). kid = target_kid) keys_cache of
             Some (_, key) \<Rightarrow> (case decode_with lib token key of Inl e \<Rightarrow> Inl (Jwt e) | Inr c \<Rightarrow> Inr c)
           | None \<Rightarrow> decode_any (decode_with lib) token (map snd keys_cache) NoKeyAvailable))"

datatype AuthError = InvalidToken | MissingToken | ExpiredToken | InvalidSignature | InternalError

text \<open>The kinds of error of the token library that are told apart.\<close>

datatype jwt_error_kind = ExpiredSignatureKind | InvalidSignatureKind | OtherKind

definition from_request_parts ::
  "('t, 'k, 'e, 'c) jwt_lib \<Rightarrow> ('e \<Rightarrow> jwt_error_kind) \<Rightarrow> (string option \<times> 'k) list \<Rightarrow> 't option \<Rightarrow> AuthError + 'c" where
  "from_request_parts lib kind keys_cache bearer =
     (case bearer of
        None \<Rightarrow> Inl MissingToken
      | Some token \<Rightarrow>
          (case RemoteJwksDecoder_decode lib keys_cache token of
             Inr claims \<Rightarrow> Inr claims
           | Inl (Jwt e) \<Rightarrow> Inl (case kind e of ExpiredSignatureKind \<Rightarrow> ExpiredToken
               | InvalidSignatureKind \<Rightarrow> InvalidSignature | OtherKind \<Rightarrow> InvalidToken)
           | Inl _ \<Rightarrow> Inl InternalError))"

fun auth_status :: "AuthError \<Rightarrow> nat" where
  "auth_status InternalError = 500"
| "auth_status _ = 401"

text \<open>
  Refreshing the cache: \<open>fetch n\<close> is the answer to the \<open>n\<close>-th request for the key set, and keys
  that cannot be read are left out.
\<close>

definition refresh_keys_once ::
  "('j \<Rightarrow> string option) \<Rightarrow> ('j \<Rightarrow> 'k option) \<Rightarrow> 'e + 'j list \<Rightarrow> (string option \<times> 'k) list \<Rightarrow>
   ('e jwks_error + unit) \<times> (string option \<times> 'k) list" where
  "refresh_keys_once key_id from_jwk answer keys_cache =
     (case answer of
        Inl e \<Rightarrow> (Inl (Reqwest e), keys_cache)
      | Inr jwks \<Rightarrow>
          (Inr (), List.map_filter (\<lambda>j. map_option (\<lambda>k. (key_id j, k)) (from_jwk j)) jwks))"

fun refresh_keys ::
  "('j \<Rightarrow> string option) \<Rightarrow> ('j \<Rightarrow> 'k option) \<Rightarrow> (nat \<Rightarrow> 'e + 'j list) \<Rightarrow> nat \<Rightarrow> nat \<Rightarrow> 'e jwks_error option \<Rightarrow>
   (string option \<times> 'k) list \<Rightarrow> ('e jwks_error option + unit) \<times> (string option \<times> 'k) list" where
  "refresh_keys key_id from_jwk fetch n 0 err keys_cache = (Inl err, keys_cache)"
| "refresh_keys key_id from_jwk fetch n (Suc left) err keys_cache =
     (case refresh_keys_once key_id from_jwk (fetch n) keys_cache of
        (Inr _, keys') \<Rightarrow> (Inr (), keys')
      | (Inl e, keys') \<Rightarrow> refresh_keys key_id from_jwk fetch (Suc n) left (Some e) keys')"

definition retry_count :: nat where
  "retry_count = 10"

text \<open>A token is only accepted when a cached key verifies it, and one with a known key id only by that key.\<close>

lemma decode_any_verified:
  "decode_any dec token ks err = Inr c \<Longrightarrow> \<exists>k \<in> set ks. dec token k = Inr c"
  by (induction ks arbitrary: err) (auto split: sum.splits)

lemma decode_any_Jwt:
  "decode_any dec token ks err = Inl e \<Longrightarrow> ks \<noteq> [] \<Longrightarrow> \<exists>e'. e = Jwt e'"
proof (induction ks arbitrary: err)
  case (Cons k ks)
  then show ?case
    by (cases ks) (auto split: sum.splits)
qed simp

lemma decode_verified:
  assumes "RemoteJwksDecoder_decode lib keys token = Inr c"
  shows "\<exists>kid key. (kid, key) \<in> set keys \<and> decode_with lib token key = Inr c"
proof -
  obtain target where t: "decode_header lib token = Inr target"
    using assms by (auto simp: RemoteJwksDecoder_decode_def split: sum.splits)
  show ?thesis
  proof (cases "find (\<lambda>(kid, _). kid = target) keys")
    case None
    then have "decode_any (decode_with lib) token (map snd keys) NoKeyAvailable = Inr c"
      using assms t by (simp add: RemoteJwksDecoder_decode_def)
    then show ?thesis
      using decode_any_verified by fastforce
  next
    case (Some x)
    then have "x \<in> set keys"
      by (blast dest: find_SomeD)
    moreover obtain kid key where "x = (kid, key)"
      by (cases x)
    ultimately show ?thesis
      using assms t Some by (auto simp: RemoteJwksDecoder_decode_def split: sum.splits)
  qed
qed

text \<open>A request without a token is not authorized, and neither is one no cached key verifies.\<close>

lemma unverified_refused:
  assumes "\<forall>token kid key. bearer = Some token \<longrightarrow> (kid, key) \<in> set keys \<longrightarrow> isl (decode_with lib token key)"
  shows "\<exists>e. from_request_parts lib kind keys bearer = Inl e \<and> (keys \<noteq> [] \<longrightarrow> auth_status e = 401)"
proof (cases bearer)
  case (Some token)
  have "isl (RemoteJwksDecoder_decode lib keys token)"
    using assms decode_verified [of lib keys token] Some
    by (cases "RemoteJwksDecoder_decode lib keys token") fastforce+
  moreover have "\<exists>e'. RemoteJwksDecoder_decode lib keys token = Inl (Jwt e')"
    if "keys \<noteq> []" "isl (RemoteJwksDecoder_decode lib keys token)"
    using that decode_any_Jwt [of "decode_with lib" token "map snd keys" NoKeyAvailable]
    by (auto simp: RemoteJwksDecoder_decode_def isl_def split: sum.splits option.splits prod.splits)
  ultimately show ?thesis
    using Some
    by (cases "keys = []")
      (auto simp: from_request_parts_def isl_def split: jwks_error.splits jwt_error_kind.splits)
qed (simp add: from_request_parts_def)

lemma refresh_keys_fails:
  "fst (refresh_keys key_id from_jwk fetch n k err keys) = Inl e \<Longrightarrow>
   snd (refresh_keys key_id from_jwk fetch n k err keys) = keys \<and> (\<forall>i \<in> {n..<n + k}. isl (fetch i))"
proof (induction k arbitrary: n err)
  case (Suc k)
  then have "isl (fetch n)"
    by (auto simp: refresh_keys_once_def split: sum.splits)
  then obtain x where x: "fetch n = Inl x"
    by (cases "fetch n") auto
  then have IH: "snd (refresh_keys key_id from_jwk fetch (Suc n) k (Some (Reqwest x)) keys) = keys"
    "\<forall>i \<in> {Suc n..<Suc n + k}. isl (fetch i)"
    using Suc by (simp_all add: refresh_keys_once_def)
  moreover have "{n..<n + Suc k} = insert n {Suc n..<Suc n + k}"
    by auto
  ultimately show ?case
    using x by (simp add: refresh_keys_once_def)
qed simp

subsection \<open>The life of a key\<close>

text \<open>
  What is relied on of the hash functions: no collisions, and an encrypted key is opened by the
  code it was made from and by no other.
\<close>

definition opens :: "('h, 'c) key_crypto \<Rightarrow> string \<Rightarrow> ('h, 'c) key_row \<Rightarrow> bool" where
  "opens cr code k \<longleftrightarrow> crypt cr code (kr_encrypted_key k) = kr_encrypted_key k"

definition crypto_ok :: "('h, 'c) key_crypto \<Rightarrow> bool" where
  "crypto_ok cr \<longleftrightarrow> inj (digest cr) \<and>
     (\<forall>x y n. crypt cr x (crypt cr y (gen_salt cr n)) = crypt cr y (gen_salt cr n) \<longleftrightarrow> x = y)"

text \<open>Requests to the service, each at a time of its own and with its own faults.\<close>

datatype api_request =
    CreateRequest timestamp string string "nat option" "Scope list"
  | CheckRequest key_header
  | ListRequest string
  | RevokeRequest string uuid

definition succeeded :: "('e + 'a) \<times> 'd \<Rightarrow> bool \<times> 'd" where
  "succeeded r = (\<not> isl (fst r), snd r)"

fun api_step ::
  "('h, 'c) key_crypto \<Rightarrow> api_request \<Rightarrow> ('h, 'c) api_tables pg \<Rightarrow> bool \<times> ('h, 'c) api_tables pg" where
  "api_step cr (CreateRequest utc subject name days scopes) db =
     succeeded (create_api_key_for_subject cr utc subject name days scopes db)"
| "api_step cr (CheckRequest h) db = succeeded (check_handler cr h db)"
| "api_step cr (ListRequest subject) db = succeeded (list_api_keys_for_subject subject db)"
| "api_step cr (RevokeRequest subject i) db = succeeded (revoke_api_key_for_subject subject i db)"

fun api_run ::
  "('h, 'c) key_crypto \<Rightarrow> (timestamp \<times> bool list \<times> api_request) list \<Rightarrow> ('h, 'c) api_tables pg \<Rightarrow>
   (api_request \<times> bool) list \<times> ('h, 'c) api_tables pg" where
  "api_run cr [] db = ([], db)"
| "api_run cr ((t, fs, r) # rs) db =
     (let (ok, db') = api_step cr r (db\<lparr> tx_now := t, faults := fs \<rparr>);
          (outs, db'') = api_run cr rs db'
      in ((r, ok) # outs, db''))"

text \<open>The key with id \<open>u\<close> and code \<open>c\<close>: exactly its rows are found by the code.\<close>

definition is_key ::
  "('h, 'c) key_crypto \<Rightarrow> string \<Rightarrow> string \<Rightarrow> uuid \<Rightarrow> Scope list \<Rightarrow> timestamp option \<Rightarrow> bool \<Rightarrow>
   ('h, 'c) api_tables \<Rightarrow> ('h, 'c) key_row \<Rightarrow> bool" where
  "is_key cr s c u scopes expiry gone d k \<longleftrightarrow>
     kr_id k = u \<and> kr_hashed_key k = digest cr c \<and> (\<forall>x. opens cr x k \<longleftrightarrow> x = c) \<and>
     subject_of d k = Some s \<and> kr_scopes k = map Scope_to_string scopes \<and>
     kr_expires_at k = expiry \<and> kr_revoked k = gone"

definition tracks ::
  "('h, 'c) key_crypto \<Rightarrow> string \<Rightarrow> string \<Rightarrow> uuid \<Rightarrow> Scope list \<Rightarrow> timestamp option \<Rightarrow> bool \<Rightarrow>
   ('h, 'c) api_tables \<Rightarrow> bool" where
  "tracks cr s c u scopes expiry gone d \<longleftrightarrow>
     (\<exists>k \<in> set (identity_api_keys d). kr_id k = u) \<and>
     (\<forall>k \<in> set (identity_api_keys d). kr_id k = u \<or> kr_hashed_key k = digest cr c \<or> opens cr c k \<longrightarrow>
        is_key cr s c u scopes expiry gone d k)"

lemma subject_of_simps [simp]:
  "subject_of (d\<lparr> identity_api_keys := ks \<rparr>) k = subject_of d k"
  "subject_of d (k\<lparr> kr_last_used_at := a \<rparr>) = subject_of d k"
  "subject_of d (k\<lparr> kr_hashed_key := h \<rparr>) = subject_of d k"
  "subject_of d (k\<lparr> kr_created_at := b \<rparr>) = subject_of d k"
  "subject_of d (k\<lparr> kr_revoked := v, kr_revoked_at := w \<rparr>) = subject_of d k"
  by (simp_all add: subject_of_def)

lemma subject_of_append:
  "subject_of d k = Some s \<Longrightarrow> subject_of (d\<lparr> identities := identities d @ is \<rparr>) k = Some s"
  by (auto simp: subject_of_def find_append split: option.splits)

lemma parse_scopes_valid [simp]: "parse_scopes (map Scope_to_string ss) = Inr ss"
  by (induction ss) simp_all

lemma update_keys_eq:
  assumes "update_keys p f d = (r, d')"
  shows "identities d' = identities d"
    and "\<exists>g. identity_api_keys d' = map g (identity_api_keys d) \<and>
      (\<forall>k. g k = k \<or> p k \<and> g k = f k)"
proof -
  let ?g = "\<lambda>k. if subject_of d k \<noteq> None \<and> p k then f k else k"
  have "identity_api_keys d' = map ?g (identity_api_keys d)"
    using assms by (auto simp: update_keys_def Let_def)
  then show "\<exists>g. identity_api_keys d' = map g (identity_api_keys d) \<and> (\<forall>k. g k = k \<or> p k \<and> g k = f k)"
    by (intro exI [of _ ?g]) simp
  show "identities d' = identities d"
    using assms by (auto simp: update_keys_def Let_def)
qed

text \<open>Changes of rows that are not those of the key, or only touch its time of use.\<close>

lemma tracks_map:
  assumes "tracks cr s c u scopes expiry gone d" "identities d' = identities d"
    and rows: "identity_api_keys d' = map g (identity_api_keys d)"
    and same: "\<And>k. k \<in> set (identity_api_keys d) \<Longrightarrow> is_key cr s c u scopes expiry gone d k \<Longrightarrow>
      is_key cr s c u scopes expiry gone' d' (g k)"
    and other: "\<And>k. k \<in> set (identity_api_keys d) \<Longrightarrow> kr_id k \<noteq> u \<Longrightarrow> kr_hashed_key k \<noteq> digest cr c \<Longrightarrow>
      \<not> opens cr c k \<Longrightarrow> kr_id (g k) \<noteq> u \<and> kr_hashed_key (g k) \<noteq> digest cr c \<and> \<not> opens cr c (g k)"
  shows "tracks cr s c u scopes expiry gone' d'"
  unfolding tracks_def
proof (intro conjI ballI impI)
  obtain k where k: "k \<in> set (identity_api_keys d)" "kr_id k = u"
    using assms(1) by (auto simp: tracks_def)
  then have "is_key cr s c u scopes expiry gone d k"
    using assms(1) by (auto simp: tracks_def)
  then have "kr_id (g k) = u"
    using same [OF k(1)] by (auto simp: is_key_def)
  then show "\<exists>k \<in> set (identity_api_keys d'). kr_id k = u"
    using k rows by auto
next
  fix k'
  assume k': "k' \<in> set (identity_api_keys d')" "kr_id k' = u \<or> kr_hashed_key k' = digest cr c \<or> opens cr c k'"
  then obtain k where k: "k' = g k" "k \<in> set (identity_api_keys d)"
    using rows by auto
  then have "is_key cr s c u scopes expiry gone d k"
    using other k'(2) assms(1) unfolding tracks_def by blast
  then show "is_key cr s c u scopes expiry gone' d' k'"
    using same k by simp
qed

lemma is_key_used [simp]:
  "is_key cr s c u scopes expiry gone d (k\<lparr> kr_last_used_at := a \<rparr>) = is_key cr s c u scopes expiry gone d k"
  "opens cr x (k\<lparr> kr_last_used_at := a \<rparr>) = opens cr x k"
  "opens cr x (k\<lparr> kr_hashed_key := h \<rparr>) = opens cr x k"
  "opens cr x (k\<lparr> kr_revoked := v, kr_revoked_at := w \<rparr>) = opens cr x k"
  "opens cr x (k\<lparr> kr_created_at := b \<rparr>) = opens cr x k"
  by (simp_all add: is_key_def opens_def)

lemma is_key_tables:
  "identities d' = identities d \<Longrightarrow> is_key cr s c u scopes expiry gone d' k = is_key cr s c u scopes expiry gone d k"
  by (simp add: is_key_def subject_of_def)

lemma tracks_used:
  assumes "tracks cr s c u scopes expiry gone d" "update_keys p (\<lambda>k. k\<lparr> kr_last_used_at := Some t \<rparr>) d = (r, d')"
  shows "tracks cr s c u scopes expiry gone d'"
proof -
  obtain g where g: "identity_api_keys d' = map g (identity_api_keys d)"
    "\<forall>k. g k = k \<or> p k \<and> g k = k\<lparr> kr_last_used_at := Some t \<rparr>"
    using update_keys_eq(2) [OF assms(2)] by blast
  note ids = update_keys_eq(1) [OF assms(2)]
  show ?thesis
  proof (rule tracks_map [OF assms(1) ids g(1)])
    fix k
    assume "is_key cr s c u scopes expiry gone d k"
    then show "is_key cr s c u scopes expiry gone d' (g k)"
      using g(2) [rule_format, of k] by (auto simp: is_key_tables [OF ids])
  next
    fix k
    assume "kr_id k \<noteq> u" "kr_hashed_key k \<noteq> digest cr c" "\<not> opens cr c k"
    then show "kr_id (g k) \<noteq> u \<and> kr_hashed_key (g k) \<noteq> digest cr c \<and> \<not> opens cr c (g k)"
      using g(2) [rule_format, of k] by auto
  qed
qed

lemma tracks_rehashed:
  assumes "tracks cr s c u scopes expiry gone d" "crypto_ok cr"
    and run: "update_keys p (\<lambda>k. k\<lparr> kr_last_used_at := Some t, kr_hashed_key := digest cr x \<rparr>) d = (r, d')"
    and p: "\<And>k. p k \<Longrightarrow> opens cr x k"
  shows "tracks cr s c u scopes expiry gone d'"
proof -
  obtain g where g: "identity_api_keys d' = map g (identity_api_keys d)"
    "\<forall>k. g k = k \<or> p k \<and> g k = k\<lparr> kr_last_used_at := Some t, kr_hashed_key := digest cr x \<rparr>"
    using update_keys_eq(2) [OF run] by blast
  note ids = update_keys_eq(1) [OF run]
  have inj: "digest cr x = digest cr y \<longleftrightarrow> x = y" for y
    using assms(2) by (auto simp: crypto_ok_def inj_eq)
  show ?thesis
  proof (rule tracks_map [OF assms(1) ids g(1)])
    fix k
    assume k: "is_key cr s c u scopes expiry gone d k"
    then have "p k \<Longrightarrow> x = c"
      using p [of k] by (simp add: is_key_def)
    then have "kr_hashed_key (g k) = digest cr c"
      using g(2) [rule_format, of k] k by (elim disjE conjE) (simp_all add: is_key_def)
    then show "is_key cr s c u scopes expiry gone d' (g k)"
      using g(2) [rule_format, of k] k unfolding is_key_tables [OF ids]
      by (elim disjE conjE) (simp_all add: is_key_def)
  next
    fix k
    assume k: "kr_id k \<noteq> u" "kr_hashed_key k \<noteq> digest cr c" "\<not> opens cr c k"
    then have "p k \<Longrightarrow> x \<noteq> c"
      using p [of k] by auto
    then show "kr_id (g k) \<noteq> u \<and> kr_hashed_key (g k) \<noteq> digest cr c \<and> \<not> opens cr c (g k)"
      using g(2) [rule_format, of k] k by (elim disjE conjE) (simp_all add: inj)
  qed
qed

lemma find_subject_keeps:
  assumes "crypto_ok cr"
  shows "rs_keeps (tracks cr s c u scopes expiry gone) (find_subject_by_key cr key)"
proof -
  let ?T = "tracks cr s c u scopes expiry gone"
  have found: "rs_keeps ?T (found_key ks)" for ks
    by (simp add: found_key_def split: sum.split)
  have first: "rs_keeps ?T (pg_stmt (\<lambda>t d. Inr (update_keys (p t) (\<lambda>k. k\<lparr> kr_last_used_at := Some t \<rparr>) d)))" for p
    by (rule rs_keeps_stmt) (auto dest: tracks_used)
  have second: "rs_keeps ?T (pg_stmt (\<lambda>t d. unique_hashes (update_keys
      (\<lambda>k. kr_encrypted_key k = crypt cr code (kr_encrypted_key k) \<and> key_active t k)
      (\<lambda>k. k\<lparr> kr_last_used_at := Some t, kr_hashed_key := digest cr code \<rparr>) d)))" for code
    by (rule rs_keeps_stmt) (auto simp: opens_def unique_hashes_def elim!: tracks_rehashed [OF _ assms] split: if_splits)
  show ?thesis
    unfolding find_subject_by_key_def
    by (auto intro!: rs_keeps_bind first second found simp del: rs_bind_run split: option.split)
qed

lemma check_keeps:
  "crypto_ok cr \<Longrightarrow> rs_keeps (tracks cr s c u scopes expiry gone) (check_handler cr h)"
  by (auto simp: check_handler_def lookup_authenticated_subject_def split: key_header.split
      intro!: rs_keeps_bind find_subject_keeps)

lemma list_keeps: "rs_keeps P (list_keys_for_subject subject)"
  by (auto simp: list_keys_for_subject_def intro!: rs_keeps_bind split: sum.split)

text \<open>A new key belongs to somebody else: its id and its hash are unique in the table.\<close>

lemma tracks_insert:
  assumes "tracks cr s c u scopes expiry gone d" "crypto_ok cr"
    and "insert_key k t d = Inr (a, d')"
    and "kr_hashed_key k = digest cr x" "kr_encrypted_key k = crypt cr x (gen_salt cr n)"
  shows "tracks cr s c u scopes expiry gone d'"
proof -
  have rows: "identity_api_keys d' = identity_api_keys d @ [k\<lparr> kr_created_at := t \<rparr>]" "identities d' = identities d"
    and new: "kr_id k \<notin> kr_id ` set (identity_api_keys d)" "kr_hashed_key k \<notin> kr_hashed_key ` set (identity_api_keys d)"
    using assms(3) by (auto simp: insert_key_def split: if_splits)
  obtain k0 where k0: "k0 \<in> set (identity_api_keys d)" "kr_id k0 = u"
    using assms(1) by (auto simp: tracks_def)
  then have "is_key cr s c u scopes expiry gone d k0"
    using assms(1) by (auto simp: tracks_def)
  then have "kr_hashed_key k0 = digest cr c"
    by (simp add: is_key_def)
  then have "kr_id k \<noteq> u" "kr_hashed_key k \<noteq> digest cr c"
    using new k0 by (metis imageI)+
  moreover from this have "\<not> opens cr c k"
    using assms(2,4,5) by (auto simp: opens_def crypto_ok_def)
  ultimately show ?thesis
    using assms(1) k0 unfolding tracks_def is_key_tables [OF rows(2)] rows(1) by auto
qed

lemma tracks_identities:
  assumes "tracks cr s c u scopes expiry gone d"
  shows "tracks cr s c u scopes expiry gone (d\<lparr> identities := identities d @ is \<rparr>)"
proof -
  have "is_key cr s c u scopes expiry gone (d\<lparr> identities := identities d @ is \<rparr>) k"
    if "is_key cr s c u scopes expiry gone d k" for k
    using that subject_of_append [of d k s "is"] by (simp add: is_key_def)
  then show ?thesis
    using assms by (auto simp: tracks_def)
qed

lemma identity_keeps:
  "rs_keeps (tracks cr s c u scopes expiry gone) (find_or_create_identity_for_subject_in_tx subject)"
  by (auto simp: find_or_create_identity_for_subject_in_tx_def upsert_identity_def tracks_identities
      intro!: rs_keeps_bind rs_keeps_stmt
      split: option.splits if_splits)

lemma create_keeps:
  assumes "crypto_ok cr"
  shows "rs_keeps (tracks cr s c u scopes expiry gone) (create_api_key_for_subject cr utc subject name days ss)"
  unfolding create_api_key_for_subject_def create_key_for_identity_in_tx_def Let_def
  by (auto intro!: rs_keeps_bind rs_keeps_in_tx rs_keeps_stmt identity_keeps elim!: tracks_insert [OF _ assms])

lemma revoke_other_keeps:
  assumes "subject \<noteq> s \<or> i \<noteq> u"
  shows "rs_keeps (tracks cr s c u scopes expiry gone) (revoke_api_key subject i)"
proof -
  let ?f = "\<lambda>t k. k\<lparr> kr_revoked := True, kr_revoked_at := Some t \<rparr>"
  have "tracks cr s c u scopes expiry gone d'"
    if T: "tracks cr s c u scopes expiry gone d"
      and run: "update_keys (\<lambda>k. subject_of d k = Some subject \<and> kr_id k = i) (?f t) d = (r, d')" for t d r d'
  proof -
    obtain g where g: "identity_api_keys d' = map g (identity_api_keys d)"
      "\<forall>k. g k = k \<or> (subject_of d k = Some subject \<and> kr_id k = i) \<and> g k = ?f t k"
      using update_keys_eq(2) [OF run] by blast
    note ids = update_keys_eq(1) [OF run]
    show ?thesis
    proof (rule tracks_map [OF T ids g(1)])
      fix k
      assume k: "is_key cr s c u scopes expiry gone d k"
      then have "g k = k"
        using g(2) [rule_format, of k] assms by (auto simp: is_key_def)
      then show "is_key cr s c u scopes expiry gone d' (g k)"
        using k by (simp add: is_key_tables [OF ids])
    next
      fix k
      assume "kr_id k \<noteq> u" "kr_hashed_key k \<noteq> digest cr c" "\<not> opens cr c k"
      then show "kr_id (g k) \<noteq> u \<and> kr_hashed_key (g k) \<noteq> digest cr c \<and> \<not> opens cr c (g k)"
        using g(2) [rule_format, of k] by (elim disjE conjE) simp_all
    qed
  qed
  then show ?thesis
    unfolding revoke_api_key_def
    by (auto intro!: rs_keeps_bind rs_keeps_stmt split: prod.splits option.split sum.split)
qed

lemma tracks_revoked:
  assumes T: "tracks cr s c u scopes expiry gone d"
    and run: "update_keys (\<lambda>k. subject_of d k = Some s \<and> kr_id k = u)
      (\<lambda>k. k\<lparr> kr_revoked := True, kr_revoked_at := Some t \<rparr>) d = (r, d')"
  shows "tracks cr s c u scopes expiry True d'"
    and "\<exists>k sub. r = Some (k, sub) \<and> kr_scopes k = map Scope_to_string scopes"
proof -
  let ?hit = "\<lambda>k. subject_of d k \<noteq> None \<and> subject_of d k = Some s \<and> kr_id k = u"
  let ?f = "\<lambda>k. k\<lparr> kr_revoked := True, kr_revoked_at := Some t \<rparr>"
  have d': "identity_api_keys d' = map (\<lambda>k. if ?hit k then ?f k else k) (identity_api_keys d)"
    "identities d' = identities d"
    and r: "r = map_option (\<lambda>k. (?f k, the (subject_of d k))) (find ?hit (identity_api_keys d))"
    using run by (auto simp: update_keys_def Let_def)
  have hit: "?hit k" if "is_key cr s c u scopes expiry gone d k" for k
    using that by (simp add: is_key_def)
  show "tracks cr s c u scopes expiry True d'"
  proof (rule tracks_map [OF T d'(2,1)])
    fix k
    assume "is_key cr s c u scopes expiry gone d k"
    then show "is_key cr s c u scopes expiry True d' (if ?hit k then ?f k else k)"
      using hit [of k] by (simp add: is_key_tables [OF d'(2)]) (simp add: is_key_def)
  qed (auto split: if_splits)
  obtain k where k: "k \<in> set (identity_api_keys d)" "is_key cr s c u scopes expiry gone d k"
    using T by (auto simp: tracks_def)
  then have "find ?hit (identity_api_keys d) \<noteq> None"
    using hit [OF k(2)] unfolding find_None_iff by blast
  then obtain k' where k': "find ?hit (identity_api_keys d) = Some k'"
    by blast
  then have "is_key cr s c u scopes expiry gone d k'"
    using T unfolding tracks_def by (blast dest: find_SomeD)
  then have "kr_scopes k' = map Scope_to_string scopes"
    by (simp add: is_key_def)
  then show "\<exists>k sub. r = Some (k, sub) \<and> kr_scopes k = map Scope_to_string scopes"
    using k' r by simp
qed

lemma revoke_tracks:
  assumes "tracks cr s c u scopes expiry gone (primary db)" "revoke_api_key s u db = (x, db')"
  shows "tracks cr s c u scopes expiry (gone \<or> \<not> isl x) (primary db')"
proof -
  let ?step = "\<lambda>t d. case update_keys (\<lambda>k. subject_of d k = Some s \<and> kr_id k = u)
      (\<lambda>k. k\<lparr> kr_revoked := True, kr_revoked_at := Some t \<rparr>) d of
      (r, d') \<Rightarrow> Inr (map_option (\<lambda>ks. key_of_row t (fst ks)) r, d')"
  obtain y s' where run: "pg_stmt ?step db = (y, s')"
    by (cases "pg_stmt ?step db")
  from run show ?thesis
  proof (cases rule: pg_stmt_cases)
    case fault
    then have "x = Inl (ApiSqlx ConnectionFailed)" "db' = s'"
      using assms(2) run by (simp_all add: revoke_api_key_def rs_bind_def rs_map_err_def)
    then show ?thesis
      using fault assms(1) by simp
  next
    case (error e)
    then show ?thesis
      by (auto split: prod.splits)
  next
    case (ok a d)
    obtain r where r: "update_keys (\<lambda>k. subject_of (primary db) k = Some s \<and> kr_id k = u)
        (\<lambda>k. k\<lparr> kr_revoked := True, kr_revoked_at := Some (tx_now db) \<rparr>) (primary db) = (r, d)"
      "a = map_option (\<lambda>ks. key_of_row (tx_now db) (fst ks)) r"
      using ok(1) by (auto split: prod.splits)
    obtain k sub where k: "r = Some (k, sub)" "kr_scopes k = map Scope_to_string scopes"
      using tracks_revoked(2) [OF assms(1) r(1)] by blast
    then have "db' = s'" "\<not> isl x"
      using assms(2) run ok(2) r(2)
      by (auto simp: revoke_api_key_def rs_bind_def rs_map_err_def key_of_row_def rs_ok_def)
    then show ?thesis
      using tracks_revoked(1) [OF assms(1) r(1)] ok(3) by simp
  qed
qed

lemma api_step_tracks:
  assumes "crypto_ok cr" "tracks cr s c u scopes expiry gone (primary db)" "api_step cr r db = (ok, db')"
  shows "tracks cr s c u scopes expiry (gone \<or> r = RevokeRequest s u \<and> ok) (primary db')"
proof (cases r)
  case (CreateRequest utc subject name days ss)
  then show ?thesis
    using assms rs_keepsD [OF create_keeps [OF assms(1), of s c u scopes expiry gone utc subject name days ss]]
    by (cases "create_api_key_for_subject cr utc subject name days ss db") (auto simp: succeeded_def)
next
  case (CheckRequest h)
  then show ?thesis
    using assms rs_keepsD [OF check_keeps [OF assms(1), of s c u scopes expiry gone h]]
    by (cases "check_handler cr h db") (auto simp: succeeded_def)
next
  case (ListRequest subject)
  then show ?thesis
    using assms rs_keepsD [OF list_keeps [of "tracks cr s c u scopes expiry gone" subject]]
    by (cases "list_keys_for_subject subject db") (auto simp: succeeded_def list_api_keys_for_subject_def)
next
  case (RevokeRequest subject i)
  obtain x db1 where run: "revoke_api_key subject i db = (x, db1)"
    by (cases "revoke_api_key subject i db")
  then have *: "ok = (\<not> isl x)" "db' = db1"
    using assms(3) RevokeRequest by (simp_all add: succeeded_def revoke_api_key_for_subject_def)
  show ?thesis
  proof (cases "subject = s \<and> i = u")
    case True
    then show ?thesis
      using revoke_tracks [OF assms(2)] run * RevokeRequest by simp
  next
    case False
    then have "tracks cr s c u scopes expiry gone (primary db1)"
      using rs_keepsD [OF revoke_other_keeps run assms(2)] by blast
    then show ?thesis
      using False * RevokeRequest by auto
  qed
qed

lemma api_run_tracks:
  assumes "crypto_ok cr" "tracks cr s c u scopes expiry gone (primary db)" "api_run cr rs db = (outs, db')"
  shows "tracks cr s c u scopes expiry (gone \<or> (RevokeRequest s u, True) \<in> set outs) (primary db')"
  using assms(2,3)
proof (induction rs arbitrary: db db' gone outs)
  case (Cons x rs)
  obtain t fs r where x: "x = (t, fs, r)"
    by (cases x)
  obtain ok db1 where step: "api_step cr r (db\<lparr> tx_now := t, faults := fs \<rparr>) = (ok, db1)"
    by (cases "api_step cr r (db\<lparr> tx_now := t, faults := fs \<rparr>)")
  obtain outs' db2 where rest: "api_run cr rs db1 = (outs', db2)"
    by (cases "api_run cr rs db1")
  have res: "outs = (r, ok) # outs'" "db' = db2"
    using Cons.prems(2) x step rest by simp_all
  have "tracks cr s c u scopes expiry (gone \<or> r = RevokeRequest s u \<and> ok) (primary db1)"
    using Cons.prems(1) by (intro api_step_tracks [OF assms(1) _ step]) simp
  note later = Cons.IH [OF this rest]
  have "((gone \<or> r = RevokeRequest s u \<and> ok) \<or> (RevokeRequest s u, True) \<in> set outs') =
      (gone \<or> (RevokeRequest s u, True) \<in> set outs)"
    using res(1) by auto
  then show ?case
    using later unfolding res(2) by (simp only:)
qed simp

text \<open>What a check of the code finds.\<close>

lemma update_keys_found:
  assumes T: "tracks cr s c u scopes expiry gone d"
    and p: "\<And>k. p k \<Longrightarrow> kr_hashed_key k = digest cr c \<or> opens cr c k"
    and q: "\<And>k. is_key cr s c u scopes expiry gone d k \<Longrightarrow> p k = b"
  shows "\<exists>k. is_key cr s c u scopes expiry gone d k \<and>
    fst (update_keys p f d) = (if b then Some (f k, s) else None)"
proof -
  let ?hit = "\<lambda>k. subject_of d k \<noteq> None \<and> p k"
  obtain k where k: "k \<in> set (identity_api_keys d)" "is_key cr s c u scopes expiry gone d k"
    using T by (auto simp: tracks_def)
  have only: "is_key cr s c u scopes expiry gone d k'" if "k' \<in> set (identity_api_keys d)" "p k'" for k'
    using T that(1) p [OF that(2)] unfolding tracks_def by blast
  show ?thesis
  proof (cases "find ?hit (identity_api_keys d)")
    case None
    then have "\<not> ?hit k"
      using k(1) unfolding find_None_iff by blast
    then have "\<not> b"
      using q [OF k(2)] k(2) by (simp add: is_key_def)
    then show ?thesis
      using None k(2) by (intro exI [of _ k] conjI) (simp_all add: update_keys_def Let_def)
  next
    case (Some k')
    then have "is_key cr s c u scopes expiry gone d k'" "p k'"
      using only [of k'] find_SomeD [OF Some] by simp_all
    then show ?thesis
      using q [of k'] Some by (intro exI [of _ k'] conjI) (simp_all add: update_keys_def Let_def is_key_def)
  qed
qed

lemma check_of_code:
  assumes T: "tracks cr s c u scopes expiry gone (primary db)" and "crypto_ok cr" "faultless db"
  shows "fst (check_handler cr (KeyHeader (key_prefix cr @ c)) db) =
    (if gone \<or> (\<exists>e. expiry = Some e \<and> e \<le> tx_now db) then Inl NoActiveKeyFound
     else Inr \<lparr> check_sub = s, check_scope = str_join '' '' (map Scope_to_string scopes) \<rparr>)"
proof -
  let ?t = "tx_now db" and ?d = "primary db"
  let ?alive = "\<not> (gone \<or> (\<exists>e. expiry = Some e \<and> e \<le> ?t))"
  let ?p = "\<lambda>k. kr_hashed_key k = digest cr c \<and> key_active ?t k"
  let ?f = "\<lambda>k. k\<lparr> kr_last_used_at := Some ?t \<rparr>"
  let ?p' = "\<lambda>k. kr_encrypted_key k = crypt cr c (kr_encrypted_key k) \<and> key_active ?t k"
  let ?f' = "\<lambda>k. k\<lparr> kr_last_used_at := Some ?t, kr_hashed_key := digest cr c \<rparr>"
  have act: "key_active ?t k = ?alive" if "is_key cr s c u scopes expiry gone d k" for k d
  proof -
    have "kr_revoked k = gone" "kr_expires_at k = expiry"
      using that by (simp_all add: is_key_def)
    then show ?thesis
      by (cases expiry) (simp_all add: key_active_def not_le)
  qed
  have strip: "strip_prefix (key_prefix cr) (key_prefix cr @ c) = Some c"
    by (simp add: strip_prefix_def)
  obtain r d1 where one: "update_keys ?p ?f ?d = (r, d1)"
    by (cases "update_keys ?p ?f ?d")
  have q: "?p k = ?alive" if "is_key cr s c u scopes expiry gone ?d k" for k
    using act [OF that] that by (simp add: is_key_def)
  have "\<exists>k. is_key cr s c u scopes expiry gone ?d k \<and> fst (update_keys ?p ?f ?d) = (if ?alive then Some (?f k, s) else None)"
    by (rule update_keys_found [OF T _ q]) blast+
  then obtain k where k: "is_key cr s c u scopes expiry gone ?d k" "r = (if ?alive then Some (?f k, s) else None)"
    using one by auto
  have sc: "kr_scopes k = map Scope_to_string scopes"
    using k(1) by (simp add: is_key_def)
  show ?thesis
  proof (cases ?alive)
    case True
    then show ?thesis
      using assms(3) k(2) sc one strip
      by (simp add: check_handler_def lookup_authenticated_subject_def find_subject_by_key_def pg_stmt_run rs_map_err_def
          rs_bind_def found_key_def rs_ok_def)
  next
    case False
    note T1 = tracks_used [OF T one]
    have q': "?p' k = False" if "is_key cr s c u scopes expiry gone d1 k" for k
      using act [OF that] False by simp
    have "\<exists>k. is_key cr s c u scopes expiry gone d1 k \<and>
        fst (update_keys ?p' ?f' d1) = (if False then Some (?f' k, s) else None)"
      by (rule update_keys_found [OF T1 _ q']) (auto simp: opens_def)
    then have none: "fst (update_keys ?p' ?f' d1) = None"
      by simp
    obtain d2 where two: "update_keys ?p' ?f' d1 = (None, d2)"
      using none by (cases "update_keys ?p' ?f' d1") simp
    have r: "r = None"
      using k(2) False by (simp only: if_False)
    have "fst (check_handler cr (KeyHeader (key_prefix cr @ c)) db) = Inl NoActiveKeyFound"
      using assms(3) r one two strip
      by (simp add: check_handler_def lookup_authenticated_subject_def find_subject_by_key_def pg_stmt_run rs_map_err_def
          rs_bind_def rs_err_def unique_hashes_def)
    then show ?thesis
      using False by (simp only: if_True not_not)
  qed
qed

text \<open>A key that has been created is found by its code.\<close>

lemma subject_of_id:
  assumes "distinct (map id_id (identities d))" "i \<in> set (identities d)" "id_id i = kr_identity k"
  shows "subject_of d k = Some (id_subject i)"
proof -
  have "find (\<lambda>i. id_id i = kr_identity k) (identities d) = Some i"
    using assms
  proof (induction "identities d" arbitrary: d)
    case (Cons j js)
    let ?d = "\<lparr> identities = js, identity_api_keys = [] \<rparr> :: ('a, 'b) api_tables"
    show ?case
    proof (cases "id_id j = kr_identity k")
      case True
      then have "j = i"
        using Cons.prems Cons.hyps(2) [symmetric] by (auto simp: image_iff)
      then show ?thesis
        using True Cons.hyps(2) [symmetric] by simp
    next
      case False
      then show ?thesis
        using Cons.hyps(1) [of ?d] Cons.prems Cons.hyps(2) [symmetric] by auto
    qed
  qed simp
  then show ?thesis
    by (simp add: subject_of_def)
qed

lemma identity_created:
  assumes "find_or_create_identity_for_subject_in_tx s db = (Inr i, db')"
    and "distinct (map id_id (identities (primary db)))"
  shows "distinct (map id_id (identities (primary db')))"
    and "\<exists>r \<in> set (identities (primary db')). id_id r = i \<and> id_subject r = s"
    and "identity_api_keys (primary db') = identity_api_keys (primary db)" "drawn db' = Suc (drawn db)"
proof -
  let ?u = "uuids db (drawn db)" and ?db = "db\<lparr> drawn := Suc (drawn db) \<rparr>"
  have "pg_stmt (upsert_identity s ?u) ?db = (Inr i, db')"
    using assms(1)
    by (simp add: find_or_create_identity_for_subject_in_tx_def rs_bind_def new_uuid_def rs_map_err_eq_Inr_iff)
  then have "upsert_identity s ?u (tx_now db) (primary db) = Inr (i, primary db') \<and> drawn db' = Suc (drawn db)"
    by (cases rule: pg_stmt_cases) simp_all
  then have run: "upsert_identity s ?u (tx_now db) (primary db) = Inr (i, primary db')" "drawn db' = Suc (drawn db)"
    by blast+
  show "drawn db' = Suc (drawn db)"
    by (rule run(2))
  have *: "distinct (map id_id (identities (primary db'))) \<and>
      (\<exists>r \<in> set (identities (primary db')). id_id r = i \<and> id_subject r = s) \<and>
      identity_api_keys (primary db') = identity_api_keys (primary db)"
  proof (cases "find (\<lambda>r. id_subject r = s) (identities (primary db))")
    case None
    then have "primary db' = (primary db)\<lparr> identities := identities (primary db) @
        [\<lparr> id_id = ?u, id_subject = s, id_created_at = tx_now db \<rparr>] \<rparr>" "i = ?u"
      "?u \<notin> id_id ` set (identities (primary db))"
      using run(1) by (auto simp: upsert_identity_def split: if_splits)
    then show ?thesis
      using assms(2) by auto
  next
    case (Some r)
    then have "primary db' = primary db" "i = id_id r"
      using run(1) by (auto simp: upsert_identity_def)
    then show ?thesis
      using assms(2) find_SomeD [OF Some] by auto
  qed
  then show "distinct (map id_id (identities (primary db')))"
    "\<exists>r \<in> set (identities (primary db')). id_id r = i \<and> id_subject r = s"
    "identity_api_keys (primary db') = identity_api_keys (primary db)"
    by blast+
qed

lemma key_created:
  assumes "create_api_key_for_subject cr utc s name days scopes db = (Inr (key, secret), db')"
    and "distinct (map id_id (identities (primary db)))" "crypto_ok cr"
    and fresh: "\<forall>n \<ge> drawn db. \<forall>k \<in> set (identity_api_keys (primary db)). \<not> opens cr (sample_string cr n) k"
  obtains c where "scopes \<noteq> []" "secret = key_prefix cr @ c"
    "tracks cr s c (ak_id key) scopes (ak_expires_at key) False (primary db')"
proof -
  let ?expiry = "map_option (\<lambda>days. utc + int days * secs_per_day * 1000000) days"
  have ne: "scopes \<noteq> []"
    using assms(1) by (auto simp: create_api_key_for_subject_def rs_err_def)
  then have "in_tx ApiSqlx (rs_bind (find_or_create_identity_for_subject_in_tx s) (\<lambda>i.
      create_key_for_identity_in_tx cr i name ?expiry scopes)) db = (Inr (key, secret), db')"
    using assms(1) by (simp add: create_api_key_for_subject_def Let_def)
  then obtain s0 s3 where s0: "primary s0 = primary db" "drawn s0 = drawn db" "primary db' = primary s3"
    and body: "rs_bind (find_or_create_identity_for_subject_in_tx s) (\<lambda>i.
      create_key_for_identity_in_tx cr i name ?expiry scopes) s0 = (Inr (key, secret), s3)"
    by (rule in_tx_Inr)
  then obtain i s1 where i: "find_or_create_identity_for_subject_in_tx s s0 = (Inr i, s1)"
    and create: "create_key_for_identity_in_tx cr i name ?expiry scopes s1 = (Inr (key, secret), s3)"
    by (auto simp: rs_bind_eq_Inr_iff)
  have "distinct (map id_id (identities (primary s0)))"
    using assms(2) s0(1) by simp
  note ident = identity_created [OF i this]
  let ?n = "drawn s1"
  let ?c = "sample_string cr ?n"
  define k where "k =
    \<lparr> kr_id = uuids s1 ?n, kr_identity = i, kr_name = name, kr_last_used_at = None,
      kr_encrypted_key = crypt cr ?c (gen_salt cr ?n), kr_created_at = 0,
      kr_expires_at = ?expiry, kr_revoked = False, kr_revoked_at = None,
      kr_scopes = map Scope_to_string scopes, kr_hashed_key = digest cr ?c \<rparr>"
  obtain j where stmt: "pg_stmt (insert_key k) (s1\<lparr> drawn := Suc ?n \<rparr>) = (Inr j, s3)"
    and key: "ak_id key = fst j" "ak_expires_at key = ?expiry" "secret = key_prefix cr @ ?c"
    using create
    by (auto simp: create_key_for_identity_in_tx_def rs_bind_eq_Inr_iff rs_get_def new_uuid_def Let_def rs_ok_def
        rs_map_err_eq_Inr_iff k_def)
  from stmt have "insert_key k (tx_now s1) (primary s1) = Inr (j, primary s3)"
    by (cases rule: pg_stmt_cases) simp_all
  then have ins: "fst j = kr_id k" "kr_id k \<notin> kr_id ` set (identity_api_keys (primary s1))"
    "kr_hashed_key k \<notin> kr_hashed_key ` set (identity_api_keys (primary s1))"
    "primary s3 = (primary s1)\<lparr> identity_api_keys := identity_api_keys (primary s1) @
       [k\<lparr> kr_created_at := tx_now s1 \<rparr>] \<rparr>"
    by (auto simp: insert_key_def split: if_splits)
  have old: "identity_api_keys (primary s1) = identity_api_keys (primary db)" "drawn db \<le> ?n"
    using ident(3,4) s0 by simp_all
  have subject: "subject_of (primary s1) k = Some s"
    using ident(1,2) subject_of_id [of "primary s1" _ k] by (auto simp: k_def)
  have opened: "opens cr x k \<longleftrightarrow> x = ?c" for x
    using assms(3) by (simp add: opens_def k_def crypto_ok_def)
  have "is_key cr s ?c (kr_id k) scopes ?expiry False (primary s3) (k\<lparr> kr_created_at := tx_now s1 \<rparr>)"
    using subject opened by (simp add: is_key_def ins(4)) (simp add: k_def)
  moreover have "kr_id k' \<noteq> kr_id k \<and> kr_hashed_key k' \<noteq> digest cr ?c \<and> \<not> opens cr ?c k'"
    if "k' \<in> set (identity_api_keys (primary s1))" for k'
    using that ins(2,3) fresh old by (force simp: k_def)
  ultimately have "tracks cr s ?c (kr_id k) scopes ?expiry False (primary s3)"
    unfolding tracks_def ins(4) by auto
  then show thesis
    using that [OF ne key(3)] key s0(3) ins(1) by simp
qed

lemma created_key_checked:
  assumes "crypto_ok cr"
    and "create_api_key_for_subject cr utc s name days scopes db = (Inr (key, secret), db1)"
    and "distinct (map id_id (identities (primary db)))"
    and "\<forall>n \<ge> drawn db. \<forall>k \<in> set (identity_api_keys (primary db)). \<not> opens cr (sample_string cr n) k"
    and "api_run cr requests db1 = (outs, db2)"
  shows "scopes \<noteq> []"
    and "fst (check_handler cr (KeyHeader secret) (db2\<lparr> tx_now := t, faults := [] \<rparr>)) =
      (if (RevokeRequest s (ak_id key), True) \<in> set outs \<or> (\<exists>e. ak_expires_at key = Some e \<and> e \<le> t)
       then Inl NoActiveKeyFound
       else Inr \<lparr> check_sub = s, check_scope = str_join '' '' (map Scope_to_string scopes) \<rparr>)"
proof -
  obtain c where c: "scopes \<noteq> []" "secret = key_prefix cr @ c"
    and T: "tracks cr s c (ak_id key) scopes (ak_expires_at key) False (primary db1)"
    using key_created [OF assms(2,3,1,4)] .
  have "tracks cr s c (ak_id key) scopes (ak_expires_at key)
      ((RevokeRequest s (ak_id key), True) \<in> set outs) (primary (db2\<lparr> tx_now := t, faults := [] \<rparr>))"
    using api_run_tracks [OF assms(1) T assms(5)] by simp
  from check_of_code [OF this assms(1)]
  show "fst (check_handler cr (KeyHeader secret) (db2\<lparr> tx_now := t, faults := [] \<rparr>)) =
      (if (RevokeRequest s (ak_id key), True) \<in> set outs \<or> (\<exists>e. ak_expires_at key = Some e \<and> e \<le> t)
       then Inl NoActiveKeyFound
       else Inr \<lparr> check_sub = s, check_scope = str_join '' '' (map Scope_to_string scopes) \<rparr>)"
    using c(2) by simp
  show "scopes \<noteq> []"
    by (rule c(1))
qed

text \<open>C31: The life of an API key. Once a key has been created for a subject, its secret is accepted
  exactly until the key expires or that subject has revoked it, whatever other requests the
  service handles in between, at whatever times and with whatever failures of the database: no
  other request and no other subject can disable the key, change whom it stands for, or bring it
  back. An accepted key is answered with the subject and the scopes it was created with, and
  these allow writing exactly when \<open>Write\<close> is one of them.\<close>

theorem key_lifecycle:
  assumes "crypto_ok cr"
    and "create_api_key_for_subject cr utc s name days scopes db = (Inr (key, secret), db1)"
    and "distinct (map id_id (identities (primary db)))"
    and "\<forall>n \<ge> drawn db. \<forall>k \<in> set (identity_api_keys (primary db)). \<not> opens cr (sample_string cr n) k"
    and "api_run cr requests db1 = (outs, db2)"
  shows "fst (check_handler cr (KeyHeader secret) (db2\<lparr> tx_now := t, faults := [] \<rparr>)) =
      (if (RevokeRequest s (ak_id key), True) \<in> set outs \<or> (\<exists>e. ak_expires_at key = Some e \<and> e \<le> t)
       then Inl NoActiveKeyFound
       else Inr \<lparr> check_sub = s, check_scope = str_join '' '' (map Scope_to_string scopes) \<rparr>) \<and>
    (can_write (str_join '' '' (map Scope_to_string scopes)) \<longleftrightarrow> Write \<in> set scopes)"
  using created_key_checked [OF assms] can_write_iff by blast

definition example_crypto :: "(string, string \<times> nat) key_crypto" where
  "example_crypto =
     \<lparr> digest = id, crypt = \<lambda>x (_, n). (x, n), gen_salt = \<lambda>n. ([], n),
       sample_string = \<lambda>n. replicate n (CHR ''k''), key_prefix = ''dev_'' \<rparr>"

definition no_keys :: "(string, string \<times> nat) api_tables pg" where
  "no_keys = fresh_pg \<lparr> identities = [], identity_api_keys = [] \<rparr>"

lemma example_created:
  "\<exists>key db1. create_api_key_for_subject example_crypto 0 s ''phone'' (Some 30) [Read, Receive] no_keys =
     (Inr (key, ''dev_k''), db1) \<and> ak_id key = ''x'' \<and> ak_expires_at key = Some 2592000000000"
  by (simp add: create_api_key_for_subject_def in_tx_def rs_bind_def rs_map_err_def pg_select_def Let_def no_keys_def
      fresh_pg_def find_or_create_identity_for_subject_in_tx_def new_uuid_def pg_stmt_def upsert_identity_def
      create_key_for_identity_in_tx_def rs_get_def insert_key_def rs_ok_def example_crypto_def secs_per_day_def)

theorem key_lifecycle_witness:
  "\<exists>key db1 outs db2.
     create_api_key_for_subject example_crypto 0 ''alice'' ''phone'' (Some 30) [Read, Receive] no_keys =
       (Inr (key, ''dev_k''), db1) \<and>
     api_run example_crypto [(5, [], RevokeRequest ''mallory'' ''x''),
       (6, [True], CheckRequest (KeyHeader ''dev_k''))] db1 = (outs, db2) \<and>
     fst (check_handler example_crypto (KeyHeader ''dev_k'') (db2\<lparr> tx_now := 7, faults := [] \<rparr>)) =
       Inr \<lparr> check_sub = ''alice'', check_scope = ''read receive'' \<rparr> \<and>
     fst (check_handler example_crypto (KeyHeader ''dev_k'') (db2\<lparr> tx_now := 2592000000000, faults := [] \<rparr>)) =
       Inl NoActiveKeyFound"
proof -
  let ?rs = "[(5, [], RevokeRequest ''mallory'' ''x''), (6, [True], CheckRequest (KeyHeader ''dev_k''))]"
  obtain key db1 where created:
    "create_api_key_for_subject example_crypto 0 ''alice'' ''phone'' (Some 30) [Read, Receive] no_keys =
      (Inr (key, ''dev_k''), db1)" "ak_id key = ''x''" "ak_expires_at key = Some 2592000000000"
    using example_created by blast
  obtain outs db2 where run: "api_run example_crypto ?rs db1 = (outs, db2)"
    by (cases "api_run example_crypto ?rs db1")
  have ok: "crypto_ok example_crypto"
    by (auto simp: crypto_ok_def example_crypto_def)
  have empty: "distinct (map id_id (identities (primary no_keys)))" "\<forall>n \<ge> drawn no_keys.
      \<forall>k \<in> set (identity_api_keys (primary no_keys)). \<not> opens example_crypto (sample_string example_crypto n) k"
    by (simp_all add: no_keys_def)
  have "(RevokeRequest ''alice'' ''x'', True) \<notin> set outs"
    using run by (auto split: prod.splits)
  moreover have "str_join '' '' (map Scope_to_string [Read, Receive]) = ''read receive''"
    by (simp add: READ_SCOPE_def RECEIVE_SCOPE_def)
  ultimately show ?thesis
    using key_lifecycle [OF ok created(1) empty run, of 7] key_lifecycle [OF ok created(1) empty run, of 2592000000000]
      created run
    by (intro exI [of _ key] exI [of _ db1] exI [of _ outs] exI [of _ db2]) simp
qed

text \<open>Unlike creating a key, revoking one does not ask for the right to write.\<close>

lemma revoke_ignores_scope:
  "api_key_revoke parse_uuid (subject\<lparr> auth_can_write := False \<rparr>) i = api_key_revoke parse_uuid subject i"
  "api_key_create cr utc (subject\<lparr> auth_can_write := False \<rparr>) name days scopes = rs_err PermissionDenied"
  by (simp_all add: api_key_revoke_def api_key_create_def split: option.split)

end
