(* ===== verification/Public_Api.thy ===== *)
theory Public_Api
  imports Domain_Checks Api_Keys
begin

text \<open>
  The way of a request to the public API of the backend: the claims the gateway writes into the
  token of a request with an API key (\<open>src/dev/config/ory/oathkeeper_rules.yaml\<close>), the context
  made from the token (\<open>servers/middlewares/session.ts\<close>), and the layers in front of the resolver
  of a field: the permissions of \<open>servers/graphql-public-api-server.ts\<close>, the check of the wallet
  (\<open>servers/middlewares/wallet-id.ts\<close>) and of the scopes (\<open>servers/middlewares/scope.ts\<close>). The
  repositories are arguments; the resolver is a value that is only handed out when it is run.
\<close>

subsection \<open>Scopes\<close>

definition scope_read :: string where "scope_read = ''read''"
definition scope_write :: string where "scope_write = ''write''"
definition scope_receive :: string where "scope_receive = ''receive''"

definition resolveScopes :: "account_status \<Rightarrow> string list option \<Rightarrow> string list" where
  "resolveScopes status scopes =
     (if status \<noteq> AS_Active then [scope_read]
      else case scopes of
             Some ss \<Rightarrow> if ss \<noteq> [] then ss else [scope_read, scope_write, scope_receive]
           | None \<Rightarrow> [scope_read, scope_write, scope_receive])"

subsection \<open>The token and the context\<close>

record token_payload =
  tp_session_id :: "string option"
  tp_expires_at :: "string option"
  tp_scope :: "string option"
  tp_sub :: "string option"
  tp_client_id :: "string option"

text \<open>The claims for a session found by the check of API keys; what the check did not return is printed empty.\<close>

definition id_token_claims :: "CheckResponse \<Rightarrow> token_payload" where
  "id_token_claims resp =
     \<lparr> tp_session_id = Some [], tp_expires_at = Some [], tp_scope = Some (check_scope resp),
       tp_sub = Some (check_sub resp), tp_client_id = Some [] \<rparr>"

record gql_account =
  ga_id :: string
  ga_status :: account_status
  ga_kratosUserId :: string

record 'u gql_context =
  cx_user :: "'u option"
  cx_domainAccount :: "gql_account option"
  cx_sessionId :: "string option"
  cx_scope :: "string list option"
  cx_appId :: "string option"

record 'u gql_env =
  ge_getAccountFromUserId :: "string \<Rightarrow> error + gql_account"
  ge_users_findById :: "string \<Rightarrow> error + 'u"
  ge_wallets_findById :: "string \<Rightarrow> error + wallet_descriptor"

definition sessionPublicContext :: "'u gql_env \<Rightarrow> token_payload \<Rightarrow> 'u gql_context" where
  "sessionPublicContext env tokenPayload =
     (let scope = filter (\<lambda>e. e \<noteq> []) (case tp_scope tokenPayload of None \<Rightarrow> [] | Some s \<Rightarrow> str_split (CHR '' '') s);
          defaultContext = \<lparr> cx_user = None, cx_domainAccount = None, cx_sessionId = None, cx_scope = None, cx_appId = None \<rparr>
      in case checkedToUserId (case tp_sub tokenPayload of None \<Rightarrow> [] | Some s \<Rightarrow> s) of
           Inl _ \<Rightarrow> \<lparr> cx_user = None, cx_domainAccount = None, cx_sessionId = tp_session_id tokenPayload,
                      cx_scope = Some scope, cx_appId = tp_client_id tokenPayload \<rparr>
         | Inr userId \<Rightarrow>
             (case ge_getAccountFromUserId env userId of
                Inl _ \<Rightarrow> defaultContext
              | Inr account \<Rightarrow>
                  (case ge_users_findById env (ga_kratosUserId account) of
                     Inl _ \<Rightarrow> defaultContext
                   | Inr user \<Rightarrow>
                       \<lparr> cx_user = Some user, cx_domainAccount = Some account,
                         cx_sessionId = tp_session_id tokenPayload, cx_scope = Some scope,
                         cx_appId = tp_client_id tokenPayload \<rparr>)))"

subsection \<open>The fields\<close>

definition query_account_fields :: "string list" where
  "query_account_fields = [''authorization'', ''me'']"

definition query_wallet_fields :: "string list" where
  "query_wallet_fields = [''onChainTxFee'', ''onChainUsdTxFee'', ''onChainUsdTxFeeAsBtcDenominated'']"

definition mutation_account_fields :: "string list" where
  "mutation_account_fields =
     [''userLoginUpgrade'', ''userEmailRegistrationInitiate'', ''userEmailRegistrationValidate'',
      ''userEmailDelete'', ''userPhoneRegistrationInitiate'', ''userPhoneRegistrationValidate'',
      ''userPhoneDelete'', ''userTotpRegistrationInitiate'', ''userTotpRegistrationValidate'',
      ''userTotpDelete'', ''userLogout'', ''quizClaim'', ''deviceNotificationTokenCreate'',
      ''supportChatMessageAdd'', ''supportChatReset'', ''userUpdateLanguage'', ''userUpdateUsername'',
      ''userContactUpdateAlias'', ''accountUpdateDefaultWalletId'', ''accountUpdateDisplayCurrency'',
      ''accountEnableNotificationCategory'', ''accountDisableNotificationCategory'',
      ''accountEnableNotificationChannel'', ''accountDisableNotificationChannel'', ''accountDelete'',
      ''feedbackSubmit'', ''callbackEndpointAdd'', ''callbackEndpointDelete'']"

definition mutation_send_fields :: "string list" where
  "mutation_send_fields =
     [''intraLedgerPaymentSend'', ''intraLedgerUsdPaymentSend'', ''lnAddressPaymentSend'',
      ''lnurlPaymentSend'', ''lnInvoiceFeeProbe'', ''lnUsdInvoiceFeeProbe'',
      ''lnNoAmountInvoiceFeeProbe'', ''lnNoAmountUsdInvoiceFeeProbe'', ''lnInvoicePaymentSend'',
      ''lnNoAmountInvoicePaymentSend'', ''lnNoAmountUsdInvoicePaymentSend'', ''onChainPaymentSend'',
      ''onChainUsdPaymentSend'', ''onChainUsdPaymentSendAsBtcDenominated'', ''onChainPaymentSendAll'']"

definition mutation_receive_fields :: "string list" where
  "mutation_receive_fields =
     [''lnInvoiceCreate'', ''lnUsdInvoiceCreate'', ''lnNoAmountInvoiceCreate'', ''lnInvoiceCancel'',
      ''onChainAddressCreate'', ''onChainAddressCurrent'']"

subsection \<open>The layers\<close>

datatype operation = Query | Mutation

datatype gate_error =
    AuthorizationError string
  | InvalidAccountError
  | GateError error

text \<open>The rules of the shield; a field without a rule is open to everybody.\<close>

definition isAuthenticated :: "'u gql_context \<Rightarrow> bool" where
  "isAuthenticated ctx \<longleftrightarrow> cx_domainAccount ctx \<noteq> None"

definition hasMutationPermissions :: "'u gql_context \<Rightarrow> bool" where
  "hasMutationPermissions ctx \<longleftrightarrow>
     (case cx_domainAccount ctx of None \<Rightarrow> False | Some account \<Rightarrow> ga_status account = AS_Active)"

definition permissions :: "operation \<Rightarrow> string \<Rightarrow> 'u gql_context \<Rightarrow> gate_error + 'r \<Rightarrow> gate_error + 'r" where
  "permissions opn field ctx resolve =
     (let allowed =
        (case opn of
           Query \<Rightarrow> if field \<in> set (query_account_fields @ query_wallet_fields) then isAuthenticated ctx else True
         | Mutation \<Rightarrow>
             if field \<in> set (mutation_account_fields @ mutation_send_fields @ mutation_receive_fields)
             then hasMutationPermissions ctx else True)
      in if allowed then resolve else Inl (AuthorizationError []))"

text \<open>The wallet argument of a field: absent, one the scalar type rejected, or an id.\<close>

datatype wallet_arg = NoWalletId | RejectedWalletId error | WalletIdArg string

definition hasPermissions :: "'u gql_env \<Rightarrow> string \<Rightarrow> string \<Rightarrow> error + bool" where
  "hasPermissions env accountId walletId =
     (case ge_wallets_findById env walletId of
        Inl e \<Rightarrow> Inl e
      | Inr wallet \<Rightarrow> Inr (accountId = wallet_accountId wallet))"

definition validateWalletId ::
  "'u gql_env \<Rightarrow> wallet_arg \<Rightarrow> 'u gql_context \<Rightarrow> gate_error + 'r \<Rightarrow> gate_error + 'r" where
  "validateWalletId env arg ctx resolve =
     (case arg of
        NoWalletId \<Rightarrow> Inl (GateError InvalidWalletId)
      | RejectedWalletId e \<Rightarrow> Inl (GateError e)
      | WalletIdArg walletId \<Rightarrow>
          if walletId = [] then Inl (GateError InvalidWalletId)
          else case cx_domainAccount ctx of
                 None \<Rightarrow> Inl InvalidAccountError
               | Some account \<Rightarrow>
                   (case hasPermissions env (ga_id account) walletId of
                      Inl e \<Rightarrow> Inl (GateError e)
                    | Inr False \<Rightarrow> Inl (GateError InvalidWalletForAccountError)
                    | Inr True \<Rightarrow> resolve))"

definition walletIdMiddleware ::
  "'u gql_env \<Rightarrow> operation \<Rightarrow> string \<Rightarrow> wallet_arg \<Rightarrow> 'u gql_context \<Rightarrow> gate_error + 'r \<Rightarrow> gate_error + 'r" where
  "walletIdMiddleware env opn field arg ctx resolve =
     (if (case opn of
            Query \<Rightarrow> field \<in> set query_wallet_fields
          | Mutation \<Rightarrow> field \<in> set (mutation_send_fields @ mutation_receive_fields))
      then validateWalletId env arg ctx resolve else resolve)"

definition readAuthorize :: "'u gql_context \<Rightarrow> gate_error + 'r \<Rightarrow> gate_error + 'r" where
  "readAuthorize ctx resolve =
     (case cx_scope ctx of
        None \<Rightarrow> resolve
      | Some scope \<Rightarrow>
          if scope = [] then resolve
          else if scope_read \<in> set scope then resolve
          else Inl (AuthorizationError ''not authorized to read data''))"

definition writeAuthorize :: "'u gql_context \<Rightarrow> gate_error + 'r \<Rightarrow> gate_error + 'r" where
  "writeAuthorize ctx resolve =
     (case cx_scope ctx of
        None \<Rightarrow> resolve
      | Some scope \<Rightarrow>
          if scope = [] then resolve
          else if scope_write \<in> set scope then resolve
          else Inl (AuthorizationError ''not authorized to execute mutations''))"

definition receiveAuthorize :: "'u gql_context \<Rightarrow> gate_error + 'r \<Rightarrow> gate_error + 'r" where
  "receiveAuthorize ctx resolve =
     (case cx_scope ctx of
        None \<Rightarrow> resolve
      | Some scope \<Rightarrow>
          if scope = [] then resolve
          else if scope_receive \<in> set scope then resolve
          else writeAuthorize ctx resolve)"

definition scopeMiddleware :: "operation \<Rightarrow> string \<Rightarrow> 'u gql_context \<Rightarrow> gate_error + 'r \<Rightarrow> gate_error + 'r" where
  "scopeMiddleware opn field ctx resolve =
     (case opn of
        Query \<Rightarrow>
          if field \<in> set (query_account_fields @ query_wallet_fields) then readAuthorize ctx resolve else resolve
      | Mutation \<Rightarrow>
          if field \<in> set mutation_receive_fields then receiveAuthorize ctx resolve
          else if field \<in> set (mutation_account_fields @ mutation_send_fields) then writeAuthorize ctx resolve
          else resolve)"

text \<open>\<open>applyMiddleware(schema, permissions, walletIdMiddleware, scopeMiddleware)\<close>: the first is outermost.\<close>

definition public_field ::
  "'u gql_env \<Rightarrow> operation \<Rightarrow> string \<Rightarrow> wallet_arg \<Rightarrow> 'u gql_context \<Rightarrow> gate_error + 'r \<Rightarrow> gate_error + 'r" where
  "public_field env opn field arg ctx resolve =
     permissions opn field ctx
       (walletIdMiddleware env opn field arg ctx
         (scopeMiddleware opn field ctx resolve))"

subsection \<open>Who gets through\<close>

text \<open>The account and the scopes behind a context.\<close>

definition account_of :: "'u gql_env \<Rightarrow> string \<Rightarrow> gql_account option" where
  "account_of env subject =
     (if matches UuidRegex subject
      then case ge_getAccountFromUserId env subject of
             Inl _ \<Rightarrow> None
           | Inr account \<Rightarrow> if isl (ge_users_findById env (ga_kratosUserId account)) then None else Some account
      else None)"

definition wallet_of :: "'u gql_env \<Rightarrow> wallet_arg \<Rightarrow> string option" where
  "wallet_of env arg =
     (case arg of
        WalletIdArg w \<Rightarrow> if w = [] then None else (case ge_wallets_findById env w of Inl _ \<Rightarrow> None | Inr d \<Rightarrow> Some (wallet_accountId d))
      | _ \<Rightarrow> None)"

lemma field_lists_disjoint:
  "set mutation_receive_fields \<inter> set (mutation_account_fields @ mutation_send_fields) = {}"
  "set mutation_account_fields \<inter> set mutation_send_fields = {}"
  "set query_account_fields \<inter> set query_wallet_fields = {}"
  by (simp_all add: mutation_receive_fields_def mutation_account_fields_def mutation_send_fields_def
      query_account_fields_def query_wallet_fields_def)

lemma context_of_session:
  assumes "tp_sub tok = Some subject"
  shows "cx_domainAccount (sessionPublicContext env tok) = account_of env subject"
    and "account_of env subject \<noteq> None \<Longrightarrow> cx_scope (sessionPublicContext env tok) =
      Some (filter (\<lambda>e. e \<noteq> []) (case tp_scope tok of None \<Rightarrow> [] | Some s \<Rightarrow> str_split (CHR '' '') s))"
  using assms
  by (auto simp: sessionPublicContext_def account_of_def Let_def checkedToUserId_def isl_def split: sum.splits)

lemma validateWalletId_Inr:
  "validateWalletId env arg ctx resolve = Inr x \<longleftrightarrow>
   (\<exists>a. cx_domainAccount ctx = Some a \<and> wallet_of env arg = Some (ga_id a)) \<and> resolve = Inr x"
  by (cases arg; cases "cx_domainAccount ctx")
    (auto simp: validateWalletId_def wallet_of_def hasPermissions_def split: sum.splits option.splits bool.splits)

lemma authorize_Inr:
  assumes "cx_scope ctx = Some ss" "ss \<noteq> []"
  shows "readAuthorize ctx resolve = Inr x \<longleftrightarrow> scope_read \<in> set ss \<and> resolve = Inr x"
    and "writeAuthorize ctx resolve = Inr x \<longleftrightarrow> scope_write \<in> set ss \<and> resolve = Inr x"
    and "receiveAuthorize ctx resolve = Inr x \<longleftrightarrow> (scope_receive \<in> set ss \<or> scope_write \<in> set ss) \<and> resolve = Inr x"
  using assms by (auto simp: readAuthorize_def writeAuthorize_def receiveAuthorize_def)

lemma permissions_Inr:
  "permissions opn field ctx resolve = Inr x \<longleftrightarrow>
   (case opn of
      Query \<Rightarrow> field \<in> set (query_account_fields @ query_wallet_fields) \<longrightarrow> cx_domainAccount ctx \<noteq> None
    | Mutation \<Rightarrow> field \<in> set (mutation_account_fields @ mutation_send_fields @ mutation_receive_fields) \<longrightarrow>
        (\<exists>a. cx_domainAccount ctx = Some a \<and> ga_status a = AS_Active)) \<and> resolve = Inr x"
  by (auto simp: permissions_def Let_def isAuthenticated_def hasMutationPermissions_def
      split: operation.splits option.splits)

lemma Scope_string_mem: "Scope_to_string s \<in> Scope_to_string ` S \<longleftrightarrow> s \<in> S"
  using Scope_to_string_inject by (auto simp: image_iff simp del: Scope_to_string_inject Scope_to_string.simps)

lemma scope_strings [simp]:
  "scope_read \<in> Scope_to_string ` S \<longleftrightarrow> Read \<in> S"
  "scope_write \<in> Scope_to_string ` S \<longleftrightarrow> Write \<in> S"
  "scope_receive \<in> Scope_to_string ` S \<longleftrightarrow> Receive \<in> S"
  using Scope_string_mem [of Read S] Scope_string_mem [of Write S] Scope_string_mem [of Receive S]
  by (simp_all add: scope_read_def scope_write_def scope_receive_def READ_SCOPE_def WRITE_SCOPE_def RECEIVE_SCOPE_def)

text \<open>The context of a request with an API key with these scopes.\<close>

lemma key_context:
  fixes env :: "'u gql_env"
  assumes "scopes \<noteq> []"
    and resp: "resp = \<lparr> check_sub = subject, check_scope = str_join '' '' (map Scope_to_string scopes) \<rparr>"
    and ctx: "ctx = sessionPublicContext env (id_token_claims resp)"
  shows "cx_domainAccount ctx = account_of env subject"
    and "account_of env subject \<noteq> None \<Longrightarrow> cx_scope ctx = Some (map Scope_to_string scopes)"
proof -
  have sub: "tp_sub (id_token_claims resp) = Some subject"
    by (simp add: id_token_claims_def resp)
  show "cx_domainAccount ctx = account_of env subject"
    unfolding ctx by (rule context_of_session(1) [OF sub])
  have "str_split (CHR '' '') (str_join '' '' (map Scope_to_string scopes)) = map Scope_to_string scopes"
    using assms(1) Scope_no_space by (intro str_split_join) auto
  then show "cx_scope ctx = Some (map Scope_to_string scopes)" if "account_of env subject \<noteq> None"
    unfolding ctx using context_of_session(2) [OF sub that] Scope_not_empty
    by (simp add: id_token_claims_def resp)
qed

text \<open>What such a request may do.\<close>

lemma key_fields:
  fixes env :: "'u gql_env" and r :: 'r
  assumes "scopes \<noteq> []" "cx_domainAccount ctx = account_of env subject"
    and "account_of env subject \<noteq> None \<Longrightarrow> cx_scope ctx = Some (map Scope_to_string scopes)"
  shows "field \<in> set mutation_send_fields \<Longrightarrow> public_field env Mutation field arg ctx (Inr r) = Inr x \<longleftrightarrow>
      x = r \<and> Write \<in> set scopes \<and>
      (\<exists>a. account_of env subject = Some a \<and> ga_status a = AS_Active \<and> wallet_of env arg = Some (ga_id a))"
    and "field \<in> set mutation_receive_fields \<Longrightarrow> public_field env Mutation field arg ctx (Inr r) = Inr x \<longleftrightarrow>
      x = r \<and> (Receive \<in> set scopes \<or> Write \<in> set scopes) \<and>
      (\<exists>a. account_of env subject = Some a \<and> ga_status a = AS_Active \<and> wallet_of env arg = Some (ga_id a))"
    and "field \<in> set mutation_account_fields \<Longrightarrow> public_field env Mutation field arg ctx (Inr r) = Inr x \<longleftrightarrow>
      x = r \<and> Write \<in> set scopes \<and> (\<exists>a. account_of env subject = Some a \<and> ga_status a = AS_Active)"
    and "field \<in> set query_wallet_fields \<Longrightarrow> public_field env Query field arg ctx (Inr r) = Inr x \<longleftrightarrow>
      x = r \<and> Read \<in> set scopes \<and>
      (\<exists>a. account_of env subject = Some a \<and> wallet_of env arg = Some (ga_id a))"
    and "field \<in> set query_account_fields \<Longrightarrow> public_field env Query field arg ctx (Inr r) = Inr x \<longleftrightarrow>
      x = r \<and> Read \<in> set scopes \<and> account_of env subject \<noteq> None"
proof -
  have gates: "cx_domainAccount ctx \<noteq> None \<Longrightarrow>
      (readAuthorize ctx (Inr r) = Inr x \<longleftrightarrow> Read \<in> set scopes \<and> x = r) \<and>
      (writeAuthorize ctx (Inr r) = Inr x \<longleftrightarrow> Write \<in> set scopes \<and> x = r) \<and>
      (receiveAuthorize ctx (Inr r) = Inr x \<longleftrightarrow> (Receive \<in> set scopes \<or> Write \<in> set scopes) \<and> x = r)"
    using authorize_Inr [of ctx "map Scope_to_string scopes" "Inr r" x] assms by auto
  note simps = public_field_def permissions_Inr walletIdMiddleware_def validateWalletId_Inr scopeMiddleware_def
  show "public_field env Mutation field arg ctx (Inr r) = Inr x \<longleftrightarrow>
      x = r \<and> Write \<in> set scopes \<and>
      (\<exists>a. account_of env subject = Some a \<and> ga_status a = AS_Active \<and> wallet_of env arg = Some (ga_id a))"
    if "field \<in> set mutation_send_fields"
    using that field_lists_disjoint gates assms(2) by (auto simp: simps disjoint_iff)
  show "public_field env Mutation field arg ctx (Inr r) = Inr x \<longleftrightarrow>
      x = r \<and> (Receive \<in> set scopes \<or> Write \<in> set scopes) \<and>
      (\<exists>a. account_of env subject = Some a \<and> ga_status a = AS_Active \<and> wallet_of env arg = Some (ga_id a))"
    if "field \<in> set mutation_receive_fields"
    using that gates assms(2) by (auto simp: simps)
  show "public_field env Mutation field arg ctx (Inr r) = Inr x \<longleftrightarrow>
      x = r \<and> Write \<in> set scopes \<and> (\<exists>a. account_of env subject = Some a \<and> ga_status a = AS_Active)"
    if "field \<in> set mutation_account_fields"
    using that field_lists_disjoint gates assms(2) by (auto simp: simps disjoint_iff)
  show "public_field env Query field arg ctx (Inr r) = Inr x \<longleftrightarrow>
      x = r \<and> Read \<in> set scopes \<and>
      (\<exists>a. account_of env subject = Some a \<and> wallet_of env arg = Some (ga_id a))"
    if "field \<in> set query_wallet_fields"
    using that gates assms(2) by (auto simp: simps)
  show "public_field env Query field arg ctx (Inr r) = Inr x \<longleftrightarrow>
      x = r \<and> Read \<in> set scopes \<and> account_of env subject \<noteq> None"
    if "field \<in> set query_account_fields"
    using that field_lists_disjoint(3) gates assms(2) by (auto simp: simps disjoint_iff)
qed

text \<open>
  The list of scopes a client is shown (\<open>query/authorization.ts\<close>) is what the layers let through:
  mutations exactly with \<open>write\<close>, receiving also with \<open>receive\<close>.
\<close>

lemma resolveScopes_truthful:
  assumes "cx_domainAccount ctx = Some a"
  shows "field \<in> set mutation_account_fields \<Longrightarrow>
      public_field env Mutation field arg ctx (Inr r) = Inr r \<longleftrightarrow>
      scope_write \<in> set (resolveScopes (ga_status a) (cx_scope ctx))"
    and "field \<in> set mutation_receive_fields \<Longrightarrow> wallet_of env arg = Some (ga_id a) \<Longrightarrow>
      public_field env Mutation field arg ctx (Inr r) = Inr r \<longleftrightarrow>
      {scope_write, scope_receive} \<inter> set (resolveScopes (ga_status a) (cx_scope ctx)) \<noteq> {}"
proof -
  have dist: "scope_read \<noteq> scope_write" "scope_read \<noteq> scope_receive"
    by (simp_all add: scope_read_def scope_write_def scope_receive_def)
  have pass: "writeAuthorize ctx (Inr r) = Inr r \<longleftrightarrow>
      (case cx_scope ctx of None \<Rightarrow> True | Some ss \<Rightarrow> ss = [] \<or> scope_write \<in> set ss)"
    "receiveAuthorize ctx (Inr r) = Inr r \<longleftrightarrow>
      (case cx_scope ctx of None \<Rightarrow> True | Some ss \<Rightarrow> ss = [] \<or> scope_receive \<in> set ss \<or> scope_write \<in> set ss)"
    by (auto simp: writeAuthorize_def receiveAuthorize_def split: option.splits)
  note simps = public_field_def permissions_Inr walletIdMiddleware_def validateWalletId_Inr scopeMiddleware_def
    resolveScopes_def
  show "public_field env Mutation field arg ctx (Inr r) = Inr r \<longleftrightarrow>
      scope_write \<in> set (resolveScopes (ga_status a) (cx_scope ctx))"
    if "field \<in> set mutation_account_fields"
    using that field_lists_disjoint pass(1) assms dist
    by (auto simp: simps disjoint_iff split: option.splits if_splits)
  show "public_field env Mutation field arg ctx (Inr r) = Inr r \<longleftrightarrow>
      {scope_write, scope_receive} \<inter> set (resolveScopes (ga_status a) (cx_scope ctx)) \<noteq> {}"
    if "field \<in> set mutation_receive_fields" "wallet_of env arg = Some (ga_id a)"
    using that pass(2) assms dist
    by (auto simp: simps disjoint_iff split: option.splits if_splits)
qed

end
