(* ===== verification/Quiz.thy ===== *)
theory Quiz
  imports Domain_Checks Prices Rust_Base
begin

text \<open>
  The quizzes a user earns satoshis with: their values and sections (\<open>domain/quiz\<close>), the checks of
  phone and address (\<open>domain/users/phone-metadata-authorizer.ts\<close>,
  \<open>domain/accounts-ips/ip-metadata-authorizer.ts\<close>), the stored answers
  (\<open>services/mongoose/quiz.ts\<close>) and claiming a reward (\<open>app/quiz\<close>), with the fallible operations on
  a state of \<open>Rust_Base\<close>. Rate limiter, repositories and the payment are fields of an environment.
  Times are in milliseconds.
\<close>

subsection \<open>domain/quiz\<close>

definition milliSecondsBetweenSections :: int where
  "milliSecondsBetweenSections = 60 * 60 * 12 * 1000"

definition QuizzesValue :: "(string \<times> int) list" where
  "QuizzesValue =
     [(''whatIsBitcoin'', 1), (''sat'', 1), (''whereBitcoinExist'', 1),
      (''whoControlsBitcoin'', 1), (''copyBitcoin'', 1), (''moneySocialAgreement'', 2),
      (''coincidenceOfWants'', 2), (''moneyEvolution'', 2), (''whyStonesShellGold'', 3),
      (''moneyIsImportant'', 3), (''moneyImportantGovernement'', 4), (''WhatIsFiat'', 2),
      (''whyCareAboutFiatMoney'', 2), (''GovernementCanPrintMoney'', 2),
      (''FiatLosesValueOverTime'', 3), (''OtherIssues'', 4), (''LimitedSupply'', 2),
      (''Decentralized'', 2), (''NoCounterfeitMoney'', 2), (''HighlyDivisible'', 3),
      (''securePartOne'', 3), (''securePartTwo'', 4), (''originsOfMoney'', 2),
      (''primitiveMoney'', 2), (''anticipatingDemand'', 3), (''nashEquilibrium'', 3),
      (''singleStoreOfValue'', 4), (''whatIsGoodSOV'', 2), (''durability'', 2),
      (''portability'', 2), (''fungibility'', 2), (''verifiability'', 3), (''divisibility'', 3),
      (''scarce'', 3), (''establishedHistory'', 4), (''censorshipResistance'', 5),
      (''evolutionMoney'', 2), (''collectible'', 2), (''storeOfValue'', 2),
      (''mediumOfExchange'', 3), (''unitOfAccount'', 3), (''partlyMonetized'', 3),
      (''monetizationStage'', 4), (''notFromGovernment'', 2), (''primaryFunction'', 2),
      (''monetaryMetals'', 3), (''stockToFlow'', 3), (''hardMoney'', 4), (''convergingOnGold'', 2),
      (''originsOfPaperMoney'', 2), (''fractionalReserve'', 2), (''bankRun'', 2),
      (''modernCentralBanking'', 3), (''goldBacked'', 3), (''brettonWoods'', 4),
      (''globalReserve'', 5), (''nixonShock'', 2), (''fiatEra'', 2), (''digitalFiat'', 2),
      (''plasticCredit'', 3), (''doubleSpendProblem'', 3), (''satoshisBreakthrough'', 3),
      (''nativelyDigital'', 4), (''CBDCs'', 5), (''rootProblem'', 2), (''bitcoinCreator'', 2),
      (''fiatRequiresTrust'', 3), (''moneyPrinting'', 3), (''genesisBlock'', 4),
      (''cypherpunks'', 13), (''peer2Peer'', 2), (''blockchain'', 2), (''privateKey'', 2),
      (''publicKey'', 3), (''mining'', 3), (''proofOfWork'', 3), (''difficultyAdjustment'', 4),
      (''halving'', 5), (''bitcoinDrawbacks'', 2), (''blocksizeWars'', 2),
      (''lightningNetwork'', 2), (''instantPayments'', 3), (''micropayments'', 3),
      (''scalability'', 3), (''paymentChannels'', 4), (''routing'', 5), (''itsaBubble'', 2),
      (''itstooVolatile'', 2), (''itsnotBacked'', 3), (''willbecomeObsolete'', 3),
      (''toomuchEnergy'', 4), (''strandedEnergy'', 5), (''internetDependent'', 2),
      (''forcrimeOnly'', 2), (''ponziScheme'', 2), (''bitcoinisTooSlow'', 3), (''supplyLimit'', 3),
      (''governmentBan'', 4), (''concentratedOwnership'', 2), (''centralizedMining'', 2),
      (''tooExpensive'', 2), (''prohibitivelyHigh'', 3), (''willBeHoarded'', 4),
      (''canBeDuplicated'', 5), (''scarcity'', 2), (''monetaryPremium'', 2), (''greshamsLaw'', 2),
      (''thiersLaw'', 3), (''cantillonEffect'', 4), (''schellingPoint'', 5),
      (''opportunityCost'', 2), (''timePreference'', 2), (''impossibleTrinity'', 3),
      (''jevonsParadox'', 3), (''powerLaws'', 4), (''winnerTakeAll'', 5), (''unitBias'', 2),
      (''veblenGood'', 2), (''malinvestment'', 3), (''asymmetricPayoff'', 4), (''ansoffMatrix'', 5)]"

definition QuizzesSections :: "(string \<times> string list) list" where
  "QuizzesSections =
     [(''bitcoinWhatIsIt'',
       [''whatIsBitcoin'', ''sat'', ''whereBitcoinExist'', ''whoControlsBitcoin'', ''copyBitcoin'']),
      (''WhatIsMoney'',
       [''moneySocialAgreement'', ''coincidenceOfWants'', ''moneyEvolution'',
        ''whyStonesShellGold'', ''moneyIsImportant'', ''moneyImportantGovernement'']),
      (''HowDoesMoneyWork'',
       [''WhatIsFiat'', ''whyCareAboutFiatMoney'', ''GovernementCanPrintMoney'',
        ''FiatLosesValueOverTime'', ''OtherIssues'']),
      (''BitcoinWhySpecial'',
       [''LimitedSupply'', ''Decentralized'', ''NoCounterfeitMoney'', ''HighlyDivisible'',
        ''securePartOne'', ''securePartTwo'']),
      (''TheOriginsOfMoney'',
       [''originsOfMoney'', ''primitiveMoney'', ''anticipatingDemand'', ''nashEquilibrium'',
        ''singleStoreOfValue'']),
      (''AttributesOfAGoodStoreOfValue'',
       [''whatIsGoodSOV'', ''durability'', ''portability'', ''fungibility'', ''verifiability'',
        ''divisibility'', ''scarce'', ''establishedHistory'', ''censorshipResistance'']),
      (''TheEvolutionOfMoneyI'',
       [''evolutionMoney'', ''collectible'', ''storeOfValue'', ''mediumOfExchange'',
        ''unitOfAccount'', ''partlyMonetized'', ''monetizationStage'']),
      (''TheEvolutionOfMoneyII'',
       [''notFromGovernment'', ''primaryFunction'', ''monetaryMetals'', ''stockToFlow'',
        ''hardMoney'']),
      (''TheEvolutionOfMoneyIII'',
       [''convergingOnGold'', ''originsOfPaperMoney'', ''fractionalReserve'', ''bankRun'',
        ''modernCentralBanking'', ''goldBacked'', ''brettonWoods'', ''globalReserve'']),
      (''TheEvolutionOfMoneyIV'',
       [''nixonShock'', ''fiatEra'', ''digitalFiat'', ''plasticCredit'', ''doubleSpendProblem'',
        ''satoshisBreakthrough'', ''nativelyDigital'', ''CBDCs'']),
      (''BitcoinWhyWasItCreated'',
       [''rootProblem'', ''bitcoinCreator'', ''fiatRequiresTrust'', ''moneyPrinting'',
        ''genesisBlock'', ''cypherpunks'']),
      (''BitcoinHowDoesItWork'',
       [''peer2Peer'', ''blockchain'', ''privateKey'', ''publicKey'', ''mining'', ''proofOfWork'',
        ''difficultyAdjustment'', ''halving'']),
      (''LightningWhatDoesItSolve'',
       [''bitcoinDrawbacks'', ''blocksizeWars'', ''lightningNetwork'', ''instantPayments'',
        ''micropayments'', ''scalability'', ''paymentChannels'', ''routing'']),
      (''BitcoinCriticismsFallaciesI'',
       [''itsaBubble'', ''itstooVolatile'', ''itsnotBacked'', ''willbecomeObsolete'',
        ''toomuchEnergy'', ''strandedEnergy'']),
      (''BitcoinCriticismsFallaciesII'',
       [''internetDependent'', ''forcrimeOnly'', ''ponziScheme'', ''bitcoinisTooSlow'',
        ''supplyLimit'', ''governmentBan'']),
      (''BitcoinCriticismsFallaciesIII'',
       [''concentratedOwnership'', ''centralizedMining'', ''tooExpensive'', ''prohibitivelyHigh'',
        ''willBeHoarded'', ''canBeDuplicated'']),
      (''BitcoinAndEconomicsI'',
       [''scarcity'', ''monetaryPremium'', ''greshamsLaw'', ''thiersLaw'', ''cantillonEffect'',
        ''schellingPoint'']),
      (''BitcoinAndEconomicsII'',
       [''opportunityCost'', ''timePreference'', ''impossibleTrinity'', ''jevonsParadox'',
        ''powerLaws'', ''winnerTakeAll'']),
      (''BitcoinAndEconomicsIII'',
       [''unitBias'', ''veblenGood'', ''malinvestment'', ''asymmetricPayoff'', ''ansoffMatrix''])]"

record QuizCompleted =
  qc_quizId :: string
  qc_createdAt :: int

definition orderedKeys :: "string list" where
  "orderedKeys = map fst QuizzesValue"

fun findIndex :: "('a \<Rightarrow> bool) \<Rightarrow> 'a list \<Rightarrow> nat option" where
  "findIndex p [] = None"
| "findIndex p (x # xs) = (if p x then Some 0 else map_option Suc (findIndex p xs))"

definition indexOf :: "'a \<Rightarrow> 'a list \<Rightarrow> int" where
  "indexOf x xs = (case findIndex ((=) x) xs of None \<Rightarrow> -1 | Some i \<Rightarrow> int i)"

definition reorderQuizzes :: "QuizCompleted list \<Rightarrow> QuizCompleted list" where
  "reorderQuizzes quizzesCompleted = sort_key (\<lambda>q. indexOf (qc_quizId q) orderedKeys) quizzesCompleted"

definition lastSectionCompleted :: "QuizCompleted list \<Rightarrow> nat" where
  "lastSectionCompleted orderedQuizzes =
     (if orderedQuizzes = [] then 0
      else let lastQuizCompleted = qc_quizId (last orderedQuizzes)
           in case findIndex (\<lambda>section. lastQuizCompleted \<in> set (snd section)) QuizzesSections of
                None \<Rightarrow> 0
              | Some index \<Rightarrow>
                  if last (snd (QuizzesSections ! index)) = lastQuizCompleted then index + 1 else index)"

record quiz_info =
  qi_id :: string
  qi_amount :: int
  qi_completed :: bool
  qi_section :: nat
  qi_notBefore :: "int option"

text \<open>
  The information on one quiz, at time \<open>now\<close>; a quiz without a section has section \<open>NaN\<close>, for
  which the code throws unless the quiz is completed.
\<close>

definition section_of :: "string \<Rightarrow> nat option" where
  "section_of i = findIndex (\<lambda>section. i \<in> set (snd section)) QuizzesSections"

definition last_quiz :: "nat \<Rightarrow> string" where
  "last_quiz k = last (snd (QuizzesSections ! k))"

definition quizInformation :: "int \<Rightarrow> QuizCompleted list \<Rightarrow> string \<times> int \<Rightarrow> quiz_info option" where
  "quizInformation now orderedQuizzes = (\<lambda>(i, amt).
     let completed = find (\<lambda>q. qc_quizId q = i) orderedQuizzes \<noteq> None
     in case section_of i of
          None \<Rightarrow> None
        | Some section \<Rightarrow>
            Some \<lparr> qi_id = i, qi_amount = amt, qi_completed = completed, qi_section = section,
              qi_notBefore =
                (if section \<noteq> 0 \<and> \<not> completed
                 then Some ((case find (\<lambda>q. qc_quizId q = last_quiz (section - 1)) orderedQuizzes of
                               None \<Rightarrow> now
                             | Some q \<Rightarrow> qc_createdAt q) + milliSecondsBetweenSections)
                 else None) \<rparr>)"

definition fillQuizInformation :: "int \<Rightarrow> QuizCompleted list \<Rightarrow> (nat \<times> quiz_info list) option" where
  "fillQuizInformation now quizzesCompleted =
     (let orderedQuizzes = reorderQuizzes quizzesCompleted;
          quizzes = map (quizInformation now orderedQuizzes) QuizzesValue
      in if None \<in> set quizzes then None
         else Some (lastSectionCompleted orderedQuizzes, map the quizzes))"

text \<open>The tables fit together: every quiz is in a section, and none is without value.\<close>

lemma quiz_tables:
  "concat (map snd QuizzesSections) = orderedKeys"
  "list_all (\<lambda>(i, n). n > 0) QuizzesValue" "sum_list (map snd QuizzesValue) = 351"
  by code_simp+

lemma findIndex_None [simp]: "findIndex p xs = None \<longleftrightarrow> (\<forall>x \<in> set xs. \<not> p x)"
  by (induction xs) auto

lemma section_of_key: "i \<in> set orderedKeys \<Longrightarrow> section_of i \<noteq> None"
  unfolding quiz_tables(1) [symmetric] section_of_def findIndex_None by auto

lemma quizInformation_total:
  assumes "x \<in> set QuizzesValue"
  shows "quizInformation now qs x \<noteq> None"
proof -
  obtain i amt where x: "x = (i, amt)"
    by (cases x)
  have "i \<in> set orderedKeys"
    using assms by (force simp: x orderedKeys_def)
  from section_of_key [OF this] show ?thesis
    by (auto simp: x quizInformation_def Let_def)
qed

text \<open>So that the information is always there.\<close>

lemma fillQuizInformation_total:
  "fillQuizInformation now qs = Some (lastSectionCompleted (reorderQuizzes qs),
     map (\<lambda>x. the (quizInformation now (reorderQuizzes qs) x)) QuizzesValue)"
proof -
  have "None \<notin> quizInformation now (reorderQuizzes qs) ` set QuizzesValue"
    using quizInformation_total by (metis imageE)
  then show ?thesis
    by (simp add: fillQuizInformation_def Let_def comp_def)
qed

subsection \<open>Authorizers\<close>

record country_settings =
  denyCountries :: "string list"
  allowCountries :: "string list"

record ip_settings = country_settings +
  denyASNs :: "string list"
  allowASNs :: "string list"
  checkProxy :: bool

record phone_metadata =
  pm_carrierType :: "string option"
  pm_countryCode :: string

record ip_type =
  ip_isoCode :: "string option"
  ip_asn :: "string option"
  ip_proxy :: bool

datatype quiz_error =
    ExpectedPhoneMetadataMissingError | PhoneCarrierTypeNotAllowedError | PhoneCountryNotAllowedError
  | MissingIPMetadataError | UnauthorizedIPMetadataProxyError | UnauthorizedIPMetadataCountryError
  | UnauthorizedIPMetadataASNError | InvalidIpMetadataError | InvalidPhoneForQuizError
  | AddQuizAttemptIpRateLimiterExceededError | AddQuizAttemptPhoneRateLimiterExceededError
  | QuizInvalidAccountId | InvalidQuizQuestionIdError | QuizClaimedTooEarlyError
  | NoBtcWalletExistsForAccountError | NotEnoughBalanceForQuizError | QuizAlreadyPresentError
  | UnknownRepositoryError | QuizServiceError error | QuizThrown

definition allowed_by :: "'z country_settings_scheme \<Rightarrow> string \<Rightarrow> bool" where
  "allowed_by st code \<longleftrightarrow>
     (allowCountries st = [] \<or> code \<in> set (allowCountries st)) \<and>
     \<not> (denyCountries st \<noteq> [] \<and> code \<in> set (denyCountries st))"

definition PhoneMetadataAuthorizer :: "'z country_settings_scheme \<Rightarrow> phone_metadata option \<Rightarrow> quiz_error + unit" where
  "PhoneMetadataAuthorizer st phoneMetadata =
     (case phoneMetadata of
        None \<Rightarrow> Inl ExpectedPhoneMetadataMissingError
      | Some pm \<Rightarrow>
          if pm_carrierType pm = Some ''voip'' then Inl PhoneCarrierTypeNotAllowedError
          else if \<not> allowed_by st (toUpperCase (pm_countryCode pm)) then Inl PhoneCountryNotAllowedError
          else Inr ())"

definition IPMetadataAuthorizer :: "ip_settings \<Rightarrow> ip_type option \<Rightarrow> quiz_error + unit" where
  "IPMetadataAuthorizer st ipMetadata =
     (case ipMetadata of
        None \<Rightarrow> Inl MissingIPMetadataError
      | Some ip \<Rightarrow>
          (case (ip_isoCode ip, ip_asn ip) of
             (Some isoCode, Some asn) \<Rightarrow>
               if isoCode = [] \<or> asn = [] then Inl MissingIPMetadataError
               else if checkProxy st \<and> ip_proxy ip then Inl UnauthorizedIPMetadataProxyError
               else if \<not> allowed_by st (toUpperCase isoCode) then Inl UnauthorizedIPMetadataCountryError
               else if (allowASNs st \<noteq> [] \<and> toUpperCase asn \<notin> set (allowASNs st)) \<or>
                       (denyASNs st \<noteq> [] \<and> toUpperCase asn \<in> set (denyASNs st))
               then Inl UnauthorizedIPMetadataASNError
               else Inr ()
           | _ \<Rightarrow> Inl MissingIPMetadataError))"

subsection \<open>Rate limits\<close>

datatype rate_limit = RL_addQuizAttemptPerIp | RL_addQuizAttemptPerPhone

fun rate_limit_key :: "rate_limit \<Rightarrow> string" where
  "rate_limit_key RL_addQuizAttemptPerIp = ''add_quiz_attempt_ip''"
| "rate_limit_key RL_addQuizAttemptPerPhone = ''add_quiz_attempt_phone''"

fun rate_limit_error :: "rate_limit \<Rightarrow> quiz_error" where
  "rate_limit_error RL_addQuizAttemptPerIp = AddQuizAttemptIpRateLimiterExceededError"
| "rate_limit_error RL_addQuizAttemptPerPhone = AddQuizAttemptPhoneRateLimiterExceededError"

subsection \<open>app/quiz\<close>

record quiz_account =
  qa_id :: string
  qa_kratosUserId :: string

record quiz_user =
  qu_phone :: "string option"
  qu_deletedPhones :: "string list option"
  qu_phoneMetadata :: "phone_metadata option"

text \<open>
  The limiter, by the key and limits of a configuration; the repositories; the payment from the
  funder's wallet (\<open>intraledgerPaymentSendWalletIdForBtcWallet\<close>). \<open>qz_db_fails\<close> tells whether the next
  statement on the answers fails.
\<close>

record 'w quiz_env =
  qz_consume :: "rate_limit \<Rightarrow> string \<Rightarrow> 'w \<Rightarrow> bool \<times> 'w"
  qz_phoneSettings :: country_settings
  qz_ipSettings :: ip_settings
  qz_accounts_findById :: "string \<Rightarrow> 'w \<Rightarrow> (error + quiz_account) \<times> 'w"
  qz_users_findById :: "string \<Rightarrow> 'w \<Rightarrow> (error + quiz_user) \<times> 'w"
  qz_ips_findLastByAccountId :: "string \<Rightarrow> 'w \<Rightarrow> (error + ip_type option) \<times> 'w"
  qz_wallets_listByAccountId :: "string \<Rightarrow> 'w \<Rightarrow> (error + wallet_descriptor list) \<times> 'w"
  qz_funderWalletId :: "'w \<Rightarrow> string \<times> 'w"
  qz_wallets_findById :: "string \<Rightarrow> 'w \<Rightarrow> (error + wallet_descriptor) \<times> 'w"
  qz_balance :: "string \<Rightarrow> 'w \<Rightarrow> (error + jsnum) \<times> 'w"
  qz_pay :: "string \<Rightarrow> string \<Rightarrow> int \<Rightarrow> string \<Rightarrow> quiz_account \<Rightarrow> 'w \<Rightarrow> (error + unit) \<times> 'w"
  qz_db_fails :: "'w \<Rightarrow> bool \<times> 'w"

text \<open>The answers of the accounts, the payments asked for, and the rest of the world.\<close>

record quiz_payment =
  qp_accountId :: string
  qp_recipientWalletId :: string
  qp_amount :: int
  qp_memo :: string

record 'w quiz_state =
  qs_quizzes :: "(string \<times> QuizCompleted) list"
  qs_payments :: "quiz_payment list"
  qs_world :: 'w

type_synonym ('w, 'a) quiz_op = "('w quiz_state, quiz_error, 'a) rust"

definition service_call :: "('w \<Rightarrow> (error + 'a) \<times> 'w) \<Rightarrow> ('w, 'a) quiz_op" where
  "service_call f s =
     (case f (qs_world s) of
        (Inl e, w) \<Rightarrow> (Inl (QuizServiceError e), s\<lparr> qs_world := w \<rparr>)
      | (Inr a, w) \<Rightarrow> (Inr a, s\<lparr> qs_world := w \<rparr>))"

definition world_call :: "('w \<Rightarrow> 'a \<times> 'w) \<Rightarrow> ('w, 'a) quiz_op" where
  "world_call f s = (case f (qs_world s) of (a, w) \<Rightarrow> (Inr a, s\<lparr> qs_world := w \<rparr>))"

definition from_check :: "quiz_error + 'a \<Rightarrow> ('w, 'a) quiz_op" where
  "from_check r s = (r, s)"

definition consumeLimiter :: "'w quiz_env \<Rightarrow> rate_limit \<Rightarrow> string \<Rightarrow> ('w, unit) quiz_op" where
  "consumeLimiter env rl key =
     rs_bind (world_call (qz_consume env rl key)) (\<lambda>ok.
     if ok then rs_ok () else rs_err (rate_limit_error rl))"

definition checkAddQuizAttemptPerIpLimits :: "'w quiz_env \<Rightarrow> string option \<Rightarrow> ('w, unit) quiz_op" where
  "checkAddQuizAttemptPerIpLimits env ip =
     (case ip of
        None \<Rightarrow> rs_err InvalidIpMetadataError
      | Some i \<Rightarrow> if i = [] then rs_err InvalidIpMetadataError
                  else consumeLimiter env RL_addQuizAttemptPerIp i)"

definition checkAddQuizAttemptPerPhoneLimits :: "'w quiz_env \<Rightarrow> string option \<Rightarrow> ('w, unit) quiz_op" where
  "checkAddQuizAttemptPerPhoneLimits env phone =
     (case phone of
        None \<Rightarrow> rs_err InvalidPhoneForQuizError
      | Some p \<Rightarrow> if p = [] then rs_err InvalidPhoneForQuizError
                  else consumeLimiter env RL_addQuizAttemptPerIp p)"

text \<open>The repository of answers; an account has at most one answer to a quiz (unique index).\<close>

definition QuizRepository_add :: "'w quiz_env \<Rightarrow> int \<Rightarrow> string \<Rightarrow> string \<Rightarrow> ('w, unit) quiz_op" where
  "QuizRepository_add env now quizId accountId =
     rs_bind (world_call (qz_db_fails env)) (\<lambda>fails s.
       if fails then (Inl UnknownRepositoryError, s)
       else if \<exists>(a, q) \<in> set (qs_quizzes s). a = accountId \<and> qc_quizId q = quizId
       then (Inl QuizAlreadyPresentError, s)
       else (Inr (), s\<lparr> qs_quizzes := qs_quizzes s @ [(accountId, \<lparr> qc_quizId = quizId, qc_createdAt = now \<rparr>)] \<rparr>))"

definition QuizRepository_fetchAll :: "'w quiz_env \<Rightarrow> string \<Rightarrow> ('w, QuizCompleted list) quiz_op" where
  "QuizRepository_fetchAll env accountId =
     rs_bind (world_call (qz_db_fails env)) (\<lambda>fails s.
       if fails then (Inl UnknownRepositoryError, s)
       else (Inr (map snd (filter (\<lambda>(a, q). a = accountId) (qs_quizzes s))), s))"

definition listQuizzesByAccountId :: "'w quiz_env \<Rightarrow> int \<Rightarrow> string \<Rightarrow> ('w, quiz_info list) quiz_op" where
  "listQuizzesByAccountId env now accountId =
     rs_bind (QuizRepository_fetchAll env accountId) (\<lambda>quizzes.
     case fillQuizInformation now quizzes of
       None \<Rightarrow> rs_err QuizThrown
     | Some (_, qs) \<Rightarrow> rs_ok qs)"

definition FunderBalanceChecker_check :: "jsnum \<Rightarrow> int \<Rightarrow> quiz_error + unit" where
  "FunderBalanceChecker_check balance amountToSend =
     (if js_lt balance (Fin (of_int amountToSend)) then Inl NotEnoughBalanceForQuizError else Inr ())"

text \<open>
  The names every object of the language has: for these \<open>QuizzesValue[quizId]\<close> is not undefined,
  and the claim fails when the quiz is looked up in the list.
\<close>

definition object_properties :: "string list" where
  "object_properties =
     [''constructor'', ''__defineGetter__'', ''__defineSetter__'', ''hasOwnProperty'', ''__lookupGetter__'',
      ''__lookupSetter__'', ''isPrototypeOf'', ''propertyIsEnumerable'', ''toString'', ''valueOf'',
      ''__proto__'', ''toLocaleString'']"

definition phone_of :: "quiz_user \<Rightarrow> string option" where
  "phone_of user =
     (case qu_phone user of
        Some p \<Rightarrow> if p \<noteq> [] then Some p
          else (case qu_deletedPhones user of Some (d # _) \<Rightarrow> Some d | _ \<Rightarrow> None)
      | None \<Rightarrow> (case qu_deletedPhones user of Some (d # _) \<Rightarrow> Some d | _ \<Rightarrow> None))"

text \<open>The parts of \<open>claimQuiz\<close>: who claims, whether the quiz is open, and who pays.\<close>

definition claim_identity ::
  "'w quiz_env \<Rightarrow> string \<Rightarrow> string \<Rightarrow> string option \<Rightarrow> ('w, string) quiz_op" where
  "claim_identity env quizId accountIdRaw ip =
     rs_bind (checkAddQuizAttemptPerIpLimits env ip) (\<lambda>_.
     case checkedToAccountId accountIdRaw of
       Inl _ \<Rightarrow> rs_err QuizInvalidAccountId
     | Inr accountId \<Rightarrow>
         if map_of QuizzesValue quizId = None \<and> quizId \<notin> set object_properties then rs_err InvalidQuizQuestionIdError
         else rs_bind (service_call (qz_accounts_findById env accountId)) (\<lambda>recipientAccount.
           rs_bind (service_call (qz_users_findById env (qa_kratosUserId recipientAccount))) (\<lambda>user.
           rs_bind (checkAddQuizAttemptPerPhoneLimits env (phone_of user)) (\<lambda>_.
           case PhoneMetadataAuthorizer (qz_phoneSettings env) (qu_phoneMetadata user) of
             Inl _ \<Rightarrow> rs_err InvalidPhoneForQuizError
           | Inr _ \<Rightarrow>
               rs_bind (service_call (qz_ips_findLastByAccountId env (qa_id recipientAccount))) (\<lambda>metadata.
               case IPMetadataAuthorizer (qz_ipSettings env) metadata of
                 Inl e \<Rightarrow> rs_err (if e = MissingIPMetadataError then InvalidIpMetadataError else e)
               | Inr _ \<Rightarrow> rs_ok accountId)))))"

definition claim_open :: "'w quiz_env \<Rightarrow> int \<Rightarrow> int \<Rightarrow> string \<Rightarrow> string \<Rightarrow> ('w, int) quiz_op" where
  "claim_open env t_list t_check quizId accountId =
     rs_bind (listQuizzesByAccountId env t_list accountId) (\<lambda>quizzesBefore.
     case find (\<lambda>q. qi_id q = quizId) quizzesBefore of
       None \<Rightarrow> rs_err InvalidQuizQuestionIdError
     | Some quiz \<Rightarrow>
         (case qi_notBefore quiz of
            Some t \<Rightarrow> if t > t_check then rs_err QuizClaimedTooEarlyError else rs_ok (qi_amount quiz)
          | None \<Rightarrow> rs_ok (qi_amount quiz)))"

record quiz_ticket =
  tk_accountId :: string
  tk_quizId :: string
  tk_amount :: int
  tk_recipientWalletId :: string
  tk_funderWalletId :: string
  tk_funderAccount :: quiz_account

definition claim_funding :: "'w quiz_env \<Rightarrow> string \<Rightarrow> string \<Rightarrow> int \<Rightarrow> ('w, quiz_ticket) quiz_op" where
  "claim_funding env quizId accountId amt =
     rs_bind (service_call (qz_wallets_listByAccountId env accountId)) (\<lambda>recipientWallets.
     case find (\<lambda>w. wallet_currency w = Btc) recipientWallets of
       None \<Rightarrow> rs_err NoBtcWalletExistsForAccountError
     | Some recipientBtcWallet \<Rightarrow>
         rs_bind (world_call (qz_funderWalletId env)) (\<lambda>funderWalletId.
         rs_bind (service_call (qz_wallets_findById env funderWalletId)) (\<lambda>funderWallet.
         rs_bind (service_call (qz_accounts_findById env (wallet_accountId funderWallet))) (\<lambda>funderAccount.
         rs_bind (service_call (qz_balance env funderWalletId)) (\<lambda>funderBalance.
         rs_bind (from_check (FunderBalanceChecker_check funderBalance amt)) (\<lambda>_.
         rs_ok \<lparr> tk_accountId = accountId, tk_quizId = quizId, tk_amount = amt,
                 tk_recipientWalletId = wallet_id recipientBtcWallet, tk_funderWalletId = funderWalletId,
                 tk_funderAccount = funderAccount \<rparr>))))))"

definition claim_checks ::
  "'w quiz_env \<Rightarrow> int \<Rightarrow> int \<Rightarrow> string \<Rightarrow> string \<Rightarrow> string option \<Rightarrow> ('w, quiz_ticket) quiz_op" where
  "claim_checks env t_list t_check quizId accountIdRaw ip =
     rs_bind (claim_identity env quizId accountIdRaw ip) (\<lambda>accountId.
     rs_bind (claim_open env t_list t_check quizId accountId) (\<lambda>amt.
     claim_funding env quizId accountId amt))"

definition pay_reward :: "'w quiz_env \<Rightarrow> quiz_ticket \<Rightarrow> ('w, unit) quiz_op" where
  "pay_reward env tk s =
     service_call (qz_pay env (tk_funderWalletId tk) (tk_recipientWalletId tk) (tk_amount tk) (tk_quizId tk)
         (tk_funderAccount tk))
       (s\<lparr> qs_payments := qs_payments s @
          [\<lparr> qp_accountId = tk_accountId tk, qp_recipientWalletId = tk_recipientWalletId tk,
             qp_amount = tk_amount tk, qp_memo = tk_quizId tk \<rparr>] \<rparr>)"

definition claim_reward :: "'w quiz_env \<Rightarrow> int \<Rightarrow> int \<Rightarrow> quiz_ticket \<Rightarrow> ('w, quiz_info list) quiz_op" where
  "claim_reward env t_add t_after tk =
     rs_bind (QuizRepository_add env t_add (tk_quizId tk) (tk_accountId tk)) (\<lambda>_.
     rs_bind (pay_reward env tk) (\<lambda>_.
     listQuizzesByAccountId env t_after (tk_accountId tk)))"

definition claimQuiz ::
  "'w quiz_env \<Rightarrow> int \<times> int \<times> int \<times> int \<Rightarrow> string \<Rightarrow> string \<Rightarrow> string option \<Rightarrow> ('w, quiz_info list) quiz_op" where
  "claimQuiz env = (\<lambda>(t_list, t_check, t_add, t_after) quizId accountIdRaw ip.
     rs_bind (claim_checks env t_list t_check quizId accountIdRaw ip) (\<lambda>tk.
     claim_reward env t_add t_after tk))"

subsection \<open>What the parts do to answers and payments\<close>

definition leaves_log :: "('w, 'a) quiz_op \<Rightarrow> bool" where
  "leaves_log m \<longleftrightarrow> (\<forall>s. qs_quizzes (snd (m s)) = qs_quizzes s \<and> qs_payments (snd (m s)) = qs_payments s)"

lemma leaves_logD:
  "leaves_log m \<Longrightarrow> m s = (r, s') \<Longrightarrow> qs_quizzes s' = qs_quizzes s \<and> qs_payments s' = qs_payments s"
  by (metis leaves_log_def snd_conv)

lemma leaves_log_bind:
  assumes "leaves_log m" "\<And>a. leaves_log (f a)"
  shows "leaves_log (rs_bind m f)"
  unfolding leaves_log_def
proof
  fix s
  obtain r s' where run: "m s = (r, s')"
    by (cases "m s")
  show "qs_quizzes (snd (rs_bind m f s)) = qs_quizzes s \<and> qs_payments (snd (rs_bind m f s)) = qs_payments s"
  proof (cases r)
    case (Inl e)
    then show ?thesis
      using run leaves_logD [OF assms(1) run] by simp
  next
    case (Inr a)
    then show ?thesis
      using run leaves_logD [OF assms(1) run] assms(2) [of a] by (simp add: leaves_log_def)
  qed
qed

lemma leaves_log_calls:
  "leaves_log (service_call f)" "leaves_log (world_call g)" "leaves_log (from_check r)" "leaves_log (rs_ok a)"
  "leaves_log (rs_err e)"
  by (auto simp: leaves_log_def service_call_def world_call_def from_check_def rs_ok_def rs_err_def
      split: prod.splits sum.splits)

lemma leaves_log_fetch: "leaves_log (QuizRepository_fetchAll env accountId)"
  unfolding QuizRepository_fetchAll_def
  by (intro leaves_log_bind leaves_log_calls) (auto simp: leaves_log_def)

lemma leaves_log_list: "leaves_log (listQuizzesByAccountId env now accountId)"
  unfolding listQuizzesByAccountId_def
  by (intro leaves_log_bind leaves_log_fetch) (auto simp: leaves_log_calls split: option.split)

lemma leaves_log_limits:
  "leaves_log (checkAddQuizAttemptPerIpLimits env ip)" "leaves_log (checkAddQuizAttemptPerPhoneLimits env phone)"
  by (auto simp: checkAddQuizAttemptPerIpLimits_def checkAddQuizAttemptPerPhoneLimits_def consumeLimiter_def
      leaves_log_calls intro!: leaves_log_bind split: option.split)

lemma leaves_log_claim:
  "leaves_log (claim_identity env quizId accountIdRaw ip)" "leaves_log (claim_open env t_list t_check quizId accountId)"
  "leaves_log (claim_funding env quizId accountId amt)"
  by (auto simp: claim_identity_def claim_open_def claim_funding_def leaves_log_calls leaves_log_limits leaves_log_list
      intro!: leaves_log_bind split: option.split sum.split)

lemma leaves_log_checks: "leaves_log (claim_checks env t_list t_check quizId accountIdRaw ip)"
  unfolding claim_checks_def by (intro leaves_log_bind leaves_log_claim)

subsection \<open>Claims side by side\<close>

text \<open>Whether an account has answered a quiz, and whether the section of a quiz is open to it.\<close>

definition answered :: "(string \<times> QuizCompleted) list \<Rightarrow> string \<Rightarrow> string \<Rightarrow> bool" where
  "answered qs a i \<longleftrightarrow> (\<exists>q. (a, q) \<in> set qs \<and> qc_quizId q = i)"

definition section_open :: "(string \<times> QuizCompleted) list \<Rightarrow> string \<Rightarrow> string \<Rightarrow> int \<Rightarrow> bool" where
  "section_open qs a i t \<longleftrightarrow>
     (case section_of i of
        Some (Suc k) \<Rightarrow>
          (\<exists>q. (a, q) \<in> set qs \<and> qc_quizId q = last_quiz k \<and> qc_createdAt q + milliSecondsBetweenSections \<le> t)
      | _ \<Rightarrow> True)"

lemma section_open_mono:
  "section_open qs a i t \<Longrightarrow> t \<le> t' \<Longrightarrow> set qs \<subseteq> set qs' \<Longrightarrow> section_open qs' a i t'"
  by (force simp: section_open_def split: option.splits nat.splits)

lemma info_open:
  assumes "quizInformation t_list (reorderQuizzes (map snd (filter (\<lambda>(b, q). b = a) qs))) (i, amt) = Some info"
    and "t_check < t_list + milliSecondsBetweenSections" "case qi_notBefore info of None \<Rightarrow> True | Some t \<Rightarrow> t \<le> t_check"
  shows "qi_id info = i" "qi_amount info = amt" "answered qs a i \<or> section_open qs a i t_check"
proof -
  let ?own = "reorderQuizzes (map snd (filter (\<lambda>(b, q). b = a) qs))"
  have own: "q \<in> set ?own \<longleftrightarrow> (a, q) \<in> set qs" for q
    by (force simp: reorderQuizzes_def)
  show "qi_id info = i" "qi_amount info = amt"
    using assms(1) by (auto simp: quizInformation_def Let_def split: option.splits)
  show "answered qs a i \<or> section_open qs a i t_check"
  proof (cases "find (\<lambda>q. qc_quizId q = i) ?own")
    case (Some q)
    then show ?thesis
      using own find_SomeD [OF Some] by (auto simp: answered_def)
  next
    case None
    show ?thesis
    proof (cases "section_of i")
      case None
      then show ?thesis
        by (simp add: section_open_def)
    next
      case (Some k)
      show ?thesis
      proof (cases k)
        case 0
        then show ?thesis
          using Some by (simp add: section_open_def)
      next
        case (Suc k')
        have nb: "qi_notBefore info = Some ((case find (\<lambda>q. qc_quizId q = last_quiz k') ?own of
            None \<Rightarrow> t_list | Some q \<Rightarrow> qc_createdAt q) + milliSecondsBetweenSections)"
          using assms(1) None Some Suc by (auto simp: quizInformation_def Let_def)
        obtain q where q: "find (\<lambda>q. qc_quizId q = last_quiz k') ?own = Some q"
          using nb assms(2,3) by (cases "find (\<lambda>q. qc_quizId q = last_quiz k') ?own") auto
        then have "(a, q) \<in> set qs \<and> qc_quizId q = last_quiz k' \<and> qc_createdAt q + milliSecondsBetweenSections \<le> t_check"
          using nb assms(3) own find_SomeD [OF q] by simp
        then show ?thesis
          using Some Suc by (auto simp: section_open_def)
      qed
    qed
  qed
qed

lemma find_info:
  "(\<forall>x \<in> set xs. quizInformation t qs x \<noteq> None) \<Longrightarrow>
   find (\<lambda>q. qi_id q = i) (map (\<lambda>x. the (quizInformation t qs x)) xs) = Some info \<Longrightarrow>
   map_of xs i = Some (qi_amount info)"
proof (induction xs)
  case (Cons x xs)
  obtain q where q: "quizInformation t qs x = Some q"
    using Cons.prems(1) by auto
  then have "qi_id q = fst x" "qi_amount q = snd x"
    by (auto simp: quizInformation_def Let_def split: option.splits prod.splits)
  then show ?case
    using Cons q by (auto split: if_splits)
qed simp

lemma claim_open_Inr:
  assumes "claim_open env t_list t_check quizId a s = (Inr amt, s')"
    and "t_check < t_list + milliSecondsBetweenSections"
  shows "map_of QuizzesValue quizId = Some amt" "answered (qs_quizzes s) a quizId \<or> section_open (qs_quizzes s) a quizId t_check"
proof -
  obtain infos s1 where list: "listQuizzesByAccountId env t_list a s = (Inr infos, s1)"
    and rest: "(case find (\<lambda>q. qi_id q = quizId) infos of
       None \<Rightarrow> rs_err InvalidQuizQuestionIdError
     | Some quiz \<Rightarrow>
         (case qi_notBefore quiz of
            Some t \<Rightarrow> if t > t_check then rs_err QuizClaimedTooEarlyError else rs_ok (qi_amount quiz)
          | None \<Rightarrow> rs_ok (qi_amount quiz))) s1 = (Inr amt, s')"
    using assms(1) by (auto simp: claim_open_def rs_bind_eq_Inr_iff)
  obtain info where info: "find (\<lambda>q. qi_id q = quizId) infos = Some info" "qi_amount info = amt"
    "case qi_notBefore info of None \<Rightarrow> True | Some t \<Rightarrow> t \<le> t_check"
    using rest by (auto simp: rs_err_def rs_ok_def split: option.splits if_splits)
  let ?own = "map snd (filter (\<lambda>(b, q). b = a) (qs_quizzes s))"
  obtain sec where fill: "fillQuizInformation t_list ?own = Some (sec, infos)"
    using list by (auto simp: listQuizzesByAccountId_def QuizRepository_fetchAll_def rs_bind_eq_Inr_iff world_call_def
        rs_err_def rs_ok_def split: prod.splits if_splits option.splits)
  have "info \<in> set infos" "qi_id info = quizId"
    using find_SomeD [OF info(1)] by auto
  then obtain i n where v: "(i, n) \<in> set QuizzesValue" "quizInformation t_list (reorderQuizzes ?own) (i, n) = Some info"
    using fill by (force simp: fillQuizInformation_def Let_def image_iff split: if_splits)
  from info_open(1,3) [OF v(2) assms(2) info(3)]
  show "answered (qs_quizzes s) a quizId \<or> section_open (qs_quizzes s) a quizId t_check"
    using \<open>qi_id info = quizId\<close> by auto
  have "infos = map (\<lambda>x. the (quizInformation t_list (reorderQuizzes ?own) x)) QuizzesValue"
    using fill by (simp add: fillQuizInformation_total)
  then show "map_of QuizzesValue quizId = Some amt"
    using find_info [of QuizzesValue t_list "reorderQuizzes ?own" quizId info] info(1,2) quizInformation_total by simp
qed

lemma claim_checks_Inr:
  assumes "claim_checks env t_list t_check quizId accountIdRaw ip s = (Inr tk, s')"
    and "t_check < t_list + milliSecondsBetweenSections"
  shows "map_of QuizzesValue (tk_quizId tk) = Some (tk_amount tk)"
    "answered (qs_quizzes s) (tk_accountId tk) (tk_quizId tk) \<or>
     section_open (qs_quizzes s) (tk_accountId tk) (tk_quizId tk) t_check"
proof -
  obtain a s1 amt s2 where a: "claim_identity env quizId accountIdRaw ip s = (Inr a, s1)"
    and opn: "claim_open env t_list t_check quizId a s1 = (Inr amt, s2)"
    and fund: "claim_funding env quizId a amt s2 = (Inr tk, s')"
    using assms(1) by (auto simp: claim_checks_def rs_bind_eq_Inr_iff)
  have "tk_quizId tk = quizId" "tk_amount tk = amt" "tk_accountId tk = a"
    using fund by (auto simp: claim_funding_def rs_bind_eq_Inr_iff rs_err_def rs_ok_def split: option.splits)
  then show "map_of QuizzesValue (tk_quizId tk) = Some (tk_amount tk)"
    "answered (qs_quizzes s) (tk_accountId tk) (tk_quizId tk) \<or>
     section_open (qs_quizzes s) (tk_accountId tk) (tk_quizId tk) t_check"
    using claim_open_Inr [OF opn assms(2)] leaves_logD [OF leaves_log_claim(1) a] by auto
qed

definition payment_of :: "quiz_ticket \<Rightarrow> quiz_payment" where
  "payment_of tk = \<lparr> qp_accountId = tk_accountId tk, qp_recipientWalletId = tk_recipientWalletId tk,
     qp_amount = tk_amount tk, qp_memo = tk_quizId tk \<rparr>"

lemma claim_reward_cases:
  assumes "claim_reward env t t' tk s = (r, s')"
  obtains (refused) "answered (qs_quizzes s) (tk_accountId tk) (tk_quizId tk) \<or> fst (qz_db_fails env (qs_world s))"
        "qs_quizzes s' = qs_quizzes s" "qs_payments s' = qs_payments s"
    | (rewarded) "\<not> answered (qs_quizzes s) (tk_accountId tk) (tk_quizId tk)"
        "qs_quizzes s' = qs_quizzes s @ [(tk_accountId tk, \<lparr> qc_quizId = tk_quizId tk, qc_createdAt = t \<rparr>)]"
        "qs_payments s' = qs_payments s @ [payment_of tk]"
proof -
  obtain x s1 where add: "QuizRepository_add env t (tk_quizId tk) (tk_accountId tk) s = (x, s1)"
    by (cases "QuizRepository_add env t (tk_quizId tk) (tk_accountId tk) s")
  show thesis
  proof (cases x)
    case (Inl e)
    then have "s' = s1"
      using assms add by (simp add: claim_reward_def)
    moreover have "qs_quizzes s1 = qs_quizzes s" "qs_payments s1 = qs_payments s"
      "answered (qs_quizzes s) (tk_accountId tk) (tk_quizId tk) \<or> fst (qz_db_fails env (qs_world s))"
      using add Inl
      by (auto simp: QuizRepository_add_def rs_bind_def world_call_def answered_def split: prod.splits if_splits)
    ultimately show thesis
      using refused by simp
  next
    case (Inr u)
    have s1: "\<not> answered (qs_quizzes s) (tk_accountId tk) (tk_quizId tk)" "qs_payments s1 = qs_payments s"
      "qs_quizzes s1 = qs_quizzes s @ [(tk_accountId tk, \<lparr> qc_quizId = tk_quizId tk, qc_createdAt = t \<rparr>)]"
      using add Inr
      by (auto simp: QuizRepository_add_def rs_bind_def world_call_def answered_def split: prod.splits if_splits)
    obtain y s2 where pay: "pay_reward env tk s1 = (y, s2)"
      by (cases "pay_reward env tk s1")
    have s2: "qs_quizzes s2 = qs_quizzes s1" "qs_payments s2 = qs_payments s1 @ [payment_of tk]"
      using pay by (auto simp: pay_reward_def service_call_def payment_of_def split: prod.splits sum.splits)
    have "qs_quizzes s' = qs_quizzes s2 \<and> qs_payments s' = qs_payments s2"
    proof (cases y)
      case (Inl e)
      then show ?thesis
        using assms add pay Inr by (simp add: claim_reward_def)
    next
      case Inr': (Inr v)
      then have "listQuizzesByAccountId env t' (tk_accountId tk) s2 = (r, s')"
        using assms add pay Inr by (simp add: claim_reward_def)
      then show ?thesis
        by (rule leaves_logD [OF leaves_log_list])
    qed
    then show thesis
      using rewarded s1 s2 by simp
  qed
qed

text \<open>
  Requests of any users whose steps interleave: the checks of a request, which read the answers
  once, are followed at any later time by recording the answer and paying; between the steps
  anything else of the world may change. Listing and checking are less than twelve hours apart.
\<close>

inductive quiz_reachable :: "'w quiz_env \<Rightarrow> 'w quiz_state \<Rightarrow> (int \<times> quiz_ticket) list \<Rightarrow> int \<Rightarrow> bool" for env where
  initial: "quiz_reachable env \<lparr> qs_quizzes = [], qs_payments = [], qs_world = w \<rparr> [] now"
| checked: "quiz_reachable env s tks now \<Longrightarrow> now \<le> t_list \<Longrightarrow> t_list \<le> t_check \<Longrightarrow>
    t_check < t_list + milliSecondsBetweenSections \<Longrightarrow>
    claim_checks env t_list t_check quizId accountIdRaw ip s = (Inr tk, s') \<Longrightarrow>
    quiz_reachable env s' ((t_check, tk) # tks) t_check"
| refused: "quiz_reachable env s tks now \<Longrightarrow> now \<le> t_list \<Longrightarrow> t_list \<le> t_check \<Longrightarrow>
    claim_checks env t_list t_check quizId accountIdRaw ip s = (Inl e, s') \<Longrightarrow>
    quiz_reachable env s' tks t_check"
| rewarded: "quiz_reachable env s tks now \<Longrightarrow> c \<in> set tks \<Longrightarrow> now \<le> t_add \<Longrightarrow> t_add \<le> t_after \<Longrightarrow>
    claim_reward env t_add t_after (snd c) s = (r, s') \<Longrightarrow>
    quiz_reachable env s' (remove1 c tks) t_after"
| other: "quiz_reachable env s tks now \<Longrightarrow> now \<le> now' \<Longrightarrow> quiz_reachable env (s\<lparr> qs_world := w \<rparr>) tks now'"

definition answer_keys :: "(string \<times> QuizCompleted) list \<Rightarrow> (string \<times> string) list" where
  "answer_keys qs = map (\<lambda>(a, q). (a, qc_quizId q)) qs"

definition payment_keys :: "quiz_payment list \<Rightarrow> (string \<times> string) list" where
  "payment_keys ps = map (\<lambda>p. (qp_accountId p, qp_memo p)) ps"

definition quiz_inv :: "'w quiz_state \<Rightarrow> (int \<times> quiz_ticket) list \<Rightarrow> int \<Rightarrow> bool" where
  "quiz_inv s tks now \<longleftrightarrow>
     distinct (payment_keys (qs_payments s)) \<and>
     set (payment_keys (qs_payments s)) \<subseteq> set (answer_keys (qs_quizzes s)) \<and>
     (\<forall>p \<in> set (qs_payments s). map_of QuizzesValue (qp_memo p) = Some (qp_amount p)) \<and>
     (\<forall>(a, q) \<in> set (qs_quizzes s). section_open (qs_quizzes s) a (qc_quizId q) (qc_createdAt q)) \<and>
     (\<forall>(t, tk) \<in> set tks. t \<le> now \<and> map_of QuizzesValue (tk_quizId tk) = Some (tk_amount tk) \<and>
        (answered (qs_quizzes s) (tk_accountId tk) (tk_quizId tk) \<or>
         section_open (qs_quizzes s) (tk_accountId tk) (tk_quizId tk) t))"

lemma quiz_invD:
  assumes "quiz_inv s tks now"
  shows "distinct (payment_keys (qs_payments s))" "set (payment_keys (qs_payments s)) \<subseteq> set (answer_keys (qs_quizzes s))"
    "p \<in> set (qs_payments s) \<Longrightarrow> map_of QuizzesValue (qp_memo p) = Some (qp_amount p)"
    "(a, q) \<in> set (qs_quizzes s) \<Longrightarrow> section_open (qs_quizzes s) a (qc_quizId q) (qc_createdAt q)"
    "(t, tk) \<in> set tks \<Longrightarrow> t \<le> now \<and> map_of QuizzesValue (tk_quizId tk) = Some (tk_amount tk) \<and>
        (answered (qs_quizzes s) (tk_accountId tk) (tk_quizId tk) \<or>
         section_open (qs_quizzes s) (tk_accountId tk) (tk_quizId tk) t)"
  using assms by (auto simp: quiz_inv_def)

lemma quiz_inv_later:
  "quiz_inv s tks now \<Longrightarrow> now \<le> now' \<Longrightarrow> qs_quizzes s' = qs_quizzes s \<Longrightarrow> qs_payments s' = qs_payments s \<Longrightarrow>
   set tks' \<subseteq> set tks \<Longrightarrow> quiz_inv s' tks' now'"
  by (fastforce simp: quiz_inv_def)

lemma answered_keys: "answered qs a i \<longleftrightarrow> (a, i) \<in> set (answer_keys qs)"
  by (force simp: answered_def answer_keys_def)

lemma quiz_inv_rewarded:
  assumes inv: "quiz_inv s tks now" and c: "(t, tk) \<in> set tks" and time: "now \<le> t_add" "t_add \<le> now'"
    and fresh: "\<not> answered (qs_quizzes s) (tk_accountId tk) (tk_quizId tk)"
    and qs: "qs_quizzes s' = qs_quizzes s @ [(tk_accountId tk, \<lparr> qc_quizId = tk_quizId tk, qc_createdAt = t_add \<rparr>)]"
    and ps: "qs_payments s' = qs_payments s @ [payment_of tk]" and tks': "set tks' \<subseteq> set tks"
  shows "quiz_inv s' tks' now'"
proof -
  note I = quiz_invD [OF inv]
  have sub: "set (qs_quizzes s) \<subseteq> set (qs_quizzes s')"
    using qs by auto
  have open_later: "section_open (qs_quizzes s) a i x \<Longrightarrow> x \<le> y \<Longrightarrow> section_open (qs_quizzes s') a i y" for a i x y
    using section_open_mono sub by blast
  have "t \<le> t_add" "section_open (qs_quizzes s) (tk_accountId tk) (tk_quizId tk) t"
    using I(5) [OF c] fresh time by auto
  then have new: "section_open (qs_quizzes s') (tk_accountId tk) (tk_quizId tk) t_add"
    using open_later by blast
  have "payment_keys (qs_payments s') = payment_keys (qs_payments s) @ [(tk_accountId tk, tk_quizId tk)]"
    by (simp add: ps payment_keys_def payment_of_def)
  moreover have "(tk_accountId tk, tk_quizId tk) \<notin> set (payment_keys (qs_payments s))"
    using I(2) fresh by (auto simp: answered_keys)
  moreover have "answer_keys (qs_quizzes s') = answer_keys (qs_quizzes s) @ [(tk_accountId tk, tk_quizId tk)]"
    by (simp add: qs answer_keys_def)
  moreover have "\<forall>p \<in> set (qs_payments s'). map_of QuizzesValue (qp_memo p) = Some (qp_amount p)"
    using I(3) I(5) [OF c] by (auto simp: ps payment_of_def)
  moreover have "\<forall>(a, q) \<in> set (qs_quizzes s'). section_open (qs_quizzes s') a (qc_quizId q) (qc_createdAt q)"
  proof safe
    fix a q
    assume "(a, q) \<in> set (qs_quizzes s')"
    then consider "(a, q) \<in> set (qs_quizzes s)" | "a = tk_accountId tk" "q = \<lparr> qc_quizId = tk_quizId tk, qc_createdAt = t_add \<rparr>"
      using qs by auto
    then show "section_open (qs_quizzes s') a (qc_quizId q) (qc_createdAt q)"
      by cases (use open_later [OF I(4) order_refl] new in auto)
  qed
  moreover have "\<forall>(x, k) \<in> set tks'. x \<le> now' \<and> map_of QuizzesValue (tk_quizId k) = Some (tk_amount k) \<and>
      (answered (qs_quizzes s') (tk_accountId k) (tk_quizId k) \<or> section_open (qs_quizzes s') (tk_accountId k) (tk_quizId k) x)"
  proof clarify
    fix x k
    assume "(x, k) \<in> set tks'"
    then have k: "(x, k) \<in> set tks"
      using tks' by blast
    have "answered (qs_quizzes s') (tk_accountId k) (tk_quizId k)" if "answered (qs_quizzes s) (tk_accountId k) (tk_quizId k)"
      using that sub by (auto simp: answered_def)
    then show "x \<le> now' \<and> map_of QuizzesValue (tk_quizId k) = Some (tk_amount k) \<and>
        (answered (qs_quizzes s') (tk_accountId k) (tk_quizId k) \<or> section_open (qs_quizzes s') (tk_accountId k) (tk_quizId k) x)"
      using I(5) [OF k] open_later [OF _ order_refl, of "tk_accountId k" "tk_quizId k" x] time by auto
  qed
  ultimately show ?thesis
    unfolding quiz_inv_def using I(1,2) by auto
qed

lemma quiz_reachable_inv:
  "quiz_reachable env s tks now \<Longrightarrow> quiz_inv s tks now"
proof (induction rule: quiz_reachable.induct)
  case (initial w now)
  then show ?case
    by (simp add: quiz_inv_def payment_keys_def)
next
  case (checked s tks now t_list t_check quizId accountIdRaw ip tk s')
  have log: "qs_quizzes s' = qs_quizzes s" "qs_payments s' = qs_payments s"
    using leaves_logD [OF leaves_log_checks checked.hyps(5)] by simp_all
  have "quiz_inv s' tks t_check"
    using checked.hyps(2,3) log by (intro quiz_inv_later [OF checked.IH]) simp_all
  then show ?case
    using claim_checks_Inr [OF checked.hyps(5,4)] unfolding quiz_inv_def log by simp
next
  case (refused s tks now t_list t_check quizId accountIdRaw ip e s')
  then have "now \<le> t_check"
    by simp
  then show ?case
    using leaves_logD [OF leaves_log_checks refused.hyps(4)] by (intro quiz_inv_later [OF refused.IH]) simp_all
next
  case (rewarded s tks now c t_add t_after r s')
  have sub: "set (remove1 c tks) \<subseteq> set tks"
    by (rule set_remove1_subset)
  from rewarded.hyps(5) show ?case
  proof (cases rule: claim_reward_cases)
    case refused
    then show ?thesis
      using rewarded.hyps(3,4) sub by (intro quiz_inv_later [OF rewarded.IH]) simp_all
  next
    case rewarded': rewarded
    have "(fst c, snd c) \<in> set tks"
      using rewarded.hyps(2) by simp
    from quiz_inv_rewarded [OF rewarded.IH this rewarded.hyps(3,4) rewarded' sub] show ?thesis .
  qed
next
  case (other s tks now now' w)
  then show ?case
    by (intro quiz_inv_later [OF other.IH]) simp_all
qed

text \<open>The value of the quizzes bounds what one account is paid.\<close>

lemma map_of_nonneg:
  fixes xs :: "('k \<times> int) list"
  assumes "\<forall>x \<in> set xs. 0 \<le> snd x" "i \<in> fst ` set xs"
  shows "0 \<le> the (map_of xs i)"
proof -
  obtain v where "map_of xs i = Some v"
    using assms(2) by (metis map_of_eq_None_iff not_None_eq)
  then show ?thesis
    using assms(1) map_of_SomeD [of xs i v] by fastforce
qed

lemma sum_map_of_le:
  "(\<forall>x \<in> set xs. 0 \<le> snd x) \<Longrightarrow>
   (\<Sum>i \<in> fst ` set xs. the (map_of xs i)) \<le> (sum_list (map snd xs) :: int)"
proof (induction xs)
  case (Cons x xs)
  obtain k v where x: "x = (k, v)"
    by (cases x)
  let ?K = "fst ` set xs"
  have "fst ` set (x # xs) = insert k (?K - {k})"
    by (auto simp: x)
  then have "(\<Sum>i \<in> fst ` set (x # xs). the (map_of (x # xs) i)) = v + (\<Sum>i \<in> ?K - {k}. the (map_of (x # xs) i))"
    using sum.insert [of "?K - {k}" k "\<lambda>i. the (map_of (x # xs) i)"] by (simp add: x del: insert_Diff_single)
  moreover have "(\<Sum>i \<in> ?K - {k}. the (map_of (x # xs) i)) = (\<Sum>i \<in> ?K - {k}. the (map_of xs i))"
    by (rule sum.cong) (simp_all add: x)
  moreover have "(\<Sum>i \<in> ?K - {k}. the (map_of xs i)) \<le> (\<Sum>i \<in> ?K. the (map_of xs i))"
    using map_of_nonneg [of xs] Cons.prems by (intro sum_mono2) simp_all
  ultimately show ?case
    using Cons by (simp add: x)
qed simp

lemma distinct_amounts:
  assumes "distinct (map qp_memo ps)" "\<forall>p \<in> set ps. map_of QuizzesValue (qp_memo p) = Some (qp_amount p)"
  shows "sum_list (map qp_amount ps) \<le> 351"
proof -
  have pos: "\<forall>x \<in> set QuizzesValue. 0 \<le> snd x"
    using quiz_tables(2) by (force simp: list_all_iff)
  have "sum_list (map qp_amount ps) = sum_list (map (\<lambda>p. the (map_of QuizzesValue (qp_memo p))) ps)"
    using assms(2) by (intro arg_cong [of _ _ sum_list]) auto
  also have "\<dots> = (\<Sum>i \<in> set (map qp_memo ps). the (map_of QuizzesValue i))"
    using sum.distinct_set_conv_list [OF assms(1), of "\<lambda>i. the (map_of QuizzesValue i)"] by (simp add: comp_def)
  also have "\<dots> \<le> (\<Sum>i \<in> fst ` set QuizzesValue. the (map_of QuizzesValue i))"
  proof (rule sum_mono2)
    show "set (map qp_memo ps) \<subseteq> fst ` set QuizzesValue"
      using assms(2) by (force dest: map_of_SomeD)
    show "0 \<le> the (map_of QuizzesValue i)" if "i \<in> fst ` set QuizzesValue - set (map qp_memo ps)" for i
      using map_of_nonneg [OF pos] that by blast
  qed simp
  also have "\<dots> \<le> 351"
    using sum_map_of_le [OF pos] quiz_tables(3) by simp
  finally show ?thesis .
qed

text \<open>C33: Rewards for quizzes, however the requests of users interleave and whatever the services around
  answer: nobody is paid twice for a quiz, every payment has the value of its quiz, so that no
  account is ever paid more than 351 satoshis, and an account has answered a quiz of a later section
  only twelve hours or more after the last quiz of the section before.\<close>

theorem quiz_rewards:
  assumes "quiz_reachable env s tks now"
  shows "distinct (map (\<lambda>p. (qp_accountId p, qp_memo p)) (qs_payments s)) \<and>
    (\<forall>p \<in> set (qs_payments s). map_of QuizzesValue (qp_memo p) = Some (qp_amount p)) \<and>
    (\<forall>a. sum_list (map qp_amount (filter (\<lambda>p. qp_accountId p = a) (qs_payments s))) \<le> 351) \<and>
    (\<forall>(a, q) \<in> set (qs_quizzes s). \<forall>k. section_of (qc_quizId q) = Some (Suc k) \<longrightarrow>
       (\<exists>q'. (a, q') \<in> set (qs_quizzes s) \<and> qc_quizId q' = last_quiz k \<and>
          qc_createdAt q' + milliSecondsBetweenSections \<le> qc_createdAt q))"
proof -
  note I = quiz_invD [OF quiz_reachable_inv [OF assms]]
  have "sum_list (map qp_amount (filter (\<lambda>p. qp_accountId p = a) (qs_payments s))) \<le> 351" for a
  proof (rule distinct_amounts)
    have "inj_on qp_memo (set (filter (\<lambda>p. qp_accountId p = a) (qs_payments s)))" "distinct (qs_payments s)"
      using I(1) by (auto simp: payment_keys_def distinct_map inj_on_def)
    then show "distinct (map qp_memo (filter (\<lambda>p. qp_accountId p = a) (qs_payments s)))"
      by (simp add: distinct_map)
  qed (use I(3) in auto)
  moreover have "\<exists>q'. (a, q') \<in> set (qs_quizzes s) \<and> qc_quizId q' = last_quiz k \<and>
      qc_createdAt q' + milliSecondsBetweenSections \<le> qc_createdAt q"
    if "(a, q) \<in> set (qs_quizzes s)" "section_of (qc_quizId q) = Some (Suc k)" for a q k
    using I(4) [OF that(1)] that(2) by (simp add: section_open_def)
  ultimately show ?thesis
    using I(1,3) by (auto simp: payment_keys_def)
qed

text \<open>Where nothing stands in the way, the first quizzes are open.\<close>

lemma info_found:
  "map_of xs i = Some amt \<Longrightarrow> (\<forall>x \<in> set xs. quizInformation t qs x \<noteq> None) \<Longrightarrow>
   find (\<lambda>q. qi_id q = i) (map (\<lambda>x. the (quizInformation t qs x)) xs) = quizInformation t qs (i, amt)"
proof (induction xs)
  case (Cons x xs)
  obtain q where q: "quizInformation t qs x = Some q"
    using Cons.prems(2) by auto
  then have "qi_id q = fst x"
    by (auto simp: quizInformation_def Let_def split: option.splits prod.splits)
  then show ?case
    using Cons q by (cases x) (auto split: if_splits)
qed simp

lemma claim_first_section:
  assumes "map_of QuizzesValue quizId = Some amt" "section_of quizId = Some 0" "qz_db_fails env (qs_world s) = (False, w)"
  shows "claim_open env t t' quizId a s = (Inr amt, s\<lparr> qs_world := w \<rparr>)"
proof -
  let ?own = "reorderQuizzes (map snd (filter (\<lambda>(b, q). b = a) (qs_quizzes s)))"
  have all: "\<forall>x \<in> set QuizzesValue. quizInformation t ?own x \<noteq> None"
    using quizInformation_total by blast
  have list: "listQuizzesByAccountId env t a s = (Inr (map (\<lambda>x. the (quizInformation t ?own x)) QuizzesValue), s\<lparr> qs_world := w \<rparr>)"
    using assms(3) fillQuizInformation_total
    by (simp add: listQuizzesByAccountId_def QuizRepository_fetchAll_def rs_bind_def world_call_def rs_ok_def)
  obtain info where info: "quizInformation t ?own (quizId, amt) = Some info" "qi_notBefore info = None" "qi_amount info = amt"
    using assms(2) by (simp add: quizInformation_def Let_def)
  have "find (\<lambda>q. qi_id q = quizId) (map (\<lambda>x. the (quizInformation t ?own x)) QuizzesValue) = Some info"
    using info_found [OF assms(1) all] info(1) by simp
  then show ?thesis
    unfolding claim_open_def using list info by (simp add: rs_bind_def rs_ok_def)
qed

definition example_quizzes :: "unit quiz_env" where
  "example_quizzes =
     \<lparr> qz_consume = \<lambda>_ _ w. (True, w), qz_phoneSettings = \<lparr> denyCountries = [], allowCountries = [] \<rparr>,
       qz_ipSettings = \<lparr> denyCountries = [], allowCountries = [], denyASNs = [], allowASNs = [], checkProxy = True \<rparr>,
       qz_accounts_findById = \<lambda>i w. (Inr \<lparr> qa_id = i, qa_kratosUserId = i \<rparr>, w),
       qz_users_findById = \<lambda>_ w. (Inr \<lparr> qu_phone = Some ''+50312345678'', qu_deletedPhones = None,
         qu_phoneMetadata = Some \<lparr> pm_carrierType = Some ''mobile'', pm_countryCode = ''SV'' \<rparr> \<rparr>, w),
       qz_ips_findLastByAccountId = \<lambda>_ w. (Inr (Some \<lparr> ip_isoCode = Some ''SV'', ip_asn = Some ''AS1'', ip_proxy = False \<rparr>), w),
       qz_wallets_listByAccountId = \<lambda>a w. (Inr [\<lparr> wallet_id = ''w'', wallet_currency = Btc, wallet_accountId = a \<rparr>], w),
       qz_funderWalletId = \<lambda>w. (''funder'', w),
       qz_wallets_findById = \<lambda>i w. (Inr \<lparr> wallet_id = i, wallet_currency = Btc, wallet_accountId = ''bank'' \<rparr>, w),
       qz_balance = \<lambda>_ w. (Inr (Fin 1000), w), qz_pay = \<lambda>_ _ _ _ _ w. (Inr (), w), qz_db_fails = \<lambda>w. (False, w) \<rparr>"

definition example_claimant :: string where
  "example_claimant = ''00000000-0000-1000-8000-000000000000''"

lemma example_claim:
  "claim_checks example_quizzes 0 0 ''sat'' example_claimant (Some ''1.2.3.4'')
     \<lparr> qs_quizzes = [], qs_payments = [], qs_world = () \<rparr> =
   (Inr \<lparr> tk_accountId = example_claimant, tk_quizId = ''sat'', tk_amount = 1, tk_recipientWalletId = ''w'',
      tk_funderWalletId = ''funder'', tk_funderAccount = \<lparr> qa_id = ''bank'', qa_kratosUserId = ''bank'' \<rparr> \<rparr>,
    \<lparr> qs_quizzes = [], qs_payments = [], qs_world = () \<rparr>)"
proof -
  have uuid: "matches UuidRegex example_claimant"
    by code_simp
  have sat: "map_of QuizzesValue ''sat'' = Some 1" "section_of ''sat'' = Some 0"
    by (simp_all add: QuizzesValue_def section_of_def QuizzesSections_def)
  have env: "qz_db_fails example_quizzes () = (False, ())"
    by (simp add: example_quizzes_def)
  have "claim_open example_quizzes 0 0 ''sat'' example_claimant \<lparr> qs_quizzes = [], qs_payments = [], qs_world = () \<rparr> =
      (Inr 1, \<lparr> qs_quizzes = [], qs_payments = [], qs_world = () \<rparr>)"
    using claim_first_section [OF sat, of example_quizzes "\<lparr> qs_quizzes = [], qs_payments = [], qs_world = () \<rparr>" "()"] env
    by simp
  moreover have "claim_identity example_quizzes ''sat'' example_claimant (Some ''1.2.3.4'')
      \<lparr> qs_quizzes = [], qs_payments = [], qs_world = () \<rparr> =
      (Inr example_claimant, \<lparr> qs_quizzes = [], qs_payments = [], qs_world = () \<rparr>)"
    using sat(1) uuid
    by (simp add: claim_identity_def checkAddQuizAttemptPerIpLimits_def consumeLimiter_def rs_bind_def world_call_def
        example_quizzes_def rs_ok_def checkedToAccountId_def service_call_def phone_of_def checkAddQuizAttemptPerPhoneLimits_def
        PhoneMetadataAuthorizer_def IPMetadataAuthorizer_def allowed_by_def)
  moreover have "claim_funding example_quizzes ''sat'' example_claimant 1
      \<lparr> qs_quizzes = [], qs_payments = [], qs_world = () \<rparr> =
      (Inr \<lparr> tk_accountId = example_claimant, tk_quizId = ''sat'', tk_amount = 1, tk_recipientWalletId = ''w'',
        tk_funderWalletId = ''funder'', tk_funderAccount = \<lparr> qa_id = ''bank'', qa_kratosUserId = ''bank'' \<rparr> \<rparr>,
       \<lparr> qs_quizzes = [], qs_payments = [], qs_world = () \<rparr>)"
    by (simp add: claim_funding_def rs_bind_def service_call_def world_call_def example_quizzes_def from_check_def
        FunderBalanceChecker_check_def js_lt_def rs_ok_def)
  ultimately show ?thesis
    by (simp add: claim_checks_def)
qed

theorem quiz_rewards_witness:
  "\<exists>s. quiz_reachable example_quizzes s [] 0 \<and> map qp_memo (qs_payments s) = [''sat''] \<and>
     sum_list (map qp_amount (filter (\<lambda>p. qp_accountId p = example_claimant) (qs_payments s))) \<le> 351"
proof -
  let ?s = "\<lparr> qs_quizzes = [], qs_payments = [], qs_world = () \<rparr>"
  let ?tk = "\<lparr> tk_accountId = example_claimant, tk_quizId = ''sat'', tk_amount = 1, tk_recipientWalletId = ''w'',
      tk_funderWalletId = ''funder'', tk_funderAccount = \<lparr> qa_id = ''bank'', qa_kratosUserId = ''bank'' \<rparr> \<rparr>"
  have "quiz_reachable example_quizzes ?s [(0, ?tk)] 0"
    using quiz_reachable.checked [OF quiz_reachable.initial order_refl order_refl _ example_claim]
    by (simp add: milliSecondsBetweenSections_def)
  moreover obtain r s where run: "claim_reward example_quizzes 0 0 ?tk ?s = (r, s)"
    by (cases "claim_reward example_quizzes 0 0 ?tk ?s")
  ultimately have reach: "quiz_reachable example_quizzes s [] 0"
    using quiz_reachable.rewarded [of example_quizzes ?s "[(0, ?tk)]" 0 "(0, ?tk)" 0 0 r s] by simp
  have "qs_payments s = [payment_of ?tk]"
    using run by (cases rule: claim_reward_cases) (simp_all add: answered_def example_quizzes_def)
  then have "map qp_memo (qs_payments s) = [''sat'']"
    by (simp add: payment_of_def)
  then show ?thesis
    using reach quiz_rewards [OF reach] by auto
qed

text \<open>
  The limit on attempts per phone number consumes from the limit on attempts per address: its own
  configuration and its error are never used.
\<close>

lemma phone_limit_is_ip_limit:
  "p \<noteq> [] \<Longrightarrow> checkAddQuizAttemptPerPhoneLimits env (Some p) = checkAddQuizAttemptPerIpLimits env (Some p)"
  by (simp add: checkAddQuizAttemptPerPhoneLimits_def checkAddQuizAttemptPerIpLimits_def)

end
