(* ===== verification/Tx_History.thy ===== *)
theory Tx_History
  imports Ledger_Service Fiat_Display Quiz
begin

text \<open>
  The history of transactions a user sees: the translation of a ledger transaction into a wallet
  transaction (\<open>domain/wallets/tx-history.ts\<close>, \<open>settlement-amounts.ts\<close>), its pages
  (\<open>domain/primitives\<close>, \<open>services/ledger/paginated-ledger.ts\<close>) and the use cases on top
  (\<open>app/wallets/get-transaction*.ts\<close>, \<open>app/accounts/get-account-transactions-for-contact.ts\<close>). The
  collection of transactions, the object ids of the database and the account filter of the medici
  library are arguments.
\<close>

subsection \<open>settlement-amounts.ts\<close>

record settlement_part =
  sp_sats :: jsnum
  sp_cents :: jsnum
  sp_display :: jsnum

definition sp_neg :: "settlement_part \<Rightarrow> settlement_part" where
  "sp_neg p = \<lparr> sp_sats = js_neg (sp_sats p), sp_cents = js_neg (sp_cents p), sp_display = js_neg (sp_display p) \<rparr>"

definition sp_zero :: settlement_part where
  "sp_zero = \<lparr> sp_sats = Fin 0, sp_cents = Fin 0, sp_display = Fin 0 \<rparr>"

definition txn_amount :: "ledger_transaction \<Rightarrow> settlement_part" where
  "txn_amount txn =
     \<lparr> sp_sats = num_or (lt_satsAmount txn) (Fin 0), sp_cents = num_or (lt_centsAmount txn) (Fin 0),
       sp_display = num_or (lt_displayAmount txn) (Fin 0) \<rparr>"

definition txn_fee :: "ledger_transaction \<Rightarrow> settlement_part" where
  "txn_fee txn =
     \<lparr> sp_sats = num_or (lt_satsFee txn) (Fin 0), sp_cents = num_or (lt_centsFee txn) (Fin 0),
       sp_display = num_or (lt_displayFee txn) (Fin 0) \<rparr>"

definition combinations :: "settlement_part \<Rightarrow> settlement_part \<Rightarrow> (settlement_part \<times> settlement_part) list" where
  "combinations amt fee =
     [(amt, sp_zero), (sp_neg amt, sp_zero), (sp_zero, fee), (sp_zero, sp_neg fee),
      (amt, fee), (sp_neg amt, sp_neg fee), (amt, sp_neg fee), (sp_neg amt, fee)]"

definition sp_unit :: "wallet_currency \<Rightarrow> settlement_part \<Rightarrow> jsnum" where
  "sp_unit cur p = (if cur = Btc then sp_sats p else sp_cents p)"

definition settlementDisplayMinor :: "ledger_transaction \<Rightarrow> jsnum \<Rightarrow> jsnum" where
  "settlementDisplayMinor txn settlementAmount =
     (case find (\<lambda>(a, f). js_eq (js_add (sp_unit (lt_currency txn) a) (sp_unit (lt_currency txn) f)) settlementAmount)
             (combinations (txn_amount txn) (txn_fee txn)) of
        Some (a, f) \<Rightarrow> js_add (sp_display a) (sp_display f)
      | None \<Rightarrow> Fin 0)"

record settlement_amounts =
  sa_settlementAmount :: jsnum
  sa_settlementDisplayAmount :: string
  sa_settlementDisplayFee :: string

definition displayCurrency_of :: "ledger_transaction \<Rightarrow> string" where
  "displayCurrency_of txn = (if str_truthy (lt_displayCurrency txn) then the (lt_displayCurrency txn) else UsdDisplayCurrency)"

text \<open>A number that is not an integer after rounding is shown as zero.\<close>

definition display_or_zero :: "fiat_env \<Rightarrow> jsnum \<Rightarrow> string \<Rightarrow> string" where
  "display_or_zero fe amt cur =
     (case displayAmountFromNumber fe amt cur of
        Inr d \<Rightarrow> da_displayInMajor d
      | Inl _ \<Rightarrow> toFixed (fe_toString fe) (getCurrencyMajorExponent fe cur) (Fin 0))"

definition SettlementAmounts_fromTxn :: "fiat_env \<Rightarrow> ledger_transaction \<Rightarrow> settlement_amounts" where
  "SettlementAmounts_fromTxn fe txn =
     (let displayCurrency = displayCurrency_of txn;
          settlementAmount = js_sub (lt_credit txn) (lt_debit txn)
      in \<lparr> sa_settlementAmount = settlementAmount,
           sa_settlementDisplayAmount = display_or_zero fe (settlementDisplayMinor txn settlementAmount) displayCurrency,
           sa_settlementDisplayFee = display_or_zero fe (sp_display (txn_fee txn)) displayCurrency \<rparr>)"

subsection \<open>tx-history.ts\<close>

datatype tx_status = TS_Pending | TS_Success | TS_Failure

text \<open>A state that is none of the names leaves the status undefined.\<close>

definition statusFromTxn :: "ledger_transaction \<Rightarrow> tx_status option" where
  "statusFromTxn txn =
     (case lt_lnPaymentState txn of
        None \<Rightarrow> Some (if lt_pendingConfirmation txn then TS_Pending else TS_Success)
      | Some st \<Rightarrow>
          if st \<in> set (map LnPaymentState [LS_Pending, LS_PendingAfterRetry]) then Some TS_Pending
          else if st \<in> set (map LnPaymentState [LS_Success, LS_SuccessAfterRetry, LS_SuccessWithReimbursement,
                              LS_SuccessWithReimbursementAfterRetry]) then Some TS_Success
          else if st \<in> set (map LnPaymentState [LS_Failed, LS_FailedAfterRetry, LS_FailedAfterSuccess,
                              LS_FailedAfterSuccessWithReimbursement]) then Some TS_Failure
          else None)"

record memo_sharing_config =
  memoSharingSatsThreshold :: jsnum
  memoSharingCentsThreshold :: jsnum
  authorizedMemos :: "string list"

text \<open>The configuration: the thresholds come from the environment, the authorized memos are the quizzes.\<close>

definition memoSharingConfig :: "jsnum \<Rightarrow> jsnum \<Rightarrow> memo_sharing_config" where
  "memoSharingConfig sats cents =
     \<lparr> memoSharingSatsThreshold = sats, memoSharingCentsThreshold = cents, authorizedMemos = orderedKeys \<rparr>"

definition shouldDisplayMemo :: "memo_sharing_config \<Rightarrow> string option \<Rightarrow> jsnum \<Rightarrow> wallet_currency \<Rightarrow> bool" where
  "shouldDisplayMemo cfg memo credit cur =
     (if str_truthy memo \<and> the memo \<in> set (authorizedMemos cfg) \<or> js_eq credit (Fin 0) then True
      else if cur = Btc then js_le (memoSharingSatsThreshold cfg) credit
      else js_le (memoSharingCentsThreshold cfg) credit)"

definition translateMemo :: "memo_sharing_config \<Rightarrow> string list \<Rightarrow> ledger_transaction \<Rightarrow> string option" where
  "translateMemo cfg nonEndUserWalletIds txn =
     (if str_truthy (lt_walletId txn) \<and> the (lt_walletId txn) \<in> set nonEndUserWalletIds
      then Some (''JournalId:'' @ lt_journalId txn)
      else let memo = (if str_truthy (lt_memoFromPayer txn) then lt_memoFromPayer txn else lt_lnMemo txn)
           in if shouldDisplayMemo cfg memo (lt_credit txn) (lt_currency txn) then or_undefined memo else None)"

definition displayCurrencyPerBaseUnitFromAmounts ::
  "jsnum \<Rightarrow> string \<Rightarrow> jsnum \<Rightarrow> wallet_currency \<Rightarrow> error + display_price" where
  "displayCurrencyPerBaseUnitFromAmounts displayAmount displayCurrency walletAmount walletCurrency =
     priceAmountFromNumber (if \<not> js_eq walletAmount (Fin 0) then js_div displayAmount walletAmount else Fin 0)
       displayCurrency walletCurrency"

datatype initiation_via =
    IV_IntraLedger "string option" "string option"
  | IV_OnChain string
  | IV_Lightning "string option" "string option"

datatype settlement_via =
    SV_IntraLedger "string option" "string option"
  | SV_OnChain "string option" "jsnum option"
  | SV_Lightning "string option"

record wallet_transaction =
  wt_id :: string
  wt_walletId :: "string option"
  wt_externalId :: "string option"
  wt_settlementAmount :: jsnum
  wt_settlementFee :: jsnum
  wt_settlementCurrency :: wallet_currency
  wt_settlementDisplayAmount :: string
  wt_settlementDisplayFee :: string
  wt_settlementDisplayPrice :: display_price
  wt_status :: "tx_status option"
  wt_memo :: "string option"
  wt_createdAt :: int
  wt_initiationVia :: initiation_via
  wt_settlementVia :: settlement_via

definition is_admin_type :: "ledger_transaction_type \<Rightarrow> bool" where
  "is_admin_type t \<longleftrightarrow> t \<in> {LT_Fee, LT_ToColdStorage, LT_ToHotWallet, LT_Escrow, LT_RoutingRevenue, LT_Reconciliation}"

text \<open>
  The amounts behind fee and price; those of admin transactions come from the older fields.
\<close>

definition history_amounts :: "ledger_transaction \<Rightarrow> jsnum \<Rightarrow> settlement_part \<times> settlement_part" where
  "history_amounts txn settlementAmount =
     (if is_admin_type (lt_type txn)
      then let cents = (\<lambda>u. case u of None \<Rightarrow> Fin 0 | Some n \<Rightarrow> if js_truthy n then js_round (js_mul n (Fin 100)) else Fin 0);
               displayAmount = cents (lt_usd txn); displayFee = cents (lt_feeUsd txn)
           in (\<lparr> sp_sats = js_abs settlementAmount, sp_cents = displayAmount, sp_display = displayAmount \<rparr>,
               \<lparr> sp_sats = num_or (lt_fee txn) (Fin 0), sp_cents = displayFee, sp_display = displayFee \<rparr>)
      else (txn_amount txn, txn_fee txn))"

definition history_type :: "ledger_transaction \<Rightarrow> ledger_transaction_type" where
  "history_type txn =
     (if lt_type txn = LT_IntraLedger \<and> str_truthy (lt_paymentHash txn) then LT_LnIntraLedger else lt_type txn)"

definition onchain_address :: "ledger_transaction \<Rightarrow> string" where
  "onchain_address txn = (if str_truthy (lt_address txn) then the (lt_address txn) else ''<no-address>'')"

fun initiationVia :: "ledger_transaction_type \<Rightarrow> string option \<Rightarrow> ledger_transaction \<Rightarrow> initiation_via" where
  "initiationVia LT_OnchainIntraLedger r txn = IV_OnChain (onchain_address txn)"
| "initiationVia LT_OnChainTradeIntraAccount r txn = IV_OnChain (onchain_address txn)"
| "initiationVia LT_OnchainPayment r txn = IV_OnChain (onchain_address txn)"
| "initiationVia LT_OnchainReceipt r txn = IV_OnChain (onchain_address txn)"
| "initiationVia LT_LnIntraLedger r txn = IV_Lightning (lt_paymentHash txn) (lt_pubkey txn)"
| "initiationVia LT_LnTradeIntraAccount r txn = IV_Lightning (lt_paymentHash txn) (lt_pubkey txn)"
| "initiationVia LT_Payment r txn = IV_Lightning (lt_paymentHash txn) (lt_pubkey txn)"
| "initiationVia LT_Invoice r txn = IV_Lightning (lt_paymentHash txn) (lt_pubkey txn)"
| "initiationVia _ r txn = IV_IntraLedger r (lt_username txn)"

fun settlementVia :: "ledger_transaction_type \<Rightarrow> string option \<Rightarrow> string option \<Rightarrow> ledger_transaction \<Rightarrow> settlement_via" where
  "settlementVia LT_IntraLedger r i txn = SV_IntraLedger r (lt_username txn)"
| "settlementVia LT_WalletIdTradeIntraAccount r i txn = SV_IntraLedger r (lt_username txn)"
| "settlementVia LT_OnchainPayment r i txn = SV_OnChain (lt_txHash txn) (lt_vout txn)"
| "settlementVia LT_OnchainReceipt r i txn = SV_OnChain (lt_txHash txn) (lt_vout txn)"
| "settlementVia LT_Payment r i txn = SV_Lightning i"
| "settlementVia LT_Invoice r i txn = SV_Lightning i"
| "settlementVia _ r i txn = SV_IntraLedger r (or_undefined (lt_username txn))"

text \<open>
  The wallet of the recipient and the preimage are optional fields of the ledger transaction that
  its translation from the database leaves out; the price may throw.
\<close>

definition translateLedgerTxnToWalletTxn ::
  "fiat_env \<Rightarrow> memo_sharing_config \<Rightarrow> string list \<Rightarrow> string option \<Rightarrow> string option \<Rightarrow> ledger_transaction \<Rightarrow>
   error + wallet_transaction" where
  "translateLedgerTxnToWalletTxn fe cfg nonEndUserWalletIds recipientWalletId revealedPreImage txn =
     (let sa = SettlementAmounts_fromTxn fe txn;
          (amt, fee) = history_amounts txn (sa_settlementAmount sa);
          cur = lt_currency txn;
          txType = history_type txn
      in rbind (displayCurrencyPerBaseUnitFromAmounts (sp_display amt) (displayCurrency_of txn) (sp_unit cur amt) cur)
           (\<lambda>price. Inr
             \<lparr> wt_id = lt_id txn, wt_walletId = lt_walletId txn, wt_externalId = lt_externalId txn,
               wt_settlementAmount = sa_settlementAmount sa, wt_settlementFee = sp_unit cur fee,
               wt_settlementCurrency = cur, wt_settlementDisplayAmount = sa_settlementDisplayAmount sa,
               wt_settlementDisplayFee = sa_settlementDisplayFee sa, wt_settlementDisplayPrice = price,
               wt_status = statusFromTxn txn, wt_memo = translateMemo cfg nonEndUserWalletIds txn,
               wt_createdAt = lt_timestamp txn,
               wt_initiationVia = initiationVia txType recipientWalletId txn,
               wt_settlementVia = settlementVia txType recipientWalletId revealedPreImage txn \<rparr>))"

subsection \<open>Pages: domain/primitives and paginated-ledger.ts\<close>

text \<open>The page a client asks for; sizes are integers (GraphQL \<open>Int\<close>).\<close>

record page_args =
  pa_first :: "int option"
  pa_last :: "int option"
  pa_before :: "string option"
  pa_after :: "string option"

definition int_truthy :: "int option \<Rightarrow> bool" where
  "int_truthy n = (case n of None \<Rightarrow> False | Some k \<Rightarrow> k \<noteq> 0)"

definition MAX_PAGINATION_PAGE_SIZE :: int where
  "MAX_PAGINATION_PAGE_SIZE = 100"

definition checkedToPaginatedQueryArgs :: "page_args \<Rightarrow> int \<Rightarrow> error + page_args" where
  "checkedToPaginatedQueryArgs args maxPageSize =
     (if int_truthy (pa_first args) \<and> int_truthy (pa_last args) then Inl InvalidPaginatedQueryArgsError
      else case pa_first args of
             Some n \<Rightarrow>
               if n > maxPageSize then Inl InvalidPaginatedQueryArgsError
               else if n \<le> 0 then Inl InvalidPaginatedQueryArgsError
               else Inr (args\<lparr> pa_last := None \<rparr>)
           | None \<Rightarrow>
               (case pa_last args of
                  Some n \<Rightarrow>
                    if n > maxPageSize then Inl InvalidPaginatedQueryArgsError
                    else if n \<le> 0 then Inl InvalidPaginatedQueryArgsError
                    else Inr args
                | None \<Rightarrow> Inr (args\<lparr> pa_first := Some maxPageSize \<rparr>)))"

text \<open>
  The collection of transactions as a query finds it, which may be later than the query before and
  may fail; the object ids of the database; and the account filter of the medici library.
\<close>

record 'w page_env =
  pg_read :: "'w \<Rightarrow> stored_transaction list option \<times> 'w"
  pg_id :: "stored_transaction \<Rightarrow> nat"
  pg_objectId :: "string \<Rightarrow> nat option"
  pg_ofAccounts :: "string list \<Rightarrow> stored_transaction \<Rightarrow> bool"

record ledger_filter =
  lf_accounts :: "string list"
  lf_username :: "string option"
  lf_addresses :: "string list option"

record 'a page =
  edges :: "(string \<times> 'a) list"
  startCursor :: "string option"
  endCursor :: "string option"
  hasPreviousPage :: bool
  hasNextPage :: bool

definition cursor_id :: "'w page_env \<Rightarrow> string \<Rightarrow> ('w, nat) ledger_op" where
  "cursor_id pe cursor s = (map_option Inr (pg_objectId pe cursor), s)"

text \<open>The condition on the id: the one of \<open>before\<close> replaces the one of \<open>after\<close>.\<close>

definition id_condition :: "'w page_env \<Rightarrow> page_args \<Rightarrow> ('w, nat \<Rightarrow> bool) ledger_op" where
  "id_condition pe args =
     lbind (if str_truthy (pa_after args)
            then lbind (cursor_id pe (the (pa_after args))) (\<lambda>a. lreturn (\<lambda>i. i < a))
            else lreturn (\<lambda>_. True)) (\<lambda>cond.
     if str_truthy (pa_before args)
     then lbind (cursor_id pe (the (pa_before args))) (\<lambda>b. lreturn (\<lambda>i. b < i))
     else lreturn cond)"

definition filter_query :: "'w page_env \<Rightarrow> ledger_filter \<Rightarrow> (nat \<Rightarrow> bool) \<Rightarrow> stored_transaction \<Rightarrow> bool" where
  "filter_query pe filters cond tx \<longleftrightarrow>
     pg_ofAccounts pe (lf_accounts filters) tx \<and> cond (pg_id pe tx) \<and>
     (str_truthy (lf_username filters) \<longrightarrow> st_username tx = lf_username filters) \<and>
     (case lf_addresses filters of
        None \<Rightarrow> True
      | Some addresses \<Rightarrow>
          (case st_payee_addresses tx of
             None \<Rightarrow> False
           | Some payees \<Rightarrow> list_ex (\<lambda>a. a \<in> set addresses) payees))"

definition newest_first :: "'w page_env \<Rightarrow> stored_transaction list \<Rightarrow> stored_transaction list" where
  "newest_first pe docs = rev (sort_key (pg_id pe) docs)"

definition page_of :: "ledger_transaction list \<Rightarrow> bool \<Rightarrow> bool \<Rightarrow> ledger_transaction page" where
  "page_of txs prev nxt =
     \<lparr> edges = map (\<lambda>tx. (lt_id tx, tx)) txs,
       startCursor = (if txs = [] then None else or_undefined (Some (lt_id (hd txs)))),
       endCursor = (if txs = [] then None else or_undefined (Some (lt_id (last txs)))),
       hasPreviousPage = prev, hasNextPage = nxt \<rparr>"

text \<open>The page size has been checked to be positive.\<close>

definition page_records :: "page_args \<Rightarrow> int \<Rightarrow> stored_transaction list \<Rightarrow> stored_transaction list \<times> bool \<times> bool" where
  "page_records args documentCount found =
     (case pa_first args of
        Some n \<Rightarrow> (take (nat n) found, False, documentCount > n)
      | None \<Rightarrow>
          (case pa_last args of
             Some n \<Rightarrow> if documentCount > n then (drop (nat (documentCount - n)) found, True, False) else (found, False, False)
           | None \<Rightarrow> (found, False, False)))"

definition paginatedLedger ::
  "'w page_env \<Rightarrow> ledger_filter \<Rightarrow> page_args \<Rightarrow> ('w, ledger_transaction page) ledger_op" where
  "paginatedLedger pe filters args =
     lbind (id_condition pe args) (\<lambda>cond.
     lbind (on_db (pg_read pe)) (\<lambda>counted.
     lbind (on_db (pg_read pe)) (\<lambda>docs.
       let documentCount = int (length (filter (filter_query pe filters cond) counted));
           (transactionRecords, prev, nxt) =
             page_records args documentCount (newest_first pe (filter (filter_query pe filters cond) docs))
       in lreturn (page_of (map translateToLedgerTx transactionRecords) prev nxt))))"

subsection \<open>services/ledger/index.ts\<close>

definition getTransactionsByWalletIds ::
  "'w page_env \<Rightarrow> string list \<Rightarrow> page_args \<Rightarrow> ('w, ledger_transaction page) ledger_op" where
  "getTransactionsByWalletIds pe walletIds args =
     catch_unknown (paginatedLedger pe
       \<lparr> lf_accounts = map toLiabilitiesWalletId walletIds, lf_username = None, lf_addresses = None \<rparr> args)"

definition getTransactionsByWalletIdsAndAddresses ::
  "'w page_env \<Rightarrow> string list \<Rightarrow> string list \<Rightarrow> page_args \<Rightarrow> ('w, ledger_transaction page) ledger_op" where
  "getTransactionsByWalletIdsAndAddresses pe walletIds addresses args =
     catch_unknown (paginatedLedger pe
       \<lparr> lf_accounts = map toLiabilitiesWalletId walletIds, lf_username = None, lf_addresses = Some addresses \<rparr> args)"

definition getTransactionsByWalletIdAndContactUsername ::
  "'w page_env \<Rightarrow> string list \<Rightarrow> string \<Rightarrow> page_args \<Rightarrow> ('w, ledger_transaction page) ledger_op" where
  "getTransactionsByWalletIdAndContactUsername pe walletIds contactUsername args =
     catch_unknown (paginatedLedger pe
       \<lparr> lf_accounts = map toLiabilitiesWalletId walletIds, lf_username = Some contactUsername, lf_addresses = None \<rparr> args)"

subsection \<open>app/wallets and app/accounts\<close>

text \<open>\<open>WalletTransactionHistory.fromLedger\<close> on a list; an exception of one ends the call.\<close>

fun fromLedger_all ::
  "fiat_env \<Rightarrow> memo_sharing_config \<Rightarrow> string list \<Rightarrow> (ledger_transaction \<times> string option) list \<Rightarrow> wallet_transaction list option" where
  "fromLedger_all fe cfg ids [] = Some []"
| "fromLedger_all fe cfg ids ((txn, preImage) # txns) =
     (case translateLedgerTxnToWalletTxn fe cfg ids None preImage txn of
        Inl _ \<Rightarrow> None
      | Inr wt \<Rightarrow> map_option ((#) wt) (fromLedger_all fe cfg ids txns))"

definition fromLedger ::
  "('e, 'w) ledger_env \<Rightarrow> fiat_env \<Rightarrow> memo_sharing_config \<Rightarrow> (ledger_transaction \<times> string option) list \<Rightarrow>
   ('w, wallet_transaction list) ledger_op" where
  "fromLedger env fe cfg txns =
     lbind (getNonEndUserWalletIds env) (\<lambda>nonEndUserWalletIds s.
       (map_option Inr (fromLedger_all fe cfg nonEndUserWalletIds txns), s))"

definition fromLedger_page ::
  "('e, 'w) ledger_env \<Rightarrow> fiat_env \<Rightarrow> memo_sharing_config \<Rightarrow> ledger_transaction page \<Rightarrow>
   ('w, wallet_transaction page) ledger_op" where
  "fromLedger_page env fe cfg ledgerTxs =
     lbind (fromLedger env fe cfg (map (\<lambda>(cursor, node). (node, None)) (edges ledgerTxs))) (\<lambda>wts.
       lreturn \<lparr> edges = zip (map fst (edges ledgerTxs)) wts,
         startCursor = startCursor ledgerTxs, endCursor = endCursor ledgerTxs,
         hasPreviousPage = hasPreviousPage ledgerTxs, hasNextPage = hasNextPage ledgerTxs \<rparr>)"

definition checked_args :: "page_args \<Rightarrow> ('w, page_args) ledger_op" where
  "checked_args rawPaginationArgs s =
     (Some (checkedToPaginatedQueryArgs rawPaginationArgs MAX_PAGINATION_PAGE_SIZE), s)"

definition getTransactionsForWallets ::
  "('e, 'w) ledger_env \<Rightarrow> 'w page_env \<Rightarrow> fiat_env \<Rightarrow> memo_sharing_config \<Rightarrow> string list \<Rightarrow> page_args \<Rightarrow>
   ('w, wallet_transaction page) ledger_op" where
  "getTransactionsForWallets env pe fe cfg walletIds rawPaginationArgs =
     lbind (checked_args rawPaginationArgs) (\<lambda>paginationArgs.
     lbind (getTransactionsByWalletIds pe walletIds paginationArgs) (fromLedger_page env fe cfg))"

definition getTransactionsForWalletsByAddresses ::
  "('e, 'w) ledger_env \<Rightarrow> 'w page_env \<Rightarrow> fiat_env \<Rightarrow> memo_sharing_config \<Rightarrow> string list \<Rightarrow> string list \<Rightarrow> page_args \<Rightarrow>
   ('w, wallet_transaction page) ledger_op" where
  "getTransactionsForWalletsByAddresses env pe fe cfg walletIds addresses rawPaginationArgs =
     lbind (checked_args rawPaginationArgs) (\<lambda>paginationArgs.
     lbind (getTransactionsByWalletIdsAndAddresses pe walletIds addresses paginationArgs) (fromLedger_page env fe cfg))"

text \<open>The wallets of the account are read from their repository first.\<close>

definition getAccountTransactionsForContact ::
  "('e, 'w) ledger_env \<Rightarrow> 'w page_env \<Rightarrow> fiat_env \<Rightarrow> memo_sharing_config \<Rightarrow> ('w, wallet_descriptor list) ledger_op \<Rightarrow>
   string \<Rightarrow> page_args \<Rightarrow> ('w, wallet_transaction page) ledger_op" where
  "getAccountTransactionsForContact env pe fe cfg listByAccountId contactUsername rawPaginationArgs =
     lbind (checked_args rawPaginationArgs) (\<lambda>paginationArgs.
     lbind listByAccountId (\<lambda>wallets.
     lbind (getTransactionsByWalletIdAndContactUsername pe (map wallet_id wallets) contactUsername paginationArgs)
       (fromLedger_page env fe cfg)))"

definition Wallets_getTransactionsForWalletByPaymentHash ::
  "('e, 'w) ledger_env \<Rightarrow> fiat_env \<Rightarrow> memo_sharing_config \<Rightarrow> string \<Rightarrow> string \<Rightarrow> ('w, wallet_transaction list) ledger_op" where
  "Wallets_getTransactionsForWalletByPaymentHash env fe cfg walletId paymentHash =
     lbind (getTransactionsForWalletByPaymentHash env walletId paymentHash)
       (\<lambda>txns. fromLedger env fe cfg (map (\<lambda>txn. (txn, None)) txns))"

definition Wallets_getTransactionsByHash ::
  "('e, 'w) ledger_env \<Rightarrow> fiat_env \<Rightarrow> memo_sharing_config \<Rightarrow> string \<Rightarrow> ('w, wallet_transaction list) ledger_op" where
  "Wallets_getTransactionsByHash env fe cfg hash =
     lbind (getTransactionsByHash env hash) (\<lambda>txns. fromLedger env fe cfg (map (\<lambda>txn. (txn, None)) txns))"

definition checkedToLedgerTransactionId :: "string \<Rightarrow> error + string" where
  "checkedToLedgerTransactionId i =
     (if i \<noteq> [] \<and> matches (replicate 24 is_hex) i then Inr i else Inl InvalidLedgerTransactionId)"

text \<open>A single transaction.\<close>

definition fromLedger_one ::
  "('e, 'w) ledger_env \<Rightarrow> fiat_env \<Rightarrow> memo_sharing_config \<Rightarrow> ledger_transaction \<times> string option \<Rightarrow>
   ('w, wallet_transaction) ledger_op" where
  "fromLedger_one env fe cfg txn = lbind (fromLedger env fe cfg [txn]) (\<lambda>wts. lreturn (hd wts))"

definition Wallets_getTransactionForWalletById ::
  "('e, 'w) ledger_env \<Rightarrow> fiat_env \<Rightarrow> memo_sharing_config \<Rightarrow> string \<Rightarrow> string \<Rightarrow> ('w, wallet_transaction) ledger_op" where
  "Wallets_getTransactionForWalletById env fe cfg walletId transactionId =
     lbind (\<lambda>s. (Some (checkedToLedgerTransactionId transactionId), s)) (\<lambda>ledgerTransactionId.
     lbind (getTransactionForWalletById env walletId ledgerTransactionId) (\<lambda>txn.
     fromLedger_one env fe cfg (txn, None)))"

definition Wallets_getTransactionById ::
  "('e, 'w) ledger_env \<Rightarrow> fiat_env \<Rightarrow> memo_sharing_config \<Rightarrow> string \<Rightarrow> ('w, wallet_transaction) ledger_op" where
  "Wallets_getTransactionById env fe cfg i =
     lbind (\<lambda>s. (Some (checkedToLedgerTransactionId i), s)) (\<lambda>ledgerTxId.
     lbind (getTransactionById env ledgerTxId) (\<lambda>txn. fromLedger_one env fe cfg (txn, None)))"

text \<open>Here the stored metadata is merged in, and with it the preimage of a lightning payment.\<close>

definition Wallets_getTransactionForWalletByJournalId ::
  "('e, 'w) ledger_env \<Rightarrow> fiat_env \<Rightarrow> memo_sharing_config \<Rightarrow> string \<Rightarrow> string \<Rightarrow> ('w, wallet_transaction) ledger_op" where
  "Wallets_getTransactionForWalletByJournalId env fe cfg walletId journalId =
     lbind (getTransactionForWalletByJournalId env walletId journalId) (\<lambda>(txn, txMetadata).
     fromLedger_one env fe cfg (txn, Option.bind txMetadata tm_revealedPreImage))"

subsection \<open>Walking through the pages\<close>

text \<open>
  The ids of the documents are different, and the text of an id reads back as the id. The account
  filter finds the transactions of the given accounts.
\<close>

definition documents_ok :: "'w page_env \<Rightarrow> stored_transaction list \<Rightarrow> bool" where
  "documents_ok pe docs \<longleftrightarrow>
     distinct (map (pg_id pe) docs) \<and>
     (\<forall>tx \<in> set docs. st_id tx \<noteq> [] \<and> pg_objectId pe (st_id tx) = Some (pg_id pe tx))"

definition account_filter_ok :: "'w page_env \<Rightarrow> bool" where
  "account_filter_ok pe \<longleftrightarrow> (\<forall>accounts tx. pg_ofAccounts pe accounts tx \<longleftrightarrow> st_accounts tx \<in> set accounts)"

text \<open>Later documents: those that were there, and newer ones.\<close>

definition only_newer :: "'w page_env \<Rightarrow> stored_transaction list \<Rightarrow> stored_transaction list \<Rightarrow> bool" where
  "only_newer pe docs docs' \<longleftrightarrow>
     set docs \<subseteq> set docs' \<and> (\<forall>tx \<in> set docs. \<forall>tx' \<in> set docs' - set docs. pg_id pe tx < pg_id pe tx')"

text \<open>Both queries of a page find the same documents.\<close>

definition reads :: "'w page_env \<Rightarrow> 'w ledger_state \<Rightarrow> stored_transaction list \<Rightarrow> bool" where
  "reads pe s docs \<longleftrightarrow>
     (case pg_read pe (ls_db s) of (r, w) \<Rightarrow> r = Some docs \<and> fst (pg_read pe w) = Some docs)"

text \<open>
  A client that asks for the next page after the last cursor until it is told that there is none,
  each page from the state the backend is in by then.
\<close>

fun history_walk ::
  "'w page_env \<Rightarrow> string list \<Rightarrow> int \<Rightarrow> string option \<Rightarrow> 'w ledger_state list \<Rightarrow> ledger_transaction list option" where
  "history_walk pe walletIds n cursor [] = Some []"
| "history_walk pe walletIds n cursor (s # ss) =
     (case lbind (checked_args \<lparr> pa_first = Some n, pa_last = None, pa_before = None, pa_after = cursor \<rparr>)
             (getTransactionsByWalletIds pe walletIds) s of
        (Some (Inr page), _) \<Rightarrow>
          if hasNextPage page
          then map_option ((@) (map snd (edges page))) (history_walk pe walletIds n (endCursor page) ss)
          else Some (map snd (edges page))
      | _ \<Rightarrow> None)"

lemma newest_first_set [simp]: "set (newest_first pe docs) = set docs"
  by (simp add: newest_first_def)

lemma newest_first_length [simp]: "length (newest_first pe docs) = length docs"
  by (simp add: newest_first_def)

lemma newest_first_descending:
  assumes "distinct (map (pg_id pe) docs)"
  shows "sorted_wrt (\<lambda>x y. pg_id pe y < pg_id pe x) (newest_first pe docs)"
proof -
  have "mset (map (pg_id pe) (sort_key (pg_id pe) docs)) = mset (map (pg_id pe) docs)"
    by (metis mset_map mset_sort)
  then have "distinct (map (pg_id pe) (sort_key (pg_id pe) docs))"
    using assms mset_eq_imp_distinct_iff by blast
  then have "sorted_wrt (<) (map (pg_id pe) (sort_key (pg_id pe) docs))"
    by (simp add: strict_sorted_iff)
  then show ?thesis
    by (simp add: newest_first_def sorted_wrt_rev sorted_wrt_map)
qed

text \<open>The documents with smaller ids than one of them are those that follow it.\<close>

lemma newest_first_after:
  assumes "distinct (map (pg_id pe) docs)" and H: "newest_first pe docs = xs @ c # ys"
  shows "newest_first pe (filter (\<lambda>tx. pg_id pe tx < pg_id pe c) docs) = ys"
proof -
  have "newest_first pe (filter (\<lambda>tx. pg_id pe tx < pg_id pe c) docs) =
      filter (\<lambda>tx. pg_id pe tx < pg_id pe c) (newest_first pe docs)"
    by (simp add: newest_first_def filter_sort [symmetric] rev_filter)
  also have "\<dots> = ys"
    using newest_first_descending [OF assms(1)] H
    by (auto simp: sorted_wrt_append filter_empty_conv intro!: filter_True dest: order.asym)
  finally show ?thesis .
qed

lemma newest_first_cong:
  assumes "distinct (map (pg_id pe) as)" "distinct (map (pg_id pe) bs)" "set as = set bs"
  shows "newest_first pe as = newest_first pe bs"
proof -
  have "mset as = mset bs"
    using assms set_eq_iff_mset_eq_distinct [of as bs] by (simp add: distinct_map)
  then have "sort_key (pg_id pe) as = sort_key (pg_id pe) bs"
    using assms(1) by (intro sort_key_inj_key_eq) (auto simp: distinct_map)
  then show ?thesis
    by (simp add: newest_first_def)
qed

text \<open>A page after a cursor does not depend on newer documents.\<close>

lemma newer_after:
  assumes "documents_ok pe docs" "documents_ok pe docs'" "only_newer pe docs docs'"
    and H: "newest_first pe (filter P docs) = xs @ c # ys"
  shows "newest_first pe (filter (\<lambda>tx. P tx \<and> pg_id pe tx < pg_id pe c) docs') = ys"
proof -
  have c: "c \<in> set docs"
    using H by (metis filter_is_subset in_set_conv_decomp newest_first_set subsetD)
  have ids: "distinct (map (pg_id pe) docs)" "distinct (map (pg_id pe) docs')"
    using assms(1,2) by (simp_all add: documents_ok_def)
  have "newest_first pe (filter (\<lambda>tx. P tx \<and> pg_id pe tx < pg_id pe c) docs') =
      newest_first pe (filter (\<lambda>tx. pg_id pe tx < pg_id pe c) (filter P docs))"
  proof (rule newest_first_cong)
    have "tx \<in> set docs" if "tx \<in> set docs'" "pg_id pe tx < pg_id pe c" for tx
      using assms(3) c that by (auto simp: only_newer_def dest: order.asym)
    then show "set (filter (\<lambda>tx. P tx \<and> pg_id pe tx < pg_id pe c) docs') =
        set (filter (\<lambda>tx. pg_id pe tx < pg_id pe c) (filter P docs))"
      using assms(3) by (auto simp: only_newer_def)
  qed (use ids in \<open>simp_all add: distinct_map_filter\<close>)
  also have "\<dots> = ys"
    using newest_first_after [OF _ H] ids by (simp add: distinct_map_filter)
  finally show ?thesis .
qed

text \<open>What one page of the walk is.\<close>

lemma walk_page:
  assumes n: "0 < n" "n \<le> MAX_PAGINATION_PAGE_SIZE" and read: "reads pe s docs"
    and cond: "cursor = None \<and> cond = (\<lambda>_. True) \<or>
      (\<exists>c. cursor = Some (st_id c) \<and> st_id c \<noteq> [] \<and> pg_objectId pe (st_id c) = Some (pg_id pe c) \<and>
        cond = (\<lambda>i. i < pg_id pe c))"
    and acc: "account_filter_ok pe"
    and found: "newest_first pe (filter (\<lambda>tx. st_accounts tx \<in> toLiabilitiesWalletId ` set walletIds \<and> cond (pg_id pe tx)) docs) = ys"
  shows "\<exists>s'. lbind (checked_args \<lparr> pa_first = Some n, pa_last = None, pa_before = None, pa_after = cursor \<rparr>)
      (getTransactionsByWalletIds pe walletIds) s =
    (Some (Inr (page_of (map translateToLedgerTx (take (nat n) ys)) False (int (length ys) > n))), s')"
proof -
  let ?filters = "\<lparr> lf_accounts = map toLiabilitiesWalletId walletIds, lf_username = None, lf_addresses = None \<rparr>"
  let ?args = "\<lparr> pa_first = Some n, pa_last = None, pa_before = None, pa_after = cursor \<rparr>"
  have args: "checked_args ?args s = (Some (Inr ?args), s)"
    using n by (simp add: checked_args_def checkedToPaginatedQueryArgs_def int_truthy_def)
  have idc: "id_condition pe ?args s = (Some (Inr cond), s)"
    using cond by (auto simp: id_condition_def lbind_def lreturn_def cursor_id_def str_truthy_def)
  have query: "filter_query pe ?filters cond =
      (\<lambda>tx. st_accounts tx \<in> toLiabilitiesWalletId ` set walletIds \<and> cond (pg_id pe tx))"
    using acc by (simp add: filter_query_def account_filter_ok_def fun_eq_iff)
  obtain w w' where "pg_read pe (ls_db s) = (Some docs, w)" "pg_read pe w = (Some docs, w')"
    using read by (auto simp: reads_def split: prod.splits) (metis prod.collapse)
  then have "paginatedLedger pe ?filters ?args s =
      (Some (Inr (page_of (map translateToLedgerTx (take (nat n) ys)) False (int (length ys) > n))), s\<lparr> ls_db := w' \<rparr>)"
    using idc found newest_first_length [of pe "filter (filter_query pe ?filters cond) docs"]
    by (simp add: paginatedLedger_def lbind_def on_db_def page_records_def lreturn_def Let_def query)
  then show ?thesis
    using args by (simp add: lbind_def getTransactionsByWalletIds_def catch_unknown_def)
qed

lemma walk_step:
  assumes n: "0 < n" "n \<le> MAX_PAGINATION_PAGE_SIZE" and read: "reads pe s docs"
    and cond: "cursor = None \<and> cond = (\<lambda>_. True) \<or>
      (\<exists>c. cursor = Some (st_id c) \<and> st_id c \<noteq> [] \<and> pg_objectId pe (st_id c) = Some (pg_id pe c) \<and>
        cond = (\<lambda>i. i < pg_id pe c))"
    and acc: "account_filter_ok pe"
    and found: "newest_first pe (filter (\<lambda>tx. st_accounts tx \<in> toLiabilitiesWalletId ` set walletIds \<and> cond (pg_id pe tx)) docs) = ys"
    and ids: "\<forall>tx \<in> set ys. st_id tx \<noteq> []"
  shows "history_walk pe walletIds n cursor (s # ss) =
    (if int (length ys) > n
     then map_option ((@) (map translateToLedgerTx (take (nat n) ys)))
            (history_walk pe walletIds n (Some (st_id (last (take (nat n) ys)))) ss)
     else Some (map translateToLedgerTx (take (nat n) ys)))"
proof -
  have "last (take (nat n) ys) \<in> set ys" if "ys \<noteq> []"
    using that n(1) by (metis last_in_set in_set_takeD take_eq_Nil zero_less_nat_eq less_irrefl)
  then have "endCursor (page_of (map translateToLedgerTx (take (nat n) ys)) False b) =
      Some (st_id (last (take (nat n) ys)))" if "ys \<noteq> []" for b
    using that n(1) ids
    by (simp add: page_of_def or_undefined_def str_truthy_def last_map translateToLedgerTx_def)
  moreover have "map snd (edges (page_of txs p b)) = txs" "hasNextPage (page_of txs p b) = b" for txs p b
    by (simp_all add: page_of_def comp_def)
  moreover have "ys \<noteq> []" if "int (length ys) > n"
    using that n(1) by auto
  ultimately show ?thesis
    using walk_page [OF n read cond acc found] by auto
qed

lemma cut_at:
  assumes "0 < m" "m < length xs"
  shows "xs = take (m - 1) xs @ (xs ! (m - 1)) # drop m xs" "last (take m xs) = xs ! (m - 1)"
proof -
  show "xs = take (m - 1) xs @ (xs ! (m - 1)) # drop m xs"
    using id_take_nth_drop [of "m - 1" xs] assms by simp
  have "take m xs \<noteq> []"
    using assms by auto
  then show "last (take m xs) = xs ! (m - 1)"
    using assms by (simp add: last_conv_nth)
qed

lemma walk_from:
  assumes "0 < n" "n \<le> MAX_PAGINATION_PAGE_SIZE" "account_filter_ok pe" "documents_ok pe docs"
    and H: "newest_first pe (filter (\<lambda>tx. st_accounts tx \<in> toLiabilitiesWalletId ` set walletIds) docs) = xs @ c # ys"
    and "\<forall>s \<in> set ss. \<exists>docs'. reads pe s docs' \<and> documents_ok pe docs' \<and> only_newer pe docs docs'"
    and "int (length ys) \<le> n * int (length ss)"
  shows "history_walk pe walletIds n (Some (st_id c)) ss = Some (map translateToLedgerTx ys)"
  using H assms(6,7)
proof (induction ss arbitrary: xs c ys)
  case (Cons s ss)
  let ?P = "\<lambda>tx. st_accounts tx \<in> toLiabilitiesWalletId ` set walletIds"
  obtain docs' where docs': "reads pe s docs'" "documents_ok pe docs'" "only_newer pe docs docs'"
    using Cons.prems(2) by auto
  have "set (xs @ c # ys) \<subseteq> set docs"
    by (metis Cons.prems(1) filter_is_subset newest_first_set)
  then have ids: "st_id c \<noteq> []" "pg_objectId pe (st_id c) = Some (pg_id pe c)" "\<forall>tx \<in> set ys. st_id tx \<noteq> []"
    using assms(4) by (auto simp: documents_ok_def)
  have "\<exists>c'. Some (st_id c) = Some (st_id c') \<and> st_id c' \<noteq> [] \<and> pg_objectId pe (st_id c') = Some (pg_id pe c') \<and>
      (\<lambda>i. i < pg_id pe c) = (\<lambda>i. i < pg_id pe c')"
    using ids by blast
  note step = walk_step [OF assms(1,2) docs'(1) disjI2 [OF this] assms(3)
      newer_after [OF assms(4) docs'(2,3) Cons.prems(1)] ids(3), of ss]
  show ?case
  proof (cases "int (length ys) > n")
    case True
    let ?m = "nat n"
    have m: "0 < ?m" "?m < length ys"
      using assms(1) True by auto
    note split = cut_at [OF this]
    have "xs @ c # ys = (xs @ c # take (?m - 1) ys) @ (ys ! (?m - 1)) # drop ?m ys"
      using split(1) by simp
    moreover have "int (length (drop ?m ys)) \<le> n * int (length ss)"
      using Cons.prems(3) m assms(1) by (simp add: algebra_simps of_nat_diff)
    ultimately have "history_walk pe walletIds n (Some (st_id (ys ! (?m - 1)))) ss = Some (map translateToLedgerTx (drop ?m ys))"
      using Cons.IH [of "xs @ c # take (?m - 1) ys" "ys ! (?m - 1)" "drop ?m ys"] Cons.prems(1,2) by simp
    then show ?thesis
      using step True split(2) by (simp del: history_walk.simps flip: map_append)
  next
    case False
    then show ?thesis
      using step by (simp del: history_walk.simps)
  qed
qed simp

text \<open>C34: Reading a history page by page. A client that follows the cursors until there is no next page gets
  the transactions of its wallets as they were at the first page, newest first and each once, even
  when newer transactions are booked between the pages.\<close>

theorem history_pages:
  assumes n: "0 < n" "n \<le> MAX_PAGINATION_PAGE_SIZE" and acc: "account_filter_ok pe"
    and first: "reads pe s docs" "documents_ok pe docs"
    and later: "\<forall>s' \<in> set ss. \<exists>docs'. reads pe s' docs' \<and> documents_ok pe docs' \<and> only_newer pe docs docs'"
    and own: "own = filter (\<lambda>tx. st_accounts tx \<in> toLiabilitiesWalletId ` set walletIds) docs"
    and enough: "int (length own) \<le> n * int (length (s # ss))"
  shows "history_walk pe walletIds n None (s # ss) = Some (map translateToLedgerTx (newest_first pe own)) \<and>
    sorted_wrt (\<lambda>x y. pg_id pe y < pg_id pe x) (newest_first pe own) \<and> set (newest_first pe own) = set own"
proof -
  let ?H = "newest_first pe own" and ?m = "nat n"
  have ids: "distinct (map (pg_id pe) own)" "\<forall>tx \<in> set ?H. st_id tx \<noteq> []"
    using first(2) own by (auto simp: documents_ok_def distinct_map_filter)
  have found: "newest_first pe (filter (\<lambda>tx. st_accounts tx \<in> toLiabilitiesWalletId ` set walletIds \<and> True) docs) = ?H"
    using own by simp
  note step = walk_step [OF n first(1) disjI1 [OF conjI [OF refl refl]] acc found ids(2), of ss]
  have "history_walk pe walletIds n None (s # ss) = Some (map translateToLedgerTx ?H)"
  proof (cases "int (length ?H) > n")
    case True
    have m: "0 < ?m" "?m < length ?H"
      using n(1) True by auto
    note split = cut_at [OF this]
    have "int (length (drop ?m ?H)) \<le> n * int (length ss)"
      using enough m n(1) by (simp add: algebra_simps of_nat_diff)
    then have "history_walk pe walletIds n (Some (st_id (?H ! (?m - 1)))) ss = Some (map translateToLedgerTx (drop ?m ?H))"
      using walk_from [OF n acc first(2) _ later] split(1) own by blast
    then show ?thesis
      using step True split(2) by (simp del: history_walk.simps flip: map_append)
  next
    case False
    then show ?thesis
      using step by (simp del: history_walk.simps)
  qed
  then show ?thesis
    using newest_first_descending [OF ids(1)] by simp
qed

definition example_tx :: "nat \<Rightarrow> stored_transaction" where
  "example_tx i =
     \<lparr> st_id = replicate i (CHR ''a''), st_accounts = toLiabilitiesWalletId ''w'', st_external_id = None,
       st_type = LT_IntraLedger, st_debit = Fin 0, st_credit = Fin 100, st_currency = Btc, st_timestamp = int i,
       st_pending = False, st_bundle_completion_state = None, st_journal = ''j'', st_memo = None, st_username = None,
       st_memoPayer = None, st_hash = None, st_pubkey = None, st_payee_addresses = None, st_request_id = None,
       st_payout_id = None, st_vout = None, st_feeKnownInAdvance = None, st_satsAmount = Some (Fin 100),
       st_centsAmount = Some (Fin 5), st_satsFee = Some (Fin 0), st_centsFee = Some (Fin 0),
       st_displayAmount = Some (Fin 5), st_displayFee = Some (Fin 0), st_displayCurrency = Some ''USD'',
       st_fee = None, st_usd = None, st_feeUsd = None \<rparr>"

definition example_pages :: "stored_transaction list page_env" where
  "example_pages =
     \<lparr> pg_read = \<lambda>w. (Some w, w), pg_id = \<lambda>tx. length (st_id tx),
       pg_objectId = \<lambda>c. if c = [] then None else Some (length c),
       pg_ofAccounts = \<lambda>accounts tx. st_accounts tx \<in> set accounts \<rparr>"

definition example_db :: "stored_transaction list \<Rightarrow> stored_transaction list ledger_state" where
  "example_db docs =
     \<lparr> ls_db = docs, cacheDealerBtcWalletId = None, cacheDealerUsdWalletId = None,
       cacheBankOwnerWalletId = None, cacheFunderWalletId = None \<rparr>"

lemma example_tx_simps [simp]: "st_id (example_tx i) = replicate i (CHR ''a'')" "st_accounts (example_tx i) = toLiabilitiesWalletId ''w''"
  "example_tx i = example_tx j \<longleftrightarrow> i = j"
proof -
  show id: "st_id (example_tx i) = replicate i (CHR ''a'')" for i
    by (simp add: example_tx_def)
  show "st_accounts (example_tx i) = toLiabilitiesWalletId ''w''"
    by (simp add: example_tx_def)
  show "example_tx i = example_tx j \<longleftrightarrow> i = j"
    using id by (metis length_replicate)
qed

lemma example_pages_simps [simp]: "pg_read example_pages w = (Some w, w)" "pg_id example_pages tx = length (st_id tx)"
  "pg_objectId example_pages c = (if c = [] then None else Some (length c))"
  "pg_ofAccounts example_pages accounts tx = (st_accounts tx \<in> set accounts)"
  by (simp_all add: example_pages_def)

theorem history_pages_witness:
  "history_walk example_pages [''w''] 2 None
     [example_db (map example_tx [1, 2, 3]), example_db (map example_tx [1, 2, 3, 4])] =
   Some (map (translateToLedgerTx \<circ> example_tx) [3, 2, 1])"
proof -
  let ?docs = "map example_tx [1, 2, 3]"
  have "account_filter_ok example_pages"
    by (simp add: account_filter_ok_def)
  moreover have "reads example_pages (example_db docs) docs" for docs
    by (simp add: reads_def example_db_def)
  moreover have "documents_ok example_pages (map example_tx [1, 2, 3])" "documents_ok example_pages (map example_tx [1, 2, 3, 4])"
    by (simp_all add: documents_ok_def)
  moreover have "only_newer example_pages ?docs (map example_tx [1, 2, 3, 4])"
    by (simp add: only_newer_def insert_Diff_if)
  moreover have own: "?docs = filter (\<lambda>tx. st_accounts tx \<in> toLiabilitiesWalletId ` set [''w'']) ?docs"
    by simp
  moreover have "newest_first example_pages ?docs = map example_tx [3, 2, 1]"
    by (simp add: newest_first_def)
  ultimately show ?thesis
    using history_pages [of 2 example_pages "example_db ?docs" ?docs "[example_db (map example_tx [1, 2, 3, 4])]" ?docs "[''w'']"]
    by (auto simp: MAX_PAGINATION_PAGE_SIZE_def simp del: history_walk.simps)
qed

subsection \<open>What is shown\<close>

lemma js_add_int: "safe_int (x + y) \<Longrightarrow> js_add (Fin (of_int x)) (Fin (of_int y)) = Fin (of_int (x + y))"
  using round_double_int [of "x + y"] by (simp add: js_add_def)

lemma sp_unit_simps [simp]: "sp_unit cur (sp_neg p) = js_neg (sp_unit cur p)" "sp_unit cur sp_zero = Fin 0"
  "sp_display (sp_neg p) = js_neg (sp_display p)" "sp_display sp_zero = Fin 0"
  by (simp_all add: sp_unit_def sp_neg_def sp_zero_def)

text \<open>
  The display amount is that of the first combination of amount and fee that gives the amount of
  the wallet.
\<close>

definition settled_display :: "int \<Rightarrow> int \<Rightarrow> int \<Rightarrow> int \<Rightarrow> int \<Rightarrow> int" where
  "settled_display a f d df t =
    (if t = a then d else if t = - a then - d else if t = f then df else if t = - f then - df
     else if t = a + f then d + df else if t = - a - f then - d - df
     else if t = a - f then d - df else if t = f - a then df - d else 0)"

lemma settlement_minor:
  assumes "sp_unit (lt_currency txn) (txn_amount txn) = Fin (of_int a)" "sp_unit (lt_currency txn) (txn_fee txn) = Fin (of_int f)"
    and "sp_display (txn_amount txn) = Fin (of_int d)" "sp_display (txn_fee txn) = Fin (of_int df)"
    and "0 \<le> a" "0 \<le> f" "a + f < 2 ^ 53" "0 \<le> d" "0 \<le> df" "d + df < 2 ^ 53"
  shows "settlementDisplayMinor txn (Fin (of_int t)) = Fin (of_int (settled_display a f d df t))"
proof -
  define F where "F = (\<lambda>x. Fin (of_int x))"
  have add: "js_add (F x) (F y) = F (x + y)"
    if "x \<in> {0, a, - a} \<and> y \<in> {0, f, - f} \<or> x \<in> {0, d, - d} \<and> y \<in> {0, df, - df}" for x y
    unfolding F_def using that assms(5-10) by (intro js_add_int) (auto simp: safe_int_def)
  have F: "js_neg (F x) = F (- x)" "Fin 0 = F 0" "js_eq (F x) (F y) \<longleftrightarrow> y = x" for x y
    by (auto simp: F_def js_neg_def js_eq_def)
  have F_fold: "Fin (of_int x) = F x" for x
    by (simp add: F_def)
  show ?thesis
    unfolding F_fold settlementDisplayMinor_def combinations_def settled_display_def
    by (simp add: assms(1-4) [unfolded F_fold] F add)
qed

lemma display_or_zero_int: "display_or_zero fe (Fin (of_int k)) cur = displayMinorToMajor fe k (getCurrencyMajorExponent fe cur)"
proof -
  have "\<lfloor>of_int k + 1 / 2 :: rat\<rfloor> = k"
    by linarith
  then show ?thesis
    by (simp add: display_or_zero_def displayAmountFromNumber_def safeBigInt_def BigInt_num_def js_round_def)
qed

text \<open>The memo a wallet sees, as a rule.\<close>

definition memo_visible :: "memo_sharing_config \<Rightarrow> ledger_transaction \<Rightarrow> string \<Rightarrow> bool" where
  "memo_visible cfg txn memo \<longleftrightarrow>
     memo \<noteq> [] \<and> (lt_memoFromPayer txn = Some memo \<or> lt_lnMemo txn = Some memo) \<and>
     (memo \<in> set (authorizedMemos cfg) \<or> lt_credit txn = Fin 0 \<or>
      js_le (if lt_currency txn = Btc then memoSharingSatsThreshold cfg else memoSharingCentsThreshold cfg) (lt_credit txn))"

lemma memo_shown:
  assumes "translateMemo cfg ids txn = Some memo"
  shows "if lt_walletId txn \<in> Some ` (set ids - {[]}) then memo = ''JournalId:'' @ lt_journalId txn else memo_visible cfg txn memo"
  using assms
  by (auto simp: translateMemo_def memo_visible_def shouldDisplayMemo_def or_undefined_def str_truthy_def js_eq_def Let_def
      split: if_splits option.splits)

lemma js_sub_int: "safe_int (x - y) \<Longrightarrow> js_sub (Fin (of_int x)) (Fin (of_int y)) = Fin (of_int (x - y))"
  using js_add_int [of x "- y"] by (simp add: js_sub_def js_neg_def)

text \<open>C35: What a user sees of a transaction. A memo appears only to the payer, on a payment of at least the
  threshold of its currency, or when it is the name of a quiz; on the wallets of the bank the journal
  stands in its place, so a small payment carries no text to a stranger. The amount shown is what
  the wallet gained or lost, and the display amount belongs to it: amount and fee of a payment sent,
  the amount of one received, and the amount less the fee when the fee was kept back.\<close>

theorem shown_transaction:
  assumes shown: "translateLedgerTxnToWalletTxn fe cfg ids r i txn = Inr wt"
    and amounts: "sp_unit (lt_currency txn) (txn_amount txn) = Fin (of_int a)" "sp_unit (lt_currency txn) (txn_fee txn) = Fin (of_int f)"
      "sp_display (txn_amount txn) = Fin (of_int d)" "sp_display (txn_fee txn) = Fin (of_int df)"
    and range: "0 < a" "0 \<le> f" "a + f < 2 ^ 53" "0 \<le> d" "0 \<le> df" "d + df < 2 ^ 53"
    and booked: "lt_credit txn = Fin (of_int credit)" "lt_debit txn = Fin (of_int debit)"
    and e: "e = getCurrencyMajorExponent fe (displayCurrency_of txn)"
  shows "(\<forall>memo. wt_memo wt = Some memo \<longrightarrow>
      (if lt_walletId txn \<in> Some ` (set ids - {[]}) then memo = ''JournalId:'' @ lt_journalId txn else memo_visible cfg txn memo)) \<and>
    (credit = 0 \<and> debit = a + f \<longrightarrow> wt_settlementAmount wt = Fin (of_int (- (a + f))) \<and>
      wt_settlementDisplayAmount wt = displayMinorToMajor fe (- (if f = 0 then d else d + df)) e) \<and>
    (credit = a \<and> debit = 0 \<longrightarrow> wt_settlementAmount wt = Fin (of_int a) \<and>
      wt_settlementDisplayAmount wt = displayMinorToMajor fe d e) \<and>
    (credit = a - f \<and> debit = 0 \<and> 0 < f \<and> f < a \<and> 2 * f \<noteq> a \<longrightarrow> wt_settlementAmount wt = Fin (of_int (a - f)) \<and>
      wt_settlementDisplayAmount wt = displayMinorToMajor fe (d - df) e)"
proof -
  have wt: "wt_memo wt = translateMemo cfg ids txn"
    "wt_settlementAmount wt = js_sub (lt_credit txn) (lt_debit txn)"
    "wt_settlementDisplayAmount wt = display_or_zero fe (settlementDisplayMinor txn (wt_settlementAmount wt)) (displayCurrency_of txn)"
    using shown by (auto simp: translateLedgerTxnToWalletTxn_def SettlementAmounts_fromTxn_def rbind_def Let_def
        split: prod.splits sum.splits)
  have settled: "wt_settlementAmount wt = Fin (of_int t) \<and>
      wt_settlementDisplayAmount wt = displayMinorToMajor fe (settled_display a f d df t) e"
    if "credit - debit = t" "\<bar>t\<bar> \<le> a + f" for t
  proof -
    have "wt_settlementAmount wt = Fin (of_int t)"
      using wt(2) booked that range(3) js_sub_int [of credit debit] by (simp add: safe_int_def)
    then show ?thesis
      using wt(3) settlement_minor [OF amounts less_imp_le [OF range(1)] range(2-)] by (simp only: display_or_zero_int e)
  qed
  have "settled_display a f d df (- (a + f)) = - (if f = 0 then d else d + df)" "settled_display a f d df a = d"
    "0 < f \<and> f < a \<and> 2 * f \<noteq> a \<Longrightarrow> settled_display a f d df (a - f) = d - df"
    using range(1,2) by (simp_all add: settled_display_def)
  then have "credit = 0 \<and> debit = a + f \<Longrightarrow> wt_settlementAmount wt = Fin (of_int (- (a + f))) \<and>
      wt_settlementDisplayAmount wt = displayMinorToMajor fe (- (if f = 0 then d else d + df)) e"
    "credit = a \<and> debit = 0 \<Longrightarrow> wt_settlementAmount wt = Fin (of_int a) \<and> wt_settlementDisplayAmount wt = displayMinorToMajor fe d e"
    "credit = a - f \<and> debit = 0 \<and> 0 < f \<and> f < a \<and> 2 * f \<noteq> a \<Longrightarrow>
      wt_settlementAmount wt = Fin (of_int (a - f)) \<and> wt_settlementDisplayAmount wt = displayMinorToMajor fe (d - df) e"
    using settled [of "- (a + f)"] settled [of a] settled [of "a - f"] range(1,2) by auto
  then show ?thesis
    using memo_shown [of cfg ids txn] wt(1) by auto
qed

text \<open>A hundred satoshis with a greeting, to a wallet that shows memos from a thousand.\<close>

definition example_gift :: ledger_transaction where
  "example_gift = translateToLedgerTx ((example_tx 1)\<lparr> st_memoPayer := Some ''hello'', st_displayAmount := Some (Fin 100) \<rparr>)"

lemma example_gift_simps: "txn_amount example_gift = \<lparr> sp_sats = Fin 100, sp_cents = Fin 5, sp_display = Fin 100 \<rparr>"
  "txn_fee example_gift = \<lparr> sp_sats = Fin 0, sp_cents = Fin 0, sp_display = Fin 0 \<rparr>" "lt_currency example_gift = Btc"
  "lt_credit example_gift = Fin 100" "lt_debit example_gift = Fin 0" "lt_memoFromPayer example_gift = Some ''hello''"
  "lt_lnMemo example_gift = None" "displayCurrency_of example_gift = ''USD''" "lt_type example_gift = LT_IntraLedger"
  by (simp_all add: example_gift_def example_tx_def translateToLedgerTx_def txn_amount_def txn_fee_def num_or_def js_truthy_def
      displayCurrency_of_def str_truthy_def)

lemma example_gift_shown:
  "\<exists>wt. translateLedgerTxnToWalletTxn example_fiat (memoSharingConfig (Fin 1000) (Fin 50)) [] None None example_gift = Inr wt"
proof -
  have "round_double 1 = Fin 1" "round_double 1000000000000 = Fin 1000000000000"
    using round_double_int [of 1] round_double_int [of 1000000000000] by (simp_all add: safe_int_def)
  then have "displayCurrencyPerBaseUnitFromAmounts (Fin 100) ''USD'' (Fin 100) Btc =
      Inr \<lparr> dp_base = 1000000000000, dp_offset = 12, dp_displayCurrency = ''USD'', dp_walletCurrency = Btc \<rparr>"
    by (simp add: displayCurrencyPerBaseUnitFromAmounts_def priceAmountFromNumber_def js_eq_def js_div_def js_mul_def
        SAT_PRICE_PRECISION_OFFSET_def js_floor_def BigInt_num_def Let_def)
  then show ?thesis
    by (simp add: translateLedgerTxnToWalletTxn_def history_amounts_def is_admin_type_def example_gift_simps sp_unit_def Let_def)
qed

theorem shown_transaction_witness:
  "\<exists>wt. translateLedgerTxnToWalletTxn example_fiat (memoSharingConfig (Fin 1000) (Fin 50)) [] None None example_gift = Inr wt \<and>
     wt_memo wt = None \<and> wt_settlementAmount wt = Fin 100 \<and>
     wt_settlementDisplayAmount wt = displayMinorToMajor example_fiat 100 2"
proof -
  obtain wt where wt: "translateLedgerTxnToWalletTxn example_fiat (memoSharingConfig (Fin 1000) (Fin 50)) [] None None example_gift = Inr wt"
    using example_gift_shown by blast
  have "''hello'' \<notin> set orderedKeys"
    by code_simp
  then have hidden: "\<not> memo_visible (memoSharingConfig (Fin 1000) (Fin 50)) example_gift memo" for memo
    by (auto simp: memo_visible_def example_gift_simps memoSharingConfig_def js_le_def js_lt_def js_eq_def)
  have "wt_memo wt = Some memo \<longrightarrow> memo_visible (memoSharingConfig (Fin 1000) (Fin 50)) example_gift memo"
    "wt_settlementAmount wt = Fin 100 \<and> wt_settlementDisplayAmount wt = displayMinorToMajor example_fiat 100 2" for memo
    using shown_transaction [OF wt, of 100 0 100 0 100 0 2]
    by (simp_all add: example_gift_simps sp_unit_def getCurrencyMajorExponent_def example_fiat_def)
  then show ?thesis
    using wt hidden by (metis not_Some_eq)
qed

end
