(* ===== verification/Spec2Isabelle.thy ===== *)
theory Spec2Isabelle
  imports Send_Onchain_Invariant Payment_Memos Account_Limits Settings_Service Notification_Jobs
    Job_Executor Public_Api Tx_History
begin

text \<open>
  Verification development of Galoy, a bitcoin bank: the payment core of the backend in
  \<open>src/core/api\<close> (TypeScript; paths without \<open>src/\<close> below are relative to \<open>src/core/api/src\<close>),
  the notification service in \<open>src/core/notifications\<close> and the service of API keys in
  \<open>src/core/api-keys\<close> (Rust).

  \<^bold>\<open>The program.\<close> A user has a bitcoin wallet and a dollar wallet. A payment goes through
  three layers. The domain layer (\<open>domain/payments\<close>, \<open>domain/wallets\<close>, \<open>domain/accounts\<close>)
  turns the request into a payment flow: amounts in both currencies at one price, fees, sender
  and recipient, and the way it settles (inside the ledger, over lightning, or on chain). The
  ledger (\<open>services/ledger\<close>) books the flow as a double entry journal with the bank, the dealer
  and the node's accounts on the other side, and reverts, settles and classifies it later. The
  use cases (\<open>app\<close>) check limits and call the two with the node and the database in between.

  The notification service keeps the settings of each user and a history of notifications, both
  as entities that are lists of numbered events (\<open>src/lib/es-entity-rs\<close>). An event of the backend
  is recorded and turned into jobs in one database transaction; the jobs push and mail. A job
  waits in a queue of the database until a runner takes it and hands it to the executor
  (\<open>src/lib/job-executor-rs\<close>), which counts the attempts and retries.

  The service of API keys creates, lists and revokes the keys of a user, and tells the gateway
  who a key belongs to and what it may be used for. The gateway writes that into the token of the
  request; the public API of the backend makes a context of the token and checks account, wallet
  and scopes before a field is resolved. One of its fields claims the reward for a quiz, which
  the bank pays from a wallet of its own.

  \<^bold>\<open>Conventions.\<close> A function that returns a value or an error object returns \<open>error + 'a\<close>;
  \<open>Domain_Errors\<close> has one constructor per error class. An optional field is an \<open>option\<close>, and the
  truthiness of \<open>||\<close> and \<open>!\<close> is written out. \<open>bigint\<close> is \<open>int\<close> with truncating division,
  \<open>number\<close> is \<open>jsnum\<close>: the exact value rounded to double precision, with the infinities and NaN.
  The network, the database, the price feed, the medici book and the configuration are arguments.
  Tracing is left out.

  \<^bold>\<open>Theories.\<close>
  \<^item> \<open>Galoy_Prelude\<close>: results, truthiness, \<open>bigint\<close> division, the generic builder machine
    (locale \<open>builder_machine\<close>). \<open>Js_Number\<close>: numbers, with exactness below \<open>2^53\<close>.
  \<^item> \<open>Amounts\<close> (\<open>domain/shared\<close>): amounts, the calculator and its roundings, checked client
    amounts (locale \<open>checked_amount\<close>, both currencies).
  \<^item> \<open>Price_Ratio\<close> (\<open>domain/payments/price-ratio.ts\<close>): conversions between satoshis and cents
    (locales \<open>rounded_conversion\<close>, \<open>price_conversion\<close>): the roundings against the exact quotient,
    monotonicity, round trips.
  \<^item> \<open>Fees\<close>: fee caps, withdrawal and deposit fees, the swap-out imbalance, reimbursements.
  \<^item> \<open>Payment_Flow\<close> (\<open>payment-flow.ts\<close>): the flow values, the balance check, the hashes.
  \<^item> \<open>Lightning_Flow\<close>, \<open>Lightning_Invariant\<close> (\<open>payment-flow-builder.ts\<close>) and \<open>Onchain_Flow\<close>,
    \<open>Onchain_Invariant\<close> (\<open>onchain-payment-flow-builder.ts\<close>): the staged builders as records that
    extend each other, their step relations, and the invariant of every flow that comes out.
  \<^item> \<open>Ledger_Entry\<close> (\<open>services/ledger/domain\<close>): the entry builders; every entry balances.
    \<open>Ledger_Metadata\<close> (\<open>facade/tx-metadata.ts\<close>): the metadata of each side of a transaction (locale
    \<open>private_memo\<close>). \<open>Ledger_Types\<close>: stored transactions and wallet paths.
  \<^item> \<open>Ln_Payment_State\<close> (\<open>domain/ledger/ln-payment-state.ts\<close>): the state of a lightning payment,
    read from its transactions, against a specification by histories of attempts.
  \<^item> \<open>Ledger_Books\<close>, \<open>Ledger_Facade\<close> (\<open>services/ledger/facade\<close>, \<open>caching.ts\<close>, \<open>helpers.ts\<close>,
    \<open>send.ts\<close>, \<open>admin.ts\<close>, \<open>admin-legacy.ts\<close>): every operation that writes the book, as a state
    transformer over the database and the id caches. \<open>Ledger_Invariant\<close>: the contract of the
    recording operations (locale \<open>entry_recorder\<close>), the step relation \<open>ledger_step\<close>, and the
    theorem that the books stay balanced.
  \<^item> \<open>Account_Limits\<close> (\<open>facade/volume.ts\<close>, \<open>limits-volume.ts\<close>, \<open>limits-checker.ts\<close>,
    \<open>app/accounts/account-limit.ts\<close>): the daily limits (locale \<open>volume_limit\<close>), with the stages of
    the aggregation that finds the volumes.
  \<^item> \<open>Fiat_Display\<close> (\<open>domain/fiat\<close>): display amounts and the converter. \<open>Prices\<close>
    (\<open>services/price\<close>, \<open>app/prices\<close>): real-time, cached and mid prices.
  \<^item> \<open>Ledger_Service\<close> (\<open>services/ledger/index.ts\<close>): the queries the use cases make.
  \<^item> \<open>Ledger_Balances\<close>: the abstract view of the book, the balance of every account; recording
    implements a transfer (locale \<open>transfer_recorder\<close>, interpreted on the six recording
    operations). \<open>Ledger_Hoare\<close>: triples over the journals, with the bank's own wallets as an
    invariant. \<open>Payment_Spec\<close>: what paying, receiving and refunding mean on balances.
  \<^item> \<open>App_Services\<close>: the services of the use cases, as fields of the environment, and the
    combinators for calls that return errors or throw. \<open>Send_Lightning\<close>, \<open>Send_Intraledger\<close>,
    \<open>Send_Onchain\<close>, \<open>Pending_Payments\<close> (\<open>app/payments\<close>): the steps of a payment under the wallet
    lock, and the settlement of payments left pending. \<open>Wallet_Invoices\<close>
    (\<open>domain/wallet-invoices\<close>, \<open>domain/wallet-on-chain\<close>) and \<open>Receive\<close> (\<open>app/wallets\<close>): invoices,
    their processing, and deposits.
  \<^item> \<open>Send_Invariant\<close>, \<open>Send_Onchain_Invariant\<close>: the outcomes of the payment use cases on the
    accounts, as refinements of \<open>Payment_Spec\<close>: booking by triples, and the steps after it one by
    one, so that a payment stays booked after an error only when a named later step failed.
    \<open>Example_Bank\<close>: a concrete bank in which the use cases run, used by the witnesses.
  \<^item> \<open>Payment_Memos\<close>: the lines a payment inside the bank stores, with their metadata; who can read
    the memo and the names of a payment (locales \<open>local_payment\<close> and \<open>private_payment\<close>, interpreted
    on the three use cases).

  \<^item> \<open>Rust_Base\<close>: fallible operations on a state, and the database as the services see it:
    statements that may fail, transactions that are undone on an error, a clock per transaction,
    a read replica that may lag, and fresh ids. \<open>Entity_Events\<close> (\<open>src/lib/es-entity-rs\<close>): saving and
    rebuilding event-sourced entities, with the constraints of the event tables.
  \<^item> \<open>Notification_Settings\<close> (\<open>user_notification_settings\<close>), \<open>Email_Reminders\<close>
    (\<open>email_reminder_projection\<close>) and \<open>Settings_Service\<close> (the handlers of \<open>app/mod.rs\<close>): the service
    is equivalent to a map from users to plain settings, and overlapping changes are refused.
  \<^item> \<open>Notification_Events\<close> (\<open>notification_event\<close>, \<open>messages\<close>): the notifications and their texts.
    \<open>Notification_History\<close> (\<open>history\<close>): stored notifications and their pages.
    \<open>Notification_Jobs\<close> (\<open>job\<close>, \<open>push_executor\<close>, \<open>email_executor\<close>,
    \<open>notification_cool_off_tracker\<close>, \<open>app/mod.rs\<close>): from events to jobs to messages; a notification
    of all users reaches each of them once, and price notifications keep their distance.
  \<^item> \<open>Job_Executor\<close> (the queue functions of \<open>src/core/notifications/migrations\<close> and
    \<open>src/lib/job-executor-rs\<close>): queueing, polling, checkpointing and deleting a job and the executor
    of an attempt; a job is called at most \<open>max_attempts\<close> times, and leaves the queue.
  \<^item> \<open>Api_Keys\<close> (\<open>src/core/api-keys\<close>): scopes, creation, check, list and revocation of keys, the
    GraphQL handlers on top of them, and the decoding of session tokens; a key opens the door for
    its owner until it expires or its owner revokes it, whatever other requests do.
  \<^item> \<open>Domain_Checks\<close> (\<open>domain/shared/validation.ts\<close>, \<open>domain/accounts\<close>, \<open>domain/users\<close>,
    \<open>domain/wallets\<close>): the checks of client strings and numbers, and the validation of a payment
    request. \<open>Public_Api\<close> (\<open>servers/middlewares\<close>, \<open>servers/graphql-public-api-server.ts\<close>,
    \<open>domain/authorization\<close>, \<open>dev/config/ory/oathkeeper_rules.yaml\<close>): the context of a request and
    the layers in front of a resolver. What an accepted key may then be used for spans
    \<open>Api_Keys\<close> and \<open>Public_Api\<close> and is proved below.
  \<^item> \<open>Quiz\<close> (\<open>domain/quiz\<close>, \<open>app/quiz\<close>, \<open>services/mongoose/quiz.ts\<close>): the quizzes, the checks of a
    claim and its payment. A claim is a check and a reward; the step relation \<open>quiz_reachable\<close>
    interleaves those of all users, and no interleaving pays for a quiz twice.
  \<^item> \<open>Tx_History\<close> (\<open>domain/wallets/tx-history.ts\<close>, \<open>settlement-amounts.ts\<close>,
    \<open>services/ledger/paginated-ledger.ts\<close>, \<open>app/wallets/get-transaction*.ts\<close>): what a user sees of a
    transaction, and the pages of a history; following the cursors shows each transaction once.

  \<^bold>\<open>What is relied on.\<close> \<open>medici_laws\<close> and \<open>books_laws\<close> state the documented behaviour of the
  medici book: an entry collects its lines in order, commit records all or none of them, void
  records the reversed lines, and metadata updates change no amounts; \<open>fresh_ids\<close> that journal
  ids are new and \<open>balance_law\<close> that a balance is the sum over the account's lines.
  \<open>app_laws\<close> adds that the other services write no journals, and \<open>documents_laws\<close> that a commit
  stores the lines of the entry with their metadata and nothing else writes such documents. \<open>conversion_args_ok\<close> and
  \<open>opfb_env_ok\<close> say that prices are positive, \<open>node_fees_ok\<close> and \<open>payouts_ok\<close> that reported fees
  are not negative. \<open>serde_ok\<close> says that reading a stored event gives the event, and \<open>faultless\<close>
  that the connection to the database holds. \<open>crypto_ok\<close> says that the hashes of keys do not
  collide, \<open>job_codec_ok\<close> that a job reads the payload it wrote, and \<open>job_ok\<close> and \<open>others_ok\<close> that
  neither a job nor anything beside it changes the queue rows of the job; a round of a runner,
  from the poll to the result, is one step, so that two executions of one job do not overlap. \<open>documents_ok\<close> and
  \<open>account_filter_ok\<close> say that stored transactions have different ids that read back, and that the
  account filter of medici finds the transactions of the accounts. Each is witnessed by a
  concrete instance.

  \<^bold>\<open>Bounds.\<close> Amounts are unbounded integers as in the code; where they become \<open>number\<close>s in the
  ledger the theorems ask for totals below \<open>2^53\<close>, the range in which that is exact. Event
  numbers are 32 bits wide, and the theorems on the notification service ask for fewer than
  \<open>2^31\<close> events of an entity. Recursion is structural but for \<open>run_dispatches\<close>, which works
  through a job queue with fuel; one unit per thousand users and one more is proved enough. The
  rounds of a job runner are a list, of any length in the bound on the attempts and of at least
  \<open>max_attempts\<close> rounds where the job is shown to leave the queue. The clock read while a quiz
  claim is checked does not go back, and the check takes less than the twelve hours between
  sections.

  \<^bold>\<open>Not modelled.\<close> The parts of the use cases before the lock (input validation, contacts,
  the construction of the builder from a request) and their notifications, creating invoices and
  addresses through repositories, lists of invoices, the use cases of accounts, users and
  authentication, the GraphQL resolvers, the admin API, the node and database clients, the endpoints of the notification service and
  its clients of the push and mail servers, the command lines and configuration of the Rust
  services, and the web apps.
\<close>

text \<open>C32: What an API key may be used for. A key that is accepted lets a request to the public API
  through to a field exactly as far as the key's scopes and its owner's account allow: payments and
  changes of the account only with \<open>Write\<close>, receiving with \<open>Receive\<close> or \<open>Write\<close>, the owner's data with
  \<open>Read\<close>; payments, receiving and fee estimates only on wallets of the owner; changes only while the
  account is active. In particular no key is taken for a session without limits.\<close>

theorem api_key_authorization:
  fixes env :: "'u gql_env" and r :: 'r
  assumes "crypto_ok cr"
    and "create_api_key_for_subject cr utc s name days scopes db = (Inr (key, secret), db1)"
    and "distinct (map id_id (identities (primary db)))"
    and "\<forall>n \<ge> drawn db. \<forall>k \<in> set (identity_api_keys (primary db)). \<not> opens cr (sample_string cr n) k"
    and "api_run cr requests db1 = (outs, db2)"
    and check: "fst (check_handler cr (KeyHeader secret) (db2\<lparr> tx_now := t, faults := [] \<rparr>)) = Inr resp"
    and ctx: "ctx = sessionPublicContext env (id_token_claims resp)"
  shows "(\<forall>f \<in> set mutation_send_fields. public_field env Mutation f arg ctx (Inr r) = Inr r \<longleftrightarrow>
      Write \<in> set scopes \<and>
      (\<exists>a. account_of env s = Some a \<and> ga_status a = AS_Active \<and> wallet_of env arg = Some (ga_id a))) \<and>
    (\<forall>f \<in> set mutation_receive_fields. public_field env Mutation f arg ctx (Inr r) = Inr r \<longleftrightarrow>
      (Receive \<in> set scopes \<or> Write \<in> set scopes) \<and>
      (\<exists>a. account_of env s = Some a \<and> ga_status a = AS_Active \<and> wallet_of env arg = Some (ga_id a))) \<and>
    (\<forall>f \<in> set mutation_account_fields. public_field env Mutation f arg ctx (Inr r) = Inr r \<longleftrightarrow>
      Write \<in> set scopes \<and> (\<exists>a. account_of env s = Some a \<and> ga_status a = AS_Active)) \<and>
    (\<forall>f \<in> set query_wallet_fields. public_field env Query f arg ctx (Inr r) = Inr r \<longleftrightarrow>
      Read \<in> set scopes \<and> (\<exists>a. account_of env s = Some a \<and> wallet_of env arg = Some (ga_id a))) \<and>
    (\<forall>f \<in> set query_account_fields. public_field env Query f arg ctx (Inr r) = Inr r \<longleftrightarrow>
      Read \<in> set scopes \<and> account_of env s \<noteq> None)"
proof -
  note checked = created_key_checked [OF assms(1-5)]
  have resp: "resp = \<lparr> check_sub = s, check_scope = str_join '' '' (map Scope_to_string scopes) \<rparr>"
    using check checked(2) [of t] by (simp split: if_splits)
  note fields = key_fields [OF checked(1) key_context [OF checked(1) resp ctx], of _ arg r r]
  show ?thesis
    using fields by simp
qed

text \<open>A bank with one user, whose key may read and receive.\<close>

definition example_user :: string where
  "example_user = ''00000000-0000-1000-8000-000000000000''"

definition example_env :: "unit gql_env" where
  "example_env =
     \<lparr> ge_getAccountFromUserId =
         (\<lambda>u. if u = example_user then Inr \<lparr> ga_id = ''account'', ga_status = AS_Active, ga_kratosUserId = u \<rparr>
              else Inl (ServiceError ''CouldNotFindAccountFromKratosIdError'')),
       ge_users_findById = (\<lambda>_. Inr ()),
       ge_wallets_findById = (\<lambda>w. Inr \<lparr> wallet_id = w, wallet_currency = Btc, wallet_accountId = ''account'' \<rparr>) \<rparr>"

theorem api_key_authorization_witness:
  "\<exists>resp. let ctx = sessionPublicContext example_env (id_token_claims resp) in
     public_field example_env Mutation ''lnInvoiceCreate'' (WalletIdArg ''w'') ctx (Inr ()) = Inr () \<and>
     public_field example_env Mutation ''lnInvoicePaymentSend'' (WalletIdArg ''w'') ctx (Inr ()) \<noteq> Inr ()"
proof -
  obtain key db1 where created:
    "create_api_key_for_subject example_crypto 0 example_user ''phone'' (Some 30) [Read, Receive] no_keys =
      (Inr (key, ''dev_k''), db1)" "ak_expires_at key = Some 2592000000000"
    using example_created by blast
  have ok: "crypto_ok example_crypto"
    by (auto simp: crypto_ok_def example_crypto_def)
  have empty: "distinct (map id_id (identities (primary no_keys)))" "\<forall>n \<ge> drawn no_keys.
      \<forall>k \<in> set (identity_api_keys (primary no_keys)). \<not> opens example_crypto (sample_string example_crypto n) k"
    by (simp_all add: no_keys_def)
  have run: "api_run example_crypto [] db1 = ([], db1)"
    by simp
  obtain resp where "fst (check_handler example_crypto (KeyHeader ''dev_k'') (db1\<lparr> tx_now := 7, faults := [] \<rparr>)) = Inr resp"
    using created_key_checked(2) [OF ok created(1) empty run, of 7] created(2) by simp
  note auth = api_key_authorization [OF ok created(1) empty run this refl, of example_env "WalletIdArg ''w''" "()"]
  have "matches UuidRegex example_user"
    by code_simp
  then have "account_of example_env example_user = Some \<lparr> ga_id = ''account'', ga_status = AS_Active, ga_kratosUserId = example_user \<rparr>"
    by (simp add: account_of_def example_env_def)
  moreover have "wallet_of example_env (WalletIdArg ''w'') = Some ''account''"
    by (simp add: wallet_of_def example_env_def)
  moreover have "''lnInvoiceCreate'' \<in> set mutation_receive_fields" "''lnInvoicePaymentSend'' \<in> set mutation_send_fields"
    by (simp_all add: mutation_receive_fields_def mutation_send_fields_def)
  ultimately show ?thesis
    using auth by (intro exI [of _ resp]) (auto simp: Let_def)
qed

end
